(* ===== verification/Prelude.thy ===== *)
theory Prelude
  imports Main "HOL-Library.AList" "HOL-Library.Sublist" "HOL-Library.Char_ord"
    "HOL-Library.List_Lexorder"
begin

text \<open>
  Shared vocabulary of the development: Python exceptions as values (\<open>pyexn\<close>, the result type
  \<open>'a res\<close> and its bind), Python strings (lists of characters, read as the code points 0 to 255)
  with the methods the sources call on them, JSON values (what \<open>json.loads\<close> returns: plans,
  LLM replies, decision payloads) with \<open>str\<close>, \<open>repr\<close>, truth value and dictionary access, and
  the generic lemmas the component theories share.
\<close>

section \<open>Collections of rules\<close>

named_theorems res_simps \<open>unfolding the result type\<close>
named_theorems py_simps \<open>Python string and JSON access\<close>

section \<open>Results: exceptions as values\<close>

datatype pyexn =
    TypeError
  | AttributeError
  | KeyError
  | IndexError
  | OSError
  | ValueError string
  | RuntimeError string
  | PlanPatchError string
  | HTTPError nat string
  | RunCancelled
  | CancelNotAllowed

type_synonym 'a res = "pyexn + 'a"

definition bindR :: "'a res \<Rightarrow> ('a \<Rightarrow> 'b res) \<Rightarrow> 'b res" where
  "bindR m f = (case m of Inl e \<Rightarrow> Inl e | Inr x \<Rightarrow> f x)"

lemma bindR_Inl [simp, res_simps]: "bindR (Inl e) f = Inl e"
  by (simp add: bindR_def)

lemma bindR_Inr [simp, res_simps]: "bindR (Inr x) f = f x"
  by (simp add: bindR_def)

lemma bindR_eq_Inr [res_simps]: "bindR m f = Inr y \<longleftrightarrow> (\<exists>x. m = Inr x \<and> f x = Inr y)"
  by (cases m) auto

lemma bindR_eq_InrE [elim!]:
  assumes "bindR m f = Inr y"
  obtains x where "m = Inr x" "f x = Inr y"
  using assms by (cases m) auto

lemma bindR_cong [fundef_cong]:
  "m = m' \<Longrightarrow> (\<And>x. m' = Inr x \<Longrightarrow> f x = g x) \<Longrightarrow> bindR m f = bindR m' g"
  by (cases m') auto

text \<open>\<open>guardR b e\<close> is \<open>if not b: raise e\<close>.\<close>

definition guardR :: "bool \<Rightarrow> pyexn \<Rightarrow> unit res" where
  "guardR b e = (if b then Inr () else Inl e)"

lemma guardR_eq_Inr [simp]: "guardR b e = Inr u \<longleftrightarrow> b"
  by (simp add: guardR_def)

lemma guardR_simps [simp]: "guardR True e = Inr ()" "guardR False e = Inl e"
  by (simp_all add: guardR_def)

fun mapR :: "('a \<Rightarrow> 'b res) \<Rightarrow> 'a list \<Rightarrow> 'b list res" where
  "mapR f [] = Inr []"
| "mapR f (x # xs) = bindR (f x) (\<lambda>y. bindR (mapR f xs) (\<lambda>ys. Inr (y # ys)))"

fun foldR :: "('s \<Rightarrow> 'a \<Rightarrow> 's res) \<Rightarrow> 's \<Rightarrow> 'a list \<Rightarrow> 's res" where
  "foldR f s [] = Inr s"
| "foldR f s (x # xs) = bindR (f s x) (\<lambda>s'. foldR f s' xs)"

text \<open>A comprehension with a condition, \<open>any\<close> and a search, each over a test that may raise.\<close>

fun filterR :: "('a \<Rightarrow> bool res) \<Rightarrow> 'a list \<Rightarrow> 'a list res" where
  "filterR f [] = Inr []"
| "filterR f (x # xs) = bindR (f x) (\<lambda>b. bindR (filterR f xs) (\<lambda>ys. Inr (if b then x # ys else ys)))"

fun anyR :: "('a \<Rightarrow> bool res) \<Rightarrow> 'a list \<Rightarrow> bool res" where
  "anyR f [] = Inr False"
| "anyR f (x # xs) = bindR (f x) (\<lambda>b. if b then Inr True else anyR f xs)"

lemma filterR_set: "filterR f xs = Inr ys \<Longrightarrow> set ys = {x \<in> set xs. f x = Inr True}"
  by (induction xs arbitrary: ys) (auto split: if_splits)

lemma filterR_total: "filterR f xs = Inr ys \<Longrightarrow> x \<in> set xs \<Longrightarrow> \<exists>b. f x = Inr b"
  by (induction xs arbitrary: ys) auto

lemma anyR_False: "anyR f xs = Inr False \<Longrightarrow> x \<in> set xs \<Longrightarrow> f x = Inr False"
  by (induction xs) (auto split: if_splits)

lemma mapR_length: "mapR f xs = Inr ys \<Longrightarrow> length ys = length xs"
  by (induction xs arbitrary: ys) auto

lemma mapR_Inr_map: "(\<And>x. x \<in> set xs \<Longrightarrow> f x = Inr (g x)) \<Longrightarrow> mapR f xs = Inr (map g xs)"
  by (induction xs) auto

text \<open>An invariant of a loop body that may raise is an invariant of the loop.\<close>

lemma foldR_invariant:
  assumes "foldR f s xs = Inr s'" and "P s"
    and "\<And>s x s'. P s \<Longrightarrow> x \<in> set xs \<Longrightarrow> f s x = Inr s' \<Longrightarrow> P s'"
  shows "P s'"
  using assms
proof (induction xs arbitrary: s)
  case Nil
  then show ?case by simp
next
  case (Cons x xs)
  from Cons.prems(1) obtain s1 where s1: "f s x = Inr s1" and rest: "foldR f s1 xs = Inr s'"
    by auto
  have "P s1" using Cons.prems(2,3) s1 by (metis list.set_intros(1))
  show ?case
  proof (rule Cons.IH [OF rest \<open>P s1\<close>])
    fix t x' t' assume "P t" "x' \<in> set xs" "f t x' = Inr t'"
    then show "P t'" using Cons.prems(3) by (metis list.set_intros(2))
  qed
qed

section \<open>Python strings\<close>

text \<open>Newline, backslash and single quote, which string literals cannot hold.\<close>

abbreviation nl :: char where "nl \<equiv> CHR 0x0A"
abbreviation bslash :: char where "bslash \<equiv> CHR 0x5C"
abbreviation squote :: char where "squote \<equiv> CHR 0x27"
abbreviation dquote :: char where "dquote \<equiv> CHR 0x22"

text \<open>\<open>'...'\<close> in a formatted message.\<close>

definition quoted :: "string \<Rightarrow> string" where
  "quoted s = squote # s @ [squote]"

definition ord :: "char \<Rightarrow> nat" where
  "ord c = of_char c"

definition is_space :: "char \<Rightarrow> bool" where
  "is_space c = (let n = ord c in
     (9 \<le> n \<and> n \<le> 13) \<or> (28 \<le> n \<and> n \<le> 32) \<or> n = 133 \<or> n = 160)"

definition is_digit :: "char \<Rightarrow> bool" where
  "is_digit c = (let n = ord c in 48 \<le> n \<and> n \<le> 57)"

definition is_word :: "char \<Rightarrow> bool" where
  "is_word c = (let n = ord c in
     (48 \<le> n \<and> n \<le> 57) \<or> (65 \<le> n \<and> n \<le> 90) \<or> n = 95 \<or> (97 \<le> n \<and> n \<le> 122) \<or>
     n = 170 \<or> n = 178 \<or> n = 179 \<or> n = 181 \<or> n = 185 \<or> n = 186 \<or>
     (188 \<le> n \<and> n \<le> 190) \<or> (192 \<le> n \<and> n \<le> 214) \<or> (216 \<le> n \<and> n \<le> 246) \<or> 248 \<le> n)"

definition lower_char :: "char \<Rightarrow> char" where
  "lower_char c = (let n = ord c in
     if (65 \<le> n \<and> n \<le> 90) \<or> (192 \<le> n \<and> n \<le> 222 \<and> n \<noteq> 215) then char_of (n + 32) else c)"

text \<open>
  \<open>str.upper\<close>. Three code points have an upper-case form outside 0 to 255 (micro sign, sharp s,
  y with diaeresis); they are left alone, which no comparison of the sources can see: upper-cased
  text is compared only with ASCII words and prefixes.
\<close>

definition upper_char :: "char \<Rightarrow> char" where
  "upper_char c = (let n = ord c in
     if (97 \<le> n \<and> n \<le> 122) \<or> (224 \<le> n \<and> n \<le> 254 \<and> n \<noteq> 247) then char_of (n - 32) else c)"

text \<open>
  The same tests on the bits of an ASCII character: code equations that evaluate quickly, so that
  concrete scripts and plans can be run through the models.
\<close>

definition ascii_letter_bits :: "bool \<Rightarrow> bool \<Rightarrow> bool \<Rightarrow> bool \<Rightarrow> bool \<Rightarrow> bool" where
  "ascii_letter_bits b0 b1 b2 b3 b4 =
     ((b0 \<or> b1 \<or> b2 \<or> b3 \<or> b4) \<and> \<not> (b4 \<and> b3 \<and> (b2 \<or> (b1 \<and> b0))))"

definition lower_latin :: "char \<Rightarrow> char" where
  "lower_latin c =
     (let n = ord c in if (192 \<le> n \<and> n \<le> 222 \<and> n \<noteq> 215) then char_of (n + 32) else c)"

definition upper_latin :: "char \<Rightarrow> char" where
  "upper_latin c =
     (let n = ord c in if (224 \<le> n \<and> n \<le> 254 \<and> n \<noteq> 247) then char_of (n - 32) else c)"

definition is_space_latin :: "char \<Rightarrow> bool" where
  "is_space_latin c = (let n = ord c in n = 133 \<or> n = 160)"

definition is_word_latin :: "char \<Rightarrow> bool" where
  "is_word_latin c = (let n = ord c in
     n = 170 \<or> n = 178 \<or> n = 179 \<or> n = 181 \<or> n = 185 \<or> n = 186 \<or>
     (188 \<le> n \<and> n \<le> 190) \<or> (192 \<le> n \<and> n \<le> 214) \<or> (216 \<le> n \<and> n \<le> 246) \<or> 248 \<le> n)"

lemma lower_char_code [code]:
  "lower_char (Char b0 b1 b2 b3 b4 b5 b6 b7) =
     (if b7 then lower_latin (Char b0 b1 b2 b3 b4 b5 b6 b7)
      else if b6 \<and> \<not> b5 \<and> ascii_letter_bits b0 b1 b2 b3 b4 then Char b0 b1 b2 b3 b4 True b6 b7
      else Char b0 b1 b2 b3 b4 b5 b6 b7)"
  by (cases b7; cases b6; cases b5; cases b4; cases b3; cases b2; cases b1; cases b0)
     (simp_all add: lower_latin_def lower_char_def ord_def ascii_letter_bits_def of_char_def char_of_def bit_Suc_0_iff)

lemma upper_char_code [code]:
  "upper_char (Char b0 b1 b2 b3 b4 b5 b6 b7) =
     (if b7 then upper_latin (Char b0 b1 b2 b3 b4 b5 b6 b7)
      else if b6 \<and> b5 \<and> ascii_letter_bits b0 b1 b2 b3 b4 then Char b0 b1 b2 b3 b4 False b6 b7
      else Char b0 b1 b2 b3 b4 b5 b6 b7)"
  by (cases b7; cases b6; cases b5; cases b4; cases b3; cases b2; cases b1; cases b0)
     (simp_all add: upper_latin_def upper_char_def ord_def ascii_letter_bits_def of_char_def char_of_def bit_Suc_0_iff)

lemma is_space_code [code]:
  "is_space (Char b0 b1 b2 b3 b4 b5 b6 b7) =
     (if b7 then is_space_latin (Char b0 b1 b2 b3 b4 b5 b6 b7)
      else \<not> b6 \<and> (if b5 then \<not> b4 \<and> \<not> b3 \<and> \<not> b2 \<and> \<not> b1 \<and> \<not> b0
           else if b4 then b3 \<and> b2 else b3 \<and> (if b2 then \<not> b1 else b1 \<or> b0)))"
  by (cases b7; cases b6; cases b5; cases b4; cases b3; cases b2; cases b1; cases b0)
     (simp_all add: is_space_latin_def is_space_def ord_def of_char_def)

lemma is_word_code [code]:
  "is_word (Char b0 b1 b2 b3 b4 b5 b6 b7) =
     (if b7 then is_word_latin (Char b0 b1 b2 b3 b4 b5 b6 b7)
      else if b6 then ascii_letter_bits b0 b1 b2 b3 b4 \<or> (b0 \<and> b1 \<and> b2 \<and> b3 \<and> b4 \<and> \<not> b5)
      else b5 \<and> b4 \<and> \<not> (b3 \<and> (b2 \<or> b1)))"
  by (cases b7; cases b6; cases b5; cases b4; cases b3; cases b2; cases b1; cases b0)
     (simp_all add: is_word_latin_def is_word_def ord_def ascii_letter_bits_def of_char_def)

definition py_lower :: "string \<Rightarrow> string" where
  "py_lower = map lower_char"

definition py_upper :: "string \<Rightarrow> string" where
  "py_upper = map upper_char"

definition py_lstrip :: "string \<Rightarrow> string" where
  "py_lstrip = dropWhile is_space"

definition py_strip :: "string \<Rightarrow> string" where
  "py_strip s = rev (dropWhile is_space (rev (dropWhile is_space s)))"

fun starts_with :: "string \<Rightarrow> string \<Rightarrow> bool" where
  "starts_with [] s = True"
| "starts_with (p # ps) [] = False"
| "starts_with (p # ps) (c # cs) = (p = c \<and> starts_with ps cs)"

definition ends_with :: "string \<Rightarrow> string \<Rightarrow> bool" where
  "ends_with p s = starts_with (rev p) (rev s)"

text \<open>\<open>p in s\<close> on strings.\<close>

fun contains :: "string \<Rightarrow> string \<Rightarrow> bool" where
  "contains p [] = (p = [])"
| "contains p (c # cs) = (starts_with p (c # cs) \<or> contains p cs)"

text \<open>\<open>s.replace(p, q)\<close> for a non-empty \<open>p\<close>; the fuel is the length of the text.\<close>

fun replace_fuel :: "nat \<Rightarrow> string \<Rightarrow> string \<Rightarrow> string \<Rightarrow> string" where
  "replace_fuel 0 p q s = s"
| "replace_fuel (Suc n) p q [] = []"
| "replace_fuel (Suc n) p q (c # cs) =
     (if starts_with p (c # cs) then q @ replace_fuel n p q (drop (length p) (c # cs))
      else c # replace_fuel n p q cs)"

definition py_replace :: "string \<Rightarrow> string \<Rightarrow> string \<Rightarrow> string" where
  "py_replace p q s = replace_fuel (Suc (length s)) p q s"

fun py_join :: "string \<Rightarrow> string list \<Rightarrow> string" where
  "py_join sep [] = []"
| "py_join sep [x] = x"
| "py_join sep (x # y # zs) = x @ sep @ py_join sep (y # zs)"

text \<open>\<open>s.split()\<close>: the maximal runs of non-space characters.\<close>

fun split_ws_aux :: "string \<Rightarrow> string \<Rightarrow> string list" where
  "split_ws_aux acc [] = (if acc = [] then [] else [rev acc])"
| "split_ws_aux acc (c # cs) =
     (if is_space c then (if acc = [] then split_ws_aux [] cs else rev acc # split_ws_aux [] cs)
      else split_ws_aux (c # acc) cs)"

definition split_ws :: "string \<Rightarrow> string list" where
  "split_ws = split_ws_aux []"

text \<open>\<open>s.split(sep)\<close> for a one-character separator.\<close>

fun split_on :: "char \<Rightarrow> string \<Rightarrow> string list" where
  "split_on d [] = [[]]"
| "split_on d (c # cs) =
     (if c = d then [] # split_on d cs
      else case split_on d cs of [] \<Rightarrow> [[c]] | p # ps \<Rightarrow> (c # p) # ps)"

text \<open>\<open>str.splitlines(keepends=True)\<close>.\<close>

definition line_break :: "char \<Rightarrow> bool" where
  "line_break c = (let n = ord c in (10 \<le> n \<and> n \<le> 13) \<or> (28 \<le> n \<and> n \<le> 30) \<or> n = 133)"

fun lines_keep :: "string \<Rightarrow> string \<Rightarrow> string list" where
  "lines_keep acc [] = (if acc = [] then [] else [rev acc])"
| "lines_keep acc [c] = [rev (c # acc)]"
| "lines_keep acc (c # d # cs) =
     (if c = CHR 0x0D \<and> d = nl then rev (d # c # acc) # lines_keep [] cs
      else if line_break c then rev (c # acc) # lines_keep [] (d # cs)
      else lines_keep (c # acc) (d # cs))"

definition split_lines :: "string \<Rightarrow> string list" where
  "split_lines = lines_keep []"

text \<open>\<open>str.splitlines()\<close>, and \<open>s[-n:]\<close> for a positive \<open>n\<close>.\<close>

definition chomp :: "string \<Rightarrow> string" where
  "chomp l =
     (if ends_with [CHR 0x0D, nl] l then take (length l - 2) l
      else if l \<noteq> [] \<and> line_break (last l) then butlast l else l)"

definition line_list :: "string \<Rightarrow> string list" where
  "line_list s = map chomp (split_lines s)"

definition last_n :: "nat \<Rightarrow> 'a list \<Rightarrow> 'a list" where
  "last_n n xs = drop (length xs - n) xs"

lemma length_last_n [simp]: "length (last_n n xs) = min n (length xs)"
  by (auto simp: last_n_def)

fun nat_digits :: "nat \<Rightarrow> string" where
  "nat_digits n =
     (if n < 10 then [char_of (48 + n)] else nat_digits (n div 10) @ [char_of (48 + n mod 10)])"

declare nat_digits.simps [simp del]

definition int_str :: "int \<Rightarrow> string" where
  "int_str i = (if i < 0 then CHR ''-'' # nat_digits (nat (- i)) else nat_digits (nat i))"

text \<open>\<open>sorted(set(xs))\<close> on strings: ordered by code points, without duplicates.\<close>

definition py_sorted_set :: "string list \<Rightarrow> string list" where
  "py_sorted_set xs = sort (remdups xs)"

lemma set_py_sorted_set [simp, py_simps]: "set (py_sorted_set xs) = set xs"
  by (simp add: py_sorted_set_def)

lemma py_sorted_set_eq_Nil [simp]: "py_sorted_set xs = [] \<longleftrightarrow> xs = []"
  by (metis set_empty set_py_sorted_set)

section \<open>String lemmas\<close>

lemma starts_with_prefix [py_simps]: "starts_with p s \<longleftrightarrow> prefix p s"
  by (induction p s rule: starts_with.induct) auto

lemma starts_with_append [simp]: "starts_with p (p @ s)"
  by (simp add: starts_with_prefix)

lemma ends_with_suffix [py_simps]: "ends_with p s \<longleftrightarrow> suffix p s"
  by (simp add: ends_with_def starts_with_prefix suffix_to_prefix)

lemma contains_sublist [py_simps]: "contains p s \<longleftrightarrow> sublist p s"
  by (induction p s rule: contains.induct) (auto simp: starts_with_prefix sublist_Cons_right)

lemma dropWhile_all_iff: "dropWhile P xs = [] \<longleftrightarrow> (\<forall>x\<in>set (dropWhile P xs). P x)"
proof (cases "dropWhile P xs")
  case Nil
  show ?thesis unfolding Nil by simp
next
  case (Cons y ys)
  then have "\<not> P y" by (metis dropWhile_eq_Cons_conv)
  with Cons show ?thesis by simp
qed

lemma dropWhile_append_all: "\<forall>x\<in>set xs. P x \<Longrightarrow> dropWhile P (xs @ ys) = dropWhile P ys"
  by (induction xs) auto

lemma dropWhile_append_some:
  "\<not> (\<forall>x\<in>set xs. P x) \<Longrightarrow> dropWhile P (xs @ ys) = dropWhile P xs @ ys"
  by (induction xs) auto

lemma is_space_strip_Nil: "py_strip s = [] \<longleftrightarrow> (\<forall>c\<in>set s. is_space c)"
proof -
  have "py_strip s = [] \<longleftrightarrow> dropWhile is_space s = []"
    unfolding py_strip_def rev_is_Nil_conv
    by (subst dropWhile_eq_Nil_conv) (simp add: dropWhile_all_iff [symmetric] del: dropWhile_eq_Nil_conv)
  then show ?thesis by (simp add: dropWhile_eq_Nil_conv)
qed

text \<open>\<open>py_strip\<close> removes the spaces at both ends and nothing else.\<close>

definition stripped :: "string \<Rightarrow> bool" where
  "stripped s \<longleftrightarrow> s = [] \<or> (\<not> is_space (hd s) \<and> \<not> is_space (last s))"

lemma stripped_py_strip [simp]: "stripped (py_strip s)"
proof -
  define t where "t = dropWhile is_space s"
  define u where "u = dropWhile is_space (rev t)"
  have strip: "py_strip s = rev u" by (simp add: py_strip_def t_def u_def)
  show ?thesis
  proof (cases "u = []")
    case True
    then show ?thesis by (simp add: strip stripped_def)
  next
    case False
    then have "\<not> is_space (hd u)" by (simp add: u_def hd_dropWhile)
    then have l: "\<not> is_space (last (rev u))" by (simp add: last_rev)
    have "suffix u (rev t)" by (simp add: u_def suffix_dropWhile)
    then have p: "prefix (rev u) t" by (simp add: suffix_to_prefix)
    with False have "hd (rev u) = hd t" and "t \<noteq> []" by (auto simp: prefix_def)
    moreover have "\<not> is_space (hd t)" using \<open>t \<noteq> []\<close> by (simp add: t_def hd_dropWhile)
    ultimately show ?thesis using l by (simp add: strip stripped_def)
  qed
qed

lemma stripped_id: "stripped s \<Longrightarrow> py_strip s = s"
proof (cases "s = []")
  case True
  then show ?thesis by (simp add: py_strip_def)
next
  case False
  assume "stripped s"
  with False have h: "\<not> is_space (hd s)" and l: "\<not> is_space (last s)"
    by (auto simp: stripped_def)
  from h False have "dropWhile is_space s = s" by (cases s) auto
  moreover from l False have "dropWhile is_space (rev s) = rev s"
    by (cases "rev s") (auto simp: last_rev simp flip: hd_rev)
  ultimately show ?thesis by (simp add: py_strip_def)
qed

lemma py_strip_idem [simp]: "py_strip (py_strip s) = py_strip s"
  by (rule stripped_id) simp

lemma lower_upper_length [simp]: "length (py_lower s) = length s" "length (py_upper s) = length s"
  by (simp_all add: py_lower_def py_upper_def)

lemma lines_keep_concat: "concat (lines_keep acc s) = rev acc @ s"
  by (induction acc s rule: lines_keep.induct) auto

lemma split_lines_concat [simp]: "concat (split_lines s) = s"
  by (simp add: split_lines_def lines_keep_concat)

section \<open>Lists by index\<close>

text \<open>\<open>xs.insert(i, x)\<close> and \<open>xs.pop(i)\<close> for an index in range.\<close>

definition insert_at :: "nat \<Rightarrow> 'a \<Rightarrow> 'a list \<Rightarrow> 'a list" where
  "insert_at i x xs = take i xs @ x # drop i xs"

definition remove_at :: "nat \<Rightarrow> 'a list \<Rightarrow> 'a list" where
  "remove_at i xs = take i xs @ drop (Suc i) xs"

lemma set_insert_at [simp]: "set (insert_at i x xs) = insert x (set xs)"
  by (metis Un_insert_right append_take_drop_id insert_at_def list.simps(15) set_append)

lemma set_remove_at: "set (remove_at i xs) \<subseteq> set xs"
  by (auto simp: remove_at_def dest: in_set_takeD in_set_dropD)

lemma filter_insert_at: "\<not> P x \<Longrightarrow> filter P (insert_at i x xs) = filter P xs"
  by (simp add: insert_at_def) (metis append_take_drop_id filter_append)

lemma filter_remove_at: "i < length xs \<Longrightarrow> \<not> P (xs ! i) \<Longrightarrow> filter P (remove_at i xs) = filter P xs"
  by (metis filter.simps(2) filter_append id_take_nth_drop remove_at_def)

lemma filter_update_at:
  "i < length xs \<Longrightarrow> \<not> P (xs ! i) \<Longrightarrow> \<not> P y \<Longrightarrow> filter P (xs[i := y]) = filter P xs"
  by (metis filter.simps(2) filter_append id_take_nth_drop upd_conv_take_nth_drop)

section \<open>Association lists as Python dictionaries\<close>

text \<open>
  A \<open>dict\<close> keeps its keys in insertion order: \<open>d[k] = v\<close> overwrites in place or appends, which is
  \<open>AList.update\<close>; \<open>setdefault\<close> only appends.
\<close>

definition dsetdefault :: "'k \<Rightarrow> 'v \<Rightarrow> ('k \<times> 'v) list \<Rightarrow> ('k \<times> 'v) list" where
  "dsetdefault k v d = (if map_of d k = None then d @ [(k, v)] else d)"

lemma map_of_update [simp, py_simps]: "map_of (AList.update k v d) = (map_of d)(k \<mapsto> v)"
  by (simp add: update_conv')

lemma map_of_dsetdefault [py_simps]:
  "map_of (dsetdefault k v d) k' =
     (if k' = k then Some (case map_of d k of None \<Rightarrow> v | Some w \<Rightarrow> w) else map_of d k')"
  by (auto simp: dsetdefault_def map_add_def split: option.splits)

definition dget :: "('k \<times> 'v) list \<Rightarrow> 'k \<Rightarrow> 'v \<Rightarrow> 'v" where
  "dget d k v = (case map_of d k of None \<Rightarrow> v | Some w \<Rightarrow> w)"

lemma dget_update [simp, py_simps]:
  "dget (AList.update k v d) k' w = (if k' = k then v else dget d k' w)"
  by (simp add: dget_def)

end
