(* ===== verification/PyJson.thy ===== *)
theory PyJson
  imports Prelude
begin

text \<open>
  JSON values as Python sees them after \<open>json.loads\<close>: the values the plans, packets, LLM replies
  and tool results of the program are made of. A float is kept as its \<open>repr\<close>, which determines it
  and is all the sources use of it. An object is an association list in insertion order.
\<close>

section \<open>Values\<close>

datatype json =
    JNull
  | JBool bool
  | JInt int
  | JFloat string
  | JStr string
  | JList "json list"
  | JObj "(string \<times> json) list"

type_synonym obj = "(string \<times> json) list"

fun truthy :: "json \<Rightarrow> bool" where
  "truthy JNull = False"
| "truthy (JBool b) = b"
| "truthy (JInt i) = (i \<noteq> 0)"
| "truthy (JFloat r) = (r \<noteq> ''0.0'' \<and> r \<noteq> ''-0.0'')"
| "truthy (JStr s) = (s \<noteq> [])"
| "truthy (JList xs) = (xs \<noteq> [])"
| "truthy (JObj kvs) = (kvs \<noteq> [])"

text \<open>\<open>a or b\<close>.\<close>

definition py_or :: "json \<Rightarrow> json \<Rightarrow> json" where
  "py_or a b = (if truthy a then a else b)"

fun is_obj :: "json \<Rightarrow> bool" where
  "is_obj (JObj _) = True"
| "is_obj _ = False"

fun is_list :: "json \<Rightarrow> bool" where
  "is_list (JList _) = True"
| "is_list _ = False"

fun is_str :: "json \<Rightarrow> bool" where
  "is_str (JStr _) = True"
| "is_str _ = False"

lemma is_obj_iff: "is_obj j \<longleftrightarrow> (\<exists>kvs. j = JObj kvs)"
  by (cases j) auto

lemma is_list_iff: "is_list j \<longleftrightarrow> (\<exists>xs. j = JList xs)"
  by (cases j) auto

lemma is_str_iff: "is_str j \<longleftrightarrow> (\<exists>s. j = JStr s)"
  by (cases j) auto

section \<open>Access\<close>

text \<open>\<open>j.get(...)\<close> on a value that is no dictionary raises AttributeError.\<close>

fun as_obj :: "json \<Rightarrow> obj res" where
  "as_obj (JObj kvs) = Inr kvs"
| "as_obj _ = Inl AttributeError"

lemma as_obj_eq_Inr [simp]: "as_obj j = Inr kvs \<longleftrightarrow> j = JObj kvs"
  by (cases j) auto

text \<open>\<open>for x in j\<close>: elements of a list, keys of a dictionary, characters of a string.\<close>

fun py_iter :: "json \<Rightarrow> json list res" where
  "py_iter (JList xs) = Inr xs"
| "py_iter (JObj kvs) = Inr (map (JStr \<circ> fst) kvs)"
| "py_iter (JStr s) = Inr (map (\<lambda>c. JStr [c]) s)"
| "py_iter _ = Inl TypeError"

text \<open>
  \<open>j in {s1, ..., sn}\<close> for a set of strings: lists and dictionaries are unhashable and raise.
\<close>

fun in_str_set :: "json \<Rightarrow> string list \<Rightarrow> bool res" where
  "in_str_set (JStr s) S = Inr (s \<in> set S)"
| "in_str_set (JList _) S = Inl TypeError"
| "in_str_set (JObj _) S = Inl TypeError"
| "in_str_set _ S = Inr False"

text \<open>\<open>p in j\<close> for a string \<open>p\<close>: a part of a text, an element of a list, a key of a dictionary.\<close>

fun str_in :: "string \<Rightarrow> json \<Rightarrow> bool res" where
  "str_in p (JStr s) = Inr (contains p s)"
| "str_in p (JList xs) = Inr (JStr p \<in> set xs)"
| "str_in p (JObj kvs) = Inr (p \<in> set (map fst kvs))"
| "str_in p _ = Inl TypeError"

section \<open>\<open>str\<close> and \<open>repr\<close>\<close>

definition hex_digit :: "nat \<Rightarrow> char" where
  "hex_digit n = (if n < 10 then char_of (48 + n) else char_of (87 + n))"

definition repr_char :: "char \<Rightarrow> char \<Rightarrow> string" where
  "repr_char q c = (let n = ord c in
     if c = q \<or> c = bslash then [bslash, c]
     else if n = 9 then [bslash, CHR ''t'']
     else if n = 10 then [bslash, CHR ''n'']
     else if n = 13 then [bslash, CHR ''r'']
     else if n < 32 \<or> (127 \<le> n \<and> n \<le> 160) \<or> n = 173
       then [bslash, CHR ''x'', hex_digit (n div 16), hex_digit (n mod 16)]
     else [c])"

definition repr_str :: "string \<Rightarrow> string" where
  "repr_str s =
     (let q = (if squote \<in> set s \<and> dquote \<notin> set s then dquote else squote)
      in [q] @ concat (map (repr_char q) s) @ [q])"

fun py_repr :: "json \<Rightarrow> string"
  and repr_items :: "json list \<Rightarrow> string list"
  and repr_fields :: "obj \<Rightarrow> string list" where
  "py_repr JNull = ''None''"
| "py_repr (JBool b) = (if b then ''True'' else ''False'')"
| "py_repr (JInt i) = int_str i"
| "py_repr (JFloat r) = r"
| "py_repr (JStr s) = repr_str s"
| "py_repr (JList xs) = ''['' @ py_join '', '' (repr_items xs) @ '']''"
| "py_repr (JObj kvs) = ''{'' @ py_join '', '' (repr_fields kvs) @ ''}''"
| "repr_items [] = []"
| "repr_items (x # xs) = py_repr x # repr_items xs"
| "repr_fields [] = []"
| "repr_fields ((k, v) # kvs) = (repr_str k @ '': '' @ py_repr v) # repr_fields kvs"

fun py_str :: "json \<Rightarrow> string" where
  "py_str (JStr s) = s"
| "py_str j = py_repr j"

text \<open>\<open>f"{xs}"\<close> for a list of strings.\<close>

definition repr_strs :: "string list \<Rightarrow> string" where
  "repr_strs xs = py_repr (JList (map JStr xs))"

text \<open>A list of strings as a value.\<close>

definition jstrs :: "string list \<Rightarrow> json" where
  "jstrs xs = JList (map JStr xs)"

section \<open>Common idioms\<close>

text \<open>\<open>str(d.get(k, dflt)).strip().lower()\<close>, a recurring idiom of the normalisers.\<close>

definition get_str :: "obj \<Rightarrow> string \<Rightarrow> string \<Rightarrow> string" where
  "get_str d k dflt = py_str (dget d k (JStr dflt))"

definition get_strip :: "obj \<Rightarrow> string \<Rightarrow> string \<Rightarrow> string" where
  "get_strip d k dflt = py_strip (get_str d k dflt)"

definition get_norm :: "obj \<Rightarrow> string \<Rightarrow> string \<Rightarrow> string" where
  "get_norm d k dflt = py_lower (py_strip (get_str d k dflt))"

lemma py_or_False [simp]: "\<not> truthy a \<Longrightarrow> py_or a b = b"
  by (simp add: py_or_def)

lemma py_or_True [simp]: "truthy a \<Longrightarrow> py_or a b = a"
  by (simp add: py_or_def)

lemma mapR_as_obj: "mapR as_obj xs = Inr os \<Longrightarrow> xs = map JObj os"
  by (induction xs arbitrary: os) auto

lemma mapR_as_obj_JObj [simp]: "mapR as_obj (map JObj os) = Inr os"
  by (induction os) auto

end
