(* ===== verification/PyRegex.thy ===== *)
theory PyRegex
  imports Prelude
begin

text \<open>
  The part of Python's \<open>re\<close> the sources use: a backtracking matcher over a position, the pair of
  the text already read (reversed) and the text still to read. \<open>rx_ends r p\<close> lists every position
  a match of \<open>r\<close> from \<open>p\<close> can end at, in the order the backtracking engine tries them, so its head
  is the match Python returns and emptiness is failure.
\<close>

section \<open>Patterns and their matches\<close>

type_synonym pos = "string \<times> string"

datatype rx =
    Eps
  | Chars "char \<Rightarrow> bool"
  | Seq rx rx
  | Alt rx rx
  | Star rx
  | LazyStar rx
  | Upto nat rx
  | WordB
  | BeginText
  | EndText
  | NotAhead rx
  | NotBehind "char \<Rightarrow> bool"

text \<open>
  A greedy star takes another round only when the round consumed text, as the engine does; the
  number of rounds is bounded by the text left.
\<close>

fun star_ends :: "nat \<Rightarrow> (pos \<Rightarrow> pos list) \<Rightarrow> pos \<Rightarrow> pos list" where
  "star_ends 0 f p = [p]"
| "star_ends (Suc n) f p =
     concat (map (star_ends n f) (filter (\<lambda>q. length (snd q) < length (snd p)) (f p))) @ [p]"

text \<open>The lazy star \<open>*?\<close> tries to stop first.\<close>

fun lazy_ends :: "nat \<Rightarrow> (pos \<Rightarrow> pos list) \<Rightarrow> pos \<Rightarrow> pos list" where
  "lazy_ends 0 f p = [p]"
| "lazy_ends (Suc n) f p =
     p # concat (map (lazy_ends n f) (filter (\<lambda>q. length (snd q) < length (snd p)) (f p)))"

definition word_boundary :: "pos \<Rightarrow> bool" where
  "word_boundary p =
     ((fst p \<noteq> [] \<and> is_word (hd (fst p))) \<noteq> (snd p \<noteq> [] \<and> is_word (hd (snd p))))"

primrec rx_ends :: "rx \<Rightarrow> pos \<Rightarrow> pos list" where
  "rx_ends Eps p = [p]"
| "rx_ends (Chars f) p =
     (case snd p of [] \<Rightarrow> [] | c # cs \<Rightarrow> if f c then [(c # fst p, cs)] else [])"
| "rx_ends (Seq r1 r2) p = concat (map (rx_ends r2) (rx_ends r1 p))"
| "rx_ends (Alt r1 r2) p = rx_ends r1 p @ rx_ends r2 p"
| "rx_ends (Star r) p = star_ends (length (snd p)) (rx_ends r) p"
| "rx_ends (LazyStar r) p = lazy_ends (length (snd p)) (rx_ends r) p"
| "rx_ends (Upto n r) p = star_ends n (rx_ends r) p"
| "rx_ends WordB p = (if word_boundary p then [p] else [])"
| "rx_ends BeginText p = (if fst p = [] then [p] else [])"
| "rx_ends EndText p = (if snd p = [] \<or> snd p = [nl] then [p] else [])"
| "rx_ends (NotAhead r) p = (if rx_ends r p = [] then [p] else [])"
| "rx_ends (NotBehind f) p = (if fst p \<noteq> [] \<and> f (hd (fst p)) then [] else [p])"

text \<open>\<open>re.match\<close> and \<open>re.search\<close> as truth values.\<close>

definition rx_match :: "rx \<Rightarrow> string \<Rightarrow> bool" where
  "rx_match r s = (rx_ends r ([], s) \<noteq> [])"

fun search_from :: "rx \<Rightarrow> string \<Rightarrow> string \<Rightarrow> bool" where
  "search_from r pre [] = (rx_ends r (pre, []) \<noteq> [])"
| "search_from r pre (c # cs) =
     (rx_ends r (pre, c # cs) \<noteq> [] \<or> search_from r (c # pre) cs)"

definition rx_search :: "rx \<Rightarrow> string \<Rightarrow> bool" where
  "rx_search r s = search_from r [] s"

section \<open>Groups, substitution, all matches\<close>

text \<open>
  The sources put capturing groups only at the top level of a pattern, so a pattern with groups is a
  sequence of parts, each marked when it is a group. A match carries the texts of its groups.
\<close>

type_synonym parts = "(bool \<times> rx) list"

definition consumed :: "pos \<Rightarrow> pos \<Rightarrow> string" where
  "consumed p q = take (length (snd p) - length (snd q)) (snd p)"

fun part_ends :: "parts \<Rightarrow> string list \<Rightarrow> pos \<Rightarrow> (pos \<times> string list) list" where
  "part_ends [] gs p = [(p, rev gs)]"
| "part_ends ((g, r) # ps) gs p =
     concat (map (\<lambda>q. part_ends ps (if g then consumed p q # gs else gs) q) (rx_ends r p))"

text \<open>The leftmost match: where it starts, where it ends, its groups.\<close>

fun find_from :: "parts \<Rightarrow> string \<Rightarrow> string \<Rightarrow> (pos \<times> pos \<times> string list) option" where
  "find_from ps pre [] =
     (case part_ends ps [] (pre, []) of [] \<Rightarrow> None | (q, gs) # _ \<Rightarrow> Some ((pre, []), q, gs))"
| "find_from ps pre (c # cs) =
     (case part_ends ps [] (pre, c # cs) of
        [] \<Rightarrow> find_from ps (c # pre) cs
      | (q, gs) # _ \<Rightarrow> Some ((pre, c # cs), q, gs))"

definition rx_groups :: "parts \<Rightarrow> string \<Rightarrow> string list option" where
  "rx_groups ps s = map_option (\<lambda>(_, _, gs). gs) (find_from ps [] s)"

text \<open>
  \<open>re.finditer\<close>: the matches from left to right, each with the text skipped before it; an empty
  match moves on by one character. The fuel is the number of characters left, plus one.
\<close>

fun all_from :: "nat \<Rightarrow> parts \<Rightarrow> pos \<Rightarrow> (string \<times> string \<times> string list) list \<times> string" where
  "all_from 0 ps p = ([], snd p)"
| "all_from (Suc n) ps p =
     (case find_from ps (fst p) (snd p) of
        None \<Rightarrow> ([], snd p)
      | Some (a, b, gs) \<Rightarrow>
          (if length (snd b) < length (snd a) then
             (case all_from n ps b of (ms, rest) \<Rightarrow> ((consumed p a, consumed a b, gs) # ms, rest))
           else case snd b of
             [] \<Rightarrow> ([(consumed p a, [], gs)], [])
           | c # cs \<Rightarrow>
             (case all_from n ps (c # fst b, cs) of
                ([], rest) \<Rightarrow> ([(consumed p a, [], gs)], c # rest)
              | ((u, m, gs') # ms, rest) \<Rightarrow> ((consumed p a, [], gs) # (c # u, m, gs') # ms, rest))))"

definition rx_all :: "parts \<Rightarrow> string \<Rightarrow> string list list" where
  "rx_all ps s = map (\<lambda>(_, _, gs). gs) (fst (all_from (Suc (length s)) ps ([], s)))"

definition rx_sub :: "rx \<Rightarrow> string \<Rightarrow> string \<Rightarrow> string" where
  "rx_sub r repl s =
     (case all_from (Suc (length s)) [(False, r)] ([], s) of
        (ms, rest) \<Rightarrow> concat (map (\<lambda>(u, _, _). u @ repl) ms) @ rest)"

section \<open>Abbreviations of pattern syntax\<close>

definition Opt :: "rx \<Rightarrow> rx" where "Opt r = Alt r Eps"
definition Plus :: "rx \<Rightarrow> rx" where "Plus r = Seq r (Star r)"
definition Spaces :: rx where "Spaces = Star (Chars is_space)"
definition Spaces1 :: rx where "Spaces1 = Plus (Chars is_space)"

text \<open>A literal under \<open>re.IGNORECASE\<close>, and case-sensitively.\<close>

fun lit_ci :: "string \<Rightarrow> rx" where
  "lit_ci [] = Eps"
| "lit_ci (c # cs) = Seq (Chars (\<lambda>x. lower_char x = lower_char c)) (lit_ci cs)"

fun lit :: "string \<Rightarrow> rx" where
  "lit [] = Eps"
| "lit (c # cs) = Seq (Chars (\<lambda>x. x = c)) (lit cs)"

fun alts :: "rx list \<Rightarrow> rx" where
  "alts [] = NotAhead Eps"
| "alts [r] = r"
| "alts (r # rs) = Alt r (alts rs)"

fun seqs :: "rx list \<Rightarrow> rx" where
  "seqs [] = Eps"
| "seqs [r] = r"
| "seqs (r # rs) = Seq r (seqs rs)"

text \<open>Pattern texts, with \<open>@\<close> written for the backslash.\<close>

definition bs :: "string \<Rightarrow> string" where
  "bs = map (\<lambda>c. if c = CHR ''@'' then bslash else c)"

section \<open>What a match is\<close>

text \<open>Every end position splits the same text, at or after the start.\<close>

definition advances :: "pos \<Rightarrow> pos \<Rightarrow> bool" where
  "advances p q \<longleftrightarrow> (\<exists>w. snd p = w @ snd q \<and> fst q = rev w @ fst p)"

lemma advances_refl [simp]: "advances p p"
  by (simp add: advances_def)

lemma advances_trans: "advances p q \<Longrightarrow> advances q r \<Longrightarrow> advances p r"
  unfolding advances_def by (metis append.assoc rev_append)

lemma star_ends_advances:
  assumes "\<And>p q. q \<in> set (f p) \<Longrightarrow> advances p q"
  shows "q \<in> set (star_ends n f p) \<Longrightarrow> advances p q"
proof (induction n arbitrary: p)
  case 0
  then show ?case by simp
next
  case (Suc n)
  then consider p' where "p' \<in> set (f p)" "q \<in> set (star_ends n f p')" | "q = p"
    by auto
  then show ?case
  proof cases
    case 1
    then show ?thesis using Suc.IH assms advances_trans by blast
  qed simp
qed

lemma lazy_ends_advances:
  assumes "\<And>p q. q \<in> set (f p) \<Longrightarrow> advances p q"
  shows "q \<in> set (lazy_ends n f p) \<Longrightarrow> advances p q"
proof (induction n arbitrary: p)
  case 0
  then show ?case by simp
next
  case (Suc n)
  then consider p' where "p' \<in> set (f p)" "q \<in> set (lazy_ends n f p')" | "q = p"
    by auto
  then show ?case
  proof cases
    case 1
    then show ?thesis using Suc.IH assms advances_trans by blast
  qed simp
qed

lemma rx_ends_advances: "q \<in> set (rx_ends r p) \<Longrightarrow> advances p q"
proof (induction r arbitrary: p q)
  case (Chars f)
  then show ?case by (auto simp: advances_def split: list.splits if_splits)
next
  case (Seq r1 r2)
  then obtain p' where "p' \<in> set (rx_ends r1 p)" "q \<in> set (rx_ends r2 p')" by auto
  then show ?case using Seq.IH advances_trans by blast
next
  case (Star r)
  have "q \<in> set (star_ends (length (snd p)) (rx_ends r) p)" using Star.prems by simp
  then show ?case by (rule star_ends_advances [rotated]) (rule Star.IH)
next
  case (LazyStar r)
  have "q \<in> set (lazy_ends (length (snd p)) (rx_ends r) p)" using LazyStar.prems by simp
  then show ?case by (rule lazy_ends_advances [rotated]) (rule LazyStar.IH)
next
  case (Upto n r)
  have "q \<in> set (star_ends n (rx_ends r) p)" using Upto.prems by simp
  then show ?case by (rule star_ends_advances [rotated]) (rule Upto.IH)
qed (auto split: if_splits)

text \<open>
  A search succeeds exactly when the pattern matches at some split of the text.
\<close>

lemma search_from_iff:
  "search_from r pre s \<longleftrightarrow> (\<exists>u v. s = u @ v \<and> rx_ends r (rev u @ pre, v) \<noteq> [])"
proof (induction s arbitrary: pre)
  case Nil
  then show ?case by simp
next
  case (Cons c cs)
  show ?case
  proof
    assume "search_from r pre (c # cs)"
    then consider "rx_ends r (pre, c # cs) \<noteq> []" | "search_from r (c # pre) cs" by auto
    then show "\<exists>u v. c # cs = u @ v \<and> rx_ends r (rev u @ pre, v) \<noteq> []"
    proof cases
      case 1
      then show ?thesis by (intro exI [of _ "[]"] exI [of _ "c # cs"]) simp
    next
      case 2
      then obtain u v where "cs = u @ v" "rx_ends r (rev u @ c # pre, v) \<noteq> []"
        using Cons.IH by auto
      then show ?thesis by (intro exI [of _ "c # u"] exI [of _ v]) simp
    qed
  next
    assume "\<exists>u v. c # cs = u @ v \<and> rx_ends r (rev u @ pre, v) \<noteq> []"
    then obtain u v where uv: "c # cs = u @ v" "rx_ends r (rev u @ pre, v) \<noteq> []" by blast
    show "search_from r pre (c # cs)"
    proof (cases u)
      case Nil
      with uv have "rx_ends r (pre, c # cs) \<noteq> []" by simp
      then show ?thesis by simp
    next
      case (Cons d us)
      with uv have "cs = us @ v" "rx_ends r (rev us @ c # pre, v) \<noteq> []" by auto
      then have "search_from r (c # pre) cs" using Cons.IH by blast
      then show ?thesis by simp
    qed
  qed
qed

lemma rx_search_iff: "rx_search r s \<longleftrightarrow> (\<exists>u v. s = u @ v \<and> rx_ends r (rev u, v) \<noteq> [])"
  by (simp add: rx_search_def search_from_iff)

lemma rx_ends_lit [simp]:
  "rx_ends (lit w) (pre, s) = (if prefix w s then [(rev w @ pre, drop (length w) s)] else [])"
  by (induction w arbitrary: pre s) (auto split: list.splits)

lemma rx_search_lit: "rx_search (lit w) s \<longleftrightarrow> sublist w s"
  by (auto simp: rx_search_iff sublist_def prefix_def)

end
