(* ===== verification/PyShlex.thy ===== *)
theory PyShlex
  imports Prelude
begin

text \<open>
  \<open>shlex.split\<close> (POSIX mode, no comments, \<open>whitespace_split\<close>) as the state machine of the standard
  library, \<open>shlex.quote\<close> and \<open>shlex.join\<close>, and the round trip between them. The command policy
  parses every shell segment with \<open>split\<close>; the contract compiler builds commands with \<open>join\<close>.
\<close>

section \<open>Splitting\<close>

definition sh_space :: "char \<Rightarrow> bool" where
  "sh_space c = (c = CHR '' '' \<or> c = CHR 0x09 \<or> c = CHR 0x0D \<or> c = nl)"

text \<open>
  States of the lexer: between tokens, inside a word, inside a quotation, and after a backslash
  (with the quotation mark it must return to, or none inside a word).
\<close>

datatype shst = ShSpace | ShWord | ShQuote char | ShEsc "char option"

definition sh_emit :: "string \<Rightarrow> bool \<Rightarrow> string list res \<Rightarrow> string list res" where
  "sh_emit t q rest = (if t = [] \<and> \<not> q then rest else bindR rest (\<lambda>ts. Inr (rev t # ts)))"

fun sh_go :: "shst \<Rightarrow> string \<Rightarrow> bool \<Rightarrow> string \<Rightarrow> string list res" where
  "sh_go ShSpace t q [] = sh_emit t q (Inr [])"
| "sh_go ShSpace t q (c # cs) =
     (if sh_space c then sh_emit t q (sh_go ShSpace [] False cs)
      else if c = bslash then sh_go (ShEsc None) t q cs
      else if c = squote \<or> c = dquote then sh_go (ShQuote c) t q cs
      else sh_go ShWord [c] q cs)"
| "sh_go ShWord t q [] = sh_emit t q (Inr [])"
| "sh_go ShWord t q (c # cs) =
     (if sh_space c then sh_emit t q (sh_go ShSpace [] False cs)
      else if c = squote \<or> c = dquote then sh_go (ShQuote c) t q cs
      else if c = bslash then sh_go (ShEsc None) t q cs
      else sh_go ShWord (c # t) q cs)"
| "sh_go (ShQuote k) t q [] = Inl (ValueError ''No closing quotation'')"
| "sh_go (ShQuote k) t q (c # cs) =
     (if c = k then sh_go ShWord t True cs
      else if c = bslash \<and> k = dquote then sh_go (ShEsc (Some k)) t True cs
      else sh_go (ShQuote k) (c # t) True cs)"
| "sh_go (ShEsc e) t q [] = Inl (ValueError ''No escaped character'')"
| "sh_go (ShEsc None) t q (c # cs) = sh_go ShWord (c # t) q cs"
| "sh_go (ShEsc (Some k)) t q (c # cs) =
     sh_go (ShQuote k) (if c \<noteq> bslash \<and> c \<noteq> k then c # bslash # t else c # t) q cs"

definition sh_split :: "string \<Rightarrow> string list res" where
  "sh_split s = sh_go ShSpace [] False s"

section \<open>Quoting\<close>

definition sh_safe :: "char \<Rightarrow> bool" where
  "sh_safe c = (let n = ord c in
     (48 \<le> n \<and> n \<le> 57) \<or> (65 \<le> n \<and> n \<le> 90) \<or> (97 \<le> n \<and> n \<le> 122) \<or>
     c \<in> set ''_@%+=:,./-'')"

definition sh_quote_char :: "char \<Rightarrow> string" where
  "sh_quote_char c =
     (if c = squote then [squote, dquote, squote, dquote, squote] else [c])"

definition sh_quote :: "string \<Rightarrow> string" where
  "sh_quote s =
     (if s = [] then [squote, squote]
      else if list_all sh_safe s then s
      else [squote] @ concat (map sh_quote_char s) @ [squote])"

definition sh_join :: "string list \<Rightarrow> string" where
  "sh_join ws = py_join '' '' (map sh_quote ws)"

section \<open>Round trip\<close>

lemma sh_safe_plain:
  "sh_safe c \<Longrightarrow> \<not> sh_space c \<and> c \<noteq> bslash \<and> c \<noteq> squote \<and> c \<noteq> dquote"
  by (auto simp: sh_safe_def sh_space_def ord_def Let_def)

lemma sh_go_word_safe:
  "list_all sh_safe s \<Longrightarrow> sh_go ShWord t q (s @ rest) = sh_go ShWord (rev s @ t) q rest"
  by (induction s arbitrary: t) (auto dest: sh_safe_plain)

lemma sh_go_space_safe:
  assumes "s \<noteq> []" "list_all sh_safe s"
  shows "sh_go ShSpace [] False (s @ rest) = sh_go ShWord (rev s) False rest"
proof (cases s)
  case (Cons c cs)
  with assms(2) have "sh_safe c" "list_all sh_safe cs" by auto
  then show ?thesis
    using Cons sh_safe_plain [of c] sh_go_word_safe [of cs "[c]" False rest] by simp
qed (use assms in simp)

lemma sh_go_quoted:
  "sh_go (ShQuote squote) t True (concat (map sh_quote_char s) @ squote # rest)
     = sh_go ShWord (rev s @ t) True rest"
proof (induction s arbitrary: t)
  case Nil
  then show ?case by simp
next
  case (Cons c cs)
  show ?case
  proof (cases "c = squote")
    case True
    then show ?thesis using Cons.IH [of "squote # t"] by (simp add: sh_quote_char_def sh_space_def)
  next
    case False
    then show ?thesis using Cons.IH [of "c # t"] by (simp add: sh_quote_char_def)
  qed
qed

text \<open>The quotation flag only matters for an empty token, so it is irrelevant after a word.\<close>

lemma sh_emit_irrelevant: "t \<noteq> [] \<Longrightarrow> sh_emit t q r = sh_emit t q' r"
  by (simp add: sh_emit_def)

lemma sh_go_quote_end:
  assumes "rest = [] \<or> (\<exists>cs. rest = CHR '' '' # cs)"
  shows "sh_go ShSpace [] False (sh_quote s @ rest)
           = bindR (sh_go ShSpace [] False (tl rest)) (\<lambda>ts. Inr (s # ts))"
proof -
  have tail: "sh_go ShWord t q rest = bindR (sh_go ShSpace [] False (tl rest)) (\<lambda>ts. Inr (rev t # ts))"
    if "t \<noteq> [] \<or> q" for t q
    using assms that by (auto simp: sh_emit_def sh_space_def)
  consider "s = []" | "s \<noteq> []" "list_all sh_safe s" | "s \<noteq> []" "\<not> list_all sh_safe s" by blast
  then show ?thesis
  proof cases
    case 1
    then show ?thesis using tail [of "[]" True] by (simp add: sh_quote_def sh_space_def)
  next
    case 2
    then show ?thesis using tail [of "rev s" False] by (simp add: sh_quote_def sh_go_space_safe)
  next
    case 3
    have flag: "sh_go (ShQuote squote) [] False w = sh_go (ShQuote squote) [] True w" for w
      by (cases w) simp_all
    from 3 have "sh_go ShSpace [] False (sh_quote s @ rest)
        = sh_go (ShQuote squote) [] False (concat (map sh_quote_char s) @ squote # rest)"
      by (simp add: sh_quote_def sh_space_def)
    also have "\<dots> = sh_go ShWord (rev s) True rest"
      using sh_go_quoted [of "[]" s rest] by (simp add: flag)
    finally show ?thesis using tail [of "rev s" True] by simp
  qed
qed

lemma sh_split_join: "sh_split (sh_join ws) = Inr ws"
proof -
  have "sh_go ShSpace [] False (py_join '' '' (map sh_quote ws)) = Inr ws"
  proof (induction ws)
    case Nil
    then show ?case by (simp add: sh_emit_def)
  next
    case (Cons w ws)
    show ?case
    proof (cases ws)
      case Nil
      then show ?thesis using sh_go_quote_end [of "[]" w] by (simp add: sh_emit_def)
    next
      case (Cons v vs)
      then show ?thesis
        using Cons.IH sh_go_quote_end [of "CHR '' '' # py_join '' '' (map sh_quote ws)" w] by simp
    qed
  qed
  then show ?thesis by (simp add: sh_split_def sh_join_def)
qed

text \<open>\<open>shlex.split\<close> fails only with ValueError.\<close>

lemma sh_go_error: "sh_go st t q s = Inl e \<Longrightarrow> \<exists>m. e = ValueError m"
  by (induction st t q s rule: sh_go.induct)
     (auto simp: sh_emit_def bindR_def split: if_splits sum.splits)

lemma sh_split_error: "sh_split s = Inl e \<Longrightarrow> \<exists>m. e = ValueError m"
  by (simp add: sh_split_def sh_go_error)

end
