(* ===== verification/PyLoads.thy ===== *)
theory PyLoads
  imports PyJson
begin

text \<open>
  \<open>json.loads\<close>, which every reply of a language model goes through: the scanner of the standard
  library over our characters. Two answers belong to the interpreter and are a record: the \<open>repr\<close> of
  the float a literal denotes, and the text of a code point above 255 (written by an escape). None is
  \<open>JSONDecodeError\<close>.
\<close>

section \<open>Scanning\<close>

record reader =
  rd_float :: "string \<Rightarrow> string"
  rd_code :: "nat \<Rightarrow> string"

definition js_space :: "char \<Rightarrow> bool" where
  "js_space c = (c = CHR '' '' \<or> c = CHR 0x09 \<or> c = nl \<or> c = CHR 0x0D)"

definition js_ws :: "string \<Rightarrow> string" where
  "js_ws = dropWhile js_space"

definition hex_value :: "char \<Rightarrow> nat option" where
  "hex_value c = (let n = ord c in
     if 48 \<le> n \<and> n \<le> 57 then Some (n - 48)
     else if 97 \<le> n \<and> n \<le> 102 then Some (n - 87)
     else if 65 \<le> n \<and> n \<le> 70 then Some (n - 55) else None)"

fun hex4 :: "string \<Rightarrow> nat option" where
  "hex4 (a # b # c # d # _) =
     (case (hex_value a, hex_value b, hex_value c, hex_value d) of
        (Some w, Some x, Some y, Some z) \<Rightarrow> Some (((w * 16 + x) * 16 + y) * 16 + z)
      | _ \<Rightarrow> None)"
| "hex4 _ = None"

definition low_surrogate :: "string \<Rightarrow> nat option" where
  "low_surrogate s =
     (if starts_with [bslash, CHR ''u''] s
      then (case hex4 (drop 2 s) of
              Some m \<Rightarrow> if 0xDC00 \<le> m \<and> m \<le> 0xDFFF then Some (m - 0xDC00) else None
            | None \<Rightarrow> None)
      else None)"

definition code_text :: "reader \<Rightarrow> nat \<Rightarrow> string" where
  "code_text rd n = (if n < 256 then [char_of n] else rd_code rd n)"

definition plain_escape :: "char \<Rightarrow> char option" where
  "plain_escape e =
     (if e = dquote \<or> e = bslash \<or> e = CHR ''/'' then Some e
      else if e = CHR ''b'' then Some (CHR 0x08)
      else if e = CHR ''f'' then Some (CHR 0x0C)
      else if e = CHR ''n'' then Some nl
      else if e = CHR ''r'' then Some (CHR 0x0D)
      else if e = CHR ''t'' then Some (CHR 0x09) else None)"

text \<open>The rest of a string after its opening quotation mark; \<open>acc\<close> is the text so far, reversed.\<close>

fun js_string :: "reader \<Rightarrow> string \<Rightarrow> string \<Rightarrow> (string \<times> string) option" where
  "js_string rd acc [] = None"
| "js_string rd acc (c # cs) =
     (if c = dquote then Some (rev acc, cs)
      else if c = bslash then
        (case cs of
           [] \<Rightarrow> None
         | e # ds \<Rightarrow>
             if e = CHR ''u'' then
               (case hex4 ds of
                  None \<Rightarrow> None
                | Some n \<Rightarrow>
                    (case (if 0xD800 \<le> n \<and> n \<le> 0xDBFF then low_surrogate (drop 4 ds) else None) of
                       Some m \<Rightarrow> js_string rd (rev (code_text rd (0x10000 + (n - 0xD800) * 0x400 + m)) @ acc)
                                   (drop 10 ds)
                     | None \<Rightarrow> js_string rd (rev (code_text rd n) @ acc) (drop 4 ds)))
             else (case plain_escape e of None \<Rightarrow> None | Some d \<Rightarrow> js_string rd (d # acc) ds))
      else if ord c < 32 then None
      else js_string rd (c # acc) cs)"

definition digits_value :: "string \<Rightarrow> int" where
  "digits_value = foldl (\<lambda>n c. n * 10 + int (ord c) - 48) 0"

definition js_fraction :: "string \<Rightarrow> string" where
  "js_fraction s =
     (if starts_with ''.'' s \<and> takeWhile is_digit (tl s) \<noteq> [] then CHR ''.'' # takeWhile is_digit (tl s) else [])"

definition js_exponent :: "string \<Rightarrow> string" where
  "js_exponent s =
     (if starts_with ''e'' s \<or> starts_with ''E'' s then
        (let sign = (if starts_with ''+'' (tl s) \<or> starts_with ''-'' (tl s) then [hd (tl s)] else []);
             ds = takeWhile is_digit (drop (length sign) (tl s))
         in if ds = [] then [] else hd s # sign @ ds)
      else [])"

definition js_number :: "reader \<Rightarrow> string \<Rightarrow> (json \<times> string) option" where
  "js_number rd s =
     (let neg = starts_with ''-'' s;
          r = (if neg then tl s else s);
          digits = takeWhile is_digit r
      in if digits = [] then None
         else
           (let whole = (if hd digits = CHR ''0'' then ''0'' else digits);
                r1 = drop (length whole) r; frac = js_fraction r1;
                r2 = drop (length frac) r1; exp = js_exponent r2
            in if frac = [] \<and> exp = []
               then Some (JInt (if neg then - digits_value whole else digits_value whole), r1)
               else Some (JFloat (rd_float rd ((if neg then ''-'' else []) @ whole @ frac @ exp)),
                          drop (length exp) r2)))"

definition js_constants :: "(string \<times> json) list" where
  "js_constants =
     [(''null'', JNull), (''true'', JBool True), (''false'', JBool False), (''NaN'', JFloat ''nan''),
      (''Infinity'', JFloat ''inf''), (''-Infinity'', JFloat ''-inf'')]"

definition js_atom :: "reader \<Rightarrow> string \<Rightarrow> (json \<times> string) option" where
  "js_atom rd s =
     (case List.find (\<lambda>(w, _). starts_with w s) js_constants of
        Some (w, v) \<Rightarrow> Some (v, drop (length w) s)
      | None \<Rightarrow> js_number rd s)"

text \<open>
  Values, the rest of an object after its brace and the rest of an array after its bracket. A repeated
  key keeps its place and takes the later value, as in a dictionary.
\<close>

fun js_value :: "reader \<Rightarrow> nat \<Rightarrow> string \<Rightarrow> (json \<times> string) option"
  and js_members :: "reader \<Rightarrow> nat \<Rightarrow> obj \<Rightarrow> string \<Rightarrow> (obj \<times> string) option"
  and js_elements :: "reader \<Rightarrow> nat \<Rightarrow> json list \<Rightarrow> string \<Rightarrow> (json list \<times> string) option" where
  "js_value rd 0 s = None"
| "js_value rd (Suc n) s =
     (case s of
        [] \<Rightarrow> None
      | c # cs \<Rightarrow>
          if c = dquote then map_option (\<lambda>(t, r). (JStr t, r)) (js_string rd [] cs)
          else if c = CHR ''{'' then
            (if starts_with ''}'' (js_ws cs) then Some (JObj [], tl (js_ws cs))
             else map_option (\<lambda>(kvs, r). (JObj kvs, r)) (js_members rd n [] (js_ws cs)))
          else if c = CHR ''['' then
            (if starts_with '']'' (js_ws cs) then Some (JList [], tl (js_ws cs))
             else map_option (\<lambda>(xs, r). (JList xs, r)) (js_elements rd n [] (js_ws cs)))
          else js_atom rd s)"
| "js_members rd 0 acc s = None"
| "js_members rd (Suc n) acc s =
     (if \<not> starts_with [dquote] s then None
      else case js_string rd [] (tl s) of
        None \<Rightarrow> None
      | Some (k, r) \<Rightarrow>
          if \<not> starts_with '':'' (js_ws r) then None
          else (case js_value rd n (js_ws (tl (js_ws r))) of
                  None \<Rightarrow> None
                | Some (v, r1) \<Rightarrow>
                    (let r2 = js_ws r1; acc' = AList.update k v acc
                     in if starts_with ''}'' r2 then Some (acc', tl r2)
                        else if starts_with '','' r2 then js_members rd n acc' (js_ws (tl r2)) else None)))"
| "js_elements rd 0 acc s = None"
| "js_elements rd (Suc n) acc s =
     (case js_value rd n s of
        None \<Rightarrow> None
      | Some (v, r1) \<Rightarrow>
          (let r2 = js_ws r1
           in if starts_with '']'' r2 then Some (acc @ [v], tl r2)
              else if starts_with '','' r2 then js_elements rd n (acc @ [v]) (js_ws (tl r2)) else None))"

definition json_loads :: "reader \<Rightarrow> string \<Rightarrow> json option" where
  "json_loads rd s =
     (case js_value rd (2 * length s + 2) (js_ws s) of
        Some (v, r) \<Rightarrow> if js_ws r = [] then Some v else None
      | None \<Rightarrow> None)"

section \<open>Writing\<close>

text \<open>
  \<open>json.dumps\<close> with its default ASCII escapes, compact or with an indentation. Its \<open>default=str\<close> is
  never asked: every value here is a JSON value.
\<close>

definition js_escape :: "char \<Rightarrow> string" where
  "js_escape c = (let n = ord c in
     if c = dquote \<or> c = bslash then [bslash, c]
     else if n = 10 then [bslash, CHR ''n''] else if n = 13 then [bslash, CHR ''r'']
     else if n = 9 then [bslash, CHR ''t''] else if n = 12 then [bslash, CHR ''f'']
     else if n = 8 then [bslash, CHR ''b'']
     else if n < 32 \<or> 126 < n then bslash # ''u00'' @ [hex_digit (n div 16), hex_digit (n mod 16)]
     else [c])"

definition js_quote :: "string \<Rightarrow> string" where
  "js_quote s = dquote # concat (map js_escape s) @ [dquote]"

definition js_wrap :: "nat option \<Rightarrow> nat \<Rightarrow> string \<Rightarrow> string \<Rightarrow> string list \<Rightarrow> string" where
  "js_wrap ind level opening closing items =
     (if items = [] then opening @ closing
      else case ind of
        None \<Rightarrow> opening @ py_join '', '' items @ closing
      | Some k \<Rightarrow>
          (let pad = nl # replicate (k * Suc level) (CHR '' '')
           in opening @ pad @ py_join ('','' @ pad) items @ nl # replicate (k * level) (CHR '' '') @ closing))"

fun js_dump :: "nat option \<Rightarrow> nat \<Rightarrow> json \<Rightarrow> string"
  and js_dump_items :: "nat option \<Rightarrow> nat \<Rightarrow> json list \<Rightarrow> string list"
  and js_dump_fields :: "nat option \<Rightarrow> nat \<Rightarrow> obj \<Rightarrow> string list" where
  "js_dump ind level JNull = ''null''"
| "js_dump ind level (JBool b) = (if b then ''true'' else ''false'')"
| "js_dump ind level (JInt i) = int_str i"
| "js_dump ind level (JFloat r) =
     (if r = ''nan'' then ''NaN'' else if r = ''inf'' then ''Infinity'' else if r = ''-inf'' then ''-Infinity'' else r)"
| "js_dump ind level (JStr s) = js_quote s"
| "js_dump ind level (JList xs) = js_wrap ind level ''['' '']'' (js_dump_items ind (Suc level) xs)"
| "js_dump ind level (JObj kvs) = js_wrap ind level ''{'' ''}'' (js_dump_fields ind (Suc level) kvs)"
| "js_dump_items ind level [] = []"
| "js_dump_items ind level (x # xs) = js_dump ind level x # js_dump_items ind level xs"
| "js_dump_fields ind level [] = []"
| "js_dump_fields ind level ((k, v) # kvs) =
     (js_quote k @ '': '' @ js_dump ind level v) # js_dump_fields ind level kvs"

definition json_dumps :: "nat option \<Rightarrow> json \<Rightarrow> string" where
  "json_dumps ind j = js_dump ind 0 j"

section \<open>The fuel is enough\<close>

lemma js_ws_length: "length (js_ws s) \<le> length s"
  by (simp add: js_ws_def length_dropWhile_le)

lemma js_string_length: "js_string rd acc s = Some (t, r) \<Longrightarrow> length r < length s"
proof (induction rd acc s rule: js_string.induct)
  case (2 rd acc c cs)
  note IH = 2 (1-4)
  consider "c = dquote" | "c \<noteq> dquote" "c = bslash" | "c \<noteq> dquote" "c \<noteq> bslash" by blast
  then show ?case
  proof cases
    case 1
    then show ?thesis using 2(5) by simp
  next
    case 3
    then show ?thesis using 2(5) IH(4) by (fastforce split: if_split_asm)
  next
    case e: 2
    then obtain d ds where cs: "cs = d # ds" using 2(5) by (cases cs) auto
    show ?thesis
    proof (cases "d = CHR ''u''")
      case True
      then obtain n where n: "hex4 ds = Some n" using 2(5) e cs by (cases "hex4 ds") auto
      let ?low = "if 0xD800 \<le> n \<and> n \<le> 0xDBFF then low_surrogate (drop 4 ds) else None"
      show ?thesis
      proof (cases ?low)
        case None
        then have "js_string rd (rev (code_text rd n) @ acc) (drop 4 ds) = Some (t, r)"
          using 2(5) e cs True n by simp
        then show ?thesis using IH(1) [OF e cs True n None] cs by simp
      next
        case (Some m)
        then have "js_string rd (rev (code_text rd (0x10000 + (n - 0xD800) * 0x400 + m)) @ acc) (drop 10 ds) = Some (t, r)"
          using 2(5) e cs True n by simp
        then show ?thesis using IH(2) [OF e cs True n Some] cs by simp
      qed
    next
      case False
      then obtain f where "plain_escape d = Some f" "js_string rd (f # acc) ds = Some (t, r)"
        using 2(5) e cs by (cases "plain_escape d") auto
      then show ?thesis using IH(3) [OF e cs False] cs by fastforce
    qed
  qed
qed simp

lemma js_number_length: "js_number rd s = Some (v, r) \<Longrightarrow> length r < length s"
  by (cases s) (auto simp: js_number_def Let_def split: if_split_asm)

lemma js_atom_length: "js_atom rd s = Some (v, r) \<Longrightarrow> s \<noteq> [] \<Longrightarrow> length r < length s"
  by (auto simp: js_atom_def js_constants_def starts_with_prefix split: option.split_asm if_split_asm
      dest: js_number_length)

lemma tl_ws_length: "starts_with [c] (js_ws s) \<Longrightarrow> length (tl (js_ws s)) < length s"
  using js_ws_length [of s] by (cases "js_ws s") auto


lemma js_value_length:
  "js_value rd n s = Some (v, r) \<Longrightarrow> length r < length s"
  "js_members rd n acc s = Some (kvs, r) \<Longrightarrow> length r < length s"
  "js_elements rd n xs s = Some (ys, r) \<Longrightarrow> length r < length s"
proof (induction rd n s and rd n acc s and rd n xs s arbitrary: v r and kvs r and ys r
    rule: js_value_js_members_js_elements.induct)
  case (2 rd n s)
  then obtain c cs where s: "s = c # cs" by (cases s) auto
  note len = js_ws_length [of cs]
  consider "c = dquote" | "c \<noteq> dquote" "c = CHR ''{''" | "c \<noteq> dquote" "c \<noteq> CHR ''{''" "c = CHR ''[''"
    | "c \<noteq> dquote" "c \<noteq> CHR ''{''" "c \<noteq> CHR ''[''" by blast
  then show ?case
  proof cases
    case 1
    then show ?thesis using 2(3) s js_string_length by fastforce
  next
    case c: 2
    show ?thesis
    proof (cases "starts_with ''}'' (js_ws cs)")
      case True
      then show ?thesis using 2(3) s c tl_ws_length [OF True] by simp
    next
      case False
      then obtain kvs where "js_members rd n [] (js_ws cs) = Some (kvs, r)" using 2(3) s c by auto
      then show ?thesis using 2(1) [OF s c False] len s by fastforce
    qed
  next
    case c: 3
    show ?thesis
    proof (cases "starts_with '']'' (js_ws cs)")
      case True
      then show ?thesis using 2(3) s c tl_ws_length [OF True] by simp
    next
      case False
      then obtain xs where "js_elements rd n [] (js_ws cs) = Some (xs, r)" using 2(3) s c by auto
      then show ?thesis using 2(2) [OF s c False] len s by fastforce
    qed
  next
    case 4
    then show ?thesis using 2(3) s js_atom_length [of rd s v r] by simp
  qed
next
  case (4 rd n acc s)
  then obtain k r0 where k: "js_string rd [] (tl s) = Some (k, r0)" "starts_with [dquote] s"
    and colon: "starts_with '':'' (js_ws r0)"
    by (auto split: if_split_asm option.split_asm)
  then obtain w r1 where v: "js_value rd n (js_ws (tl (js_ws r0))) = Some (w, r1)"
    using 4(3) by (auto split: if_split_asm option.split_asm)
  have "length r1 < length (js_ws (tl (js_ws r0)))" using 4(1) k colon v by simp
  moreover have "length (js_ws (tl (js_ws r0))) \<le> length r0"
    using js_ws_length [of "tl (js_ws r0)"] tl_ws_length [OF colon] by simp
  moreover have "length r0 < length (tl s)" using js_string_length [OF k(1)] .
  ultimately have r1: "length r1 < length s" by (cases s) auto
  show ?case
  proof (cases "starts_with ''}'' (js_ws r1)")
    case True
    then show ?thesis using 4(3) k colon v r1 tl_ws_length [OF True] by simp
  next
    case False
    then have comma: "starts_with '','' (js_ws r1)"
      and rest: "js_members rd n (AList.update k w acc) (js_ws (tl (js_ws r1))) = Some (kvs, r)"
      using 4(3) k colon v by (auto simp: Let_def split: if_split_asm)
    have "length r < length (js_ws (tl (js_ws r1)))"
      using 4(2) k colon v False comma rest by simp
    then show ?thesis using js_ws_length [of "tl (js_ws r1)"] tl_ws_length [OF comma] r1 by simp
  qed
next
  case (6 rd n xs s)
  then obtain w r1 where v: "js_value rd n s = Some (w, r1)" by (auto split: option.split_asm)
  have r1: "length r1 < length s" using 6(1) v by simp
  show ?case
  proof (cases "starts_with '']'' (js_ws r1)")
    case True
    then show ?thesis using 6(3) v r1 tl_ws_length [OF True] by simp
  next
    case False
    then have comma: "starts_with '','' (js_ws r1)"
      and rest: "js_elements rd n (xs @ [w]) (js_ws (tl (js_ws r1))) = Some (ys, r)"
      using 6(3) v by (auto simp: Let_def split: if_split_asm)
    have "length r < length (js_ws (tl (js_ws r1)))" using 6(2) v False comma rest by simp
    then show ?thesis using js_ws_length [of "tl (js_ws r1)"] tl_ws_length [OF comma] r1 by simp
  qed
qed simp_all

text \<open>
  Any two amounts of fuel that reach the length of the text give the same answer: None means that the
  text is no JSON.
\<close>

lemma js_value_fuel:
  "2 * length s + 1 \<le> n \<Longrightarrow> 2 * length s + 1 \<le> m \<Longrightarrow> js_value rd n s = js_value rd m s"
  "2 * length s + 1 \<le> n \<Longrightarrow> 2 * length s + 1 \<le> m \<Longrightarrow> js_members rd n acc s = js_members rd m acc s"
  "2 * length s + 2 \<le> n \<Longrightarrow> 2 * length s + 2 \<le> m \<Longrightarrow> js_elements rd n xs s = js_elements rd m xs s"
proof (induction rd n s and rd n acc s and rd n xs s arbitrary: m and m and m
    rule: js_value_js_members_js_elements.induct)
  case (2 rd n s)
  obtain m' where m: "m = Suc m'" using 2(4) by (cases m) auto
  show ?case
  proof (cases s)
    case Nil
    then show ?thesis by (simp add: m)
  next
    case (Cons c cs)
    have len: "length (js_ws cs) \<le> length cs" by (rule js_ws_length)
    have "js_members rd n [] (js_ws cs) = js_members rd m' [] (js_ws cs)"
      if "c \<noteq> dquote" "c = CHR ''{''" "\<not> starts_with ''}'' (js_ws cs)"
      using 2(1) [OF Cons that, of m'] 2(3,4) len Cons m by simp
    moreover have "js_elements rd n [] (js_ws cs) = js_elements rd m' [] (js_ws cs)"
      if "c \<noteq> dquote" "c \<noteq> CHR ''{''" "c = CHR ''[''" "\<not> starts_with '']'' (js_ws cs)"
      using 2(2) [OF Cons that, of m'] 2(3,4) len Cons m by simp
    ultimately show ?thesis by (simp add: Cons m)
  qed
next
  case (4 rd n acc s)
  obtain m' where m: "m = Suc m'" using 4(4) by (cases m) auto
  show ?case
  proof (cases "starts_with [dquote] s")
    case q: True
    show ?thesis
    proof (cases "js_string rd [] (tl s)")
      case None
      then show ?thesis by (simp add: m)
    next
      case (Some kr)
      obtain k r0 where k: "js_string rd [] (tl s) = Some (k, r0)" using Some by (cases kr) auto
      have r0: "length r0 < length s" using js_string_length [OF k] q by (cases s) auto
      show ?thesis
      proof (cases "starts_with '':'' (js_ws r0)")
        case colon: True
        have l1: "length (js_ws (tl (js_ws r0))) < length r0"
          using js_ws_length [of "tl (js_ws r0)"] tl_ws_length [OF colon] by simp
        have eq: "js_value rd n (js_ws (tl (js_ws r0))) = js_value rd m' (js_ws (tl (js_ws r0)))"
          using 4(1) [of "(k, r0)" k r0 m'] q k colon 4(3,4) l1 r0 m by simp
        show ?thesis
        proof (cases "js_value rd n (js_ws (tl (js_ws r0)))")
          case None
          then show ?thesis using eq by (simp add: m k)
        next
          case (Some vr)
          obtain v r1 where v: "js_value rd n (js_ws (tl (js_ws r0))) = Some (v, r1)" using Some by (cases vr) auto
          have r1: "length r1 < length r0" using js_value_length(1) [OF v] l1 by simp
          have "js_members rd n (AList.update k v acc) (js_ws (tl (js_ws r1)))
              = js_members rd m' (AList.update k v acc) (js_ws (tl (js_ws r1)))"
            if c: "starts_with '','' (js_ws r1)" and b: "\<not> starts_with ''}'' (js_ws r1)"
            using 4(2) [of "(k, r0)" k r0 "(v, r1)" v r1 "js_ws r1" "AList.update k v acc" m'] q k colon v b c
              4(3,4) r0 r1 m js_ws_length [of "tl (js_ws r1)"] tl_ws_length [OF c] by simp
          moreover have "js_value rd m' (js_ws (tl (js_ws r0))) = Some (v, r1)" using eq v by simp
          ultimately show ?thesis using v k q colon by (simp add: m Let_def)
        qed
      qed (simp add: m k)
    qed
  qed (simp add: m)
next
  case (6 rd n xs s)
  obtain m' where m: "m = Suc m'" using 6(4) by (cases m) auto
  have eq: "js_value rd n s = js_value rd m' s" using 6(1) [of m'] 6(3,4) m by simp
  show ?case
  proof (cases "js_value rd n s")
    case None
    then show ?thesis using eq by (simp add: m)
  next
    case (Some vr)
    obtain v r1 where v: "js_value rd n s = Some (v, r1)" using Some by (cases vr) auto
    have r1: "length r1 < length s" using js_value_length(1) [OF v] .
    have "js_elements rd n (xs @ [v]) (js_ws (tl (js_ws r1))) = js_elements rd m' (xs @ [v]) (js_ws (tl (js_ws r1)))"
      if c: "starts_with '','' (js_ws r1)" and b: "\<not> starts_with '']'' (js_ws r1)"
      using 6(2) [of "(v, r1)" v r1 "js_ws r1" m'] v b c 6(3,4) r1 m
        js_ws_length [of "tl (js_ws r1)"] tl_ws_length [OF c] by simp
    moreover have "js_value rd m' s = Some (v, r1)" using eq v by simp
    ultimately show ?thesis using v by (simp add: m Let_def)
  qed
qed simp_all

lemma json_loads_fuel:
  "2 * length s + 2 \<le> n \<Longrightarrow>
   json_loads rd s = (case js_value rd n (js_ws s) of
     Some (v, r) \<Rightarrow> if js_ws r = [] then Some v else None | None \<Rightarrow> None)"
  using js_value_fuel(1) [of "js_ws s" "2 * length s + 2" n rd] js_ws_length [of s]
  by (simp add: json_loads_def)

end
