(* ===== verification/Paths.thy ===== *)
theory Paths
  imports Prelude
begin

text \<open>
  \<open>src/tools/paths.py\<close>: the workspace root, path normalisation, the containment check of
  \<open>resolve_workspace_path\<close> and the list of secret-bearing file names. \<open>pathlib.PurePosixPath\<close> is
  modelled by its root and parts. \<open>Path.resolve\<close> asks the operating system about symbolic links, so
  it is an argument \<open>resolve\<close> of the definitions that call it; \<open>lexical_resolve\<close> is what it computes
  when no component is a symbolic link.
\<close>

section \<open>PurePosixPath\<close>

record ppath =
  p_root :: string
  p_parts :: "string list"

definition path_root :: "string \<Rightarrow> string" where
  "path_root s =
     (if starts_with ''//'' s \<and> \<not> starts_with ''///'' s then ''//''
      else if starts_with ''/'' s then ''/'' else '''')"

definition path_of :: "string \<Rightarrow> ppath" where
  "path_of s =
     \<lparr>p_root = path_root s,
      p_parts = filter (\<lambda>x. x \<noteq> [] \<and> x \<noteq> ''.'') (split_on (CHR ''/'') s)\<rparr>"

definition path_str :: "ppath \<Rightarrow> string" where
  "path_str p =
     (if p_root p = [] \<and> p_parts p = [] then ''.'' else p_root p @ py_join ''/'' (p_parts p))"

definition is_absolute :: "ppath \<Rightarrow> bool" where
  "is_absolute p = (p_root p \<noteq> [])"

definition path_join :: "ppath \<Rightarrow> ppath \<Rightarrow> ppath" where
  "path_join p q = (if is_absolute q then q else p\<lparr>p_parts := p_parts p @ p_parts q\<rparr>)"

definition path_name :: "ppath \<Rightarrow> string" where
  "path_name p = (if p_parts p = [] then [] else last (p_parts p))"

text \<open>\<open>suffix\<close>: from the last dot on, unless that dot is the first or the last character.\<close>

definition name_suffix :: "string \<Rightarrow> string" where
  "name_suffix n =
     (let after = takeWhile (\<lambda>c. c \<noteq> CHR ''.'') (rev n); stem = dropWhile (\<lambda>c. c \<noteq> CHR ''.'') (rev n)
      in if length stem \<ge> 2 \<and> after \<noteq> [] then CHR ''.'' # rev after else [])"

definition path_suffix :: "ppath \<Rightarrow> string" where
  "path_suffix p = name_suffix (path_name p)"

text \<open>\<open>p.relative_to(base)\<close>; ValueError when \<open>base\<close> is no ancestor.\<close>

definition relative_to :: "ppath \<Rightarrow> ppath \<Rightarrow> ppath option" where
  "relative_to p base =
     (if p_root p = p_root base \<and> prefix (p_parts base) (p_parts p)
      then Some \<lparr>p_root = '''', p_parts = drop (length (p_parts base)) (p_parts p)\<rparr>
      else None)"

definition inside :: "ppath \<Rightarrow> ppath \<Rightarrow> bool" where
  "inside base p \<longleftrightarrow> relative_to p base \<noteq> None"

text \<open>Resolution without symbolic links: \<open>..\<close> drops the component before it.\<close>

fun collapse :: "string list \<Rightarrow> string list \<Rightarrow> string list" where
  "collapse acc [] = rev acc"
| "collapse acc (x # xs) =
     (if x = ''..'' then collapse (case acc of [] \<Rightarrow> [] | _ # ys \<Rightarrow> ys) xs else collapse (x # acc) xs)"

definition lexical_resolve :: "ppath \<Rightarrow> ppath" where
  "lexical_resolve p = p\<lparr>p_parts := collapse [] (p_parts p)\<rparr>"

section \<open>Normalisation\<close>

fun strip_dot_slash :: "string \<Rightarrow> string" where
  "strip_dot_slash (c # d # s) =
     (if c = CHR ''.'' \<and> d = CHR ''/'' then strip_dot_slash s else c # d # s)"
| "strip_dot_slash s = s"

definition slashes :: "string \<Rightarrow> string" where
  "slashes = map (\<lambda>c. if c = bslash then CHR ''/'' else c)"

definition strip_workspace :: "string \<Rightarrow> string" where
  "strip_workspace p = (if starts_with ''workspace/'' p then drop (length ''workspace/'') p else p)"

definition normalize_workspace_path :: "string \<Rightarrow> string" where
  "normalize_workspace_path path =
     dropWhile (\<lambda>c. c = CHR ''/'') (strip_workspace (strip_dot_slash (slashes (py_strip path))))"

definition normalize_shell_command :: "string \<Rightarrow> string" where
  "normalize_shell_command command = py_replace ''workspace/'' '''' command"

section \<open>Containment\<close>

definition resolve_workspace_path ::
    "(ppath \<Rightarrow> ppath) \<Rightarrow> ppath \<Rightarrow> string \<Rightarrow> ppath res" where
  "resolve_workspace_path resolve root path =
     (let root_resolved = resolve root;
          candidate = path_of (slashes (py_strip path));
          resolved =
            (if is_absolute candidate then resolve candidate
             else let normalized = normalize_workspace_path path;
                      rel = (if normalized \<noteq> [] then normalized else ''.'')
                  in resolve (path_join root_resolved (path_of rel)))
      in case relative_to resolved root_resolved of
           None \<Rightarrow> Inl (ValueError (''Path escapes workspace: '' @ path))
         | Some _ \<Rightarrow> Inr resolved)"

section \<open>Secrets\<close>

definition sensitive_names :: "string list" where
  "sensitive_names =
     [''.env'', ''credentials'', ''credentials.json'', ''secrets.json'', ''id_rsa'', ''id_ed25519'']"

definition sensitive_suffixes :: "string list" where
  "sensitive_suffixes = [''.pem'', ''.key'', ''.p12'', ''.pfx'']"

definition is_sensitive_path :: "ppath \<Rightarrow> bool" where
  "is_sensitive_path candidate =
     (let name = py_lower (path_name candidate)
      in if name \<in> set [''.env.example'', ''.env.sample'', ''.env.template''] then False
         else name \<in> set sensitive_names \<or> starts_with ''.env.'' name
              \<or> py_lower (path_suffix candidate) \<in> set sensitive_suffixes)"

section \<open>Active root\<close>

text \<open>
  The module-global root: \<open>set_workspace_root\<close>, \<open>get_workspace_root\<close> and
  \<open>reset_workspace_root\<close> over the default \<open>repo/workspace\<close>.
\<close>

record root_state =
  default_root :: ppath
  active_root :: ppath

definition set_workspace_root :: "ppath \<Rightarrow> root_state \<Rightarrow> root_state" where
  "set_workspace_root p st = st\<lparr>active_root := p\<rparr>"

definition get_workspace_root :: "root_state \<Rightarrow> ppath" where
  "get_workspace_root st = active_root st"

definition reset_workspace_root :: "root_state \<Rightarrow> root_state" where
  "reset_workspace_root st = st\<lparr>active_root := default_root st\<rparr>"

section \<open>Properties\<close>

lemma relative_to_Some:
  "relative_to p base = Some r \<longleftrightarrow>
     p_root p = p_root base \<and> r = \<lparr>p_root = '''', p_parts = drop (length (p_parts base)) (p_parts p)\<rparr>
     \<and> prefix (p_parts base) (p_parts p)"
  by (auto simp: relative_to_def)

lemma inside_iff: "inside base p \<longleftrightarrow> p_root p = p_root base \<and> prefix (p_parts base) (p_parts p)"
  by (simp add: inside_def relative_to_def)

lemma path_join_relative_to:
  assumes "inside base p"
  shows "\<exists>r. relative_to p base = Some r \<and> path_join base r = p"
  using assms
  by (cases p; cases base) (auto simp: inside_iff relative_to_def path_join_def is_absolute_def prefix_def)

text \<open>
  Whatever the operating system resolves a path to, the result of \<open>resolve_workspace_path\<close> lies in
  the resolved root: links and \<open>..\<close> components included.
\<close>

lemma resolve_workspace_path_inside:
  "resolve_workspace_path resolve root path = Inr p \<Longrightarrow> inside (resolve root) p"
  by (auto simp: resolve_workspace_path_def inside_def Let_def split: option.splits)

lemma resolve_workspace_path_error:
  "resolve_workspace_path resolve root path = Inl e \<Longrightarrow>
     e = ValueError (''Path escapes workspace: '' @ path)"
  by (auto simp: resolve_workspace_path_def Let_def split: option.splits)

lemma normalize_no_slash:
  "normalize_workspace_path path = [] \<or> hd (normalize_workspace_path path) \<noteq> CHR ''/''"
  by (metis (mono_tags, lifting) hd_dropWhile normalize_workspace_path_def)

text \<open>A lexically resolved path has no \<open>..\<close> left.\<close>

lemma collapse_no_dotdot:
  "''..'' \<notin> set acc \<Longrightarrow> ''..'' \<notin> set (collapse acc xs)"
  by (induction acc xs rule: collapse.induct) (auto split: list.splits)

lemma lexical_resolve_no_dotdot: "''..'' \<notin> set (p_parts (lexical_resolve p))"
  by (simp add: lexical_resolve_def collapse_no_dotdot)

lemma collapse_no_dotdot_id: "''..'' \<notin> set xs \<Longrightarrow> collapse acc xs = rev acc @ xs"
  by (induction xs arbitrary: acc) auto

lemma lexical_resolve_idem: "lexical_resolve (lexical_resolve p) = lexical_resolve p"
  using lexical_resolve_no_dotdot [of p]
  by (simp add: lexical_resolve_def collapse_no_dotdot_id)

lemma path_of_parts: "x \<in> set (p_parts (path_of s)) \<Longrightarrow> x \<noteq> [] \<and> x \<noteq> ''.''"
  by (simp add: path_of_def)

lemma path_of_relative: "s = [] \<or> hd s \<noteq> CHR ''/'' \<Longrightarrow> \<not> is_absolute (path_of s)"
  by (cases s) (auto simp: path_of_def is_absolute_def path_root_def)

text \<open>
  On a file system without symbolic links a relative request without \<open>..\<close> components is never
  refused, so the containment check does not reject legitimate work.
\<close>

lemma resolve_relative_ok:
  assumes "\<not> is_absolute (path_of (slashes (py_strip path)))"
    and "''..'' \<notin> set (p_parts (path_of (normalize_workspace_path path)))"
  shows "\<exists>p. resolve_workspace_path lexical_resolve root path = Inr p"
proof -
  define n where "n = normalize_workspace_path path"
  define rel where "rel = path_of (if n \<noteq> [] then n else ''.'')"
  have rel: "\<not> is_absolute rel"
    unfolding rel_def using normalize_no_slash [of path]
    by (intro path_of_relative) (auto simp: n_def)
  have "''..'' \<notin> set (p_parts rel)"
    using assms(2) by (auto simp: rel_def n_def path_of_def)
  then have "p_parts (lexical_resolve (path_join (lexical_resolve root) rel))
      = p_parts (lexical_resolve root) @ p_parts rel"
    using rel lexical_resolve_no_dotdot [of root]
    by (simp add: lexical_resolve_def path_join_def collapse_no_dotdot_id)
  moreover have "p_root (lexical_resolve (path_join (lexical_resolve root) rel)) = p_root (lexical_resolve root)"
    using rel by (simp add: lexical_resolve_def path_join_def)
  ultimately have "inside (lexical_resolve root) (lexical_resolve (path_join (lexical_resolve root) rel))"
    by (simp add: inside_iff)
  moreover have "resolve_workspace_path lexical_resolve root path =
      (case relative_to (lexical_resolve (path_join (lexical_resolve root) rel)) (lexical_resolve root) of
         None \<Rightarrow> Inl (ValueError (''Path escapes workspace: '' @ path))
       | Some _ \<Rightarrow> Inr (lexical_resolve (path_join (lexical_resolve root) rel)))"
    unfolding resolve_workspace_path_def Let_def rel_def n_def using assms(1) by simp
  ultimately show ?thesis by (auto simp: inside_def)
qed

lemma root_laws:
  "get_workspace_root (set_workspace_root p st) = p"
  "get_workspace_root (reset_workspace_root (set_workspace_root p st)) = default_root st"
  by (simp_all add: get_workspace_root_def set_workspace_root_def reset_workspace_root_def)

end
