(* ===== verification/Policy.thy ===== *)
theory Policy
  imports PyRegex PyShlex
begin

text \<open>
  \<open>src/sandbox/policy.py\<close>: the command policy every shell command of an agent passes before it
  runs. A script is searched for blocked patterns, split into segments, and the first token of each
  segment is looked up in the allowlist of the shell profile, with extra gates for \<open>rm\<close>,
  \<open>python -m pip\<close> and \<open>python -c\<close>.
\<close>

section \<open>Modes and verdicts\<close>

datatype sandbox_mode = Strict | Balanced | Permissive

text \<open>Modes are ordered by how much they let through.\<close>

instantiation sandbox_mode :: linorder
begin

definition mode_rank :: "sandbox_mode \<Rightarrow> nat" where
  "mode_rank m = (case m of Strict \<Rightarrow> 0 | Balanced \<Rightarrow> 1 | Permissive \<Rightarrow> 2)"

definition less_eq_sandbox_mode :: "sandbox_mode \<Rightarrow> sandbox_mode \<Rightarrow> bool" where
  "less_eq_sandbox_mode a b = (mode_rank a \<le> mode_rank b)"

definition less_sandbox_mode :: "sandbox_mode \<Rightarrow> sandbox_mode \<Rightarrow> bool" where
  "less_sandbox_mode a b = (mode_rank a < mode_rank b)"

instance
  by intro_classes
     (auto simp: less_eq_sandbox_mode_def less_sandbox_mode_def mode_rank_def
           split: sandbox_mode.splits)

end

definition mode_value :: "sandbox_mode \<Rightarrow> string" where
  "mode_value m = (case m of Strict \<Rightarrow> ''strict'' | Balanced \<Rightarrow> ''balanced'' | Permissive \<Rightarrow> ''permissive'')"

text \<open>\<open>get_sandbox_mode\<close> on the configured text: an unknown value means balanced.\<close>

definition parse_sandbox_mode :: "string \<Rightarrow> sandbox_mode" where
  "parse_sandbox_mode raw =
     (if raw = ''strict'' then Strict else if raw = ''permissive'' then Permissive else Balanced)"

record policy_verdict =
  allowed :: bool
  reason :: string

abbreviation accept :: policy_verdict where
  "accept \<equiv> \<lparr>allowed = True, reason = []\<rparr>"

abbreviation deny :: "string \<Rightarrow> policy_verdict" where
  "deny r \<equiv> \<lparr>allowed = False, reason = r\<rparr>"

section \<open>Blocked patterns\<close>

definition word_ci :: "string \<Rightarrow> rx" where
  "word_ci w = seqs [WordB, lit_ci w, WordB]"

definition ends_or_space :: rx where
  "ends_or_space = Alt (Chars is_space) EndText"

definition starts_or_sep :: rx where
  "starts_or_sep = Alt BeginText (Chars (\<lambda>c. is_space c \<or> c = CHR ''/''))"

definition word_dash :: "char \<Rightarrow> bool" where
  "word_dash c = (is_word c \<or> c = CHR ''-'')"

definition global_block_patterns :: "(string \<times> rx) list" where
  "global_block_patterns =
    [(bs ''@bsudo@b'', word_ci ''sudo''),
     (bs ''@bsu@s'', seqs [WordB, lit_ci ''su'', Chars is_space]),
     (bs ''@bcurl@b'', word_ci ''curl''),
     (bs ''@bwget@b'', word_ci ''wget''),
     (bs ''@bssh@b'', word_ci ''ssh''),
     (bs ''@bscp@b'', word_ci ''scp''),
     (bs ''@bnc@b'', word_ci ''nc''),
     (bs ''@btelnet@b'', word_ci ''telnet''),
     (bs ''@bkill@b'', word_ci ''kill''),
     (bs ''@bpkill@b'', word_ci ''pkill''),
     (bs ''@bkillall@b'', word_ci ''killall''),
     (bs ''@bchmod@b'', word_ci ''chmod''),
     (bs ''@bchown@b'', word_ci ''chown''),
     (bs ''@bmount@b'', word_ci ''mount''),
     (bs ''@bumount@b'', word_ci ''umount''),
     (bs ''@bdd@b'', word_ci ''dd''),
     (bs ''@bmkfs@b'', word_ci ''mkfs''),
     (bs ''rm@s+-rf@s+/@s*'', seqs [lit_ci ''rm'', Spaces1, lit_ci ''-rf'', Spaces1, lit ''/'', Spaces]),
     (bs ''rm@s+-rf@s+/@*'', seqs [lit_ci ''rm'', Spaces1, lit_ci ''-rf'', Spaces1, lit ''/*'']),
     (bs ''>@s*/etc/'', seqs [lit ''>'', Spaces, lit_ci ''/etc/'']),
     (bs ''>@s*~/'', seqs [lit ''>'', Spaces, lit ''~/'']),
     (bs ''>@s*@$HOME'', seqs [lit ''>'', Spaces, lit_ci ''$HOME'']),
     (bs ''@$@(@s*curl'', seqs [lit ''$('', Spaces, lit_ci ''curl'']),
     (''`curl'', lit_ci ''`curl''),
     (bs ''&&@s*curl'', seqs [lit ''&&'', Spaces, lit_ci ''curl'']),
     (bs ''@|@s*bash'', seqs [lit ''|'', Spaces, lit_ci ''bash'']),
     (bs ''@|@s*sh@s'', seqs [lit ''|'', Spaces, lit_ci ''sh'', Chars is_space]),
     (bs ''(?:^|[@s/])@.env(?:@.(?!example|sample|template)[@w-]+)?(?:@s|$)'',
        seqs [starts_or_sep, lit_ci ''.env'',
              Opt (seqs [lit ''.'', NotAhead (alts [lit_ci ''example'', lit_ci ''sample'', lit_ci ''template'']),
                         Plus (Chars word_dash)]),
              ends_or_space]),
     (bs ''(?:^|[@s/])(?:credentials(?:@.json)?|secrets@.json|id_rsa|id_ed25519)(?:@s|$)'',
        seqs [starts_or_sep,
              alts [Seq (lit_ci ''credentials'') (Opt (lit_ci ''.json'')), lit_ci ''secrets.json'',
                    lit_ci ''id_rsa'', lit_ci ''id_ed25519''],
              ends_or_space]),
     (bs ''(?:^|[@s/])[@w.-]+@.(?:pem|key|p12|pfx)(?:@s|$)'',
        seqs [starts_or_sep, Plus (Chars (\<lambda>c. word_dash c \<or> c = CHR ''.'')), lit ''.'',
              alts [lit_ci ''pem'', lit_ci ''key'', lit_ci ''p12'', lit_ci ''pfx''], ends_or_space]),
     (bs ''&@s*$'', seqs [lit ''&'', Spaces, EndText]),
     (bs '';@s*&'', seqs [lit '';'', Spaces, lit ''&''])]"

definition worker_block_patterns :: "(string \<times> rx) list" where
  "worker_block_patterns =
    [(bs ''@beval@b'', word_ci ''eval''), (bs ''@bexec@b'', word_ci ''exec'')]"

text \<open>\<open>(?<![\w/])(/etc/|/root/|/home/[^/]+/\.ssh)\<close>.\<close>

definition jail_pattern :: rx where
  "jail_pattern =
     Seq (NotBehind (\<lambda>c. is_word c \<or> c = CHR ''/''))
         (alts [lit ''/etc/'', lit ''/root/'',
                seqs [lit ''/home/'', Plus (Chars (\<lambda>c. c \<noteq> CHR ''/'')), lit ''/.ssh'']])"

fun first_match :: "(string \<times> rx) list \<Rightarrow> string \<Rightarrow> string option" where
  "first_match [] s = None"
| "first_match ((t, r) # ps) s =
     (if rx_search r s then Some (''Blocked pattern matched: '' @ t) else first_match ps s)"

definition check_blocklist :: "string \<Rightarrow> string \<Rightarrow> string option" where
  "check_blocklist script profile =
     (case first_match global_block_patterns script of
        Some r \<Rightarrow> Some r
      | None \<Rightarrow>
        (case (if profile = ''worker'' then first_match worker_block_patterns script else None) of
           Some r \<Rightarrow> Some r
         | None \<Rightarrow>
           if rx_search jail_pattern script
           then Some ''Blocked: absolute path outside session jail'' else None))"

section \<open>Allowlists\<close>

definition worker_allow :: "string list" where
  "worker_allow =
    [''pytest'', ''python'', ''python3'', ''flake8'', ''black'', ''mypy'', ''ruff'',
     ''ls'', ''find'', ''cat'', ''head'', ''tail'', ''wc'', ''grep'', ''rg'', ''echo'',
     ''test'', ''['', ''true'', ''false'', ''pwd'', ''dirname'', ''basename'', ''sort'',
     ''uniq'', ''diff'', ''make'', ''touch'', ''mkdir'', ''cp'', ''mv'', ''rm'',
     ''cd'', ''env'', ''which'', ''file'', ''stat'', ''tree'']"

definition validation_allow :: "string list" where
  "validation_allow =
    [''pytest'', ''python'', ''python3'', ''flake8'', ''black'', ''mypy'', ''ruff'',
     ''test'', ''['', ''true'', ''false'', ''echo'', ''ls'', ''cat'', ''pwd'']"

definition review_allow :: "string list" where
  "review_allow =
    [''python'', ''python3'', ''ls'', ''cat'', ''pwd'', ''echo'', ''test'', ''['',
     ''true'', ''false'', ''rg'', ''grep'', ''git'', ''which'', ''file'', ''stat'']"

definition fixverify_allow :: "string list" where
  "fixverify_allow =
    [''python'', ''python3'', ''pytest'', ''flake8'', ''black'', ''mypy'', ''ruff'',
     ''ls'', ''cat'', ''pwd'', ''echo'', ''test'', ''['', ''true'', ''false'',
     ''rg'', ''grep'', ''git'', ''which'', ''file'', ''stat'']"

definition pip_allow :: "string list" where
  "pip_allow = [''python'', ''python3'']"

definition devserver_allow :: "string list" where
  "devserver_allow =
    [''python'', ''python3'', ''node'', ''npm'', ''pnpm'', ''yarn'', ''npx'',
     ''streamlit'', ''uvicorn'', ''vite'']"

definition browser_allow :: "string list" where
  "browser_allow = [''python'', ''python3'', ''node'', ''npx'']"

definition allowlist_for_profile :: "string \<Rightarrow> string list" where
  "allowlist_for_profile profile =
     (if profile = ''validation'' then validation_allow
      else if profile = ''review'' then review_allow
      else if profile = ''fixverify'' then fixverify_allow
      else if profile = ''pip'' then pip_allow
      else if profile = ''devserver'' then devserver_allow
      else if profile = ''browser'' then browser_allow
      else worker_allow)"

definition py_modules_for_profile :: "string \<Rightarrow> string list" where
  "py_modules_for_profile profile =
     (if profile = ''validation''
        then [''pytest'', ''flake8'', ''black'', ''mypy'', ''ruff'', ''py_compile'', ''compileall'']
      else if profile = ''review'' then [''py_compile'', ''compileall'']
      else if profile = ''fixverify''
        then [''pytest'', ''flake8'', ''black'', ''mypy'', ''ruff'', ''py_compile'', ''compileall'']
      else if profile = ''pip'' then [''pip'']
      else if profile = ''devserver'' \<or> profile = ''browser''
        then [''streamlit'', ''uvicorn'', ''http.server'']
      else [''pytest'', ''flake8'', ''black'', ''mypy'', ''ruff'', ''compileall'', ''py_compile''])"

section \<open>Segments and tokens\<close>

definition sep_char :: "char \<Rightarrow> bool" where
  "sep_char c = (c = CHR '';'' \<or> c = nl)"

definition push_head :: "char \<Rightarrow> string list \<Rightarrow> string list" where
  "push_head c ps = (case ps of [] \<Rightarrow> [[c]] | p # qs \<Rightarrow> (c # p) # qs)"

text \<open>\<open>re.split\<close> on \<open>;\<close>, \<open>&&\<close>, \<open>||\<close> and newline.\<close>

fun split_seg :: "string \<Rightarrow> string list" where
  "split_seg [] = [[]]"
| "split_seg [c] = (if sep_char c then [[], []] else [[c]])"
| "split_seg (c # d # cs) =
     (if sep_char c then [] # split_seg (d # cs)
      else if c = d \<and> (c = CHR ''&'' \<or> c = CHR ''|'') then [] # split_seg cs
      else push_head c (split_seg (d # cs)))"

definition split_segments :: "string \<Rightarrow> string list" where
  "split_segments script = filter (\<lambda>p. p \<noteq> []) (map py_strip (split_seg script))"

definition ident_start :: "char \<Rightarrow> bool" where
  "ident_start c = (let n = ord c in (65 \<le> n \<and> n \<le> 90) \<or> (97 \<le> n \<and> n \<le> 122) \<or> n = 95)"

definition ident_char :: "char \<Rightarrow> bool" where
  "ident_char c = (ident_start c \<or> is_digit c)"

text \<open>The text after a leading \<open>NAME=\<close>, if there is one.\<close>

definition env_assignment :: "string \<Rightarrow> string option" where
  "env_assignment s =
     (case s of [] \<Rightarrow> None
      | c # cs \<Rightarrow>
        if ident_start c then
          (case dropWhile ident_char cs of [] \<Rightarrow> None | d # ds \<Rightarrow> if d = CHR ''='' then Some ds else None)
        else None)"

lemma py_strip_length: "length (py_strip s) \<le> length s"
proof -
  have "length (py_strip s) \<le> length (dropWhile is_space s)"
    by (simp add: py_strip_def length_dropWhile_le order.trans)
      (metis length_dropWhile_le length_rev)
  also have "\<dots> \<le> length s" by (rule length_dropWhile_le)
  finally show ?thesis .
qed

lemma env_assignment_shorter: "env_assignment s = Some r \<Longrightarrow> length r < length s"
proof -
  assume a: "env_assignment s = Some r"
  then obtain c cs where s: "s = c # cs" and d: "dropWhile ident_char cs = CHR ''='' # r"
    by (auto simp: env_assignment_def split: list.splits if_splits)
  from d have "length (CHR ''='' # r) \<le> length cs" by (metis length_dropWhile_le)
  with s show ?thesis by simp
qed

function strip_env :: "string \<Rightarrow> string" where
  "strip_env s = (case env_assignment s of None \<Rightarrow> s | Some r \<Rightarrow> strip_env (py_strip r))"
  by pat_completeness auto
termination
proof (relation "measure length")
  fix s r assume "env_assignment s = Some r"
  then show "(py_strip r, s) \<in> measure length"
    using env_assignment_shorter [of s r] py_strip_length [of r] by simp
qed simp

declare strip_env.simps [simp del]

definition first_command_token :: "string \<Rightarrow> string" where
  "first_command_token segment =
     (let segment' = strip_env (py_strip segment)
      in case sh_split segment' of
           Inl _ \<Rightarrow> (case split_ws segment' of [] \<Rightarrow> [] | w # _ \<Rightarrow> w)
         | Inr tokens \<Rightarrow> (case tokens of [] \<Rightarrow> [] | t # _ \<Rightarrow> t))"

definition is_python_interpreter :: "string \<Rightarrow> bool" where
  "is_python_interpreter token =
     (token = ''python'' \<or> token = ''python3''
      \<or> ends_with ''/bin/python'' token \<or> ends_with ''/bin/python3'' token)"

section \<open>The gates\<close>

definition safe_probe_patterns :: "rx list" where
  "safe_probe_patterns =
    [seqs [lit ''import'', Spaces1, lit ''importlib''],
     lit ''importlib.util.find_spec'',
     seqs [lit ''import'', Spaces1, lit ''sys'', WordB, Star (Chars (\<lambda>_. True)), lit ''sys.version''],
     seqs [lit ''from'', Spaces1, lit ''platform'', Spaces1, lit ''import'']]"

definition safe_probe_script :: "string \<Rightarrow> bool" where
  "safe_probe_script body =
     (let lowered = py_lower (py_strip body);
          banned = [''open('', ''write'', ''os.'', ''sys.modules'', ''subprocess'', ''socket'',
                    ''urllib'', ''requests'', ''pip install'', ''__import__'', ''eval'', ''exec'']
      in if lowered = [] then False
         else if (\<exists>t\<in>set banned. contains t lowered) \<and>
                 (\<not> contains ''importlib.util.find_spec'' body \<or>
                  (\<exists>t\<in>set [''__import__'', ''eval'', ''exec'', ''subprocess'', ''socket'']. contains t lowered))
         then False
         else (\<exists>r\<in>set safe_probe_patterns. rx_search r body))"

definition check_python_module :: "string \<Rightarrow> string \<Rightarrow> bool" where
  "check_python_module segment profile =
     (case sh_split segment of
        Inl _ \<Rightarrow> False
      | Inr tokens \<Rightarrow>
        length tokens \<ge> 3 \<and> is_python_interpreter (tokens ! 0) \<and> tokens ! 1 = ''-m'' \<and>
        tokens ! 2 \<in> set (py_modules_for_profile profile))"

definition rm_absolute :: rx where
  "rm_absolute =
     seqs [Spaces1, alts [seqs [lit ''-r'', Opt (lit ''f'')], lit ''--recursive''], Spaces1, lit ''/'']"

text \<open>
  The body of the \<open>try\<close> block of \<open>_segment_allowed\<close>: the verdict it returns, or none when control
  falls through (a ValueError of \<open>shlex.split\<close> included).
\<close>

definition python_gate :: "string \<Rightarrow> string \<Rightarrow> policy_verdict option" where
  "python_gate segment profile =
     (case sh_split segment of
        Inl _ \<Rightarrow> None
      | Inr tokens \<Rightarrow>
        if length tokens \<ge> 3 \<and> tokens ! 1 = ''-m'' \<and> tokens ! 2 = ''pip'' \<and> profile \<noteq> ''pip'' then
          (if (profile = ''review'' \<or> profile = ''fixverify'') \<and> length tokens \<ge> 4 \<and>
              tokens ! 3 \<in> set [''show'', ''list'', ''--version'']
           then Some accept
           else Some (deny (''pip module not allowed in '' @ profile @ '' shell profile'')))
        else if (profile = ''review'' \<or> profile = ''fixverify'') \<and> length tokens \<ge> 3 \<and> tokens ! 1 = ''-c'' then
          (if safe_probe_script (tokens ! 2) then Some accept
           else Some (deny (''python -c probe not allowed in '' @ profile @ '' shell profile'')))
        else None)"

definition segment_allowed :: "string \<Rightarrow> string \<Rightarrow> sandbox_mode \<Rightarrow> policy_verdict" where
  "segment_allowed segment profile mode =
     (case check_blocklist segment profile of
        Some block \<Rightarrow> deny block
      | None \<Rightarrow>
        let token = first_command_token segment in
        if token = [] then deny ''Empty command segment''
        else if mode = Permissive then accept
        else if token \<in> set (allowlist_for_profile profile) \<or> is_python_interpreter token then
          (if token = ''rm'' \<and> profile \<noteq> ''pip'' \<and> rx_search rm_absolute segment
           then deny ''rm with absolute path blocked''
           else case python_gate segment profile of Some v \<Rightarrow> v | None \<Rightarrow> accept)
        else if is_python_interpreter token \<and> check_python_module segment profile then accept
        else if mode = Balanced \<and> profile = ''worker'' \<and> starts_with ''pytest'' (py_strip segment)
        then accept
        else deny (''Command '' @ squote # token @ squote # '' not in '' @ profile @
                   '' allowlist (mode='' @ mode_value mode @ '')''))"

fun first_denied :: "string \<Rightarrow> sandbox_mode \<Rightarrow> string list \<Rightarrow> policy_verdict" where
  "first_denied profile mode [] = accept"
| "first_denied profile mode (seg # segs) =
     (let v = segment_allowed seg profile mode
      in if allowed v then first_denied profile mode segs else v)"

section \<open>The policy in words\<close>

text \<open>
  What the prompts tell the models about the policy. The modules listed are the ones the profile
  names, whatever the verdicts do with them.
\<close>

record policy_reference =
  pr_profile :: string
  pr_commands :: "string list"
  pr_modules :: "string list"
  pr_interpreters :: "string list"
  pr_contracts :: "string list"
  pr_notes :: "string list"

definition policy_examples :: "string list" where
  "policy_examples =
     [''python -m pytest tests/test_x.py --collect-only -q'', ''python -m pytest tests/test_x.py -v -k tokenizer'',
      ''python -m flake8 module.py --max-line-length=120'', ''python -m py_compile tests/test_x.py'']"

definition describe_policy_for_profile :: "string \<Rightarrow> policy_reference" where
  "describe_policy_for_profile profile =
     \<lparr>pr_profile = profile,
      pr_commands = py_sorted_set (allowlist_for_profile profile),
      pr_modules = py_sorted_set (py_modules_for_profile profile),
      pr_interpreters = [''python'', ''python3'', ''<session>/.venv/bin/python''],
      pr_contracts = (if profile = ''validation'' then filter (\<lambda>e. \<not> contains ''pip'' e) policy_examples
                      else policy_examples),
      pr_notes =
        [''Harness rewrites bare python/python3 to the session venv interpreter.'',
         ''Prefer `python -m pytest ...` over custom shell pipelines.'',
         ''Test-scaffolding milestones: use --collect-only, not grep/py_compile tricks.'',
         ''Do not use pip install, curl, sudo, or bash eval/exec in contracts.'']\<rparr>"

definition ticked :: "string \<Rightarrow> string" where
  "ticked w = CHR ''`'' # w @ ''`''"

definition format_policy_reference :: "string \<Rightarrow> string" where
  "format_policy_reference profile =
     (let ref = describe_policy_for_profile profile
      in py_join [nl]
        ([''**Profile**: '' @ ticked (pr_profile ref),
          ''**Allowed shell commands**: '' @ py_join '', '' (map ticked (pr_commands ref)),
          ''**Allowed `python -m` modules**: '' @ py_join '', '' (map ticked (pr_modules ref)),
          ''**Recommended contract examples**:'']
         @ map (\<lambda>e. ''  - '' @ ticked e) (pr_contracts ref)
         @ [''**Notes**:''] @ map (\<lambda>n. ''  - '' @ n) (pr_notes ref)))"

section \<open>Verdicts on scripts and argument vectors\<close>

definition validate_shell_script :: "string \<Rightarrow> string \<Rightarrow> sandbox_mode \<Rightarrow> policy_verdict" where
  "validate_shell_script script0 profile mode =
     (let script = py_strip script0 in
      if script = [] then deny ''Empty script''
      else case check_blocklist script profile of
             Some block \<Rightarrow> deny block
           | None \<Rightarrow> first_denied profile mode (split_segments script))"

definition validate_argv :: "string list \<Rightarrow> string \<Rightarrow> policy_verdict" where
  "validate_argv argv profile =
     (if argv = [] then deny ''Empty argv''
      else case check_blocklist (py_join '' '' argv) profile of
             Some block \<Rightarrow> deny block
           | None \<Rightarrow>
             if profile = ''devserver'' \<or> profile = ''browser'' then
               (let token = first_command_token (py_join '' '' argv) in
                if token \<notin> set (allowlist_for_profile profile) \<and> \<not> is_python_interpreter token
                then deny (''Command '' @ squote # token @ squote # '' not in '' @ profile @ '' allowlist'')
                else accept)
             else accept)"

section \<open>Lemmas\<close>

lemma first_match_None: "first_match ps s = None \<longleftrightarrow> (\<forall>(t, r)\<in>set ps. \<not> rx_search r s)"
  by (induction ps s rule: first_match.induct) auto

lemma check_blocklist_None:
  "check_blocklist script profile = None \<Longrightarrow> \<forall>(t, r)\<in>set global_block_patterns. \<not> rx_search r script"
  by (auto simp: check_blocklist_def first_match_None split: option.splits)

lemma check_blocklist_None_jail:
  "check_blocklist script profile = None \<Longrightarrow> \<not> rx_search jail_pattern script"
  by (auto simp: check_blocklist_def split: option.splits if_splits)

lemma first_denied_allowed:
  "allowed (first_denied profile mode segs) \<longleftrightarrow>
     (\<forall>seg\<in>set segs. allowed (segment_allowed seg profile mode))"
  by (induction profile mode segs rule: first_denied.induct) (auto simp: Let_def)

lemma validate_allowed:
  "allowed (validate_shell_script script profile mode) \<longleftrightarrow>
     py_strip script \<noteq> [] \<and> check_blocklist (py_strip script) profile = None \<and>
     (\<forall>seg\<in>set (split_segments (py_strip script)). allowed (segment_allowed seg profile mode))"
  by (auto simp: validate_shell_script_def Let_def first_denied_allowed split: option.splits)

text \<open>A denial always carries a reason.\<close>

lemma first_match_reason: "first_match ps s = Some r \<Longrightarrow> r \<noteq> []"
  by (induction ps s rule: first_match.induct) (auto split: if_splits)

lemma segment_allowed_mode:
  assumes "mode \<le> mode'" "allowed (segment_allowed seg profile mode)"
  shows "allowed (segment_allowed seg profile mode')"
  using assms
  by (cases mode; cases mode')
     (auto simp: segment_allowed_def less_eq_sandbox_mode_def mode_rank_def Let_def
           split: option.splits if_splits)

lemma segment_allowed_token:
  assumes "allowed (segment_allowed seg profile mode)" "mode \<noteq> Permissive"
  shows "first_command_token seg \<in> set (allowlist_for_profile profile)
         \<or> is_python_interpreter (first_command_token seg)
         \<or> (mode = Balanced \<and> profile = ''worker'' \<and> starts_with ''pytest'' (py_strip seg))"
  using assms by (auto simp: segment_allowed_def Let_def split: option.splits if_splits)

lemma segment_allowed_block:
  "allowed (segment_allowed seg profile mode) \<Longrightarrow> check_blocklist seg profile = None"
  by (auto simp: segment_allowed_def split: option.splits)

text \<open>
  The module check is reached only when the token is no interpreter, so it never decides: the
  lists of \<open>py_modules_for_profile\<close> are not enforced.
\<close>

lemma module_check_unreachable:
  assumes "check_blocklist seg profile = None" "is_python_interpreter (first_command_token seg)"
    and "sh_split seg = Inr (t # ''-m'' # m # rest)" "m \<noteq> ''pip''"
  shows "allowed (segment_allowed seg profile mode)"
proof -
  have "first_command_token seg \<noteq> []" using assms(2) by (auto simp: is_python_interpreter_def ends_with_def)
  moreover have "first_command_token seg \<noteq> ''rm''"
    using assms(2) by (auto simp: is_python_interpreter_def ends_with_def)
  ultimately show ?thesis
    using assms by (auto simp: segment_allowed_def python_gate_def Let_def)
qed

section \<open>Properties\<close>



text \<open>
  The modes are ordered: what strict mode allows balanced mode allows, and what
  balanced mode allows permissive mode allows, for every script and profile.
\<close>

lemma policy_mode_monotone:
  assumes "mode \<le> mode'" and "allowed (validate_shell_script script profile mode)"
  shows "allowed (validate_shell_script script profile mode')"
  using assms by (auto simp: validate_allowed intro: segment_allowed_mode)

text \<open>
  The \<open>python -m\<close> module lists are advisory only: in every profile and mode, a segment
  that names a Python interpreter and runs \<open>-m m\<close> for any module \<open>m\<close> other than pip is allowed as
  soon as no blocked pattern occurs in it, whether or not \<open>m\<close> is in the profile's list.
\<close>

lemma policy_module_list_not_enforced:
  assumes "check_blocklist seg profile = None"
    and "is_python_interpreter (first_command_token seg)"
    and "sh_split seg = Inr (t # ''-m'' # m # rest)" and "m \<noteq> ''pip''"
  shows "allowed (segment_allowed seg profile mode)"
  using assms by (rule module_check_unreachable)

text \<open>
  An environment assignment in front of a command: \<open>_first_command_token\<close> removes \<open>NAME=\<close> and keeps
  the value, which is then taken for the command.
\<close>

definition py_identifier :: "string \<Rightarrow> bool" where
  "py_identifier n \<longleftrightarrow> n \<noteq> [] \<and> ident_start (hd n) \<and> list_all ident_char (tl n)"

lemma ident_not_space: "ident_char c \<Longrightarrow> \<not> is_space c"
  by (auto simp: ident_char_def ident_start_def is_digit_def is_space_def Let_def)

lemma env_assignment_identifier:
  assumes "py_identifier n"
  shows "env_assignment (n @ CHR ''='' # r) = Some r"
proof -
  obtain c cs where n: "n = c # cs" and c: "ident_start c" and cs: "list_all ident_char cs"
    using assms by (cases n) (auto simp: py_identifier_def)
  have "\<not> ident_char (CHR ''='')"
    by (simp add: ident_char_def ident_start_def is_digit_def ord_def)
  with cs have "dropWhile ident_char (cs @ CHR ''='' # r) = CHR ''='' # r"
    by (simp add: dropWhile_append2 list_all_iff)
  with n c show ?thesis by (simp add: env_assignment_def)
qed

lemma py_strip_prefix:
  assumes "u \<noteq> []" "\<not> is_space (hd u)" "\<not> is_space (last u)"
  shows "py_strip (u @ v) = u @ rev (dropWhile is_space (rev v))"
proof -
  have "dropWhile is_space (u @ v) = u @ v" using assms(1,2) by (cases u) auto
  moreover have "dropWhile is_space (rev v @ rev u) = dropWhile is_space (rev v) @ rev u"
  proof (cases "\<forall>c\<in>set v. is_space c")
    case True
    have "dropWhile is_space (rev u) = rev u"
      using assms(1,3) by (cases "rev u") (auto simp: last_rev simp flip: hd_rev)
    moreover have "dropWhile is_space (rev v) = []" using True by (simp add: dropWhile_eq_Nil_conv)
    ultimately show ?thesis using True by (simp add: dropWhile_append_all)
  next
    case False
    then show ?thesis by (simp add: dropWhile_append_some)
  qed
  ultimately show ?thesis by (simp add: py_strip_def)
qed

lemma py_strip_rstrip: "py_strip (rev (dropWhile is_space (rev v))) = py_strip v"
proof (cases "\<forall>c\<in>set v. is_space c")
  case True
  then have e: "dropWhile is_space (rev v) = []" by (simp add: dropWhile_eq_Nil_conv)
  have "py_strip v = []" using True by (simp add: is_space_strip_Nil)
  then show ?thesis unfolding e by (simp add: py_strip_def)
next
  case False
  define w where "w = rev (dropWhile is_space (rev v))"
  obtain sp where v: "v = w @ sp" and sp: "\<forall>c\<in>set sp. is_space c"
    by (metis (no_types) rev_append rev_rev_ident set_rev set_takeWhileD takeWhile_dropWhile_id w_def)
  have "dropWhile is_space (w @ sp) = dropWhile is_space w @ sp"
    using False v sp by (intro dropWhile_append_some) auto
  then have "py_strip v = rev (dropWhile is_space (rev sp @ rev (dropWhile is_space w)))"
    by (simp add: py_strip_def v)
  also have "\<dots> = rev (dropWhile is_space (rev (dropWhile is_space w)))"
    using sp by (simp add: dropWhile_append_all)
  finally show ?thesis by (simp add: py_strip_def w_def)
qed

text \<open>
  The allowlist looks at the value of an environment assignment, not at the command:
  for every identifier \<open>n\<close> the segment \<open>n=w\<close> is judged by the first token of \<open>w\<close>, so the command
  actually run after an assignment such as \<open>X=ls\<close> is never compared with the allowlist.
\<close>

lemma policy_assignment_value_judged:
  assumes "py_identifier n"
  shows "first_command_token (n @ CHR ''='' # w) = first_command_token w"
proof -
  let ?r = "rev (dropWhile is_space (rev w))"
  have "n \<noteq> []" "\<not> is_space (hd n)"
    using assms ident_not_space by (auto simp: py_identifier_def ident_char_def)
  then have "py_strip ((n @ [CHR ''='']) @ w) = (n @ [CHR ''='']) @ ?r"
    by (intro py_strip_prefix) (auto simp: is_space_def ord_def)
  then have "strip_env (py_strip (n @ CHR ''='' # w)) = strip_env (py_strip ?r)"
    using env_assignment_identifier [OF assms, of ?r]
    by (subst strip_env.simps) simp
  then show ?thesis by (simp add: first_command_token_def py_strip_rstrip)
qed

text \<open>
  The pip and \<open>python -c\<close> gates outside permissive mode: an allowed segment that parses
  to \<open>python -m pip ...\<close> is in the pip profile or is a \<open>show\<close>, \<open>list\<close> or \<open>--version\<close> query of the
  read-only profiles; one that parses to \<open>python -c body\<close> in a read-only profile has a body that
  passes the probe check.
\<close>

lemma policy_python_gates:
  assumes "allowed (segment_allowed seg profile mode)" and "mode \<noteq> Permissive"
    and "sh_split seg = Inr (t # opt # x # rest)"
    and "is_python_interpreter (first_command_token seg)"
  shows "(opt = ''-m'' \<and> x = ''pip'' \<longrightarrow>
            profile = ''pip'' \<or>
            (profile \<in> {''review'', ''fixverify''} \<and>
             (\<exists>a r. rest = a # r \<and> a \<in> {''show'', ''list'', ''--version''})))
         \<and> (opt = ''-c'' \<and> profile \<in> {''review'', ''fixverify''} \<longrightarrow> safe_probe_script x)"
proof -
  have rm: "first_command_token seg \<noteq> ''rm''"
    using assms(4) by (auto simp: is_python_interpreter_def ends_with_def)
  have "\<forall>v. python_gate seg profile = Some v \<longrightarrow> allowed v"
    using assms(1,2,4) rm by (auto simp: segment_allowed_def Let_def split: option.splits if_splits)
  then show ?thesis
    using assms(3) by (cases rest) (auto simp: python_gate_def split: if_splits)
qed

end
