(* ===== verification/Contracts.thy ===== *)
theory Contracts
  imports PyJson Paths
begin

text \<open>
  \<open>src/agents/contracts.py\<close>: the typed contracts between the agents. LLM replies are arbitrary JSON;
  each \<open>normalize_...\<close> function maps them into a record whose fields come from fixed sets, with safe
  fallbacks. The hotfix work packets built from a route decision and from a review report are here
  too, with \<open>deterministic_guard\<close> of \<open>src/agents/escalation.py\<close>.
\<close>

section \<open>Strings and file lists\<close>

definition strings_of :: "nat \<Rightarrow> json \<Rightarrow> string list" where
  "strings_of limit value =
     (case value of
        JList xs \<Rightarrow> take limit (filter (\<lambda>s. s \<noteq> []) (map (\<lambda>x. py_strip (py_str x)) xs))
      | _ \<Rightarrow> [])"

text \<open>One round of the loop of \<open>_workspace_relative_files\<close>: the path a raw entry adds, if any.\<close>

definition relative_file :: "(ppath \<Rightarrow> ppath) \<Rightarrow> ppath \<Rightarrow> string \<Rightarrow> string option" where
  "relative_file resolve root raw =
     (let candidate0 = path_of raw;
          candidate = (if is_absolute candidate0 then relative_to (resolve candidate0) root
                       else Some candidate0)
      in case candidate of
           None \<Rightarrow> None
         | Some c \<Rightarrow>
           let text = strip_workspace (slashes (path_str c))
           in if text \<noteq> [] \<and> text \<noteq> ''.'' \<and> ''..'' \<notin> set (p_parts (path_of text))
              then Some text else None)"

fun add_files :: "string list \<Rightarrow> string option list \<Rightarrow> string list" where
  "add_files files [] = files"
| "add_files files (None # xs) = add_files files xs"
| "add_files files (Some t # xs) =
     (if t \<in> set files then add_files files xs else add_files (files @ [t]) xs)"

definition workspace_relative_files :: "(ppath \<Rightarrow> ppath) \<Rightarrow> ppath \<Rightarrow> json \<Rightarrow> string list" where
  "workspace_relative_files resolve workspace_root value =
     add_files [] (map (relative_file resolve (resolve workspace_root)) (strings_of 12 value))"

section \<open>Route decisions\<close>

record route_decision =
  rd_route :: string
  rd_confidence :: string
  rd_rationale :: string
  rd_candidate_files :: "string list"
  rd_constraints :: "string list"
  rd_validation_intent :: "string list"
  rd_review_scope :: string
  rd_source :: string

definition one_of :: "string list \<Rightarrow> string \<Rightarrow> string \<Rightarrow> string" where
  "one_of S dflt s = (if s \<in> set S then s else dflt)"

abbreviation routes :: "string list" where
  "routes \<equiv> [''mission'', ''hotfix'', ''review'']"

abbreviation confidences :: "string list" where
  "confidences \<equiv> [''high'', ''medium'', ''low'']"

definition or_text :: "string \<Rightarrow> string \<Rightarrow> string" where
  "or_text s dflt = (if s = [] then dflt else s)"

definition route_rationale :: "obj \<Rightarrow> string" where
  "route_rationale report =
     or_text
       (py_strip (py_str (py_or (dget report ''rationale'' JNull)
                                (py_or (dget report ''summary'' JNull) (JStr [])))))
       ''No routing rationale supplied.''"

definition normalize_route_decision ::
    "(ppath \<Rightarrow> ppath) \<Rightarrow> obj \<Rightarrow> ppath \<Rightarrow> string \<Rightarrow> route_decision" where
  "normalize_route_decision resolve report workspace_root requested_route =
     (let raw_route = get_norm report ''route'' ''mission'';
          confidence0 = one_of confidences ''low'' (get_norm report ''confidence'' ''low'');
          route0 = one_of routes ''mission'' raw_route;
          override = requested_route \<in> set routes;
          route1 = (if override then requested_route else route0);
          confidence = (if override then ''high'' else confidence0);
          source = (if override then ''override'' else ''triage'');
          route2 = (if confidence = ''low'' \<and> source \<noteq> ''override'' then ''mission'' else route1);
          candidate_files = workspace_relative_files resolve workspace_root
            (dget report ''candidate_files'' (dget report ''affected_files'' (JList [])));
          fallback = route2 = ''hotfix'' \<and>
            (candidate_files = [] \<or> (confidence \<noteq> ''high'' \<and> source \<noteq> ''override'')); 
          route3 = (if fallback then ''mission'' else route2)
      in \<lparr>rd_route = route3,
          rd_confidence = confidence,
          rd_rationale =
            (if fallback then
               ''Hotfix routing lacked a high-confidence, evidence-backed file scope; using the planned mission route.''
             else if source = ''override''
               then ''Execution route explicitly requested: '' @ requested_route @ ''.''
             else route_rationale report),
          rd_candidate_files = candidate_files,
          rd_constraints = strings_of 20
            (dget report ''constraints'' (dget report ''repair_constraints'' (JList []))),
          rd_validation_intent = strings_of 20
            (dget report ''validation_intent'' (dget report ''regression_requirements'' (JList []))),
          rd_review_scope = or_text (get_strip report ''review_scope'' ''user_request'') ''user_request'',
          rd_source = source\<rparr>)"

section \<open>Hotfix results\<close>

record hotfix_result =
  hr_status :: string
  hr_diagnosis :: string
  hr_files_modified :: "string list"
  hr_summary :: string
  hr_requested_scope :: "string list"

definition normalize_hotfix_result :: "json \<Rightarrow> hotfix_result res" where
  "normalize_hotfix_result payload =
     (case payload of
        JObj d \<Rightarrow>
          (let status = one_of [''complete'', ''blocked'', ''request_scope'', ''cancelled''] ''blocked''
                 (get_norm d ''status'' ''blocked'');
               why = get_strip d ''reason'' [];
               summary = get_strip d ''summary'' []
           in Inr \<lparr>hr_status = status,
                   hr_diagnosis = or_text why (or_text summary ''No diagnosis supplied.''),
                   hr_files_modified = strings_of 20 (dget d ''files_modified'' (JList [])),
                   hr_summary = summary,
                   hr_requested_scope = strings_of 20
                     (dget d ''requested_paths'' (dget d ''requested_files'' (JList [])))\<rparr>)
      | _ \<Rightarrow> Inl (ValueError ''hotfix result must be an object''))"

section \<open>Escalation decisions\<close>

record escalation_decision =
  ed_decision :: string
  ed_reason :: string
  ed_scope_type :: string
  ed_risk :: string
  ed_goal :: string
  ed_source :: string

definition normalize_escalation_decision :: "json \<Rightarrow> escalation_decision" where
  "normalize_escalation_decision payload =
     (case payload of
        JObj d \<Rightarrow>
          \<lparr>ed_decision = one_of [''stay_hotfix'', ''escalate_mission''] ''stay_hotfix''
             (get_norm d ''decision'' ''stay_hotfix''),
           ed_reason = or_text (get_strip d ''reason'' []) ''No reason supplied.'',
           ed_scope_type = one_of [''localized'', ''cross_cutting'', ''architectural''] ''localized''
             (get_norm d ''scope_type'' ''localized''),
           ed_risk = one_of [''low'', ''medium'', ''high''] ''low'' (get_norm d ''risk'' ''low''),
           ed_goal = get_strip d ''suggested_mission_goal'' [],
           ed_source = ''escalation_triage''\<rparr>
      | _ \<Rightarrow>
          \<lparr>ed_decision = ''stay_hotfix'',
           ed_reason = ''Escalation response was not an object; defaulting to bounded fix.'',
           ed_scope_type = ''localized'', ed_risk = ''low'', ed_goal = [],
           ed_source = ''deterministic''\<rparr>)"

definition escalation_to_dict :: "escalation_decision \<Rightarrow> obj" where
  "escalation_to_dict e =
     [(''decision'', JStr (ed_decision e)), (''reason'', JStr (ed_reason e)),
      (''scope_type'', JStr (ed_scope_type e)), (''risk'', JStr (ed_risk e)),
      (''suggested_mission_goal'', JStr (ed_goal e)), (''source'', JStr (ed_source e))]"

text \<open>
  \<open>deterministic_guard\<close> on a decision dictionary: a high-risk stay that touches a sensitive path
  becomes an escalation. The reason is text in every caller; another value raises TypeError.
\<close>

definition sensitive_areas :: "string list" where
  "sensitive_areas = [''migrations/'', ''api/'', ''setup.py'', ''pyproject.toml'', ''package.json'']"

definition touches_sensitive :: "string list \<Rightarrow> bool" where
  "touches_sensitive target_files =
     (\<exists>f\<in>set target_files. \<exists>s\<in>set sensitive_areas. contains s f)"

definition deterministic_guard :: "obj \<Rightarrow> string list \<Rightarrow> obj res" where
  "deterministic_guard decision target_files =
     (if map_of decision ''decision'' = Some (JStr ''stay_hotfix'') \<and> touches_sensitive target_files \<and>
         map_of decision ''risk'' = Some (JStr ''high'')
      then (case dget decision ''reason'' (JStr []) of
              JStr why \<Rightarrow>
                Inr (AList.update ''reason''
                       (JStr (''Sensitive area with high risk; escalating for planned change. '' @ why))
                       (AList.update ''source'' (JStr ''deterministic'')
                         (AList.update ''decision'' (JStr ''escalate_mission'') decision)))
            | _ \<Rightarrow> Inl TypeError)
      else Inr decision)"

section \<open>Fix verification\<close>

record fix_verification =
  fv_verdict :: string
  fv_summary :: string
  fv_evidence :: "string list"
  fv_fix_guidance :: string
  fv_missing_checks :: "string list"
  fv_escalation_reason :: string

abbreviation fix_verdicts :: "string list" where
  "fix_verdicts \<equiv> [''VERIFIED'', ''NEEDS_REWORK'', ''UNVERIFIED'', ''ESCALATE_TO_MISSION'']"

definition normalize_fix_verification :: "json \<Rightarrow> fix_verification" where
  "normalize_fix_verification payload =
     (case payload of
        JObj d \<Rightarrow>
          \<lparr>fv_verdict = one_of fix_verdicts ''UNVERIFIED''
             (py_upper (get_strip d ''verdict'' ''UNVERIFIED'')),
           fv_summary = or_text (get_strip d ''summary'' []) ''No summary supplied.'',
           fv_evidence = strings_of 20 (dget d ''evidence'' (JList [])),
           fv_fix_guidance = get_strip d ''fix_guidance'' [],
           fv_missing_checks = strings_of 20 (dget d ''missing_checks'' (JList [])),
           fv_escalation_reason = get_strip d ''escalation_reason'' []\<rparr>
      | _ \<Rightarrow>
          \<lparr>fv_verdict = ''UNVERIFIED'',
           fv_summary = ''Verifier response was not an object; treating as unverified.'',
           fv_evidence = [], fv_fix_guidance = [],
           fv_missing_checks = [''unparseable verifier response''],
           fv_escalation_reason = []\<rparr>)"

definition fix_verification_to_dict :: "fix_verification \<Rightarrow> obj" where
  "fix_verification_to_dict v =
     [(''verdict'', JStr (fv_verdict v)), (''summary'', JStr (fv_summary v)),
      (''evidence'', jstrs (fv_evidence v)), (''fix_guidance'', JStr (fv_fix_guidance v)),
      (''missing_checks'', jstrs (fv_missing_checks v)),
      (''escalation_reason'', JStr (fv_escalation_reason v))]"


section \<open>Review reports\<close>

record review_finding =
  f_severity :: string
  f_confidence :: string
  f_title :: string
  f_issue :: string
  f_evidence :: "string list"
  f_affected_files :: "string list"
  f_fix_criteria :: "string list"

record review_report =
  rr_verdict :: string
  rr_summary :: string
  rr_scope :: string
  rr_findings :: "review_finding list"
  rr_tool_calls :: int

definition actionable :: "review_finding \<Rightarrow> bool" where
  "actionable f =
     (f_severity f \<in> set [''blocker'', ''bug''] \<and> f_confidence f = ''high'' \<and>
      f_affected_files f \<noteq> [] \<and> f_fix_criteria f \<noteq> [])"

definition actionable_findings :: "review_report \<Rightarrow> review_finding list" where
  "actionable_findings r = filter actionable (rr_findings r)"

definition finding_dict :: "review_finding \<Rightarrow> json" where
  "finding_dict f =
     JObj [(''severity'', JStr (f_severity f)), (''confidence'', JStr (f_confidence f)),
           (''title'', JStr (f_title f)), (''issue'', JStr (f_issue f)),
           (''evidence'', jstrs (f_evidence f)), (''affected_files'', jstrs (f_affected_files f)),
           (''fix_criteria'', jstrs (f_fix_criteria f))]"

definition review_to_dict :: "review_report \<Rightarrow> obj" where
  "review_to_dict r =
     [(''verdict'', JStr (rr_verdict r)), (''summary'', JStr (rr_summary r)),
      (''scope'', JStr (rr_scope r)), (''findings'', JList (map finding_dict (rr_findings r))),
      (''tool_calls'', JInt (rr_tool_calls r))]"

abbreviation severities :: "string list" where
  "severities \<equiv> [''blocker'', ''bug'', ''risk'', ''style'', ''nit'']"

text \<open>One round of the loop over the raw findings; an entry that is no object is skipped.\<close>

definition review_finding_of :: "(ppath \<Rightarrow> ppath) \<Rightarrow> ppath \<Rightarrow> json \<Rightarrow> review_finding option" where
  "review_finding_of resolve workspace_root raw =
     (case raw of
        JObj d \<Rightarrow>
          Some \<lparr>f_severity = one_of severities ''risk'' (py_lower (get_str d ''severity'' ''risk'')),
                f_confidence = one_of confidences ''low'' (py_lower (get_str d ''confidence'' ''low'')),
                f_title = get_strip d ''title'' ''Untitled finding'',
                f_issue = get_strip d ''issue'' [],
                f_evidence = strings_of 20 (dget d ''evidence'' (JList [])),
                f_affected_files = workspace_relative_files resolve workspace_root
                  (dget d ''affected_files'' (JList [])),
                f_fix_criteria = strings_of 20 (dget d ''fix_criteria'' (JList []))\<rparr>
      | _ \<Rightarrow> None)"

definition review_findings_of :: "(ppath \<Rightarrow> ppath) \<Rightarrow> ppath \<Rightarrow> json list \<Rightarrow> review_finding list" where
  "review_findings_of resolve workspace_root raws =
     concat (map (\<lambda>raw. case review_finding_of resolve workspace_root raw of
                           None \<Rightarrow> [] | Some f \<Rightarrow> [f]) raws)"

definition normalize_review_report ::
    "(ppath \<Rightarrow> ppath) \<Rightarrow> json \<Rightarrow> ppath \<Rightarrow> int \<Rightarrow> review_report res" where
  "normalize_review_report resolve payload workspace_root tool_calls =
     (case payload of
        JObj d \<Rightarrow>
          (let verdict = get_norm d ''verdict'' []; summary = get_strip d ''summary'' []
           in if verdict \<notin> set [''clean'', ''issues_found'']
              then Inl (ValueError ''review verdict must be clean or issues_found'')
              else if summary = [] then Inl (ValueError ''review summary must be non-empty'')
              else case dget d ''findings'' (JList []) of
                     JList raws \<Rightarrow>
                       Inr \<lparr>rr_verdict = verdict, rr_summary = summary,
                            rr_scope = or_text (get_strip d ''scope'' ''user_request'') ''user_request'',
                            rr_findings =
                              (if verdict = ''clean'' then []
                               else review_findings_of resolve workspace_root (take 30 raws)),
                            rr_tool_calls = tool_calls\<rparr>
                   | _ \<Rightarrow> Inl (ValueError ''review findings must be a list''))
      | _ \<Rightarrow> Inl (ValueError ''review report must be a JSON object''))"

section \<open>Hotfix work packets\<close>

definition ui_suffixes :: "string list" where
  "ui_suffixes = [''.html'', ''.css'', ''.js'', ''.jsx'', ''.ts'', ''.tsx'', ''.vue'']"

definition has_ui_suffix :: "string list \<Rightarrow> bool" where
  "has_ui_suffix files = (\<exists>f\<in>set files. py_lower (path_suffix (path_of f)) \<in> set ui_suffixes)"

definition hotfix_milestone_from_route :: "route_decision \<Rightarrow> string \<Rightarrow> string \<Rightarrow> obj" where
  "hotfix_milestone_from_route d user_request milestone_id =
     (let criteria = (if rd_validation_intent d \<noteq> [] then rd_validation_intent d
                      else [''The reported issue is fixed: '' @ py_strip user_request])
      in [(''id'', JStr milestone_id), (''title'', JStr ''Focused hotfix''),
          (''description'', JStr (py_strip user_request)), (''depends_on'', JList []),
          (''target_files'', jstrs (rd_candidate_files d)),
          (''acceptance_criteria'', jstrs criteria),
          (''validation_profile'',
            JStr (if has_ui_suffix (rd_candidate_files d) then ''ui'' else ''auto'')),
          (''status'', JStr ''pending''), (''route'', JStr ''hotfix''),
          (''constraints'', jstrs (rd_constraints d))])"

definition hotfix_milestone_from_review :: "review_report \<Rightarrow> string \<Rightarrow> obj" where
  "hotfix_milestone_from_review report milestone_id =
     (let findings = actionable_findings report;
          files = py_sorted_set (concat (map f_affected_files findings));
          criteria = concat (map f_fix_criteria findings)
      in hotfix_milestone_from_route
           \<lparr>rd_route = ''hotfix'', rd_confidence = ''high'',
            rd_rationale = ''Fix high-confidence defects identified by code review.'',
            rd_candidate_files = files,
            rd_constraints = [''Do not address non-actionable style or speculative findings.''],
            rd_validation_intent = criteria, rd_review_scope = ''user_request'',
            rd_source = ''review''\<rparr>
           (rr_summary report) milestone_id)"

section \<open>Mission briefs\<close>

text \<open>
  \<open>build_mission_brief\<close>; the six arguments besides the request are dictionaries or None. The values
  that \<open>f.get(...)\<close> compares with a set must be hashable, \<open>in_str_set\<close>.
\<close>

definition opt_obj :: "obj option \<Rightarrow> obj" where
  "opt_obj o' = (case o' of None \<Rightarrow> [] | Some d \<Rightarrow> d)"

definition opt_json :: "obj option \<Rightarrow> json" where
  "opt_json o' = (case o' of None \<Rightarrow> JNull | Some d \<Rightarrow> JObj d)"

fun brief_actionable :: "json \<Rightarrow> bool res" where
  "brief_actionable (JObj f) =
     bindR (in_str_set (dget f ''severity'' JNull) [''blocker'', ''bug''])
       (\<lambda>b. Inr (b \<and> dget f ''confidence'' JNull = JStr ''high''))"
| "brief_actionable _ = Inr False"

definition brief_criteria :: "json list \<Rightarrow> string list res" where
  "brief_criteria fs =
     mapR (\<lambda>f. bindR (as_obj f) (\<lambda>d.
       bindR (py_iter (py_or (dget d ''fix_criteria'' JNull) (JList []))) (\<lambda>cs.
       Inr (concat (map (\<lambda>c. ''- '' @ py_str c @ [nl]) cs))))) fs"

definition build_mission_brief ::
    "string \<Rightarrow> obj option \<Rightarrow> obj option \<Rightarrow> obj option \<Rightarrow> obj option \<Rightarrow> obj option \<Rightarrow> obj res" where
  "build_mission_brief original_request review_report hotfix_packet hotfix_handoff verification escalation =
     (let report = opt_obj review_report; esc = opt_obj escalation
      in bindR (py_iter (dget report ''findings'' (JList []))) (\<lambda>findings.
         bindR (filterR brief_actionable findings) (\<lambda>acts.
         bindR (brief_criteria acts) (\<lambda>criteria.
         let goal = py_or (dget esc ''suggested_mission_goal'' (JStr []))
               (JStr ''Fix the confirmed defects from the completed code review.'');
             briefing =
               ''The code review phase is COMPLETE. Do not plan another review.'' @ [nl, nl] @
               ''Original user request: '' @ py_strip original_request @ [nl, nl] @
               ''Mission goal: '' @ py_str goal @ [nl, nl] @
               ''Confirmed actionable findings: '' @ int_str (int (length acts)) @ [nl] @
               ''Review summary: '' @ py_strip (get_str report ''summary'' []) @ [nl, nl] @
               ''Fix criteria from review (authoritative acceptance conditions):'' @ [nl] @
               concat criteria @
               [nl] @ ''Attempted bounded fix:'' @ [nl] @
               ''- files: '' @ py_str (dget (opt_obj hotfix_packet) ''target_files'' (JList [])) @ [nl] @
               ''- modified: '' @ py_str (dget (opt_obj hotfix_handoff) ''files_modified'' (JList [])) @ [nl] @
               ''- verdict: '' @ get_str (opt_obj hotfix_handoff) ''verdict'' ''unknown'' @ [nl, nl] @
               ''Verification: '' @ get_str (opt_obj verification) ''summary'' ''none'' @ [nl] @
               ''Escalation reason: '' @ get_str esc ''reason'' [] @ [nl] @
               ''Scope: '' @ get_str esc ''scope_type'' ''unknown'' @ '' / risk '' @
               get_str esc ''risk'' ''unknown'' @ [nl, nl] @
               ''Constraints: start from these known defects; do not re-audit the whole repo.''
         in Inr [(''original_request'', JStr original_request), (''mission_goal'', goal),
                 (''review_report'', JObj report), (''hotfix_packet'', opt_json hotfix_packet),
                 (''hotfix_handoff'', opt_json hotfix_handoff),
                 (''verification'', opt_json verification), (''escalation'', opt_json escalation),
                 (''briefing'', JStr briefing)]))))"


section \<open>Workspace files\<close>

lemma one_of_in [simp]: "dflt \<in> set S \<Longrightarrow> one_of S dflt s \<in> set S"
  by (simp add: one_of_def)

lemma one_of_id [simp]: "s \<in> set S \<Longrightarrow> one_of S dflt s = s"
  by (simp add: one_of_def)

lemma or_text_id [simp]: "s \<noteq> [] \<Longrightarrow> or_text s dflt = s"
  by (simp add: or_text_def)

lemma or_text_nonempty [simp]: "dflt \<noteq> [] \<Longrightarrow> or_text s dflt \<noteq> []"
  by (simp add: or_text_def)

lemma strings_of_length: "length (strings_of n v) \<le> n"
  by (auto simp: strings_of_def split: json.splits)

lemma strings_of_elem: "s \<in> set (strings_of n v) \<Longrightarrow> s \<noteq> [] \<and> stripped s"
  by (auto simp: strings_of_def dest!: in_set_takeD split: json.splits)

text \<open>A list of stripped, non-empty strings within the limit is kept as it is.\<close>

lemma strings_of_jstrs:
  assumes "\<forall>s\<in>set xs. s \<noteq> [] \<and> stripped s" and "length xs \<le> n"
  shows "strings_of n (jstrs xs) = xs"
proof -
  have "map (\<lambda>x. py_strip (py_str x)) (map JStr xs) = xs"
    using assms(1) by (simp add: map_idI stripped_id)
  moreover have "filter (\<lambda>s. s \<noteq> []) xs = xs" using assms(1) by (simp add: filter_id_conv)
  ultimately show ?thesis using assms(2) by (simp add: strings_of_def jstrs_def)
qed

lemma strings_of_idem [simp]: "strings_of n (jstrs (strings_of n v)) = strings_of n v"
  by (rule strings_of_jstrs) (auto simp: strings_of_length dest: strings_of_elem)

definition workspace_file :: "string \<Rightarrow> bool" where
  "workspace_file t \<longleftrightarrow> t \<noteq> [] \<and> t \<noteq> ''.'' \<and> ''..'' \<notin> set (p_parts (path_of t))"

lemma relative_file_ok: "relative_file resolve root raw = Some t \<Longrightarrow> workspace_file t"
  by (auto simp: relative_file_def workspace_file_def Let_def split: option.splits if_splits)

lemma add_files_invariant:
  assumes "distinct files" and "\<forall>t\<in>set files. P t" and "\<forall>t. Some t \<in> set xs \<longrightarrow> P t"
  shows "distinct (add_files files xs)" and "\<forall>t\<in>set (add_files files xs). P t"
    and "length (add_files files xs) \<le> length files + length xs"
proof -
  have "distinct (add_files files xs) \<and> (\<forall>t\<in>set (add_files files xs). P t) \<and>
        length (add_files files xs) \<le> length files + length xs"
    using assms by (induction files xs rule: add_files.induct) (force split: if_splits)+
  then show "distinct (add_files files xs)" and "\<forall>t\<in>set (add_files files xs). P t"
    and "length (add_files files xs) \<le> length files + length xs" by auto
qed

lemma set_add_files: "set (add_files files xs) = set files \<union> {t. Some t \<in> set xs}"
  by (induction files xs rule: add_files.induct) auto

definition workspace_files :: "string list \<Rightarrow> bool" where
  "workspace_files fs \<longleftrightarrow> distinct fs \<and> length fs \<le> 12 \<and> (\<forall>t\<in>set fs. workspace_file t)"

lemma workspace_relative_files_ok: "workspace_files (workspace_relative_files resolve root v)"
proof -
  let ?xs = "map (relative_file resolve (resolve root)) (strings_of 12 v)"
  have "\<forall>t. Some t \<in> set ?xs \<longrightarrow> workspace_file t"
    by (auto dest: relative_file_ok [OF sym])
  note inv = add_files_invariant [OF _ _ this, of "[]"]
  have "length ?xs \<le> 12" by (simp add: strings_of_length)
  then show ?thesis
    using inv by (auto simp: workspace_files_def workspace_relative_files_def)
qed

section \<open>Normal forms\<close>

definition choice_words :: "string list" where
  "choice_words = [''stay_hotfix'', ''escalate_mission'', ''localized'', ''cross_cutting'',
     ''architectural'', ''low'', ''medium'', ''high'']"

lemma py_lower_ids: "x \<in> set choice_words \<Longrightarrow> py_lower (py_strip x) = x"
proof -
  have "\<forall>x\<in>set choice_words. py_lower (py_strip x) = x" by code_simp
  then show "x \<in> set choice_words \<Longrightarrow> ?thesis" by blast
qed

lemma py_upper_ids: "x \<in> set fix_verdicts \<Longrightarrow> py_upper (py_strip x) = x"
proof -
  have "\<forall>x\<in>set fix_verdicts. py_upper (py_strip x) = x" by code_simp
  then show "x \<in> set fix_verdicts \<Longrightarrow> ?thesis" by blast
qed

lemma one_of_fixed: "x \<in> set S \<Longrightarrow> (\<And>x. x \<in> set S \<Longrightarrow> f x = x) \<Longrightarrow> one_of S dflt (f x) = x"
  by (simp add: one_of_def)

lemma choice_subsets:
  "set [''stay_hotfix'', ''escalate_mission''] \<subseteq> set choice_words"
  "set [''localized'', ''cross_cutting'', ''architectural''] \<subseteq> set choice_words"
  "set [''low'', ''medium'', ''high''] \<subseteq> set choice_words"
  by (simp_all add: choice_words_def)

lemma one_of_lower:
  assumes "set S \<subseteq> set choice_words" and "x \<in> set S"
  shows "one_of S dflt (py_lower (py_strip x)) = x"
proof -
  have "py_lower (py_strip x) = x" using assms by (intro py_lower_ids) auto
  then show ?thesis using assms(2) by (simp only: one_of_id)
qed

lemma one_of_upper: "x \<in> set fix_verdicts \<Longrightarrow> one_of fix_verdicts dflt (py_upper (py_strip x)) = x"
  by (simp only: py_upper_ids one_of_id)

lemma stripped_text [simp]: "stripped ''No reason supplied.''" "stripped ''No summary supplied.''"
  by code_simp+

lemma or_text_strip [simp]:
  "stripped dflt \<Longrightarrow> dflt \<noteq> [] \<Longrightarrow>
     or_text (py_strip (or_text (py_strip s) dflt)) dflt = or_text (py_strip s) dflt"
  by (simp add: or_text_def stripped_id)

lemma get_strip_JStr: "map_of d k = Some (JStr s) \<Longrightarrow> get_strip d k dflt = py_strip s"
  by (simp add: get_strip_def get_str_def dget_def)

lemma get_norm_JStr: "map_of d k = Some (JStr s) \<Longrightarrow> get_norm d k dflt = py_lower (py_strip s)"
  by (simp add: get_norm_def get_str_def dget_def)

lemma dget_Some: "map_of d k = Some v \<Longrightarrow> dget d k w = v"
  by (simp add: dget_def)

lemma review_findings_of_length: "length (review_findings_of resolve root raws) \<le> length raws"
  by (induction raws) (auto simp: review_findings_of_def split: option.splits)

definition finding_ok :: "review_finding \<Rightarrow> bool" where
  "finding_ok f \<longleftrightarrow> f_severity f \<in> set severities \<and> f_confidence f \<in> set confidences \<and>
     workspace_files (f_affected_files f)"

lemma review_finding_of_ok: "review_finding_of resolve root raw = Some f \<Longrightarrow> finding_ok f"
  by (auto simp del: list.set simp: review_finding_of_def finding_ok_def workspace_relative_files_ok
           split: json.splits)
     (simp_all add: one_of_def)

lemma review_findings_of_ok: "f \<in> set (review_findings_of resolve root raws) \<Longrightarrow> finding_ok f"
  by (auto simp: review_findings_of_def split: option.splits dest: review_finding_of_ok [OF sym])

lemma actionable_concat:
  assumes "actionable_findings r \<noteq> []"
  shows "concat (map f_affected_files (actionable_findings r)) \<noteq> []"
    and "concat (map f_fix_criteria (actionable_findings r)) \<noteq> []"
proof -
  obtain f fs where f: "actionable_findings r = f # fs" using assms by (cases "actionable_findings r") auto
  then have "actionable f" by (metis actionable_findings_def filter_eq_ConsD)
  then show "concat (map f_affected_files (actionable_findings r)) \<noteq> []"
    and "concat (map f_fix_criteria (actionable_findings r)) \<noteq> []"
    by (auto simp: f actionable_def)
qed

section \<open>Properties\<close>

text \<open>
  Whatever the triage model answers, a routing decision is one of the three routes; a
  hotfix always has a non-empty scope of at most twelve distinct files without \<open>..\<close> components,
  and is reached only with high confidence; a low-confidence triage always takes the planned
  mission; and an explicit review or mission request is always obeyed.
\<close>

lemma route_decision_safe:
  assumes "d = normalize_route_decision resolve report root requested"
  shows "rd_route d \<in> set routes \<and> rd_confidence d \<in> set confidences \<and>
     workspace_files (rd_candidate_files d) \<and>
     (rd_route d = ''hotfix'' \<longrightarrow> rd_candidate_files d \<noteq> [] \<and> rd_confidence d = ''high'') \<and>
     (rd_confidence d = ''low'' \<longrightarrow> rd_route d = ''mission'') \<and>
     (requested \<in> {''mission'', ''review''} \<longrightarrow> rd_route d = requested \<and> rd_source d = ''override'')"
  using workspace_relative_files_ok
  by (auto simp: assms normalize_route_decision_def Let_def one_of_def)

lemma normalize_fix_verification_ok:
  assumes "v = normalize_fix_verification p"
  shows "fv_verdict v \<in> set fix_verdicts" and "stripped (fv_summary v)" and "fv_summary v \<noteq> []"
    and "stripped (fv_fix_guidance v)" and "stripped (fv_escalation_reason v)"
    and "strings_of 20 (jstrs (fv_evidence v)) = fv_evidence v"
    and "strings_of 20 (jstrs (fv_missing_checks v)) = fv_missing_checks v"
proof -
  have m: "strings_of 20 (jstrs [''unparseable verifier response'']) = [''unparseable verifier response'']"
    and e: "strings_of 20 (jstrs []) = []"
    and n: "stripped ''Verifier response was not an object; treating as unverified.''" "stripped []"
    by code_simp+
  have "fv_verdict v \<in> set fix_verdicts \<and> stripped (fv_summary v) \<and> fv_summary v \<noteq> [] \<and>
      stripped (fv_fix_guidance v) \<and> stripped (fv_escalation_reason v) \<and>
      strings_of 20 (jstrs (fv_evidence v)) = fv_evidence v \<and>
      strings_of 20 (jstrs (fv_missing_checks v)) = fv_missing_checks v"
    by (cases p) (simp_all add: assms normalize_fix_verification_def m e n get_strip_def
        or_text_def one_of_def)
  then show "fv_verdict v \<in> set fix_verdicts" and "stripped (fv_summary v)" and "fv_summary v \<noteq> []"
    and "stripped (fv_fix_guidance v)" and "stripped (fv_escalation_reason v)"
    and "strings_of 20 (jstrs (fv_evidence v)) = fv_evidence v"
    and "strings_of 20 (jstrs (fv_missing_checks v)) = fv_missing_checks v" by blast+
qed

lemma normalize_escalation_ok:
  assumes "e = normalize_escalation_decision p"
  shows "ed_decision e \<in> set [''stay_hotfix'', ''escalate_mission'']"
    and "ed_scope_type e \<in> set [''localized'', ''cross_cutting'', ''architectural'']"
    and "ed_risk e \<in> set [''low'', ''medium'', ''high'']"
    and "stripped (ed_reason e)" and "ed_reason e \<noteq> []" and "stripped (ed_goal e)"
proof -
  have n: "stripped ''Escalation response was not an object; defaulting to bounded fix.''"
    "stripped []" by code_simp+
  have "ed_decision e \<in> set [''stay_hotfix'', ''escalate_mission''] \<and>
      ed_scope_type e \<in> set [''localized'', ''cross_cutting'', ''architectural''] \<and>
      ed_risk e \<in> set [''low'', ''medium'', ''high''] \<and>
      stripped (ed_reason e) \<and> ed_reason e \<noteq> [] \<and> stripped (ed_goal e)"
    by (cases p) (simp_all add: assms normalize_escalation_decision_def n get_strip_def
        or_text_def one_of_def)
  then show "ed_decision e \<in> set [''stay_hotfix'', ''escalate_mission'']"
    and "ed_scope_type e \<in> set [''localized'', ''cross_cutting'', ''architectural'']"
    and "ed_risk e \<in> set [''low'', ''medium'', ''high'']"
    and "stripped (ed_reason e)" and "ed_reason e \<noteq> []" and "stripped (ed_goal e)" by blast+
qed

lemma fix_verification_reread:
  assumes "v = normalize_fix_verification p"
  shows "normalize_fix_verification (JObj (fix_verification_to_dict v)) = v"
proof -
  note ok = normalize_fix_verification_ok [OF assms]
  have g: "get_strip (fix_verification_to_dict v) ''verdict'' ''UNVERIFIED'' = py_strip (fv_verdict v)"
    "get_strip (fix_verification_to_dict v) ''summary'' [] = py_strip (fv_summary v)"
    "get_strip (fix_verification_to_dict v) ''fix_guidance'' [] = py_strip (fv_fix_guidance v)"
    "get_strip (fix_verification_to_dict v) ''escalation_reason'' [] = py_strip (fv_escalation_reason v)"
    "dget (fix_verification_to_dict v) ''evidence'' (JList []) = jstrs (fv_evidence v)"
    "dget (fix_verification_to_dict v) ''missing_checks'' (JList []) = jstrs (fv_missing_checks v)"
    by (simp_all add: get_strip_def get_str_def dget_def fix_verification_to_dict_def)
  show ?thesis
    unfolding normalize_fix_verification_def json.case g one_of_upper [OF ok(1)]
      stripped_id [OF ok(2)] stripped_id [OF ok(4)] stripped_id [OF ok(5)] or_text_id [OF ok(3)] ok(6,7)
    by simp
qed

lemma escalation_reread:
  assumes "e = normalize_escalation_decision p"
  shows "normalize_escalation_decision (JObj (escalation_to_dict e)) = e\<lparr>ed_source := ''escalation_triage''\<rparr>"
proof -
  note ok = normalize_escalation_ok [OF assms]
  have g: "get_norm (escalation_to_dict e) ''decision'' ''stay_hotfix'' = py_lower (py_strip (ed_decision e))"
    "get_norm (escalation_to_dict e) ''scope_type'' ''localized'' = py_lower (py_strip (ed_scope_type e))"
    "get_norm (escalation_to_dict e) ''risk'' ''low'' = py_lower (py_strip (ed_risk e))"
    "get_strip (escalation_to_dict e) ''reason'' [] = py_strip (ed_reason e)"
    "get_strip (escalation_to_dict e) ''suggested_mission_goal'' [] = py_strip (ed_goal e)"
    by (simp_all add: get_norm_def get_strip_def get_str_def dget_def escalation_to_dict_def)
  show ?thesis
    unfolding normalize_escalation_decision_def json.case g one_of_lower [OF choice_subsets(1) ok(1)]
      one_of_lower [OF choice_subsets(2) ok(2)] one_of_lower [OF choice_subsets(3) ok(3)]
      stripped_id [OF ok(4)] stripped_id [OF ok(6)] or_text_id [OF ok(5)]
    by simp
qed

text \<open>
  Normalisation is a projection: a fix verification or an escalation decision that is
  stored as a dictionary and read back through its normaliser is unchanged (an escalation apart from
  its \<open>source\<close>, which reading resets).
\<close>

lemma decision_roundtrip:
  "normalize_fix_verification (JObj (fix_verification_to_dict (normalize_fix_verification p)))
     = normalize_fix_verification p \<and>
   normalize_escalation_decision (JObj (escalation_to_dict (normalize_escalation_decision p)))
     = (normalize_escalation_decision p)\<lparr>ed_source := ''escalation_triage''\<rparr>"
  by (simp only: fix_verification_reread [OF refl] escalation_reread [OF refl])

text \<open>
  The deterministic guard runs without error on every normalised escalation decision;
  it only ever turns a high-risk \<open>stay_hotfix\<close> that touches a sensitive path into
  \<open>escalate_mission\<close>, and afterwards no such stay is left. It never turns an escalation back.
\<close>

lemma guard_only_escalates:
  assumes "e = normalize_escalation_decision p"
  shows "\<exists>out. deterministic_guard (escalation_to_dict e) files = Inr out \<and>
     map_of out ''risk'' = Some (JStr (ed_risk e)) \<and>
     map_of out ''decision'' = Some (JStr
       (if ed_decision e = ''escalate_mission'' \<or> (ed_risk e = ''high'' \<and> touches_sensitive files)
        then ''escalate_mission'' else ''stay_hotfix'')) \<and>
     deterministic_guard out files = Inr out"
  using normalize_escalation_ok(1) [OF assms]
  by (auto simp: deterministic_guard_def escalation_to_dict_def dget_def)

text \<open>
  A review report that is accepted has one of the two verdicts and a summary, holds at
  most thirty findings, none when the verdict is clean, and every finding's severity, confidence and
  file list is well formed.
\<close>

lemma review_report_ok:
  assumes "normalize_review_report resolve payload root n = Inr r"
  shows "rr_verdict r \<in> {''clean'', ''issues_found''} \<and> rr_summary r \<noteq> [] \<and> rr_scope r \<noteq> [] \<and>
     length (rr_findings r) \<le> 30 \<and> (rr_verdict r = ''clean'' \<longrightarrow> rr_findings r = []) \<and>
     (\<forall>f\<in>set (rr_findings r). finding_ok f) \<and> rr_tool_calls r = n"
proof -
  obtain d raws where "payload = JObj d" "dget d ''findings'' (JList []) = JList raws"
      "get_norm d ''verdict'' [] \<in> set [''clean'', ''issues_found'']" "get_strip d ''summary'' [] \<noteq> []"
    and r: "rr_verdict r = get_norm d ''verdict'' []" "rr_summary r = get_strip d ''summary'' []"
      "rr_scope r = or_text (get_strip d ''scope'' ''user_request'') ''user_request''" "rr_tool_calls r = n"
      "rr_findings r = (if rr_verdict r = ''clean'' then []
                        else review_findings_of resolve root (take 30 raws))"
    using assms by (auto simp: normalize_review_report_def Let_def split: json.splits if_splits)
  moreover have "length (review_findings_of resolve root (take 30 raws)) \<le> 30"
    using review_findings_of_length [of resolve root "take 30 raws"] by simp
  ultimately show ?thesis by (auto dest: review_findings_of_ok)
qed

text \<open>
  The repair packet of a review with actionable findings always has work to do: its
  target files are the affected files of those findings, sorted and without duplicates, and neither
  they nor the acceptance criteria are empty. The runtime's later check for a review without
  actionable targets can therefore not fire.
\<close>

lemma review_packet_targets:
  assumes "actionable_findings r \<noteq> []"
  shows "\<exists>files criteria. dget (hotfix_milestone_from_review r mid) ''target_files'' JNull = jstrs files \<and>
     files \<noteq> [] \<and> sorted files \<and> distinct files \<and>
     set files = (\<Union>f\<in>set (actionable_findings r). set (f_affected_files f)) \<and>
     dget (hotfix_milestone_from_review r mid) ''acceptance_criteria'' JNull = jstrs criteria \<and>
     criteria = concat (map f_fix_criteria (actionable_findings r)) \<and> criteria \<noteq> []"
  using actionable_concat [OF assms]
  by (intro exI [of _ "py_sorted_set (concat (map f_affected_files (actionable_findings r)))"]
            exI [of _ "concat (map f_fix_criteria (actionable_findings r))"])
     (simp add: hotfix_milestone_from_review_def hotfix_milestone_from_route_def Let_def dget_def,
      simp add: py_sorted_set_def)

end
