(* ===== verification/PlanOps.thy ===== *)
theory PlanOps
  imports PyJson "HOL-Library.Multiset"
begin

text \<open>
  \<open>src/agents/plan_ops.py\<close>: the deterministic plan patch. The orchestrator answers a replan with a
  list of operations; \<open>apply_plan_patch\<close> validates and applies them to a copy of the plan. A plan is
  a JSON object; a milestone is an element of its \<open>milestones\<close>, an object in a well-formed plan.
\<close>

section \<open>Milestones\<close>

definition is_completed :: "obj \<Rightarrow> bool" where
  "is_completed milestone = (py_lower (get_str milestone ''status'' []) = ''completed'')"

text \<open>
  \<open>_index_by_id\<close>: a dictionary from identifier to position. A later milestone with the same
  identifier overwrites the entry; one whose identifier is false in Python has none.
\<close>

fun index_from :: "nat \<Rightarrow> obj list \<Rightarrow> (string \<times> nat) list \<Rightarrow> (string \<times> nat) list" where
  "index_from i [] index = index"
| "index_from i (ms # rest) index =
     (let ms_id = dget ms ''id'' JNull
      in index_from (Suc i) rest
           (if truthy ms_id then AList.update (py_str ms_id) i index else index))"

definition index_by_id :: "obj list \<Rightarrow> (string \<times> nat) list" where
  "index_by_id milestones = index_from 0 milestones []"

section \<open>The three operations\<close>

definition updatable_fields :: "string list" where
  "updatable_fields =
     [''title'', ''description'', ''target_files'', ''depends_on'', ''acceptance_criteria'',
      ''validation_profile'']"

definition supported_ops :: "string list" where
  "supported_ops = [''update_milestone'', ''insert_milestone_after'', ''remove_milestone'']"

text \<open>\<open>isinstance(x, list) and x\<close>.\<close>

fun filled_list :: "json \<Rightarrow> bool" where
  "filled_list (JList xs) = (xs \<noteq> [])"
| "filled_list _ = False"

definition patch_error :: "string \<Rightarrow> 'a res" where
  "patch_error msg = Inl (PlanPatchError msg)"

definition validate_new_milestone :: "json \<Rightarrow> string list \<Rightarrow> obj res" where
  "validate_new_milestone ms existing_ids =
     (case ms of
        JObj d \<Rightarrow>
          (let ms_id = get_strip d ''id'' []
           in if ms_id = [] then patch_error (''inserted milestone is missing '' @ quoted ''id'')
              else if ms_id \<in> set existing_ids
                then patch_error (''inserted milestone id '' @ quoted ms_id @ '' already exists'')
              else if \<not> truthy (dget d ''title'' JNull)
                then patch_error (''inserted milestone '' @ quoted ms_id @ '' is missing '' @ quoted ''title'')
              else if \<not> filled_list (dget d ''target_files'' JNull)
                then patch_error (''inserted milestone '' @ quoted ms_id @ '' must list non-empty '' @ quoted ''target_files'')
              else if \<not> filled_list (dget d ''acceptance_criteria'' JNull)
                then patch_error (''inserted milestone '' @ quoted ms_id @ '' must include non-empty '' @ quoted ''acceptance_criteria'')
              else Inr (AList.update ''status'' (JStr ''pending'') (dsetdefault ''depends_on'' (JList []) d)))
      | _ \<Rightarrow> patch_error ''inserted milestone must be a JSON object'')"


text \<open>\<open>target.update(fields)\<close>.\<close>

definition update_fields :: "obj \<Rightarrow> obj \<Rightarrow> obj" where
  "update_fields fields target = fold (\<lambda>(k, v) d. AList.update k v d) fields target"

definition update_milestone :: "obj \<Rightarrow> obj list \<Rightarrow> obj list res" where
  "update_milestone op milestones =
     (let ms_id = get_strip op ''milestone_id'' [] in
      case map_of (index_by_id milestones) ms_id of
        None \<Rightarrow> patch_error (''update_milestone: milestone '' @ quoted ms_id @ '' not found'')
      | Some i \<Rightarrow>
          if is_completed (milestones ! i)
          then patch_error (''update_milestone: milestone '' @ quoted ms_id @ '' is completed and immutable'')
          else (case dget op ''fields'' JNull of
             JObj fields \<Rightarrow>
               (let unknown = py_sorted_set (filter (\<lambda>k. k \<notin> set updatable_fields) (map fst fields))
                in if fields = []
                   then patch_error (''update_milestone: '' @ quoted ''fields'' @ '' must be a non-empty object'')
                   else if unknown \<noteq> []
                   then patch_error (''update_milestone: cannot update fields '' @ repr_strs unknown
                          @ ''. Allowed: '' @ repr_strs updatable_fields)
                   else if map_of fields ''target_files'' \<noteq> None \<and> \<not> is_list (dget fields ''target_files'' JNull)
                   then patch_error (''update_milestone: '' @ quoted ''target_files'' @ '' must be a list'')
                   else if map_of fields ''acceptance_criteria'' \<noteq> None \<and>
                           \<not> filled_list (dget fields ''acceptance_criteria'' JNull)
                   then patch_error (''update_milestone: '' @ quoted ''acceptance_criteria'' @ '' must be a non-empty list'')
                   else Inr (milestones[i := update_fields fields (milestones ! i)]))
           | _ \<Rightarrow> patch_error (''update_milestone: '' @ quoted ''fields'' @ '' must be a non-empty object'')))"

definition insert_milestone_after :: "obj \<Rightarrow> obj list \<Rightarrow> obj list res" where
  "insert_milestone_after op milestones =
     (let after_id = get_strip op ''after_id'' []; index = index_by_id milestones in
      case map_of index after_id of
        None \<Rightarrow> patch_error (''insert_milestone_after: anchor milestone '' @ quoted after_id @ '' not found'')
      | Some i \<Rightarrow>
          bindR (validate_new_milestone (dget op ''milestone'' JNull) (map fst index))
            (\<lambda>new_ms. Inr (insert_at (i + 1) new_ms milestones)))"

definition drop_dependency :: "string \<Rightarrow> obj \<Rightarrow> obj" where
  "drop_dependency ms_id ms =
     (case dget ms ''depends_on'' JNull of
        JList deps \<Rightarrow>
          if JStr ms_id \<in> set deps
          then AList.update ''depends_on'' (JList (filter (\<lambda>d. d \<noteq> JStr ms_id) deps)) ms else ms
      | _ \<Rightarrow> ms)"

definition remove_milestone :: "obj \<Rightarrow> obj list \<Rightarrow> obj list res" where
  "remove_milestone op milestones =
     (let ms_id = get_strip op ''milestone_id'' [] in
      case map_of (index_by_id milestones) ms_id of
        None \<Rightarrow> patch_error (''remove_milestone: milestone '' @ quoted ms_id @ '' not found'')
      | Some i \<Rightarrow>
          if is_completed (milestones ! i)
          then patch_error (''remove_milestone: milestone '' @ quoted ms_id @ '' is completed and immutable'')
          else Inr (map (drop_dependency ms_id) (remove_at i milestones)))"

section \<open>A patch\<close>

text \<open>
  One round of the loop. \<open>_index_by_id\<close> is the first to look into the milestones: an element that
  is no object raises AttributeError there, before the operation runs.
\<close>

definition apply_op :: "json list \<Rightarrow> nat \<times> json \<Rightarrow> json list res" where
  "apply_op milestones iop =
     (case snd iop of
        JObj op \<Rightarrow>
          (let kind = dget op ''op'' JNull
           in if \<not> (is_str kind \<and> py_str kind \<in> set supported_ops)
              then patch_error (''operation #'' @ int_str (int (fst iop) + 1) @ '' has unsupported op ''
                     @ quoted (py_str kind) @ ''. Supported: '' @ repr_strs supported_ops)
              else bindR (mapR as_obj milestones) (\<lambda>ms.
                   bindR (if py_str kind = ''update_milestone'' then update_milestone op ms
                          else if py_str kind = ''insert_milestone_after'' then insert_milestone_after op ms
                          else remove_milestone op ms) (\<lambda>ms'.
                   Inr (map JObj ms'))))
      | _ \<Rightarrow> patch_error (''operation #'' @ int_str (int (fst iop) + 1) @ '' is not a JSON object''))"

definition apply_ops :: "json list \<Rightarrow> json list \<Rightarrow> json list res" where
  "apply_ops milestones operations = foldR apply_op milestones (enumerate 0 operations)"

definition apply_plan_patch :: "obj \<Rightarrow> json \<Rightarrow> obj res" where
  "apply_plan_patch plan operations =
     (if \<not> filled_list operations
      then patch_error (quoted ''operations'' @ '' must be a non-empty list of patch ops'')
      else case operations of
        JList ops \<Rightarrow>
          (let new_plan = dsetdefault ''milestones'' (JList []) plan
           in case dget new_plan ''milestones'' JNull of
                JList milestones \<Rightarrow>
                  bindR (apply_ops milestones ops)
                    (\<lambda>ms'. Inr (AList.update ''milestones'' (JList ms') new_plan))
              | _ \<Rightarrow> patch_error (''plan '' @ quoted ''milestones'' @ '' must be a list''))
      | _ \<Rightarrow> Inl TypeError)"


section \<open>The index\<close>

definition ms_key :: "obj \<Rightarrow> string option" where
  "ms_key ms = (if truthy (dget ms ''id'' JNull) then Some (py_str (dget ms ''id'' JNull)) else None)"

lemma index_from_Some:
  assumes "map_of (index_from n ms index) k = Some i"
  shows "(i \<ge> n \<and> i < n + length ms \<and> ms_key (ms ! (i - n)) = Some k) \<or> map_of index k = Some i"
  using assms
proof (induction ms arbitrary: n index)
  case (Cons m ms)
  let ?index = "if truthy (dget m ''id'' JNull) then AList.update (py_str (dget m ''id'' JNull)) n index else index"
  have "map_of (index_from (Suc n) ms ?index) k = Some i" using Cons.prems by (simp add: Let_def)
  then consider "i \<ge> Suc n" "i < Suc n + length ms" "ms_key (ms ! (i - Suc n)) = Some k"
    | "map_of ?index k = Some i"
    using Cons.IH by blast
  then show ?case
  proof cases
    case 1
    then have "(m # ms) ! (i - n) = ms ! (i - Suc n)" by (simp add: nth_Cons' Suc_diff_le)
    then show ?thesis using 1 by auto
  next
    case 2
    then show ?thesis by (auto simp: ms_key_def split: if_splits)
  qed
qed simp

lemma index_by_id_Some:
  "map_of (index_by_id ms) k = Some i \<Longrightarrow> i < length ms \<and> ms_key (ms ! i) = Some k"
  unfolding index_by_id_def by (drule index_from_Some) simp

lemma index_from_dom:
  "set (map fst (index_from n ms index)) = {k. \<exists>m\<in>set ms. ms_key m = Some k} \<union> set (map fst index)"
  by (induction ms arbitrary: n index)
     (auto simp: Let_def ms_key_def dom_update split: if_splits)

lemma index_by_id_dom: "set (map fst (index_by_id ms)) = {k. \<exists>m\<in>set ms. ms_key m = Some k}"
  by (simp add: index_by_id_def index_from_dom del: set_map list.set_map)

section \<open>What an operation keeps\<close>

text \<open>Inversion of the three operations: what success means.\<close>

lemma update_milestone_Inr:
  assumes "update_milestone op ms = Inr ms'"
  obtains i fields where "map_of (index_by_id ms) (get_strip op ''milestone_id'' []) = Some i"
    and "\<not> is_completed (ms ! i)" and "dget op ''fields'' JNull = JObj fields"
    and "\<forall>k\<in>set (map fst fields). k \<in> set updatable_fields"
    and "ms' = ms[i := update_fields fields (ms ! i)]"
  using assms
  by (auto simp: update_milestone_def Let_def patch_error_def filter_empty_conv
           split: option.splits if_splits json.splits)

lemma insert_milestone_Inr:
  assumes "insert_milestone_after op ms = Inr ms'"
  obtains i d where "map_of (index_by_id ms) (get_strip op ''after_id'' []) = Some i"
    and "dget op ''milestone'' JNull = JObj d"
    and "get_strip d ''id'' [] \<noteq> []" and "get_strip d ''id'' [] \<notin> set (map fst (index_by_id ms))"
    and "truthy (dget d ''title'' JNull)" and "filled_list (dget d ''target_files'' JNull)"
    and "filled_list (dget d ''acceptance_criteria'' JNull)"
    and "ms' = insert_at (i + 1)
           (AList.update ''status'' (JStr ''pending'') (dsetdefault ''depends_on'' (JList []) d)) ms"
  using assms
  by (auto simp: insert_milestone_after_def validate_new_milestone_def Let_def patch_error_def
      simp del: list.set_map split: option.splits if_splits json.splits)

lemma remove_milestone_Inr:
  assumes "remove_milestone op ms = Inr ms'"
  obtains i where "map_of (index_by_id ms) (get_strip op ''milestone_id'' []) = Some i"
    and "\<not> is_completed (ms ! i)"
    and "ms' = map (drop_dependency (get_strip op ''milestone_id'' [])) (remove_at i ms)"
  using assms
  by (auto simp: remove_milestone_def Let_def patch_error_def split: option.splits if_splits)


text \<open>What the completed milestones keep: everything but their \<open>depends_on\<close>.\<close>

definition frozen :: "obj list \<Rightarrow> obj list" where
  "frozen ms = map (AList.delete ''depends_on'') (filter is_completed ms)"

lemma dget_cong: "map_of d k = map_of d' k \<Longrightarrow> dget d k v = dget d' k v"
  by (simp add: dget_def)

lemma ms_key_cong: "map_of d ''id'' = map_of d' ''id'' \<Longrightarrow> ms_key d = ms_key d'"
  by (simp add: ms_key_def dget_def)

lemma is_completed_cong: "map_of d ''status'' = map_of d' ''status'' \<Longrightarrow> is_completed d = is_completed d'"
  by (simp add: is_completed_def get_str_def dget_def)

lemma map_of_update_fields:
  "k \<notin> set (map fst fields) \<Longrightarrow> map_of (update_fields fields d) k = map_of d k"
  unfolding update_fields_def by (induction fields arbitrary: d) auto

lemma map_of_drop_dependency: "k \<noteq> ''depends_on'' \<Longrightarrow> map_of (drop_dependency x d) k = map_of d k"
  by (auto simp: drop_dependency_def split: json.splits)

lemma drop_dependency_frozen:
  "AList.delete ''depends_on'' (drop_dependency x d) = AList.delete ''depends_on'' d"
  by (auto simp: drop_dependency_def delete_update_same split: json.splits)

lemma frozen_drop_dependency: "frozen (map (drop_dependency x) ms) = frozen ms"
proof -
  have "is_completed (drop_dependency x m) = is_completed m" for m
    by (rule is_completed_cong) (simp add: map_of_drop_dependency)
  then show ?thesis by (simp add: frozen_def filter_map comp_def drop_dependency_frozen)
qed

lemma new_milestone_pending:
  "\<not> is_completed (AList.update ''status'' (JStr ''pending'') d)"
proof -
  have "py_lower ''pending'' \<noteq> ''completed''" by code_simp
  then show ?thesis by (simp add: is_completed_def get_str_def)
qed

lemma update_keeps:
  assumes "update_milestone op ms = Inr ms'"
  shows "frozen ms' = frozen ms" and "map ms_key ms' = map ms_key ms"
proof -
  from assms obtain i fields where i: "map_of (index_by_id ms) (get_strip op ''milestone_id'' []) = Some i"
    and nc: "\<not> is_completed (ms ! i)" and f: "\<forall>k\<in>set (map fst fields). k \<in> set updatable_fields"
    and ms': "ms' = ms[i := update_fields fields (ms ! i)]"
    by (rule update_milestone_Inr)
  have lt: "i < length ms" using index_by_id_Some [OF i] by simp
  have "''status'' \<notin> set updatable_fields" and "''id'' \<notin> set updatable_fields"
    by (simp_all add: updatable_fields_def)
  with f have "''status'' \<notin> set (map fst fields)" and id: "''id'' \<notin> set (map fst fields)" by blast+
  then have nc': "\<not> is_completed (update_fields fields (ms ! i))"
    using nc is_completed_cong [OF map_of_update_fields] by metis
  show "frozen ms' = frozen ms"
    by (simp only: frozen_def ms' filter_update_at [of _ _ is_completed, OF lt nc nc'])
  have "ms_key (update_fields fields (ms ! i)) = ms_key (ms ! i)"
    by (rule ms_key_cong) (rule map_of_update_fields [OF id])
  then show "map ms_key ms' = map ms_key ms"
    by (metis list_update_id map_update ms')
qed

lemma insert_keeps: "insert_milestone_after op ms = Inr ms' \<Longrightarrow> frozen ms' = frozen ms"
  by (erule insert_milestone_Inr)
     (simp add: frozen_def filter_insert_at new_milestone_pending)

lemma remove_keeps: "remove_milestone op ms = Inr ms' \<Longrightarrow> frozen ms' = frozen ms"
  by (erule remove_milestone_Inr, drule index_by_id_Some)
     (simp only: frozen_drop_dependency, simp add: frozen_def filter_remove_at)

text \<open>One operation and a whole patch, on milestones that are objects.\<close>

lemma apply_op_Inr:
  assumes "apply_op (map JObj ms) iop = Inr mss"
  obtains op ms' where "snd iop = JObj op" "mss = map JObj ms'"
    and "update_milestone op ms = Inr ms' \<or> insert_milestone_after op ms = Inr ms' \<or>
         remove_milestone op ms = Inr ms'"
  using assms by (auto simp: apply_op_def Let_def patch_error_def split: json.splits if_splits)

lemma apply_ops_invariant:
  assumes "apply_ops (map JObj ms) ops = Inr mss" and "P ms"
    and "\<And>op ms ms'. P ms \<Longrightarrow> JObj op \<in> set ops \<Longrightarrow>
           update_milestone op ms = Inr ms' \<or> insert_milestone_after op ms = Inr ms' \<or>
           remove_milestone op ms = Inr ms' \<Longrightarrow> P ms'"
  shows "\<exists>ms'. mss = map JObj ms' \<and> P ms'"
proof (rule foldR_invariant [where P = "\<lambda>mss. \<exists>ms'. mss = map JObj ms' \<and> P ms'",
      OF assms(1) [unfolded apply_ops_def]])
  show "\<exists>ms'. map JObj ms = map JObj ms' \<and> P ms'" using assms(2) by blast
next
  fix mss iop mss'
  assume "\<exists>ms'. mss = map JObj ms' \<and> P ms'" and iop: "iop \<in> set (enumerate 0 ops)"
    and step: "apply_op mss iop = Inr mss'"
  then obtain ms1 where ms1: "mss = map JObj ms1" "P ms1" by blast
  from iop have "snd iop \<in> set ops" by (metis map_snd_enumerate imageI list.set_map)
  with apply_op_Inr [OF step [unfolded ms1(1)]] assms(3) [OF ms1(2)]
  show "\<exists>ms'. mss' = map JObj ms' \<and> P ms'" by metis
qed

lemma apply_plan_patch_Inr:
  assumes "apply_plan_patch plan operations = Inr plan'"
  obtains ops mss mss' where "operations = JList ops" "ops \<noteq> []"
    and "dget plan ''milestones'' (JList []) = JList mss" "apply_ops mss ops = Inr mss'"
    and "plan' = AList.update ''milestones'' (JList mss') (dsetdefault ''milestones'' (JList []) plan)"
  using assms
  by (auto simp: apply_plan_patch_def patch_error_def Let_def dget_def map_of_dsetdefault
           split: if_splits json.splits option.splits)

lemma apply_plan_patch_fields:
  assumes "apply_plan_patch plan operations = Inr plan'" and "k \<noteq> ''milestones''"
  shows "map_of plan' k = map_of plan k"
  using assms(2) by (rule_tac apply_plan_patch_Inr [OF assms(1)]) (simp add: map_of_dsetdefault)

section \<open>Identifiers\<close>

text \<open>The identifier of an inserted milestone is a string without surrounding space.\<close>

definition clean_insert :: "json \<Rightarrow> bool" where
  "clean_insert j =
     (case j of
        JObj op \<Rightarrow>
          (case dget op ''milestone'' JNull of
             JObj d \<Rightarrow> (case map_of d ''id'' of Some (JStr s) \<Rightarrow> py_strip s = s | _ \<Rightarrow> False)
           | _ \<Rightarrow> True)
      | _ \<Rightarrow> True)"

definition ids_unique :: "obj list \<Rightarrow> bool" where
  "ids_unique ms \<longleftrightarrow> None \<notin> set (map ms_key ms) \<and> distinct (map ms_key ms)"

lemma ms_key_JStr: "map_of d ''id'' = Some (JStr s) \<Longrightarrow> s \<noteq> [] \<Longrightarrow> ms_key d = Some s"
  by (simp add: ms_key_def dget_def)

lemma map_insert_at: "map f (insert_at i x xs) = insert_at i (f x) (map f xs)"
  by (simp add: insert_at_def take_map drop_map)

lemma length_insert_at [simp]: "length (insert_at i x xs) = Suc (length xs)"
proof -
  have "length (take i xs) + length (drop i xs) = length xs"
    by (metis append_take_drop_id length_append)
  then show ?thesis by (simp add: insert_at_def del: length_take length_drop)
qed

lemma distinct_insert_at: "distinct (insert_at i x xs) \<longleftrightarrow> distinct xs \<and> x \<notin> set xs"
proof -
  have "mset (insert_at i x xs) = mset (x # xs)"
    by (simp add: insert_at_def) (metis append_take_drop_id mset_append union_commute)
  then have "distinct (insert_at i x xs) = distinct (x # xs)" by (rule mset_eq_imp_distinct_iff)
  then show ?thesis by auto
qed

lemma distinct_remove_at: "distinct xs \<Longrightarrow> distinct (remove_at i xs)"
  by (auto simp: remove_at_def set_take_disj_set_drop_if_distinct)

lemma insert_ids_unique:
  assumes "insert_milestone_after op ms = Inr ms'" and "ids_unique ms" and "clean_insert (JObj op)"
  shows "ids_unique ms'"
proof -
  from assms(1) obtain i d where d: "dget op ''milestone'' JNull = JObj d"
    and ne: "get_strip d ''id'' [] \<noteq> []" and new: "get_strip d ''id'' [] \<notin> set (map fst (index_by_id ms))"
    and ms': "ms' = insert_at (i + 1)
           (AList.update ''status'' (JStr ''pending'') (dsetdefault ''depends_on'' (JList []) d)) ms"
    by (rule insert_milestone_Inr)
  let ?d = "AList.update ''status'' (JStr ''pending'') (dsetdefault ''depends_on'' (JList []) d)"
  obtain s where s: "map_of d ''id'' = Some (JStr s)" "py_strip s = s"
    using assms(3) by (auto simp: clean_insert_def d split: option.splits json.splits)
  have gs: "get_strip d ''id'' [] = s" using s by (simp add: get_strip_def get_str_def dget_def)
  have "map_of ?d ''id'' = Some (JStr s)" by (simp add: map_of_dsetdefault s)
  then have k: "ms_key ?d = Some s" using ne gs by (intro ms_key_JStr) auto
  have "Some s \<notin> set (map ms_key ms)" using new unfolding gs index_by_id_dom by auto
  with k assms(2) show ?thesis
    by (auto simp: ids_unique_def ms' map_insert_at distinct_insert_at simp del: list.set_map)
qed

lemma ms_key_drop_dependency: "ms_key (drop_dependency x d) = ms_key d"
  by (rule ms_key_cong) (simp add: map_of_drop_dependency)

lemma map_key_drop_dependency: "map ms_key (map (drop_dependency x) ms) = map ms_key ms"
  by (simp add: ms_key_drop_dependency)

lemma map_remove_at: "map f (remove_at i xs) = remove_at i (map f xs)"
  by (simp add: remove_at_def take_map drop_map)

lemma remove_ids_unique:
  assumes "remove_milestone op ms = Inr ms'" and "ids_unique ms"
  shows "ids_unique ms'"
proof -
  from assms(1) obtain i where "map ms_key ms' = remove_at i (map ms_key ms)"
    by (rule remove_milestone_Inr) (simp only: map_key_drop_dependency map_remove_at)
  then show ?thesis using assms(2) set_remove_at [of i "map ms_key ms"]
    by (auto simp: ids_unique_def distinct_remove_at simp del: list.set_map)
qed

lemma nth_notin_remove_at: "distinct xs \<Longrightarrow> i < length xs \<Longrightarrow> xs ! i \<notin> set (remove_at i xs)"
proof -
  assume d: "distinct xs" and i: "i < length xs"
  have "xs = take i xs @ xs ! i # drop (Suc i) xs" using i by (rule id_take_nth_drop)
  with d have "distinct (take i xs @ xs ! i # drop (Suc i) xs)" by simp
  then show ?thesis by (simp only: remove_at_def) simp
qed

lemma remove_forgets:
  assumes "remove_milestone op ms = Inr ms'" and "ids_unique ms"
  shows "Some (get_strip op ''milestone_id'' []) \<notin> set (map ms_key ms')"
proof -
  from assms(1) obtain i where i: "map_of (index_by_id ms) (get_strip op ''milestone_id'' []) = Some i"
    and ms': "ms' = map (drop_dependency (get_strip op ''milestone_id'' [])) (remove_at i ms)"
    by (rule remove_milestone_Inr)
  have "map ms_key ms' = remove_at i (map ms_key ms)"
    by (simp only: ms' map_key_drop_dependency map_remove_at)
  moreover have "map ms_key ms ! i = Some (get_strip op ''milestone_id'' [])" "i < length ms"
    using index_by_id_Some [OF i] by simp_all
  ultimately show ?thesis
    using nth_notin_remove_at [of "map ms_key ms" i] assms(2) by (simp add: ids_unique_def)
qed

lemma drop_dependency_gone:
  "dget (drop_dependency x d) ''depends_on'' JNull = JList deps \<Longrightarrow> JStr x \<notin> set deps"
  by (auto simp: drop_dependency_def split: json.splits if_splits)

section \<open>Errors\<close>

definition patch_failure :: "'a res \<Rightarrow> bool" where
  "patch_failure r = (case r of Inl (PlanPatchError _) \<Rightarrow> True | Inl _ \<Rightarrow> False | Inr _ \<Rightarrow> True)"

lemma patch_failure_simps [simp]: "patch_failure (patch_error m)" "patch_failure (Inr x)"
  by (simp_all add: patch_failure_def patch_error_def)

lemma patch_failure_bind: "patch_failure m \<Longrightarrow> (\<And>x. patch_failure (f x)) \<Longrightarrow> patch_failure (bindR m f)"
  by (cases m) (auto simp: patch_failure_def)

lemma ops_patch_failure:
  "patch_failure (update_milestone op ms)" "patch_failure (insert_milestone_after op ms)"
  "patch_failure (remove_milestone op ms)"
  by (auto simp: update_milestone_def insert_milestone_after_def remove_milestone_def Let_def
        validate_new_milestone_def intro!: patch_failure_bind split: option.splits json.splits)

lemma apply_op_failure: "patch_failure (apply_op (map JObj ms) iop)"
  by (auto simp: apply_op_def Let_def ops_patch_failure intro!: patch_failure_bind split: json.splits)

lemma apply_ops_failure: "patch_failure (foldR apply_op (map JObj ms) iops)"
proof (induction iops arbitrary: ms)
  case (Cons iop iops)
  show ?case
  proof (cases "apply_op (map JObj ms) iop")
    case (Inl e)
    then show ?thesis using apply_op_failure [of ms iop] by (simp add: patch_failure_def)
  next
    case (Inr mss)
    then obtain ms' where "mss = map JObj ms'" by (rule apply_op_Inr) auto
    then show ?thesis using Inr Cons.IH by simp
  qed
qed simp

section \<open>Properties\<close>

lemma patch_frozen:
  assumes "apply_plan_patch plan operations = Inr plan'"
    and "dget plan ''milestones'' (JList []) = JList (map JObj ms)"
  shows "\<exists>ms'. map_of plan' ''milestones'' = Some (JList (map JObj ms')) \<and> frozen ms' = frozen ms"
proof -
  obtain ops mss' where a: "apply_ops (map JObj ms) ops = Inr mss'"
    and plan': "plan' = AList.update ''milestones'' (JList mss') (dsetdefault ''milestones'' (JList []) plan)"
    using apply_plan_patch_Inr [OF assms(1)] assms(2) by (metis json.inject(5))
  obtain ms' where "mss' = map JObj ms'" "frozen ms' = frozen ms"
    using apply_ops_invariant [OF a, of "\<lambda>ms'. frozen ms' = frozen ms"]
      update_keeps(1) insert_keeps remove_keeps by metis
  then show ?thesis by (auto simp: plan')
qed

text \<open>
  A plan patch never touches what is done: the completed milestones of the patched plan
  are those of the old plan, in the same order and unchanged in every field, except that references
  to a removed milestone may leave their \<open>depends_on\<close>; the plan's other fields are unchanged.
\<close>

lemma patch_keeps_completed:
  assumes "apply_plan_patch plan operations = Inr plan'"
    and "dget plan ''milestones'' (JList []) = JList (map JObj ms)"
  shows "\<exists>ms'. map_of plan' ''milestones'' = Some (JList (map JObj ms')) \<and>
     map (AList.delete ''depends_on'') (filter is_completed ms')
       = map (AList.delete ''depends_on'') (filter is_completed ms) \<and>
     (\<forall>k. k \<noteq> ''milestones'' \<longrightarrow> map_of plan' k = map_of plan k)"
  using patch_frozen [OF assms] apply_plan_patch_fields [OF assms(1)] by (auto simp: frozen_def)


abbreviation demo_milestone :: "string \<Rightarrow> string \<Rightarrow> obj" where
  "demo_milestone mid status \<equiv>
     [(''id'', JStr mid), (''title'', JStr ''t''), (''status'', JStr status),
      (''depends_on'', JList [JStr ''M2'']), (''target_files'', JList [JStr ''a.py'']),
      (''acceptance_criteria'', JList [JStr ''c''])]"

text \<open>
  Milestone identifiers stay unique through any accepted patch, provided the inserted
  identifiers are strings without surrounding space.
\<close>

lemma patch_ids_unique:
  assumes "apply_plan_patch plan (JList ops) = Inr plan'"
    and "dget plan ''milestones'' (JList []) = JList (map JObj ms)"
    and "ids_unique ms" and "\<forall>op\<in>set ops. clean_insert op"
  shows "\<exists>ms'. map_of plan' ''milestones'' = Some (JList (map JObj ms')) \<and> ids_unique ms'"
proof -
  obtain mss' where a: "apply_ops (map JObj ms) ops = Inr mss'"
    and plan': "plan' = AList.update ''milestones'' (JList mss') (dsetdefault ''milestones'' (JList []) plan)"
    using apply_plan_patch_Inr [OF assms(1)] assms(2) by (metis json.inject(5))
  have "\<exists>ms'. mss' = map JObj ms' \<and> ids_unique ms'"
  proof (rule apply_ops_invariant [OF a, of ids_unique])
    show "ids_unique ms" by (rule assms(3))
  next
    fix op ms ms'
    assume "ids_unique ms" "JObj op \<in> set ops"
      and "update_milestone op ms = Inr ms' \<or> insert_milestone_after op ms = Inr ms' \<or> remove_milestone op ms = Inr ms'"
    then show "ids_unique ms'"
      using assms(4) insert_ids_unique remove_ids_unique update_keeps(2) ids_unique_def by metis
  qed
  then show ?thesis by (auto simp: plan')
qed

text \<open>
  Uniqueness does rest on that proviso: the check strips the new identifier but the
  stored one keeps its spaces. Any otherwise valid milestone whose padded identifier is new once
  stripped can be inserted after the same anchor again and again, and the identifiers of the plan are
  then no longer unique.
\<close>

lemma patch_padded_id_twice:
  assumes "dget op ''milestone'' JNull = JObj d" and "map_of d ''id'' = Some (JStr s)"
    and "py_strip s \<noteq> s" and "py_strip s \<noteq> []" and "Some (py_strip s) \<notin> set (map ms_key ms)"
    and "truthy (dget d ''title'' JNull)" and "filled_list (dget d ''target_files'' JNull)"
    and "filled_list (dget d ''acceptance_criteria'' JNull)"
    and "Some (get_strip op ''after_id'' []) \<in> set (map ms_key ms)"
  shows "\<exists>ms1 ms2. insert_milestone_after op ms = Inr ms1 \<and> insert_milestone_after op ms1 = Inr ms2 \<and>
     length ms2 = length ms + 2 \<and> \<not> ids_unique ms2"
proof -
  let ?new = "AList.update ''status'' (JStr ''pending'') (dsetdefault ''depends_on'' (JList []) d)"
  have s: "s \<noteq> []" using assms(4) by (auto simp: py_strip_def)
  have "map_of ?new ''id'' = Some (JStr s)" by (simp add: map_of_dsetdefault assms(2))
  then have key: "ms_key ?new = Some s" by (rule ms_key_JStr) (rule s)
  have ins: "\<exists>i. insert_milestone_after op xs = Inr (insert_at (i + 1) ?new xs)"
    if fresh: "Some (py_strip s) \<notin> set (map ms_key xs)"
      and anchor: "Some (get_strip op ''after_id'' []) \<in> set (map ms_key xs)" for xs
  proof -
    have "get_strip op ''after_id'' [] \<in> set (map fst (index_by_id xs))"
      using anchor unfolding index_by_id_dom by (auto simp: image_iff)
    then obtain i where "map_of (index_by_id xs) (get_strip op ''after_id'' []) = Some i"
      by (metis map_of_eq_None_iff not_Some_eq list.set_map)
    moreover have "py_strip s \<notin> set (map fst (index_by_id xs))"
      using fresh unfolding index_by_id_dom by (auto simp: image_iff)
    moreover have "get_strip d ''id'' [] = py_strip s"
      by (simp add: get_strip_def get_str_def dget_def assms(2))
    ultimately show ?thesis using assms(1,4,6-8)
      by (auto simp: insert_milestone_after_def validate_new_milestone_def Let_def simp del: list.set_map)
  qed
  obtain i where i: "insert_milestone_after op ms = Inr (insert_at (i + 1) ?new ms)"
    using ins [OF assms(5,9)] by blast
  have keys: "set (map ms_key (insert_at (i + 1) ?new ms)) = insert (Some s) (set (map ms_key ms))"
    by (simp only: map_insert_at set_insert_at key)
  obtain j where j: "insert_milestone_after op (insert_at (i + 1) ?new ms) =
      Inr (insert_at (j + 1) ?new (insert_at (i + 1) ?new ms))"
    using ins [of "insert_at (i + 1) ?new ms"] assms(3,5,9) unfolding keys by auto
  have "\<not> ids_unique (insert_at (j + 1) ?new (insert_at (i + 1) ?new ms))"
    by (simp only: ids_unique_def map_insert_at distinct_insert_at set_insert_at key) simp
  then show ?thesis using i j by (intro exI conjI) (assumption | simp)+
qed

text \<open>
  A removal cleans up after itself: when identifiers are unique the removed one is gone,
  and no dependency list of any milestone mentions it any more.
\<close>

lemma remove_leaves_no_reference:
  assumes "remove_milestone op ms = Inr ms'" and "ids_unique ms"
  shows "Some (get_strip op ''milestone_id'' []) \<notin> set (map ms_key ms') \<and>
     length ms' + 1 = length ms \<and> ids_unique ms' \<and>
     (\<forall>m\<in>set ms'. \<forall>deps. dget m ''depends_on'' JNull = JList deps \<longrightarrow>
        JStr (get_strip op ''milestone_id'' []) \<notin> set deps)"
proof -
  from assms(1) obtain i where i: "map_of (index_by_id ms) (get_strip op ''milestone_id'' []) = Some i"
    and ms': "ms' = map (drop_dependency (get_strip op ''milestone_id'' [])) (remove_at i ms)"
    by (rule remove_milestone_Inr)
  have "length ms' + 1 = length ms"
    using index_by_id_Some [OF i] by (auto simp: ms' remove_at_def)
  then show ?thesis
    using remove_forgets [OF assms] remove_ids_unique [OF assms]
    by (auto simp: ms' dest: drop_dependency_gone)
qed

text \<open>
  On a plan whose milestones are objects a refused patch is always reported as a
  \<open>PlanPatchError\<close>, the one exception the caller turns into feedback for the orchestrator: no other
  exception escapes, whatever JSON the orchestrator sent as operations.
\<close>

lemma patch_errors_reportable:
  assumes "dget plan ''milestones'' (JList []) = JList (map JObj ms)"
    and "apply_plan_patch plan operations = Inl e"
  shows "\<exists>msg. e = PlanPatchError msg"
proof -
  have "patch_failure (apply_plan_patch plan operations)"
  proof (cases operations)
    case (JList ops)
    have m: "dget (dsetdefault ''milestones'' (JList []) plan) ''milestones'' JNull = JList (map JObj ms)"
      using assms(1) by (simp add: dget_def map_of_dsetdefault split: option.splits)
    show ?thesis
      by (auto simp: apply_plan_patch_def Let_def m JList apply_ops_def
          intro!: patch_failure_bind apply_ops_failure)
  qed (simp_all add: apply_plan_patch_def)
  then show ?thesis using assms(2) by (cases e) (auto simp: patch_failure_def)
qed

end
