(* ===== verification/PlanLint.thy ===== *)
theory PlanLint
  imports PlanOps
begin

text \<open>
  \<open>src/agents/plan_lint.py\<close> and \<open>validate_plan_payload\<close> of \<open>src/agents/utils.py\<close>: the two gates a
  plan passes before it runs. The linter repairs paths and dependency lists in place and reports what
  it cannot repair; the validator accepts or rejects.
\<close>

section \<open>The linter\<close>

definition env_setup_terms :: "string list" where
  "env_setup_terms =
     [''environment setup'', ''pip install'', ''install the required dependencies'', ''set up the venv'']"

definition profiles :: "string list" where
  "profiles = [''auto'', ''ui'', ''python'', ''lint'', ''structural'']"

definition strip_workspace_prefix :: "string \<Rightarrow> string" where
  "strip_workspace_prefix path =
     (if starts_with ''workspace/'' path then drop (length ''workspace/'') path else path)"

text \<open>The state of the loop: the labels seen, the fixes made, the issues found.\<close>

record lint_state =
  l_seen :: "string list"
  l_fixes :: "string list"
  l_issues :: "string list"

definition add_issue :: "string \<Rightarrow> lint_state \<Rightarrow> lint_state" where
  "add_issue msg st = st\<lparr>l_issues := l_issues st @ [msg]\<rparr>"

definition add_fix :: "string \<Rightarrow> lint_state \<Rightarrow> lint_state" where
  "add_fix msg st = st\<lparr>l_fixes := l_fixes st @ [msg]\<rparr>"

definition issue_if :: "bool \<Rightarrow> string \<Rightarrow> lint_state \<Rightarrow> lint_state" where
  "issue_if b msg st = (if b then add_issue msg st else st)"

definition milestone_number :: "nat \<Rightarrow> string" where
  "milestone_number index = CHR ''#'' # int_str (int index + 1)"

definition label_of :: "nat \<Rightarrow> obj \<Rightarrow> string" where
  "label_of index m = py_str (py_or (dget m ''id'' JNull) (JStr (milestone_number index)))"

definition lint_label :: "nat \<Rightarrow> obj \<Rightarrow> lint_state \<Rightarrow> lint_state" where
  "lint_label index m st =
     (let label = label_of index m;
          st1 = issue_if (label \<in> set (l_seen st)) (''duplicate milestone id '' @ quoted label) st;
          st2 = st1\<lparr>l_seen := label # l_seen st1\<rparr>
      in issue_if (label = [] \<or> label = milestone_number index)
           (''milestone '' @ milestone_number index @ '' is missing an '' @ quoted ''id'') st2)"

definition mentions_env_setup :: "obj \<Rightarrow> bool" where
  "mentions_env_setup m =
     (let haystack = py_lower (get_str m ''title'' [] @ '' '' @ get_str m ''description'' [])
      in \<exists>t\<in>set env_setup_terms. contains t haystack)"

definition lint_terms :: "nat \<Rightarrow> obj \<Rightarrow> lint_state \<Rightarrow> lint_state" where
  "lint_terms index m =
     issue_if (mentions_env_setup m)
       (label_of index m @ '': environment-setup / pip-install milestones are forbidden'')"

text \<open>
  The dependency list: references to no milestone and to the milestone itself are dropped;
  references to the same or a later position are reported.
\<close>

definition valid_deps :: "string list \<Rightarrow> string \<Rightarrow> json list \<Rightarrow> json list" where
  "valid_deps ids label deps = filter (\<lambda>d. py_str d \<in> set ids \<and> py_str d \<noteq> label) deps"

definition forward_deps :: "(string \<times> nat) list \<Rightarrow> nat \<Rightarrow> string \<Rightarrow> json list \<Rightarrow> string list" where
  "forward_deps positions index label deps =
     map py_str
       (filter (\<lambda>d. (case map_of positions (py_str d) of None \<Rightarrow> - 1 | Some p \<Rightarrow> int p)
                    \<ge> int (dget positions label index)) deps)"

definition lint_deps ::
    "string list \<Rightarrow> (string \<times> nat) list \<Rightarrow> nat \<Rightarrow> obj \<times> lint_state \<Rightarrow> obj \<times> lint_state" where
  "lint_deps ids positions index mst =
     (case mst of (m, st) \<Rightarrow>
       (case dget m ''depends_on'' JNull of
          JList deps \<Rightarrow>
            (let label = label_of index m;
                 valid = valid_deps ids label deps;
                 m1 = (if valid \<noteq> deps then AList.update ''depends_on'' (JList valid) m else m);
                 st1 = (if valid \<noteq> deps
                        then add_fix (label @ '': dropped invalid depends_on references'') st else st);
                 forward = forward_deps positions index label valid
             in (m1, issue_if (forward \<noteq> [])
                       (label @ '': depends_on must reference earlier milestones; move or reorder ''
                        @ repr_strs forward) st1))
        | _ \<Rightarrow> (m, st)))"

definition lint_targets :: "nat \<Rightarrow> obj \<times> lint_state \<Rightarrow> obj \<times> lint_state" where
  "lint_targets index mst =
     (case mst of (m, st) \<Rightarrow>
       (let label = label_of index m
        in case dget m ''target_files'' JNull of
             JList (t # ts) \<Rightarrow>
               (let targets = t # ts;
                    stripped = map (\<lambda>p. JStr (strip_workspace_prefix (py_str p))) targets
                in if stripped \<noteq> targets
                   then (AList.update ''target_files'' (JList stripped) m,
                         add_fix (label @ '': stripped workspace/ prefixes from target_files'') st)
                   else (m, st))
           | _ \<Rightarrow> (m, add_issue (label @ '': '' @ quoted ''target_files'' @ '' must be a non-empty list'') st)))"

fun criterion_ok :: "json \<Rightarrow> bool" where
  "criterion_ok (JStr s) = (py_strip s \<noteq> [])"
| "criterion_ok _ = False"

definition lint_criteria :: "nat \<Rightarrow> obj \<Rightarrow> lint_state \<Rightarrow> lint_state" where
  "lint_criteria index m st =
     (let label = label_of index m
      in case dget m ''acceptance_criteria'' JNull of
           JList (c # cs) \<Rightarrow>
             issue_if (\<exists>x\<in>set (c # cs). \<not> criterion_ok x)
               (label @ '': acceptance criteria must be non-empty strings'') st
         | _ \<Rightarrow> add_issue (label @ '': '' @ quoted ''acceptance_criteria'' @ '' must be a non-empty list'') st)"

definition lint_profile :: "nat \<Rightarrow> obj \<Rightarrow> lint_state \<Rightarrow> lint_state" where
  "lint_profile index m =
     (let profile = get_norm m ''validation_profile'' ''auto''
      in issue_if (profile \<notin> set profiles)
           (label_of index m @ '': unsupported validation_profile '' @ quoted profile
            @ '' (use auto, ui, python, lint, or structural)''))"

definition lint_contract :: "nat \<Rightarrow> obj \<Rightarrow> lint_state \<Rightarrow> lint_state" where
  "lint_contract index m =
     issue_if (map_of m ''validation_contract'' \<noteq> None)
       (label_of index m @ '': validation_contract is not allowed; provide acceptance_criteria and validation_profile'')"

text \<open>The body of the loop for one milestone.\<close>

definition lint_milestone ::
    "string list \<Rightarrow> (string \<times> nat) list \<Rightarrow> nat \<Rightarrow> json \<Rightarrow> lint_state \<Rightarrow> json \<times> lint_state" where
  "lint_milestone ids positions index milestone st =
     (case milestone of
        JObj m \<Rightarrow>
          (let st1 = lint_terms index m (lint_label index m st);
               (m2, st2) = lint_targets index (lint_deps ids positions index (m, st1))
           in (JObj m2, lint_contract index m2 (lint_profile index m2 (lint_criteria index m2 st2))))
      | _ \<Rightarrow> (milestone, add_issue (''milestone '' @ milestone_number index @ '' is not a JSON object'') st))"

fun lint_from ::
    "string list \<Rightarrow> (string \<times> nat) list \<Rightarrow> nat \<Rightarrow> json list \<Rightarrow> lint_state \<Rightarrow> json list \<times> lint_state" where
  "lint_from ids positions index [] st = ([], st)"
| "lint_from ids positions index (m # ms) st =
     (let (m', st') = lint_milestone ids positions index m st;
          (ms', st'') = lint_from ids positions (Suc index) ms st'
      in (m' # ms', st''))"

definition milestone_ids :: "json list \<Rightarrow> string list" where
  "milestone_ids milestones =
     concat (map (\<lambda>ms. case ms of
                         JObj d \<Rightarrow> if truthy (dget d ''id'' JNull) then [py_str (dget d ''id'' JNull)] else []
                       | _ \<Rightarrow> []) milestones)"

definition id_positions :: "string list \<Rightarrow> (string \<times> nat) list" where
  "id_positions ids = fold (\<lambda>(i, x) d. AList.update x i d) (enumerate 0 ids) []"

definition lint_plan :: "obj \<Rightarrow> obj \<times> string list \<times> string list" where
  "lint_plan plan =
     (case dget plan ''milestones'' JNull of
        JList (m # ms) \<Rightarrow>
          (let ids = milestone_ids (m # ms);
               (ms', st) = lint_from ids (id_positions ids) 0 (m # ms) \<lparr>l_seen = [], l_fixes = [], l_issues = []\<rparr>
           in (AList.update ''milestones'' (JList ms') plan, l_fixes st, l_issues st))
      | _ \<Rightarrow> (plan, [], [''plan contains no milestones'']))"

section \<open>The validator\<close>

definition validate_milestone :: "nat \<Rightarrow> json \<Rightarrow> string option" where
  "validate_milestone index ms =
     (case ms of
        JObj d \<Rightarrow>
          (let name = quoted (py_str (dget d ''id'' JNull)); profile = py_lower (get_str d ''validation_profile'' ''auto'')
           in if \<not> truthy (dget d ''id'' JNull)
              then Some (''milestone '' @ milestone_number index @ '' is missing an '' @ quoted ''id'')
              else if \<not> truthy (dget d ''target_files'' JNull)
              then Some (''milestone '' @ name @ '' must list '' @ quoted ''target_files'')
              else if \<not> (case dget d ''acceptance_criteria'' JNull of
                          JList cs \<Rightarrow> cs \<noteq> [] \<and> (\<forall>c\<in>set cs. criterion_ok c) | _ \<Rightarrow> False)
              then Some (''milestone '' @ name @ '' must include a non-empty '' @ quoted ''acceptance_criteria''
                         @ '' list of non-empty strings'')
              else if profile \<notin> set profiles
              then Some (''milestone '' @ name @ '' has unsupported validation_profile '' @ quoted profile)
              else if map_of d ''validation_contract'' \<noteq> None
              then Some (''milestone '' @ name @ '' must not include '' @ quoted ''validation_contract''
                         @ ''; provide high-level intent only'')
              else None)
      | _ \<Rightarrow> Some (''milestone '' @ milestone_number index @ '' is missing an '' @ quoted ''id''))"

fun first_error :: "nat \<Rightarrow> json list \<Rightarrow> string option" where
  "first_error index [] = None"
| "first_error index (m # ms) =
     (case validate_milestone index m of Some e \<Rightarrow> Some e | None \<Rightarrow> first_error (Suc index) ms)"

definition validate_plan_payload :: "obj \<Rightarrow> string option" where
  "validate_plan_payload parsed =
     (case dget parsed ''milestones'' JNull of
        JList (m # ms) \<Rightarrow> first_error 0 (m # ms)
      | _ \<Rightarrow> Some (''plan must contain a non-empty '' @ quoted ''milestones'' @ '' list''))"


section \<open>What a clean plan looks like\<close>

lemma issue_if_issues [simp]: "l_issues (issue_if b msg st) = [] \<longleftrightarrow> \<not> b \<and> l_issues st = []"
  by (simp add: issue_if_def add_issue_def)

lemma issue_if_seen [simp]: "l_seen (issue_if b msg st) = l_seen st"
  by (simp add: issue_if_def add_issue_def)

lemma add_issue_simps [simp]: "l_issues (add_issue msg st) \<noteq> []" "l_seen (add_issue msg st) = l_seen st"
  by (simp_all add: add_issue_def)

lemma add_fix_simps [simp]:
  "l_issues (add_fix msg st) = l_issues st" "l_seen (add_fix msg st) = l_seen st"
  by (simp_all add: add_fix_def)

text \<open>The conditions on one repaired packet, at its position.\<close>

definition packet_ok :: "string list \<Rightarrow> (string \<times> nat) list \<Rightarrow> nat \<Rightarrow> string \<Rightarrow> obj \<Rightarrow> bool" where
  "packet_ok ids positions index label d \<longleftrightarrow>
     (\<forall>deps. dget d ''depends_on'' JNull = JList deps \<longrightarrow>
        (\<forall>x\<in>set deps. py_str x \<in> set ids \<and>
           (\<forall>p. map_of positions (py_str x) = Some p \<longrightarrow> p < dget positions label index))) \<and>
     filled_list (dget d ''target_files'' JNull) \<and>
     (\<exists>cs. dget d ''acceptance_criteria'' JNull = JList cs \<and> cs \<noteq> [] \<and> (\<forall>c\<in>set cs. criterion_ok c)) \<and>
     get_norm d ''validation_profile'' ''auto'' \<in> set profiles \<and>
     map_of d ''validation_contract'' = None"

lemma lint_label_clean:
  assumes "l_issues (lint_label index m st) = []"
  shows "l_issues st = []" and "label_of index m \<notin> set (l_seen st)" and "ms_key m = Some (label_of index m)"
    and "l_seen (lint_label index m st) = label_of index m # l_seen st"
proof -
  show "l_issues st = []" and "label_of index m \<notin> set (l_seen st)"
    and "l_seen (lint_label index m st) = label_of index m # l_seen st"
    using assms by (simp_all add: lint_label_def Let_def)
  have "label_of index m \<noteq> milestone_number index"
    using assms by (simp add: lint_label_def Let_def)
  then have "truthy (dget m ''id'' JNull)" by (rule_tac ccontr) (simp add: label_of_def)
  then show "ms_key m = Some (label_of index m)" by (simp add: ms_key_def label_of_def)
qed

lemma lint_deps_other: "k \<noteq> ''depends_on'' \<Longrightarrow> map_of (fst (lint_deps ids positions index (m, st))) k = map_of m k"
  by (auto simp: lint_deps_def Let_def split: json.splits)

lemma lint_targets_other: "k \<noteq> ''target_files'' \<Longrightarrow> map_of (fst (lint_targets index (m, st))) k = map_of m k"
  by (auto simp: lint_targets_def Let_def split: json.splits list.splits)

lemma lint_deps_clean:
  assumes "lint_deps ids positions index (m, st) = (m', st')" and "l_issues st' = []"
  shows "l_issues st = []" and "l_seen st' = l_seen st"
    and "\<forall>deps. dget m' ''depends_on'' JNull = JList deps \<longrightarrow>
        (\<forall>x\<in>set deps. py_str x \<in> set ids \<and>
           (\<forall>p. map_of positions (py_str x) = Some p \<longrightarrow> p < dget positions (label_of index m) index))"
proof -
  have "l_issues st = [] \<and> l_seen st' = l_seen st \<and>
      (\<forall>deps. dget m' ''depends_on'' JNull = JList deps \<longrightarrow>
        (\<forall>x\<in>set deps. py_str x \<in> set ids \<and>
           (\<forall>p. map_of positions (py_str x) = Some p \<longrightarrow> p < dget positions (label_of index m) index)))"
  proof (cases "dget m ''depends_on'' JNull")
    case (JList deps)
    let ?v = "valid_deps ids (label_of index m) deps"
    have m': "dget m' ''depends_on'' JNull = JList ?v"
      and st': "l_issues st = []" "l_seen st' = l_seen st"
      and f: "forward_deps positions index (label_of index m) ?v = []"
      using assms JList by (cases "?v = deps"; simp add: lint_deps_def Let_def; fastforce)+
    have "py_str x \<in> set ids \<and>
        (\<forall>p. map_of positions (py_str x) = Some p \<longrightarrow> p < dget positions (label_of index m) index)"
      if "x \<in> set ?v" for x
      using that f by (force simp: valid_deps_def forward_deps_def filter_empty_conv)
    then show ?thesis using m' st' by auto
  qed (use assms in \<open>auto simp: lint_deps_def\<close>)
  then show "l_issues st = []" and "l_seen st' = l_seen st"
    and "\<forall>deps. dget m' ''depends_on'' JNull = JList deps \<longrightarrow>
        (\<forall>x\<in>set deps. py_str x \<in> set ids \<and>
           (\<forall>p. map_of positions (py_str x) = Some p \<longrightarrow> p < dget positions (label_of index m) index))"
    by blast+
qed

lemma lint_targets_clean:
  assumes "lint_targets index (m, st) = (m', st')" and "l_issues st' = []"
  shows "l_issues st = []" and "l_seen st' = l_seen st" and "filled_list (dget m' ''target_files'' JNull)"
proof -
  have "l_issues st = [] \<and> l_seen st' = l_seen st \<and> filled_list (dget m' ''target_files'' JNull)"
    using assms by (auto simp: lint_targets_def Let_def split: json.splits list.splits if_splits)
  then show "l_issues st = []" and "l_seen st' = l_seen st" and "filled_list (dget m' ''target_files'' JNull)"
    by blast+
qed

lemma lint_criteria_clean:
  assumes "l_issues (lint_criteria index m st) = []"
  shows "l_issues st = []" and "l_seen (lint_criteria index m st) = l_seen st"
    and "\<exists>cs. dget m ''acceptance_criteria'' JNull = JList cs \<and> cs \<noteq> [] \<and> (\<forall>c\<in>set cs. criterion_ok c)"
proof -
  have "l_issues st = [] \<and> l_seen (lint_criteria index m st) = l_seen st \<and>
    (\<exists>cs. dget m ''acceptance_criteria'' JNull = JList cs \<and> cs \<noteq> [] \<and> (\<forall>c\<in>set cs. criterion_ok c))"
    using assms by (auto simp: lint_criteria_def Let_def split: json.splits list.splits)
  then show "l_issues st = []" and "l_seen (lint_criteria index m st) = l_seen st"
    and "\<exists>cs. dget m ''acceptance_criteria'' JNull = JList cs \<and> cs \<noteq> [] \<and> (\<forall>c\<in>set cs. criterion_ok c)"
    by blast+
qed

lemma lint_milestone_clean:
  assumes "lint_milestone ids positions index m st = (m', st')" and "l_issues st' = []"
  obtains d d' where "m = JObj d" "m' = JObj d'" "l_issues st = []"
    and "ms_key d = Some (label_of index d)" "ms_key d' = ms_key d"
    and "label_of index d \<notin> set (l_seen st)" "l_seen st' = label_of index d # l_seen st"
    and "packet_ok ids positions index (label_of index d) d'"
proof (cases m)
  case (JObj d)
  define st1 where "st1 = lint_terms index d (lint_label index d st)"
  obtain m1 st2 where 1: "lint_deps ids positions index (d, st1) = (m1, st2)" by fastforce
  obtain d' st3 where 2: "lint_targets index (m1, st2) = (d', st3)" by fastforce
  have m': "m' = JObj d'"
    and st': "st' = lint_contract index d' (lint_profile index d' (lint_criteria index d' st3))"
    using assms(1) by (simp_all add: lint_milestone_def JObj Let_def st1_def [symmetric] 1 2)
  have prof: "get_norm d' ''validation_profile'' ''auto'' \<in> set profiles"
    and con: "map_of d' ''validation_contract'' = None"
    and i3: "l_issues (lint_criteria index d' st3) = []"
    and seen3: "l_seen st' = l_seen (lint_criteria index d' st3)"
    using assms(2) by (simp_all add: st' lint_contract_def lint_profile_def Let_def)
  note c3 = lint_criteria_clean [OF i3]
  note c2 = lint_targets_clean [OF 2 c3(1)]
  note c1 = lint_deps_clean [OF 1 c2(1)]
  have i0: "l_issues (lint_label index d st) = []" using c1(1) by (simp add: st1_def lint_terms_def)
  note c0 = lint_label_clean [OF i0]
  have keep: "map_of d' k = map_of d k" if "k \<noteq> ''depends_on''" "k \<noteq> ''target_files''" for k
    using lint_deps_other [OF that(1), of ids positions index d st1]
      lint_targets_other [OF that(2), of index m1 st2] by (simp add: 1 2)
  have dep: "dget d' ''depends_on'' JNull = dget m1 ''depends_on'' JNull"
    using lint_targets_other [of "''depends_on''" index m1 st2] by (simp add: 2 dget_def)
  have key: "ms_key d' = ms_key d" by (rule ms_key_cong) (rule keep; simp)
  have ok: "packet_ok ids positions index (label_of index d) d'"
    unfolding packet_ok_def dep using c1(3) c2(3) c3(3) prof con by blast
  have seen: "l_seen st' = label_of index d # l_seen st"
    using seen3 c3(2) c2(2) c1(2) c0(4) by (simp add: st1_def lint_terms_def)
  show ?thesis by (rule that [OF JObj m' c0(1) c0(3) key c0(2) seen ok])
qed (use assms in \<open>auto simp: lint_milestone_def\<close>)


lemma lint_from_clean:
  assumes "lint_from ids positions n ms st = (ms', st')" and "l_issues st' = []"
  shows "l_issues st = [] \<and> (\<exists>ds ds'. ms = map JObj ds \<and> ms' = map JObj ds' \<and>
     map ms_key ds' = map ms_key ds \<and>
     (\<forall>i<length ds. \<exists>label. ms_key (ds ! i) = Some label \<and> label \<notin> set (l_seen st) \<and>
        packet_ok ids positions (n + i) label (ds' ! i)) \<and>
     distinct (map ms_key ds))"
  using assms
proof (induction ms arbitrary: n st ms')
  case (Cons m ms)
  obtain m1 st1 where 1: "lint_milestone ids positions n m st = (m1, st1)" by fastforce
  obtain ms1 st2 where 2: "lint_from ids positions (Suc n) ms st1 = (ms1, st2)" by fastforce
  have ms': "ms' = m1 # ms1" and st': "st' = st2" using Cons.prems(1) by (simp_all add: 1 2)
  obtain ds ds' where st1: "l_issues st1 = []" and ds: "ms = map JObj ds" "ms1 = map JObj ds'"
    and keys: "map ms_key ds' = map ms_key ds" and dist: "distinct (map ms_key ds)"
    and rest: "\<forall>i<length ds. \<exists>label. ms_key (ds ! i) = Some label \<and> label \<notin> set (l_seen st1) \<and>
        packet_ok ids positions (Suc n + i) label (ds' ! i)"
    using Cons.IH [OF 2 [folded st'] Cons.prems(2)] by blast
  obtain d d' where d: "m = JObj d" "m1 = JObj d'" "l_issues st = []"
    and key: "ms_key d = Some (label_of n d)" "ms_key d' = ms_key d"
    and new: "label_of n d \<notin> set (l_seen st)" and seen: "l_seen st1 = label_of n d # l_seen st"
    and ok: "packet_ok ids positions n (label_of n d) d'"
    by (rule lint_milestone_clean [OF 1 st1])
  have "ms_key d \<notin> set (map ms_key ds)"
  proof
    assume "ms_key d \<in> set (map ms_key ds)"
    then obtain i where "i < length ds" "ms_key (ds ! i) = Some (label_of n d)"
      by (auto simp: in_set_conv_nth key)
    with rest seen show False by auto
  qed
  moreover have "\<exists>label. ms_key ((d # ds) ! i) = Some label \<and> label \<notin> set (l_seen st) \<and>
        packet_ok ids positions (n + i) label ((d' # ds') ! i)" if "i < length (d # ds)" for i
    using that rest key(1) new ok seen by (cases i) auto
  ultimately show ?case
    by (intro conjI exI [of _ "d # ds"] exI [of _ "d' # ds'"])
       (use d ds ms' keys key dist in simp_all)
qed simp

lemma map_of_positions:
  assumes "distinct xs" and "i < length xs"
  shows "map_of (fold (\<lambda>(i, x) d. AList.update x i d) (enumerate n xs) d) (xs ! i) = Some (n + i)"
proof -
  have other: "map_of (fold (\<lambda>(i, x) d. AList.update x i d) (enumerate n xs) d) k = map_of d k"
    if "k \<notin> set xs" for k n d and xs :: "'a list"
    using that by (induction xs arbitrary: n d) auto
  show ?thesis using assms
  proof (induction xs arbitrary: n d i)
    case (Cons x xs)
    then show ?case by (cases i) (auto simp: other)
  qed simp
qed

lemma milestone_ids_keys:
  "(\<forall>d\<in>set ds. ms_key d \<noteq> None) \<Longrightarrow> map Some (milestone_ids (map JObj ds)) = map ms_key ds"
  by (induction ds) (auto simp: milestone_ids_def ms_key_def split: if_splits)

lemma lint_plan_clean:
  assumes "lint_plan plan = (plan', fs, [])"
  obtains ds where "map_of plan' ''milestones'' = Some (JList (map JObj ds))" and "ds \<noteq> []"
    and "ids_unique ds"
    and "\<And>i. i < length ds \<Longrightarrow> \<exists>label positions ids. ms_key (ds ! i) = Some label \<and>
           packet_ok ids positions i label (ds ! i) \<and>
           map Some ids = map ms_key ds \<and> (\<forall>j<length ds. map_of positions (ids ! j) = Some j) \<and>
           dget positions label i = i"
proof -
  obtain m ms where pl: "dget plan ''milestones'' JNull = JList (m # ms)"
    using assms by (auto simp: lint_plan_def split: json.splits list.splits)
  let ?ids = "milestone_ids (m # ms)"
  let ?st = "\<lparr>l_seen = [], l_fixes = [], l_issues = []\<rparr>"
  obtain ms' st where 1: "lint_from ?ids (id_positions ?ids) 0 (m # ms) ?st = (ms', st)" by fastforce
  have plan': "plan' = AList.update ''milestones'' (JList ms') plan" and st: "l_issues st = []"
    using assms 1 by (simp_all add: lint_plan_def pl Let_def del: lint_from.simps)
  obtain ds ds' where ds: "m # ms = map JObj ds" "ms' = map JObj ds'"
    and keys: "map ms_key ds' = map ms_key ds" and dist: "distinct (map ms_key ds)"
    and ok0: "\<forall>i<length ds. \<exists>label. ms_key (ds ! i) = Some label \<and> label \<notin> set (l_seen ?st) \<and>
        packet_ok ?ids (id_positions ?ids) (0 + i) label (ds' ! i)"
    using lint_from_clean [OF 1 st] by (elim conjE exE) (rule that)
  then have ok: "\<forall>i<length ds. \<exists>label. ms_key (ds ! i) = Some label \<and>
      packet_ok ?ids (id_positions ?ids) i label (ds' ! i)" by auto
  have some: "\<forall>d\<in>set ds. ms_key d \<noteq> None" using ok by (metis in_set_conv_nth option.distinct(1))
  have ids: "map Some ?ids = map ms_key ds" by (simp only: ds(1) milestone_ids_keys [OF some])
  have len: "length ?ids = length ds" using ids by (metis length_map)
  have "distinct ?ids" using dist unfolding ids [symmetric] by (simp add: distinct_map)
  then have pos: "map_of (id_positions ?ids) (?ids ! j) = Some j" if "j < length ds" for j
    unfolding id_positions_def using map_of_positions [of ?ids j 0] that len by simp
  have len': "length ds' = length ds" using keys by (metis length_map)
  show thesis
  proof (rule that [of ds'])
    show "map_of plan' ''milestones'' = Some (JList (map JObj ds'))" by (simp add: plan' ds)
    show "ds' \<noteq> []" using ds(1) len' by auto
    show "ids_unique ds'" using dist some by (auto simp: ids_unique_def keys)
  next
    fix i assume i: "i < length ds'"
    then obtain label where label: "ms_key (ds ! i) = Some label"
      "packet_ok ?ids (id_positions ?ids) i label (ds' ! i)" using ok len' by auto
    have "ms_key (ds' ! i) = Some label" using label(1) keys i len' by (metis nth_map)
    moreover have "Some (?ids ! i) = ms_key (ds ! i)" using ids i len' len by (metis nth_map)
    then have "dget (id_positions ?ids) label i = i" using pos [of i] i len' label(1) by (simp add: dget_def)
    ultimately show "\<exists>label positions ids. ms_key (ds' ! i) = Some label \<and>
           packet_ok ids positions i label (ds' ! i) \<and>
           map Some ids = map ms_key ds' \<and> (\<forall>j<length ds'. map_of positions (ids ! j) = Some j) \<and>
           dget positions label i = i"
      using label(2) ids keys pos len' by metis
  qed
qed

section \<open>Properties\<close>

text \<open>
  Property C37. A plan the linter finds nothing wrong with can be run from top to bottom: its milestones
  are objects with unique identifiers, and every reference in a dependency list names a milestone at
  an earlier position, so the order of the list is a topological order and no dependency cycle exists.
\<close>

theorem lint_clean_topological:
  assumes "lint_plan plan = (plan', fs, [])"
  shows "\<exists>ds. map_of plan' ''milestones'' = Some (JList (map JObj ds)) \<and> ds \<noteq> [] \<and> ids_unique ds \<and>
     (\<forall>i<length ds. \<forall>deps. dget (ds ! i) ''depends_on'' JNull = JList deps \<longrightarrow>
        (\<forall>x\<in>set deps. \<exists>j<i. ms_key (ds ! j) = Some (py_str x)))"
proof (rule lint_plan_clean [OF assms])
  fix ds assume ds: "map_of plan' ''milestones'' = Some (JList (map JObj ds))" "ds \<noteq> []" "ids_unique ds"
    and ok: "\<And>i. i < length ds \<Longrightarrow> \<exists>label positions ids. ms_key (ds ! i) = Some label \<and>
           packet_ok ids positions i label (ds ! i) \<and>
           map Some ids = map ms_key ds \<and> (\<forall>j<length ds. map_of positions (ids ! j) = Some j) \<and>
           dget positions label i = i"
  have "\<exists>j<i. ms_key (ds ! j) = Some (py_str x)"
    if i: "i < length ds" and deps: "dget (ds ! i) ''depends_on'' JNull = JList deps" and x: "x \<in> set deps"
    for i deps x
  proof -
    from ok [OF i] obtain label positions ids where p: "packet_ok ids positions i label (ds ! i)"
      and ids: "map Some ids = map ms_key ds" and pos: "\<forall>j<length ds. map_of positions (ids ! j) = Some j"
      and li: "dget positions label i = i" by blast
    have len: "length ids = length ds" using ids by (metis length_map)
    have "py_str x \<in> set ids" and lt: "\<forall>q. map_of positions (py_str x) = Some q \<longrightarrow> q < i"
      using p deps x li by (auto simp: packet_ok_def)
    then obtain j where j: "j < length ds" "ids ! j = py_str x" using len by (metis in_set_conv_nth)
    then have "j < i" using pos lt by metis
    moreover have "ms_key (ds ! j) = Some (py_str x)" using ids j len by (metis nth_map)
    ultimately show ?thesis by blast
  qed
  with ds show ?thesis by blast
qed

abbreviation lint_demo :: obj where
  "lint_demo \<equiv> [(''milestones'', JList
     [JObj [(''id'', JStr ''M1''), (''target_files'', JList [JStr ''workspace/a.py'']),
            (''acceptance_criteria'', JList [JStr ''c''])],
      JObj [(''id'', JStr ''M2''), (''depends_on'', JList [JStr ''M1'', JStr ''M9'']),
            (''target_files'', JList [JStr ''b.py'']), (''acceptance_criteria'', JList [JStr ''c''])]])]"

lemma lint_clean_topological_witness:
  "\<exists>plan' fs ds. lint_plan lint_demo = (plan', fs, []) \<and> length fs = 2 \<and>
     map_of plan' ''milestones'' = Some (JList (map JObj ds)) \<and> ids_unique ds"
proof -
  have c: "case lint_plan lint_demo of (plan', fs, issues) \<Rightarrow> length fs = 2 \<and> issues = []"
    by code_simp
  then obtain plan' fs where l: "lint_plan lint_demo = (plan', fs, [])" "length fs = 2"
    by (auto split: prod.splits)
  with lint_clean_topological [OF l(1)] show ?thesis by blast
qed

lemma validate_milestone_ok:
  assumes "packet_ok ids positions i label d" and "ms_key d \<noteq> None"
    and "stripped (get_str d ''validation_profile'' ''auto'')"
  shows "validate_milestone n (JObj d) = None"
proof -
  have "truthy (dget d ''id'' JNull)" using assms(2) by (auto simp: ms_key_def split: if_splits)
  moreover have "truthy (dget d ''target_files'' JNull)"
    using assms(1) by (cases "dget d ''target_files'' JNull") (auto simp: packet_ok_def)
  moreover have "py_lower (get_str d ''validation_profile'' ''auto'') \<in> set profiles"
    using assms(1,3) by (simp add: packet_ok_def get_norm_def stripped_id)
  ultimately show ?thesis
    using assms(1) by (auto simp: validate_milestone_def packet_ok_def Let_def)
qed

lemma first_error_None: "(\<forall>m\<in>set ms. \<forall>n. validate_milestone n m = None) \<Longrightarrow> first_error n ms = None"
  by (induction ms arbitrary: n) auto

text \<open>
  The two gates agree: a plan the linter leaves without issues is accepted by
  \<open>validate_plan_payload\<close>, as long as no profile name has surrounding space (the linter strips it, the
  validator does not).
\<close>

lemma lint_clean_validates:
  assumes "lint_plan plan = (plan', fs, [])"
    and "map_of plan' ''milestones'' = Some (JList (map JObj ds))"
    and "\<forall>d\<in>set ds. stripped (get_str d ''validation_profile'' ''auto'')"
  shows "validate_plan_payload plan' = None"
proof (rule lint_plan_clean [OF assms(1)])
  fix es assume es: "map_of plan' ''milestones'' = Some (JList (map JObj es))" "es \<noteq> []"
    and ok: "\<And>i. i < length es \<Longrightarrow> \<exists>label positions ids. ms_key (es ! i) = Some label \<and>
           packet_ok ids positions i label (es ! i) \<and>
           map Some ids = map ms_key es \<and> (\<forall>j<length es. map_of positions (ids ! j) = Some j) \<and>
           dget positions label i = i"
  have "es = ds" using es(1) assms(2) by (simp add: inj_map_eq_map inj_def)
  moreover have "validate_milestone n (JObj d) = None" if "d \<in> set ds" for d n
  proof -
    from that \<open>es = ds\<close> obtain i where "i < length es" "d = es ! i" by (metis in_set_conv_nth)
    then show ?thesis using ok assms(3) that validate_milestone_ok by (metis option.distinct(1))
  qed
  ultimately have "first_error 0 (map JObj ds) = None" by (intro first_error_None) auto
  then show ?thesis
    using es \<open>es = ds\<close> by (auto simp: validate_plan_payload_def dget_def split: list.splits)
qed

end
