(* ===== verification/RunRegistry.thy ===== *)
theory RunRegistry
  imports PyJson
begin

text \<open>
  \<open>RunRecord\<close> and \<open>RunRegistry\<close> of \<open>src/api/run_queue.py\<close>, with \<open>src/api/run_cancellation.py\<close>: the
  record of a run, its JSON form, the registry in memory and on disk. The registry's records are
  shared objects; an object is identified by its run id, since a record enters the memory table once
  and is then only mutated.
\<close>

section \<open>Run records\<close>

record run_record =
  r_id :: string
  r_session :: string
  r_request :: string
  r_status :: string
  r_model :: string
  r_queued_at :: string
  r_kind :: string
  r_route :: string
  r_fix_mode :: string
  r_chat_mode :: string
  r_skip :: bool
  r_plan :: "string option"
  r_started :: "string option"
  r_finished :: "string option"
  r_result :: "obj option"
  r_error :: "string option"

definition opt_str :: "string option \<Rightarrow> json" where
  "opt_str x = (case x of None \<Rightarrow> JNull | Some s \<Rightarrow> JStr s)"

definition opt_dict :: "obj option \<Rightarrow> json" where
  "opt_dict x = (case x of None \<Rightarrow> JNull | Some d \<Rightarrow> JObj d)"

definition run_to_dict :: "run_record \<Rightarrow> obj" where
  "run_to_dict r =
     [(''run_id'', JStr (r_id r)), (''session_id'', JStr (r_session r)), (''request'', JStr (r_request r)),
      (''status'', JStr (r_status r)), (''model'', JStr (r_model r)), (''queued_at'', JStr (r_queued_at r)),
      (''run_kind'', JStr (r_kind r)), (''execution_route'', JStr (r_route r)),
      (''review_fix_mode'', JStr (r_fix_mode r)), (''chat_mode'', JStr (r_chat_mode r)),
      (''skip_orchestration'', JBool (r_skip r)), (''plan_id'', opt_str (r_plan r)),
      (''started_at'', opt_str (r_started r)), (''finished_at'', opt_str (r_finished r)),
      (''result'', opt_dict (r_result r)), (''error'', opt_str (r_error r))]"

text \<open>
  \<open>_run_record_from_dict\<close>: unknown keys are dropped, a missing mandatory field raises TypeError,
  missing optional ones take their defaults. A field of another type than the record's, which the
  program never writes, is counted as TypeError as well.
\<close>

definition str_field :: "obj \<Rightarrow> string \<Rightarrow> string res" where
  "str_field d k = (case map_of d k of Some (JStr s) \<Rightarrow> Inr s | _ \<Rightarrow> Inl TypeError)"

definition str_field_or :: "obj \<Rightarrow> string \<Rightarrow> string \<Rightarrow> string res" where
  "str_field_or d k dflt =
     (case map_of d k of None \<Rightarrow> Inr dflt | Some (JStr s) \<Rightarrow> Inr s | _ \<Rightarrow> Inl TypeError)"

definition opt_field :: "obj \<Rightarrow> string \<Rightarrow> string option res" where
  "opt_field d k =
     (case map_of d k of None \<Rightarrow> Inr None | Some JNull \<Rightarrow> Inr None | Some (JStr s) \<Rightarrow> Inr (Some s)
      | _ \<Rightarrow> Inl TypeError)"

definition bool_field_or :: "obj \<Rightarrow> string \<Rightarrow> bool \<Rightarrow> bool res" where
  "bool_field_or d k dflt =
     (case map_of d k of None \<Rightarrow> Inr dflt | Some (JBool b) \<Rightarrow> Inr b | _ \<Rightarrow> Inl TypeError)"

definition dict_field :: "obj \<Rightarrow> string \<Rightarrow> obj option res" where
  "dict_field d k =
     (case map_of d k of None \<Rightarrow> Inr None | Some JNull \<Rightarrow> Inr None | Some (JObj x) \<Rightarrow> Inr (Some x)
      | _ \<Rightarrow> Inl TypeError)"

definition run_of_dict :: "obj \<Rightarrow> run_record res" where
  "run_of_dict d =
     bindR (str_field d ''run_id'') (\<lambda>run_id.
     bindR (str_field d ''session_id'') (\<lambda>session_id.
     bindR (str_field d ''request'') (\<lambda>request.
     bindR (str_field d ''status'') (\<lambda>status.
     bindR (str_field d ''model'') (\<lambda>model.
     bindR (str_field d ''queued_at'') (\<lambda>queued_at.
     bindR (str_field_or d ''run_kind'' ''auto'') (\<lambda>run_kind.
     bindR (str_field_or d ''execution_route'' ''auto'') (\<lambda>execution_route.
     bindR (str_field_or d ''review_fix_mode'' ''ask'') (\<lambda>review_fix_mode.
     bindR (str_field_or d ''chat_mode'' ''build'') (\<lambda>chat_mode.
     bindR (bool_field_or d ''skip_orchestration'' False) (\<lambda>skip.
     bindR (opt_field d ''plan_id'') (\<lambda>plan_id.
     bindR (opt_field d ''started_at'') (\<lambda>started_at.
     bindR (opt_field d ''finished_at'') (\<lambda>finished_at.
     bindR (dict_field d ''result'') (\<lambda>result.
     bindR (opt_field d ''error'') (\<lambda>error.
     Inr \<lparr>r_id = run_id, r_session = session_id, r_request = request, r_status = status,
          r_model = model, r_queued_at = queued_at, r_kind = run_kind, r_route = execution_route,
          r_fix_mode = review_fix_mode, r_chat_mode = chat_mode, r_skip = skip, r_plan = plan_id,
          r_started = started_at, r_finished = finished_at, r_result = result, r_error = error\<rparr>
     ))))))))))))))))"

section \<open>The registry\<close>

text \<open>
  A file under \<open>sessions/<session>/runs\<close> holds the record \<open>_persist\<close> wrote, or text that cannot be
  read or parsed (a torn write).
\<close>

datatype run_file = Saved run_record | Unreadable

type_synonym run_key = "string \<times> string"

record registry =
  rg_runs :: "(string \<times> run_record) list"
  rg_by_session :: "(string \<times> string list) list"
  rg_disk :: "(run_key \<times> run_file) list"

definition persist :: "run_record \<Rightarrow> registry \<Rightarrow> registry" where
  "persist rec rg = rg\<lparr>rg_disk := AList.update (r_session rec, r_id rec) (Saved rec) (rg_disk rg)\<rparr>"

text \<open>\<open>self._by_session.setdefault(session_id, []).append(run_id)\<close>.\<close>

definition append_run :: "string \<Rightarrow> string \<Rightarrow> registry \<Rightarrow> registry" where
  "append_run sid rid rg =
     rg\<lparr>rg_by_session := AList.update sid (dget (rg_by_session rg) sid [] @ [rid]) (rg_by_session rg)\<rparr>"

definition remember :: "run_record \<Rightarrow> registry \<Rightarrow> registry" where
  "remember rec rg = rg\<lparr>rg_runs := AList.update (r_id rec) rec (rg_runs rg)\<rparr>"

text \<open>\<open>_load_existing\<close>: the files of one session whose run is not in memory yet.\<close>

definition load_entry :: "string \<Rightarrow> registry \<Rightarrow> run_key \<Rightarrow> registry" where
  "load_entry sid rg key =
     (case map_of (rg_disk rg) key of
        Some (Saved rec) \<Rightarrow>
          if map_of (rg_runs rg) (r_id rec) = None
          then append_run sid (r_id rec) (remember rec rg) else rg
      | _ \<Rightarrow> rg)"

definition load_existing :: "string \<Rightarrow> registry \<Rightarrow> registry" where
  "load_existing sid rg =
     foldl (load_entry sid) rg (filter (\<lambda>key. fst key = sid) (map fst (rg_disk rg)))"

definition or_default :: "string \<Rightarrow> string \<Rightarrow> string" where
  "or_default s dflt = (if s = [] then dflt else s)"

record run_spec =
  s_request :: string
  s_model :: string
  s_kind :: string
  s_route :: string
  s_fix_mode :: string
  s_chat_mode :: string
  s_skip :: bool

definition new_record :: "string \<Rightarrow> string \<Rightarrow> string \<Rightarrow> run_spec \<Rightarrow> run_record" where
  "new_record now rid sid sp =
     \<lparr>r_id = rid, r_session = sid, r_request = s_request sp, r_status = ''queued'',
      r_model = s_model sp, r_queued_at = now, r_kind = s_kind sp, r_route = s_route sp,
      r_fix_mode = or_default (s_fix_mode sp) ''ask'',
      r_chat_mode = or_default (s_chat_mode sp) ''build'', r_skip = s_skip sp,
      r_plan = None, r_started = None, r_finished = None, r_result = None, r_error = None\<rparr>"

definition registry_create :: "string \<Rightarrow> string \<Rightarrow> string \<Rightarrow> run_spec \<Rightarrow> registry \<Rightarrow> run_record \<times> registry" where
  "registry_create now rid sid sp rg =
     (let rec = new_record now rid sid sp
      in (rec, persist rec (append_run sid rid (remember rec rg))))"

fun find_file :: "string \<Rightarrow> (run_key \<times> run_file) list \<Rightarrow> run_file option" where
  "find_file rid [] = None"
| "find_file rid (((s, r), f) # rest) = (if r = rid then Some f else find_file rid rest)"

definition registry_get :: "string \<Rightarrow> registry \<Rightarrow> run_record option \<times> registry" where
  "registry_get rid rg =
     (case map_of (rg_runs rg) rid of
        Some rec \<Rightarrow> (Some rec, rg)
      | None \<Rightarrow>
          (case find_file rid (rg_disk rg) of
             Some (Saved rec) \<Rightarrow>
               (Some rec, append_run (r_session rec) rid (rg\<lparr>rg_runs := AList.update rid rec (rg_runs rg)\<rparr>))
           | _ \<Rightarrow> (None, rg)))"

definition in_memory :: "registry \<Rightarrow> string list \<Rightarrow> run_record list" where
  "in_memory rg ids = List.map_filter (\<lambda>i. map_of (rg_runs rg) i) ids"

definition list_for_session :: "string \<Rightarrow> registry \<Rightarrow> run_record list \<times> registry" where
  "list_for_session sid rg =
     (let ids = dget (rg_by_session rg) sid []
      in if ids = []
         then (let rg' = load_existing sid rg
               in (in_memory rg' (dget (rg_by_session rg') sid []), rg'))
         else (in_memory rg ids, rg))"

definition registry_update :: "run_record \<Rightarrow> registry \<Rightarrow> registry" where
  "registry_update rec rg = persist rec (remember rec rg)"

text \<open>
  \<open>reconcile_stale_runs\<close>, the part about runs: every saved record that is queued or running is
  cancelled. The files are visited by session; \<open>sort_key\<close> is stable.
\<close>

definition stale :: "run_record \<Rightarrow> bool" where
  "stale rec = (r_status rec \<in> set [''queued'', ''running''])"

definition reconcile_entry ::
    "string \<Rightarrow> run_record list \<times> registry \<Rightarrow> run_key \<Rightarrow> run_record list \<times> registry" where
  "reconcile_entry now acc key =
     (case map_of (rg_disk (snd acc)) key of
        Some (Saved data) \<Rightarrow>
          if stale data
          then (let rec = data\<lparr>r_status := ''cancelled'', r_finished := Some now,
                              r_error := Some ''Run interrupted by server restart''\<rparr>
                in (fst acc @ [rec],
                    persist rec (append_run (r_session rec) (r_id rec) (remember rec (snd acc)))))
          else acc
      | _ \<Rightarrow> acc)"

definition reconcile_stale_runs :: "string \<Rightarrow> registry \<Rightarrow> run_record list \<times> registry" where
  "reconcile_stale_runs now rg =
     foldl (reconcile_entry now) ([], rg) (sort_key fst (map fst (rg_disk rg)))"

section \<open>Cancellation requests\<close>

type_synonym cancellation = "string list"

definition cancel_request :: "string \<Rightarrow> cancellation \<Rightarrow> cancellation" where
  "cancel_request rid c = List.insert rid c"

definition is_cancelled :: "cancellation \<Rightarrow> string \<Rightarrow> bool" where
  "is_cancelled c rid = (rid \<in> set c)"

definition cancel_clear :: "string \<Rightarrow> cancellation \<Rightarrow> cancellation" where
  "cancel_clear rid c = removeAll rid c"

definition ensure_not_cancelled :: "bool option \<Rightarrow> unit res" where
  "ensure_not_cancelled check = (if check = Some True then Inl RunCancelled else Inr ())"


section \<open>The store interface\<close>

text \<open>
  What the queue relies on: a record put into the registry is found under its identifier, and the
  other records are untouched.
\<close>

locale run_store =
  fixes lookup :: "'s \<Rightarrow> string \<Rightarrow> run_record option"
    and put :: "run_record \<Rightarrow> 's \<Rightarrow> 's"
  assumes lookup_put: "lookup (put rec s) rid = (if rid = r_id rec then Some rec else lookup s rid)"
begin

lemma lookup_same [simp]: "lookup (put rec s) (r_id rec) = Some rec"
  by (simp add: lookup_put)

lemma lookup_other [simp]: "rid \<noteq> r_id rec \<Longrightarrow> lookup (put rec s) rid = lookup s rid"
  by (simp add: lookup_put)

lemma lookup_put_put: "r_id rec' = r_id rec \<Longrightarrow> lookup (put rec' (put rec s)) = lookup (put rec' s)"
  by (rule ext) (simp add: lookup_put)

definition keyed :: "'s \<Rightarrow> bool" where
  "keyed s \<longleftrightarrow> (\<forall>rid rec. lookup s rid = Some rec \<longrightarrow> r_id rec = rid)"

lemma keyed_put: "keyed s \<Longrightarrow> keyed (put rec s)"
  by (auto simp: keyed_def lookup_put split: if_splits)

lemma keyed_lookup: "keyed s \<Longrightarrow> lookup s rid = Some rec \<Longrightarrow> r_id rec = rid"
  by (simp add: keyed_def)

end

text \<open>A store that also survives a restart: what is put is on disk, under its session and identifier.\<close>

locale durable_store = run_store lookup put
  for lookup :: "'s \<Rightarrow> string \<Rightarrow> run_record option" and put :: "run_record \<Rightarrow> 's \<Rightarrow> 's" +
  fixes saved :: "'s \<Rightarrow> run_key \<Rightarrow> run_file option"
  assumes saved_put: "saved (put rec s) key =
    (if key = (r_session rec, r_id rec) then Some (Saved rec) else saved s key)"
begin

definition durable :: "'s \<Rightarrow> bool" where
  "durable s \<longleftrightarrow> (\<forall>rid rec. lookup s rid = Some rec \<longrightarrow>
     r_id rec = rid \<and> saved s (r_session rec, rid) = Some (Saved rec))"

text \<open>Overwriting a record keeps memory and disk in step as long as a run does not change its session.\<close>

lemma durable_put:
  assumes "durable s" and "\<And>rec'. lookup s (r_id rec) = Some rec' \<Longrightarrow> r_session rec' = r_session rec"
  shows "durable (put rec s)"
  using assms by (auto simp: durable_def lookup_put saved_put)

lemma durable_keyed: "durable s \<Longrightarrow> keyed s"
  by (simp add: durable_def keyed_def)

end

definition rg_lookup :: "registry \<Rightarrow> string \<Rightarrow> run_record option" where
  "rg_lookup rg = map_of (rg_runs rg)"

definition rg_saved :: "registry \<Rightarrow> run_key \<Rightarrow> run_file option" where
  "rg_saved rg = map_of (rg_disk rg)"

interpretation reg: durable_store rg_lookup registry_update rg_saved
  by unfold_locales
     (simp_all add: rg_lookup_def rg_saved_def registry_update_def remember_def persist_def)

section \<open>A well-formed registry\<close>

text \<open>
  Every saved file lies under its own session and identifier, and no identifier occurs in two
  sessions.
\<close>

definition disk_ok :: "(run_key \<Rightarrow> run_file option) \<Rightarrow> bool" where
  "disk_ok f \<longleftrightarrow>
     (\<forall>s i rec. f (s, i) = Some (Saved rec) \<longrightarrow> r_session rec = s \<and> r_id rec = i) \<and>
     (\<forall>s s' i. f (s, i) \<noteq> None \<longrightarrow> f (s', i) \<noteq> None \<longrightarrow> s = s')"

definition reg_ok :: "registry \<Rightarrow> bool" where
  "reg_ok rg \<longleftrightarrow> reg.durable rg \<and> disk_ok (rg_saved rg)"

text \<open>A run known only from disk is over.\<close>

definition disk_settled :: "registry \<Rightarrow> bool" where
  "disk_settled rg \<longleftrightarrow>
     (\<forall>s i rec. rg_saved rg (s, i) = Some (Saved rec) \<longrightarrow> rg_lookup rg i = None \<longrightarrow> \<not> stale rec)"

text \<open>A run may be written when it is new everywhere, or keeps its session.\<close>

definition writable :: "run_record \<Rightarrow> registry \<Rightarrow> bool" where
  "writable rec rg \<longleftrightarrow> (\<forall>s. rg_saved rg (s, r_id rec) \<noteq> None \<longrightarrow> s = r_session rec)"

lemma writable_known:
  "reg_ok rg \<Longrightarrow> rg_lookup rg (r_id rec) = Some rec' \<Longrightarrow> r_session rec = r_session rec' \<Longrightarrow> writable rec rg"
  unfolding reg_ok_def reg.durable_def disk_ok_def writable_def by (metis option.distinct(1))

lemma update_ok:
  assumes "reg_ok rg" and "writable rec rg"
  shows "reg_ok (registry_update rec rg)"
proof -
  have "reg.durable (registry_update rec rg)"
    using assms by (intro reg.durable_put) (auto simp: reg_ok_def reg.durable_def writable_def)
  moreover have "disk_ok (rg_saved (registry_update rec rg))"
    using assms by (auto simp: reg_ok_def disk_ok_def writable_def reg.saved_put)
  ultimately show ?thesis by (simp add: reg_ok_def)
qed

lemma update_settled: "disk_settled rg \<Longrightarrow> disk_settled (registry_update rec rg)"
  by (auto simp: disk_settled_def reg.saved_put reg.lookup_put split: if_splits)

text \<open>The session index plays no part in these.\<close>

lemma append_run_simps [simp]:
  "rg_lookup (append_run sid rid rg) = rg_lookup rg" "rg_saved (append_run sid rid rg) = rg_saved rg"
  "rg_disk (append_run sid rid rg) = rg_disk rg" "rg_runs (append_run sid rid rg) = rg_runs rg"
  by (simp_all add: append_run_def rg_lookup_def rg_saved_def)

lemma reg_ok_cong:
  "rg_lookup rg = rg_lookup rg' \<Longrightarrow> rg_saved rg = rg_saved rg' \<Longrightarrow> reg_ok rg = reg_ok rg'"
  by (simp add: reg_ok_def reg.durable_def)

lemma disk_settled_cong:
  "rg_lookup rg = rg_lookup rg' \<Longrightarrow> rg_saved rg = rg_saved rg' \<Longrightarrow> disk_settled rg = disk_settled rg'"
  by (simp add: disk_settled_def)

lemma update_append_run:
  "rg_lookup (persist rec (append_run sid rid (remember rec rg))) = rg_lookup (registry_update rec rg)"
  "rg_saved (persist rec (append_run sid rid (remember rec rg))) = rg_saved (registry_update rec rg)"
  by (simp_all add: registry_update_def persist_def append_run_def rg_lookup_def rg_saved_def)

lemma create_simps:
  "rg_lookup (snd (registry_create now rid sid sp rg)) = rg_lookup (registry_update (new_record now rid sid sp) rg)"
  "rg_saved (snd (registry_create now rid sid sp rg)) = rg_saved (registry_update (new_record now rid sid sp) rg)"
  by (simp_all add: registry_create_def Let_def update_append_run)

section \<open>Reading from disk\<close>

lemma find_file_map_of: "find_file rid d = Some f \<Longrightarrow> \<exists>s. (s, rid) \<in> set (map fst d)"
  by (induction d rule: find_file.induct) (auto split: if_splits)

lemma find_file_first:
  "find_file rid d = Some f \<Longrightarrow> \<exists>s. map_of d (s, rid) = Some f"
proof (induction d rule: find_file.induct)
  case (2 rid s r f' rest)
  then show ?case by (cases "r = rid") force+
qed simp

text \<open>Loading a record from disk: the invariants stay, and only a settled run enters the memory.\<close>

lemma load_record_ok:
  assumes "reg_ok rg" and "disk_settled rg"
    and "rg_saved rg (s, rid) = Some (Saved rec)" and "rg_lookup rg rid = None"
    and "rg_lookup rg' = (rg_lookup rg)(rid \<mapsto> rec)" and "rg_saved rg' = rg_saved rg"
  shows "reg_ok rg' \<and> disk_settled rg' \<and> \<not> stale rec \<and> r_id rec = rid"
proof -
  have rec: "r_session rec = s" "r_id rec = rid" "\<not> stale rec"
    using assms(1-4) by (auto simp: reg_ok_def disk_ok_def disk_settled_def)
  then show ?thesis
    using assms by (auto simp: reg_ok_def reg.durable_def disk_settled_def)
qed

lemma registry_get_ok:
  assumes "registry_get rid rg = (r, rg')" and "reg_ok rg" and "disk_settled rg"
  shows "reg_ok rg' \<and> disk_settled rg' \<and> rg_saved rg' = rg_saved rg \<and> rg_lookup rg' rid = r \<and>
     (\<forall>i. rg_lookup rg' i = rg_lookup rg i \<or>
        (rg_lookup rg i = None \<and> (\<exists>rec. rg_lookup rg' i = Some rec \<and> \<not> stale rec)))"
proof (cases "map_of (rg_runs rg) rid")
  case (Some rec)
  then show ?thesis using assms by (auto simp: registry_get_def rg_lookup_def)
next
  case None
  show ?thesis
  proof (cases "\<exists>rec. find_file rid (rg_disk rg) = Some (Saved rec)")
    case False
    then have "rg' = rg" "r = None"
      using assms(1) None by (auto simp: registry_get_def split: option.splits run_file.splits)
    then show ?thesis using assms None by (simp add: rg_lookup_def)
  next
    case True
    then obtain rec where rec: "find_file rid (rg_disk rg) = Some (Saved rec)" by blast
    then obtain s where s: "rg_saved rg (s, rid) = Some (Saved rec)"
      using find_file_first by (fastforce simp: rg_saved_def)
    have none: "rg_lookup rg rid = None" by (simp add: rg_lookup_def None)
    have r: "r = Some rec" and l: "rg_lookup rg' = (rg_lookup rg)(rid \<mapsto> rec)"
      and sv: "rg_saved rg' = rg_saved rg"
      using assms(1) by (auto simp: registry_get_def None rec append_run_def rg_lookup_def rg_saved_def)
    show ?thesis using load_record_ok [OF assms(2,3) s none l sv] none by (simp add: r l sv)
  qed
qed

text \<open>Loading changes no record: a run is as before, or was unknown and is settled.\<close>

definition only_loads :: "registry \<Rightarrow> registry \<Rightarrow> bool" where
  "only_loads rg rg' \<longleftrightarrow> rg_saved rg' = rg_saved rg \<and>
     (\<forall>i. rg_lookup rg' i = rg_lookup rg i \<or>
        (rg_lookup rg i = None \<and> (\<exists>rec. rg_lookup rg' i = Some rec \<and> \<not> stale rec)))"

lemma only_loads_refl [simp]: "only_loads rg rg"
  by (simp add: only_loads_def)

lemma only_loads_trans: "only_loads rg rg1 \<Longrightarrow> only_loads rg1 rg2 \<Longrightarrow> only_loads rg rg2"
  by (simp add: only_loads_def) metis

lemma load_entry_ok:
  assumes "reg_ok rg" and "disk_settled rg"
  shows "reg_ok (load_entry sid rg key) \<and> disk_settled (load_entry sid rg key) \<and>
     only_loads rg (load_entry sid rg key)"
proof (cases "\<exists>rec. rg_saved rg key = Some (Saved rec) \<and> rg_lookup rg (r_id rec) = None")
  case False
  then have "load_entry sid rg key = rg"
    by (auto simp: load_entry_def rg_lookup_def rg_saved_def split: option.splits run_file.splits)
  then show ?thesis using assms by simp
next
  case True
  then obtain rec s i where rec: "rg_saved rg (s, i) = Some (Saved rec)" "rg_lookup rg (r_id rec) = None"
    and key: "key = (s, i)" by (metis surj_pair)
  let ?rg' = "load_entry sid rg key"
  have rg': "?rg' = append_run sid (r_id rec) (remember rec rg)"
    using rec by (simp add: load_entry_def key rg_lookup_def rg_saved_def)
  have "r_id rec = i" using assms(1) rec(1) by (auto simp: reg_ok_def disk_ok_def)
  then have sv: "rg_saved rg (s, r_id rec) = Some (Saved rec)" using rec(1) by simp
  have l: "rg_lookup ?rg' = (rg_lookup rg)(r_id rec \<mapsto> rec)" and d: "rg_saved ?rg' = rg_saved rg"
    by (simp_all add: rg' remember_def rg_lookup_def rg_saved_def append_run_def)
  show ?thesis
    using load_record_ok [OF assms sv rec(2) l d] rec(2) by (simp add: l d only_loads_def)
qed

lemma load_entries_ok:
  "reg_ok rg \<Longrightarrow> disk_settled rg \<Longrightarrow>
     reg_ok (foldl (load_entry sid) rg keys) \<and> disk_settled (foldl (load_entry sid) rg keys) \<and>
     only_loads rg (foldl (load_entry sid) rg keys)"
proof (induction keys arbitrary: rg)
  case (Cons k keys)
  from load_entry_ok [OF Cons.prems, of sid k] Cons.IH [of "load_entry sid rg k"] only_loads_trans
  show ?case by (metis foldl_Cons)
qed simp

lemma list_for_session_ok:
  assumes "list_for_session sid rg = (rs, rg')" and "reg_ok rg" and "disk_settled rg"
  shows "reg_ok rg' \<and> disk_settled rg' \<and> only_loads rg rg'"
  using assms load_entries_ok [OF assms(2,3), of sid "filter (\<lambda>key. fst key = sid) (map fst (rg_disk rg))"]
  by (auto simp: list_for_session_def load_existing_def Let_def split: if_splits)

section \<open>Restart\<close>

text \<open>
  Reconciliation on a well-formed disk: afterwards no saved run is queued or running, what is in
  memory is on disk, and only stale records were rewritten.
\<close>

definition reconciled :: "(run_key \<Rightarrow> run_file option) \<Rightarrow> run_key set \<Rightarrow> registry \<Rightarrow> bool" where
  "reconciled d0 done' rg \<longleftrightarrow> reg_ok rg \<and>
     (\<forall>key\<in>done'. \<forall>rec. rg_saved rg key = Some (Saved rec) \<longrightarrow> \<not> stale rec) \<and>
     (\<forall>rid rec. rg_lookup rg rid = Some rec \<longrightarrow> r_status rec = ''cancelled'') \<and>
     (\<forall>key. rg_saved rg key \<noteq> d0 key \<longrightarrow>
        (\<exists>rec rec'. d0 key = Some (Saved rec) \<and> stale rec \<and> rg_saved rg key = Some (Saved rec') \<and>
           r_status rec' = ''cancelled''))"

lemma reconciledD:
  "reconciled d0 done' rg \<Longrightarrow> rg_saved rg key \<noteq> d0 key \<Longrightarrow>
     \<exists>rec rec'. d0 key = Some (Saved rec) \<and> stale rec \<and> rg_saved rg key = Some (Saved rec') \<and>
           r_status rec' = ''cancelled''"
  unfolding reconciled_def by blast

lemma reconcile_entry_ok:
  assumes "reconciled d0 done' (snd acc)"
  shows "reconciled d0 (insert key done') (snd (reconcile_entry now acc key))"
proof (cases "\<exists>rec. rg_saved (snd acc) key = Some (Saved rec) \<and> stale rec")
  case False
  then have "snd (reconcile_entry now acc key) = snd acc"
    by (auto simp: reconcile_entry_def rg_saved_def split: option.splits run_file.splits)
  then show ?thesis using assms False by (auto simp: reconciled_def)
next
  case True
  let ?rg = "snd acc"
  obtain data where data: "rg_saved ?rg key = Some (Saved data)" "stale data" using True by blast
  define rec where "rec = data\<lparr>r_status := ''cancelled'', r_finished := Some now,
      r_error := Some ''Run interrupted by server restart''\<rparr>"
  have keyed: "key = (r_session data, r_id data)"
    using assms data(1) by (cases key) (auto simp: reconciled_def reg_ok_def disk_ok_def)
  have rec: "r_id rec = r_id data" "r_session rec = r_session data" "\<not> stale rec" "r_status rec = ''cancelled''"
    by (simp_all add: rec_def stale_def)
  let ?rg' = "snd (reconcile_entry now acc key)"
  have eq: "?rg' = persist rec (append_run (r_session rec) (r_id rec) (remember rec ?rg))"
    using data by (simp add: reconcile_entry_def rg_saved_def rec_def Let_def)
  have l: "rg_lookup ?rg' = rg_lookup (registry_update rec ?rg)"
    and s: "rg_saved ?rg' = rg_saved (registry_update rec ?rg)"
    unfolding eq by (rule update_append_run)+
  have w: "writable rec ?rg"
  proof -
    have "disk_ok (rg_saved ?rg)" using assms by (simp add: reconciled_def reg_ok_def)
    moreover have "rg_saved ?rg (r_session data, r_id data) \<noteq> None" using data(1) keyed by simp
    ultimately show ?thesis unfolding writable_def disk_ok_def rec(1,2) by blast
  qed
  have ok: "reg_ok ?rg'"
    using update_ok [OF _ w] assms reg_ok_cong [OF l s] by (simp add: reconciled_def)
  have d0: "\<exists>r. d0 key = Some (Saved r) \<and> stale r"
    using assms data by (cases "rg_saved ?rg key = d0 key") (auto dest!: reconciledD)
  show ?thesis
    using assms ok rec keyed d0 unfolding reconciled_def l s
    by (auto simp: reg.saved_put reg.lookup_put)
qed

lemma reconcile_entries_ok:
  "reconciled d0 done' (snd acc) \<Longrightarrow>
     reconciled d0 (done' \<union> set keys) (snd (foldl (reconcile_entry now) acc keys))"
proof (induction keys arbitrary: acc done')
  case (Cons k keys)
  then show ?case using reconcile_entry_ok [OF Cons.prems, of k now] Cons.IH [of "insert k done'"]
    by simp
qed simp

lemma reconcile_ok:
  assumes "disk_ok (map_of disk)"
    and "rg = snd (reconcile_stale_runs now \<lparr>rg_runs = [], rg_by_session = [], rg_disk = disk\<rparr>)"
  shows "reg_ok rg" and "disk_settled rg"
    and "rg_lookup rg rid = Some rec \<Longrightarrow> r_status rec = ''cancelled''"
    and "rg_saved rg key = Some (Saved rec) \<Longrightarrow> \<not> stale rec"
    and "map_of disk key = Some (Saved rec) \<Longrightarrow> \<not> stale rec \<Longrightarrow> rg_saved rg key = Some (Saved rec)"
proof -
  let ?rg0 = "\<lparr>rg_runs = [], rg_by_session = [], rg_disk = disk\<rparr>"
  have "reconciled (map_of disk) {} ?rg0"
    using assms(1) by (simp add: reconciled_def reg_ok_def reg.durable_def rg_lookup_def rg_saved_def)
  then have r: "reconciled (map_of disk) (set (map fst disk)) rg"
    using reconcile_entries_ok [of "map_of disk" "{}" "([], ?rg0)" "sort_key fst (map fst disk)" now]
    by (simp add: assms(2) reconcile_stale_runs_def)
  show "reg_ok rg" using r by (simp add: reconciled_def)
  show "rg_lookup rg rid = Some rec \<Longrightarrow> r_status rec = ''cancelled''" using r by (simp add: reconciled_def)
  have ns: "\<not> stale rec" if "rg_saved rg key = Some (Saved rec)" for key rec
  proof (cases "key \<in> set (map fst disk)")
    case True
    then show ?thesis using r that unfolding reconciled_def by blast
  next
    case False
    then have "map_of disk key = None" by (simp add: map_of_eq_None_iff)
    then have "rg_saved rg key \<noteq> map_of disk key" using that by simp
    then have "\<exists>rec. map_of disk key = Some rec" using reconciledD [OF r] by blast
    then show ?thesis using \<open>map_of disk key = None\<close> by simp
  qed
  show "rg_saved rg key = Some (Saved rec) \<Longrightarrow> \<not> stale rec" by (rule ns)
  show "disk_settled rg" using ns by (simp add: disk_settled_def)
  show "map_of disk key = Some (Saved rec) \<Longrightarrow> \<not> stale rec \<Longrightarrow> rg_saved rg key = Some (Saved rec)"
    using reconciledD [OF r, of key] by fastforce
qed

end
