(* ===== verification/RunQueue.thy ===== *)
theory RunQueue
  imports RunRegistry
begin

text \<open>
  \<open>RunQueue\<close> of \<open>src/api/run_queue.py\<close>: the serial executor of the control API. The API threads
  enqueue and cancel; one worker thread takes the items off the queue and runs them. Here every
  operation is a function of the queue's state, and \<open>rq_step\<close> is the relation of the two threads'
  interleaved steps. The mission runtime itself is a parameter: a finished run is an \<open>outcome\<close>.
\<close>

section \<open>State\<close>

text \<open>The part of a runtime's \<open>MissionResult\<close> the queue reads.\<close>

record run_result =
  mr_mission_id :: string
  mr_title :: string
  mr_status :: string
  mr_passed :: int
  mr_total :: int
  mr_elapsed_ms :: int
  mr_model_used :: string
  mr_session_id :: "string option"
  mr_run_kind :: string
  mr_route :: string
  mr_plan_id :: "string option"
  mr_summary :: string
  mr_failure :: "string option"
  mr_pending :: "obj option"

datatype outcome =
    Returned run_result
  | Stopped string          \<comment> \<open>\<open>RunCancelledError\<close>, with its text\<close>
  | Crashed string string   \<comment> \<open>any other exception: type name and text\<close>

datatype item = Item string "obj option" | Sentinel

text \<open>
  Where the worker thread is: waiting for an item, holding one, past the status change of
  \<open>_execute\<close>, inside \<open>runtime.run\<close>, or gone.
\<close>

datatype phase =
    Waiting
  | Picked string
  | Starting string
  | Running string
  | Exited

record message =
  m_role :: string
  m_content :: string
  m_run :: "string option"

record queue_state =
  q_registry :: registry
  q_cancel :: cancellation
  q_items :: "item list"
  q_shutdown :: bool
  q_active :: "string option"
  q_phase :: phase
  q_sessions :: "(string \<times> string) list"      \<comment> \<open>status in \<open>session.json\<close>\<close>
  q_messages :: "(string \<times> message) list"

text \<open>
  \<open>message_store.append\<close> on a session that can be loaded; the sources swallow its errors.
\<close>

definition say :: "string \<Rightarrow> string \<Rightarrow> string \<Rightarrow> queue_state \<Rightarrow> queue_state" where
  "say sid rid content q =
     q\<lparr>q_messages := q_messages q @ [(sid, \<lparr>m_role = ''assistant'', m_content = content, m_run = Some rid\<rparr>)]\<rparr>"

definition say_if_loaded :: "string \<Rightarrow> string \<Rightarrow> string \<Rightarrow> queue_state \<Rightarrow> queue_state" where
  "say_if_loaded sid rid content q =
     (if map_of (q_sessions q) sid \<noteq> None then say sid rid content q else q)"

definition store :: "run_record \<Rightarrow> queue_state \<Rightarrow> queue_state" where
  "store rec q = q\<lparr>q_registry := registry_update rec (q_registry q)\<rparr>"

definition lookup_run :: "queue_state \<Rightarrow> string \<Rightarrow> run_record option" where
  "lookup_run q rid = map_of (rg_runs (q_registry q)) rid"

section \<open>Construction\<close>

text \<open>
  \<open>__init__\<close>: stale runs of the sessions on disk are cancelled and sessions left running are paused
  before the worker starts.
\<close>

definition pause_running :: "(string \<times> string) list \<Rightarrow> (string \<times> string) list" where
  "pause_running ss = map (\<lambda>(s, st). (s, if st = ''running'' then ''paused'' else st)) ss"

definition queue_init ::
    "string \<Rightarrow> (run_key \<times> run_file) list \<Rightarrow> (string \<times> string) list \<Rightarrow> queue_state" where
  "queue_init now disk sessions =
     \<lparr>q_registry = snd (reconcile_stale_runs now \<lparr>rg_runs = [], rg_by_session = [], rg_disk = disk\<rparr>),
      q_cancel = [], q_items = [], q_shutdown = False, q_active = None, q_phase = Waiting,
      q_sessions = pause_running sessions, q_messages = []\<rparr>"

section \<open>API operations\<close>

definition put_item :: "item \<Rightarrow> queue_state \<Rightarrow> queue_state" where
  "put_item it q = q\<lparr>q_items := q_items q @ [it]\<rparr>"

definition enqueue :: "string \<Rightarrow> string \<Rightarrow> string \<Rightarrow> run_spec \<Rightarrow> queue_state \<Rightarrow> queue_state" where
  "enqueue now rid sid sp q =
     put_item (Item rid None)
       (q\<lparr>q_registry := snd (registry_create now rid sid
            (sp\<lparr>s_fix_mode := or_default (s_fix_mode sp) ''ask'',
                s_chat_mode := or_default (s_chat_mode sp) ''build''\<rparr>) (q_registry q))\<rparr>)"

definition enqueue_packet ::
    "string \<Rightarrow> string \<Rightarrow> string \<Rightarrow> obj \<Rightarrow> string \<Rightarrow> string \<Rightarrow> string \<Rightarrow> queue_state \<Rightarrow> queue_state" where
  "enqueue_packet now rid sid packet request model fix_mode q =
     put_item (Item rid (Some packet))
       (q\<lparr>q_registry := snd (registry_create now rid sid
            \<lparr>s_request = request, s_model = model, s_kind = ''new'', s_route = ''review'',
             s_fix_mode = or_default fix_mode ''ask'', s_chat_mode = ''build'', s_skip = False\<rparr>
            (q_registry q))\<rparr>)"

definition cancelled_record :: "string \<Rightarrow> string \<Rightarrow> run_record \<Rightarrow> run_record" where
  "cancelled_record now why rec =
     rec\<lparr>r_status := ''cancelled'', r_finished := Some now, r_error := Some why\<rparr>"

definition cancel :: "string \<Rightarrow> string \<Rightarrow> queue_state \<Rightarrow> run_record res \<times> queue_state" where
  "cancel now rid q =
     (case registry_get rid (q_registry q) of
        (None, rg) \<Rightarrow> (Inl KeyError, q\<lparr>q_registry := rg\<rparr>)
      | (Some rec, rg) \<Rightarrow>
          (let q1 = q\<lparr>q_registry := rg\<rparr>
           in if r_status rec \<notin> set [''queued'', ''running''] then (Inl CancelNotAllowed, q1)
              else
                (let q2 = q1\<lparr>q_cancel := cancel_request rid (q_cancel q1)\<rparr>
                 in if r_status rec = ''queued''
                    then (let rec' = cancelled_record now ''Cancelled before execution started'' rec
                          in (Inr rec', say_if_loaded (r_session rec) (r_id rec)
                                ''Run cancelled before it started.'' (store rec' q2)))
                    else if q_active q2 \<noteq> Some rid
                    then (let rec' = cancelled_record now ''Run interrupted (no active worker)'' rec;
                              q3 = store rec' q2
                          in (Inr rec',
                              if map_of (q_sessions q3) (r_session rec) \<noteq> None
                              then say (r_session rec) (r_id rec) ''Run cancelled - worker was no longer active.''
                                     (q3\<lparr>q_sessions := AList.update (r_session rec) ''paused'' (q_sessions q3)\<rparr>)
                              else q3))
                    else (Inr rec, q2))))"

definition shutdown :: "queue_state \<Rightarrow> queue_state" where
  "shutdown q = put_item Sentinel (q\<lparr>q_shutdown := True\<rparr>)"

section \<open>The worker thread\<close>

text \<open>\<open>_run_loop\<close>: take the next item, or leave.\<close>

definition worker_take :: "queue_state \<Rightarrow> queue_state option" where
  "worker_take q =
     (if q_phase q \<noteq> Waiting then None
      else if q_shutdown q then Some (q\<lparr>q_phase := Exited\<rparr>)
      else case q_items q of
        [] \<Rightarrow> None
      | Sentinel # rest \<Rightarrow> Some (q\<lparr>q_items := rest, q_phase := Exited\<rparr>)
      | Item rid _ # rest \<Rightarrow> Some (q\<lparr>q_items := rest, q_phase := Picked rid\<rparr>))"

text \<open>
  \<open>_execute\<close> up to the status change. A cancelled run is closed here; the record object of an item is
  always in memory.
\<close>

definition worker_begin :: "string \<Rightarrow> queue_state \<Rightarrow> queue_state option" where
  "worker_begin now q =
     (case q_phase q of
        Picked rid \<Rightarrow>
          (case lookup_run q rid of
             None \<Rightarrow> None
           | Some rec \<Rightarrow>
               if is_cancelled (q_cancel q) rid
               then (let q1 = store (cancelled_record now ''Cancelled while queued'' rec) q
                     in Some (q1\<lparr>q_cancel := cancel_clear rid (q_cancel q1), q_phase := Waiting\<rparr>))
               else Some ((store (rec\<lparr>r_status := ''running'', r_started := Some now\<rparr>) q)
                          \<lparr>q_phase := Starting rid\<rparr>))
      | _ \<Rightarrow> None)"

text \<open>\<open>self._active_run_id = rec.run_id\<close>, a separate step: a cancellation can come before it.\<close>

definition worker_activate :: "queue_state \<Rightarrow> queue_state option" where
  "worker_activate q =
     (case q_phase q of
        Starting rid \<Rightarrow> Some (q\<lparr>q_active := Some rid, q_phase := Running rid\<rparr>)
      | _ \<Rightarrow> None)"

definition result_dict :: "run_result \<Rightarrow> obj" where
  "result_dict m =
     [(''mission_id'', JStr (mr_mission_id m)), (''title'', JStr (mr_title m)),
      (''status'', JStr (mr_status m)), (''milestones_passed'', JInt (mr_passed m)),
      (''milestones_total'', JInt (mr_total m)), (''total_elapsed_ms'', JInt (mr_elapsed_ms m)),
      (''model_used'', JStr (mr_model_used m)), (''session_id'', opt_str (mr_session_id m)),
      (''run_kind'', JStr (mr_run_kind m)), (''execution_route'', JStr (mr_route m)),
      (''plan_id'', opt_str (mr_plan_id m))]"

definition plan_or :: "string option \<Rightarrow> string option \<Rightarrow> string \<Rightarrow> string option" where
  "plan_or a b c =
     (case a of Some (x # xs) \<Rightarrow> a | _ \<Rightarrow> (case b of Some (x # xs) \<Rightarrow> b | _ \<Rightarrow> Some c))"

definition with_result :: "run_result \<Rightarrow> run_record \<Rightarrow> run_record" where
  "with_result m rec =
     rec\<lparr>r_plan := plan_or (mr_plan_id m) (r_plan rec) (mr_mission_id m),
         r_kind := mr_run_kind m, r_route := mr_route m\<rparr>"

text \<open>
  The body of the \<open>try\<close> after \<open>runtime.run\<close> and its two handlers: the record and the message, if any.
\<close>

definition settle :: "outcome \<Rightarrow> bool \<Rightarrow> run_record \<Rightarrow> run_record \<times> string option" where
  "settle oc cancelled rec =
     (case oc of
        Returned m \<Rightarrow>
          (let rec1 = with_result m rec
           in if mr_status m = ''cancelled'' \<or> cancelled
              then (rec1\<lparr>r_status := ''cancelled'', r_error := Some ''Run cancelled by user'',
                         r_result := Some (result_dict m)\<rparr>,
                    Some ''Run cancelled by user.'')
              else (rec1\<lparr>r_result := Some (result_dict m @
                           [(''summary_text'', JStr (mr_summary m)), (''failure_reason'', opt_str (mr_failure m)),
                            (''pending_decision'', opt_dict (mr_pending m))]),
                         r_status := mr_status m\<rparr>, None))
      | Stopped why \<Rightarrow>
          (rec\<lparr>r_status := ''cancelled'', r_error := Some why\<rparr>, Some ''Run cancelled by user.'')
      | Crashed cls why \<Rightarrow>
          (let err = cls @ '': '' @ why
           in (rec\<lparr>r_status := ''error'', r_error := Some err\<rparr>,
               Some (''Run failed with error: '' @ err))))"

text \<open>
  The \<open>finally\<close> block's message. The elapsed seconds are formatted with one decimal by \<open>fmt\<close>.
\<close>

definition final_summary :: "(int \<Rightarrow> string) \<Rightarrow> run_record \<Rightarrow> string option" where
  "final_summary fmt rec =
     (if r_status rec = ''cancelled'' \<or> r_status rec = ''error'' then None
      else case r_result rec of
        Some (e # es) \<Rightarrow>
          (let res = e # es; given = dget res ''summary_text'' JNull
           in Some (if truthy given then py_str given
                    else ''Run finished - status: '' @ r_status rec @ '', milestones ''
                         @ py_str (dget res ''milestones_passed'' (JInt 0)) @ ''/''
                         @ py_str (dget res ''milestones_total'' (JInt 0)) @ '' passed, elapsed ''
                         @ fmt (case dget res ''total_elapsed_ms'' (JInt 0) of JInt i \<Rightarrow> i | _ \<Rightarrow> 0)
                         @ ''s.''))
      | _ \<Rightarrow> None)"

definition say_opt :: "string \<Rightarrow> string \<Rightarrow> string option \<Rightarrow> queue_state \<Rightarrow> queue_state" where
  "say_opt sid rid msg q = (case msg of None \<Rightarrow> q | Some m \<Rightarrow> say sid rid m q)"

definition worker_finish :: "(int \<Rightarrow> string) \<Rightarrow> string \<Rightarrow> outcome \<Rightarrow> queue_state \<Rightarrow> queue_state option" where
  "worker_finish fmt now oc q =
     (case q_phase q of
        Running rid \<Rightarrow>
          (case lookup_run q rid of
             None \<Rightarrow> None
           | Some rec0 \<Rightarrow>
               (let (rec, msg) = settle oc (is_cancelled (q_cancel q) rid) rec0;
                    q1 = say_opt (r_session rec) rid (final_summary fmt rec)
                           (say_opt (r_session rec) rid msg q);
                    q2 = store (rec\<lparr>r_finished := Some now\<rparr>) q1
                in Some (q2\<lparr>q_active := None, q_cancel := cancel_clear rid (q_cancel q2),
                            q_phase := Waiting\<rparr>)))
      | _ \<Rightarrow> None)"

section \<open>Interleaved steps\<close>

text \<open>
  A step of the system: an API request (with a fresh identifier from \<open>uuid4\<close> for a new run) or the
  next step of the worker.
\<close>

definition fresh_run :: "string \<Rightarrow> queue_state \<Rightarrow> bool" where
  "fresh_run rid q \<longleftrightarrow>
     lookup_run q rid = None \<and> (\<forall>k\<in>set (map fst (rg_disk (q_registry q))). snd k \<noteq> rid)"

text \<open>A runtime never reports a run it returned from as queued or running.\<close>

definition final_outcome :: "outcome \<Rightarrow> bool" where
  "final_outcome oc =
     (case oc of Returned m \<Rightarrow> mr_status m \<notin> set [''queued'', ''running''] | _ \<Rightarrow> True)"

inductive rq_step :: "(int \<Rightarrow> string) \<Rightarrow> queue_state \<Rightarrow> queue_state \<Rightarrow> bool" for fmt where
  Enqueue: "fresh_run rid q \<Longrightarrow> rq_step fmt q (enqueue now rid sid sp q)"
| EnqueuePacket:
    "fresh_run rid q \<Longrightarrow> rq_step fmt q (enqueue_packet now rid sid packet request model fix_mode q)"
| Cancel: "cancel now rid q = (r, q') \<Longrightarrow> rq_step fmt q q'"
| Get: "registry_get rid (q_registry q) = (r, rg) \<Longrightarrow> rq_step fmt q (q\<lparr>q_registry := rg\<rparr>)"
| ListRuns: "list_for_session sid (q_registry q) = (rs, rg) \<Longrightarrow> rq_step fmt q (q\<lparr>q_registry := rg\<rparr>)"
| Shutdown: "rq_step fmt q (shutdown q)"
| Take: "worker_take q = Some q' \<Longrightarrow> rq_step fmt q q'"
| Begin: "worker_begin now q = Some q' \<Longrightarrow> rq_step fmt q q'"
| Activate: "worker_activate q = Some q' \<Longrightarrow> rq_step fmt q q'"
| Finish: "worker_finish fmt now oc q = Some q' \<Longrightarrow> final_outcome oc \<Longrightarrow> rq_step fmt q q'"

inductive_cases rq_stepE: "rq_step fmt q q'"

inductive reachable :: "(int \<Rightarrow> string) \<Rightarrow> queue_state \<Rightarrow> queue_state \<Rightarrow> bool" for fmt q0 where
  Start: "reachable fmt q0 q0"
| Step: "reachable fmt q0 q \<Longrightarrow> rq_step fmt q q' \<Longrightarrow> reachable fmt q0 q'"


section \<open>The control invariant\<close>

interpretation qs: run_store lookup_run store
  by unfold_locales (simp add: lookup_run_def store_def registry_update_def remember_def persist_def)

definition status_of :: "queue_state \<Rightarrow> string \<Rightarrow> string option" where
  "status_of q rid = map_option r_status (lookup_run q rid)"

definition item_ids :: "item list \<Rightarrow> string list" where
  "item_ids its = concat (map (\<lambda>it. case it of Item rid _ \<Rightarrow> [rid] | Sentinel \<Rightarrow> []) its)"

lemma item_ids_simps [simp]:
  "item_ids [] = []" "item_ids (Item rid p # its) = rid # item_ids its"
  "item_ids (Sentinel # its) = item_ids its" "item_ids (its @ its') = item_ids its @ item_ids its'"
  by (simp_all add: item_ids_def)

definition phase_active :: "phase \<Rightarrow> string option" where
  "phase_active ph = (case ph of Running rid \<Rightarrow> Some rid | _ \<Rightarrow> None)"

definition held :: "phase \<Rightarrow> string option" where
  "held ph = (case ph of Picked rid \<Rightarrow> Some rid | Starting rid \<Rightarrow> Some rid | Running rid \<Rightarrow> Some rid
              | _ \<Rightarrow> None)"

definition executing :: "phase \<Rightarrow> string \<Rightarrow> bool" where
  "executing ph rid \<longleftrightarrow> ph = Starting rid \<or> ph = Running rid"

text \<open>A run that waits is queued, or cancelled with its request still recorded; likewise one that runs.\<close>

definition ctl :: "(string \<Rightarrow> string option) \<Rightarrow> string set \<Rightarrow> string list \<Rightarrow> phase \<Rightarrow> bool" where
  "ctl st fl ids ph \<longleftrightarrow>
     distinct ids \<and> (\<forall>rid. held ph = Some rid \<longrightarrow> rid \<notin> set ids) \<and>
     (\<forall>rid. rid \<in> set ids \<or> ph = Picked rid \<longrightarrow>
        st rid = Some ''queued'' \<or> (st rid = Some ''cancelled'' \<and> rid \<in> fl)) \<and>
     (\<forall>rid. executing ph rid \<longrightarrow>
        st rid = Some ''running'' \<or> (st rid = Some ''cancelled'' \<and> rid \<in> fl)) \<and>
     (\<forall>rid. st rid = Some ''queued'' \<longrightarrow> rid \<in> set ids \<or> ph = Picked rid) \<and>
     (\<forall>rid. st rid = Some ''running'' \<longrightarrow> executing ph rid)"

definition rq_inv :: "queue_state \<Rightarrow> bool" where
  "rq_inv q \<longleftrightarrow> reg_ok (q_registry q) \<and> disk_settled (q_registry q) \<and>
     ctl (status_of q) (set (q_cancel q)) (item_ids (q_items q)) (q_phase q) \<and>
     q_active q = phase_active (q_phase q)"

lemma lookup_reg: "lookup_run q rid = rg_lookup (q_registry q) rid"
  by (simp add: lookup_run_def rg_lookup_def)

lemma status_store [simp]:
  "status_of (store rec q) = (status_of q)(r_id rec \<mapsto> r_status rec)"
  by (rule ext) (simp add: status_of_def qs.lookup_put)

lemma store_simps [simp]:
  "q_registry (store rec q) = registry_update rec (q_registry q)"
  "q_cancel (store rec q) = q_cancel q" "q_items (store rec q) = q_items q"
  "q_phase (store rec q) = q_phase q" "q_active (store rec q) = q_active q"
  "q_sessions (store rec q) = q_sessions q" "q_shutdown (store rec q) = q_shutdown q"
  by (simp_all add: store_def)

lemma say_simps [simp]:
  "q_registry (say a b c q) = q_registry q" "q_cancel (say a b c q) = q_cancel q"
  "q_items (say a b c q) = q_items q" "q_phase (say a b c q) = q_phase q"
  "q_active (say a b c q) = q_active q" "lookup_run (say a b c q) = lookup_run q"
  "status_of (say a b c q) = status_of q"
  "q_registry (say_if_loaded a b c q) = q_registry q" "q_cancel (say_if_loaded a b c q) = q_cancel q"
  "q_items (say_if_loaded a b c q) = q_items q" "q_phase (say_if_loaded a b c q) = q_phase q"
  "q_active (say_if_loaded a b c q) = q_active q" "status_of (say_if_loaded a b c q) = status_of q"
  "lookup_run (say_if_loaded a b c q) = lookup_run q"
  by (auto simp: say_def say_if_loaded_def lookup_run_def status_of_def fun_eq_iff)

lemma say_opt_simps [simp]:
  "q_registry (say_opt a b m q) = q_registry q" "q_cancel (say_opt a b m q) = q_cancel q"
  "q_items (say_opt a b m q) = q_items q" "q_phase (say_opt a b m q) = q_phase q"
  "q_active (say_opt a b m q) = q_active q" "status_of (say_opt a b m q) = status_of q"
  "lookup_run (say_opt a b m q) = lookup_run q"
  by (auto simp: say_opt_def split: option.splits)

lemma status_of_cong: "q_registry q = q_registry q' \<Longrightarrow> status_of q = status_of q'"
  by (simp add: status_of_def lookup_run_def fun_eq_iff)

lemma status_of_upd [simp]:
  "status_of (q\<lparr>q_cancel := a\<rparr>) = status_of q" "status_of (q\<lparr>q_items := b\<rparr>) = status_of q"
  "status_of (q\<lparr>q_phase := c\<rparr>) = status_of q" "status_of (q\<lparr>q_active := d\<rparr>) = status_of q"
  "status_of (q\<lparr>q_sessions := e\<rparr>) = status_of q" "status_of (q\<lparr>q_shutdown := f\<rparr>) = status_of q"
  by (simp_all add: status_of_def lookup_run_def fun_eq_iff)

lemma status_lookup: "status_of q rid = Some s \<longleftrightarrow> (\<exists>rec. lookup_run q rid = Some rec \<and> r_status rec = s)"
  by (auto simp: status_of_def)

lemma rq_inv_keyed: "rq_inv q \<Longrightarrow> lookup_run q rid = Some rec \<Longrightarrow> r_id rec = rid"
  by (simp add: rq_inv_def reg_ok_def reg.durable_def lookup_reg)

lemma rq_inv_writable:
  "rq_inv q \<Longrightarrow> lookup_run q rid = Some rec \<Longrightarrow> r_id rec' = rid \<Longrightarrow> r_session rec' = r_session rec \<Longrightarrow>
     writable rec' (q_registry q)"
  by (rule writable_known) (auto simp: rq_inv_def lookup_reg)

section \<open>Preservation, operation by operation\<close>

lemma ctl_wait:
  "ctl st fl ids ph \<Longrightarrow> rid \<in> set ids \<or> ph = Picked rid \<Longrightarrow>
     st rid = Some ''queued'' \<or> (st rid = Some ''cancelled'' \<and> rid \<in> fl)"
  unfolding ctl_def by blast

lemma ctl_exec:
  "ctl st fl ids ph \<Longrightarrow> executing ph rid \<Longrightarrow>
     st rid = Some ''running'' \<or> (st rid = Some ''cancelled'' \<and> rid \<in> fl)"
  unfolding ctl_def by blast

lemma ctl_queued: "ctl st fl ids ph \<Longrightarrow> st rid = Some ''queued'' \<Longrightarrow> rid \<in> set ids \<or> ph = Picked rid"
  unfolding ctl_def by blast

lemma ctl_running: "ctl st fl ids ph \<Longrightarrow> st rid = Some ''running'' \<Longrightarrow> executing ph rid"
  unfolding ctl_def by blast

lemma ctl_ids: "ctl st fl ids ph \<Longrightarrow> distinct ids \<and> (held ph = Some rid \<longrightarrow> rid \<notin> set ids)"
  unfolding ctl_def by blast

lemma ctl_loads:
  assumes "ctl st fl ids ph"
    and "\<And>rid. st' rid = st rid \<or> (st rid = None \<and> (\<exists>s. st' rid = Some s \<and> s \<noteq> ''queued'' \<and> s \<noteq> ''running''))"
  shows "ctl st' fl ids ph"
proof -
  have eq: "st' rid = st rid" if "st rid \<noteq> None" for rid using assms(2) [of rid] that by auto
  have known: "st rid = Some s" if "st' rid = Some s" "s = ''queued'' \<or> s = ''running''" for rid s
    using assms(2) [of rid] that by auto
  have wait: "st' rid = Some ''queued'' \<or> (st' rid = Some ''cancelled'' \<and> rid \<in> fl)"
    if "rid \<in> set ids \<or> ph = Picked rid" for rid
    using ctl_wait [OF assms(1) that] eq [of rid] by auto
  have exec: "st' rid = Some ''running'' \<or> (st' rid = Some ''cancelled'' \<and> rid \<in> fl)"
    if "executing ph rid" for rid
    using ctl_exec [OF assms(1) that] eq [of rid] by auto
  show ?thesis using assms(1) wait exec known unfolding ctl_def by blast
qed

lemma rq_inv_loads:
  assumes "rq_inv q" and "reg_ok rg" and "disk_settled rg" and "only_loads (q_registry q) rg"
  shows "rq_inv (q\<lparr>q_registry := rg\<rparr>)"
proof -
  have "ctl (status_of (q\<lparr>q_registry := rg\<rparr>)) (set (q_cancel q)) (item_ids (q_items q)) (q_phase q)"
  proof (rule ctl_loads [of "status_of q"])
    show "ctl (status_of q) (set (q_cancel q)) (item_ids (q_items q)) (q_phase q)"
      using assms(1) by (simp add: rq_inv_def)
  next
    fix rid
    from assms(4) have "rg_lookup rg rid = rg_lookup (q_registry q) rid \<or>
        (rg_lookup (q_registry q) rid = None \<and> (\<exists>rec. rg_lookup rg rid = Some rec \<and> \<not> stale rec))"
      by (simp add: only_loads_def)
    then show "status_of (q\<lparr>q_registry := rg\<rparr>) rid = status_of q rid \<or> (status_of q rid = None \<and>
        (\<exists>s. status_of (q\<lparr>q_registry := rg\<rparr>) rid = Some s \<and> s \<noteq> ''queued'' \<and> s \<noteq> ''running''))"
      by (auto simp: status_of_def lookup_reg stale_def)
  qed
  then show ?thesis using assms by (simp add: rq_inv_def)
qed

lemma ctl_enqueue:
  assumes "ctl st fl ids ph" and "st rid = None"
  shows "ctl (st(rid \<mapsto> ''queued'')) fl (ids @ [rid]) ph"
proof -
  have 1: "rid \<notin> set ids" and 2: "ph \<noteq> Picked rid" using ctl_wait [OF assms(1), of rid] assms(2) by auto
  have 3: "\<not> executing ph rid" using ctl_exec [OF assms(1), of rid] assms(2) by auto
  have 4: "held ph \<noteq> Some rid" using 2 3 by (auto simp: held_def executing_def split: phase.splits)
  show ?thesis using assms(1) 1 2 3 4 unfolding ctl_def by (simp add: fun_upd_def) blast
qed

lemma enqueue_inv:
  assumes "rq_inv q" and "fresh_run rid q"
    and "q' = put_item (Item rid p) (q\<lparr>q_registry := snd (registry_create now rid sid sp (q_registry q))\<rparr>)"
  shows "rq_inv q'"
proof -
  let ?rec = "new_record now rid sid sp"
  let ?rg' = "snd (registry_create now rid sid sp (q_registry q))"
  have rid: "r_id ?rec = rid" "r_status ?rec = ''queued''" by (simp_all add: new_record_def)
  have "rg_saved (q_registry q) (s, rid) = None" for s
    using assms(2) by (force simp: fresh_run_def rg_saved_def map_of_eq_None_iff)
  then have w: "writable ?rec (q_registry q)" by (simp add: writable_def rid)
  have reg: "reg_ok ?rg'" "disk_settled ?rg'"
    using update_ok [OF _ w] update_settled assms(1)
      reg_ok_cong [OF create_simps] disk_settled_cong [OF create_simps] by (simp_all add: rq_inv_def)
  have "status_of q rid = None" using assms(2) by (simp add: status_of_def fresh_run_def)
  then have c: "ctl ((status_of q)(rid \<mapsto> ''queued'')) (set (q_cancel q)) (item_ids (q_items q) @ [rid]) (q_phase q)"
    using assms(1) ctl_enqueue by (simp add: rq_inv_def)
  have "status_of q' = (status_of q)(rid \<mapsto> ''queued'')"
    by (rule ext) (simp add: assms(3) put_item_def status_of_def lookup_reg create_simps reg.lookup_put rid)
  then show ?thesis using reg c assms(1) by (simp add: rq_inv_def assms(3) put_item_def)
qed

lemma ctl_cancel:
  assumes "ctl st fl ids ph" and "st rid = Some ''queued'' \<or> st rid = Some ''running''"
  shows "ctl (st(rid \<mapsto> ''cancelled'')) (insert rid fl) ids ph" and "ctl st (insert rid fl) ids ph"
  using assms by (auto simp: ctl_def)

text \<open>A cancellation is refused, or the run is cancelled at once, or only its request is recorded.\<close>

lemma cancel_cases:
  assumes "cancel now rid q = (r, q')"
  obtains (Unknown) rg where "registry_get rid (q_registry q) = (None, rg)" "r = Inl KeyError"
      "q' = q\<lparr>q_registry := rg\<rparr>"
  | (Refused) rec rg where "registry_get rid (q_registry q) = (Some rec, rg)" "\<not> stale rec"
      "r = Inl CancelNotAllowed" "q' = q\<lparr>q_registry := rg\<rparr>"
  | (Now) rec rec' rg why where "registry_get rid (q_registry q) = (Some rec, rg)"
      "r_status rec = ''queued'' \<or> (r_status rec = ''running'' \<and> q_active q \<noteq> Some rid)"
      "rec' = cancelled_record now why rec" "r = Inr rec'"
      "q_registry q' = registry_update rec' rg" "q_cancel q' = cancel_request rid (q_cancel q)"
      "q_items q' = q_items q" "q_phase q' = q_phase q" "q_active q' = q_active q"
  | (Later) rec rg where "registry_get rid (q_registry q) = (Some rec, rg)" "r_status rec = ''running''"
      "q_active q = Some rid" "r = Inr rec"
      "q' = q\<lparr>q_registry := rg, q_cancel := cancel_request rid (q_cancel q)\<rparr>"
proof -
  obtain ro rg where g: "registry_get rid (q_registry q) = (ro, rg)" by fastforce
  show thesis
  proof (cases ro)
    case None
    then show thesis using Unknown assms g by (simp add: cancel_def)
  next
    case (Some rec)
    note g = g [unfolded Some]
    consider "\<not> stale rec" | "r_status rec = ''queued''"
      | "r_status rec = ''running''" "q_active q \<noteq> Some rid"
      | "r_status rec = ''running''" "q_active q = Some rid"
      by (auto simp: stale_def)
    then show thesis
    proof cases
      case 1
      then show thesis using Refused [OF g] assms g by (simp add: cancel_def stale_def)
    next
      case 2
      then show thesis using Now [OF g] assms g by (auto simp: cancel_def Let_def)
    next
      case 3
      then show thesis using Now [OF g] assms g by (auto simp: cancel_def Let_def split: if_splits)
    next
      case 4
      then show thesis using Later [OF g] assms g by (auto simp: cancel_def Let_def)
    qed
  qed
qed

lemma get_inv:
  assumes "rq_inv q" and "registry_get rid (q_registry q) = (ro, rg)"
  shows "rq_inv (q\<lparr>q_registry := rg\<rparr>)" and "lookup_run (q\<lparr>q_registry := rg\<rparr>) rid = ro"
    and "only_loads (q_registry q) rg"
  using registry_get_ok [OF assms(2)] assms(1) rq_inv_loads [OF assms(1), of rg]
  by (simp_all add: rq_inv_def only_loads_def lookup_reg)

lemma cancel_inv:
  assumes "rq_inv q" and "cancel now rid q = (r, q')"
  shows "rq_inv q'"
  using assms(2)
proof (cases rule: cancel_cases)
  case (Unknown rg)
  then show ?thesis using get_inv [OF assms(1)] by simp
next
  case (Refused rec rg)
  then show ?thesis using get_inv [OF assms(1)] by simp
next
  case (Later rec rg)
  let ?q1 = "q\<lparr>q_registry := rg\<rparr>"
  have inv: "rq_inv ?q1" and l: "lookup_run ?q1 rid = Some rec"
    using get_inv [OF assms(1) Later(1)] by auto
  have "status_of ?q1 rid = Some ''running''" using l Later(2) by (simp add: status_of_def)
  then have "ctl (status_of ?q1) (insert rid (set (q_cancel q))) (item_ids (q_items q)) (q_phase q)"
    using inv ctl_cancel(2) by (simp add: rq_inv_def)
  then show ?thesis using inv by (simp add: rq_inv_def Later(5) cancel_request_def)
next
  case (Now rec rec' rg why)
  let ?q1 = "q\<lparr>q_registry := rg\<rparr>"
  have inv: "rq_inv ?q1" and l: "lookup_run ?q1 rid = Some rec"
    using get_inv [OF assms(1) Now(1)] by auto
  have rec': "r_id rec' = rid" "r_session rec' = r_session rec" "r_status rec' = ''cancelled''"
    using rq_inv_keyed [OF inv l] by (simp_all add: Now(3) cancelled_record_def)
  have "status_of ?q1 rid = Some ''queued'' \<or> status_of ?q1 rid = Some ''running''"
    using l Now(2) by (auto simp: status_of_def)
  then have c: "ctl ((status_of ?q1)(rid \<mapsto> ''cancelled'')) (insert rid (set (q_cancel q)))
      (item_ids (q_items q)) (q_phase q)"
    using inv ctl_cancel(1) by (simp add: rq_inv_def)
  have "status_of q' = status_of (store rec' ?q1)" by (rule status_of_cong) (simp add: Now)
  then have st: "status_of q' = (status_of ?q1)(rid \<mapsto> ''cancelled'')"
    by (simp add: rec')
  have w: "writable rec' rg" using rq_inv_writable [OF inv l rec'(1,2)] by simp
  show ?thesis
    using inv c update_ok [OF _ w] update_settled by (simp add: rq_inv_def st Now cancel_request_def)
qed


lemma ctl_take:
  "ctl st fl (rid # ids) Waiting \<Longrightarrow> ctl st fl ids (Picked rid)"
  "ctl st fl ids Waiting \<Longrightarrow> ctl st fl ids Exited"
  by (auto simp: ctl_def held_def executing_def)

lemma take_inv: "rq_inv q \<Longrightarrow> worker_take q = Some q' \<Longrightarrow> rq_inv q'"
  by (auto simp: worker_take_def rq_inv_def phase_active_def ctl_take
      split: if_splits list.splits item.splits)

lemma ctl_begin:
  assumes "ctl st fl ids (Picked rid)"
  shows "ctl (st(rid \<mapsto> ''cancelled'')) (fl - {rid}) ids Waiting"
    and "ctl (st(rid \<mapsto> ''running'')) fl ids (Starting rid)"
proof -
  have 1: "rid \<notin> set ids" using ctl_ids [OF assms, of rid] by (simp add: held_def)
  have 2: "st r \<noteq> Some ''running''" for r using ctl_running [OF assms, of r] by (auto simp: executing_def)
  show "ctl (st(rid \<mapsto> ''cancelled'')) (fl - {rid}) ids Waiting"
    using assms 1 2 by (auto simp: ctl_def held_def executing_def)
  show "ctl (st(rid \<mapsto> ''running'')) fl ids (Starting rid)"
    using assms 1 2 by (auto simp: ctl_def held_def executing_def)
qed

lemma begin_cases:
  assumes "worker_begin now q = Some q'" and "rq_inv q"
  obtains (Dropped) rid rec where "q_phase q = Picked rid" "lookup_run q rid = Some rec"
      "is_cancelled (q_cancel q) rid" "r_id rec = rid"
      "q' = store (cancelled_record now ''Cancelled while queued'' rec) q
              \<lparr>q_cancel := cancel_clear rid (q_cancel q), q_phase := Waiting\<rparr>"
  | (Started) rid rec where "q_phase q = Picked rid" "lookup_run q rid = Some rec"
      "\<not> is_cancelled (q_cancel q) rid" "r_id rec = rid"
      "q' = store (rec\<lparr>r_status := ''running'', r_started := Some now\<rparr>) q\<lparr>q_phase := Starting rid\<rparr>"
  using assms rq_inv_keyed [OF assms(2)]
  by (auto simp: worker_begin_def Let_def split: phase.splits option.splits if_splits)

lemma store_inv:
  assumes "rq_inv q" and "lookup_run q rid = Some rec" and "r_id rec' = rid" and "r_session rec' = r_session rec"
    and "q_registry q' = registry_update rec' (q_registry q)"
    and "ctl ((status_of q)(rid \<mapsto> r_status rec')) (set (q_cancel q')) (item_ids (q_items q')) (q_phase q')"
    and "q_active q' = phase_active (q_phase q')"
  shows "rq_inv q'"
proof -
  have "status_of q' = status_of (store rec' q)" by (rule status_of_cong) (simp add: assms(5))
  then have "status_of q' = (status_of q)(rid \<mapsto> r_status rec')" by (simp add: assms(3))
  then show ?thesis
    using update_ok [OF _ rq_inv_writable [OF assms(1-4)]] update_settled assms(1,5-7)
    by (simp add: rq_inv_def)
qed

lemma begin_inv:
  assumes "rq_inv q" and "worker_begin now q = Some q'"
  shows "rq_inv q'"
  using assms(2,1)
proof (cases rule: begin_cases)
  case (Dropped rid rec)
  have "ctl (status_of q) (set (q_cancel q)) (item_ids (q_items q)) (Picked rid)"
    using assms(1) Dropped(1) by (simp add: rq_inv_def)
  note c = ctl_begin(1) [OF this]
  have a: "q_active q = None" using assms(1) Dropped(1) by (simp add: rq_inv_def phase_active_def)
  show ?thesis
    by (rule store_inv [OF assms(1) Dropped(2), of "cancelled_record now ''Cancelled while queued'' rec"])
       (use Dropped(4) c a in \<open>simp_all add: Dropped(5) cancelled_record_def cancel_clear_def
          phase_active_def\<close>)
next
  case (Started rid rec)
  have "ctl (status_of q) (set (q_cancel q)) (item_ids (q_items q)) (Picked rid)"
    using assms(1) Started(1) by (simp add: rq_inv_def)
  note c = ctl_begin(2) [OF this]
  have a: "q_active q = None" using assms(1) Started(1) by (simp add: rq_inv_def phase_active_def)
  show ?thesis
    by (rule store_inv [OF assms(1) Started(2), of "rec\<lparr>r_status := ''running'', r_started := Some now\<rparr>"])
       (use Started(4) c a in \<open>simp_all add: Started(5) phase_active_def\<close>)
qed

lemma ctl_activate: "ctl st fl ids (Starting rid) \<Longrightarrow> ctl st fl ids (Running rid)"
  unfolding ctl_def held_def executing_def by simp

lemma activate_inv:
  assumes "rq_inv q" and "worker_activate q = Some q'"
  shows "rq_inv q'"
proof -
  obtain rid where "q_phase q = Starting rid" "q' = q\<lparr>q_active := Some rid, q_phase := Running rid\<rparr>"
    using assms(2) by (auto simp: worker_activate_def split: phase.splits)
  then show ?thesis using assms(1) ctl_activate by (simp add: rq_inv_def phase_active_def)
qed

lemma settle_keys: "settle oc b rec = (rec', m) \<Longrightarrow> r_id rec' = r_id rec \<and> r_session rec' = r_session rec"
  by (auto simp: settle_def with_result_def Let_def split: outcome.splits if_splits)

lemma settle_final: "settle oc b rec = (rec', m) \<Longrightarrow> final_outcome oc \<Longrightarrow> \<not> stale rec'"
  by (auto simp: settle_def with_result_def Let_def stale_def final_outcome_def
      split: outcome.splits if_splits)

lemma settle_cancelled:
  "settle oc True rec = (rec', m) \<Longrightarrow> r_status rec' = ''cancelled'' \<or> r_status rec' = ''error''"
  by (auto simp: settle_def with_result_def Let_def split: outcome.splits if_splits)

lemma finish_cases:
  assumes "worker_finish fmt now oc q = Some q'" and "rq_inv q"
  obtains rid rec rec' m where "q_phase q = Running rid" "lookup_run q rid = Some rec" "r_id rec = rid"
    and "settle oc (is_cancelled (q_cancel q) rid) rec = (rec', m)"
    and "q_registry q' = registry_update (rec'\<lparr>r_finished := Some now\<rparr>) (q_registry q)"
    and "q_cancel q' = cancel_clear rid (q_cancel q)" and "q_items q' = q_items q"
    and "q_active q' = None" and "q_phase q' = Waiting" and "q_shutdown q' = q_shutdown q"
proof -
  obtain rid rec where r: "q_phase q = Running rid" "lookup_run q rid = Some rec"
    using assms(1) by (auto simp: worker_finish_def split: phase.splits option.splits)
  obtain rec' m where s: "settle oc (is_cancelled (q_cancel q) rid) rec = (rec', m)" by fastforce
  show thesis
    by (rule that [OF r rq_inv_keyed [OF assms(2) r(2)] s])
       (use assms(1) in \<open>auto simp: worker_finish_def r s Let_def say_opt_def say_def split: option.splits\<close>)
qed

lemma ctl_finish:
  assumes "ctl st fl ids (Running rid)" and "s \<noteq> ''queued''" and "s \<noteq> ''running''"
  shows "ctl (st(rid \<mapsto> s)) (fl - {rid}) ids Waiting"
proof -
  have "rid \<notin> set ids" using ctl_ids [OF assms(1), of rid] by (simp add: held_def)
  then show ?thesis using assms by (auto simp: ctl_def held_def executing_def)
qed

lemma finish_inv:
  assumes "rq_inv q" and "worker_finish fmt now oc q = Some q'" and "final_outcome oc"
  shows "rq_inv q'"
  using assms(2,1)
proof (cases rule: finish_cases)
  case (1 rid rec rec' m)
  have c: "ctl (status_of q) (set (q_cancel q)) (item_ids (q_items q)) (Running rid)"
    using assms(1) 1(1) by (simp add: rq_inv_def)
  note keys = settle_keys [OF 1(4)] and final = settle_final [OF 1(4) assms(3)]
  have s: "r_status rec' \<noteq> ''queued''" "r_status rec' \<noteq> ''running''" using final by (auto simp: stale_def)
  show ?thesis
    by (rule store_inv [OF assms(1) 1(2), of "rec'\<lparr>r_finished := Some now\<rparr>"])
       (use 1 keys ctl_finish [OF c s] in \<open>simp_all add: cancel_clear_def phase_active_def\<close>)
qed

text \<open>Every step keeps the invariant, and construction on a well-formed disk establishes it.\<close>

lemma step_inv:
  assumes "rq_step fmt q q'" and "rq_inv q"
  shows "rq_inv q'"
  using assms(1)
proof (cases rule: rq_step.cases)
  case (Enqueue rid now sid sp)
  then show ?thesis using enqueue_inv [OF assms(2) Enqueue(2)] by (simp add: enqueue_def)
next
  case (EnqueuePacket rid now sid packet request model fix_mode)
  then show ?thesis using enqueue_inv [OF assms(2) EnqueuePacket(2)] by (simp add: enqueue_packet_def)
next
  case (Cancel now rid r)
  then show ?thesis using cancel_inv [OF assms(2)] by simp
next
  case (Get rid r rg)
  then show ?thesis using get_inv [OF assms(2)] by simp
next
  case (ListRuns sid rs rg)
  have "reg_ok rg \<and> disk_settled rg \<and> only_loads (q_registry q) rg"
    using list_for_session_ok [OF ListRuns(2)] assms(2) by (simp add: rq_inv_def)
  then show ?thesis using rq_inv_loads [OF assms(2)] ListRuns(1) by simp
next
  case Shutdown
  then show ?thesis using assms(2) by (simp add: shutdown_def put_item_def rq_inv_def)
qed (use assms(2) take_inv begin_inv activate_inv finish_inv in blast)+

lemma init_inv: "disk_ok (map_of disk) \<Longrightarrow> rq_inv (queue_init now disk sessions)"
proof -
  assume d: "disk_ok (map_of disk)"
  let ?q = "queue_init now disk sessions"
  note r = reconcile_ok [OF d refl, where now = now]
  have q: "q_registry ?q = snd (reconcile_stale_runs now \<lparr>rg_runs = [], rg_by_session = [], rg_disk = disk\<rparr>)"
    by (simp add: queue_init_def)
  have "status_of ?q rid = Some s \<Longrightarrow> s = ''cancelled''" for rid s
    using r(3) by (auto simp: status_of_def lookup_reg q)
  then have "ctl (status_of ?q) {} [] Waiting" by (auto simp: ctl_def held_def executing_def)
  then show ?thesis using r(1,2) by (simp add: rq_inv_def q) (simp add: queue_init_def phase_active_def)
qed

lemma reachable_inv: "reachable fmt q0 q \<Longrightarrow> rq_inv q0 \<Longrightarrow> rq_inv q"
  by (induction rule: reachable.induct) (auto intro: step_inv)


section \<open>What a step does to one run\<close>

lemma loads_lookup: "only_loads rg rg' \<Longrightarrow> rg_lookup rg rid = Some rec \<Longrightarrow> rg_lookup rg' rid = Some rec"
  by (auto simp: only_loads_def) (metis option.distinct(1))

lemma get_keeps:
  "rq_inv q \<Longrightarrow> registry_get i (q_registry q) = (ro, rg) \<Longrightarrow> lookup_run q rid = Some rec \<Longrightarrow>
     rg_lookup rg rid = Some rec"
  using get_inv(3) loads_lookup lookup_reg by metis

lemma enqueue_keeps:
  assumes "fresh_run i q" and "lookup_run q rid = Some rec"
    and "q' = put_item (Item i p) (q\<lparr>q_registry := snd (registry_create now i sid sp (q_registry q))\<rparr>)"
  shows "lookup_run q' rid = Some rec"
proof -
  have "rid \<noteq> i" using assms(1,2) by (auto simp: fresh_run_def)
  moreover have "r_id (new_record now i sid sp) = i" by (simp add: new_record_def)
  ultimately show ?thesis
    using assms(2) by (simp add: assms(3) put_item_def lookup_reg create_simps reg.lookup_put)
qed

text \<open>
  The possible effects on a known run: none; a cancellation of a waiting or running run; or the worker
  closing, starting or finishing the run it holds.
\<close>

lemma step_effect:
  assumes "rq_step fmt q q'" and "rq_inv q" and "lookup_run q rid = Some rec"
  obtains (Same) "lookup_run q' rid = Some rec" "rid \<in> set (q_cancel q) \<longrightarrow> rid \<in> set (q_cancel q')"
  | (Cancelled) rec' where "lookup_run q' rid = Some rec'" "stale rec" "r_status rec' = ''cancelled''"
      "rid \<in> set (q_cancel q')"
  | (Dropped) rec' where "q_phase q = Picked rid" "lookup_run q' rid = Some rec'" "r_status rec' = ''cancelled''"
  | (Started) rec' where "q_phase q = Picked rid" "lookup_run q' rid = Some rec'" "r_status rec' = ''running''"
      "rid \<notin> set (q_cancel q)"
  | (Finished) rec' msg oc t where "q_phase q = Running rid" "lookup_run q' rid = Some (rec'\<lparr>r_finished := Some t\<rparr>)"
      "settle oc (is_cancelled (q_cancel q) rid) rec = (rec', msg)" "final_outcome oc"
  using assms(1)
proof (cases rule: rq_step.cases)
  case (Enqueue i now sid sp)
  have "lookup_run q' rid = Some rec"
    using enqueue_keeps [OF Enqueue(2) assms(3)] by (simp add: Enqueue(1) enqueue_def)
  then show thesis by (rule Same) (simp add: Enqueue(1) enqueue_def put_item_def)
next
  case (EnqueuePacket i now sid packet request model fix_mode)
  have "lookup_run q' rid = Some rec"
    using enqueue_keeps [OF EnqueuePacket(2) assms(3)] by (simp add: EnqueuePacket(1) enqueue_packet_def)
  then show thesis by (rule Same) (simp add: EnqueuePacket(1) enqueue_packet_def put_item_def)
next
  case (Cancel now i r)
  from Cancel(1) show thesis
  proof (cases rule: cancel_cases)
    case (Unknown rg)
    then show thesis using Same get_keeps [OF assms(2) Unknown(1) assms(3)] by (simp add: lookup_reg)
  next
    case (Refused rec1 rg)
    then show thesis using Same get_keeps [OF assms(2) Refused(1) assms(3)] by (simp add: lookup_reg)
  next
    case (Later rec1 rg)
    have "lookup_run q' rid = Some rec"
      using get_keeps [OF assms(2) Later(1) assms(3)] Later(5) by (simp add: lookup_reg)
    then show thesis by (rule Same) (simp add: Later(5) cancel_request_def)
  next
    case (Now rec1 rec' rg why)
    have l: "rg_lookup rg rid = Some rec" by (rule get_keeps [OF assms(2) Now(1) assms(3)])
    have i: "rg_lookup rg i = Some rec1" using get_inv(2) [OF assms(2) Now(1)] by (simp add: lookup_reg)
    have "r_id rec' = r_id rec1" by (simp add: Now(3) cancelled_record_def)
    moreover have "r_id rec1 = i"
      using get_inv(1) [OF assms(2) Now(1)] get_inv(2) [OF assms(2) Now(1)] by (rule rq_inv_keyed)
    ultimately have id: "r_id rec' = i" by simp
    show thesis
    proof (cases "i = rid")
      case True
      then have "rec1 = rec" using l i by simp
      then have "stale rec" using Now(2) by (auto simp: stale_def)
      moreover have "lookup_run q' rid = Some rec'"
        using id True by (simp add: lookup_reg Now(5) reg.lookup_put)
      ultimately show thesis
        by (intro Cancelled) (auto simp: Now(3,6) True cancel_request_def cancelled_record_def)
    next
      case False
      then have "lookup_run q' rid = Some rec" using l id by (simp add: lookup_reg Now(5) reg.lookup_put)
      then show thesis by (rule Same) (simp add: Now(6) cancel_request_def)
    qed
  qed
next
  case (Get i r rg)
  show thesis
    by (rule Same) (use get_keeps [OF assms(2) Get(2) assms(3)] Get(1) in \<open>simp_all add: lookup_reg\<close>)
next
  case (ListRuns sid rs rg)
  have "only_loads (q_registry q) rg"
    using list_for_session_ok [OF ListRuns(2)] assms(2) by (simp add: rq_inv_def)
  then have "rg_lookup rg rid = Some rec" using loads_lookup assms(3) lookup_reg by metis
  then show thesis by (intro Same) (simp_all add: ListRuns(1) lookup_reg)
next
  case Shutdown
  then show thesis using Same assms(3) by (simp add: shutdown_def put_item_def lookup_run_def)
next
  case Take
  then show thesis using Same assms(3)
    by (auto simp: worker_take_def lookup_run_def split: if_splits list.splits item.splits)
next
  case (Begin now)
  from Begin assms(2) show thesis
  proof (cases rule: begin_cases)
    case (Dropped i rec1)
    show thesis
    proof (cases "i = rid")
      case True
      then show thesis using that(3) Dropped(1,4,5)
        by (simp add: lookup_run_def [symmetric] lookup_reg reg.lookup_put cancelled_record_def)
    next
      case False
      then show thesis using Same Dropped(4,5) assms(3)
        by (simp add: lookup_reg reg.lookup_put cancelled_record_def cancel_clear_def)
    qed
  next
    case (Started i rec1)
    show thesis
    proof (cases "i = rid")
      case True
      then show thesis using that(4) Started(1,3,4,5)
        by (simp add: lookup_reg reg.lookup_put is_cancelled_def)
    next
      case False
      then show thesis using Same Started(4,5) assms(3) by (simp add: lookup_reg reg.lookup_put)
    qed
  qed
next
  case Activate
  then show thesis using Same assms(3)
    by (auto simp: worker_activate_def lookup_run_def split: phase.splits)
next
  case (Finish now oc)
  from Finish(1) assms(2) show thesis
  proof (cases rule: finish_cases)
    case (1 i rec1 rec2 m)
    have id: "r_id rec2 = i" using settle_keys [OF 1(4)] 1(3) by simp
    show thesis
    proof (cases "i = rid")
      case True
      then have "rec1 = rec" using 1(2) assms(3) by simp
      then show thesis using that(5) [where rec' = rec2 and msg = m and oc = oc and t = now] 1 id True Finish(2)
        by (simp add: lookup_reg reg.lookup_put)
    next
      case False
      then show thesis using Same 1 id assms(3) by (simp add: lookup_reg reg.lookup_put cancel_clear_def)
    qed
  qed
qed

text \<open>A run nobody holds stays out of the worker's reach.\<close>

definition idle_run :: "queue_state \<Rightarrow> string \<Rightarrow> bool" where
  "idle_run q rid \<longleftrightarrow> rid \<notin> set (item_ids (q_items q)) \<and> held (q_phase q) \<noteq> Some rid"

lemma cancel_items:
  "cancel now rid q = (r, q') \<Longrightarrow> q_items q' = q_items q \<and> q_phase q' = q_phase q"
  by (erule cancel_cases) simp_all

lemma step_idle:
  assumes "rq_step fmt q q'" and "lookup_run q rid = Some rec" and "idle_run q rid"
  shows "idle_run q' rid"
  using assms(1)
proof (cases rule: rq_step.cases)
  case (Cancel now i r)
  then show ?thesis using assms(3) cancel_items by (simp add: idle_run_def)
qed (use assms(2,3) in \<open>auto simp: idle_run_def enqueue_def enqueue_packet_def shutdown_def put_item_def
       fresh_run_def held_def worker_take_def worker_begin_def worker_activate_def worker_finish_def Let_def
       split: if_splits list.splits item.splits phase.splits option.splits prod.splits\<close>)


lemma cancel_accepted:
  assumes "rq_inv q" and "cancel now rid q = (Inr r, q')"
  shows "rq_inv q' \<and> (\<exists>rec. lookup_run q' rid = Some rec \<and> rid \<in> set (q_cancel q') \<and>
     (r_status rec = ''cancelled'' \<or> r_status rec = ''running''))"
proof -
  have "\<exists>rec. lookup_run q' rid = Some rec \<and> rid \<in> set (q_cancel q') \<and>
     (r_status rec = ''cancelled'' \<or> r_status rec = ''running'')"
    using assms(2)
  proof (cases rule: cancel_cases)
    case (Now rec rec' rg why)
    have "r_id rec = rid" using get_inv(1,2) [OF assms(1) Now(1)] by (rule rq_inv_keyed)
    then show ?thesis
      by (simp add: Now lookup_reg reg.lookup_put cancelled_record_def cancel_request_def)
  next
    case (Later rec rg)
    then show ?thesis using get_inv(2) [OF assms(1) Later(1)]
      by (simp add: lookup_reg cancel_request_def)
  qed simp_all
  then show ?thesis using cancel_inv [OF assms] by blast
qed

text \<open>The state of a run whose cancellation was accepted.\<close>

definition cancel_pending :: "string \<Rightarrow> queue_state \<Rightarrow> bool" where
  "cancel_pending rid q \<longleftrightarrow> (\<exists>rec. lookup_run q rid = Some rec \<and>
     (r_status rec = ''cancelled'' \<or> r_status rec = ''error'' \<or>
      (r_status rec = ''running'' \<and> rid \<in> set (q_cancel q))))"

lemma cancel_pending_step:
  assumes "rq_step fmt q q'" and "rq_inv q" and "cancel_pending rid q"
  shows "cancel_pending rid q'"
proof -
  obtain rec where rec: "lookup_run q rid = Some rec"
    and st: "r_status rec = ''cancelled'' \<or> r_status rec = ''error'' \<or>
      (r_status rec = ''running'' \<and> rid \<in> set (q_cancel q))"
    using assms(3) by (auto simp: cancel_pending_def)
  have c: "ctl (status_of q) (set (q_cancel q)) (item_ids (q_items q)) (q_phase q)"
    using assms(2) by (simp add: rq_inv_def)
  have so: "status_of q rid = Some (r_status rec)" by (simp add: status_of_def rec)
  from assms(1,2) rec show ?thesis
  proof (cases rule: step_effect)
    case Same
    then show ?thesis using st by (auto simp: cancel_pending_def)
  next
    case (Started rec')
    then have "rid \<notin> set (q_cancel q)" "q_phase q = Picked rid" by auto
    then show ?thesis using ctl_wait [OF c, of rid] so st by auto
  next
    case (Finished rec' msg oc t)
    then have "executing (q_phase q) rid" by (simp add: executing_def)
    from ctl_exec [OF c this] have "rid \<in> set (q_cancel q)" using so st by auto
    then have "settle oc True rec = (rec', msg)" using Finished(3) by (simp add: is_cancelled_def)
    then show ?thesis using settle_cancelled Finished(2) by (fastforce simp: cancel_pending_def)
  qed (auto simp: cancel_pending_def)
qed

lemma cancel_pending_reachable:
  "reachable fmt q0 q \<Longrightarrow> rq_inv q0 \<Longrightarrow> cancel_pending rid q0 \<Longrightarrow> cancel_pending rid q"
  by (induction rule: reachable.induct) (auto intro: cancel_pending_step reachable_inv)

definition over :: "string \<Rightarrow> run_record \<Rightarrow> queue_state \<Rightarrow> bool" where
  "over rid rec q \<longleftrightarrow> lookup_run q rid = Some rec \<and> \<not> stale rec \<and> idle_run q rid"

lemma over_step: "rq_step fmt q q' \<Longrightarrow> rq_inv q \<Longrightarrow> over rid rec q \<Longrightarrow> over rid rec q'"
proof -
  assume s: "rq_step fmt q q'" and i: "rq_inv q" and o: "over rid rec q"
  then have l: "lookup_run q rid = Some rec" "\<not> stale rec" "idle_run q rid" by (auto simp: over_def)
  from s i l(1) have "lookup_run q' rid = Some rec"
    by (cases rule: step_effect) (use l in \<open>auto simp: idle_run_def held_def\<close>)
  then show "over rid rec q'" using l step_idle [OF s l(1,3)] by (simp add: over_def)
qed

lemma over_reachable: "reachable fmt q0 q \<Longrightarrow> rq_inv q0 \<Longrightarrow> over rid rec q0 \<Longrightarrow> over rid rec q"
  by (induction rule: reachable.induct) (auto intro: over_step reachable_inv)

section \<open>Serving the queue\<close>

text \<open>The worker on one item, when no API request comes between; and on the whole queue.\<close>

definition serve :: "(int \<Rightarrow> string) \<Rightarrow> string \<Rightarrow> outcome \<Rightarrow> queue_state \<Rightarrow> queue_state option" where
  "serve fmt now oc q =
     Option.bind (worker_take q) (\<lambda>q1.
     Option.bind (worker_begin now q1) (\<lambda>q2.
       if q_phase q2 = Waiting then Some q2
       else Option.bind (worker_activate q2) (\<lambda>q3. worker_finish fmt now oc q3)))"

fun drain :: "(int \<Rightarrow> string) \<Rightarrow> string \<Rightarrow> outcome list \<Rightarrow> queue_state \<Rightarrow> queue_state option" where
  "drain fmt now [] q = Some q"
| "drain fmt now (oc # ocs) q = Option.bind (serve fmt now oc q) (drain fmt now ocs)"

lemma serve_ok:
  assumes "rq_inv q" and "q_phase q = Waiting" and "\<not> q_shutdown q" and "q_items q = Item rid p # rest"
    and "final_outcome oc"
  shows "\<exists>q'. serve fmt now oc q = Some q' \<and> rq_inv q' \<and> q_phase q' = Waiting \<and> \<not> q_shutdown q' \<and>
     q_items q' = rest"
proof -
  let ?q1 = "q\<lparr>q_items := rest, q_phase := Picked rid\<rparr>"
  have 1: "worker_take q = Some ?q1" using assms(2-4) by (simp add: worker_take_def)
  have i1: "rq_inv ?q1" by (rule take_inv [OF assms(1) 1])
  have "status_of ?q1 rid = Some ''queued'' \<or> status_of ?q1 rid = Some ''cancelled''"
    using i1 by (auto simp: rq_inv_def dest!: ctl_wait [where rid = rid])
  then obtain rec where l: "lookup_run ?q1 rid = Some rec" unfolding status_lookup by blast
  show ?thesis
  proof (cases "is_cancelled (q_cancel q) rid")
    case True
    let ?q2 = "store (cancelled_record now ''Cancelled while queued'' rec) ?q1
                 \<lparr>q_cancel := cancel_clear rid (q_cancel q), q_phase := Waiting\<rparr>"
    have 2: "worker_begin now ?q1 = Some ?q2" using True l by (simp add: worker_begin_def Let_def)
    have "rq_inv ?q2" by (rule begin_inv [OF i1 2])
    moreover have "serve fmt now oc q = Some ?q2" using 1 2 by (simp add: serve_def)
    ultimately show ?thesis using assms(3) by (intro exI [of _ ?q2]) simp
  next
    case False
    let ?q2 = "store (rec\<lparr>r_status := ''running'', r_started := Some now\<rparr>) ?q1\<lparr>q_phase := Starting rid\<rparr>"
    let ?q3 = "?q2\<lparr>q_active := Some rid, q_phase := Running rid\<rparr>"
    have 2: "worker_begin now ?q1 = Some ?q2" using False l by (simp add: worker_begin_def)
    have 3: "worker_activate ?q2 = Some ?q3" by (simp add: worker_activate_def)
    have i3: "rq_inv ?q3" by (rule activate_inv [OF begin_inv [OF i1 2] 3])
    have "status_of ?q3 rid = Some ''running'' \<or> status_of ?q3 rid = Some ''cancelled''"
      using i3 by (auto simp: rq_inv_def executing_def dest!: ctl_exec [where rid = rid])
    then obtain rec3 where "lookup_run ?q3 rid = Some rec3" unfolding status_lookup by blast
    then obtain q4 where 4: "worker_finish fmt now oc ?q3 = Some q4"
      by (cases "settle oc (is_cancelled (q_cancel ?q3) rid) rec3") (simp add: worker_finish_def Let_def)
    have i4: "rq_inv q4" by (rule finish_inv [OF i3 4 assms(5)])
    have "serve fmt now oc q = Some q4" using 1 2 3 4 by (simp add: serve_def)
    moreover from 4 i3 have "q_phase q4 = Waiting \<and> \<not> q_shutdown q4 \<and> q_items q4 = rest"
      by (cases rule: finish_cases) (use assms(3) in simp)
    ultimately show ?thesis using i4 by blast
  qed
qed

lemma drain_ok:
  assumes "rq_inv q" and "q_phase q = Waiting" and "\<not> q_shutdown q" and "Sentinel \<notin> set (q_items q)"
    and "length ocs = length (q_items q)" and "\<forall>oc\<in>set ocs. final_outcome oc"
  shows "\<exists>q'. drain fmt now ocs q = Some q' \<and> rq_inv q' \<and> q_phase q' = Waiting \<and> q_items q' = []"
  using assms
proof (induction ocs arbitrary: q)
  case Nil
  then show ?case by simp
next
  case (Cons oc ocs)
  then obtain rid p rest where it: "q_items q = Item rid p # rest"
    by (cases "q_items q") (auto elim: item.exhaust)
  obtain q' where q': "serve fmt now oc q = Some q'" "rq_inv q'" "q_phase q' = Waiting" "\<not> q_shutdown q'"
      "q_items q' = rest"
    using serve_ok [OF Cons.prems(1-3) it] Cons.prems(6) by (meson list.set_intros(1))
  then show ?case using Cons.IH [of q'] Cons.prems(4-6) it by simp
qed

lemma empty_queue_settled:
  assumes "rq_inv q" and "q_phase q = Waiting" and "item_ids (q_items q) = []" and "lookup_run q rid = Some rec"
  shows "\<not> stale rec"
proof -
  have c: "ctl (status_of q) (set (q_cancel q)) [] Waiting" using assms(1-3) by (simp add: rq_inv_def)
  show ?thesis
    using ctl_queued [OF c, of rid] ctl_running [OF c, of rid] assms(4)
    by (auto simp: stale_def status_of_def executing_def)
qed

lemmas queue_facts = reachable_inv init_inv rq_inv_def lookup_reg

section \<open>Properties\<close>

text \<open>A completed run of an earlier server life, and what a request asks for.\<close>

abbreviation old_run :: run_record where
  "old_run \<equiv> \<lparr>r_id = ''r0'', r_session = ''s'', r_request = ''x'', r_status = ''completed'',
     r_model = ''auto'', r_queued_at = ''t0'', r_kind = ''new'', r_route = ''mission'', r_fix_mode = ''ask'',
     r_chat_mode = ''build'', r_skip = False, r_plan = None, r_started = Some ''t0'',
     r_finished = Some ''t0'', r_result = None, r_error = None\<rparr>"

abbreviation demo_spec :: run_spec where
  "demo_spec \<equiv> \<lparr>s_request = ''fix it'', s_model = ''auto'', s_kind = ''auto'', s_route = ''auto'',
     s_fix_mode = [], s_chat_mode = [], s_skip = False\<rparr>"

abbreviation demo_disk :: "(run_key \<times> run_file) list" where
  "demo_disk \<equiv> [((''s'', ''r0''), Saved old_run), ((''s'', ''bad''), Unreadable)]"

abbreviation demo_queue :: queue_state where
  "demo_queue \<equiv> enqueue ''t1'' ''r1'' ''s'' demo_spec (queue_init ''t1'' demo_disk [(''s'', ''created'')])"

lemma demo_disk_ok: "disk_ok (map_of demo_disk)"
  by (auto simp: disk_ok_def split: if_splits)

lemma demo_reachable: "reachable fmt (queue_init ''t1'' demo_disk [(''s'', ''created'')]) demo_queue"
proof -
  have "fresh_run ''r1'' (queue_init ''t1'' demo_disk [(''s'', ''created'')])"
    unfolding fresh_run_def by code_simp
  then show ?thesis by (intro reachable.Step [OF reachable.Start] rq_step.Enqueue)
qed

lemma demo_inv: "rq_inv demo_queue"
  using reachable_inv [OF demo_reachable] init_inv [OF demo_disk_ok] by blast





text \<open>
  A run that is over stays as it is: once its status is neither queued nor running and
  the worker is done with it, no later step changes its record, and a cancellation is refused.
\<close>

lemma finished_run_final:
  assumes "disk_ok (map_of disk)" and "reachable fmt (queue_init now disk sessions) q"
    and "lookup_run q rid = Some rec" and "\<not> stale rec" and "idle_run q rid" and "reachable fmt q q'"
  shows "lookup_run q' rid = Some rec \<and> fst (cancel t rid q') = Inl CancelNotAllowed"
proof -
  have i: "rq_inv q" by (rule reachable_inv [OF assms(2) init_inv [OF assms(1)]])
  have "over rid rec q'"
    using over_reachable [OF assms(6) i] assms(3-5) by (simp add: over_def)
  then show ?thesis by (simp add: over_def cancel_def registry_get_def lookup_run_def stale_def)
qed

text \<open>
  Property C3. No request is forgotten: a waiting worker that is left alone takes exactly as many
  turns as there are items, empties the queue, and then no known run is queued or running, whatever
  final results the runtime returns.
\<close>

theorem queue_drains:
  assumes "disk_ok (map_of disk)" and "reachable fmt (queue_init now disk sessions) q"
    and "q_phase q = Waiting" and "\<not> q_shutdown q" and "Sentinel \<notin> set (q_items q)"
    and "length ocs = length (q_items q)" and "\<forall>oc\<in>set ocs. final_outcome oc"
  shows "\<exists>q'. drain fmt t ocs q = Some q' \<and> q_items q' = [] \<and>
     (\<forall>rid rec. lookup_run q' rid = Some rec \<longrightarrow> r_status rec \<notin> {''queued'', ''running''})"
proof -
  have i: "rq_inv q" by (rule reachable_inv [OF assms(2) init_inv [OF assms(1)]])
  obtain q' where q': "drain fmt t ocs q = Some q'" "rq_inv q'" "q_phase q' = Waiting" "q_items q' = []"
    using drain_ok [OF i assms(3-7)] by blast
  then show ?thesis using empty_queue_settled [OF q'(2,3)] by (auto simp: stale_def)
qed

lemma queue_drains_witness:
  "\<exists>q'. drain (\<lambda>_. []) ''t2'' [Crashed ''OSError'' ''disk full''] demo_queue = Some q' \<and> q_items q' = []"
proof -
  have a: "q_phase demo_queue = Waiting" and b: "\<not> q_shutdown demo_queue"
    and c: "Sentinel \<notin> set (q_items demo_queue)"
    and d: "length [Crashed ''OSError'' ''disk full''] = length (q_items demo_queue)"
    and e: "\<forall>oc\<in>set [Crashed ''OSError'' ''disk full'']. final_outcome oc"
    by code_simp+
  show ?thesis
    using queue_drains [OF demo_disk_ok demo_reachable [of "\<lambda>_. []"] a b c d e] by blast
qed

text \<open>
  The history of a session disappears from the list after a restart: as soon as one run of
  the session is in memory, the list is built from memory alone, and a run saved by an earlier server
  that has not been loaded is missing from it.
\<close>

lemma list_hides_history:
  assumes "reg_ok rg" and "rg_saved rg (sid, rid) = Some (Saved old)" and "rg_lookup rg rid = None"
    and "dget (rg_by_session rg) sid [] \<noteq> []"
  shows "\<exists>rs. list_for_session sid rg = (rs, rg) \<and> old \<notin> set rs"
proof -
  let ?rs = "in_memory rg (dget (rg_by_session rg) sid [])"
  have "old \<notin> set ?rs"
  proof
    assume "old \<in> set ?rs"
    then obtain i where "rg_lookup rg i = Some old"
      by (auto simp: in_memory_def map_filter_def rg_lookup_def split: option.splits)
    moreover have "r_id old = rid" using assms(1,2) by (auto simp: reg_ok_def disk_ok_def)
    ultimately show False using assms(1,3) by (auto simp: reg_ok_def reg.durable_def)
  qed
  then show ?thesis using assms(4) by (simp add: list_for_session_def Let_def)
qed

text \<open>
  The record file format loses nothing: reading the dictionary \<open>to_dict\<close> writes gives the
  same record back, and unknown keys after it are ignored.
\<close>

lemma run_record_roundtrip: "run_of_dict (run_to_dict r @ extra) = Inr r"
  by (cases r) (auto simp: run_of_dict_def run_to_dict_def str_field_def str_field_or_def opt_field_def
      bool_field_or_def dict_field_def opt_str_def opt_dict_def split: option.splits)

end
