(* ===== verification/Decisions.thy ===== *)
theory Decisions
  imports RunQueue
begin

text \<open>
  \<open>src/decisions.py\<close> and \<open>src/api/routers/decisions.py\<close>: a run that needs a human leaves a pending
  decision beside the session and ends; the decisions endpoint resolves it, which may enqueue a
  follow-up run. A file is the JSON value it parses to, or None when it is absent or unreadable.
\<close>

section \<open>The decision files\<close>

record session_files =
  sf_session :: string
  sf_pending :: "json option"
  sf_resolution :: "obj option"
  sf_plan :: "json option"
  sf_chat_mode :: string
  sf_model :: string
  sf_queue :: queue_state

definition pending_payload :: "string \<Rightarrow> string \<Rightarrow> obj \<Rightarrow> obj" where
  "pending_payload now session decision =
     AList.update ''resolved'' (JBool False)
       (AList.update ''created_at'' (JStr now) (AList.update ''session_id'' (JStr session) decision))"

definition save_pending_decision :: "string \<Rightarrow> obj \<Rightarrow> session_files \<Rightarrow> obj \<times> session_files" where
  "save_pending_decision now decision sf =
     (let payload = pending_payload now (sf_session sf) decision in (payload, sf\<lparr>sf_pending := Some (JObj payload)\<rparr>))"

definition load_pending_decision :: "session_files \<Rightarrow> obj option" where
  "load_pending_decision sf = (case sf_pending sf of Some (JObj d) \<Rightarrow> Some d | _ \<Rightarrow> None)"

definition clear_pending_decision :: "session_files \<Rightarrow> session_files" where
  "clear_pending_decision sf = sf\<lparr>sf_pending := None\<rparr>"

definition save_resolution :: "string \<Rightarrow> string option \<Rightarrow> string \<Rightarrow> session_files \<Rightarrow> session_files" where
  "save_resolution now run_id action sf =
     sf\<lparr>sf_resolution := Some
          [(''session_id'', JStr (sf_session sf)), (''run_id'', opt_str run_id),
           (''action'', JStr action), (''resolved_at'', JStr now)]\<rparr>"

section \<open>Builders\<close>

text \<open>The actions the request schema admits.\<close>

datatype decision_action = ApplyFix | Dismiss | EscalateMission | RunSmoke | SetupEnv | ApprovePlan

fun action_text :: "decision_action \<Rightarrow> string" where
  "action_text ApplyFix = ''apply_fix''"
| "action_text Dismiss = ''dismiss''"
| "action_text EscalateMission = ''escalate_mission''"
| "action_text RunSmoke = ''run_smoke''"
| "action_text SetupEnv = ''setup_env''"
| "action_text ApprovePlan = ''approve_plan''"

text \<open>\<open>p.get(a) or p.get(b) or []\<close>.\<close>

definition get_or2 :: "obj \<Rightarrow> string \<Rightarrow> string \<Rightarrow> json" where
  "get_or2 d a b = py_or (dget d a JNull) (py_or (dget d b JNull) (JList []))"

definition packet_for_action :: "decision_action \<Rightarrow> obj \<Rightarrow> obj res" where
  "packet_for_action action payload =
     (let report = py_or (dget payload ''review_report'' JNull) (JObj []);
          touched = get_or2 payload ''touched_files'' ''target_files''
      in case action of
        ApplyFix \<Rightarrow>
          (case dget payload ''milestone'' JNull of
             JObj (f # fs) \<Rightarrow>
               Inr [(''kind'', JStr ''review_fix''), (''milestone'', JObj (f # fs)),
                    (''target_files'', touched), (''report'', report)]
           | _ \<Rightarrow> Inl (HTTPError 422 ''This decision carries no stored fix packet to apply.''))
      | RunSmoke \<Rightarrow>
          Inr [(''kind'', JStr ''smoke''), (''touched_files'', touched), (''target_files'', touched),
               (''report'', report)]
      | SetupEnv \<Rightarrow>
          Inr [(''kind'', JStr ''setup_env''), (''packages'', get_or2 payload ''packages'' ''missing_checks''),
               (''touched_files'', touched), (''target_files'', touched), (''report'', report)]
      | _ \<Rightarrow> Inl (HTTPError 400 (''Unknown action '' @ quoted (action_text action))))"

definition packet_request :: "decision_action \<Rightarrow> obj \<Rightarrow> obj \<Rightarrow> string" where
  "packet_request action pending payload =
     (let title = quoted (get_str pending ''title'' ''follow-up'');
          touched = py_str (get_or2 payload ''touched_files'' ''target_files'')
      in case action of
        SetupEnv \<Rightarrow> ''Approved follow-up (set up test env) for '' @ title @ ''. Missing checks: ''
                     @ py_str (get_or2 payload ''missing_checks'' ''packages'') @ ''. Touched files: ''
                     @ touched @ ''.''
      | RunSmoke \<Rightarrow> ''Approved follow-up (smoke checks) for '' @ title @ ''. Touched files: '' @ touched @ ''.''
      | _ \<Rightarrow> ''Approved follow-up fix for '' @ title @ ''. Targets: '' @ touched @ ''.'')"

text \<open>\<open>errors[-4:]\<close>: a list or a string can be sliced, another true value raises.\<close>

definition last_four :: "'a list \<Rightarrow> 'a list" where
  "last_four xs = drop (length xs - 4) xs"

definition error_lines :: "json \<Rightarrow> string list res" where
  "error_lines errors =
     (if \<not> truthy errors then Inr []
      else case errors of
        JList xs \<Rightarrow> Inr (''Prior errors:'' # map (\<lambda>e. ''- '' @ py_str e) (last_four xs))
      | JStr s \<Rightarrow> Inr (''Prior errors:'' # map (\<lambda>c. ''- '' @ [c]) (last_four s))
      | _ \<Rightarrow> Inl TypeError)"

definition labelled_field :: "string \<Rightarrow> string \<Rightarrow> json \<Rightarrow> string list" where
  "labelled_field label key j =
     (case j of
        JObj d \<Rightarrow> if truthy (dget d key JNull) then [label @ py_str (dget d key JNull)] else []
      | _ \<Rightarrow> [])"

definition escalation_request :: "obj \<Rightarrow> obj \<Rightarrow> string res" where
  "escalation_request pending payload =
     (let verdict = dget payload ''verdict'' JNull;
          targets = get_or2 payload ''target_files'' ''touched_files''
      in bindR (error_lines (py_or (dget payload ''errors'' JNull) (JList []))) (\<lambda>errs.
         bindR (if truthy targets then mapR Inr [targets] else Inr []) (\<lambda>ts.
         bindR (mapR py_iter ts) (\<lambda>tss.
         let lines =
               [''Escalate to a planned mission.'', [],
                ''Prior context: '' @ get_str pending ''title'' [], get_strip pending ''summary'' []]
               @ (if truthy verdict then [''Prior focused attempt verdict: '' @ py_str verdict @ ''.''] else [])
               @ errs
               @ labelled_field ''Fix verification: '' ''rationale''
                   (py_or (dget payload ''verification'' JNull) (JObj []))
               @ labelled_field ''Review summary: '' ''summary''
                   (py_or (dget payload ''review_report'' JNull) (JObj []))
               @ map (\<lambda>xs. ''Known-affected files: '' @ py_str (JList xs)) tss
               @ [''Start from this evidence; do not re-derive what is already established.'']
         in Inr (py_join [nl] (filter (\<lambda>l. py_strip l \<noteq> []) lines))))))"

definition plan_build_request :: "obj \<Rightarrow> obj \<Rightarrow> string" where
  "plan_build_request pending payload =
     ''Build the approved plan: '' @
     py_str (py_or (dget payload ''title'' JNull)
              (py_or (dget pending ''title'' JNull) (JStr ''approved plan'')))"

definition set_plan_approval_state :: "string \<Rightarrow> session_files \<Rightarrow> session_files" where
  "set_plan_approval_state state sf =
     (case sf_plan sf of
        Some (JObj plan) \<Rightarrow> sf\<lparr>sf_plan := Some (JObj (AList.update ''approval_state'' (JStr state) plan))\<rparr>
      | _ \<Rightarrow> sf)"

section \<open>The endpoints\<close>

definition get_decision :: "session_files \<Rightarrow> obj res" where
  "get_decision sf =
     (case load_pending_decision sf of
        None \<Rightarrow> Inl (HTTPError 404 ''No pending decision'')
      | Some d \<Rightarrow> Inr d)"

text \<open>\<open>body.action in pending.get("options", [])\<close>.\<close>

fun offered :: "string \<Rightarrow> json \<Rightarrow> bool res" where
  "offered a (JList xs) = Inr (JStr a \<in> set xs)"
| "offered a (JStr s) = Inr (contains a s)"
| "offered a (JObj d) = Inr (a \<in> set (map fst d))"
| "offered a _ = Inl TypeError"

record resolve_response =
  rs_action :: string
  rs_session :: string
  rs_run :: "string option"
  rs_detail :: string

definition chosen_model :: "string \<Rightarrow> string" where
  "chosen_model selected = (if selected = [] then ''auto'' else selected)"

text \<open>
  The branch of \<open>resolve_decision\<close> an action takes, after the pending file was cleared. A failure
  leaves the state as the branch found it.
\<close>

definition decision_branch ::
    "string \<Rightarrow> string \<Rightarrow> decision_action \<Rightarrow> obj \<Rightarrow> json \<Rightarrow> session_files \<Rightarrow>
       (string option \<times> string) res \<times> session_files" where
  "decision_branch now rid action pending payload sf =
     (case action of
        Dismiss \<Rightarrow>
          (Inr (None, ''Decision dismissed - no further work started.''),
           if dget pending ''type'' JNull = JStr ''plan_approval''
           then set_plan_approval_state ''dismissed'' sf else sf)
      | ApprovePlan \<Rightarrow>
          (let sf1 = set_plan_approval_state ''approved'' sf
           in case as_obj payload of
                Inl e \<Rightarrow> (Inl e, sf1)
              | Inr p \<Rightarrow>
                  (Inr (Some rid, ''Approved plan - building (run '' @ rid @ '').''),
                   sf1\<lparr>sf_queue := enqueue now rid (sf_session sf)
                          \<lparr>s_request = plan_build_request pending p, s_model = chosen_model (sf_model sf),
                           s_kind = ''resume'', s_route = ''mission'', s_fix_mode = ''ask'',
                           s_chat_mode = ''build'', s_skip = True\<rparr> (sf_queue sf1),
                       sf_chat_mode := ''build''\<rparr>))
      | EscalateMission \<Rightarrow>
          (case bindR (as_obj payload) (escalation_request pending) of
             Inl e \<Rightarrow> (Inl e, sf)
           | Inr request \<Rightarrow>
               (Inr (Some rid, ''Escalated to a planned mission (run '' @ rid @ '').''),
                sf\<lparr>sf_queue := enqueue now rid (sf_session sf)
                     \<lparr>s_request = request, s_model = chosen_model (sf_model sf), s_kind = ''new'',
                      s_route = ''mission'', s_fix_mode = ''ask'', s_chat_mode = ''build'', s_skip = False\<rparr>
                     (sf_queue sf)\<rparr>))
      | _ \<Rightarrow>
          (case bindR (as_obj payload) (\<lambda>p. bindR (packet_for_action action p) (\<lambda>k. Inr (p, k))) of
             Inl e \<Rightarrow> (Inl e, sf)
           | Inr (p, packet) \<Rightarrow>
               (Inr (Some rid, ''Follow-up '' @ quoted (action_text action) @ '' started (run '' @ rid @ '').''),
                sf\<lparr>sf_queue := enqueue_packet now rid (sf_session sf) packet
                     (packet_request action pending p) (chosen_model (sf_model sf)) ''ask'' (sf_queue sf)\<rparr>)))"

definition note_resolution :: "string \<Rightarrow> string option \<Rightarrow> string \<Rightarrow> session_files \<Rightarrow> session_files" where
  "note_resolution action run_id detail sf =
     sf\<lparr>sf_queue := (sf_queue sf)\<lparr>q_messages := q_messages (sf_queue sf) @
          [(sf_session sf, \<lparr>m_role = ''assistant'',
             m_content = ''Decision resolved ('' @ action @ ''): '' @ detail, m_run = run_id\<rparr>)]\<rparr>\<rparr>"

definition resolve_decision ::
    "string \<Rightarrow> string \<Rightarrow> decision_action \<Rightarrow> session_files \<Rightarrow> resolve_response res \<times> session_files" where
  "resolve_decision now rid action sf =
     (case load_pending_decision sf of
        None \<Rightarrow> (Inl (HTTPError 404 ''No pending decision''), sf)
      | Some pending \<Rightarrow>
          (let options = dget pending ''options'' (JList []); name = action_text action
           in case offered name options of
                Inl e \<Rightarrow> (Inl e, sf)
              | Inr False \<Rightarrow>
                  (Inl (HTTPError 400 (''Action '' @ quoted name @ '' is not offered (options: ''
                          @ py_str options @ '')'')), sf)
              | Inr True \<Rightarrow>
                  (case decision_branch now rid action pending (dget pending ''payload'' (JObj []))
                          (clear_pending_decision sf) of
                     (Inl e, sf') \<Rightarrow> (Inl e, sf')
                   | (Inr (run_id, detail), sf') \<Rightarrow>
                       (Inr \<lparr>rs_action = name, rs_session = sf_session sf, rs_run = run_id, rs_detail = detail\<rparr>,
                        note_resolution name run_id detail (save_resolution now run_id name sf')))))"


section \<open>Lemmas\<close>

lemma load_clear [simp]: "load_pending_decision (clear_pending_decision sf) = None"
  by (simp add: load_pending_decision_def clear_pending_decision_def)

lemma load_save [simp]:
  "load_pending_decision (snd (save_pending_decision now d sf)) = Some (fst (save_pending_decision now d sf))"
  by (simp add: save_pending_decision_def load_pending_decision_def Let_def)

lemma load_pending_cong: "sf_pending sf = sf_pending sf' \<Longrightarrow> load_pending_decision sf = load_pending_decision sf'"
  by (simp add: load_pending_decision_def)

lemma branch_pending:
  "decision_branch now rid action pending payload sf = (r, sf') \<Longrightarrow>
     sf_pending sf' = sf_pending sf \<and> sf_session sf' = sf_session sf"
  by (auto simp: decision_branch_def set_plan_approval_state_def Let_def
      split: decision_action.splits sum.splits if_splits option.splits json.splits)

lemma approval_queue [simp]: "sf_queue (set_plan_approval_state state sf) = sf_queue sf"
  by (simp add: set_plan_approval_state_def split: option.splits json.splits)

text \<open>What a branch adds to the queue: nothing, or one item for the run it reports.\<close>

lemma branch_items:
  assumes "decision_branch now rid action pending payload sf = (r, sf')"
  shows "case r of
      Inl e \<Rightarrow> sf_queue sf' = sf_queue sf
    | Inr (None, _) \<Rightarrow> sf_queue sf' = sf_queue sf
    | Inr (Some i, _) \<Rightarrow> i = rid \<and> item_ids (q_items (sf_queue sf')) = item_ids (q_items (sf_queue sf)) @ [rid]"
  using assms
  by (auto simp: decision_branch_def Let_def enqueue_def enqueue_packet_def put_item_def
      split: decision_action.splits sum.splits if_splits)

lemma resolve_decision_Inr:
  assumes "resolve_decision now rid action sf = (Inr resp, sf')"
  obtains pending run_id detail sf1 where "load_pending_decision sf = Some pending"
    and "offered (action_text action) (dget pending ''options'' (JList [])) = Inr True"
    and "decision_branch now rid action pending (dget pending ''payload'' (JObj [])) (clear_pending_decision sf)
           = (Inr (run_id, detail), sf1)"
    and "resp = \<lparr>rs_action = action_text action, rs_session = sf_session sf, rs_run = run_id, rs_detail = detail\<rparr>"
    and "sf' = note_resolution (action_text action) run_id detail
                 (save_resolution now run_id (action_text action) sf1)"
  using assms
  by (auto simp: resolve_decision_def Let_def split: option.splits sum.splits bool.splits prod.splits)

section \<open>Properties\<close>


abbreviation demo_files :: "string list \<Rightarrow> session_files" where
  "demo_files options \<equiv> \<lparr>sf_session = ''s'',
     sf_pending = Some (JObj [(''type'', JStr ''review''), (''title'', JStr ''t''),
       (''options'', JList (map JStr options)), (''payload'', JObj [])]),
     sf_resolution = None, sf_plan = None, sf_chat_mode = ''build'', sf_model = [], sf_queue = demo_queue\<rparr>"


text \<open>
  The pending file is cleared before the follow-up is built, so a resolution that is
  offered but cannot be carried out destroys the decision: an \<open>apply_fix\<close> without a stored packet is
  answered 422, no run starts, no resolution is recorded, and the user can no longer choose another
  option.
\<close>

lemma failed_resolution_loses_decision:
  assumes "load_pending_decision sf = Some pending"
    and "offered ''apply_fix'' (dget pending ''options'' (JList [])) = Inr True"
    and "dget pending ''payload'' (JObj []) = JObj payload"
    and "\<nexists>f fs. dget payload ''milestone'' JNull = JObj (f # fs)"
  shows "\<exists>msg sf'. resolve_decision now rid ApplyFix sf = (Inl (HTTPError 422 msg), sf') \<and>
     sf_queue sf' = sf_queue sf \<and> sf_resolution sf' = sf_resolution sf \<and>
     resolve_decision now' rid' Dismiss sf' = (Inl (HTTPError 404 ''No pending decision''), sf')"
proof -
  have p: "packet_for_action ApplyFix payload =
      Inl (HTTPError 422 ''This decision carries no stored fix packet to apply.'')"
    using assms(4) by (auto simp: packet_for_action_def Let_def split: json.splits list.splits)
  have b: "decision_branch now rid ApplyFix pending (JObj payload) (clear_pending_decision sf) =
      (Inl (HTTPError 422 ''This decision carries no stored fix packet to apply.''), clear_pending_decision sf)"
    by (simp add: decision_branch_def p)
  have r: "resolve_decision now rid ApplyFix sf =
      (Inl (HTTPError 422 ''This decision carries no stored fix packet to apply.''), clear_pending_decision sf)"
    using assms(1-3) by (simp add: resolve_decision_def Let_def b)
  have n: "resolve_decision now' rid' Dismiss (clear_pending_decision sf) =
      (Inl (HTTPError 404 ''No pending decision''), clear_pending_decision sf)"
    by (simp add: resolve_decision_def)
  show ?thesis
    by (rule exI, rule exI [of _ "clear_pending_decision sf"], intro conjI, rule r)
       (simp_all add: n, simp_all add: clear_pending_decision_def)
qed

end
