(* ===== verification/ToolContracts.thy ===== *)
theory ToolContracts
  imports PyJson
begin

text \<open>
  \<open>src/tools/tool_contracts.py\<close>: the argument schemas of the worker's tools, the alias table for
  argument names models tend to guess, and the validation that turns a malformed call into an error
  result the model can act on.
\<close>

section \<open>Schemas\<close>

text \<open>The types that occur in the schemas; \<open>isinstance\<close> treats a bool as an int, the code does not.\<close>

datatype arg_type = StrT | IntT | BoolT | ListT

fun type_name :: "arg_type \<Rightarrow> string" where
  "type_name StrT = ''str''"
| "type_name IntT = ''int''"
| "type_name BoolT = ''bool''"
| "type_name ListT = ''list''"

fun has_type :: "arg_type \<Rightarrow> json \<Rightarrow> bool" where
  "has_type StrT (JStr _) = True"
| "has_type IntT (JInt _) = True"
| "has_type BoolT (JBool _) = True"
| "has_type ListT (JList _) = True"
| "has_type _ _ = False"

fun json_type_name :: "json \<Rightarrow> string" where
  "json_type_name JNull = ''NoneType''"
| "json_type_name (JBool _) = ''bool''"
| "json_type_name (JInt _) = ''int''"
| "json_type_name (JFloat _) = ''float''"
| "json_type_name (JStr _) = ''str''"
| "json_type_name (JList _) = ''list''"
| "json_type_name (JObj _) = ''dict''"

record schema =
  required :: "(string \<times> arg_type) list"
  optional :: "(string \<times> arg_type) list"

definition schema_of :: "(string \<times> arg_type) list \<Rightarrow> (string \<times> arg_type) list \<Rightarrow> schema" where
  "schema_of req opt = \<lparr>required = req, optional = opt\<rparr>"

definition tool_schemas :: "(string \<times> schema) list" where
  "tool_schemas =
    [(''read_file'', schema_of [(''file_path'', StrT)] [(''offset'', IntT), (''limit'', IntT)]),
     (''write_file'', schema_of [(''file_path'', StrT), (''content'', StrT)] [(''rewrite'', BoolT)]),
     (''patch_file'',
        schema_of [(''file_path'', StrT), (''search_string'', StrT), (''replace_string'', StrT)] []),
     (''list_directory'', schema_of [] [(''target_dir'', StrT), (''max_depth'', IntT)]),
     (''search_grep'', schema_of [(''query'', StrT)] [(''target_dir'', StrT), (''max_results'', IntT)]),
     (''run_pytest'', schema_of [(''test_path'', StrT)] [(''extra_args'', StrT)]),
     (''run_linter'', schema_of [(''target_path'', StrT)] [(''tool'', StrT), (''extra_args'', StrT)]),
     (''install_dependency'', schema_of [(''package_name'', StrT)] []),
     (''uninstall_dependency'', schema_of [(''package_name'', StrT)] []),
     (''run_shellscript'', schema_of [(''script'', StrT)] [(''timeout'', IntT), (''profile'', StrT)]),
     (''git_commit'', schema_of [(''message'', StrT)] [(''stage_paths'', ListT)]),
     (''git_diff'', schema_of [] []),
     (''view_git_log'', schema_of [] [(''limit'', IntT)]),
     (''search_tools'', schema_of [(''query'', StrT)] [(''limit'', IntT)]),
     (''project_info'', schema_of [] [(''max_entries'', IntT)]),
     (''probe_dependency'', schema_of [(''package_name'', StrT)] []),
     (''run_checks'', schema_of []
        [(''ecosystem'', StrT), (''checks'', ListT), (''target'', StrT), (''args'', ListT), (''timeout'', IntT)]),
     (''serve_app'', schema_of [(''action'', StrT)]
        [(''kind'', StrT), (''port'', IntT), (''app_path'', StrT), (''entry_point'', StrT), (''module'', StrT),
         (''command'', ListT), (''server_id'', StrT), (''ready_url'', StrT), (''timeout'', IntT)]),
     (''inspect_ui'', schema_of [(''server_id'', StrT)]
        [(''action'', StrT), (''path'', StrT), (''text'', StrT), (''selector'', StrT), (''value'', StrT),
         (''steps'', ListT)])]"

definition arg_aliases :: "(string \<times> (string \<times> string) list) list" where
  "arg_aliases =
    [(''list_directory'',
        [(''path'', ''target_dir''), (''dir'', ''target_dir''), (''directory'', ''target_dir''),
         (''depth'', ''max_depth'')]),
     (''read_file'',
        [(''path'', ''file_path''), (''file'', ''file_path''), (''filename'', ''file_path''),
         (''start_line'', ''offset''), (''start'', ''offset''), (''num_lines'', ''limit''),
         (''max_lines'', ''limit'')]),
     (''search_grep'',
        [(''path'', ''target_dir''), (''dir'', ''target_dir''), (''pattern'', ''query''),
         (''text'', ''query''), (''keyword'', ''query''), (''regex'', ''query'')]),
     (''write_file'', [(''path'', ''file_path''), (''file'', ''file_path'')]),
     (''patch_file'', [(''path'', ''file_path''), (''file'', ''file_path'')]),
     (''run_shellscript'', [(''command'', ''script''), (''cmd'', ''script'')])]"

section \<open>Normalisation\<close>

text \<open>\<open>d[canonical] = d.pop(alias)\<close>.\<close>

definition move_key :: "string \<times> string \<Rightarrow> obj \<Rightarrow> obj" where
  "move_key ac d =
     (case map_of d (fst ac) of
        Some v \<Rightarrow>
          if map_of d (snd ac) = None then AList.update (snd ac) v (AList.delete (fst ac) d) else d
      | None \<Rightarrow> d)"

definition aliases_of :: "string \<Rightarrow> (string \<times> string) list" where
  "aliases_of tool_name = dget arg_aliases tool_name []"

definition normalize_tool_args :: "string \<Rightarrow> json \<Rightarrow> json" where
  "normalize_tool_args tool_name args =
     (case args of
        JObj d \<Rightarrow> if aliases_of tool_name = [] then args else JObj (fold move_key (aliases_of tool_name) d)
      | _ \<Rightarrow> args)"

section \<open>Validation\<close>

definition call_error :: "string \<Rightarrow> string \<Rightarrow> obj" where
  "call_error category msg =
     [(''success'', JBool False), (''error_category'', JStr category), (''error'', JStr msg)]"

text \<open>\<open>sorted(...)\<close> of distinct strings.\<close>

definition type_errors :: "schema \<Rightarrow> obj \<Rightarrow> string list" where
  "type_errors sch args =
     concat (map (\<lambda>(name, expected).
       case map_of args name of
         None \<Rightarrow> []
       | Some value \<Rightarrow>
           if has_type expected value then []
           else [name @ '' must be '' @ type_name expected @ '', got '' @ json_type_name value])
       (required sch @ optional sch))"

definition arg_names :: "schema \<Rightarrow> string list" where
  "arg_names sch = map fst (required sch @ optional sch)"

definition validate_args :: "string \<Rightarrow> schema \<Rightarrow> obj \<Rightarrow> obj option" where
  "validate_args tool_name sch args =
     (let missing = py_sorted_set (filter (\<lambda>n. map_of args n = None) (map fst (required sch)));
          unexpected = py_sorted_set (filter (\<lambda>n. n \<notin> set (arg_names sch)) (map fst args))
      in if missing \<noteq> [] then
           Some (call_error ''invalid_arguments''
             (''Missing required argument(s) for '' @ quoted tool_name @ '': '' @ repr_strs missing @ ''.''))
         else if unexpected \<noteq> [] then
           Some (call_error ''invalid_arguments''
             (''Unexpected argument(s) for '' @ quoted tool_name @ '': '' @ repr_strs unexpected
              @ ''. Expected keys: '' @ repr_strs (py_sorted_set (arg_names sch)) @ ''.''))
         else if type_errors sch args \<noteq> [] then
           Some (call_error ''invalid_arguments''
             (''Invalid arguments for '' @ quoted tool_name @ '': '' @ py_join ''; '' (type_errors sch args) @ ''.''))
         else if tool_name = ''search_tools'' \<and>
                 \<not> (case dget args ''limit'' (JInt 3) of JInt i \<Rightarrow> 1 \<le> i \<and> i \<le> 5 | _ \<Rightarrow> False)
         then Some (call_error ''invalid_arguments''
                ('''' @ quoted ''limit'' @ '' for search_tools must be between 1 and 5.''))
         else None)"

definition validate_tool_call :: "json \<Rightarrow> json \<Rightarrow> string list option \<Rightarrow> obj option" where
  "validate_tool_call tool args active =
     (case tool of
        JStr tool_name \<Rightarrow>
          if py_strip tool_name = [] then
            Some (call_error ''invalid_tool_name'' (''The '' @ quoted ''tool'' @ '' field must be a non-empty string.''))
          else (case args of
            JObj d \<Rightarrow>
              (case map_of tool_schemas tool_name of
                 None \<Rightarrow>
                   Some (call_error ''unknown_tool''
                     (''Unknown tool '' @ quoted tool_name @ ''. Known tools: ''
                      @ repr_strs (py_sorted_set (map fst tool_schemas))
                      @ ''. Use search_tools when the required capability is not listed.''))
               | Some sch \<Rightarrow>
                   (case active of
                      Some names \<Rightarrow>
                        if tool_name \<notin> set names
                        then Some (call_error ''tool_not_available''
                               (''Tool '' @ quoted tool_name @ '' exists but is not currently available. Currently available: ''
                                @ repr_strs (py_sorted_set names)
                                @ ''. Use search_tools to discover another capability.''))
                        else validate_args tool_name sch d
                    | None \<Rightarrow> validate_args tool_name sch d))
          | _ \<Rightarrow> Some (call_error ''invalid_arguments''
                   (''Arguments for '' @ quoted tool_name @ '' must be a JSON object.'')))
      | _ \<Rightarrow> Some (call_error ''invalid_tool_name'' (''The '' @ quoted ''tool'' @ '' field must be a non-empty string.'')))"

section \<open>Lemmas\<close>

text \<open>What a valid call has: every required argument, no other names, the declared types.\<close>

definition well_typed :: "schema \<Rightarrow> obj \<Rightarrow> bool" where
  "well_typed sch d \<longleftrightarrow>
     (\<forall>(n, t)\<in>set (required sch). \<exists>v. map_of d n = Some v \<and> has_type t v) \<and>
     (\<forall>(n, t)\<in>set (optional sch). \<forall>v. map_of d n = Some v \<longrightarrow> has_type t v) \<and>
     set (map fst d) \<subseteq> set (arg_names sch)"

lemma type_errors_Nil:
  "type_errors sch d = [] \<longleftrightarrow>
     (\<forall>(n, t)\<in>set (required sch @ optional sch). \<forall>v. map_of d n = Some v \<longrightarrow> has_type t v)"
  by (auto simp: type_errors_def split: option.splits if_splits) fastforce+

lemma validate_args_None:
  "validate_args tool sch d = None \<Longrightarrow> well_typed sch d"
  by (auto simp: validate_args_def Let_def well_typed_def type_errors_Nil filter_empty_conv
      split: if_splits) fastforce+

text \<open>Moving keys away from alias names: once done, doing it again changes nothing.\<close>

definition alias_stuck :: "(string \<times> string) \<Rightarrow> obj \<Rightarrow> bool" where
  "alias_stuck ac d \<longleftrightarrow> map_of d (fst ac) = None \<or> map_of d (snd ac) \<noteq> None"

lemma move_key_stuck: "alias_stuck ac d \<Longrightarrow> move_key ac d = d"
  by (auto simp: alias_stuck_def move_key_def split: option.splits)

lemma map_of_delete: "map_of (AList.delete k d) x = (if x = k then None else map_of d x)"
  by (simp add: delete_conv')

lemma map_of_move_key:
  "map_of (move_key ac d) x =
     (if map_of d (fst ac) \<noteq> None \<and> map_of d (snd ac) = None
      then (if x = snd ac then map_of d (fst ac) else if x = fst ac then None else map_of d x)
      else map_of d x)"
  by (auto simp: move_key_def map_of_delete split: option.splits)

lemma move_key_makes_stuck: "fst ac \<noteq> snd ac \<Longrightarrow> alias_stuck ac (move_key ac d)"
  by (auto simp: alias_stuck_def map_of_move_key)

lemma move_key_keeps_stuck:
  assumes "alias_stuck bc d" and "snd ac \<noteq> fst bc" and "fst ac \<noteq> snd bc"
  shows "alias_stuck bc (move_key ac d)"
  using assms by (auto simp: alias_stuck_def map_of_move_key)

definition alias_table_ok :: "(string \<times> string) list \<Rightarrow> bool" where
  "alias_table_ok als \<longleftrightarrow> set (map fst als) \<inter> set (map snd als) = {}"

lemma fold_move_key_stuck:
  assumes "alias_table_ok (als @ bls)" and "\<forall>b\<in>set bls. alias_stuck b d"
  shows "\<forall>b\<in>set (als @ bls). alias_stuck b (fold move_key als d)"
  using assms
proof (induction als arbitrary: bls d)
  case (Cons a als)
  have ok: "fst a \<noteq> snd a" "\<forall>b\<in>set bls. snd a \<noteq> fst b \<and> fst a \<noteq> snd b"
    using Cons.prems(1) by (auto simp: alias_table_ok_def)
  have "\<forall>b\<in>set (bls @ [a]). alias_stuck b (move_key a d)"
    using Cons.prems(2) ok move_key_makes_stuck move_key_keeps_stuck by auto
  moreover have "alias_table_ok (als @ bls @ [a])"
    using Cons.prems(1) by (auto simp: alias_table_ok_def)
  ultimately have "\<forall>b\<in>set (als @ bls @ [a]). alias_stuck b (fold move_key als (move_key a d))"
    by (rule Cons.IH [rotated])
  then show ?case by auto
qed simp

lemma fold_move_key_id: "\<forall>a\<in>set als. alias_stuck a d \<Longrightarrow> fold move_key als d = d"
  by (induction als arbitrary: d) (auto simp: move_key_stuck)

lemma aliases_ok: "alias_table_ok (aliases_of t)"
proof (cases "map_of arg_aliases t")
  case None
  then show ?thesis by (simp add: aliases_of_def dget_def alias_table_ok_def)
next
  case (Some als)
  have all: "\<forall>x\<in>set arg_aliases. set (map fst (snd x)) \<inter> set (map snd (snd x)) = {}"
    by code_simp
  have "(t, als) \<in> set arg_aliases" using Some by (rule map_of_SomeD)
  from bspec [OF all this] have "set (map fst als) \<inter> set (map snd als) = {}" by (simp only: snd_conv)
  then show ?thesis by (simp only: aliases_of_def dget_def Some option.case alias_table_ok_def)
qed

lemma normalize_tool_args_idem:
  "normalize_tool_args t (normalize_tool_args t args) = normalize_tool_args t args"
proof (cases args)
  case (JObj d)
  have "\<forall>b\<in>set (aliases_of t @ []). alias_stuck b (fold move_key (aliases_of t) d)"
    by (rule fold_move_key_stuck) (simp_all add: aliases_ok)
  then have "fold move_key (aliases_of t) (fold move_key (aliases_of t) d) = fold move_key (aliases_of t) d"
    by (intro fold_move_key_id) simp
  then show ?thesis by (simp add: normalize_tool_args_def JObj)
qed (simp_all add: normalize_tool_args_def)

text \<open>An argument given under its canonical name is never replaced.\<close>

lemma move_key_canonical:
  "map_of d k = Some v \<Longrightarrow> fst ac \<noteq> k \<Longrightarrow> map_of (move_key ac d) k = Some v"
  by (auto simp: map_of_move_key)

lemma fold_move_key_canonical:
  "map_of d k = Some v \<Longrightarrow> k \<notin> set (map fst als) \<Longrightarrow> map_of (fold move_key als d) k = Some v"
  by (induction als arbitrary: d) (auto simp: move_key_canonical)

section \<open>Properties\<close>

text \<open>
  Property C35. A call that passes validation can be bound: its tool is known (and offered, when the
  offer is restricted), its arguments are an object with every required key, no key outside the
  schema, and values of the declared JSON types. Renaming aliased arguments first is idempotent and
  never replaces an argument given under its canonical name.
\<close>

theorem validated_call_well_typed:
  assumes "validate_tool_call tool (normalize_tool_args name args) active = None" and "tool = JStr name"
  shows "\<exists>sch d. map_of tool_schemas name = Some sch \<and> normalize_tool_args name args = JObj d \<and>
     well_typed sch d \<and> (\<forall>names. active = Some names \<longrightarrow> name \<in> set names) \<and>
     normalize_tool_args name (JObj d) = JObj d \<and>
     (\<forall>d0 k v. args = JObj d0 \<longrightarrow> map_of d0 k = Some v \<longrightarrow> k \<notin> set (map fst (aliases_of name)) \<longrightarrow>
        map_of d k = Some v)"
proof -
  obtain sch d where sch: "map_of tool_schemas name = Some sch"
    and d: "normalize_tool_args name args = JObj d" and v: "validate_args name sch d = None"
    and act: "\<forall>names. active = Some names \<longrightarrow> name \<in> set names"
    using assms by (auto simp: validate_tool_call_def split: json.splits if_splits option.splits)
  have "normalize_tool_args name (JObj d) = JObj d" using normalize_tool_args_idem [of name args] d by simp
  moreover have "map_of d k = Some v"
    if "args = JObj d0" "map_of d0 k = Some v" "k \<notin> set (map fst (aliases_of name))" for d0 k v
    using d that fold_move_key_canonical [OF that(2,3)]
    by (auto simp: normalize_tool_args_def split: if_splits)
  ultimately show ?thesis using sch d act validate_args_None [OF v] by blast
qed

lemma validated_call_well_typed_witness:
  "\<exists>sch d. map_of tool_schemas ''read_file'' = Some sch \<and> well_typed sch d \<and>
     normalize_tool_args ''read_file'' (JObj [(''path'', JStr ''a.py''), (''start'', JInt 3)]) = JObj d"
proof -
  have "validate_tool_call (JStr ''read_file'')
      (normalize_tool_args ''read_file'' (JObj [(''path'', JStr ''a.py''), (''start'', JInt 3)]))
      (Some [''read_file'', ''write_file'']) = None" by code_simp
  from validated_call_well_typed [OF this refl] show ?thesis by blast
qed

end
