(* ===== verification/FileOps.thy ===== *)
theory FileOps
  imports PyJson Paths
begin

text \<open>
  \<open>src/tools/file_ops.py\<close>: the file tools and the write policy of a milestone. The file system is a
  finite map from resolved paths to files and directories. What the operating system decides is in a
  record \<open>fs_env\<close>: \<open>Path.resolve\<close>, which paths it denies access to, and the texts of its errors.
\<close>

section \<open>Files\<close>

text \<open>A file that decodes as UTF-8, one that does not, a directory.\<close>

datatype node = FText string | FBinary | FDir

type_synonym fs = "(ppath \<times> node) list"

record fs_env =
  e_resolve :: "ppath \<Rightarrow> ppath"
  e_denied :: "ppath \<Rightarrow> bool"
  e_os_text :: "ppath \<Rightarrow> string"

text \<open>Text mode reading turns every CR LF and CR into LF.\<close>

fun universal_newlines :: "string \<Rightarrow> string" where
  "universal_newlines [] = []"
| "universal_newlines [c] = (if c = CHR 0x0D then [nl] else [c])"
| "universal_newlines (c # d # cs) =
     (if c = CHR 0x0D then (if d = nl then nl # universal_newlines cs else nl # universal_newlines (d # cs))
      else c # universal_newlines (d # cs))"

definition read_text :: "fs_env \<Rightarrow> fs \<Rightarrow> ppath \<Rightarrow> string res" where
  "read_text env fs p =
     (case map_of fs p of
        Some (FText raw) \<Rightarrow> if e_denied env p then Inl OSError else Inr (universal_newlines raw)
      | Some FBinary \<Rightarrow> if e_denied env p then Inl OSError else Inl (ValueError (e_os_text env p))
      | _ \<Rightarrow> Inl OSError)"

definition exc_text :: "fs_env \<Rightarrow> ppath \<Rightarrow> pyexn \<Rightarrow> string" where
  "exc_text env p e = (case e of ValueError m \<Rightarrow> m | _ \<Rightarrow> e_os_text env p)"

definition ancestors :: "ppath \<Rightarrow> ppath list" where
  "ancestors p = map (\<lambda>k. p\<lparr>p_parts := take k (p_parts p)\<rparr>) [0..<length (p_parts p)]"

text \<open>\<open>parent.mkdir(parents=True, exist_ok=True)\<close>, then \<open>write_text\<close>.\<close>

definition make_dirs :: "ppath list \<Rightarrow> fs \<Rightarrow> fs res" where
  "make_dirs ps fs =
     foldR (\<lambda>fs d. case map_of fs d of
                     None \<Rightarrow> Inr (AList.update d FDir fs)
                   | Some FDir \<Rightarrow> Inr fs
                   | Some _ \<Rightarrow> Inl OSError) fs ps"

definition write_text :: "fs_env \<Rightarrow> ppath \<Rightarrow> string \<Rightarrow> fs \<Rightarrow> fs res" where
  "write_text env p content fs =
     (if e_denied env p \<or> map_of fs p = Some FDir then Inl OSError
      else Inr (AList.update p (FText content) fs))"

definition is_file_node :: "node option \<Rightarrow> bool" where
  "is_file_node n = (case n of Some (FText _) \<Rightarrow> True | Some FBinary \<Rightarrow> True | _ \<Rightarrow> False)"

definition utf8_length :: "string \<Rightarrow> int" where
  "utf8_length s = sum_list (map (\<lambda>c. if ord c < 128 then 1 else 2) s)"

section \<open>Module state\<close>

record tool_state =
  ts_fs :: fs
  ts_root :: ppath
  ts_read_only :: bool                 \<comment> \<open>the sandbox context has a read-only workspace\<close>
  ts_test_edits :: bool                \<comment> \<open>\<open>_ALLOW_TEST_EDITS\<close>\<close>
  ts_new_tests :: "string list"        \<comment> \<open>\<open>_NEW_TEST_PATHS\<close>\<close>
  ts_created :: "string list"          \<comment> \<open>\<open>_CREATED_THIS_MILESTONE\<close>\<close>
  ts_allowed :: "string list option"   \<comment> \<open>\<open>_ALLOWED_WRITE_PATHS\<close>\<close>
  ts_read :: "string list"             \<comment> \<open>\<open>_READ_THIS_MILESTONE\<close>\<close>

definition set_allow_test_edits :: "bool \<Rightarrow> tool_state \<Rightarrow> tool_state" where
  "set_allow_test_edits allowed ts = ts\<lparr>ts_test_edits := allowed\<rparr>"

definition is_test_path :: "string \<Rightarrow> bool" where
  "is_test_path path =
     (starts_with ''tests/'' path \<or> starts_with ''test_'' path \<or> contains ''/test_'' path)"

definition begin_milestone_write_policy ::
    "fs_env \<Rightarrow> string list option \<Rightarrow> bool \<Rightarrow> tool_state \<Rightarrow> tool_state" where
  "begin_milestone_write_policy env allowed_paths allow_new_test_files ts =
     (let allowed = (case allowed_paths of
            Some (p # ps) \<Rightarrow>
              Some (remdups (map normalize_workspace_path (filter (\<lambda>q. py_strip q \<noteq> []) (p # ps))))
          | _ \<Rightarrow> None);
          new_tests = (case allowed of
            Some (a # as) \<Rightarrow>
              if allow_new_test_files
              then filter (\<lambda>q. is_test_path q \<and>
                     map_of (ts_fs ts) (e_resolve env (path_join (e_resolve env (ts_root ts)) (path_of q))) = None)
                     (a # as)
              else []
          | _ \<Rightarrow> [])
      in ts\<lparr>ts_allowed := allowed, ts_read := [], ts_created := [], ts_new_tests := new_tests\<rparr>)"

definition clear_milestone_write_policy :: "tool_state \<Rightarrow> tool_state" where
  "clear_milestone_write_policy ts = ts\<lparr>ts_allowed := None, ts_read := [], ts_new_tests := [], ts_created := []\<rparr>"

definition get_created_files :: "tool_state \<Rightarrow> string list" where
  "get_created_files ts = py_sorted_set (ts_created ts)"

section \<open>Results and guards\<close>

definition tool_fail :: "string \<Rightarrow> obj" where
  "tool_fail msg = [(''success'', JBool False), (''error'', JStr msg)]"

definition succeeded :: "obj \<Rightarrow> bool" where
  "succeeded r = (map_of r ''success'' = Some (JBool True))"

definition test_write_error :: "tool_state \<Rightarrow> string \<Rightarrow> obj option" where
  "test_write_error ts target_rel =
     (if ts_test_edits ts \<or> \<not> is_test_path target_rel then None
      else if target_rel \<in> set (ts_new_tests ts) then None
      else Some (tool_fail
        (''PROTECTED FILE BREACH: Modifying existing acceptance test ('' @ quoted target_rel
         @ '') is forbidden in this milestone. Create or modify an explicitly planned agent-owned test, or fix the implementation.'')))"

definition write_jail_error :: "tool_state \<Rightarrow> string \<Rightarrow> obj option" where
  "write_jail_error ts target_rel =
     (if is_sensitive_path (path_of target_rel)
      then Some (tool_fail ''SENSITIVE FILE DENIED: secret-bearing files are not agent-accessible.'')
      else if ts_read_only ts
      then Some (tool_fail ''WORKSPACE READ ONLY: this session cannot modify project files.'')
      else case ts_allowed ts of
        None \<Rightarrow> None
      | Some allowed \<Rightarrow>
          if target_rel \<in> set allowed then None
          else Some (tool_fail
            (''MILESTONE BOUNDARY BREACH: '' @ quoted target_rel
             @ '' is not in this milestone's target_files. You may ONLY create/edit: ''
             @ repr_strs (py_sorted_set allowed)
             @ ''. Do not add scaffolding or helper files. If the plan itself is wrong, signal blocked and explain why.'')))"

text \<open>\<open>_path_info\<close>: the relative path and the three fields.\<close>

definition rel_path :: "fs_env \<Rightarrow> tool_state \<Rightarrow> ppath \<Rightarrow> string res" where
  "rel_path env ts p =
     (let root = e_resolve env (ts_root ts); a = e_resolve env p
      in if a = root then Inr ''.''
         else case relative_to a root of
           None \<Rightarrow> Inl (ValueError (e_os_text env p))
         | Some r \<Rightarrow> Inr (path_str r))"

definition path_info :: "fs_env \<Rightarrow> tool_state \<Rightarrow> ppath \<Rightarrow> obj res" where
  "path_info env ts p =
     bindR (rel_path env ts p) (\<lambda>rel.
       Inr [(''path'', JStr (path_str (e_resolve env p))), (''workspace_relative_path'', JStr rel),
            (''cwd'', JStr (path_str (e_resolve env (ts_root ts))))])"

section \<open>read_file\<close>

definition add_once :: "string \<Rightarrow> string list \<Rightarrow> string list" where
  "add_once x xs = (if x \<in> set xs then xs else xs @ [x])"

definition window :: "int \<Rightarrow> int option \<Rightarrow> 'a list \<Rightarrow> 'a list" where
  "window start limit lines =
     (let rest = drop (nat (start - 1)) lines
      in case limit of None \<Rightarrow> rest | Some l \<Rightarrow> take (nat (max 0 l)) rest)"

definition read_file ::
    "fs_env \<Rightarrow> string \<Rightarrow> int \<Rightarrow> int option \<Rightarrow> tool_state \<Rightarrow> obj res \<times> tool_state" where
  "read_file env file_path offset limit ts =
     (case resolve_workspace_path (e_resolve env) (ts_root ts) file_path of
        Inl e \<Rightarrow> (Inr (tool_fail (exc_text env (path_of file_path) e)), ts)
      | Inr target \<Rightarrow>
          if is_sensitive_path target
          then (Inr (tool_fail ''SENSITIVE FILE DENIED: this file is not agent-accessible.''), ts)
          else if map_of (ts_fs ts) target = None
          then (bindR (rel_path env ts target) (\<lambda>rel.
                bindR (path_info env ts (ts_root ts)) (\<lambda>info.
                Inr (tool_fail (''File not found: '' @ rel) @ info))), ts)
          else if \<not> is_file_node (map_of (ts_fs ts) target)
          then (Inr (tool_fail (''Path is not a file: '' @ file_path)), ts)
          else case read_text env (ts_fs ts) target of
            Inl e \<Rightarrow> (Inr (tool_fail (exc_text env target e)), ts)
          | Inr content \<Rightarrow>
              (case rel_path env ts target of
                 Inl e \<Rightarrow> (Inr (tool_fail (exc_text env target e)), ts)
               | Inr rel \<Rightarrow>
                   (let lines = split_lines content; start = max 1 offset;
                        selected = window start limit lines;
                        n = int (length selected)
                    in (bindR (path_info env ts target) (\<lambda>info.
                        Inr ([(''success'', JBool True), (''content'', JStr (concat selected)),
                              (''start_line'', JInt start),
                              (''end_line'', JInt (if selected \<noteq> [] then start + n - 1 else start - 1)),
                              (''total_lines'', JInt (int (length lines)))] @ info)),
                        ts\<lparr>ts_read := add_once rel (ts_read ts)\<rparr>))))"

section \<open>write_file\<close>

definition rewrite_min_lines :: nat where "rewrite_min_lines = 60"

definition rewrite_rejected :: "string \<Rightarrow> nat \<Rightarrow> obj" where
  "rewrite_rejected target_rel existing =
     tool_fail (''REWRITE REJECTED: '' @ quoted target_rel @ '' already exists with ''
       @ int_str (int existing) @ '' lines. Full-file rewrites are expensive and error-prone. Either:'' @ [nl]
       @ ''1. read_file it first, then patch_file the specific section, or'' @ [nl]
       @ ''2. read_file it first, then write_file the full content, or'' @ [nl]
       @ ''3. pass \"rewrite\": true if a complete rewrite is truly intended.'')"

text \<open>
  The line count of an existing file: OSError counts as none, a file that does not decode raises past
  the tool.
\<close>

definition existing_lines :: "fs_env \<Rightarrow> fs \<Rightarrow> ppath \<Rightarrow> nat res" where
  "existing_lines env fs target =
     (case read_text env fs target of
        Inr t \<Rightarrow> Inr (length (split_lines t))
      | Inl OSError \<Rightarrow> Inr 0
      | Inl e \<Rightarrow> Inl e)"

definition commit_write ::
    "fs_env \<Rightarrow> ppath \<Rightarrow> string \<Rightarrow> string \<Rightarrow> tool_state \<Rightarrow> obj res \<times> tool_state" where
  "commit_write env target target_rel content ts =
     (let was_new = (map_of (ts_fs ts) target = None)
      in case make_dirs (ancestors target) (ts_fs ts) of
           Inl e \<Rightarrow> (Inr (tool_fail (exc_text env target e)), ts)
         | Inr fs1 \<Rightarrow>
             (case write_text env target content fs1 of
                Inl e \<Rightarrow> (Inr (tool_fail (exc_text env target e)), ts\<lparr>ts_fs := fs1\<rparr>)
              | Inr fs2 \<Rightarrow>
                  (let ts2 = ts\<lparr>ts_fs := fs2,
                                ts_created := (if was_new then add_once target_rel (ts_created ts)
                                               else ts_created ts)\<rparr>
                   in case path_info env ts2 target of
                        Inl e \<Rightarrow> (Inr (tool_fail (exc_text env target e)), ts2)
                      | Inr info \<Rightarrow>
                          (Inr ([(''success'', JBool True),
                                 (''message'', JStr (''Written '' @ int_str (utf8_length content) @ '' bytes to '' @ target_rel)),
                                 (''bytes_written'', JInt (utf8_length content))] @ info), ts2))))"

text \<open>
  The guards \<open>write_file\<close> and \<open>patch_file\<close> start with: the target and its relative path, or the result
  they return at once.
\<close>

definition write_target :: "fs_env \<Rightarrow> string \<Rightarrow> tool_state \<Rightarrow> obj res + (ppath \<times> string)" where
  "write_target env file_path ts =
     (case resolve_workspace_path (e_resolve env) (ts_root ts) file_path of
        Inl e \<Rightarrow> Inl (Inr (tool_fail (exc_text env (path_of file_path) e)))
      | Inr target \<Rightarrow>
          (case rel_path env ts target of
             Inl e \<Rightarrow> Inl (Inl e)
           | Inr target_rel \<Rightarrow>
               (case write_jail_error ts target_rel of
                  Some err \<Rightarrow> Inl (Inr err)
                | None \<Rightarrow>
                    (case test_write_error ts target_rel of
                       Some err \<Rightarrow> Inl (Inr err)
                     | None \<Rightarrow> Inr (target, target_rel)))))"

definition write_file ::
    "fs_env \<Rightarrow> string \<Rightarrow> string \<Rightarrow> bool \<Rightarrow> tool_state \<Rightarrow> obj res \<times> tool_state" where
  "write_file env file_path content rewrite ts =
     (case write_target env file_path ts of
        Inl r \<Rightarrow> (r, ts)
      | Inr (target, target_rel) \<Rightarrow>
          (let probe = map_of (ts_fs ts) target \<noteq> None \<and> \<not> rewrite \<and> target_rel \<notin> set (ts_read ts)
           in case (if probe then existing_lines env (ts_fs ts) target else Inr 0) of
                Inl e \<Rightarrow> (Inl e, ts)
              | Inr n \<Rightarrow>
                  if n > rewrite_min_lines then (Inr (rewrite_rejected target_rel n), ts)
                  else commit_write env target target_rel content ts))"

section \<open>patch_file\<close>

text \<open>\<open>s.count(p)\<close>, without overlaps, and \<open>s.replace(p, q, 1)\<close>.\<close>

fun count_fuel :: "nat \<Rightarrow> string \<Rightarrow> string \<Rightarrow> nat" where
  "count_fuel 0 p s = 0"
| "count_fuel (Suc n) p [] = 0"
| "count_fuel (Suc n) p (c # cs) =
     (if starts_with p (c # cs) then Suc (count_fuel n p (drop (length p) (c # cs)))
      else count_fuel n p cs)"

definition py_count :: "string \<Rightarrow> string \<Rightarrow> nat" where
  "py_count p s = (if p = [] then length s + 1 else count_fuel (length s) p s)"

fun replace_first :: "string \<Rightarrow> string \<Rightarrow> string \<Rightarrow> string" where
  "replace_first p q [] = (if p = [] then q else [])"
| "replace_first p q (c # cs) =
     (if starts_with p (c # cs) then q @ drop (length p) (c # cs) else c # replace_first p q cs)"

definition commit_patch ::
    "fs_env \<Rightarrow> ppath \<Rightarrow> string \<Rightarrow> string \<Rightarrow> tool_state \<Rightarrow> obj res \<times> tool_state" where
  "commit_patch env target target_rel patched ts =
     (case write_text env target patched (ts_fs ts) of
        Inl e \<Rightarrow> (Inr (tool_fail (exc_text env target e)), ts)
      | Inr fs' \<Rightarrow>
          (let ts' = ts\<lparr>ts_fs := fs'\<rparr>
           in case path_info env ts' target of
                Inl e \<Rightarrow> (Inr (tool_fail (exc_text env target e)), ts')
              | Inr info \<Rightarrow>
                  (Inr ([(''success'', JBool True),
                         (''message'', JStr (''Patched '' @ target_rel @ '': replaced 1 occurrence.''))] @ info),
                   ts')))"

definition patch_file ::
    "fs_env \<Rightarrow> string \<Rightarrow> string \<Rightarrow> string \<Rightarrow> tool_state \<Rightarrow> obj res \<times> tool_state" where
  "patch_file env file_path search_string replace_string ts =
     (case write_target env file_path ts of
        Inl r \<Rightarrow> (r, ts)
      | Inr (target, target_rel) \<Rightarrow>
          if map_of (ts_fs ts) target = None
          then (Inr (tool_fail (''File not found: '' @ file_path)), ts)
          else case read_text env (ts_fs ts) target of
            Inl e \<Rightarrow> (Inr (tool_fail (exc_text env target e)), ts)
          | Inr original \<Rightarrow>
              (let n = py_count search_string original
               in if n = 0
                  then (Inr (tool_fail (''search_string not found in '' @ target_rel
                          @ ''. Verify the exact whitespace.'')), ts)
                  else if n > 1
                  then (Inr (tool_fail (''search_string appears '' @ int_str (int n) @ '' times in ''
                          @ target_rel @ ''. Provide more surrounding context to make it unique.'')), ts)
                  else commit_patch env target target_rel
                         (replace_first search_string replace_string original) ts))"

section \<open>list_directory\<close>

definition skip_tree_dirs :: "string list" where
  "skip_tree_dirs =
     [''.git'', ''.hg'', ''.svn'', ''.venv'', ''venv'', ''.tox'', ''__pycache__'', ''node_modules'',
      ''.next'', ''.nuxt'', ''target'', ''dist'', ''build'', ''.pytest_cache'', ''.mypy_cache'',
      ''.ruff_cache'', ''.ipynb_checkpoints'', ''wandb'']"

definition max_tree_chars :: nat where "max_tree_chars = 60000"

text \<open>The entries of a directory, in the order of the sort key \<open>(is_file, name)\<close>.\<close>

definition children :: "fs \<Rightarrow> ppath \<Rightarrow> ppath list" where
  "children fs p =
     filter (\<lambda>q. p_root q = p_root p \<and> p_parts q \<noteq> [] \<and> butlast (p_parts q) = p_parts p)
       (remdups (map fst fs))"

definition is_dir_at :: "fs \<Rightarrow> ppath \<Rightarrow> bool" where
  "is_dir_at fs q = (map_of fs q = Some FDir)"

definition entries :: "fs \<Rightarrow> ppath \<Rightarrow> ppath list" where
  "entries fs p =
     (let es = filter (\<lambda>e. \<not> is_sensitive_path e) (children fs p)
      in sort_key path_name (filter (is_dir_at fs) es) @ sort_key path_name (filter (\<lambda>q. \<not> is_dir_at fs q) es))"

text \<open>
  The box-drawing connectors are written in ASCII. The first argument is the number of levels left;
  the result is the rendered lines and the number of entries counted.
\<close>

primrec walk :: "nat \<Rightarrow> fs_env \<Rightarrow> fs \<Rightarrow> string \<Rightarrow> ppath \<Rightarrow> string list \<times> nat" where
  "walk 0 env fs pre p = ([pre @ ''... (max depth reached)''], 0)"
| "walk (Suc n) env fs pre p =
     (if e_denied env p then ([pre @ ''[permission denied]''], 0)
      else (let es = entries fs p;
                parts = map (\<lambda>(i, e).
                   let last_one = (Suc i = length es); name = path_name e;
                       connector = (if last_one then ''`-- '' else ''|-- '')
                   in if is_dir_at fs e \<and> name \<in> set skip_tree_dirs
                      then ([pre @ connector @ name @ ''/ (contents hidden)''], 1)
                      else if is_dir_at fs e
                      then (case walk n env fs (pre @ (if last_one then ''    '' else ''|   '')) e of
                              (ls, k) \<Rightarrow> ((pre @ connector @ name @ ''/'') # ls, Suc k))
                      else ([pre @ connector @ name], 1)) (enumerate 0 es)
            in (concat (map fst parts), sum_list (map snd parts))))"

definition list_directory :: "fs_env \<Rightarrow> string \<Rightarrow> int \<Rightarrow> tool_state \<Rightarrow> obj res \<times> tool_state" where
  "list_directory env target_dir max_depth ts =
     (case resolve_workspace_path (e_resolve env) (ts_root ts) (if target_dir = [] then ''.'' else target_dir) of
        Inl e \<Rightarrow> (Inr (tool_fail (exc_text env (path_of target_dir) e)), ts)
      | Inr target \<Rightarrow>
          if map_of (ts_fs ts) target = None
          then (Inr (tool_fail (''Directory not found: '' @ target_dir)), ts)
          else if \<not> is_dir_at (ts_fs ts) target
          then (Inr (tool_fail (''Path is not a directory: '' @ target_dir)), ts)
          else
            (bindR (rel_path env ts target) (\<lambda>rel_root.
             bindR (path_info env ts (ts_root ts)) (\<lambda>info.
             let (ls, count) = walk (nat (max_depth + 1)) env (ts_fs ts) [] target;
                 tree0 = (if count > 0 then py_join [nl] ((rel_root @ ''/'') # ls)
                          else rel_root @ ''/'' @ [nl] @ ''(empty)'');
                 truncated = length tree0 > max_tree_chars;
                 tree = (if truncated
                         then take max_tree_chars tree0 @ [nl] @ ''... (tree truncated at 60000 chars; use list_directory on a subdirectory for detail)''
                         else tree0)
             in Inr ([(''success'', JBool True), (''tree'', JStr tree), (''count'', JInt (int count)),
                      (''truncated'', JBool truncated), (''target_dir'', JStr rel_root)] @ info))), ts))"

section \<open>Dispatch\<close>

text \<open>
  \<open>src/tools/__init__.py\<close>. The four file tools are modelled; the others, which start processes, are a
  parameter \<open>other\<close>. Arguments are bound as \<open>fn(**args)\<close> binds them: an unknown or missing name is a
  TypeError. The typed tools above take arguments of the types \<open>validate_tool_call\<close> admits; another
  type ends in an exception of some kind, here TypeError.
\<close>

definition available_tools :: "string list" where
  "available_tools =
     [''read_file'', ''write_file'', ''patch_file'', ''list_directory'', ''search_grep'', ''run_pytest'',
      ''run_linter'', ''git_commit'', ''git_diff'', ''view_git_log'', ''install_dependency'',
      ''uninstall_dependency'', ''run_shellscript'', ''project_info'', ''probe_dependency'', ''run_checks'',
      ''serve_app'', ''inspect_ui'']"

definition path_keys :: "string list" where
  "path_keys = [''file_path'', ''target_dir'', ''target_path'', ''test_path'']"

definition clean_path_key :: "string \<Rightarrow> obj \<Rightarrow> obj" where
  "clean_path_key key d =
     (case map_of d key of
        Some (JStr v) \<Rightarrow>
          (let cleaned = normalize_workspace_path v
           in AList.update key (JStr (if cleaned \<noteq> [] then cleaned else ''.'')) d)
      | _ \<Rightarrow> d)"

definition normalize_dispatch_args :: "string \<Rightarrow> obj \<Rightarrow> obj" where
  "normalize_dispatch_args tool_name args =
     (let d = fold clean_path_key path_keys args
      in if tool_name = ''run_shellscript''
         then (case map_of d ''script'' of
                 Some (JStr script) \<Rightarrow> AList.update ''script'' (JStr (normalize_shell_command script)) d
               | _ \<Rightarrow> d)
         else d)"

definition str_arg :: "obj \<Rightarrow> string \<Rightarrow> string res" where
  "str_arg d k = (case map_of d k of Some (JStr s) \<Rightarrow> Inr s | _ \<Rightarrow> Inl TypeError)"

definition str_arg_or :: "obj \<Rightarrow> string \<Rightarrow> string \<Rightarrow> string res" where
  "str_arg_or d k dflt = (case map_of d k of None \<Rightarrow> Inr dflt | Some (JStr s) \<Rightarrow> Inr s | _ \<Rightarrow> Inl TypeError)"

definition int_arg_or :: "obj \<Rightarrow> string \<Rightarrow> int \<Rightarrow> int res" where
  "int_arg_or d k dflt = (case map_of d k of None \<Rightarrow> Inr dflt | Some (JInt i) \<Rightarrow> Inr i | _ \<Rightarrow> Inl TypeError)"

definition opt_int_arg :: "obj \<Rightarrow> string \<Rightarrow> int option res" where
  "opt_int_arg d k = (case map_of d k of None \<Rightarrow> Inr None | Some JNull \<Rightarrow> Inr None
                      | Some (JInt i) \<Rightarrow> Inr (Some i) | _ \<Rightarrow> Inl TypeError)"

definition bool_arg_or :: "obj \<Rightarrow> string \<Rightarrow> bool \<Rightarrow> bool res" where
  "bool_arg_or d k dflt = (case map_of d k of None \<Rightarrow> Inr dflt | Some (JBool b) \<Rightarrow> Inr b | _ \<Rightarrow> Inl TypeError)"

definition only_keys :: "string list \<Rightarrow> obj \<Rightarrow> unit res" where
  "only_keys ks d = guardR (set (map fst d) \<subseteq> set ks) TypeError"

definition raise_in :: "tool_state \<Rightarrow> (tool_state \<Rightarrow> obj res \<times> tool_state) res \<Rightarrow> obj res \<times> tool_state" where
  "raise_in ts m = (case m of Inl e \<Rightarrow> (Inl e, ts) | Inr f \<Rightarrow> f ts)"

definition file_tool :: "fs_env \<Rightarrow> string \<Rightarrow> obj \<Rightarrow> tool_state \<Rightarrow> obj res \<times> tool_state" where
  "file_tool env name d ts =
     raise_in ts
       (if name = ''read_file'' then
          bindR (only_keys [''file_path'', ''offset'', ''limit''] d) (\<lambda>_.
          bindR (str_arg d ''file_path'') (\<lambda>p. bindR (int_arg_or d ''offset'' 1) (\<lambda>off.
          bindR (opt_int_arg d ''limit'') (\<lambda>lim. Inr (read_file env p off lim)))))
        else if name = ''write_file'' then
          bindR (only_keys [''file_path'', ''content'', ''rewrite''] d) (\<lambda>_.
          bindR (str_arg d ''file_path'') (\<lambda>p. bindR (str_arg d ''content'') (\<lambda>c.
          bindR (bool_arg_or d ''rewrite'' False) (\<lambda>rw. Inr (write_file env p c rw)))))
        else if name = ''patch_file'' then
          bindR (only_keys [''file_path'', ''search_string'', ''replace_string''] d) (\<lambda>_.
          bindR (str_arg d ''file_path'') (\<lambda>p. bindR (str_arg d ''search_string'') (\<lambda>a.
          bindR (str_arg d ''replace_string'') (\<lambda>b. Inr (patch_file env p a b)))))
        else
          bindR (only_keys [''target_dir'', ''max_depth''] d) (\<lambda>_.
          bindR (str_arg_or d ''target_dir'' ''.'') (\<lambda>p. bindR (int_arg_or d ''max_depth'' 6) (\<lambda>m.
          Inr (list_directory env p m)))))"

definition file_tools :: "string list" where
  "file_tools = [''read_file'', ''write_file'', ''patch_file'', ''list_directory'']"

definition dispatch ::
    "fs_env \<Rightarrow> (string \<Rightarrow> obj \<Rightarrow> tool_state \<Rightarrow> obj res \<times> tool_state) \<Rightarrow> string \<Rightarrow> obj \<Rightarrow>
       tool_state \<Rightarrow> obj \<times> tool_state" where
  "dispatch env other tool_name args ts =
     (if tool_name \<notin> set available_tools
      then (tool_fail (''Unknown tool '' @ quoted tool_name @ ''. Available: '' @ repr_strs available_tools), ts)
      else
        (let d = normalize_dispatch_args tool_name args
         in case (if tool_name \<in> set file_tools then file_tool env tool_name d ts else other tool_name d ts) of
              (Inr result, ts') \<Rightarrow> (result, ts')
            | (Inl TypeError, ts') \<Rightarrow>
                (tool_fail (''Bad arguments for '' @ quoted tool_name @ '': '' @ e_os_text env (path_of tool_name)), ts')
            | (Inl e, ts') \<Rightarrow>
                (tool_fail (''Tool '' @ quoted tool_name @ '' raised: '' @ exc_text env (path_of tool_name) e), ts')))"


section \<open>Text lemmas\<close>

lemma window_split: "0 \<le> n \<Longrightarrow> window 1 (Some n) xs @ window (n + 1) None xs = xs"
  by (simp add: window_def)

lemma universal_newlines_no_cr: "CHR 0x0D \<notin> set (universal_newlines s)"
  by (induction s rule: universal_newlines.induct) auto

lemma universal_newlines_id: "CHR 0x0D \<notin> set s \<Longrightarrow> universal_newlines s = s"
  by (induction s rule: universal_newlines.induct) auto

lemma count_fuel_contains:
  assumes "p \<noteq> []" and "length s \<le> n"
  shows "count_fuel n p s = 0 \<longleftrightarrow> \<not> contains p s"
  using assms
proof (induction n p s rule: count_fuel.induct)
  case (3 n p c cs)
  then show ?case by auto
qed auto

text \<open>The first occurrence, and what a single count says about the text after it.\<close>

lemma replace_first_split:
  assumes "contains p s" and "p \<noteq> []"
  shows "\<exists>u v. s = u @ p @ v \<and> replace_first p q s = u @ q @ v \<and>
     (\<forall>u' v'. s = u' @ p @ v' \<longrightarrow> length u \<le> length u')"
  using assms
proof (induction s)
  case (Cons c cs)
  show ?case
  proof (cases "starts_with p (c # cs)")
    case True
    then obtain v where "c # cs = p @ v" by (auto simp: starts_with_prefix prefix_def)
    then have "drop (length p) (c # cs) = v" by simp
    then have "replace_first p q (c # cs) = [] @ q @ v" using True by simp
    moreover have "c # cs = [] @ p @ v" using \<open>c # cs = p @ v\<close> by simp
    ultimately show ?thesis by (metis list.size(3) zero_le)
  next
    case False
    then obtain u v where uv: "cs = u @ p @ v" "replace_first p q cs = u @ q @ v"
      "\<forall>u' v'. cs = u' @ p @ v' \<longrightarrow> length u \<le> length u'"
      using Cons by auto
    have "length (c # u) \<le> length u'" if "c # cs = u' @ p @ v'" for u' v'
    proof (cases u')
      case Nil
      then have "starts_with p (c # cs)" using that by (simp add: starts_with_prefix)
      then show ?thesis using False by simp
    next
      case (Cons d us)
      then show ?thesis using that uv(3) by auto
    qed
    then show ?thesis using uv False by (intro exI [of _ "c # u"] exI [of _ v]) auto
  qed
qed simp

lemma count_one_rest:
  assumes "count_fuel n p s = 1" and "p \<noteq> []" and "length s \<le> n" and "s = u @ p @ v"
    and "\<forall>u' v'. s = u' @ p @ v' \<longrightarrow> length u \<le> length u'"
  shows "\<not> contains p v"
  using assms
proof (induction n p s arbitrary: u rule: count_fuel.induct)
  case (3 n p c cs)
  show ?case
  proof (cases "starts_with p (c # cs)")
    case True
    then obtain w where w: "c # cs = [] @ p @ w" by (auto simp: starts_with_prefix prefix_def)
    with 3(7) have "length u \<le> length ([] :: string)" by blast
    then have "u = []" by simp
    then have "drop (length p) (c # cs) = v" using 3(6) by (metis append_Nil append_eq_conv_conj)
    moreover have "count_fuel n p (drop (length p) (c # cs)) = 0" using 3(3) True by simp
    moreover have "length (drop (length p) (c # cs)) \<le> n" using 3(4,5) by (cases p) auto
    ultimately show ?thesis using count_fuel_contains [OF 3(4)] by metis
  next
    case False
    then have "u \<noteq> []" using 3(6) by (auto simp: starts_with_prefix)
    then obtain us where u: "u = c # us" using 3(6) by (cases u) auto
    have "\<forall>u' v'. cs = u' @ p @ v' \<longrightarrow> length us \<le> length u'"
    proof (intro allI impI)
      fix u' v' assume "cs = u' @ p @ v'"
      then have "c # cs = (c # u') @ p @ v'" by simp
      then have "length u \<le> length (c # u')" using 3(7) by blast
      then show "length us \<le> length u'" using u by simp
    qed
    then show ?thesis using 3(2) [OF False, of us] 3(3-6) False u by simp
  qed
qed auto

lemma patch_text:
  assumes "py_count p s = 1" and "p \<noteq> []"
  shows "\<exists>u v. s = u @ p @ v \<and> replace_first p q s = u @ q @ v \<and> \<not> contains p v \<and>
     (\<forall>u' v'. s = u' @ p @ v' \<longrightarrow> length u \<le> length u')"
proof -
  have c: "count_fuel (length s) p s = 1" using assms by (simp add: py_count_def)
  then have "contains p s" using count_fuel_contains [OF assms(2), of s "length s"] by auto
  from replace_first_split [OF this assms(2), of q]
  show ?thesis using count_one_rest [OF c assms(2) order.refl] by metis
qed

section \<open>What the tools may touch\<close>

definition may_write :: "tool_state \<Rightarrow> string \<Rightarrow> bool" where
  "may_write ts rel \<longleftrightarrow> \<not> is_sensitive_path (path_of rel) \<and> \<not> ts_read_only ts \<and>
     (\<forall>A. ts_allowed ts = Some A \<longrightarrow> rel \<in> set A) \<and>
     (is_test_path rel \<longrightarrow> ts_test_edits ts \<or> rel \<in> set (ts_new_tests ts))"

lemma may_write_guards:
  "write_jail_error ts rel = None \<Longrightarrow> test_write_error ts rel = None \<Longrightarrow> may_write ts rel"
  by (auto simp: write_jail_error_def test_write_error_def may_write_def
      split: if_splits option.splits)

text \<open>A path the tools may change: a permitted file inside the workspace, or a directory above it.\<close>

definition permitted :: "fs_env \<Rightarrow> tool_state \<Rightarrow> ppath \<Rightarrow> bool" where
  "permitted env ts p \<longleftrightarrow>
     (\<exists>t rel. inside (e_resolve env (ts_root ts)) t \<and> rel_path env ts t = Inr rel \<and> may_write ts rel \<and>
        (p = t \<or> p \<in> set (ancestors t)))"

definition same_policy :: "tool_state \<Rightarrow> tool_state \<Rightarrow> bool" where
  "same_policy ts ts' \<longleftrightarrow> ts_root ts' = ts_root ts \<and> ts_read_only ts' = ts_read_only ts \<and>
     ts_test_edits ts' = ts_test_edits ts \<and> ts_new_tests ts' = ts_new_tests ts \<and> ts_allowed ts' = ts_allowed ts"

definition confined :: "fs_env \<Rightarrow> tool_state \<Rightarrow> tool_state \<Rightarrow> bool" where
  "confined env ts ts' \<longleftrightarrow> same_policy ts ts' \<and>
     (\<forall>p. map_of (ts_fs ts') p \<noteq> map_of (ts_fs ts) p \<longrightarrow> permitted env ts p) \<and>
     (\<forall>p. is_dir_at (ts_fs ts) p \<longrightarrow> is_dir_at (ts_fs ts') p) \<and>
     (\<forall>p. map_of (ts_fs ts) p \<noteq> None \<longrightarrow> map_of (ts_fs ts') p \<noteq> None)"

lemma permitted_cong: "same_policy ts ts' \<Longrightarrow> permitted env ts' p = permitted env ts p"
  by (simp add: permitted_def same_policy_def may_write_def rel_path_def)

lemma confined_refl [simp]: "confined env ts ts"
  by (simp add: confined_def same_policy_def)

lemma confined_trans:
  assumes "confined env ts ts1" and "confined env ts1 ts2"
  shows "confined env ts ts2"
proof -
  have "same_policy ts ts1" using assms(1) by (simp add: confined_def)
  note eq = permitted_cong [OF this]
  have "same_policy ts ts2" using assms by (auto simp: confined_def same_policy_def)
  moreover have "permitted env ts p" if "map_of (ts_fs ts2) p \<noteq> map_of (ts_fs ts) p" for p
    using assms that eq by (cases "map_of (ts_fs ts1) p = map_of (ts_fs ts) p") (auto simp: confined_def)
  ultimately show ?thesis using assms by (simp add: confined_def)
qed

lemma confined_no_fs: "ts_fs ts' = ts_fs ts \<Longrightarrow> same_policy ts ts' \<Longrightarrow> confined env ts ts'"
  by (simp add: confined_def)

lemma make_dirs_frame:
  assumes "make_dirs ps fs = Inr fs'"
  shows "map_of fs' p \<noteq> map_of fs p \<Longrightarrow> p \<in> set ps" and "map_of fs p \<noteq> None \<Longrightarrow> map_of fs' p = map_of fs p"
proof -
  have "\<forall>p. (map_of fs' p \<noteq> map_of fs p \<longrightarrow> p \<in> set ps) \<and> (map_of fs p \<noteq> None \<longrightarrow> map_of fs' p = map_of fs p)"
    by (rule foldR_invariant [where P = "\<lambda>g. \<forall>p. (map_of g p \<noteq> map_of fs p \<longrightarrow> p \<in> set ps) \<and>
            (map_of fs p \<noteq> None \<longrightarrow> map_of g p = map_of fs p)", OF assms [unfolded make_dirs_def]])
       (auto split: option.splits node.splits if_splits)
  then show "map_of fs' p \<noteq> map_of fs p \<Longrightarrow> p \<in> set ps"
    and "map_of fs p \<noteq> None \<Longrightarrow> map_of fs' p = map_of fs p" by blast+
qed

lemma write_text_frame:
  "write_text env t c fs = Inr fs' \<Longrightarrow> fs' = AList.update t (FText c) fs \<and> \<not> is_dir_at fs t"
  by (auto simp: write_text_def is_dir_at_def split: if_splits)

lemma commit_write_confined:
  assumes "commit_write env t rel content ts = (r, ts')" and "inside (e_resolve env (ts_root ts)) t"
    and "rel_path env ts t = Inr rel" and "may_write ts rel"
  shows "confined env ts ts'"
proof (cases "make_dirs (ancestors t) (ts_fs ts)")
  case (Inl e)
  then show ?thesis using assms(1) by (simp add: commit_write_def)
next
  case (Inr fs1)
  note frame = make_dirs_frame [OF Inr]
  have perm: "permitted env ts p" if "p = t \<or> p \<in> set (ancestors t)" for p
    using assms(2-4) that by (auto simp: permitted_def)
  show ?thesis
  proof (cases "write_text env t content fs1")
    case (Inl e)
    then have "ts' = ts\<lparr>ts_fs := fs1\<rparr>" using assms(1) Inr by (simp add: commit_write_def)
    then show ?thesis using frame perm
      by (auto simp: confined_def same_policy_def is_dir_at_def)
  next
    case Inr2: (Inr fs2)
    have fs2: "fs2 = AList.update t (FText content) fs1" and nd: "\<not> is_dir_at fs1 t"
      using write_text_frame [OF Inr2] by auto
    have "ts_fs ts' = fs2" "same_policy ts ts'"
      using assms(1) Inr Inr2 by (auto simp: commit_write_def Let_def same_policy_def split: sum.splits)
    moreover have "map_of fs2 p \<noteq> map_of (ts_fs ts) p \<Longrightarrow> permitted env ts p" for p
      using frame(1) perm by (cases "p = t") (auto simp: fs2)
    moreover have "is_dir_at (ts_fs ts) p \<Longrightarrow> is_dir_at fs2 p" for p
      using frame(2) [of p] nd by (auto simp: fs2 is_dir_at_def)
    moreover have "map_of (ts_fs ts) p \<noteq> None \<Longrightarrow> map_of fs2 p \<noteq> None" for p
      using frame(2) [of p] by (auto simp: fs2)
    ultimately show ?thesis by (simp add: confined_def)
  qed
qed

lemma write_target_ok:
  "write_target env p ts = Inr (t, rel) \<Longrightarrow>
     inside (e_resolve env (ts_root ts)) t \<and> rel_path env ts t = Inr rel \<and> may_write ts rel"
  by (auto simp: write_target_def split: sum.splits option.splits
      intro: resolve_workspace_path_inside may_write_guards)

lemma write_file_confined: "write_file env p c rw ts = (r, ts') \<Longrightarrow> confined env ts ts'"
  by (auto simp: write_file_def Let_def split: sum.splits prod.splits if_splits
      dest!: write_target_ok intro: commit_write_confined)

lemma commit_patch_fs:
  "commit_patch env t rel new ts = (r, ts') \<Longrightarrow>
     ts' = ts \<or> (ts' = ts\<lparr>ts_fs := AList.update t (FText new) (ts_fs ts)\<rparr> \<and> \<not> is_dir_at (ts_fs ts) t)"
  by (auto simp: commit_patch_def Let_def split: sum.splits dest!: write_text_frame)

lemma commit_patch_confined:
  assumes "commit_patch env t rel new ts = (r, ts')" and "inside (e_resolve env (ts_root ts)) t"
    and "rel_path env ts t = Inr rel" and "may_write ts rel" and "map_of (ts_fs ts) t \<noteq> None"
  shows "confined env ts ts'"
proof -
  have "permitted env ts t" using assms(2-4) by (auto simp: permitted_def)
  with commit_patch_fs [OF assms(1)] show ?thesis
    by (auto simp: confined_def same_policy_def is_dir_at_def split: if_splits)
qed

lemma patch_file_confined: "patch_file env p a b ts = (r, ts') \<Longrightarrow> confined env ts ts'"
  by (auto simp: patch_file_def Let_def split: sum.splits prod.splits if_splits
      dest!: write_target_ok intro: commit_patch_confined)

lemma read_file_confined: "read_file env p off lim ts = (r, ts') \<Longrightarrow> confined env ts ts'"
  by (auto simp: read_file_def Let_def same_policy_def intro!: confined_no_fs
      split: sum.splits option.splits if_splits)

lemma list_directory_confined: "list_directory env p m ts = (r, ts') \<Longrightarrow> confined env ts ts'"
  by (auto simp: list_directory_def split: sum.splits if_splits)

lemma file_tool_confined: "file_tool env name d ts = (r, ts') \<Longrightarrow> confined env ts ts'"
  by (auto simp: file_tool_def raise_in_def bindR_def split: if_splits sum.splits
      intro: read_file_confined write_file_confined patch_file_confined list_directory_confined)


section \<open>Tools behind a jail\<close>

text \<open>
  What an agent loop relies on when it lets a model call tools: each call keeps a relation between
  the state before and after, and the relation is reflexive and transitive. Then so does any sequence
  of calls, whatever the model decides in between.
\<close>

locale jailed_tools =
  fixes call :: "'c \<Rightarrow> 's \<Rightarrow> 'r \<times> 's"
    and ok :: "'s \<Rightarrow> 's \<Rightarrow> bool"
  assumes ok_refl: "ok s s"
    and ok_trans: "ok s s1 \<Longrightarrow> ok s1 s2 \<Longrightarrow> ok s s2"
    and call_ok: "call c s = (r, s') \<Longrightarrow> ok s s'"
begin

definition run_calls :: "'c list \<Rightarrow> 's \<Rightarrow> 's" where
  "run_calls cs s = foldl (\<lambda>s c. snd (call c s)) s cs"

lemma call_snd: "ok s (snd (call c s))"
  using call_ok by (metis prod.collapse)

lemma run_calls_ok: "ok s (run_calls cs s)"
proof (induction cs arbitrary: s)
  case Nil
  then show ?case by (simp add: run_calls_def ok_refl)
next
  case (Cons c cs)
  have "run_calls (c # cs) s = run_calls cs (snd (call c s))" by (simp add: run_calls_def)
  then show ?case using Cons.IH [of "snd (call c s)"] call_snd ok_trans by metis
qed

text \<open>A conversation: the next call may depend on every result so far.\<close>

primrec converse :: "nat \<Rightarrow> ('r list \<Rightarrow> 'c option) \<Rightarrow> 'r list \<Rightarrow> 's \<Rightarrow> 'r list \<times> 's" where
  "converse 0 model rs s = (rs, s)"
| "converse (Suc n) model rs s =
     (case model rs of
        None \<Rightarrow> (rs, s)
      | Some c \<Rightarrow> (case call c s of (r, s') \<Rightarrow> converse n model (rs @ [r]) s'))"

lemma converse_ok: "ok s (snd (converse n model rs s))"
proof (induction n arbitrary: rs s)
  case 0
  then show ?case by (simp add: ok_refl)
next
  case (Suc n)
  show ?case
  proof (cases "model rs")
    case None
    then show ?thesis by (simp add: ok_refl)
  next
    case (Some c)
    obtain r s' where c: "call c s = (r, s')" by fastforce
    then show ?thesis using Some call_ok [OF c] Suc.IH ok_trans by fastforce
  qed
qed

end

definition file_call :: "fs_env \<Rightarrow> string \<times> obj \<Rightarrow> tool_state \<Rightarrow> obj res \<times> tool_state" where
  "file_call env nd ts = file_tool env (fst nd) (snd nd) ts"

interpretation ft: jailed_tools "file_call env" "confined env" for env
proof
  show "confined env s s" for s by simp
  show "confined env s s1 \<Longrightarrow> confined env s1 s2 \<Longrightarrow> confined env s s2" for s s1 s2
    by (rule confined_trans)
  show "file_call env c s = (r, s') \<Longrightarrow> confined env s s'" for c s r s'
    unfolding file_call_def by (rule file_tool_confined)
qed

lemma dispatch_file_tool:
  assumes "name \<in> set file_tools"
  shows "snd (dispatch env other name args ts) = snd (file_call env (name, normalize_dispatch_args name args) ts)"
proof -
  have "name \<in> set available_tools" using assms by (auto simp: file_tools_def available_tools_def)
  then show ?thesis
    using assms by (auto simp: dispatch_def Let_def file_call_def split: prod.splits sum.splits pyexn.splits)
qed

section \<open>Properties\<close>

abbreviation demo_env :: fs_env where
  "demo_env \<equiv> \<lparr>e_resolve = lexical_resolve, e_denied = (\<lambda>_. False), e_os_text = (\<lambda>_. ''os error'')\<rparr>"

abbreviation demo_tools :: tool_state where
  "demo_tools \<equiv> \<lparr>ts_fs = [(path_of ''/w'', FDir),
       (path_of ''/w/a.py'', FText (''x = 1'' @ [CHR 0x0D, nl] @ ''y = 2'' @ [CHR 0x0D, nl]))],
     ts_root = path_of ''/w'', ts_read_only = False, ts_test_edits = False, ts_new_tests = [],
     ts_created = [], ts_allowed = Some [''a.py'', ''pkg/b.py''], ts_read = []\<rparr>"



text \<open>
  A patch that changes a file replaces the first occurrence of the search text in the text
  that was read, no second occurrence follows it, and no other path changes.
\<close>

lemma patch_replaces_one:
  assumes "patch_file env p a b ts = (r, ts')" and "ts_fs ts' \<noteq> ts_fs ts" and "a \<noteq> []"
  shows "\<exists>t original u v. read_text env (ts_fs ts) t = Inr original \<and> original = u @ a @ v \<and>
     \<not> contains a v \<and> (\<forall>u' v'. original = u' @ a @ v' \<longrightarrow> length u \<le> length u') \<and>
     map_of (ts_fs ts') t = Some (FText (u @ b @ v)) \<and>
     (\<forall>q. q \<noteq> t \<longrightarrow> map_of (ts_fs ts') q = map_of (ts_fs ts) q)"
proof -
  obtain t rel original where o: "read_text env (ts_fs ts) t = Inr original" and n: "py_count a original = 1"
    and c: "commit_patch env t rel (replace_first a b original) ts = (r, ts')"
    using assms(1,2) by (auto simp: patch_file_def Let_def split: sum.splits prod.splits if_splits)
  have ts': "ts' = ts\<lparr>ts_fs := AList.update t (FText (replace_first a b original)) (ts_fs ts)\<rparr>"
    using commit_patch_fs [OF c] assms(2) by auto
  obtain u v where "original = u @ a @ v" "replace_first a b original = u @ b @ v" "\<not> contains a v"
    "\<forall>u' v'. original = u' @ a @ v' \<longrightarrow> length u \<le> length u'"
    using patch_text [OF n assms(3), of b] by blast
  then show ?thesis using o by (intro exI [of _ t] exI [of _ original] exI [of _ u] exI [of _ v]) (simp add: ts')
qed

text \<open>
  But the text that was read is not the text of the file: reading translates line endings
  and writing does not translate them back. A successful patch of a file with CR LF line endings
  rewrites every one of them, so the file differs from the original far from the search text.
\<close>

lemma patch_rewrites_line_endings:
  assumes "patch_file env p a b ts = (r, ts')" and "ts_fs ts' \<noteq> ts_fs ts" and "CHR 0x0D \<notin> set b"
  shows "\<exists>t raw new. map_of (ts_fs ts) t = Some (FText raw) \<and> map_of (ts_fs ts') t = Some (FText new) \<and>
     CHR 0x0D \<notin> set new"
proof -
  obtain t rel original where o: "read_text env (ts_fs ts) t = Inr original"
    and c: "commit_patch env t rel (replace_first a b original) ts = (r, ts')"
    using assms(1,2) by (auto simp: patch_file_def Let_def split: sum.splits prod.splits if_splits)
  have ts': "ts' = ts\<lparr>ts_fs := AList.update t (FText (replace_first a b original)) (ts_fs ts)\<rparr>"
    using commit_patch_fs [OF c] assms(2) by auto
  obtain raw where raw: "map_of (ts_fs ts) t = Some (FText raw)" "original = universal_newlines raw"
    using o by (auto simp: read_text_def split: option.splits node.splits if_splits)
  have "set (replace_first a b s) \<subseteq> set b \<union> set s" for s
    by (induction a b s rule: replace_first.induct) (auto dest: in_set_dropD)
  then have "CHR 0x0D \<notin> set (replace_first a b original)"
    using assms(3) universal_newlines_no_cr [of raw] raw(2) by blast
  then show ?thesis using raw(1) by (intro exI [of _ t]) (simp add: ts')
qed

text \<open>
  Reading a file in windows loses nothing: the window of the first \<open>n\<close> lines and the
  window from line \<open>n + 1\<close> on together are the content a full read returns.
\<close>

lemma read_windows_complete:
  assumes "read_file env p 1 None ts = (Inr r, ts1)" and "succeeded r" and "0 \<le> n"
  shows "\<exists>ra rb c ca cb. fst (read_file env p 1 (Some n) ts) = Inr ra \<and>
     fst (read_file env p (n + 1) None ts) = Inr rb \<and>
     map_of r ''content'' = Some (JStr c) \<and> map_of ra ''content'' = Some (JStr ca) \<and>
     map_of rb ''content'' = Some (JStr cb) \<and> c = ca @ cb"
proof -
  have fail: "\<not> succeeded (tool_fail m)" "\<not> succeeded (tool_fail m @ x)" for m x
    by (simp_all add: succeeded_def tool_fail_def)
  obtain t content rel info nd where t: "resolve_workspace_path (e_resolve env) (ts_root ts) p = Inr t"
      "\<not> is_sensitive_path t" "map_of (ts_fs ts) t = Some nd" "is_file_node (Some nd)"
      "read_text env (ts_fs ts) t = Inr content" "rel_path env ts t = Inr rel" "path_info env ts t = Inr info"
    using assms(1,2) fail
    by (auto simp: read_file_def Let_def split: sum.splits if_splits)
  let ?w = "\<lambda>off lim. concat (window (max 1 off) lim (split_lines content))"
  have read: "\<exists>ra. fst (read_file env p off lim ts) = Inr ra \<and> map_of ra ''content'' = Some (JStr (?w off lim))"
    for off lim
    using t by (simp add: read_file_def Let_def)
  have "?w 1 None = ?w 1 (Some n) @ ?w (n + 1) None"
    using window_split [OF assms(3), of "split_lines content"] assms(3)
    by (simp add: window_def concat_append [symmetric] del: concat_append)
  then show ?thesis using read [of 1 None] read [of 1 "Some n"] read [of "n + 1" None] assms(1) by auto
qed

end
