(* ===== verification/ValidationCompiler.thy ===== *)
theory ValidationCompiler
  imports PyJson PyRegex PyShlex Paths
begin

text \<open>
  \<open>src/agents/validation_compiler.py\<close>, which turns a milestone's intent into an executable contract,
  and \<open>src/sandbox/commands.py\<close>, which turns a contract into an argument vector or a shell script.
  What the file system and the network answer is a record \<open>probe\<close>; the sandbox executor's two entry
  points are parameters.
\<close>

section \<open>Classification\<close>

text \<open>
  File and network probes: \<open>is_file\<close> and \<open>exists\<close> on a path, \<open>st_size\<close>, the text read with
  replacement of undecodable bytes (None for OSError), and whether a local port can be bound.
\<close>

record probe =
  pb_resolve :: "ppath \<Rightarrow> ppath"
  pb_is_file :: "ppath \<Rightarrow> bool"
  pb_exists :: "ppath \<Rightarrow> bool"
  pb_size :: "ppath \<Rightarrow> int"
  pb_text :: "ppath \<Rightarrow> string option"
  pb_port_free :: "int \<Rightarrow> bool"

definition ui_file_suffixes :: "string list" where
  "ui_file_suffixes = [''.html'', ''.htm'', ''.jsx'', ''.tsx'', ''.vue'', ''.svelte'', ''.astro'']"

definition js_suffixes :: "string list" where
  "js_suffixes = [''.js'', ''.jsx'', ''.ts'', ''.tsx'']"

definition max_probe_bytes :: int where "max_probe_bytes = 200000"

definition begin_line :: rx where "begin_line = NotBehind (\<lambda>c. c \<noteq> nl)"
definition end_line :: rx where "end_line = NotAhead (Chars (\<lambda>c. c \<noteq> nl))"

definition streamlit_import_re :: rx where
  "streamlit_import_re =
     seqs [begin_line, Spaces,
       Alt (Seq (lit ''import streamlit'') WordB)
           (Seq (lit ''from streamlit'')
                (Alt (seqs [Spaces1, lit ''import'']) (Seq Spaces end_line)))]"

definition is_quote :: "char \<Rightarrow> bool" where
  "is_quote c = (c = squote \<or> c = dquote)"

definition quoted_text :: parts where
  "quoted_text =
     [(False, Chars is_quote),
      (True, seqs [Chars (\<lambda>c. \<not> is_quote c), Chars (\<lambda>c. \<not> is_quote c), Upto 118 (Chars (\<lambda>c. \<not> is_quote c))]),
      (False, Chars is_quote)]"

definition profile_of :: "obj \<Rightarrow> string" where
  "profile_of milestone =
     (let value = get_norm milestone ''validation_profile'' ''auto''
      in if value \<in> set [''auto'', ''ui'', ''python'', ''lint'', ''structural''] then value else [])"

definition resolve_target :: "probe \<Rightarrow> ppath \<Rightarrow> string \<Rightarrow> ppath option" where
  "resolve_target pb workspace path =
     (let candidate = pb_resolve pb (path_join workspace (path_of path))
      in case relative_to candidate (pb_resolve pb workspace) of
           None \<Rightarrow> None
         | Some _ \<Rightarrow> if pb_is_file pb candidate then Some candidate else None)"

text \<open>\<open>[str(path).strip() for path in ... if str(path).strip()]\<close>.\<close>

definition stripped_strings :: "json list \<Rightarrow> string list" where
  "stripped_strings xs = filter (\<lambda>s. s \<noteq> []) (map (\<lambda>x. py_strip (py_str x)) xs)"

definition target_suffixes :: "string list \<Rightarrow> string list" where
  "target_suffixes targets = map (\<lambda>p. py_lower (path_suffix (path_of p))) targets"

definition streamlit_target :: "probe \<Rightarrow> ppath \<Rightarrow> string \<Rightarrow> bool" where
  "streamlit_target pb ws rel =
     (if \<not> ends_with ''.py'' (py_lower rel) then False
      else case resolve_target pb ws rel of
        None \<Rightarrow> False
      | Some f \<Rightarrow>
          if pb_size pb f > max_probe_bytes then False
          else (case pb_text pb f of None \<Rightarrow> False | Some text \<Rightarrow> rx_search streamlit_import_re text))"

definition classify_validation_target :: "probe \<Rightarrow> ppath \<Rightarrow> obj \<Rightarrow> (string \<times> string) res" where
  "classify_validation_target pb ws milestone =
     bindR (py_iter (dget milestone ''target_files'' (JList []))) (\<lambda>files.
       let targets = stripped_strings files;
           suffixes = target_suffixes targets;
           ui = filter (\<lambda>s. s \<in> set ui_file_suffixes) suffixes;
           js = filter (\<lambda>s. s \<in> set js_suffixes) suffixes
       in if ui \<noteq> []
          then Inr (''ui'', ''UI file suffixes in targets: '' @ repr_strs (py_sorted_set ui))
          else case List.find (streamlit_target pb ws) targets of
            Some rel \<Rightarrow> Inr (''ui'', ''Streamlit import in '' @ rel)
          | None \<Rightarrow>
              if pb_is_file pb (path_join ws (path_of ''package.json'')) \<and> js \<noteq> []
              then Inr (''ui'', ''JS targets in a package.json project: '' @ repr_strs (py_sorted_set js))
              else Inr (''python'', ''no structural UI signals (suffixes, Streamlit imports, manifests)''))"

definition is_ui_milestone :: "probe \<Rightarrow> ppath \<Rightarrow> obj \<Rightarrow> bool res" where
  "is_ui_milestone pb ws milestone =
     bindR (classify_validation_target pb ws milestone) (\<lambda>(profile, _). Inr (profile = ''ui''))"

section \<open>The contract\<close>

definition criteria_of :: "obj \<Rightarrow> string list" where
  "criteria_of milestone =
     (case dget milestone ''acceptance_criteria'' (JList []) of
        JList values \<Rightarrow> stripped_strings values
      | _ \<Rightarrow> [])"

definition assert_text :: "string \<Rightarrow> json" where
  "assert_text text = JObj [(''action'', JStr ''assert_text''), (''text'', JStr text)]"

fun text_checks :: "string list \<Rightarrow> string list \<Rightarrow> json list" where
  "text_checks seen [] = []"
| "text_checks seen (m # ms) =
     (let text = py_strip m
      in if py_lower text \<in> set seen then text_checks seen ms
         else assert_text text # text_checks (py_lower text # seen) ms)"

definition ui_text_checks :: "string list \<Rightarrow> json list" where
  "ui_text_checks criteria = text_checks [] (concat (map (\<lambda>c. concat (rx_all quoted_text c)) criteria))"

definition target_paths :: "obj \<Rightarrow> string list res" where
  "target_paths milestone =
     bindR (py_iter (dget milestone ''target_files'' (JList []))) (\<lambda>files.
       Inr (map (\<lambda>x. normalize_workspace_path (py_str x)) (filter (\<lambda>x. py_strip (py_str x) \<noteq> []) files)))"

definition available_port :: "probe \<Rightarrow> int list \<Rightarrow> int" where
  "available_port pb ports = (case List.find (pb_port_free pb) ports of None \<Rightarrow> 0 | Some p \<Rightarrow> p)"

definition action :: "string \<Rightarrow> json" where
  "action name = JObj [(''action'', JStr name)]"

definition compile_ui :: "probe \<Rightarrow> int list \<Rightarrow> ppath \<Rightarrow> string list \<Rightarrow> string list \<Rightarrow> (obj, string) sum" where
  "compile_ui pb ports ws targets criteria =
     (let html_targets = filter (ends_with ''.html'') targets;
          entry = (case html_targets of [] \<Rightarrow> ''index.html'' | h # _ \<Rightarrow> h);
          port = available_port pb ports
      in if port = 0 then Inr ''no available local port for UI validation''
         else
           (let criteria_text = py_lower (py_join '' '' criteria);
                is_vite = pb_exists pb (path_join ws (path_of ''package.json'')) \<and> html_targets = [];
                is_streamlit = contains ''streamlit'' criteria_text;
                generic = [''python'', ''-m'', ''http.server'', int_str port, ''--bind'', ''127.0.0.1''];
                command_argv = (if is_vite \<or> is_streamlit then [] else generic);
                server = (if is_vite then [(''kind'', JStr ''vite''), (''port'', JInt port)]
                          else if is_streamlit
                          then [(''kind'', JStr ''streamlit''), (''port'', JInt port), (''app_path'', JStr entry)]
                          else [(''kind'', JStr ''generic''), (''port'', JInt port), (''app_path'', JStr entry),
                                (''command'', JList (map JStr generic))]);
                texts = ui_text_checks criteria;
                checks = (if texts = [] then [action ''snapshot''] else texts)
                         @ [action ''accessibility'', action ''audit'', action ''screenshot'']
            in Inl [(''type'', JStr ''ui_smoke''), (''language'', JStr ''html''),
                    (''command'', JStr (sh_join command_argv)), (''serve'', JObj server),
                    (''checks'', JList checks),
                    (''pass_criteria'', JStr ''All acceptance criteria are visibly satisfied by the rendered UI.'')]))"

definition is_test_target :: "string \<Rightarrow> bool" where
  "is_test_target path = (starts_with ''tests/'' path \<or> starts_with ''test_'' (path_name (path_of path)))"

definition pytest_argv :: "string list \<Rightarrow> string list" where
  "pytest_argv targets =
     (let tests = filter is_test_target targets
      in [''python'', ''-m'', ''pytest''] @ (if tests \<noteq> [] then tests else [''tests'']) @ [''-q''])"

definition lint_argv :: "string list \<Rightarrow> string list" where
  "lint_argv targets = [''python'', ''-m'', ''flake8''] @ targets @ [''--max-line-length=120'']"

text \<open>The contract (left) or the compilation error (right).\<close>

definition compile_validation_contract ::
    "probe \<Rightarrow> int list \<Rightarrow> ppath \<Rightarrow> obj \<Rightarrow> (obj, string) sum res" where
  "compile_validation_contract pb ports ws milestone =
     bindR (target_paths milestone) (\<lambda>targets.
       let criteria = criteria_of milestone; profile0 = profile_of milestone
       in if targets = [] then Inr (Inr ''work packet has no target_files'')
          else if criteria = [] then Inr (Inr ''work packet has no acceptance_criteria'')
          else if profile0 = []
          then Inr (Inr ''validation_profile must be one of: auto, ui, python, lint, structural'')
          else
            bindR (if profile0 = ''auto''
                   then bindR (classify_validation_target pb ws milestone) (\<lambda>(p, _). Inr p)
                   else Inr profile0) (\<lambda>profile.
            if profile = ''ui'' then Inr (compile_ui pb ports ws targets criteria)
            else if profile = ''lint''
            then Inr (Inl [(''type'', JStr ''lint''), (''language'', JStr ''python''),
                           (''command'', JStr (sh_join (lint_argv targets))),
                           (''pass_criteria'', JStr ''The target files pass linting.'')])
            else if profile = ''structural''
            then Inr (Inl [(''type'', JStr ''structural''), (''language'', JStr ''generic''),
                           (''command'', JStr []), (''pass_criteria'', JStr (py_join [nl] criteria))])
            else Inr (Inl [(''type'', JStr ''pytest''), (''language'', JStr ''python''),
                           (''command'', JStr (sh_join (pytest_argv targets))),
                           (''pass_criteria'', JStr (py_join [nl] criteria))])))"

section \<open>From contracts to processes\<close>

definition path_char :: "char \<Rightarrow> bool" where
  "path_char c = (is_word c \<or> c = CHR ''/'' \<or> c = CHR ''.'' \<or> c = CHR ''-'')"

definition python3_re :: rx where
  "python3_re = seqs [NotBehind path_char, lit ''python3'', NotAhead (Chars is_word)]"

definition python_re :: rx where
  "python_re = seqs [NotBehind path_char, lit ''python'', NotAhead (Chars is_word)]"

text \<open>
  \<open>canonicalize_shell_script\<close>; the session's interpreter path is the replacement, without characters
  special to \<open>re.sub\<close> templates. None is the case of no active sandbox.
\<close>

definition canonicalize_shell_script :: "string option \<Rightarrow> string \<Rightarrow> string" where
  "canonicalize_shell_script python script =
     (case python of
        None \<Rightarrow> script
      | Some py \<Rightarrow> rx_sub python_re py (rx_sub python3_re py script))"

definition split_args :: "string \<Rightarrow> string list" where
  "split_args arg_string =
     (let s = py_strip arg_string
      in if s = [] then []
         else case sh_split s of Inr ws \<Rightarrow> ws | Inl _ \<Rightarrow> split_ws s)"

text \<open>
  The four command patterns: a head, the first argument, and optionally the rest. The optional tail
  is tried first; a shorter first argument cannot help, as no space can follow it.
\<close>

definition nonspace1 :: rx where "nonspace1 = Plus (Chars (\<lambda>c. \<not> is_space c))"

definition module_head :: "string \<Rightarrow> rx" where
  "module_head m =
     seqs [BeginText, Spaces, lit_ci ''python'', Opt (lit_ci ''3''), Spaces1, lit_ci ''-m'', Spaces1, lit_ci m, Spaces1]"

definition bare_head :: "string \<Rightarrow> rx" where
  "bare_head m = seqs [BeginText, Spaces, lit_ci m, Spaces1]"

definition match_command :: "rx \<Rightarrow> string \<Rightarrow> (string \<times> string) option" where
  "match_command head s =
     (case rx_groups [(False, head), (True, nonspace1), (False, Spaces1),
                      (True, Star (Chars (\<lambda>c. c \<noteq> nl))), (False, EndText)] s of
        Some [t, rest] \<Rightarrow> Some (t, rest)
      | _ \<Rightarrow>
          (case rx_groups [(False, head), (True, nonspace1), (False, EndText)] s of
             Some [t] \<Rightarrow> Some (t, [])
           | _ \<Rightarrow> None))"

definition command_argv :: "string \<Rightarrow> string \<Rightarrow> string list option" where
  "command_argv python normalized =
     (let build = (\<lambda>m (t, rest). [python, ''-m'', m, t] @ split_args rest) in
      case match_command (module_head ''pytest'') normalized of
        Some tr \<Rightarrow> Some (build ''pytest'' tr)
      | None \<Rightarrow>
          (case match_command (bare_head ''pytest'') normalized of
             Some tr \<Rightarrow> Some (build ''pytest'' tr)
           | None \<Rightarrow>
               (case match_command (module_head ''py_compile'') normalized of
                  Some tr \<Rightarrow> Some (build ''py_compile'' tr)
                | None \<Rightarrow> map_option (build ''flake8'') (match_command (module_head ''flake8'') normalized))))"

definition compile_contract_to_argv :: "string option \<Rightarrow> obj \<Rightarrow> string list option" where
  "compile_contract_to_argv sandbox_python contract =
     (case sandbox_python of
        None \<Rightarrow> None
      | Some python \<Rightarrow>
          (let ctype = py_lower (get_str contract ''type'' ''shell'');
               command = get_strip contract ''command'' [];
               normalized = py_strip (py_replace ''workspace/'' [] command);
               target = py_or (dget contract ''target'' JNull) (dget contract ''test_path'' JNull)
           in case (if normalized = [] then None else command_argv python normalized) of
                Some argv \<Rightarrow> Some argv
              | None \<Rightarrow>
                  if ctype = ''pytest'' \<and> truthy target
                  then Some ([python, ''-m'', ''pytest'', py_str target] @ split_args (get_str contract ''args'' []))
                  else if ctype = ''lint'' \<or> ctype = ''flake8''
                  then Some [python, ''-m'', ''flake8'', py_str (dget contract ''target'' (JStr ''.'')), ''--max-line-length=120'']
                  else None))"

definition execute_contract ::
    "(string list \<Rightarrow> obj) \<Rightarrow> (string \<Rightarrow> obj) \<Rightarrow> string option \<Rightarrow> obj \<Rightarrow> obj" where
  "execute_contract run_argv run_shell sandbox_python contract =
     (case sandbox_python of
        None \<Rightarrow> [(''success'', JBool False), (''returncode'', JInt (- 1)), (''stdout'', JStr []),
                 (''stderr'', JStr ''No active sandbox context''), (''timed_out'', JBool False)]
      | Some _ \<Rightarrow>
          (case compile_contract_to_argv sandbox_python contract of
             Some argv \<Rightarrow>
               AList.update ''argv'' (JList (map JStr argv))
                 (AList.update ''execution_mode'' (JStr ''argv'') (run_argv argv))
           | None \<Rightarrow>
               (let script = canonicalize_shell_script sandbox_python (get_strip contract ''command'' [])
                in AList.update ''script'' (JStr script)
                     (AList.update ''execution_mode'' (JStr ''shell'') (run_shell script)))))"


section \<open>Shapes of contracts\<close>

lemma compile_ui_Inl:
  assumes "compile_ui pb ports ws targets criteria = Inl c"
  shows "map_of c ''type'' = Some (JStr ''ui_smoke'') \<and> (\<exists>argv. map_of c ''command'' = Some (JStr (sh_join argv)))"
proof (cases "available_port pb ports = 0")
  case True
  then show ?thesis using assms by (simp add: compile_ui_def)
next
  case False
  have "c = [(''type'', JStr ''ui_smoke''), (''language'', JStr ''html''), v, w, x, y] \<Longrightarrow>
      v = (''command'', JStr (sh_join argv)) \<Longrightarrow> ?thesis" for v w x y argv
    by auto
  then show ?thesis using assms False unfolding compile_ui_def Let_def by (simp only: if_False sum.inject) blast
qed

text \<open>The contract of each profile.\<close>

lemma compile_cases:
  assumes "compile_validation_contract pb ports ws milestone = Inr (Inl c)"
  obtains targets where "target_paths milestone = Inr targets" "targets \<noteq> []"
    and "compile_ui pb ports ws targets (criteria_of milestone) = Inl c \<or>
         c = [(''type'', JStr ''lint''), (''language'', JStr ''python''),
              (''command'', JStr (sh_join (lint_argv targets))),
              (''pass_criteria'', JStr ''The target files pass linting.'')] \<or>
         c = [(''type'', JStr ''structural''), (''language'', JStr ''generic''),
              (''command'', JStr []), (''pass_criteria'', JStr (py_join [nl] (criteria_of milestone)))] \<or>
         c = [(''type'', JStr ''pytest''), (''language'', JStr ''python''),
              (''command'', JStr (sh_join (pytest_argv targets))),
              (''pass_criteria'', JStr (py_join [nl] (criteria_of milestone)))]"
proof -
  obtain targets where t: "target_paths milestone = Inr targets"
    using assms by (auto simp: compile_validation_contract_def)
  have ne: "targets \<noteq> []" "criteria_of milestone \<noteq> []" "profile_of milestone \<noteq> []"
    using assms t by (auto simp: compile_validation_contract_def Let_def split: if_split_asm)
  show thesis
    by (rule that [OF t ne(1)])
       (use assms t ne in \<open>simp add: compile_validation_contract_def Let_def bindR_eq_Inr split: if_split_asm; blast\<close>)
qed

section \<open>Properties\<close>

abbreviation demo_probe :: probe where
  "demo_probe \<equiv> \<lparr>pb_resolve = lexical_resolve, pb_is_file = (\<lambda>p. path_name p = ''app.py''),
     pb_exists = (\<lambda>_. False), pb_size = (\<lambda>_. 10),
     pb_text = (\<lambda>_. Some ''import streamlit as st''), pb_port_free = (\<lambda>p. p > 8000)\<rparr>"



text \<open>
  The executor does not split that command back: it takes the first run of non-space
  characters after the module name as the target. A test file with a space in its name is compiled to
  a correctly quoted command, yet what is executed is the session interpreter with two wrong targets,
  quotes included.
\<close>

lemma quoted_target_misread:
  "\<exists>contract command. compile_validation_contract demo_probe [8001] (path_of ''/w'')
     [(''target_files'', JList [JStr ''tests/my test.py'']), (''acceptance_criteria'', JList [JStr ''c''])]
       = Inr (Inl contract) \<and>
     map_of contract ''command'' = Some (JStr command) \<and>
     sh_split command = Inr [''python'', ''-m'', ''pytest'', ''tests/my test.py'', ''-q''] \<and>
     compile_contract_to_argv (Some ''/venv/bin/python'') contract =
       Some [''/venv/bin/python'', ''-m'', ''pytest'', squote # ''tests/my'', ''test.py'' @ [squote], ''-q'']"
proof -
  let ?m = "[(''target_files'', JList [JStr ''tests/my test.py'']), (''acceptance_criteria'', JList [JStr ''c''])]"
  let ?r = "compile_validation_contract demo_probe [8001] (path_of ''/w'') ?m"
  have r: "case ?r of
      Inr (Inl c) \<Rightarrow> (case map_of c ''command'' of
           Some (JStr cmd) \<Rightarrow> sh_split cmd = Inr [''python'', ''-m'', ''pytest'', ''tests/my test.py'', ''-q'']
         | _ \<Rightarrow> False) \<and>
        compile_contract_to_argv (Some ''/venv/bin/python'') c =
          Some [''/venv/bin/python'', ''-m'', ''pytest'', squote # ''tests/my'', ''test.py'' @ [squote], ''-q'']
    | _ \<Rightarrow> False" by code_simp
  then show ?thesis
    by (cases ?r) (auto split: sum.splits option.splits json.splits)
qed

text \<open>
  A UI contract never serves a Python file. A milestone classified as UI because its
  \<open>.py\<close> target imports Streamlit gets a server whose application path ends in \<open>.html\<close>, so the
  Streamlit script that made it a UI milestone is not what is served.
\<close>

lemma ui_contract_serves_html:
  assumes "compile_ui pb ports ws targets criteria = Inl contract"
    and "map_of contract ''serve'' = Some (JObj server)" and "map_of server ''app_path'' = Some (JStr app)"
  shows "ends_with ''.html'' app \<and> (app = ''index.html'' \<or> app \<in> set targets)"
proof -
  have i: "ends_with ''.html'' ''index.html''" by code_simp
  have f: "ends_with ''.html'' h" "h \<in> set targets" if "filter (ends_with ''.html'') targets = h # hs" for h hs
    using that by (metis filter_eq_ConsD in_set_conv_decomp)+
  let ?html = "filter (ends_with ''.html'') targets"
  have "app = (case ?html of [] \<Rightarrow> ''index.html'' | h # _ \<Rightarrow> h)"
  proof (cases "available_port pb ports = 0")
    case True
    then show ?thesis using assms(1) by (simp add: compile_ui_def)
  next
    case False
    let ?app = "case ?html of [] \<Rightarrow> ''index.html'' | h # _ \<Rightarrow> h"
    have "server = [(''kind'', k), (''port'', p)] \<Longrightarrow> ?thesis"
      "server = (''kind'', k) # (''port'', p) # (''app_path'', JStr ?app) # rest \<Longrightarrow> ?thesis" for k p rest
      using assms(3) by auto
    moreover have "contract = [(''type'', v), (''language'', w), (''command'', x), (''serve'', JObj sv), y, z] \<Longrightarrow> sv = server"
      for v w x sv y z using assms(2) by auto
    ultimately show ?thesis
      using assms(1) False unfolding compile_ui_def Let_def
      by (simp only: if_False sum.inject split: if_split_asm) metis+
  qed
  then show ?thesis using i f by (cases ?html) auto
qed

text \<open>
  The rewriting of bare interpreter names spares paths and longer words, but takes a
  versioned interpreter apart: the pattern looks one character past the name and a dot counts as its end.
\<close>

lemma canonicalize_versioned_python:
  "canonicalize_shell_script (Some ''/v/bin/python'') ''python3 a.py; ./python b; /usr/bin/python3 c; python3x''
     = ''/v/bin/python a.py; ./python b; /usr/bin/python3 c; python3x'' \<and>
   canonicalize_shell_script (Some ''/v/bin/python'') ''python3.12 a.py'' = ''/v/bin/python.12 a.py'' \<and>
   canonicalize_shell_script None script = script"
proof -
  have "canonicalize_shell_script (Some ''/v/bin/python'') ''python3 a.py; ./python b; /usr/bin/python3 c; python3x''
     = ''/v/bin/python a.py; ./python b; /usr/bin/python3 c; python3x''"
    and "canonicalize_shell_script (Some ''/v/bin/python'') ''python3.12 a.py'' = ''/v/bin/python.12 a.py''"
    by code_simp+
  then show ?thesis by (simp add: canonicalize_shell_script_def)
qed

end
