(* ===== verification/AgentText.thy ===== *)
theory AgentText
  imports PyLoads PyRegex Paths
begin

text \<open>
  \<open>src/agents/utils.py\<close> (all but \<open>validate_plan_payload\<close>, which is in \<open>PlanLint\<close>) and
  \<open>src/agents/tool_diagnostics.py\<close>: how the reply of a model becomes a dictionary, how conversations
  are cut, and how failures become short stable signatures. Parameters: the optional third-party
  package \<open>json_repair\<close> (\<open>repair\<close>; None is any exception), the answers of the reader (\<open>PyLoads\<close>),
  and the SHA-1 digest (\<open>sha\<close>).
\<close>

section \<open>Replies of a model\<close>

abbreviation any_char :: rx where "any_char \<equiv> Chars (\<lambda>_. True)"

definition looks_like_tool_call_attempt :: "string \<Rightarrow> bool" where
  "looks_like_tool_call_attempt text =
     (let lowered = py_lower text; q = (\<lambda>w. dquote # w @ [dquote])
      in contains (q ''tool'') lowered \<or> contains (q ''write_file'') lowered
         \<or> contains (q ''patch_file'') lowered \<or> contains (q ''read_file'') lowered
         \<or> contains ''<tool_call>'' lowered \<or> contains ''<function='' lowered)"

definition thinking_tag :: rx where
  "thinking_tag = Alt (lit_ci ''think'') (lit_ci ''redacted_reasoning'')"

definition strip_thinking_markers :: "string \<Rightarrow> string" where
  "strip_thinking_markers text =
     py_strip (rx_sub (seqs [lit ''<'', thinking_tag, lit ''>'', LazyStar any_char, lit ''</'', thinking_tag, lit ''>''])
       [] text)"

definition normalize_tool_call_dict :: "string \<Rightarrow> json \<Rightarrow> obj" where
  "normalize_tool_call_dict tool args =
     [(''tool'', JStr (py_strip tool)), (''args'', if is_obj args then args else JObj []),
      (''reasoning'', JStr [])]"

definition tag_name :: rx where
  "tag_name = Plus (Chars (\<lambda>c. c \<noteq> CHR ''>'' \<and> \<not> is_space c \<and> c \<noteq> CHR ''/''))"

definition parameter_parts :: parts where
  "parameter_parts =
     [(False, lit_ci ''<parameter=''), (True, Plus (Chars (\<lambda>c. c \<noteq> CHR ''>'' \<and> \<not> is_space c))),
      (False, Seq (lit ''>'') Spaces), (True, LazyStar any_char), (False, Seq Spaces (lit_ci ''</parameter>''))]"

definition function_parts :: parts where
  "function_parts =
     [(False, lit_ci ''<function=''), (True, tag_name),
      (False, seqs [Opt (Seq (Chars is_space) (Star (Chars (\<lambda>c. c \<noteq> CHR ''>'')))), lit ''>'', Spaces]),
      (True, LazyStar any_char), (False, Seq Spaces (lit_ci ''</function>''))]"

definition bare_function_parts :: parts where
  "bare_function_parts =
     [(False, Seq BeginText (lit_ci ''<function='')), (True, tag_name),
      (False, seqs [Spaces, Opt (lit ''/''), lit ''>''])]"

definition tool_call_parts :: parts where
  "tool_call_parts =
     [(False, Seq (lit_ci ''<tool_call>'') Spaces), (True, LazyStar any_char),
      (False, Seq Spaces (lit_ci ''</tool_call>''))]"

definition parse_xml_parameters :: "(string \<Rightarrow> json option) \<Rightarrow> string \<Rightarrow> obj" where
  "parse_xml_parameters repair inner =
     (let args = fold (\<lambda>gs d. case gs of
                          [k, v] \<Rightarrow> AList.update (py_strip k) (JStr (py_strip v)) d | _ \<Rightarrow> d)
                   (rx_all parameter_parts inner) []
      in if args \<noteq> [] then args
         else if starts_with ''{'' (py_strip inner) then
           (case repair (py_strip inner) of
              Some (JObj payload) \<Rightarrow>
                (case dget payload ''arguments'' (dget payload ''args'' (JObj payload)) of
                   JObj value \<Rightarrow> value | _ \<Rightarrow> [])
            | _ \<Rightarrow> [])
         else [])"

text \<open>One \<open><tool_call>\<close> block: a JSON call, else a function element, else an empty one.\<close>

definition json_block :: "(string \<Rightarrow> json option) \<Rightarrow> string \<Rightarrow> obj option" where
  "json_block repair block =
     (if starts_with ''{'' block then
        (case repair block of
           Some (JObj payload) \<Rightarrow>
             (let tool = py_or (dget payload ''tool'' JNull) (dget payload ''name'' JNull);
                  args = dget payload ''args'' (dget payload ''arguments'' (JObj []))
              in if truthy tool then Some (normalize_tool_call_dict (py_str tool) args) else None)
         | _ \<Rightarrow> None)
      else None)"

definition function_call :: "(string \<Rightarrow> json option) \<Rightarrow> string list \<Rightarrow> obj option" where
  "function_call repair gs =
     (case gs of
        [name, inner] \<Rightarrow> Some (normalize_tool_call_dict name (JObj (parse_xml_parameters repair inner)))
      | _ \<Rightarrow> None)"

definition xml_block :: "(string \<Rightarrow> json option) \<Rightarrow> string \<Rightarrow> obj option" where
  "xml_block repair raw =
     (let block = py_strip raw
      in if block = [] then None
         else case json_block repair block of
           Some call \<Rightarrow> Some call
         | None \<Rightarrow>
             (case rx_groups function_parts block of
                Some gs \<Rightarrow> function_call repair gs
              | None \<Rightarrow>
                  (case rx_groups bare_function_parts block of
                     Some [name] \<Rightarrow> Some (normalize_tool_call_dict name (JObj []))
                   | _ \<Rightarrow> None)))"

definition xml_calls :: "(string \<Rightarrow> json option) \<Rightarrow> string \<Rightarrow> obj list" where
  "xml_calls repair text =
     (let blocks = concat (rx_all tool_call_parts text)
      in if blocks \<noteq> [] then List.map_filter (xml_block repair) blocks
         else List.map_filter (function_call repair) (rx_all function_parts text))"

definition parse_xml_tool_calls :: "(string \<Rightarrow> json option) \<Rightarrow> string \<Rightarrow> obj option" where
  "parse_xml_tool_calls repair text =
     (case xml_calls repair text of
        [] \<Rightarrow> None
      | [call] \<Rightarrow> Some call
      | calls \<Rightarrow> Some [(''calls'', JList (map JObj calls))])"

definition fence_parts :: parts where
  "fence_parts =
     [(False, seqs [lit ''```'', Opt (lit ''json''), Spaces]),
      (True, seqs [lit ''{'', LazyStar any_char, lit ''}'']), (False, Seq Spaces (lit ''```''))]"

definition greedy_parts :: parts where
  "greedy_parts = [(True, seqs [lit ''{'', Star any_char, lit ''}''])]"

definition json_candidates :: "string \<Rightarrow> string list" where
  "json_candidates text =
     (if py_strip text \<noteq> [] then [py_strip text] else [])
     @ (case rx_groups fence_parts text of Some gs \<Rightarrow> gs | None \<Rightarrow> [])
     @ (case rx_groups greedy_parts text of Some gs \<Rightarrow> gs | None \<Rightarrow> [])"

definition load_candidate :: "reader \<Rightarrow> (string \<Rightarrow> json option) \<Rightarrow> string \<Rightarrow> obj option" where
  "load_candidate rd repair candidate =
     (case json_loads rd candidate of
        Some (JObj d) \<Rightarrow> Some d
      | _ \<Rightarrow> (case repair candidate of Some (JObj d) \<Rightarrow> Some d | _ \<Rightarrow> None))"

fun first_object :: "(string \<Rightarrow> obj option) \<Rightarrow> string list \<Rightarrow> string list \<Rightarrow> obj option" where
  "first_object load seen [] = None"
| "first_object load seen (c # cs) =
     (if c \<in> set seen then first_object load seen cs
      else case load c of Some d \<Rightarrow> Some d | None \<Rightarrow> first_object load (c # seen) cs)"

definition parse_json_from_text :: "reader \<Rightarrow> (string \<Rightarrow> json option) \<Rightarrow> string \<Rightarrow> obj option" where
  "parse_json_from_text rd repair text = first_object (load_candidate rd repair) [] (json_candidates text)"

definition parse_agent_turn :: "reader \<Rightarrow> (string \<Rightarrow> json option) \<Rightarrow> string \<Rightarrow> obj option" where
  "parse_agent_turn rd repair text =
     (let cleaned = strip_thinking_markers text
      in case parse_json_from_text rd repair cleaned of
           Some d \<Rightarrow> Some d
         | None \<Rightarrow> parse_xml_tool_calls repair cleaned)"

section \<open>Conversations\<close>

record message =
  m_role :: string
  m_content :: string

definition flatten_conversation :: "message list \<Rightarrow> string" where
  "flatten_conversation conversation =
     py_join [nl, nl] (map (\<lambda>m. ''['' @ py_upper (m_role m) @ '']'' @ nl # m_content m) conversation)"

text \<open>\<open>xs[i:]\<close> for any integer \<open>i\<close>: from the end when it is negative.\<close>

definition slice_from :: "int \<Rightarrow> 'a list \<Rightarrow> 'a list" where
  "slice_from i xs = (if 0 \<le> i then drop (nat i) xs else last_n (nat (- i)) xs)"

definition trim_conversation :: "'a list \<Rightarrow> int \<Rightarrow> 'a list res" where
  "trim_conversation conversation max_turns =
     (if int (length conversation) \<le> max_turns then Inr conversation
      else case conversation of
        [] \<Rightarrow> Inl IndexError
      | first # _ \<Rightarrow> Inr (first # slice_from (- (max_turns - 1)) conversation))"

section \<open>Signatures of failures\<close>

definition error_line_keys :: "string list" where
  "error_line_keys =
     [''error'', ''assert'', ''failed'', ''exception'', ''not found'', ''denied'', ''no module'', ''traceback'',
      ''exit code'', ''returncode'']"

definition error_line :: "string \<Rightarrow> string" where
  "error_line output =
     (case List.find (\<lambda>l. l \<noteq> [] \<and> list_ex (\<lambda>k. contains k (py_lower l)) error_line_keys)
             (map py_strip (line_list output)) of
        Some l \<Rightarrow> l | None \<Rightarrow> [])"

definition file_char :: "char \<Rightarrow> bool" where
  "file_char c = (is_word c \<or> c = CHR ''.'' \<or> c = CHR ''/'' \<or> c = bslash \<or> c = CHR ''-'')"

definition squeeze :: "string \<Rightarrow> string" where
  "squeeze s = py_strip (rx_sub Spaces1 '' '' s)"

definition normalize_error_line :: "string \<Rightarrow> string" where
  "normalize_error_line err_line =
     squeeze (rx_sub (Plus (Chars is_digit)) ''<n>''
       (rx_sub (Seq (Plus (Chars file_char)) (lit ''.py'')) ''<file>'' (py_lower err_line)))"

text \<open>\<open>rc\<close> is the returncode formatted: None or a number.\<close>

definition failure_basis :: "string \<Rightarrow> string \<Rightarrow> string \<Rightarrow> json \<Rightarrow> string" where
  "failure_basis milestone_id command contract_output rc =
     milestone_id @ ''|rc='' @ py_str rc @ ''|'' @ py_lower (py_strip command) @ ''|''
     @ normalize_error_line (error_line contract_output)"

definition failure_signature :: "(string \<Rightarrow> string) \<Rightarrow> string \<Rightarrow> string \<Rightarrow> string \<Rightarrow> json \<Rightarrow> string" where
  "failure_signature sha milestone_id command contract_output rc =
     take 12 (sha (failure_basis milestone_id command contract_output rc))"

definition target_files_exist ::
    "(ppath \<Rightarrow> ppath) \<Rightarrow> ppath \<Rightarrow> (ppath \<Rightarrow> bool) \<Rightarrow> string list \<Rightarrow> (bool \<times> string list) res" where
  "target_files_exist resolve root exists target_files =
     bindR (mapR (\<lambda>rel. bindR (resolve_workspace_path resolve root rel) (\<lambda>p. Inr (rel, exists p))) target_files)
       (\<lambda>found. let missing = map fst (filter (\<lambda>(_, e). \<not> e) found) in Inr (missing = [], missing))"

text \<open>
  What \<open>check_target_file_dependencies\<close> reports when an import is not installed: its message, errors,
  packages, imports and files.
\<close>

record dependency_report =
  dr_message :: string
  dr_errors :: "string list"
  dr_packages :: "string list"
  dr_imports :: "string list"
  dr_checked :: "string list"

section \<open>Diagnostics of tool results\<close>

definition secret_re :: rx where
  "secret_re =
     Seq (alts [
        Seq (lit_ci ''bearer'') Spaces1,
        seqs [alts [seqs [lit_ci ''api'', Opt (Chars (\<lambda>c. c = CHR ''_'' \<or> c = CHR ''-'')), lit_ci ''key''],
                    lit_ci ''token'', lit_ci ''secret'', lit_ci ''password'', lit_ci ''authorization''],
              Spaces, Chars (\<lambda>c. c = CHR ''='' \<or> c = CHR '':''), Spaces],
        seqs [Alt (lit_ci ''sk'') (lit_ci ''hf''), lit ''_'',
              seqs (replicate 6 (Chars (\<lambda>c. c = CHR ''_'' \<or> c = CHR ''-'' \<or> (is_word c \<and> ord c < 128)))),
              Star (Chars (\<lambda>c. c = CHR ''_'' \<or> c = CHR ''-'' \<or> (is_word c \<and> ord c < 128)))]])
       (Plus (Chars (\<lambda>c. \<not> is_space c \<and> c \<notin> set [CHR '','', CHR '';'', dquote, squote])))"

definition max_output :: nat where "max_output = 1600"

definition redact_text :: "json \<Rightarrow> nat \<Rightarrow> string" where
  "redact_text value limit =
     (let text = rx_sub secret_re ''[REDACTED]'' (if truthy value then py_str value else [])
      in if length text > limit then last_n limit text else text)"

definition classify_tool_result :: "obj \<Rightarrow> string" where
  "classify_tool_result result =
     (let error = py_lower (get_str result ''error'' [])
      in if truthy (dget result ''success'' (JBool False)) then ''success''
         else if truthy (dget result ''policy_denied'' JNull) then ''policy_denied''
         else if truthy (dget result ''timed_out'' JNull) then ''timeout''
         else if get_strip result ''error_category'' [] \<noteq> [] then get_strip result ''error_category'' []
         else if contains ''no active sandbox'' error then ''sandbox_unavailable''
         else if contains ''no such file'' error \<or> contains ''not found'' error then ''path_or_executable''
         else if dget result ''returncode'' JNull \<noteq> JNull then ''nonzero_exit''
         else ''tool_error'')"

text \<open>
  The line number between \<open>:\<close> and \<open>:\<close> or \<open>)\<close>: the look-behind and look-ahead are the context of the
  digits.
\<close>

definition line_number_re :: rx where
  "line_number_re =
     seqs [NotBehind (\<lambda>c. c \<noteq> CHR '':''), NotAhead (NotBehind (\<lambda>_. True)), Plus (Chars is_digit),
           NotAhead (NotAhead (Chars (\<lambda>c. c = CHR '':'' \<or> c = CHR '')'')))]"

definition session_path_re :: rx where
  "session_path_re = Seq (lit ''/sessions/'') (Plus (Chars (\<lambda>c. c \<noteq> CHR ''/'' \<and> \<not> is_space c)))"

definition normalise_for_signature :: "json \<Rightarrow> string" where
  "normalise_for_signature value =
     squeeze (rx_sub line_number_re ''<line>''
       (rx_sub session_path_re ''<session>'' (py_lower (redact_text value 1000))))"

definition failed_text :: "obj \<Rightarrow> json" where
  "failed_text result =
     py_or (py_or (dget result ''error'' JNull) (dget result ''stderr'' JNull)) (dget result ''stdout'' JNull)"

definition tool_failure_signature :: "(string \<Rightarrow> string) \<Rightarrow> string \<Rightarrow> json \<Rightarrow> obj \<Rightarrow> string" where
  "tool_failure_signature sha tool_name args result =
     (let command = (case args of
                       JObj d \<Rightarrow> py_or (py_or (dget d ''script'' JNull) (dget d ''command'' JNull)) args
                     | _ \<Rightarrow> args)
      in take 12 (sha (py_join ''|''
           [tool_name, classify_tool_result result, normalise_for_signature command,
            normalise_for_signature (failed_text result), get_str result ''returncode'' []])))"

text \<open>\<open>duration\<close> is the rounded duration.\<close>

definition event_diagnostics :: "(string \<Rightarrow> string) \<Rightarrow> string \<Rightarrow> json \<Rightarrow> obj \<Rightarrow> json \<Rightarrow> obj" where
  "event_diagnostics sha tool_name args result duration =
     [(''error_category'', JStr (classify_tool_result result)), (''duration_ms'', duration)]
     @ List.map_filter (\<lambda>k. map_option (Pair k) (map_of result k))
         [''returncode'', ''timed_out'', ''policy_denied'', ''execution_mode'', ''executor'', ''cwd'']
     @ (if tool_name \<in> set [''run_shellscript'', ''run_pytest'', ''run_linter'']
        then [(''stdout_tail'', JStr (redact_text (dget result ''stdout'' (JStr [])) max_output)),
              (''stderr_tail'', JStr (redact_text (dget result ''stderr'' (JStr [])) max_output))]
        else [])
     @ (if truthy (dget result ''success'' (JBool False)) then []
        else (if truthy (failed_text result) then [(''error'', JStr (redact_text (failed_text result) max_output))] else [])
             @ [(''failure_signature'', JStr (tool_failure_signature sha tool_name args result))])"

definition compact_tool_result :: "obj \<Rightarrow> string" where
  "compact_tool_result result = take 4000 (json_dumps (Some 2) (JObj result))"

text \<open>The one-character ellipsis is written as three dots.\<close>

definition compact_event_args :: "json \<Rightarrow> obj" where
  "compact_event_args args =
     (case args of
        JObj d \<Rightarrow>
          map (\<lambda>(k, v). (k, case v of JStr s \<Rightarrow> if length s > 400 then JStr (take 400 s @ ''...'') else v | _ \<Rightarrow> v)) d
      | _ \<Rightarrow> [])"

section \<open>Shapes of parsed replies\<close>

text \<open>A well-shaped call: a stripped tool name and an object of arguments.\<close>

definition call_shape :: "obj \<Rightarrow> bool" where
  "call_shape c =
     (case (map_of c ''tool'', map_of c ''args'') of
        (Some (JStr t), Some (JObj _)) \<Rightarrow> stripped t | _ \<Rightarrow> False)"

lemma call_shape_normalize [simp]: "call_shape (normalize_tool_call_dict t a)"
  by (cases a) (simp_all add: call_shape_def normalize_tool_call_dict_def)

lemma json_block_shape: "json_block repair b = Some c \<Longrightarrow> call_shape c"
  by (auto simp: json_block_def Let_def split: if_split_asm option.split_asm json.split_asm)

lemma function_call_shape: "function_call repair gs = Some c \<Longrightarrow> call_shape c"
  by (auto simp: function_call_def split: list.split_asm)

lemma xml_block_shape: "xml_block repair b = Some c \<Longrightarrow> call_shape c"
  by (auto simp: xml_block_def Let_def json_block_shape function_call_shape
      split: if_split_asm option.split_asm list.split_asm)

lemma in_map_filter: "x \<in> set (List.map_filter f xs) \<Longrightarrow> \<exists>y\<in>set xs. f y = Some x"
  by (auto simp: List.map_filter_def)

lemma xml_calls_shape: "c \<in> set (xml_calls repair text) \<Longrightarrow> call_shape c"
  by (auto simp: xml_calls_def Let_def xml_block_shape function_call_shape dest!: in_map_filter split: if_split_asm)

lemma parse_xml_shape:
  assumes "parse_xml_tool_calls repair text = Some d"
  shows "call_shape d \<or> (\<exists>calls. d = [(''calls'', JList (map JObj calls))] \<and> 2 \<le> length calls \<and> list_all call_shape calls)"
proof (cases "xml_calls repair text")
  case Nil
  then show ?thesis using assms by (simp add: parse_xml_tool_calls_def)
next
  case (Cons c cs)
  have shape: "list_all call_shape (c # cs)"
    unfolding Cons [symmetric] list_all_iff using xml_calls_shape by blast
  show ?thesis
  proof (cases cs)
    case Nil
    then show ?thesis using assms shape Cons by (simp add: parse_xml_tool_calls_def)
  next
    case two: (Cons c2 cs2)
    have "d = [(''calls'', JList (map JObj (c # cs)))]" using assms Cons two by (simp add: parse_xml_tool_calls_def)
    moreover have "2 \<le> length (c # cs)" by (simp add: two)
    ultimately show ?thesis using shape by blast
  qed
qed

section \<open>The window of a conversation\<close>

lemma suffix_slice_from: "suffix (slice_from i xs) xs"
  by (simp add: slice_from_def last_n_def suffix_drop)

text \<open>
  Trimming keeps the first message and a final stretch of the conversation. With a limit
  of at least two it keeps the limit, and exactly the most recent messages; with a limit of one it
  repeats the whole conversation behind its first message, so the result is longer than what was to be
  cut.
\<close>

lemma conversation_window:
  assumes "trim_conversation conversation max_turns = Inr kept" and "conversation \<noteq> []"
  shows "hd kept = hd conversation \<and> suffix (tl kept) conversation \<and>
    (2 \<le> max_turns \<longrightarrow> int (length kept) \<le> max_turns) \<and>
    (2 \<le> max_turns \<and> max_turns < int (length conversation) \<longrightarrow>
       kept = hd conversation # last_n (nat (max_turns - 1)) conversation) \<and>
    (max_turns = 1 \<and> 1 < length conversation \<longrightarrow> kept = hd conversation # conversation)"
proof -
  obtain c cs where c: "conversation = c # cs" using assms(2) by (cases conversation) auto
  show ?thesis
  proof (cases "int (length conversation) \<le> max_turns")
    case True
    then have "kept = conversation" using assms(1) by (simp add: trim_conversation_def)
    then show ?thesis using True c by (auto simp: suffix_ConsI)
  next
    case False
    then have k: "kept = c # slice_from (- (max_turns - 1)) conversation"
      using assms(1) c by (simp add: trim_conversation_def)
    have "slice_from (- (max_turns - 1)) conversation = last_n (nat (max_turns - 1)) conversation"
      if "2 \<le> max_turns" using that by (simp add: slice_from_def)
    moreover have "slice_from 0 conversation = conversation" by (simp add: slice_from_def)
    ultimately show ?thesis using False c suffix_slice_from [of _ conversation] by (auto simp: k)
  qed
qed

lemma trim_total: "conversation \<noteq> [] \<Longrightarrow> \<exists>messages. trim_conversation conversation k = Inr messages"
  by (cases conversation) (auto simp: trim_conversation_def)

text \<open>The object without any key.\<close>

definition empty_reply :: string where
  "empty_reply = ''{}''"

lemma empty_reply_parsed: "py_strip empty_reply = empty_reply" "parse_agent_turn rd repair empty_reply = Some []"
  by code_simp+

end
