(* ===== verification/Trace.thy ===== *)
theory Trace
  imports PyJson
begin

text \<open>
  Code that reports what it does: the events handed to the emitter (\<open>src/events.py\<close>), in order, next
  to the result. A call that raises has still emitted what came before.
\<close>

type_synonym event = "string \<times> obj"
type_synonym 'a traced = "event list \<times> 'a res"

definition pureT :: "'a \<Rightarrow> 'a traced" where
  "pureT x = ([], Inr x)"

definition liftT :: "'a res \<Rightarrow> 'a traced" where
  "liftT r = ([], r)"

text \<open>\<open>if emitter: emitter.emit(...)\<close>.\<close>

definition emitT :: "bool \<Rightarrow> event list \<Rightarrow> unit traced" where
  "emitT on es = (if on then es else [], Inr ())"

definition bindT :: "'a traced \<Rightarrow> ('a \<Rightarrow> 'b traced) \<Rightarrow> 'b traced" where
  "bindT m f =
     (case m of (es, Inl e) \<Rightarrow> (es, Inl e)
      | (es, Inr x) \<Rightarrow> (case f x of (es', r) \<Rightarrow> (es @ es', r)))"

definition result_of :: "'a traced \<Rightarrow> 'a res" where
  "result_of m = snd m"

named_theorems trace_simps \<open>results of traced code\<close>

lemma result_pureT [simp, trace_simps]: "result_of (pureT x) = Inr x"
  by (simp add: result_of_def pureT_def)

lemma result_liftT [simp, trace_simps]: "result_of (liftT r) = r"
  by (simp add: result_of_def liftT_def)

lemma result_emitT [simp, trace_simps]: "result_of (emitT on es) = Inr ()"
  by (simp add: result_of_def emitT_def)

lemma result_bindT [simp, trace_simps]: "result_of (bindT m f) = bindR (result_of m) (\<lambda>x. result_of (f x))"
  by (cases m; cases "snd m") (auto simp: result_of_def bindT_def bindR_def split: prod.splits)

lemma result_if [simp, trace_simps]: "result_of (if b then m else m') = (if b then result_of m else result_of m')"
  by simp

end
