(* ===== verification/Verdict.thy ===== *)
theory Verdict
  imports Trace AgentText FileOps ValidationCompiler Policy
begin

text \<open>
  \<open>src/agents/validator.py\<close>: the verdict on a milestone. The deterministic checks come first
  (unauthorized edits, files out of scope, policy denials, the contract's exit code, dependencies); a
  model is asked only when they leave the question open, and its verdict is normalised and guarded.
  What the validator asks of the rest of the program is a record \<open>judge\<close>.
\<close>

section \<open>What the validator asks\<close>

text \<open>
  \<open>j_deps\<close> is \<open>check_target_file_dependencies\<close>, None when all imports are installed. \<open>j_file\<close> is the text of a workspace file, None when it cannot be
  resolved, read or decoded. \<open>j_order\<close> is the iteration order of a Python set of strings.
\<close>

record judge =
  j_execute :: "obj \<Rightarrow> obj"
  j_ui :: "obj \<Rightarrow> obj"
  j_deps :: "json \<Rightarrow> dependency_report option"
  j_env :: string
  j_file :: "string \<Rightarrow> string option"
  j_order :: "string list \<Rightarrow> string list"
  j_has_tests :: bool
  j_diff :: "obj option"
  j_manual :: string
  j_llm :: "string \<Rightarrow> string"
  j_reader :: reader
  j_repair :: "string \<Rightarrow> json option"
  j_sha :: "string \<Rightarrow> string"
  j_emits :: bool

definition milestone_id :: "obj \<Rightarrow> json" where
  "milestone_id milestone = dget milestone ''id'' (JStr ''?'')"

definition finished_errors :: "obj \<Rightarrow> json list" where
  "finished_errors verdict =
     (case dget verdict ''errors'' JNull of
        JNull \<Rightarrow> [] | JList es \<Rightarrow> es | x \<Rightarrow> [JStr (py_str x)])"

definition validation_finished :: "json \<Rightarrow> obj \<Rightarrow> string \<Rightarrow> event" where
  "validation_finished ms_id verdict path =
     (''validation.finished'',
      [(''milestone_id'', ms_id), (''verdict'', dget verdict ''verdict'' (JStr ''FAIL'')), (''path'', JStr path)]
      @ List.map_filter (\<lambda>k. if truthy (dget verdict k JNull) then Some (k, dget verdict k JNull) else None)
          [''validation_details'', ''fix_guidance'', ''replan_guidance'', ''root_cause'']
      @ (if finished_errors verdict = [] then []
         else [(''errors'', JList (map (\<lambda>e. JStr (py_str e)) (take 10 (finished_errors verdict))))]))"

section \<open>Scope of the edits\<close>

text \<open>\<open>_normalize_workspace_rel\<close>: unlike \<open>normalize_workspace_path\<close> it collapses \<open>.\<close> components and keeps a leading slash.\<close>

definition normalize_workspace_rel :: "json \<Rightarrow> string" where
  "normalize_workspace_rel path =
     path_str (path_of (strip_workspace (strip_dot_slash (slashes (py_strip (py_str path))))))"

definition test_path :: "json \<Rightarrow> bool res" where
  "test_path p = bindR (str_in ''tests/'' p) (\<lambda>a. if a then Inr True else str_in ''test_'' p)"

definition unauthorized_test_edits :: "obj \<Rightarrow> json list res" where
  "unauthorized_test_edits worker_result =
     bindR (py_iter (dget worker_result ''created_files'' (JList []))) (\<lambda>created.
     bindR (py_iter (dget worker_result ''files_modified'' (JList []))) (\<lambda>modified.
       filterR (\<lambda>p. bindR (test_path p) (\<lambda>t.
         Inr (t \<and> normalize_workspace_rel p \<notin> set (map normalize_workspace_rel created)))) modified))"

definition rel_set :: "json \<Rightarrow> string list res" where
  "rel_set files =
     bindR (py_iter files) (\<lambda>fs.
       Inr (py_sorted_set (map normalize_workspace_rel (filter (\<lambda>p. py_strip (py_str p) \<noteq> []) fs))))"

definition target_file_boundary_fail :: "obj \<Rightarrow> obj \<Rightarrow> obj option res" where
  "target_file_boundary_fail milestone worker_result =
     bindR (rel_set (dget milestone ''target_files'' (JList []))) (\<lambda>targets.
     bindR (rel_set (dget worker_result ''files_modified'' (JList []))) (\<lambda>modified.
       let outside = filter (\<lambda>f. f \<notin> set targets) modified
       in if targets = [] \<or> modified = [] \<or> outside = [] then Inr None
          else Inr (Some
            [(''verdict'', JStr ''FAIL''), (''milestone_id'', milestone_id milestone),
             (''errors'', JList [JStr (''Worker modified files outside this milestone's target_files: ''
                @ repr_strs outside @ ''. Allowed target_files: '' @ repr_strs targets)]),
             (''out_of_scope_files'', JList (map JStr outside)),
             (''root_cause'', JStr
                ''The worker exceeded the milestone boundary instead of limiting edits to the files assigned by the orchestrator.''),
             (''fix_guidance'', JStr
                (''Revert out-of-scope changes and complete this milestone using only the declared target_files: ''
                 @ repr_strs targets @ ''.''))])))"

section \<open>Deterministic verdicts\<close>

text \<open>A number matched by a pattern.\<close>

definition digits_nat :: "string \<Rightarrow> nat" where
  "digits_nat ds = nat (digits_value ds)"

text \<open>The keyword of \<open>-k\<close> is only read when the command is a text.\<close>

definition keyword_parts :: parts where
  "keyword_parts = [(False, seqs [lit ''-k'', Spaces1]), (True, Plus (Chars (\<lambda>c. \<not> is_space c)))]"

definition detect_contract_replan :: "judge \<Rightarrow> obj \<Rightarrow> obj \<Rightarrow> int option \<Rightarrow> obj option res" where
  "detect_contract_replan j milestone worker_result rc =
     bindR (as_obj (dget milestone ''validation_contract'' (JObj []))) (\<lambda>contract.
     bindR (py_iter (dget worker_result ''files_modified'' (JList []))) (\<lambda>modified.
     bindR (anyR test_path modified) (\<lambda>touched.
       let command = dget contract ''command'' (JStr [])
       in if rc \<noteq> Some 5 then Inr None
          else bindR (str_in ''pytest'' command) (\<lambda>pytest.
            if \<not> pytest \<or> \<not> j_has_tests j \<or> touched then Inr None
            else (case command of
              JStr text \<Rightarrow>
                (let mid = dget milestone ''id'' JNull;
                     keyword = (case rx_groups keyword_parts text of
                                  Some [k] \<Rightarrow> '' The -k filter '' @ quoted k @ '' may not match any test names.''
                                | _ \<Rightarrow> [])
                 in Inr (Some
                   [(''verdict'', JStr ''REPLAN''), (''milestone_id'', mid),
                    (''validation_details'', JStr
                       (''Pytest collected zero tests (exit code 5) but test files exist. This is likely an Orchestrator validation command mismatch.''
                        @ keyword)),
                    (''errors'', JList [JStr ''pytest exit code 5: no tests collected'']),
                    (''root_cause'', JStr ''Validation contract command does not match existing tests.''),
                    (''fix_guidance'', JNull),
                    (''replan_guidance'', JStr
                       (''Fix validation_contract.command for '' @ py_str mid @ ''. Current command: '' @ py_repr command
                        @ ''. Inspect tests/test_*.py function names and use a matching -k expression (e.g. -k tokenize instead of -k tokenizer), or run the specific test functions directly.''))]))
            | _ \<Rightarrow> Inl TypeError)))))"

definition tests_file_re :: parts where
  "tests_file_re = [(True, seqs [lit ''tests/'', Plus (Chars (\<lambda>c. \<not> is_space c)), lit ''.py''])]"

definition suggested_command :: "obj \<Rightarrow> string" where
  "suggested_command contract =
     (let command = get_str contract ''command'' []
      in if dget contract ''type'' JNull = JStr ''pytest'' \<or> contains ''pytest'' command then command
         else if contains ''tests/'' command then
           (case rx_groups tests_file_re command of
              Some [f] \<Rightarrow> ''python -m pytest '' @ f @ '' --collect-only -q''
            | _ \<Rightarrow> ''python -m pytest <test_file> --collect-only -q'')
         else ''python -m pytest <test_file> --collect-only -q'')"

definition policy_reference_json :: "policy_reference \<Rightarrow> json" where
  "policy_reference_json ref =
     JObj [(''profile'', JStr (pr_profile ref)), (''shell_commands'', JList (map JStr (pr_commands ref))),
           (''python_modules'', JList (map JStr (pr_modules ref))),
           (''interpreter_tokens'', JList (map JStr (pr_interpreters ref))),
           (''recommended_contracts'', JList (map JStr (pr_contracts ref))),
           (''notes'', JList (map JStr (pr_notes ref)))]"

definition policy_guidance :: "obj \<Rightarrow> json \<Rightarrow> string \<Rightarrow> policy_reference \<Rightarrow> string" where
  "policy_guidance contract why ms_id ref =
     ''Sandbox policy denied the validation contract - the command never executed.'' @ nl
     # ''Denial reason: '' @ py_str why @ nl # nl
     # ''Allowed shell commands: '' @ py_join '', '' (pr_commands ref) @ nl
     # ''Allowed python -m modules: '' @ py_join '', '' (pr_modules ref) @ nl
     # ''Recommended replacements:'' @ nl
     # py_join [nl] (map (\<lambda>ex. ''  - '' @ ex) (pr_contracts ref)) @ nl # nl
     # ''Update '' @ ms_id
     @ '' validation_contract.command to a permitted form. For test-scaffolding milestones prefer: ''
     @ ticked (suggested_command contract)
     @ ''. Do not use grep, pip install, curl, or bash eval/exec. Do not try to bypass policy with string obfuscation.''"

definition detect_policy_denial_replan :: "obj \<Rightarrow> obj \<Rightarrow> obj \<Rightarrow> obj option" where
  "detect_policy_denial_replan milestone contract tool_result =
     (if \<not> truthy (dget tool_result ''policy_denied'' JNull) then None
      else
        (let why = dget tool_result ''stderr'' (JStr ''Policy denied (no reason provided)'');
             ref = describe_policy_for_profile ''validation'';
             ms_id = milestone_id milestone
         in Some
           [(''verdict'', JStr ''REPLAN''), (''milestone_id'', ms_id),
            (''validation_details'', JStr ''Validation contract was blocked by sandbox policy before execution.''),
            (''errors'', JList [why]),
            (''root_cause'', JStr
               ''The orchestrator-authored validation_contract.command uses commands or patterns not permitted in the validation sandbox profile.''),
            (''fix_guidance'', JNull),
            (''replan_guidance'', JStr (policy_guidance contract why (py_str ms_id) ref)),
            (''policy_reference'', policy_reference_json ref)]))"

definition pytest_ran_in_output :: "string \<Rightarrow> int option \<Rightarrow> bool" where
  "pytest_ran_in_output contract_output rc =
     (let out = py_lower contract_output; ran = rc \<in> set [Some 0, Some 1, Some 2, Some 5]
      in contains ''test session starts'' out
         \<or> contains ''tests collected'' out \<or> contains ''test collected'' out
         \<or> contains ''error collecting'' out
         \<or> contains ''short test summary'' out
         \<or> (contains ''collected'' out \<and> contains ''error'' out)
         \<or> (ran \<and> contains ''pytest'' out)
         \<or> (contains '' passed'' out \<and> contains ''failed'' out)
         \<or> (ran \<and> contains ''execution_mode: argv'' out))"

definition touched_tests :: "obj \<Rightarrow> obj \<Rightarrow> bool res" where
  "touched_tests milestone worker_result =
     bindR (py_iter (dget worker_result ''files_modified'' (JList []))) (\<lambda>modified.
     bindR (anyR (str_in ''tests/'') modified) (\<lambda>a.
       if a then Inr True
       else bindR (py_iter (dget milestone ''target_files'' (JList []))) (anyR (str_in ''tests/''))))"

definition detect_tdd_red_pass :: "obj \<Rightarrow> obj \<Rightarrow> string \<Rightarrow> int option \<Rightarrow> bool \<Rightarrow> obj option res" where
  "detect_tdd_red_pass milestone worker_result contract_output rc is_test =
     (let out = py_lower contract_output
      in if \<not> is_test \<or> rc \<noteq> Some 1 \<or> \<not> pytest_ran_in_output contract_output rc
            \<or> contains ''no module named pytest'' out \<or> contains ''policy denied'' out
            \<or> (\<not> contains ''modulenotfounderror'' out \<and> \<not> contains ''no module named'' out)
         then Inr None
         else bindR (touched_tests milestone worker_result) (\<lambda>touched.
           Inr (if touched then Some
             [(''verdict'', JStr ''PASS''), (''milestone_id'', dget milestone ''id'' JNull),
              (''validation_details'', JStr
                 ''TDD red phase: pytest ran successfully; oracle/baseline tests passed; target tests fail only because the implementation module is not present yet.'')]
             else None)))"

definition collected_parts :: parts where
  "collected_parts =
     [(True, Plus (Chars is_digit)),
      (False, seqs [Spaces1, lit_ci ''test'', Opt (lit_ci ''s''), Spaces1, lit_ci ''collected''])]"

definition at_least_parts :: parts where
  "at_least_parts = [(False, seqs [lit_ci ''at least'', Spaces1]), (True, Plus (Chars is_digit))]"

definition matched_number :: "parts \<Rightarrow> string \<Rightarrow> nat option" where
  "matched_number ps s = (case rx_groups ps s of Some [ds] \<Rightarrow> Some (digits_nat ds) | _ \<Rightarrow> None)"

definition detect_collect_only_pass :: "obj \<Rightarrow> obj \<Rightarrow> string \<Rightarrow> int option \<Rightarrow> bool \<Rightarrow> obj option" where
  "detect_collect_only_pass milestone contract contract_output rc is_test =
     (let collected = matched_number collected_parts contract_output;
          count = (case collected of Some n \<Rightarrow> n | None \<Rightarrow> 0);
          min_tests = (case matched_number at_least_parts (get_str contract ''pass_criteria'' []) of
                         Some n \<Rightarrow> n | None \<Rightarrow> 1)
      in if \<not> is_test then None
         else if \<not> contains ''--collect-only'' (get_str contract ''command'' []) \<and>
                 dget contract ''mode'' JNull \<noteq> JStr ''collect-only'' then None
         else if rc \<noteq> Some 0 \<and> rc \<noteq> Some 5 \<and> \<not> pytest_ran_in_output contract_output rc then None
         else if collected = None \<and> rc \<noteq> Some 0 then None
         else if count < min_tests \<and> rc \<noteq> Some 0 then None
         else Some
           [(''verdict'', JStr ''PASS''), (''milestone_id'', dget milestone ''id'' JNull),
            (''validation_details'', JStr
               (''Test scaffolding: pytest collected '' @ (if count = 0 then ''tests'' else nat_digits count)
                @ '' successfully (collect-only contract).''))])"

text \<open>
  All tests skipped. The files are visited in the order of a set: the first test file without a skip
  mark ends the search, and so does the first one with as many marks as tests.
\<close>

fun strings_only :: "json list \<Rightarrow> string list res" where
  "strings_only [] = Inr []"
| "strings_only (JStr s # xs) = bindR (strings_only xs) (\<lambda>ss. Inr (s # ss))"
| "strings_only (_ # xs) = Inl TypeError"

definition skip_mark :: string where "skip_mark = ''@pytest.mark.skip''"

definition test_def_parts :: parts where
  "test_def_parts =
     [(True, seqs [begin_line, Spaces, lit ''def'', Spaces1, lit ''test_'', Plus (Chars is_word)])]"

definition all_skipped_verdict :: "obj \<Rightarrow> obj" where
  "all_skipped_verdict milestone =
     [(''verdict'', JStr ''FAIL''), (''milestone_id'', dget milestone ''id'' JNull),
      (''errors'', JList [JStr
         ''Specification gaming: all tests are marked @pytest.mark.skip; tests must exercise the target API, not be deferred.'']),
      (''root_cause'', JStr
         ''Worker skipped every test instead of writing real assertions for the TDD red phase.''),
      (''fix_guidance'', JStr
         ''Remove @pytest.mark.skip decorators. Write real tests that import the target module and assert expected behavior. Missing implementation should fail with import errors, not skipped tests.'')]"

fun skip_scan :: "(string \<Rightarrow> string option) \<Rightarrow> string list \<Rightarrow> bool" where
  "skip_scan read [] = False"
| "skip_scan read (rel # rels) =
     (if \<not> contains ''tests/'' rel then skip_scan read rels
      else case read rel of
        None \<Rightarrow> skip_scan read rels
      | Some content \<Rightarrow>
          (let defs = length (rx_all test_def_parts content)
           in if \<not> contains skip_mark content then False
              else if 0 < defs \<and> defs \<le> py_count skip_mark content then True
              else skip_scan read rels))"

definition detect_all_skipped :: "judge \<Rightarrow> obj \<Rightarrow> obj \<Rightarrow> bool \<Rightarrow> obj option res" where
  "detect_all_skipped j milestone worker_result is_test =
     (if \<not> is_test then Inr None
      else bindR (touched_tests milestone worker_result) (\<lambda>touched.
        if \<not> touched then Inr None
        else
          bindR (py_iter (dget worker_result ''files_modified'' (JList []))) (\<lambda>modified.
          bindR (py_iter (dget milestone ''target_files'' (JList []))) (\<lambda>targets.
          bindR (strings_only (modified @ targets)) (\<lambda>rels.
            Inr (if skip_scan (j_file j) (j_order j (remdups rels)) then Some (all_skipped_verdict milestone)
                 else None))))))"

definition missing_dependency_fail :: "judge \<Rightarrow> obj \<Rightarrow> json \<Rightarrow> obj option traced" where
  "missing_dependency_fail j milestone target_files =
     (case (if truthy target_files then j_deps j target_files else None) of
        None \<Rightarrow> pureT None
      | Some report \<Rightarrow>
          (let ms_id = milestone_id milestone;
               dep_fail =
                 [(''verdict'', JStr ''FAIL''), (''milestone_id'', ms_id),
                  (''errors'', JList (map JStr (dr_message report # dr_errors report))),
                  (''root_cause'', JStr (''Target files import third-party packages that are not installed in the ''
                     @ j_env j @ ''.'')),
                  (''fix_guidance'', JStr (''Call install_dependency for each missing package (''
                     @ (if py_join '', '' (dr_packages report) = [] then ''see errors'' else py_join '', '' (dr_packages report))
                     @ ''), then ensure target files import successfully before signalling complete.''))]
           in bindT (emitT (j_emits j)
                [(''dependency.missing'',
                  [(''milestone_id'', ms_id), (''packages'', JList (map JStr (dr_packages report))),
                   (''imports'', JList (map JStr (dr_imports report))),
                   (''checked_files'', JList (map JStr (dr_checked report))), (''source'', JStr ''validator'')]),
                 validation_finished ms_id dep_fail ''missing_dependency'']) (\<lambda>_. pureT (Some dep_fail))))"

section \<open>Guards on the verdict of a model\<close>

definition toolchain_evidence_in_output :: "string \<Rightarrow> int option \<Rightarrow> bool" where
  "toolchain_evidence_in_output contract_output rc =
     (pytest_ran_in_output contract_output rc \<or> contains ''execution_mode: argv'' (py_lower contract_output))"

definition is_shell_interpreter_miss :: "string \<Rightarrow> int option \<Rightarrow> bool" where
  "is_shell_interpreter_miss contract_output rc =
     (rc = Some 127 \<and> contains ''execution_mode: shell'' (py_lower contract_output))"

definition infra_markers :: "string list" where
  "infra_markers =
     [''pip install'', ''install pytest'', ''environment setup'', ''testing framework'', ''not installed'',
      ''correctly installed'', ''virtual environment'', ''virtual environments'', ''path is configured'',
      ''interpreter'', ''interpreter path'', ''missing interpreter'', ''pytest is available'',
      ''requirements.txt installation'', ''container/ci environment'', ''infrastructure'', ''sandbox'',
      ''symlink'', ''command not found'', ''no such file or directory'', ''misconfigured'',
      ''broken environment'', ''environment's virtual environment'', ''validation environment'']"

text \<open>\<open>parsed.setdefault("errors", []).append(message)\<close>: only a list has \<open>append\<close>.\<close>

definition append_error :: "string \<Rightarrow> obj \<Rightarrow> obj res" where
  "append_error message parsed =
     (case dget parsed ''errors'' (JList []) of
        JList es \<Rightarrow> Inr (AList.update ''errors'' (JList (es @ [JStr message])) parsed)
      | _ \<Rightarrow> Inl AttributeError)"

definition downgrade :: "string \<Rightarrow> string \<Rightarrow> obj \<Rightarrow> obj res" where
  "downgrade message cause parsed =
     bindR (append_error message
         (AList.update ''replan_guidance'' JNull (AList.update ''verdict'' (JStr ''FAIL'') parsed))) (\<lambda>d.
       Inr (AList.update ''root_cause'' (py_or (dget d ''root_cause'' JNull) (JStr cause)) d))"

definition block_infrastructure_replan :: "obj \<Rightarrow> string \<Rightarrow> int option \<Rightarrow> obj res" where
  "block_infrastructure_replan parsed contract_output rc =
     (let guidance = py_lower (get_str parsed ''replan_guidance'' []);
          shell_127 = is_shell_interpreter_miss contract_output rc;
          infra = list_ex (\<lambda>m. contains m guidance) infra_markers
      in if dget parsed ''verdict'' JNull \<noteq> JStr ''REPLAN'' then Inr parsed
         else if \<not> infra \<and> \<not> shell_127 then Inr parsed
         else if \<not> toolchain_evidence_in_output contract_output rc \<and> \<not> shell_127 then Inr parsed
         else if shell_127 then
           downgrade ''Rejected infrastructure REPLAN: validation ran in shell mode and returned exit 127. Prefer `python -m pytest`, `python -m py_compile`, or `python -m flake8` so the harness compiles the contract to argv.''
             ''Validator misclassified a shell-mode command-not-found failure as a broken session environment.'' parsed
         else
           downgrade ''Rejected infrastructure REPLAN: session toolchain is available; failure is not missing tooling.''
             ''Validator misclassified a normal test failure as missing infrastructure.'' parsed)"

definition valid_replan_guidance :: "json \<Rightarrow> bool" where
  "valid_replan_guidance value =
     (case value of
        JStr s \<Rightarrow>
          (let cleaned = py_lower (py_strip s)
           in cleaned \<noteq> [] \<and> cleaned \<notin> set [''null'', ''none'', ''n/a'', ''na''])
      | _ \<Rightarrow> False)"

definition raw_verdict :: "obj \<Rightarrow> string" where
  "raw_verdict parsed = py_upper (get_strip parsed ''verdict'' ''FAIL'')"

definition normalize_validator_verdict :: "obj \<Rightarrow> int option \<Rightarrow> obj" where
  "normalize_validator_verdict parsed rc =
     (let raw = raw_verdict parsed;
          named = (if starts_with ''PASS'' raw then ''PASS''
                   else if starts_with ''REPLAN'' raw then ''REPLAN'' else ''FAIL'');
          guided = valid_replan_guidance (dget parsed ''replan_guidance'' JNull);
          parsed1 = AList.update ''verdict'' (JStr named) parsed;
          parsed2 = (if named \<noteq> ''REPLAN'' \<and> guided then AList.update ''verdict'' (JStr ''REPLAN'') parsed1 else parsed1)
      in if dget parsed2 ''verdict'' JNull = JStr ''REPLAN'' \<and> \<not> guided then
           (if rc = Some 0
            then dsetdefault ''validation_details''
                   (JStr ''Contract command exited 0; ignored invalid REPLAN verdict.'')
                   (AList.update ''verdict'' (JStr ''PASS'') parsed2)
            else dsetdefault ''errors'' (JList [JStr ''Validator emitted REPLAN without replan_guidance.''])
                   (AList.update ''verdict'' (JStr ''FAIL'') parsed2))
         else parsed2)"

section \<open>The whole validator\<close>

definition bounded_workspace_diff :: "obj option \<Rightarrow> string" where
  "bounded_workspace_diff git_diff =
     (case git_diff of
        None \<Rightarrow> []
      | Some result \<Rightarrow>
          (let diff = py_str (py_or (dget result ''diff'' (JStr [])) (JStr []))
           in if \<not> truthy (dget result ''success'' JNull) \<or> py_strip diff = [] \<or> starts_with ''(no'' diff then []
              else
                (let shown = (if 4000 < length diff
                              then take 500 diff @ nl # ''... [diff truncated '' @ nat_digits (length diff)
                                   @ '' chars total] ...'' @ nl # last_n 3400 diff
                              else diff)
                 in ''## Workspace Diff (uncommitted changes)'' @ nl # ''```diff'' @ nl # shown @ nl # ''```'' @ [nl, nl])))"

definition lines_text :: "string list \<Rightarrow> string" where
  "lines_text ls = concat (map (\<lambda>l. l @ [nl]) ls)"

definition contract_output_of :: "obj \<Rightarrow> string" where
  "contract_output_of tool_result =
     py_join [nl]
       [''stdout:'', get_str tool_result ''stdout'' [], ''stderr:'', get_str tool_result ''stderr'' [],
        ''returncode: '' @ py_str (dget tool_result ''returncode'' (JInt (- 1))),
        ''python: '' @ get_str tool_result ''python'' [],
        ''execution_mode: '' @ get_str tool_result ''execution_mode'' ''unknown'',
        ''policy_denied: '' @ py_str (dget tool_result ''policy_denied'' (JBool False))]"

definition validator_prompt :: "judge \<Rightarrow> obj \<Rightarrow> obj \<Rightarrow> obj \<Rightarrow> string \<Rightarrow> int \<Rightarrow> bool \<Rightarrow> string" where
  "validator_prompt j milestone worker_result contract contract_output retry_count is_test =
     j_manual j @ [nl, nl] @ lines_text
       [''---'', [], ''## Milestone Under Review'',
        ''**ID**: '' @ py_str (milestone_id milestone),
        ''**Title**: '' @ get_str milestone ''title'' [],
        ''**Description**: '' @ get_str milestone ''description'' [],
        ''**Target files (worker may ONLY edit these)**: '' @ py_str (dget milestone ''target_files'' (JList [])), [],
        ''**Acceptance criteria**: '' @ json_dumps None (dget milestone ''acceptance_criteria'' (JList [])),
        ''**Validation profile**: '' @ get_str milestone ''validation_profile'' ''auto'', [],
        ''**Test-scaffolding milestone**: '' @ py_str (JBool is_test), [],
        ''## Validation Contract'', ''```json'', json_dumps (Some 2) (JObj contract), ''```'', [],
        ''## Contract Execution Output'', ''```'',
        if contract_output = [] then ''(no command run)'' else contract_output, ''```'', []]
     @ bounded_workspace_diff (j_diff j)
     @ lines_text
       [''## Worker Handoff'',
        ''Files modified: '' @ py_str (dget worker_result ''files_modified'' (JList [])),
        ''Summary: '' @ get_str worker_result ''summary'' [], [],
        ''**Retry attempt**: '' @ int_str (retry_count + 1) @ '' of 3'']
     @ (if contains ''policy_denied: True'' contract_output
        then nl # lines_text [''## Sandbox Policy Reference (validation profile)'', format_policy_reference ''validation'']
        else [])
     @ nl # ''Emit your PASS, FAIL, or REPLAN JSON verdict now:''"

definition failure_context :: "string \<Rightarrow> string \<Rightarrow> obj \<Rightarrow> obj" where
  "failure_context sig contract_output verdict =
     (let v = dsetdefault ''failure_signature'' (JStr sig) verdict
      in if contract_output = [] then v
         else dsetdefault ''contract_output'' (JStr (take 2000 contract_output)) v)"

definition contract_ok_verdict :: "json \<Rightarrow> obj" where
  "contract_ok_verdict ms_id =
     [(''verdict'', JStr ''PASS''), (''milestone_id'', ms_id),
      (''validation_details'', JStr ''Contract command exited 0.'')]"

definition unparseable_verdict :: "json \<Rightarrow> string \<Rightarrow> obj" where
  "unparseable_verdict ms_id text =
     [(''verdict'', JStr ''FAIL''), (''milestone_id'', ms_id),
      (''errors'', JList [JStr ''Could not parse validator response.'']),
      (''fix_guidance'', JStr (take 500 text))]"

text \<open>The reply of the model, from the text on.\<close>

definition judge_reply :: "judge \<Rightarrow> json \<Rightarrow> string \<Rightarrow> string \<Rightarrow> int option \<Rightarrow> string \<Rightarrow> string \<Rightarrow> obj traced" where
  "judge_reply j ms_id command contract_output rc sig text =
     (case parse_json_from_text (j_reader j) (j_repair j) text of
        None \<Rightarrow>
          if command \<noteq> [] \<and> contains ''returncode: 0'' contract_output then
            bindT (emitT (j_emits j) [validation_finished ms_id (contract_ok_verdict ms_id) ''unparseable_contract_ok''])
              (\<lambda>_. pureT (contract_ok_verdict ms_id))
          else
            (let fail = unparseable_verdict ms_id text
             in bindT (emitT (j_emits j) [validation_finished ms_id fail ''unparseable''])
                  (\<lambda>_. pureT (failure_context sig contract_output fail)))
      | Some raw \<Rightarrow>
          bindT (liftT (block_infrastructure_replan (normalize_validator_verdict raw rc) contract_output rc)) (\<lambda>parsed.
            let final = (if rc = Some 0 \<and> dget parsed ''verdict'' JNull = JStr ''REPLAN''
                         then dsetdefault ''validation_details'' (JStr ''Contract command exited 0.'')
                                (AList.update ''verdict'' (JStr ''PASS'') parsed)
                         else parsed)
            in bindT (emitT (j_emits j) [validation_finished ms_id final ''llm''])
                 (\<lambda>_. pureT (failure_context sig contract_output final))))"

text \<open>Without a command there is no output and no exit code.\<close>

definition run_output :: "string \<Rightarrow> obj \<Rightarrow> string" where
  "run_output command tool_result = (if command = [] then [] else contract_output_of tool_result)"

definition run_returncode :: "string \<Rightarrow> obj \<Rightarrow> int option" where
  "run_returncode command tool_result =
     (if command = [] then None else case dget tool_result ''returncode'' JNull of JInt i \<Rightarrow> Some i | _ \<Rightarrow> None)"

text \<open>What follows the contract's run: the deterministic checks, then the model.\<close>

definition announce :: "judge \<Rightarrow> json \<Rightarrow> string \<Rightarrow> obj \<Rightarrow> obj \<Rightarrow> obj traced" where
  "announce j ms_id path verdict result =
     bindT (emitT (j_emits j) [validation_finished ms_id verdict path]) (\<lambda>_. pureT result)"

definition judge_run ::
    "judge \<Rightarrow> obj \<Rightarrow> obj \<Rightarrow> obj \<Rightarrow> string \<Rightarrow> obj \<Rightarrow> int \<Rightarrow> bool \<Rightarrow> obj traced" where
  "judge_run j milestone worker_result contract command tool_result retry_count is_test =
     (let ms_id = milestone_id milestone;
          contract_output = run_output command tool_result;
          rc = run_returncode command tool_result;
          sig = failure_signature (j_sha j) (py_str ms_id) command contract_output
                  (case rc of None \<Rightarrow> JNull | Some i \<Rightarrow> JInt i)
      in case detect_policy_denial_replan milestone contract tool_result of
           Some replan \<Rightarrow> announce j ms_id ''policy_denied'' replan (failure_context sig contract_output replan)
         | None \<Rightarrow>
             bindT (liftT (detect_contract_replan j milestone worker_result rc)) (\<lambda>r1. case r1 of
               Some replan \<Rightarrow> announce j ms_id ''deterministic_replan'' replan (failure_context sig contract_output replan)
             | None \<Rightarrow>
                 bindT (liftT (detect_tdd_red_pass milestone worker_result contract_output rc is_test)) (\<lambda>r2. case r2 of
                   Some pass \<Rightarrow> announce j ms_id ''tdd_red'' pass pass
                 | None \<Rightarrow>
                     bindT (liftT (detect_all_skipped j milestone worker_result is_test)) (\<lambda>r3. case r3 of
                       Some fail \<Rightarrow> announce j ms_id ''all_skipped'' fail (failure_context sig contract_output fail)
                     | None \<Rightarrow>
                         (case detect_collect_only_pass milestone contract contract_output rc is_test of
                            Some pass \<Rightarrow> announce j ms_id ''collect_only'' pass pass
                          | None \<Rightarrow>
                              if rc = Some 0 then
                                bindT (missing_dependency_fail j milestone (dget milestone ''target_files'' (JList []))) (\<lambda>r4.
                                  case r4 of
                                    Some fail \<Rightarrow> pureT (failure_context sig contract_output fail)
                                  | None \<Rightarrow> announce j ms_id ''fast_path'' (contract_ok_verdict ms_id) (contract_ok_verdict ms_id))
                              else judge_reply j ms_id command contract_output rc sig
                                     (j_llm j (validator_prompt j milestone worker_result contract contract_output
                                        retry_count is_test)))))))"

definition spec_gaming_verdict :: "judge \<Rightarrow> json \<Rightarrow> string \<Rightarrow> json list \<Rightarrow> obj" where
  "spec_gaming_verdict j ms_id command edits =
     [(''verdict'', JStr ''FAIL''), (''milestone_id'', ms_id),
      (''errors'', JList [JStr (''Specification Gaming Detected: Worker altered test scripts ''
         @ py_str (JList edits) @ '' to force a pass.'')]),
      (''root_cause'', JStr
         ''Worker altered the validation test files instead of correcting implementation code.''),
      (''fix_guidance'', JStr
         ''Revert all modifications to test files. Correct the implementation code in your assigned source files so that it correctly passes the original, unmodified test suite.''),
      (''failure_signature'', JStr (failure_signature (j_sha j) (py_str ms_id) command
         (''spec gaming: '' @ py_str (JList edits)) JNull))]"

definition uncompilable_verdict :: "json \<Rightarrow> string \<Rightarrow> obj" where
  "uncompilable_verdict ms_id compile_error =
     [(''verdict'', JStr ''REPLAN''), (''milestone_id'', ms_id), (''errors'', JList [JStr compile_error]),
      (''root_cause'', JStr ''The work packet cannot be compiled into validation checks.''),
      (''replan_guidance'', JStr
         ''Repair acceptance_criteria and validation_profile in the packet; do not add a validation_contract.'')]"

definition execute_and_judge :: "judge \<Rightarrow> obj \<Rightarrow> obj \<Rightarrow> obj \<Rightarrow> int \<Rightarrow> bool \<Rightarrow> obj traced" where
  "execute_and_judge j milestone worker_result contract retry_count is_test =
     (let ms_id = milestone_id milestone; command = get_str contract ''command'' []
      in if py_lower (get_str contract ''type'' []) = ''ui_smoke'' then
           bindT (emitT (j_emits j) [(''validation.started'',
                    [(''milestone_id'', ms_id), (''contract_type'', JStr ''ui_smoke'')])]) (\<lambda>_.
             announce j ms_id ''ui_smoke'' (j_ui j contract) (j_ui j contract))
         else
           bindT (emitT (j_emits j) [(''validation.started'', [(''milestone_id'', ms_id), (''command'', JStr command)])]) (\<lambda>_.
             if command = [] then judge_run j milestone worker_result contract command [] retry_count is_test
             else
               (let r = j_execute j contract
                in bindT (emitT (j_emits j) [(''validation.contract_run'',
                       [(''milestone_id'', ms_id), (''returncode'', dget r ''returncode'' (JInt (- 1))),
                        (''python'', dget r ''python'' (JStr [])),
                        (''execution_mode'', dget r ''execution_mode'' (JStr ''unknown'')),
                        (''policy_denied'', dget r ''policy_denied'' (JBool False))])]) (\<lambda>_.
                     judge_run j milestone worker_result contract command r retry_count is_test))))"

definition run_validator ::
    "judge \<Rightarrow> probe \<Rightarrow> int list \<Rightarrow> ppath \<Rightarrow> obj \<Rightarrow> obj \<Rightarrow> int \<Rightarrow> bool \<Rightarrow> obj traced" where
  "run_validator j pb ports ws milestone worker_result retry_count is_test =
     (let ms_id = milestone_id milestone
      in bindT (liftT (compile_validation_contract pb ports ws milestone)) (\<lambda>compiled. case compiled of
           Inr compile_error \<Rightarrow> pureT (uncompilable_verdict ms_id compile_error)
         | Inl contract \<Rightarrow>
             (let command = get_str contract ''command'' []
              in bindT (liftT (unauthorized_test_edits worker_result)) (\<lambda>edits.
                if edits \<noteq> [] \<and> \<not> is_test then
                  (let fail = spec_gaming_verdict j ms_id command edits
                   in bindT (emitT (j_emits j) [(''validation.spec_gaming'',
                          [(''milestone_id'', ms_id), (''unauthorized_edits'', JList edits)])]) (\<lambda>_.
                        announce j ms_id ''spec_gaming'' fail fail))
                else
                  bindT (liftT (target_file_boundary_fail milestone worker_result)) (\<lambda>boundary. case boundary of
                    Some bf \<Rightarrow>
                      (let outside = dget bf ''out_of_scope_files'' (JList []);
                           fail = AList.update ''failure_signature'' (JStr (failure_signature (j_sha j) (py_str ms_id)
                                    command (''out of scope: '' @ py_str outside) JNull)) bf
                       in bindT (emitT (j_emits j) [(''validation.spec_gaming'',
                              [(''milestone_id'', ms_id), (''unauthorized_edits'', outside),
                               (''reason'', JStr ''out_of_scope_target_files'')])]) (\<lambda>_.
                            announce j ms_id ''out_of_scope'' fail fail))
                  | None \<Rightarrow> execute_and_judge j milestone worker_result contract retry_count is_test)))))"

section \<open>Lemmas\<close>

definition verdict_of :: "obj \<Rightarrow> json" where
  "verdict_of v = dget v ''verdict'' JNull"

abbreviation PASS :: json where "PASS \<equiv> JStr ''PASS''"
abbreviation FAIL :: json where "FAIL \<equiv> JStr ''FAIL''"
abbreviation REPLAN :: json where "REPLAN \<equiv> JStr ''REPLAN''"

text \<open>A well-formed verdict: one of three, and a request to replan says what to change.\<close>

definition verdict_ok :: "obj \<Rightarrow> bool" where
  "verdict_ok v =
     (verdict_of v \<in> {PASS, FAIL, REPLAN} \<and>
      (verdict_of v = REPLAN \<longrightarrow> valid_replan_guidance (dget v ''replan_guidance'' JNull)))"

lemma dget_dsetdefault: "dget (dsetdefault k v d) k' w = (if k' = k then dget d k v else dget d k' w)"
  by (auto simp: dget_def map_of_dsetdefault split: option.splits)

lemma dget_failure_context [simp]:
  "k \<noteq> ''failure_signature'' \<Longrightarrow> k \<noteq> ''contract_output'' \<Longrightarrow>
   dget (failure_context sig out v) k d = dget v k d"
  by (simp add: failure_context_def Let_def dget_dsetdefault)

lemma verdict_failure_context [simp]:
  "verdict_of (failure_context sig out v) = verdict_of v"
  "verdict_ok (failure_context sig out v) = verdict_ok v"
  by (simp_all add: verdict_of_def verdict_ok_def)

lemma result_announce [simp]: "result_of (announce j i p v r) = Inr r"
  by (simp add: announce_def)

lemma verdict_contract_ok [simp]:
  "verdict_of (contract_ok_verdict i) = PASS" "verdict_ok (contract_ok_verdict i)"
  by (simp_all add: contract_ok_verdict_def verdict_ok_def verdict_of_def dget_def)

lemma verdict_unparseable [simp]: "verdict_of (unparseable_verdict i t) = FAIL"
  by (simp add: unparseable_verdict_def verdict_of_def dget_def)

lemma normalize_cases:
  defines "guided raw \<equiv> valid_replan_guidance (dget raw ''replan_guidance'' JNull)"
  obtains "verdict_of (normalize_validator_verdict raw rc) = REPLAN" "guided raw"
      "dget (normalize_validator_verdict raw rc) ''replan_guidance'' JNull = dget raw ''replan_guidance'' JNull"
    | "verdict_of (normalize_validator_verdict raw rc) = PASS" "\<not> guided raw"
      "starts_with ''PASS'' (raw_verdict raw) \<or> rc = Some 0"
    | "verdict_of (normalize_validator_verdict raw rc) = FAIL" "\<not> guided raw"
proof -
  let ?named = "if starts_with ''PASS'' (raw_verdict raw) then ''PASS''
                else if starts_with ''REPLAN'' (raw_verdict raw) then ''REPLAN'' else ''FAIL''"
  consider (guided) "guided raw" | (empty) "\<not> guided raw" "?named = ''REPLAN''" | (plain) "\<not> guided raw" "?named \<noteq> ''REPLAN''"
    by blast
  then show thesis
  proof cases
    case guided
    then have "normalize_validator_verdict raw rc =
        (if ?named \<noteq> ''REPLAN'' then AList.update ''verdict'' REPLAN (AList.update ''verdict'' (JStr ?named) raw)
         else AList.update ''verdict'' (JStr ?named) raw)"
      by (simp add: normalize_validator_verdict_def Let_def guided_def)
    then show ?thesis using that(1) guided by (simp add: verdict_of_def split: if_splits)
  next
    case empty
    then show ?thesis
      using that(2,3)
      by (cases "rc = Some 0")
         (simp_all add: normalize_validator_verdict_def Let_def guided_def verdict_of_def dget_dsetdefault)
  next
    case plain
    then have n: "normalize_validator_verdict raw rc = AList.update ''verdict'' (JStr ?named) raw"
      by (simp add: normalize_validator_verdict_def Let_def guided_def)
    show ?thesis
      using that(2,3) plain unfolding n by (simp add: verdict_of_def split: if_splits)
  qed
qed

lemma normalize_verdict_ok: "verdict_ok (normalize_validator_verdict raw rc)"
  by (rule normalize_cases [of raw rc]) (simp_all add: verdict_ok_def)

lemma downgrade_verdict: "downgrade m c p = Inr q \<Longrightarrow> verdict_of q = FAIL"
  by (auto simp: downgrade_def append_error_def verdict_of_def split: json.split_asm)

lemma block_cases:
  "block_infrastructure_replan p out rc = Inr q \<Longrightarrow> q = p \<or> verdict_of q = FAIL"
  by (auto simp: block_infrastructure_replan_def Let_def dest: downgrade_verdict split: if_split_asm)

lemma judge_reply_cases:
  assumes "result_of (judge_reply j i command out rc sig reply) = Inr v"
  obtains (forged) "parse_json_from_text (j_reader j) (j_repair j) reply = None" "command \<noteq> []"
      "contains ''returncode: 0'' out" "v = contract_ok_verdict i"
    | (unparseable) "verdict_of v = FAIL"
    | (parsed) raw where "parse_json_from_text (j_reader j) (j_repair j) reply = Some raw" "rc \<noteq> Some 0"
      "verdict_of v = FAIL \<or> (\<exists>w. w = normalize_validator_verdict raw rc \<and> v = failure_context sig out w)"
    | (green) "rc = Some 0" "verdict_of v = PASS \<or> verdict_of v = FAIL"
proof (cases "parse_json_from_text (j_reader j) (j_repair j) reply")
  case None
  then show ?thesis
    using assms forged unparseable
    by (auto simp: judge_reply_def Let_def split: if_split_asm)
next
  case (Some raw)
  let ?n = "normalize_validator_verdict raw rc"
  obtain p where p: "block_infrastructure_replan ?n out rc = Inr p"
    and v: "v = failure_context sig out (if rc = Some 0 \<and> dget p ''verdict'' JNull = REPLAN
        then dsetdefault ''validation_details'' (JStr ''Contract command exited 0.'') (AList.update ''verdict'' PASS p)
        else p)"
    using assms Some by (auto simp: judge_reply_def Let_def)
  have pv: "p = ?n \<or> verdict_of p = FAIL" using block_cases [OF p] .
  show ?thesis
  proof (cases "rc = Some 0")
    case True
    have "verdict_of ?n \<in> {PASS, FAIL, REPLAN}" using normalize_verdict_ok [of raw rc] by (simp add: verdict_ok_def)
    then have "verdict_of p \<in> {PASS, FAIL, REPLAN}" using pv by auto
    then show ?thesis
      using green True unfolding v by (auto simp: verdict_of_def dget_dsetdefault split: if_splits)
  next
    case False
    then show ?thesis using parsed [OF Some False] pv v by auto
  qed
qed

lemma judge_reply_ok:
  assumes "result_of (judge_reply j i command out rc sig reply) = Inr v"
  shows "verdict_ok v"
  using assms
proof (cases rule: judge_reply_cases)
  case (parsed raw)
  then show ?thesis using normalize_verdict_ok [of raw rc] by (auto simp: verdict_ok_def)
qed (auto simp: verdict_ok_def)

text \<open>The stages of \<open>judge_run\<close>, by the one that decides.\<close>

lemma judge_run_cases:
  assumes "result_of (judge_run j ms wr contract command r k is_test) = Inr v"
  obtains (policy) replan sig where "detect_policy_denial_replan ms contract r = Some replan"
      "v = failure_context sig (run_output command r) replan"
    | (replan) replan sig where "detect_contract_replan j ms wr (run_returncode command r) = Inr (Some replan)"
      "v = failure_context sig (run_output command r) replan"
    | (tdd) "detect_tdd_red_pass ms wr (run_output command r) (run_returncode command r) is_test = Inr (Some v)"
    | (skipped) fail sig where "detect_all_skipped j ms wr is_test = Inr (Some fail)"
      "v = failure_context sig (run_output command r) fail"
    | (collect) "detect_collect_only_pass ms contract (run_output command r) (run_returncode command r) is_test = Some v"
    | (deps) fail sig where "run_returncode command r = Some 0"
      "result_of (missing_dependency_fail j ms (dget ms ''target_files'' (JList []))) = Inr (Some fail)"
      "v = failure_context sig (run_output command r) fail"
    | (fast) "run_returncode command r = Some 0"
      "result_of (missing_dependency_fail j ms (dget ms ''target_files'' (JList []))) = Inr None"
      "v = contract_ok_verdict (milestone_id ms)"
    | (model) sig prompt where "run_returncode command r \<noteq> Some 0"
      "result_of (judge_reply j (milestone_id ms) command (run_output command r) (run_returncode command r) sig
         (j_llm j prompt)) = Inr v"
proof (cases "detect_policy_denial_replan ms contract r")
  case (Some x)
  then show ?thesis using assms policy by (auto simp: judge_run_def Let_def)
next
  case p: None
  obtain r1 where r1: "detect_contract_replan j ms wr (run_returncode command r) = Inr r1"
    using assms p by (auto simp: judge_run_def Let_def)
  show ?thesis
  proof (cases r1)
    case (Some x)
    then show ?thesis using assms p r1 replan by (auto simp: judge_run_def Let_def)
  next
    case n1: None
    obtain r2 where r2: "detect_tdd_red_pass ms wr (run_output command r) (run_returncode command r) is_test = Inr r2"
      using assms p r1 n1 by (auto simp: judge_run_def Let_def)
    show ?thesis
    proof (cases r2)
      case (Some x)
      then show ?thesis using assms p r1 n1 r2 tdd by (auto simp: judge_run_def Let_def)
    next
      case n2: None
      obtain r3 where r3: "detect_all_skipped j ms wr is_test = Inr r3"
        using assms p r1 n1 r2 n2 by (auto simp: judge_run_def Let_def)
      show ?thesis
      proof (cases r3)
        case (Some x)
        then show ?thesis using assms p r1 n1 r2 n2 r3 skipped by (auto simp: judge_run_def Let_def)
      next
        case n3: None
        note facts = assms p r1 n1 r2 n2 r3 n3
        show ?thesis
        proof (cases "detect_collect_only_pass ms contract (run_output command r) (run_returncode command r) is_test")
          case (Some x)
          then show ?thesis using facts collect by (auto simp: judge_run_def Let_def)
        next
          case n4: None
          show ?thesis
          proof (cases "run_returncode command r = Some 0")
            case True
            then obtain r4 where r4: "result_of (missing_dependency_fail j ms (dget ms ''target_files'' (JList []))) = Inr r4"
              using facts n4 by (auto simp: judge_run_def Let_def)
            then show ?thesis
              using facts n4 True deps fast by (cases r4) (auto simp: judge_run_def Let_def)
          next
            case False
            then show ?thesis using facts n4 model by (auto simp: judge_run_def Let_def)
          qed
        qed
      qed
    qed
  qed
qed

lemma py_strip_Cons: "\<not> is_space c \<Longrightarrow> \<exists>t. py_strip (c # s) = c # t"
  by (simp add: py_strip_def dropWhile_append3)

lemma guidance_text:
  assumes "\<not> is_space c" "lower_char c \<noteq> CHR ''n''"
  shows "valid_replan_guidance (JStr (c # s))"
proof -
  obtain t where "py_strip (c # s) = c # t" using py_strip_Cons [OF assms(1)] by blast
  then show ?thesis using assms(2) by (simp add: valid_replan_guidance_def Let_def py_lower_def)
qed

lemma first_letters:
  "\<not> is_space (CHR ''F'')" "lower_char (CHR ''F'') \<noteq> CHR ''n''"
  "\<not> is_space (CHR ''S'')" "lower_char (CHR ''S'') \<noteq> CHR ''n''"
  "\<not> is_space (CHR ''R'')" "lower_char (CHR ''R'') \<noteq> CHR ''n''"
  by code_simp+

lemma contract_replan_ok:
  assumes "detect_contract_replan j ms wr rc = Inr (Some v)"
  shows "verdict_ok v \<and> verdict_of v = REPLAN \<and> rc = Some 5"
proof -
  have g: "valid_replan_guidance (JStr (''Fix validation_contract.command for '' @ x))" for x
    using guidance_text [OF first_letters(1,2)] by simp
  show ?thesis
    using assms g
    by (auto simp: detect_contract_replan_def Let_def verdict_ok_def verdict_of_def dget_def
        split: if_split_asm json.split_asm)
qed

lemma policy_replan_ok:
  assumes "detect_policy_denial_replan ms contract r = Some v"
  shows "verdict_ok v \<and> verdict_of v = REPLAN \<and> truthy (dget r ''policy_denied'' JNull)"
proof -
  have g: "valid_replan_guidance (JStr (policy_guidance contract why i ref))" for why i ref
    using guidance_text [OF first_letters(3,4)] by (simp add: policy_guidance_def)
  show ?thesis
    using assms g
    by (auto simp: detect_policy_denial_replan_def Let_def verdict_ok_def verdict_of_def dget_def split: if_split_asm)
qed

lemma tdd_pass_ok:
  "detect_tdd_red_pass ms wr out rc is_test = Inr (Some v) \<Longrightarrow> verdict_ok v \<and> verdict_of v = PASS \<and> is_test"
  by (auto simp: detect_tdd_red_pass_def Let_def verdict_ok_def verdict_of_def dget_def split: if_split_asm)

lemma collect_pass_ok:
  "detect_collect_only_pass ms contract out rc is_test = Some v \<Longrightarrow> verdict_ok v \<and> verdict_of v = PASS \<and> is_test"
  by (auto simp: detect_collect_only_pass_def Let_def verdict_ok_def verdict_of_def dget_def split: if_split_asm)

lemma all_skipped_ok:
  "detect_all_skipped j ms wr is_test = Inr (Some v) \<Longrightarrow> verdict_ok v \<and> verdict_of v = FAIL"
  by (auto simp: detect_all_skipped_def all_skipped_verdict_def verdict_ok_def verdict_of_def dget_def
      split: if_split_asm)

lemma missing_dependency_None:
  "result_of (missing_dependency_fail j ms targets) = Inr None \<longleftrightarrow> (truthy targets \<longrightarrow> j_deps j targets = None)"
  by (auto simp: missing_dependency_fail_def Let_def split: option.splits if_splits)

lemma missing_dependency_ok:
  "result_of (missing_dependency_fail j ms targets) = Inr (Some v) \<Longrightarrow> verdict_ok v \<and> verdict_of v = FAIL"
  by (auto simp: missing_dependency_fail_def Let_def verdict_ok_def verdict_of_def dget_def
      split: option.split_asm if_split_asm)

lemma judge_run_ok:
  assumes "result_of (judge_run j ms wr contract command r k is_test) = Inr v"
  shows "verdict_ok v \<and> (verdict_of v = REPLAN \<longrightarrow>
           run_returncode command r \<noteq> Some 0 \<or> truthy (dget r ''policy_denied'' JNull))"
  using assms
proof (cases rule: judge_run_cases)
  case policy
  then show ?thesis using policy_replan_ok by auto
next
  case replan
  then show ?thesis using contract_replan_ok by fastforce
next
  case tdd
  then show ?thesis using tdd_pass_ok by fastforce
next
  case skipped
  then show ?thesis using all_skipped_ok by fastforce
next
  case collect
  then show ?thesis using collect_pass_ok by fastforce
next
  case deps
  then show ?thesis using missing_dependency_ok by fastforce
next
  case fast
  then show ?thesis by simp
next
  case model
  then show ?thesis using judge_reply_ok by blast
qed

text \<open>The result of running a contract, empty when there is nothing to run.\<close>

definition run_contract :: "judge \<Rightarrow> obj \<Rightarrow> obj" where
  "run_contract j contract = (if get_str contract ''command'' [] = [] then [] else j_execute j contract)"

definition in_scope :: "obj \<Rightarrow> obj \<Rightarrow> bool \<Rightarrow> bool" where
  "in_scope milestone worker_result is_test =
     ((is_test \<or> unauthorized_test_edits worker_result = Inr []) \<and>
      target_file_boundary_fail milestone worker_result = Inr None)"

lemma run_validator_cases:
  assumes "result_of (run_validator j pb ports ws ms wr k is_test) = Inr v"
  obtains (uncompiled) e where "compile_validation_contract pb ports ws ms = Inr (Inr e)"
        "v = uncompilable_verdict (milestone_id ms) e"
    | (gaming) command edits where "v = spec_gaming_verdict j (milestone_id ms) command edits"
    | (outside) bf sig where "target_file_boundary_fail ms wr = Inr (Some bf)"
        "v = AList.update ''failure_signature'' sig bf"
    | (ui) contract where "compile_validation_contract pb ports ws ms = Inr (Inl contract)"
        "py_lower (get_str contract ''type'' []) = ''ui_smoke''" "in_scope ms wr is_test" "v = j_ui j contract"
    | (run) contract where "compile_validation_contract pb ports ws ms = Inr (Inl contract)"
        "py_lower (get_str contract ''type'' []) \<noteq> ''ui_smoke''" "in_scope ms wr is_test"
        "result_of (judge_run j ms wr contract (get_str contract ''command'' []) (run_contract j contract) k is_test) = Inr v"
proof -
  obtain c where c: "compile_validation_contract pb ports ws ms = Inr c"
    using assms by (auto simp: run_validator_def Let_def)
  show ?thesis
  proof (cases c)
    case (Inr e)
    then show ?thesis using assms c uncompiled by (auto simp: run_validator_def Let_def)
  next
    case (Inl contract)
    obtain edits where e: "unauthorized_test_edits wr = Inr edits"
      using assms c Inl by (auto simp: run_validator_def Let_def)
    show ?thesis
    proof (cases "edits \<noteq> [] \<and> \<not> is_test")
      case True
      then show ?thesis using assms c Inl e gaming by (auto simp: run_validator_def Let_def)
    next
      case allowed: False
      obtain b where b: "target_file_boundary_fail ms wr = Inr b"
        using assms c Inl e allowed by (auto simp: run_validator_def Let_def)
      show ?thesis
      proof (cases b)
        case (Some bf)
        then show ?thesis using assms c Inl e allowed b outside by (auto simp: run_validator_def Let_def)
      next
        case None
        then have x: "result_of (execute_and_judge j ms wr contract k is_test) = Inr v"
          using assms c Inl e allowed b by (auto simp: run_validator_def Let_def)
        have sc: "in_scope ms wr is_test" using allowed e b None by (auto simp: in_scope_def)
        show ?thesis
          using x ui [OF c [unfolded Inl] _ sc] run [OF c [unfolded Inl] _ sc]
          by (auto simp: execute_and_judge_def Let_def run_contract_def split: if_split_asm)
      qed
    qed
  qed
qed

lemma uncompilable_ok: "verdict_ok (uncompilable_verdict i e)" "verdict_of (uncompilable_verdict i e) = REPLAN"
  using guidance_text [OF first_letters(5,6)]
  by (simp_all add: uncompilable_verdict_def verdict_ok_def verdict_of_def dget_def)

lemma spec_gaming_ok: "verdict_ok (spec_gaming_verdict j i c e)" "verdict_of (spec_gaming_verdict j i c e) = FAIL"
  by (simp_all add: spec_gaming_verdict_def verdict_ok_def verdict_of_def dget_def)

lemma boundary_ok:
  "target_file_boundary_fail ms wr = Inr (Some bf) \<Longrightarrow> verdict_of (AList.update ''failure_signature'' x bf) = FAIL"
  by (auto simp: target_file_boundary_fail_def Let_def verdict_of_def dget_def split: if_split_asm)

lemma compiled_type:
  assumes "compile_validation_contract pb ports ws ms = Inr (Inl contract)" "map_of contract ''type'' \<noteq> Some (JStr ''ui_smoke'')"
  shows "py_lower (get_str contract ''type'' []) \<noteq> ''ui_smoke''"
proof -
  have low: "py_lower ''lint'' = ''lint''" "py_lower ''structural'' = ''structural''" "py_lower ''pytest'' = ''pytest''"
    by code_simp+
  show ?thesis
    by (rule compile_cases [OF assms(1)])
       (use assms(2) low compile_ui_Inl in \<open>fastforce simp: get_str_def dget_def\<close>)
qed

section \<open>Properties\<close>

abbreviation demo_judge :: "int \<Rightarrow> string \<Rightarrow> string \<Rightarrow> judge" where
  "demo_judge rc out reply \<equiv>
     \<lparr>j_execute = (\<lambda>_. [(''returncode'', JInt rc), (''stdout'', JStr out), (''stderr'', JStr [])]),
      j_ui = (\<lambda>_. [(''verdict'', JStr ''PASS'')]), j_deps = (\<lambda>_. None), j_env = ''venv'', j_file = (\<lambda>_. None),
      j_order = (\<lambda>fs. fs), j_has_tests = True, j_diff = None, j_manual = ''m'', j_llm = (\<lambda>_. reply),
      j_reader = \<lparr>rd_float = (\<lambda>s. s), rd_code = (\<lambda>_. ''?'')\<rparr>, j_repair = (\<lambda>_. None), j_sha = (\<lambda>s. s),
      j_emits = False\<rparr>"

abbreviation plain_probe :: probe where "plain_probe \<equiv> demo_probe\<lparr>pb_is_file := (\<lambda>_. False)\<rparr>"

abbreviation demo_milestone :: obj where
  "demo_milestone \<equiv> [(''id'', JStr ''M1''), (''target_files'', JList [JStr ''a.py'']),
     (''acceptance_criteria'', JList [JStr ''c''])]"

abbreviation demo_work :: obj where
  "demo_work \<equiv> [(''files_modified'', JList [JStr ''a.py''])]"



text \<open>
  The validator's verdict can be acted on: it is PASS, FAIL or REPLAN, every REPLAN of a
  contract that is no browser check carries a meaningful instruction, and no REPLAN is issued over a
  contract that ran and exited with 0.
\<close>

lemma replan_is_actionable:
  assumes "result_of (run_validator j pb ports ws milestone worker_result k is_test) = Inr v"
    and "\<forall>c. compile_validation_contract pb ports ws milestone = Inr (Inl c) \<longrightarrow>
           map_of c ''type'' \<noteq> Some (JStr ''ui_smoke'')"
  shows "verdict_of v \<in> {PASS, FAIL, REPLAN} \<and>
    (verdict_of v = REPLAN \<longrightarrow> valid_replan_guidance (dget v ''replan_guidance'' JNull) \<and>
      (\<forall>c. compile_validation_contract pb ports ws milestone = Inr (Inl c) \<longrightarrow>
         run_returncode (get_str c ''command'' []) (run_contract j c) = Some 0 \<longrightarrow>
         truthy (dget (run_contract j c) ''policy_denied'' JNull)))"
  using assms(1)
proof (cases rule: run_validator_cases)
  case (uncompiled e)
  then show ?thesis using uncompilable_ok [of "milestone_id milestone" e] by (auto simp: verdict_ok_def)
next
  case gaming
  then show ?thesis using spec_gaming_ok by simp
next
  case outside
  then show ?thesis using boundary_ok by simp
next
  case (ui contract)
  then show ?thesis using assms(2) compiled_type by blast
next
  case (run contract)
  then show ?thesis using judge_run_ok [OF run(4)] by (auto simp: verdict_ok_def)
qed

text \<open>
  A failing contract can be waved through. When the model's reply cannot be parsed, a
  contract that exited with a number other than 0 is passed if its output merely contains the text
  \<open>returncode: 0\<close> - which the program under test can print. The branch is meant for contracts that
  exited with 0, but those never reach the model.
\<close>

lemma printed_returncode_passes:
  assumes "compile_validation_contract pb ports ws milestone = Inr (Inl contract)"
    and "py_lower (get_str contract ''type'' []) \<noteq> ''ui_smoke''" and "get_str contract ''command'' [] \<noteq> []"
    and "in_scope milestone worker_result False"
    and "detect_contract_replan j milestone worker_result (Some i) = Inr None" and "i \<noteq> 0"
    and "dget (j_execute j contract) ''returncode'' JNull = JInt i"
    and "dget (j_execute j contract) ''stdout'' (JStr []) = JStr out" and "contains ''returncode: 0'' out"
    and "\<not> truthy (dget (j_execute j contract) ''policy_denied'' JNull)"
    and "\<forall>prompt. parse_json_from_text (j_reader j) (j_repair j) (j_llm j prompt) = None"
  shows "result_of (run_validator j pb ports ws milestone worker_result k False)
           = Inr (contract_ok_verdict (milestone_id milestone))"
proof -
  let ?r = "j_execute j contract" let ?cmd = "get_str contract ''command'' []"
  have rc: "run_returncode ?cmd ?r = Some i" using assms(3,7) by (simp add: run_returncode_def)
  have "sublist out (contract_output_of ?r)"
  proof -
    have "get_str ?r ''stdout'' [] = out" using assms(8) by (simp add: get_str_def)
    then show ?thesis by (auto simp: contract_output_of_def sublist_appendI sublist_def intro: exI [of _ "''stdout:'' @ [nl]"])
  qed
  then have out: "contains ''returncode: 0'' (run_output ?cmd ?r)"
    using assms(3,9) sublist_order.order_trans by (auto simp: contains_sublist run_output_def)
  have policy: "detect_policy_denial_replan milestone contract ?r = None"
    using assms(10) by (simp add: detect_policy_denial_replan_def)
  have "result_of (judge_run j milestone worker_result contract ?cmd ?r k False)
      = Inr (contract_ok_verdict (milestone_id milestone))"
    using policy assms(3,5,6,11) rc out
    by (simp add: judge_run_def Let_def detect_tdd_red_pass_def detect_all_skipped_def detect_collect_only_pass_def
        judge_reply_def)
  then have "result_of (execute_and_judge j milestone worker_result contract k False)
      = Inr (contract_ok_verdict (milestone_id milestone))"
    using assms(2,3) by (simp add: execute_and_judge_def Let_def)
  then show ?thesis using assms(1,4) by (auto simp: run_validator_def Let_def in_scope_def)
qed

end
