(* ===== verification/Loops.thy ===== *)
theory Loops
  imports Prelude
begin

text \<open>
  Loops that act on a state and may not end. \<open>run_loop\<close> repeats a turn until it answers, under a bound
  on the number of turns; None means that the bound was reached. Two locales carry the reasoning: a
  turn with an invariant and a result it guarantees, and a turn that also makes progress, for which a
  sufficient bound is known.
\<close>

primrec run_loop :: "('s \<Rightarrow> 's \<times> 'r option) \<Rightarrow> nat \<Rightarrow> 's \<Rightarrow> ('s \<times> 'r) option" where
  "run_loop turn 0 s = None"
| "run_loop turn (Suc n) s =
     (case turn s of
        (s', Some r) \<Rightarrow> Some (s', r)
      | (s', None) \<Rightarrow> run_loop turn n s')"

lemma run_loop_mono: "run_loop turn n s = Some x \<Longrightarrow> n \<le> m \<Longrightarrow> run_loop turn m s = Some x"
proof (induction n arbitrary: s m)
  case (Suc n)
  then obtain k where m: "m = Suc k" by (cases m) auto
  show ?case using Suc.prems Suc.IH [of "fst (turn s)" k] by (auto simp: m split: prod.splits option.splits)
qed simp

lemma run_loop_stuck:
  assumes "P s" and "\<And>s. P s \<Longrightarrow> snd (turn s) = None \<and> P (fst (turn s))"
  shows "run_loop turn n s = None"
  using assms(1)
proof (induction n arbitrary: s)
  case (Suc n)
  obtain s' r where t: "turn s = (s', r)" by fastforce
  have "r = None" "P s'" using assms(2) [OF Suc.prems] t by auto
  then show ?case using Suc.IH t by simp
qed simp

locale turn_invariant =
  fixes turn :: "'s \<Rightarrow> 's \<times> 'r option" and inv :: "'s \<Rightarrow> bool" and post :: "'s \<Rightarrow> 'r \<Rightarrow> bool"
  assumes turn_inv: "inv s \<Longrightarrow> turn s = (s', None) \<Longrightarrow> inv s'"
    and turn_post: "inv s \<Longrightarrow> turn s = (s', Some r) \<Longrightarrow> post s' r"
begin

lemma loop_post: "inv s \<Longrightarrow> run_loop turn n s = Some (s', r) \<Longrightarrow> post s' r"
proof (induction n arbitrary: s)
  case (Suc n)
  obtain t x where t: "turn s = (t, x)" by fastforce
  show ?case
  proof (cases x)
    case None
    then show ?thesis using Suc.IH [of t] turn_inv [OF Suc.prems(1)] Suc.prems(2) t by simp
  next
    case (Some y)
    then show ?thesis using turn_post [OF Suc.prems(1)] Suc.prems(2) t by simp
  qed
qed simp

end

locale progressing_turn = turn_invariant +
  fixes potential :: "'a \<Rightarrow> nat"
  assumes progress: "inv s \<Longrightarrow> turn s = (s', None) \<Longrightarrow> potential s' < potential s"
begin

lemma loop_returns: "inv s \<Longrightarrow> potential s < n \<Longrightarrow> \<exists>s' r. run_loop turn n s = Some (s', r) \<and> post s' r"
proof (induction n arbitrary: s)
  case (Suc n)
  obtain t x where t: "turn s = (t, x)" by fastforce
  show ?case
  proof (cases x)
    case None
    then have "potential t < n" using progress [OF Suc.prems(1)] Suc.prems(2) t by fastforce
    then show ?thesis using Suc.IH turn_inv [OF Suc.prems(1)] t None by simp
  next
    case (Some y)
    then show ?thesis using turn_post [OF Suc.prems(1)] t by simp
  qed
qed simp

end

end
