(* ===== verification/WorkerText.thy ===== *)
theory WorkerText
  imports AgentText ValidationCompiler ToolContracts
begin

text \<open>
  The parts of \<open>src/agents/worker.py\<close> around its loop: the shape of a tool-call reply, the messages the
  worker is given, the automatic run of the contract. Dashes and arrows outside ASCII are written as
  hyphens. The limits of the runtime settings are a record.
\<close>

section \<open>Limits\<close>

record limits =
  l_batch :: nat
  l_history :: int
  l_autorun :: nat
  l_same_fail :: int
  l_consec_fail :: int
  l_stdout :: nat
  l_stderr :: nat
  l_nudge :: int
  l_strong_nudge :: int

section \<open>Tool calls of a reply\<close>

definition missing_tool_error :: string where
  "missing_tool_error =
     ''Missing '' @ dquote # ''tool'' @ dquote # '' key. Emit a tool call {'' @ dquote # ''tool'' @ dquote
     # '': '' @ dquote # ''<name>'' @ dquote # '', '' @ dquote # ''args'' @ dquote # '': {...}, '' @ dquote
     # ''reasoning'' @ dquote # '': '' @ dquote # ''...'' @ dquote # ''}, a batch {'' @ dquote # ''calls'' @ dquote
     # '': [...]}, or a status object ('' @ dquote # ''complete'' @ dquote # '' / '' @ dquote # ''blocked'' @ dquote # '').''"

definition empty_batch_error :: string where
  "empty_batch_error =
     ''The '' @ dquote # ''calls'' @ dquote # '' array must contain objects with '' @ dquote # ''tool'' @ dquote
     # '' and '' @ dquote # ''args'' @ dquote # ''.''"

definition truncation_note :: "nat \<Rightarrow> string" where
  "truncation_note cap =
     ''NOTE: batch truncated to '' @ nat_digits cap @ '' calls - emit the remaining calls next turn.''"

text \<open>The calls with a note, or the error message.\<close>

definition extract_tool_calls :: "limits \<Rightarrow> obj \<Rightarrow> string + obj list \<times> string option" where
  "extract_tool_calls lim parsed =
     (let single = (if truthy (dget parsed ''tool'' JNull) then Inr ([parsed], None) else Inl missing_tool_error)
      in case dget parsed ''calls'' JNull of
           JList (x # xs) \<Rightarrow>
             (let calls = List.map_filter (\<lambda>c. case c of JObj d \<Rightarrow> Some d | _ \<Rightarrow> None) (x # xs); cap = l_batch lim
              in if calls = [] then Inl empty_batch_error
                 else if cap < length calls then Inr (take cap calls, Some (truncation_note cap))
                 else Inr (calls, None))
         | _ \<Rightarrow> single)"

section \<open>Milestones as the worker sees them\<close>

definition normalize_target :: "json \<Rightarrow> string res" where
  "normalize_target p = (case p of JStr s \<Rightarrow> Inr (normalize_workspace_path s) | _ \<Rightarrow> Inl AttributeError)"

definition worker_targets :: "obj \<Rightarrow> string list res" where
  "worker_targets milestone = bindR (py_iter (dget milestone ''target_files'' (JList []))) (mapR normalize_target)"

definition normalize_milestone_for_worker :: "obj \<Rightarrow> obj res" where
  "normalize_milestone_for_worker milestone =
     bindR (worker_targets milestone) (\<lambda>targets.
     bindR (py_iter (dget milestone ''acceptance_criteria'' (JList []))) (\<lambda>criteria.
       Inr (AList.update ''acceptance_criteria'' (JList (map JStr (stripped_strings criteria)))
             (AList.update ''target_files'' (JList (map JStr targets)) milestone))))"

definition worker_is_ui :: "probe \<Rightarrow> ppath \<Rightarrow> obj \<Rightarrow> obj \<Rightarrow> bool res" where
  "worker_is_ui pb ws milestone contract =
     (if py_lower (get_str milestone ''validation_profile'' []) = ''ui'' then Inr True
      else if py_lower (get_str contract ''type'' []) = ''ui_smoke'' then Inr True
      else is_ui_milestone pb ws milestone)"

definition text_lines :: "string list \<Rightarrow> string" where
  "text_lines ls = concat (map (\<lambda>l. l @ [nl]) ls)"

definition backticked :: "string \<Rightarrow> string" where
  "backticked s = CHR ''`'' # s @ ''`''"

definition ui_milestone_rules :: "obj \<Rightarrow> string" where
  "ui_milestone_rules ms =
     (if py_lower (get_str ms ''validation_profile'' []) \<noteq> ''ui'' then []
      else text_lines [''- UI PROFILE: keep manual UI checks lightweight. Validator smoke is the official test pass.''])"

definition scaffold_path :: "string \<Rightarrow> bool" where
  "scaffold_path p = (starts_with ''tests/'' p \<or> starts_with ''test_'' p \<or> contains ''/test_'' p)"

definition red_phase_note :: "obj \<Rightarrow> string list \<Rightarrow> string" where
  "red_phase_note ms targets =
     (if py_lower (get_str ms ''validation_profile'' []) = ''test_scaffold'' \<or>
         (targets \<noteq> [] \<and> list_all scaffold_path targets)
      then text_lines [''- TDD RED PHASE: this is a test-scaffolding milestone. The module under test does NOT exist yet BY DESIGN. Collection errors / ModuleNotFoundError for it in the auto-run output are EXPECTED - do not try to fix them. Write the tests, then signal complete.'']
      else [])"

definition worker_milestone_brief :: "obj \<Rightarrow> string list \<Rightarrow> string list \<Rightarrow> string" where
  "worker_milestone_brief ms targets criteria =
     text_lines
       [''## REQUIRED deliverables (must all exist before complete)'',
        if targets = [] then ''- (none listed)'' else py_join [nl] (map (\<lambda>p. ''- '' @ backticked p) targets), [],
        ''## Acceptance criteria (the Validator will compile the checks)'',
        py_join [nl] (map (\<lambda>c. ''- '' @ c) criteria), [],
        ''Validation profile: '' @ get_str ms ''validation_profile'' ''auto'', [],
        ''## Rules for this milestone'',
        ''- Work ONLY on the required deliverables above - writes to other files are rejected.'',
        ''- Do NOT create `__init__.py` or other scaffolding unless listed above.'',
        ''- Ignore empty directories not listed above.'']
     @ red_phase_note ms targets @ ui_milestone_rules ms
     @ text_lines [''- Every response must be a single JSON object (tool call, batch, complete, or blocked).'']"

text \<open>\<open>tree\<close> is the result of \<open>list_directory\<close>, \<open>root\<close> the workspace root.\<close>

definition workspace_context_block :: "obj \<Rightarrow> string \<Rightarrow> string list \<Rightarrow> string" where
  "workspace_context_block tree_result root targets =
     (let tree = (if truthy (dget tree_result ''success'' JNull) then get_str tree_result ''tree'' ''(empty)''
                  else ''(unavailable)'');
          note = (if targets = [] then []
                  else nl # ''- Required files for this milestone: '' @ py_join '', '' (map backticked targets)
                       @ nl # ''- Other files/dirs in the tree are context only - the harness REJECTS writes to files not listed above.'' @ [nl])
      in text_lines
           [''## Workspace Context'', ''- Project root (your cwd): '' @ backticked root,
            ''- All tool paths are relative to this directory.'',
            ''- Do NOT prefix paths with `workspace/`.'', note,
            ''### Current directory tree'', ''```'', tree, ''```''])"

definition user_preferences_block :: "obj \<Rightarrow> string" where
  "user_preferences_block plan =
     (let text = py_strip (py_str (py_or (dget plan ''user_preferences'' JNull) (JStr [])))
      in if text = [] then [] else ''## User Preferences (authoritative)'' @ nl # take 3000 text @ [nl, nl])"

section \<open>Memory\<close>

text \<open>\<open>memory\<close> is None without memory; otherwise what \<open>get_error_constraints\<close> returns.\<close>

definition memory_constraints_block :: "string res option \<Rightarrow> obj \<Rightarrow> string" where
  "memory_constraints_block memory milestone =
     (case memory of
        None \<Rightarrow> [] | Some (Inl _) \<Rightarrow> []
      | Some (Inr constraints) \<Rightarrow>
          if constraints = [] then []
          else if milestone = [] then nl # constraints @ [nl]
          else (case worker_targets milestone of
            Inl _ \<Rightarrow> []
          | Inr targets \<Rightarrow>
              (let lines = line_list constraints; header = (if lines = [] then constraints else hd lines);
                   relevant = filter (\<lambda>l. list_ex (\<lambda>t. contains t l) targets) (drop 1 lines)
               in nl # (if targets = [] \<or> relevant = [] then constraints
                        else header @ nl # py_join [nl] relevant) @ [nl])))"

definition memory_grounding :: "string res option \<Rightarrow> string" where
  "memory_grounding hints =
     (case hints of
        Some (Inr h) \<Rightarrow> if h = [] then [] else [nl, nl] @ ''## Memory Grounding'' @ nl # h
      | _ \<Rightarrow> [])"

text \<open>\<open>s.split(p, 1)[1]\<close> and \<open>s.rsplit(p, 1)[0]\<close>.\<close>

fun after_first :: "string \<Rightarrow> string \<Rightarrow> string" where
  "after_first p [] = []"
| "after_first p (c # cs) = (if starts_with p (c # cs) then drop (length p) (c # cs) else after_first p cs)"

fun before_last :: "string \<Rightarrow> string \<Rightarrow> string" where
  "before_last p [] = []"
| "before_last p (c # cs) =
     (if contains p cs then c # before_last p cs
      else if starts_with p (c # cs) then [] else c # before_last p cs)"

definition constraint_core :: "string \<Rightarrow> string" where
  "constraint_core line =
     (let c0 = py_strip line; c1 = (if starts_with ''- '' c0 then drop 2 c0 else c0);
          c2 = (if contains ''failed validation with error:'' c1 then after_first ''failed validation with error:'' c1 else c1);
          c3 = before_last ''Do not replicate'' c2
      in rev (dropWhile (\<lambda>c. c = CHR ''.'') (rev (py_strip (py_join '' '' (split_ws c3))))))"

definition drop_redundant_constraints :: "string \<Rightarrow> string \<Rightarrow> string" where
  "drop_redundant_constraints constraints error_feedback =
     (case line_list (py_strip constraints) of
        [] \<Rightarrow> []
      | header # body \<Rightarrow>
          (let feedback = py_join '' '' (split_ws error_feedback);
               kept = filter (\<lambda>l. \<not> (40 < length (constraint_core l) \<and> contains (constraint_core l) feedback)) body
           in if kept = [] then [] else header @ nl # py_join [nl] kept))"

section \<open>Messages\<close>

definition retry_entry_message :: "string option \<Rightarrow> string res option \<Rightarrow> obj \<Rightarrow> string list \<Rightarrow> string" where
  "retry_entry_message error_feedback memory milestone missing =
     (let feedback = (case error_feedback of Some f \<Rightarrow> f | None \<Rightarrow> []);
          c0 = memory_constraints_block memory milestone;
          c1 = (if py_strip c0 = [] then [] else if feedback \<noteq> [] then drop_redundant_constraints c0 feedback else c0)
      in py_join [nl]
        ([''## RETRY - the Validator rejected your previous attempt.'',
          ''Your full conversation above shows everything you already did. Do NOT redo completed work; apply a MINIMAL fix with patch_file.'']
         @ (if feedback = [] then [] else [nl # ''### Validator failure report'' @ nl # feedback])
         @ (if py_strip c1 = [] then [] else [c1])
         @ (if missing = [] then [] else [nl # ''Files still missing on disk: '' @ repr_strs missing])
         @ [nl # ''Emit your next JSON object now.'']))"

definition ui_handoff_nudge :: "limits \<Rightarrow> int \<Rightarrow> int \<Rightarrow> string" where
  "ui_handoff_nudge lim calls_since_write total_ui_calls =
     (if total_ui_calls < l_nudge lim then []
      else if l_strong_nudge lim \<le> calls_since_write then
        ''## UI handoff reminder'' @ nl # ''You have run many UI checks without changing code. Unless you are fixing a specific validator failure, signal `complete` now - the validator will run full browser smoke tests on its own server.''
      else if l_nudge lim \<le> calls_since_write then
        ''## UI handoff reminder'' @ nl # ''Prefer targeted code fixes over repeated UI probes. When deliverables look ready (or after fixing validator feedback), signal `complete` and let the validator run official smoke checks.''
      else [])"

definition json_like :: "(string \<times> string) list \<Rightarrow> string" where
  "json_like kvs = ''{'' @ py_join '', '' (map (\<lambda>(k, v). dquote # k @ dquote # '': '' @ v) kvs) @ ''}''"

definition dq :: "string \<Rightarrow> string" where
  "dq s = dquote # s @ [dquote]"

definition worker_invalid_json_message :: "string \<Rightarrow> string list \<Rightarrow> string list \<Rightarrow> string" where
  "worker_invalid_json_message raw targets missing =
     (let missing_line =
        (if missing \<noteq> [] then ''Files still missing on disk: '' @ repr_strs missing
         else if targets \<noteq> [] then ''All target files exist on disk - fix JSON format, then continue or signal complete.''
         else ''Fix JSON format, then continue or signal complete.'')
      in text_lines
           [''INVALID OUTPUT. You must emit EXACTLY ONE valid JSON object.'',
            ''No markdown fences, no prose before or after the JSON.'', [], ''Tool call:'',
            json_like [(''tool'', dq ''<name>''), (''args'', ''{...}''), (''reasoning'', dq ''<one sentence>'')], [],
            ''Batch (up to 3 calls):'',
            json_like [(''calls'', ''['' @ json_like [(''tool'', dq ''<name>''), (''args'', ''{...}''), (''reasoning'', dq ''...'')] @ '', ...]'')], [],
            ''Done:'',
            json_like [(''status'', dq ''complete''), (''summary'', dq ''...''), (''files_modified'', ''['' @ dq ''...'' @ '']'')], []]
         @ missing_line
         @ (if looks_like_tool_call_attempt raw then
              [nl, nl] @ text_lines
                [''Your last output LOOKED like JSON but failed to parse.'',
                 ''Common cause: unescaped double quotes inside `write_file` -> `args` -> `content`.'',
                 ''Python code belongs INSIDE the JSON string - the outer JSON must stay valid.'', [], ''Fix ONE of:'',
                 ''1. Escape inner double quotes: evaluate('' @ [bslash] @ dquote # ''2 + 3'' @ [bslash] @ dquote # '')'',
                 ''2. Use single quotes in Python inside the JSON string: evaluate('' @ quoted ''2 + 3'' @ '')'']
              @ ''3. For small edits: read_file + patch_file instead of rewriting the whole file''
            else []))"

section \<open>The automatic contract run\<close>

text \<open>\<open>autorun_wanted\<close> is the guard, \<open>autorun_report\<close> the block made from the result.\<close>

definition autorun_wanted :: "bool \<Rightarrow> obj \<Rightarrow> bool" where
  "autorun_wanted sandbox contract =
     (get_strip contract ''command'' [] \<noteq> [] \<and> py_lower (get_str contract ''type'' []) \<noteq> ''ui_smoke'' \<and> sandbox)"

definition autorun_report :: "limits \<Rightarrow> obj \<Rightarrow> obj \<Rightarrow> string" where
  "autorun_report lim contract result =
     (let rc = dget result ''returncode'' (JInt (- 1));
          tail = (\<lambda>k n. slice_from (- int n) (py_str (py_or (dget result k (JStr [])) (JStr []))))
      in py_join [nl]
        [''## Auto-run of validation contract (harness, free feedback)'',
         ''Command: '' @ backticked (get_strip contract ''command'' []),
         ''Result: '' @ (if rc = JInt 0 then ''PASS (exit 0)'' else ''FAILING (exit '' @ py_str rc @ '')''),
         ''```'', ''stdout (tail):'', tail ''stdout'' (l_stdout lim), ''stderr (tail):'', tail ''stderr'' (l_stderr lim), ''```''])"

definition autorun_event :: "json \<Rightarrow> obj \<Rightarrow> string \<times> obj" where
  "autorun_event ms_id result =
     (''worker.contract_autorun'',
      [(''milestone_id'', ms_id), (''returncode'', dget result ''returncode'' (JInt (- 1))),
       (''execution_mode'', dget result ''execution_mode'' (JStr ''unknown'')),
       (''policy_denied'', dget result ''policy_denied'' (JBool False))])"

end
