(* ===== verification/Worker.thy ===== *)
theory Worker
  imports Trace WorkerText Loops FileOps
begin

text \<open>
  \<open>run_worker\<close> of \<open>src/agents/worker.py\<close>: the loop in which a model edits files through tools. The
  state of the loop is a record, one turn is a function of it, a batch of calls is a loop inside a turn.
  The rest of the program is a record of operations on a world \<open>'w\<close>: the model, the tools, the tool
  search, the dependency check, the contract run, the browser servers.
\<close>

section \<open>State\<close>

record 'w wenv =
  we_limits :: limits
  we_budget :: int
  we_emits :: bool
  we_role :: string
  we_cancelled :: "'w \<Rightarrow> bool"
  we_llm :: "message list \<Rightarrow> 'w \<Rightarrow> string \<times> 'w"
  we_dispatch :: "string \<Rightarrow> obj \<Rightarrow> 'w \<Rightarrow> obj \<times> 'w"
  we_search :: "(string \<Rightarrow> int \<Rightarrow> obj) option"
  we_missing :: "string list \<Rightarrow> 'w \<Rightarrow> string list res"
  we_deps :: "string list \<Rightarrow> 'w \<Rightarrow> dependency_report option"
  we_execute :: "obj \<Rightarrow> 'w \<Rightarrow> obj \<times> 'w"
  we_sandbox :: bool
  we_created :: "'w \<Rightarrow> string list"
  we_stop :: "string \<Rightarrow> 'w \<Rightarrow> 'w"
  we_reader :: reader
  we_repair :: "string \<Rightarrow> json option"
  we_sha :: "string \<Rightarrow> string"
  we_duration :: json

text \<open>What one run of the worker is about.\<close>

record job =
  jb_id :: json
  jb_targets :: "string list"
  jb_contract :: obj
  jb_ui :: bool

record 'w wstate =
  ws_conversation :: "message list"
  ws_count :: int
  ws_bad_json :: nat
  ws_autoruns :: nat
  ws_files :: "json list"
  ws_failures :: "(string \<times> int) list"
  ws_consecutive :: int
  ws_active :: "string list"
  ws_discovered :: "string list"
  ws_servers :: "string list"
  ws_ui_since_write :: int
  ws_ui_total :: int
  ws_world :: 'w
  ws_events :: "event list"

definition emitw :: "'w wenv \<Rightarrow> event \<Rightarrow> 'w wstate \<Rightarrow> 'w wstate" where
  "emitw env e st = (if we_emits env then st\<lparr>ws_events := ws_events st @ [e]\<rparr> else st)"

definition say_both :: "string \<Rightarrow> string \<Rightarrow> 'w wstate \<Rightarrow> 'w wstate" where
  "say_both raw answer st =
     st\<lparr>ws_conversation := ws_conversation st @
         [\<lparr>m_role = ''assistant'', m_content = raw\<rparr>, \<lparr>m_role = ''user'', m_content = answer\<rparr>]\<rparr>"

definition message_json :: "message \<Rightarrow> json" where
  "message_json m = JObj [(''role'', JStr (m_role m)), (''content'', JStr (m_content m))]"

text \<open>\<open>_finish\<close>: the servers started in this run are stopped, and the result is completed.\<close>

definition finish :: "'w wenv \<Rightarrow> obj \<Rightarrow> 'w wstate \<Rightarrow> 'w wstate \<times> obj res option" where
  "finish env result st =
     (let w = fold (we_stop env) (ws_servers st) (ws_world st); st1 = st\<lparr>ws_world := w, ws_servers := []\<rparr>
      in (st1, Some (Inr (result @
           [(''conversation'', JList (map message_json (ws_conversation st))),
            (''created_files'', jstrs (we_created env w)),
            (''active_tools'', jstrs (py_sorted_set (ws_active st))),
            (''discovered_tools'', jstrs (py_sorted_set (ws_discovered st))),
            (''failure_state'', JObj [(''counts'', JObj (map (\<lambda>(k, n). (k, JInt n)) (ws_failures st))),
                                    (''consecutive'', JInt (ws_consecutive st))])]))))"

definition failing :: "pyexn \<Rightarrow> 'w wstate \<Rightarrow> 'w wstate \<times> obj res option" where
  "failing e st = (st, Some (Inl e))"

text \<open>
  \<open>list(set(files_modified))\<close>: without duplicates, in no specified order (here the order of the list);
  lists and dictionaries cannot be elements of a set.
\<close>

definition hashable :: "json \<Rightarrow> bool" where
  "hashable j = (\<not> is_list j \<and> \<not> is_obj j)"

definition distinct_files :: "'w wstate \<Rightarrow> json res" where
  "distinct_files st =
     (if list_all hashable (ws_files st) then Inr (JList (remdups (ws_files st))) else Inl TypeError)"

section \<open>One call\<close>

record 'w batch =
  bt_state :: "'w wstate"
  bt_texts :: "string list"
  bt_wrote :: bool
  bt_discovery :: bool
  bt_breaker :: "string option"

definition on_state :: "('w wstate \<Rightarrow> 'w wstate) \<Rightarrow> 'w batch \<Rightarrow> 'w batch" where
  "on_state f b = b\<lparr>bt_state := f (bt_state b)\<rparr>"

definition add_text :: "string \<Rightarrow> 'w batch \<Rightarrow> 'w batch" where
  "add_text t b = b\<lparr>bt_texts := bt_texts b @ [t]\<rparr>"

text \<open>The count of the failure's signature, the consecutive failures, and the circuit breaker.\<close>

definition note_failure :: "limits \<Rightarrow> string \<Rightarrow> string \<Rightarrow> 'w batch \<Rightarrow> 'w batch" where
  "note_failure lim tool sig b =
     (let st = bt_state b; n = dget (ws_failures st) sig 0 + 1; c = ws_consecutive st + 1
      in b\<lparr>bt_state := st\<lparr>ws_failures := AList.update sig n (ws_failures st), ws_consecutive := c\<rparr>,
           bt_breaker :=
             (if l_same_fail lim \<le> n then Some (''Repeated identical tool failure ('' @ sig @ '') for ''
                 @ backticked tool @ ''. Do not retry the same call; use search_tools or change the arguments.'')
              else if l_consec_fail lim \<le> c then Some (int_str (l_consec_fail lim)
                 @ '' consecutive tool calls failed. Stop guessing and request clarification.'')
              else bt_breaker b)\<rparr>)"

definition result_text :: "string \<Rightarrow> string \<Rightarrow> string" where
  "result_text tool body = ''Tool result for '' @ backticked tool @ '':'' @ nl # ''```json'' @ nl # body @ nl # ''```''"

definition tool_result_event :: "'w wenv \<Rightarrow> job \<Rightarrow> string \<Rightarrow> json \<Rightarrow> obj \<Rightarrow> json \<Rightarrow> int \<Rightarrow> json \<Rightarrow> event" where
  "tool_result_event env job tool args result success index duration =
     (''tool.result'',
      [(''milestone_id'', jb_id job), (''tool'', JStr tool), (''success'', success), (''call_index'', JInt index),
       (''role'', JStr (we_role env))] @ event_diagnostics (we_sha env) tool args result duration)"

text \<open>A call that fails validation. The answer tells whether the batch is left.\<close>

definition args_obj :: "json \<Rightarrow> obj" where
  "args_obj j = (case j of JObj d \<Rightarrow> d | _ \<Rightarrow> [])"

definition reject_call :: "'w wenv \<Rightarrow> job \<Rightarrow> string \<Rightarrow> json \<Rightarrow> obj \<Rightarrow> 'w batch \<Rightarrow> 'w batch \<times> bool" where
  "reject_call env job tool args err b =
     (let b1 = on_state (\<lambda>st. st\<lparr>ws_count := ws_count st + 1\<rparr>) b;
          b2 = add_text (result_text tool (compact_tool_result err)) b1;
          b3 = on_state (\<lambda>st. emitw env (tool_result_event env job tool args err (JBool False) (ws_count st)
                  (JFloat ''0.0'')) st) b2;
          b4 = note_failure (we_limits env) tool (tool_failure_signature (we_sha env) tool args err) b3
      in (b4, bt_breaker b4 \<noteq> None))"

text \<open>The call itself: the search for tools, or the dispatch of a tool.\<close>

definition search_unavailable :: obj where
  "search_unavailable =
     [(''success'', JBool False), (''error_category'', JStr ''tool_discovery_unavailable''),
      (''error'', JStr ''Tool discovery is unavailable for this run.'')]"

definition found_tools :: "obj \<Rightarrow> string list" where
  "found_tools result = (case dget result ''tools'' (JList []) of JList xs \<Rightarrow> map py_str xs | _ \<Rightarrow> [])"

definition search_tools :: "'w wenv \<Rightarrow> job \<Rightarrow> obj \<Rightarrow> 'w batch \<Rightarrow> obj \<times> 'w batch" where
  "search_tools env job args b =
     (case we_search env of
        None \<Rightarrow> (search_unavailable, b)
      | Some search \<Rightarrow>
          (let limit = (case dget args ''limit'' (JInt 3) of JInt i \<Rightarrow> i | _ \<Rightarrow> 3);
               result = search (get_str args ''query'' []) (max 1 (min limit 5));
               new = found_tools result
           in (result,
               on_state (\<lambda>st. emitw env (''tool.discovery'',
                   [(''milestone_id'', jb_id job), (''query'', dget args ''query'' JNull),
                    (''tools'', jstrs (py_sorted_set new)), (''count'', JInt (int (length (remdups new))))])
                   (st\<lparr>ws_active := List.union new (ws_active st), ws_discovered := List.union new (ws_discovered st)\<rparr>))
                 (b\<lparr>bt_discovery := True\<rparr>))))"

definition perform :: "'w wenv \<Rightarrow> job \<Rightarrow> string \<Rightarrow> obj \<Rightarrow> 'w batch \<Rightarrow> obj \<times> 'w batch" where
  "perform env job tool args b =
     (if tool = ''search_tools'' then search_tools env job args b
      else (case we_dispatch env tool args (ws_world (bt_state b)) of
              (result, w) \<Rightarrow> (result, on_state (\<lambda>st. st\<lparr>ws_world := w\<rparr>) b)))"

text \<open>The browser servers this run has started.\<close>

definition track_servers :: "string \<Rightarrow> obj \<Rightarrow> obj \<Rightarrow> string list \<Rightarrow> string list" where
  "track_servers tool args result servers =
     (let action = py_strip (py_lower (get_str args ''action'' ''start''))
      in if tool \<noteq> ''serve_app'' \<or> \<not> truthy (dget result ''success'' JNull) then servers
         else if action = ''start'' then
           (if get_strip result ''server_id'' [] = [] then servers else List.insert (get_strip result ''server_id'' []) servers)
         else if action = ''stop'' then removeAll (get_strip args ''server_id'' []) servers
         else servers)"

definition hint_text :: "obj \<Rightarrow> string" where
  "hint_text result =
     (case dget result ''hint'' JNull of
        JStr h \<Rightarrow> if py_strip h = [] then [] else [nl, nl] @ ''Hint: '' @ py_strip h
      | _ \<Rightarrow> [])"

definition handoff_failure :: "string \<Rightarrow> obj \<Rightarrow> bool" where
  "handoff_failure tool result =
     (tool = ''inspect_ui'' \<and> \<not> truthy (dget result ''success'' JNull) \<and> truthy (dget result ''suggest_handoff'' JNull))"

definition wrote_file :: "string \<Rightarrow> obj \<Rightarrow> bool" where
  "wrote_file tool result =
     ((tool = ''write_file'' \<or> tool = ''patch_file'') \<and> truthy (dget result ''success'' JNull))"

definition note_write :: "string \<Rightarrow> obj \<Rightarrow> obj \<Rightarrow> 'w batch \<Rightarrow> 'w batch" where
  "note_write tool args result b =
     (let f = normalize_workspace_path (get_str args ''file_path'' [])
      in if \<not> wrote_file tool result then b
         else on_state (\<lambda>st. st\<lparr>ws_ui_since_write := 0,
                ws_files := (if f = [] then ws_files st else ws_files st @ [JStr f])\<rparr>) (b\<lparr>bt_wrote := True\<rparr>))"

definition note_probe :: "string \<Rightarrow> 'w batch \<Rightarrow> 'w batch" where
  "note_probe tool b =
     (if tool = ''inspect_ui''
      then on_state (\<lambda>st. st\<lparr>ws_ui_total := ws_ui_total st + 1, ws_ui_since_write := ws_ui_since_write st + 1\<rparr>) b
      else b)"

definition ui_handoff_text :: string where
  "ui_handoff_text =
     ''## UI handoff'' @ nl # ''This UI probe did not confirm the text/interaction. Prefer a targeted code fix if validator feedback is clear, otherwise signal `{''
     @ dq ''status'' @ '': '' @ dq ''complete'' @ '', ...}` and let the validator run official browser smoke checks.''"

definition note_outcome :: "'w wenv \<Rightarrow> string \<Rightarrow> obj \<Rightarrow> obj \<Rightarrow> 'w batch \<Rightarrow> 'w batch" where
  "note_outcome env tool args result b =
     (if truthy (dget result ''success'' JNull) \<or> handoff_failure tool result
      then on_state (\<lambda>st. st\<lparr>ws_consecutive := 0\<rparr>) b
      else note_failure (we_limits env) tool (tool_failure_signature (we_sha env) tool (JObj args) result) b)"

text \<open>What follows the call: the servers, the count, the report, the bookkeeping of files and failures.\<close>

definition settle_call :: "'w wenv \<Rightarrow> job \<Rightarrow> string \<Rightarrow> obj \<Rightarrow> obj \<Rightarrow> 'w batch \<Rightarrow> 'w batch" where
  "settle_call env job tool args result b1 =
     (let b2 = on_state (\<lambda>st. st\<lparr>ws_servers := track_servers tool args result (ws_servers st),
                  ws_count := ws_count st + 1\<rparr>) b1;
          b3 = on_state (\<lambda>st. emitw env (tool_result_event env job tool (JObj args) result
                  (dget result ''success'' (JBool False)) (ws_count st) (we_duration env)) st) b2;
          b4 = note_probe tool (note_write tool args result b3);
          b5 = add_text (result_text tool (compact_tool_result result @ hint_text result)) b4;
          b6 = note_outcome env tool args result b5
      in if handoff_failure tool result \<and> jb_ui job then add_text ui_handoff_text b6 else b6)"

definition called_event :: "'w wenv \<Rightarrow> job \<Rightarrow> string \<Rightarrow> obj \<Rightarrow> json \<Rightarrow> int \<Rightarrow> event" where
  "called_event env job tool args why index =
     (''tool.called'',
      [(''milestone_id'', jb_id job), (''tool'', JStr tool), (''args'', JObj (compact_event_args (JObj args))),
       (''args_keys'', jstrs (map fst args)), (''reasoning'', why), (''call_index'', JInt index),
       (''role'', JStr (we_role env))])"

definition execute_call :: "'w wenv \<Rightarrow> job \<Rightarrow> string \<Rightarrow> obj \<Rightarrow> json \<Rightarrow> 'w batch \<Rightarrow> 'w batch \<times> bool" where
  "execute_call env job tool args why b =
     (case perform env job tool args
             (on_state (emitw env (called_event env job tool args why (ws_count (bt_state b) + 1))) b) of
        (result, b1) \<Rightarrow>
          (let b2 = settle_call env job tool args result b1
           in (b2, bt_breaker b2 \<noteq> None \<or> we_budget env \<le> ws_count (bt_state b2))))"

definition tool_of :: "obj \<Rightarrow> string" where
  "tool_of call = (case dget call ''tool'' (JStr []) of JStr s \<Rightarrow> s | j \<Rightarrow> py_repr j)"

definition run_call :: "'w wenv \<Rightarrow> job \<Rightarrow> obj \<Rightarrow> 'w batch \<Rightarrow> 'w batch \<times> bool" where
  "run_call env job call b =
     (let tool = tool_of call;
          args = normalize_tool_args tool (py_or (dget call ''args'' (JObj [])) (JObj []))
      in if tool = [] then (add_text (''Missing '' @ dq ''tool'' @ '' key in one call - skipped.'') b, False)
         else if bt_discovery b then
           (add_text (''Tool '' @ backticked tool @ '' was not executed because search_tools must complete before newly discovered tools can be called.'') b, False)
         else case validate_tool_call (JStr tool) args (Some (ws_active (bt_state b))) of
           Some err \<Rightarrow> reject_call env job tool args err b
         | None \<Rightarrow> execute_call env job tool (args_obj args) (dget call ''reasoning'' (JStr [])) b)"

fun run_calls :: "'w wenv \<Rightarrow> job \<Rightarrow> obj list \<Rightarrow> 'w batch \<Rightarrow> 'w batch" where
  "run_calls env job [] b = b"
| "run_calls env job (call # calls) b =
     (case run_call env job call b of (b', left) \<Rightarrow> if left then b' else run_calls env job calls b')"

section \<open>One turn\<close>

text \<open>A reply that is no JSON object: three in a row block the worker.\<close>

definition bad_json_turn :: "'w wenv \<Rightarrow> job \<Rightarrow> string \<Rightarrow> 'w wstate \<Rightarrow> 'w wstate \<times> obj res option" where
  "bad_json_turn env job raw st =
     (let n = ws_bad_json st + 1;
          st1 = emitw env (''worker.invalid_json'',
             [(''milestone_id'', jb_id job), (''attempt'', JInt (int n)), (''max_attempts'', JInt 3)])
             (st\<lparr>ws_bad_json := n\<rparr>)
      in if 3 \<le> n then
           finish env [(''status'', JStr ''blocked''),
               (''reason'', JStr ''Worker failed to emit valid JSON after 3 attempts.''),
               (''tool_calls'', JInt (ws_count st1))]
             (emitw env (''worker.blocked'', [(''milestone_id'', jb_id job), (''reason'', JStr ''invalid_json'')]) st1)
         else (case we_missing env (jb_targets job) (ws_world st1) of
                 Inl e \<Rightarrow> failing e st1
               | Inr missing \<Rightarrow> (say_both raw (worker_invalid_json_message raw (jb_targets job) missing) st1, None)))"

definition scope_turn :: "'w wenv \<Rightarrow> job \<Rightarrow> obj \<Rightarrow> 'w wstate \<Rightarrow> 'w wstate \<times> obj res option" where
  "scope_turn env job parsed st =
     (let requested = (case dget parsed ''requested_paths'' (dget parsed ''requested_files'' (JList [])) of
                         JList xs \<Rightarrow> map py_str xs | _ \<Rightarrow> []);
          why = get_str parsed ''reason'' ''Additional workspace scope is required.''
      in finish env
           [(''status'', JStr ''request_scope''), (''reason'', JStr why), (''requested_paths'', jstrs requested),
            (''requested_capabilities'', dget parsed ''requested_capabilities'' (JList [])),
            (''tool_calls'', JInt (ws_count st))]
           (emitw env (''worker.request_scope'',
              [(''milestone_id'', jb_id job), (''reason'', JStr why), (''requested_paths'', jstrs requested),
               (''tool_calls'', JInt (ws_count st))]) st))"

definition blocked_turn :: "'w wenv \<Rightarrow> job \<Rightarrow> obj \<Rightarrow> 'w wstate \<Rightarrow> 'w wstate \<times> obj res option" where
  "blocked_turn env job parsed st =
     (let why = dget parsed ''reason'' (JStr ''Unknown block'');
          clarification = dget parsed ''needs_clarification'' (JStr [])
      in finish env
           [(''status'', JStr ''blocked''), (''reason'', why), (''clarification'', clarification),
            (''tool_calls'', JInt (ws_count st))]
           (emitw env (''worker.blocked'',
              [(''milestone_id'', jb_id job), (''reason'', why), (''clarification'', clarification),
               (''tool_calls'', JInt (ws_count st))]) st))"

definition completion :: "'w wenv \<Rightarrow> job \<Rightarrow> json \<Rightarrow> 'w wstate \<Rightarrow> 'w wstate \<times> obj res option" where
  "completion env job summary st =
     (case distinct_files st of
        Inl e \<Rightarrow> failing e st
      | Inr files \<Rightarrow>
          finish env
            [(''status'', JStr ''complete''), (''summary'', summary), (''files_modified'', files),
             (''tool_calls'', JInt (ws_count st))]
            (emitw env (''worker.complete'',
               [(''milestone_id'', jb_id job), (''tool_calls'', JInt (ws_count st)), (''files_modified'', files)]) st))"

definition missing_rejection :: "string list \<Rightarrow> string" where
  "missing_rejection missing =
     ''REJECTED. These required files are still missing: '' @ repr_strs missing
     @ ''. Use write_file to create them, then signal complete again.''"

definition dependency_rejection :: "dependency_report \<Rightarrow> string" where
  "dependency_rejection report =
     ''REJECTED. '' @ dr_message report @ '' Use install_dependency, e.g. ''
     @ json_like [(''tool'', dq ''install_dependency''), (''args'', json_like [(''package_name'', dq ''pygame'')]),
                  (''reasoning'', dq ''Required by main.py imports.'')]"

definition dependency_events :: "json \<Rightarrow> dependency_report \<Rightarrow> event list" where
  "dependency_events ms_id report =
     [(''dependency.missing'',
       [(''milestone_id'', ms_id), (''packages'', jstrs (dr_packages report)), (''imports'', jstrs (dr_imports report)),
        (''checked_files'', jstrs (dr_checked report)), (''source'', JStr ''worker'')]),
      (''worker.complete_rejected'',
       [(''milestone_id'', ms_id), (''reason'', JStr ''missing_dependencies''), (''packages'', jstrs (dr_packages report))])]"

text \<open>
  The worker says it is done: accepted when every target file exists and every import of the target
  files is installed.
\<close>

definition complete_turn :: "'w wenv \<Rightarrow> job \<Rightarrow> string \<Rightarrow> obj \<Rightarrow> 'w wstate \<Rightarrow> 'w wstate \<times> obj res option" where
  "complete_turn env job raw parsed st =
     (case py_iter (dget parsed ''files_modified'' (JList [])) of
        Inl e \<Rightarrow> failing e st
      | Inr files \<Rightarrow>
          (let st1 = st\<lparr>ws_files := ws_files st @ files\<rparr>
           in case we_missing env (jb_targets job) (ws_world st1) of
                Inl e \<Rightarrow> failing e st1
              | Inr missing \<Rightarrow>
                  if missing \<noteq> [] then
                    (say_both raw (missing_rejection missing)
                       (emitw env (''worker.complete_rejected'',
                          [(''milestone_id'', jb_id job), (''missing'', jstrs missing)]) st1), None)
                  else (case we_deps env (jb_targets job) (ws_world st1) of
                    Some report \<Rightarrow>
                      (say_both raw (dependency_rejection report)
                         (fold (emitw env) (dependency_events (jb_id job) report) st1), None)
                  | None \<Rightarrow> completion env job (dget parsed ''summary'' (JStr [])) st1)))"

text \<open>
  After a batch: the automatic contract run, the missing files, the reminders; a tripped breaker
  blocks the worker.
\<close>

definition breaker_text :: "string \<Rightarrow> string" where
  "breaker_text why =
     [nl, nl] @ ''## TOOL FAILURE CIRCUIT BREAKER'' @ nl # why @ nl
     # ''Do not repeat the failed operation. If another capability is needed, call search_tools; otherwise signal blocked with a specific clarification request.''"

definition autorun :: "'w wenv \<Rightarrow> job \<Rightarrow> bool \<Rightarrow> 'w wstate \<Rightarrow> 'w wstate \<times> string" where
  "autorun env job wrote st =
     (if wrote \<and> ws_autoruns st < l_autorun (we_limits env) \<and> autorun_wanted (we_sandbox env) (jb_contract job) then
        (case we_execute env (jb_contract job) (ws_world st) of (result, w) \<Rightarrow>
          (emitw env (autorun_event (jb_id job) result)
             (st\<lparr>ws_world := w, ws_autoruns := ws_autoruns st + 1\<rparr>),
           [nl, nl] @ autorun_report (we_limits env) (jb_contract job) result))
      else (st, []))"

definition files_note :: "string list \<Rightarrow> string list \<Rightarrow> string" where
  "files_note targets missing =
     (if targets = [] then []
      else if missing \<noteq> [] then [nl, nl] @ ''Still missing: '' @ repr_strs missing
      else [nl, nl] @ ''All required files exist. Signal {'' @ dq ''status'' @ '': '' @ dq ''complete''
           @ '', ...} if the work is done.'')"

definition block_on_breaker :: "'w wenv \<Rightarrow> job \<Rightarrow> string \<Rightarrow> 'w wstate \<Rightarrow> 'w wstate \<times> obj res option" where
  "block_on_breaker env job why st =
     finish env
       [(''status'', JStr ''blocked''), (''reason'', JStr why),
        (''needs_clarification'', JStr
          ''Choose a different available tool or provide the missing workspace/contract information.''),
        (''tool_calls'', JInt (ws_count st))]
       (emitw env (''worker.tool_failure_breaker'',
          [(''milestone_id'', jb_id job), (''reason'', JStr why), (''consecutive_failures'', JInt (ws_consecutive st)),
           (''distinct_failures'', JInt (int (length (ws_failures st))))]) st)"

definition after_batch ::
    "'w wenv \<Rightarrow> job \<Rightarrow> string \<Rightarrow> string option \<Rightarrow> 'w batch \<Rightarrow> 'w wstate \<times> obj res option" where
  "after_batch env job raw note b =
     (let said = (if bt_texts b = [] then ''(no tool calls executed)'' else py_join [nl, nl] (bt_texts b));
          noted = (case note of None \<Rightarrow> [] | Some t \<Rightarrow> [nl, nl] @ t);
          tripped = (case bt_breaker b of None \<Rightarrow> [] | Some why \<Rightarrow> breaker_text why)
      in case autorun env job (bt_wrote b) (bt_state b) of (st, auto) \<Rightarrow>
        (case (if jb_targets job = [] then Inr [] else we_missing env (jb_targets job) (ws_world st)) of
           Inl e \<Rightarrow> failing e st
         | Inr missing \<Rightarrow>
             (let nudge = (if jb_ui job then ui_handoff_nudge (we_limits env) (ws_ui_since_write st) (ws_ui_total st) else []);
                  st1 = say_both raw (said @ noted @ tripped @ auto @ [nl, nl] @ ''Continue toward the required deliverables.''
                     @ files_note (jb_targets job) missing @ (if nudge = [] then [] else [nl, nl] @ nudge)) st
              in case bt_breaker b of None \<Rightarrow> (st1, None) | Some why \<Rightarrow> block_on_breaker env job why st1)))"

definition calls_turn :: "'w wenv \<Rightarrow> job \<Rightarrow> string \<Rightarrow> obj \<Rightarrow> 'w wstate \<Rightarrow> 'w wstate \<times> obj res option" where
  "calls_turn env job raw parsed st =
     (case extract_tool_calls (we_limits env) parsed of
        Inl error \<Rightarrow> (say_both raw error st, None)
      | Inr (calls, note) \<Rightarrow>
          after_batch env job raw note (run_calls env job calls
            \<lparr>bt_state = st, bt_texts = [], bt_wrote = False, bt_discovery = False, bt_breaker = None\<rparr>))"

definition reply_turn :: "'w wenv \<Rightarrow> job \<Rightarrow> string \<Rightarrow> 'w wstate \<Rightarrow> 'w wstate \<times> obj res option" where
  "reply_turn env job raw st =
     (case parse_agent_turn (we_reader env) (we_repair env) raw of
        None \<Rightarrow> bad_json_turn env job raw st
      | Some parsed \<Rightarrow>
          (let st1 = st\<lparr>ws_bad_json := 0\<rparr>; status = dget parsed ''status'' JNull
           in if status = JStr ''request_scope'' then scope_turn env job parsed st1
              else if status = JStr ''complete'' then complete_turn env job raw parsed st1
              else if status = JStr ''blocked'' then blocked_turn env job parsed st1
              else calls_turn env job raw parsed st1))"

text \<open>The budget is used up: complete when all files exist - without a look at the dependencies.\<close>

definition exhausted_turn :: "'w wenv \<Rightarrow> job \<Rightarrow> 'w wstate \<Rightarrow> 'w wstate \<times> obj res option" where
  "exhausted_turn env job st =
     (case we_missing env (jb_targets job) (ws_world st) of
        Inl e \<Rightarrow> failing e st
      | Inr missing \<Rightarrow>
          if missing \<noteq> [] then
            (let why = JStr (''Tool budget exhausted. Missing deliverables: '' @ repr_strs missing);
                 st1 = emitw env (''worker.blocked'', [(''milestone_id'', jb_id job), (''reason'', why),
                         (''tool_calls'', JInt (ws_count st))]) st
             in case distinct_files st1 of
                  Inl e \<Rightarrow> failing e st1
                | Inr files \<Rightarrow>
                    finish env [(''status'', JStr ''blocked''), (''reason'', why), (''files_modified'', files),
                                (''tool_calls'', JInt (ws_count st))] st1)
          else completion env job
                 (JStr (''Tool call budget exhausted after '' @ int_str (we_budget env) @ '' calls.'')) st)"

definition worker_turn :: "'w wenv \<Rightarrow> job \<Rightarrow> 'w wstate \<Rightarrow> 'w wstate \<times> obj res option" where
  "worker_turn env job st =
     (if we_budget env \<le> ws_count st then exhausted_turn env job st
      else if we_cancelled env (ws_world st) then
        finish env [(''status'', JStr ''cancelled''), (''summary'', JStr ''Run cancelled''),
                    (''tool_calls'', JInt (ws_count st))]
          (emitw env (''worker.cancelled'', [(''milestone_id'', jb_id job)]) st)
      else (case trim_conversation (ws_conversation st) (l_history (we_limits env)) of
              Inl e \<Rightarrow> failing e st
            | Inr messages \<Rightarrow>
                (case we_llm env messages (ws_world st) of (text, w) \<Rightarrow>
                   reply_turn env job (py_strip text) (st\<lparr>ws_world := w\<rparr>))))"

section \<open>The whole worker\<close>

text \<open>
  The arguments of a run beside the milestone: the plan, the tools offered, the feedback and memory of
  earlier attempts, and the state a retry resumes.
\<close>

record assignment =
  op_plan :: obj
  op_tools_md :: string
  op_root :: string
  op_feedback :: "string option"
  op_constraints :: "string res option"
  op_hints :: "string res option"
  op_retry :: int
  op_prior :: "message list"
  op_prior_active :: "string list"
  op_initial :: "string list"
  op_failures :: "(string \<times> int) list"
  op_consecutive :: int

definition search_tools_md :: string where
  "search_tools_md = text_lines
     [''## Control tool: search_tools'',
      ''Use this when the currently available operational tools do not cover the next'',
      ''action. Retrieval is deterministic and returns up to 3 additional tools.'',
      ''Newly discovered tools become callable on the NEXT turn, not in the same batch.'', ''```json'',
      ''{'' @ dq ''tool'' @ '': '' @ dq ''search_tools'' @ '', '' @ dq ''args'' @ '': ''
        @ json_like [(''query'', dq ''<capability needed>''), (''limit'', ''3'')] @ '','',
      '' '' @ dq ''reasoning'' @ '': '' @ dq ''The current tool set does not include this capability.'' @ ''}'', ''```'']"

definition ui_worker_guidance_block :: string where
  "ui_worker_guidance_block = text_lines
     [''## UI milestone - division of labor'',
      ''- You implement the UI; the **validator** runs authoritative `ui_smoke` checks after you signal `complete`.'',
      ''- Optional preflight: `serve_app` -> `inspect_ui` with `accessibility` or `audit` to catch obvious load/a11y issues.'',
      ''- For multi-step interactions (fill -> click -> assert), use ONE `inspect_ui` call with `action: ''
        @ dq ''flow'' @ ''` and a `steps` array.'',
      ''- Separate `fill`/`click` calls do **not** share browser state.'',
      ''- Do not loop on UI probes without a code change - fix the issue or signal `complete` for validator smoke.'', []]"

definition opening_message :: "limits \<Rightarrow> assignment \<Rightarrow> obj \<Rightarrow> obj \<Rightarrow> string list \<Rightarrow> bool \<Rightarrow> obj \<Rightarrow> string" where
  "opening_message lim op milestone ms targets ui tree =
     (let criteria = (case dget ms ''acceptance_criteria'' (JList []) of JList xs \<Rightarrow> map py_str xs | _ \<Rightarrow> [])
      in workspace_context_block tree (op_root op) targets @ nl # worker_milestone_brief ms targets criteria
         @ nl # text_lines [''## Current Mission'', get_str (op_plan op) ''title'' [], []]
         @ user_preferences_block (op_plan op)
         @ text_lines [''## Milestone to Implement'', ''**ID**: '' @ get_str milestone ''id'' ''?'',
             ''**Title**: '' @ get_str milestone ''title'' [], ''**Description**: '' @ get_str milestone ''description'' []]
         @ memory_grounding (op_hints op) @ memory_constraints_block (op_constraints op) milestone
         @ (case op_feedback op of
              Some (c # cs) \<Rightarrow> nl # text_lines [''## Error Feedback from Validator (latest retry)'', c # cs]
            | _ \<Rightarrow> [])
         @ nl # text_lines [''## Available Tools'', op_tools_md op, []]
         @ (if ui then ui_worker_guidance_block else []) @ search_tools_md
         @ ''Start now. Emit ONE JSON object (a tool call, a batch of up to '' @ nat_digits (l_batch lim)
         @ '' calls, complete, request_scope, or blocked).'')"

definition start_tools :: "assignment \<Rightarrow> string list" where
  "start_tools op = (if op_prior_active op \<noteq> [] then op_prior_active op else op_initial op)"

definition start_state :: "'w wenv \<Rightarrow> assignment \<Rightarrow> message list \<Rightarrow> 'w \<Rightarrow> event list \<Rightarrow> 'w wstate" where
  "start_state env op conversation w events =
     \<lparr>ws_conversation = conversation, ws_count = 0, ws_bad_json = 0, ws_autoruns = 0, ws_files = [],
      ws_failures = op_failures op, ws_consecutive = op_consecutive op,
      ws_active = List.insert ''search_tools'' (start_tools op),
      ws_discovered = removeAll ''search_tools'' (start_tools op), ws_servers = [],
      ws_ui_since_write = 0, ws_ui_total = 0, ws_world = w, ws_events = events\<rparr>"

text \<open>The job and the state before the first turn.\<close>

definition worker_start ::
    "'w wenv \<Rightarrow> probe \<Rightarrow> int list \<Rightarrow> ppath \<Rightarrow> assignment \<Rightarrow> obj \<Rightarrow> 'w \<Rightarrow> (job \<times> 'w wstate) res" where
  "worker_start env pb ports ws op milestone w =
     (let started = (if we_emits env \<and> we_role env = ''worker'' then
             [(''worker.started'', [(''milestone_id'', dget milestone ''id'' (JStr ''?'')),
                 (''retry'', JInt (op_retry op)), (''role'', JStr (we_role env))])] else [])
      in bindR (normalize_milestone_for_worker milestone) (\<lambda>ms.
         bindR (worker_targets milestone) (\<lambda>targets.
         bindR (compile_validation_contract pb ports ws milestone) (\<lambda>compiled.
           let contract = (case compiled of Inl c \<Rightarrow> c | Inr _ \<Rightarrow> [])
           in bindR (worker_is_ui pb ws milestone contract) (\<lambda>ui.
             let job = \<lparr>jb_id = dget milestone ''id'' (JStr ''?''), jb_targets = targets, jb_contract = contract, jb_ui = ui\<rparr>
             in if op_prior op \<noteq> [] then
                  bindR (we_missing env targets w) (\<lambda>missing.
                    Inr (job, start_state env op
                      (op_prior op @ [\<lparr>m_role = ''user'',
                         m_content = retry_entry_message (op_feedback op) (op_constraints op) milestone missing\<rparr>])
                      w started))
                else (case we_dispatch env ''list_directory'' [(''target_dir'', JStr ''.'')] w of (tree, w') \<Rightarrow>
                  Inr (job, start_state env op
                    [\<lparr>m_role = ''user'',
                      m_content = opening_message (we_limits env) op milestone ms targets ui tree\<rparr>] w' started)))))))"

text \<open>None is a run that is still going after \<open>n\<close> turns.\<close>

definition run_worker ::
    "nat \<Rightarrow> 'w wenv \<Rightarrow> probe \<Rightarrow> int list \<Rightarrow> ppath \<Rightarrow> assignment \<Rightarrow> obj \<Rightarrow> 'w \<Rightarrow> ('w wstate \<times> obj res) option res" where
  "run_worker n env pb ports ws op milestone w =
     bindR (worker_start env pb ports ws op milestone w) (\<lambda>(job, st).
       Inr (run_loop (worker_turn env job) n st))"

section \<open>What reporting leaves alone\<close>

text \<open>The part of the state the breaker and the budget are about.\<close>

definition tally :: "'w wstate \<Rightarrow> int \<times> (string \<times> int) list \<times> int" where
  "tally st = (ws_count st, ws_failures st, ws_consecutive st)"

named_theorems quiet \<open>operations that only report\<close>

lemma emitw_quiet [simp, quiet]:
  "tally (emitw env e st) = tally st" "ws_world (emitw env e st) = ws_world st"
  "ws_active (emitw env e st) = ws_active st" "ws_servers (emitw env e st) = ws_servers st"
  "ws_files (emitw env e st) = ws_files st" "ws_count (emitw env e st) = ws_count st"
  "ws_failures (emitw env e st) = ws_failures st" "ws_consecutive (emitw env e st) = ws_consecutive st"
  by (simp_all add: emitw_def tally_def)

lemma fold_emitw_quiet [simp, quiet]:
  "tally (fold (emitw env) es st) = tally st" "ws_world (fold (emitw env) es st) = ws_world st"
  "ws_active (fold (emitw env) es st) = ws_active st"
  by (induction es arbitrary: st) simp_all

lemma say_both_quiet [simp, quiet]:
  "tally (say_both r a st) = tally st" "ws_world (say_both r a st) = ws_world st"
  "ws_active (say_both r a st) = ws_active st"
  by (simp_all add: say_both_def tally_def)

lemma finish_tally [simp, quiet]:
  "tally (fst (finish env r st)) = tally st" "ws_active (fst (finish env r st)) = ws_active st"
  "snd (finish env r st) \<noteq> None"
  by (simp_all add: finish_def Let_def tally_def)

lemma finish_world: "ws_world (fst (finish env r st)) = fold (we_stop env) (ws_servers st) (ws_world st)"
  by (simp add: finish_def Let_def)

lemma failing_quiet [simp, quiet]: "failing e st = (st, Some (Inl e))"
  by (simp add: failing_def)

lemma bad_json_tally [quiet]: "tally (fst (bad_json_turn env job raw st)) = tally st"
  by (auto simp: bad_json_turn_def Let_def tally_def [of "st\<lparr>ws_bad_json := _\<rparr>"] split: sum.splits)
     (simp_all add: tally_def)

lemma scope_tally [quiet]: "tally (fst (scope_turn env job parsed st)) = tally st"
  by (simp add: scope_turn_def Let_def)

lemma blocked_tally [quiet]: "tally (fst (blocked_turn env job parsed st)) = tally st"
  by (simp add: blocked_turn_def Let_def)

lemma completion_tally [quiet]:
  "tally (fst (completion env job summary st)) = tally st" "snd (completion env job summary st) \<noteq> None"
  by (auto simp: completion_def simp del: not_None_eq split: sum.splits)

lemma complete_tally [quiet]: "tally (fst (complete_turn env job raw parsed st)) = tally st"
  by (auto simp: complete_turn_def Let_def completion_tally split: sum.splits option.splits) (simp_all add: tally_def)

lemma exhausted_tally [quiet]:
  "tally (fst (exhausted_turn env job st)) = tally st" "snd (exhausted_turn env job st) \<noteq> None"
  by (auto simp: exhausted_turn_def Let_def completion_tally simp del: not_None_eq split: sum.splits)

lemma autorun_tally [quiet]: "tally (fst (autorun env job wrote st)) = tally st"
  by (auto simp: autorun_def tally_def split: prod.splits)

lemma block_on_breaker_tally [quiet]:
  "tally (fst (block_on_breaker env job why st)) = tally st" "snd (block_on_breaker env job why st) \<noteq> None"
  by (simp_all add: block_on_breaker_def del: not_None_eq)

lemma after_batch_tally [quiet]: "tally (fst (after_batch env job raw note b)) = tally (bt_state b)"
  using autorun_tally [of env job "bt_wrote b" "bt_state b"]
  by (auto simp: after_batch_def Let_def block_on_breaker_tally split: prod.splits sum.splits option.splits)

lemma after_batch_continues: "snd (after_batch env job raw note b) = None \<Longrightarrow> bt_breaker b = None"
  by (auto simp: after_batch_def Let_def block_on_breaker_tally split: prod.splits sum.splits option.splits)

section \<open>Batches\<close>

text \<open>Each call counts at most once; a batch whose breaker has not tripped is below both limits.\<close>

definition below :: "limits \<Rightarrow> 'w wstate \<Rightarrow> bool" where
  "below lim st \<longleftrightarrow>
     (\<forall>n\<in>snd ` set (ws_failures st). n < l_same_fail lim) \<and> ws_consecutive st < l_consec_fail lim"

lemma below_tally: "tally st = tally st' \<Longrightarrow> below lim st = below lim st'"
  by (simp add: below_def tally_def)

lemma in_set_update: "(a, x) \<in> set (AList.update k v d) \<Longrightarrow> x = v \<or> (a, x) \<in> set d"
  by (induction d) (auto split: if_splits)

lemma note_failure_count [simp]: "ws_count (bt_state (note_failure lim tool sig b)) = ws_count (bt_state b)"
  by (simp add: note_failure_def Let_def)

lemma note_failure_below:
  assumes "below lim (bt_state b)" "bt_breaker (note_failure lim tool sig b) = None"
  shows "below lim (bt_state (note_failure lim tool sig b))"
proof -
  let ?d = "ws_failures (bt_state b)"
  have "dget ?d sig 0 + 1 < l_same_fail lim" "ws_consecutive (bt_state b) + 1 < l_consec_fail lim"
    using assms(2) by (auto simp: note_failure_def Let_def split: if_split_asm)
  then show ?thesis
    using assms(1) by (fastforce simp: below_def note_failure_def Let_def dest: in_set_update)
qed

lemma on_state_simps [simp]:
  "bt_state (on_state f b) = f (bt_state b)" "bt_breaker (on_state f b) = bt_breaker b"
  "bt_state (add_text t b) = bt_state b" "bt_breaker (add_text t b) = bt_breaker b"
  by (simp_all add: on_state_def add_text_def)

lemma perform_tally:
  "tally (bt_state (snd (perform env job tool args b))) = tally (bt_state b)"
  "bt_breaker (snd (perform env job tool args b)) = bt_breaker b"
  by (auto simp: perform_def search_tools_def Let_def tally_def split: option.splits prod.splits)

lemma note_write_tally [simp]:
  "tally (bt_state (note_write tool args r b)) = tally (bt_state b)" "bt_breaker (note_write tool args r b) = bt_breaker b"
  by (simp_all add: note_write_def Let_def tally_def)

lemma note_probe_tally [simp]:
  "tally (bt_state (note_probe tool b)) = tally (bt_state b)" "bt_breaker (note_probe tool b) = bt_breaker b"
  by (simp_all add: note_probe_def tally_def)

lemma tally_count: "tally st = tally st' \<Longrightarrow> ws_count st = ws_count st'"
  by (simp add: tally_def)

lemma note_outcome_count [simp]: "ws_count (bt_state (note_outcome env tool args r b)) = ws_count (bt_state b)"
  by (simp add: note_outcome_def)

lemma note_outcome_below:
  assumes "below (we_limits env) (bt_state b)" "0 < l_consec_fail (we_limits env)"
    and "bt_breaker (note_outcome env tool args r b) = None"
  shows "below (we_limits env) (bt_state (note_outcome env tool args r b))"
proof (cases "truthy (dget r ''success'' JNull) \<or> handoff_failure tool r")
  case True
  then show ?thesis using assms(1,2) by (simp add: note_outcome_def below_def)
next
  case False
  then show ?thesis using assms note_failure_below [OF assms(1)] by (simp add: note_outcome_def)
qed

text \<open>Before the outcome is judged a settled call has only been counted.\<close>

lemma settle_call_shape:
  obtains b' where "settle_call env job tool args r b = note_outcome env tool args r b' \<or>
      settle_call env job tool args r b = add_text ui_handoff_text (note_outcome env tool args r b')"
    and "tally (bt_state b') = (ws_count (bt_state b) + 1, snd (tally (bt_state b)))" "bt_breaker b' = bt_breaker b"
proof -
  let ?b3 = "on_state (\<lambda>st. emitw env (tool_result_event env job tool (JObj args) r
      (dget r ''success'' (JBool False)) (ws_count st) (we_duration env)) st)
    (on_state (\<lambda>st. st\<lparr>ws_servers := track_servers tool args r (ws_servers st), ws_count := ws_count st + 1\<rparr>) b)"
  let ?b5 = "add_text (result_text tool (compact_tool_result r @ hint_text r)) (note_probe tool (note_write tool args r ?b3))"
  have "tally (bt_state ?b5) = (ws_count (bt_state b) + 1, snd (tally (bt_state b)))"
    by simp (simp add: tally_def)
  moreover have "bt_breaker ?b5 = bt_breaker b" by simp
  moreover have "settle_call env job tool args r b = note_outcome env tool args r ?b5 \<or>
      settle_call env job tool args r b = add_text ui_handoff_text (note_outcome env tool args r ?b5)"
    by (simp add: settle_call_def Let_def)
  ultimately show ?thesis using that by blast
qed

lemma settle_call_count: "ws_count (bt_state (settle_call env job tool args r b)) = ws_count (bt_state b) + 1"
  by (rule settle_call_shape [of env job tool args r b]) (auto simp: tally_def)

lemma settle_call_below:
  assumes "below (we_limits env) (bt_state b)" "0 < l_consec_fail (we_limits env)"
    and "bt_breaker (settle_call env job tool args r b) = None"
  shows "below (we_limits env) (bt_state (settle_call env job tool args r b))"
proof (rule settle_call_shape [of env job tool args r b])
  fix b'
  assume b': "settle_call env job tool args r b = note_outcome env tool args r b' \<or>
      settle_call env job tool args r b = add_text ui_handoff_text (note_outcome env tool args r b')"
    and t: "tally (bt_state b') = (ws_count (bt_state b) + 1, snd (tally (bt_state b)))"
  have "below (we_limits env) (bt_state b')" using assms(1) t by (simp add: below_def tally_def)
  moreover have "bt_breaker (note_outcome env tool args r b') = None" using assms(3) b' by auto
  ultimately have "below (we_limits env) (bt_state (note_outcome env tool args r b'))"
    using note_outcome_below assms(2) by blast
  then show ?thesis using b' by auto
qed

lemma called_tally:
  assumes "perform env job tool args (on_state (emitw env e) b) = (r, b1)"
  shows "tally (bt_state b1) = tally (bt_state b)" "bt_breaker b1 = bt_breaker b"
  using perform_tally [of env job tool args "on_state (emitw env e) b"] assms by simp_all

lemma execute_call_count:
  assumes "execute_call env job tool args why b = (b', left)"
  shows "ws_count (bt_state b') = ws_count (bt_state b) + 1 \<and>
    (left \<longleftrightarrow> bt_breaker b' \<noteq> None \<or> we_budget env \<le> ws_count (bt_state b'))"
proof -
  obtain r b1 where p: "perform env job tool args
      (on_state (emitw env (called_event env job tool args why (ws_count (bt_state b) + 1))) b) = (r, b1)"
    by fastforce
  have "b' = settle_call env job tool args r b1" using assms p by (simp add: execute_call_def Let_def)
  then show ?thesis
    using assms p tally_count [OF called_tally(1) [OF p]] by (auto simp: execute_call_def Let_def settle_call_count)
qed

lemma execute_call_below:
  assumes "execute_call env job tool args why b = (b', left)"
    and "below (we_limits env) (bt_state b)" "0 < l_consec_fail (we_limits env)" "bt_breaker b' = None"
  shows "below (we_limits env) (bt_state b')"
proof -
  obtain r b1 where p: "perform env job tool args
      (on_state (emitw env (called_event env job tool args why (ws_count (bt_state b) + 1))) b) = (r, b1)"
    by fastforce
  have "b' = settle_call env job tool args r b1" using assms(1) p by (simp add: execute_call_def Let_def)
  moreover have "below (we_limits env) (bt_state b1)" using assms(2) below_tally [OF called_tally(1) [OF p]] by simp
  ultimately show ?thesis using settle_call_below assms(3,4) by blast
qed

lemma reject_call_count:
  "reject_call env job tool args err b = (b', left) \<Longrightarrow>
     ws_count (bt_state b') = ws_count (bt_state b) + 1 \<and> (left \<longleftrightarrow> bt_breaker b' \<noteq> None)"
  by (auto simp: reject_call_def Let_def)

lemma reject_call_below:
  assumes "reject_call env job tool args err b = (b', left)"
    and "below (we_limits env) (bt_state b)" "bt_breaker b' = None"
  shows "below (we_limits env) (bt_state b')"
proof -
  define b3 where "b3 = on_state (\<lambda>st. emitw env (tool_result_event env job tool args err (JBool False) (ws_count st)
                  (JFloat ''0.0'')) st) (add_text (result_text tool (compact_tool_result err))
      (on_state (\<lambda>st. st\<lparr>ws_count := ws_count st + 1\<rparr>) b))"
  have b': "b' = note_failure (we_limits env) tool (tool_failure_signature (we_sha env) tool args err) b3"
    using assms(1) by (simp add: reject_call_def Let_def b3_def)
  have "below (we_limits env) (bt_state b3)" using assms(2) by (simp add: b3_def below_def)
  then show ?thesis using note_failure_below assms(3) b' by blast
qed

lemma run_call_counts:
  assumes "run_call env job call b = (b', left)"
  shows "ws_count (bt_state b) \<le> ws_count (bt_state b')" "ws_count (bt_state b') \<le> ws_count (bt_state b) + 1"
  using assms execute_call_count reject_call_count
  by (fastforce simp: run_call_def Let_def split: if_split_asm option.split_asm)+

lemma run_call_below:
  assumes "run_call env job call b = (b', left)" "below (we_limits env) (bt_state b)"
    and "0 < l_consec_fail (we_limits env)" "bt_breaker b' = None"
  shows "below (we_limits env) (bt_state b')"
  using assms execute_call_below reject_call_below
  by (fastforce simp: run_call_def Let_def split: if_split_asm option.split_asm)

lemma run_call_breaker:
  assumes "run_call env job call b = (b', False)" "bt_breaker b = None"
  shows "bt_breaker b' = None"
  using assms execute_call_count reject_call_count
  by (fastforce simp: run_call_def Let_def split: if_split_asm option.split_asm)

lemma run_calls_count:
  "ws_count (bt_state (run_calls env job calls b)) \<le> ws_count (bt_state b) + int (length calls)"
proof (induction calls arbitrary: b)
  case (Cons call calls)
  obtain b' left where c: "run_call env job call b = (b', left)" by fastforce
  show ?case using Cons.IH [of b'] run_call_counts [OF c] c by auto
qed simp

lemma run_calls_below:
  assumes "below (we_limits env) (bt_state b)" "0 < l_consec_fail (we_limits env)"
    and "bt_breaker b = None" "bt_breaker (run_calls env job calls b) = None"
  shows "below (we_limits env) (bt_state (run_calls env job calls b))"
  using assms(1,3,4)
proof (induction calls arbitrary: b)
  case (Cons call calls)
  obtain b' left where c: "run_call env job call b = (b', left)" by fastforce
  show ?case
  proof (cases left)
    case True
    then show ?thesis using Cons.prems c run_call_below [OF c Cons.prems(1) assms(2)] by simp
  next
    case False
    then have none: "bt_breaker b' = None" using run_call_breaker [of env job call b b'] c Cons.prems(2) by simp
    have "below (we_limits env) (bt_state b')" using run_call_below [OF c Cons.prems(1) assms(2) none] .
    then show ?thesis using Cons.IH none Cons.prems(3) False c by simp
  qed
qed simp

section \<open>Turns and the loop\<close>

lemma extract_length:
  "1 \<le> l_batch lim \<Longrightarrow> extract_tool_calls lim parsed = Inr (calls, remark) \<Longrightarrow> length calls \<le> l_batch lim"
  by (auto simp: extract_tool_calls_def Let_def split: json.split_asm list.split_asm if_split_asm)

text \<open>
  A turn either only reports, or runs one batch below the budget; if it continues after a batch the
  breaker has not tripped.
\<close>

lemma turn_cases:
  assumes "worker_turn env job st = (st', x)"
  obtains (quiet) "tally st' = tally st"
    | (batch) calls remark b parsed where "ws_count st < we_budget env"
        "extract_tool_calls (we_limits env) parsed = Inr (calls, remark)"
        "tally (bt_state b) = tally st" "bt_breaker b = None"
        "tally st' = tally (bt_state (run_calls env job calls b))"
        "x = None \<Longrightarrow> bt_breaker (run_calls env job calls b) = None"
proof (cases "we_budget env \<le> ws_count st \<or> we_cancelled env (ws_world st) \<or>
    (\<exists>e. trim_conversation (ws_conversation st) (l_history (we_limits env)) = Inl e)")
  case True
  have "tally (fst (worker_turn env job st)) = tally st"
    using True exhausted_tally(1) by (auto simp: worker_turn_def)
  then show ?thesis using quiet assms by simp
next
  case False
  then obtain messages where m: "trim_conversation (ws_conversation st) (l_history (we_limits env)) = Inr messages"
    by (cases "trim_conversation (ws_conversation st) (l_history (we_limits env))") auto
  obtain reply w where l: "we_llm env messages (ws_world st) = (reply, w)" by fastforce
  let ?st = "st\<lparr>ws_world := w\<rparr>" let ?raw = "py_strip reply"
  have turn: "worker_turn env job st = reply_turn env job ?raw ?st"
    using False m l by (simp add: worker_turn_def)
  have t: "tally ?st = tally st" "tally (?st\<lparr>ws_bad_json := 0\<rparr>) = tally st" by (simp_all add: tally_def)
  show ?thesis
  proof (cases "parse_agent_turn (we_reader env) (we_repair env) ?raw")
    case None
    then have "bad_json_turn env job ?raw ?st = (st', x)" using turn assms by (simp add: reply_turn_def)
    from arg_cong [OF this, of fst] have "tally st' = tally st"
      using bad_json_tally [of env job ?raw ?st] t(1) by simp
    then show ?thesis by (rule quiet)
  next
    case (Some parsed)
    let ?st1 = "?st\<lparr>ws_bad_json := 0\<rparr>" let ?status = "dget parsed ''status'' JNull"
    show ?thesis
    proof (cases "?status \<in> {JStr ''request_scope'', JStr ''complete'', JStr ''blocked''}")
      case True
      then have "tally (fst (reply_turn env job ?raw ?st)) = tally st"
        using Some t by (auto simp: reply_turn_def Let_def scope_tally complete_tally blocked_tally)
      moreover have "fst (reply_turn env job ?raw ?st) = st'" using turn assms by (metis fst_conv)
      ultimately show ?thesis using quiet by simp
    next
      case False
      then have c: "worker_turn env job st = calls_turn env job ?raw parsed ?st1"
        using Some turn by (auto simp: reply_turn_def Let_def)
      show ?thesis
      proof (cases "extract_tool_calls (we_limits env) parsed")
        case (Inl e)
        then have "tally st' = tally st" using c assms t(2) by (auto simp: calls_turn_def)
        then show ?thesis by (rule quiet)
      next
        case (Inr cn)
        obtain calls remark where cn: "extract_tool_calls (we_limits env) parsed = Inr (calls, remark)"
          using Inr by (cases cn) auto
        let ?b = "\<lparr>bt_state = ?st1, bt_texts = [], bt_wrote = False, bt_discovery = False, bt_breaker = None\<rparr>"
        have a: "(st', x) = after_batch env job ?raw remark (run_calls env job calls ?b)"
          using c assms cn by (simp add: calls_turn_def)
        show ?thesis
        proof (rule batch [OF _ cn, of ?b])
          show "ws_count st < we_budget env"
            using \<open>\<not> (we_budget env \<le> ws_count st \<or> we_cancelled env (ws_world st) \<or> _)\<close> by simp
          show "tally (bt_state ?b) = tally st" using t(2) by simp
          show "tally st' = tally (bt_state (run_calls env job calls ?b))"
            using after_batch_tally [of env job ?raw remark "run_calls env job calls ?b"] a by (metis fst_conv)
          show "bt_breaker (run_calls env job calls ?b) = None" if "x = None"
            using after_batch_continues [of env job ?raw remark "run_calls env job calls ?b"] a that by (metis snd_conv)
        qed simp
      qed
    qed
  qed
qed

definition within_budget :: "'w wenv \<Rightarrow> 'w wstate \<Rightarrow> bool" where
  "within_budget env st \<longleftrightarrow>
     1 \<le> l_batch (we_limits env) \<and> 0 \<le> we_budget env \<and> ws_count st \<le> we_budget env + int (l_batch (we_limits env)) - 1"

lemma turn_within_budget:
  assumes "worker_turn env job st = (st', x)" "within_budget env st"
  shows "within_budget env st'"
  using assms(1)
proof (cases rule: turn_cases)
  case quiet
  then show ?thesis using assms(2) by (simp add: within_budget_def tally_def)
next
  case (batch calls remark b parsed)
  have "length calls \<le> l_batch (we_limits env)"
    using extract_length batch(2) assms(2) by (simp add: within_budget_def)
  moreover have "ws_count (bt_state b) = ws_count st" using batch(3) by (rule tally_count)
  moreover have "ws_count st' = ws_count (bt_state (run_calls env job calls b))" using batch(5) by (rule tally_count)
  ultimately show ?thesis
    using run_calls_count [of env job calls b] batch(1) assms(2) by (simp add: within_budget_def)
qed

interpretation wb: turn_invariant "worker_turn env job" "within_budget env" "\<lambda>st r. within_budget env st" for env job
  by unfold_locales (use turn_within_budget in blast)+

definition still_below :: "'w wenv \<Rightarrow> 'w wstate \<Rightarrow> bool" where
  "still_below env st \<longleftrightarrow> 0 < l_consec_fail (we_limits env) \<and> below (we_limits env) st"

lemma turn_still_below:
  assumes "worker_turn env job st = (st', None)" "still_below env st"
  shows "still_below env st'"
  using assms(1)
proof (cases rule: turn_cases)
  case quiet
  then show ?thesis using assms(2) below_tally by (auto simp: still_below_def)
next
  case (batch calls remark b parsed)
  have "below (we_limits env) (bt_state b)" using batch(3) assms(2) below_tally by (auto simp: still_below_def)
  then have "below (we_limits env) (bt_state (run_calls env job calls b))"
    using batch(4,6) assms(2) by (intro run_calls_below) (simp_all add: still_below_def)
  then show ?thesis using batch(5) below_tally assms(2) by (auto simp: still_below_def)
qed

section \<open>What the worker does to the world\<close>

text \<open>The world and the tools on offer.\<close>

definition scene :: "'w wstate \<Rightarrow> 'w \<times> string list" where
  "scene st = (ws_world st, ws_active st)"

lemma scene_updates [simp]:
  "scene (st\<lparr>ws_count := n\<rparr>) = scene st" "scene (st\<lparr>ws_bad_json := k\<rparr>) = scene st"
  "scene (st\<lparr>ws_files := fs\<rparr>) = scene st" "scene (st\<lparr>ws_consecutive := n\<rparr>) = scene st"
  by (simp_all add: scene_def)

lemma emitw_scene [simp]: "scene (emitw env e st) = scene st"
  by (simp add: scene_def)

lemma fold_emitw_scene [simp]: "scene (fold (emitw env) es st) = scene st"
  by (simp add: scene_def)

lemma say_both_scene [simp]: "scene (say_both r a st) = scene st"
  by (simp add: scene_def)

lemma batch_scene [simp]:
  "scene (bt_state (note_failure lim tool sig b)) = scene (bt_state b)"
  "scene (bt_state (note_write tool args r b)) = scene (bt_state b)"
  "scene (bt_state (note_probe tool b)) = scene (bt_state b)"
  "scene (bt_state (note_outcome env tool args r b)) = scene (bt_state b)"
  by (simp_all add: scene_def note_failure_def note_write_def note_probe_def note_outcome_def Let_def)

lemma settle_scene [simp]: "scene (bt_state (settle_call env job tool args r b)) = scene (bt_state b)"
  by (simp add: settle_call_def Let_def) (simp add: scene_def)

lemma reject_scene: "reject_call env job tool args err b = (b', left) \<Longrightarrow> scene (bt_state b') = scene (bt_state b)"
  by (auto simp: reject_call_def Let_def)

lemma validated_active: "validate_tool_call (JStr tool) args (Some active) = None \<Longrightarrow> tool \<in> set active"
  by (auto simp: validate_tool_call_def split: json.splits if_splits option.splits)

lemma perform_search_scene:
  assumes "we_search env = Some f" "perform env job ''search_tools'' args b = (r, b')"
  obtains query n where "scene (bt_state b') =
    (ws_world (bt_state b), List.union (found_tools (f query n)) (ws_active (bt_state b)))"
proof -
  let ?n = "case dget args ''limit'' (JInt 3) of JInt i \<Rightarrow> i | _ \<Rightarrow> 3"
  have "scene (bt_state b') = (ws_world (bt_state b),
      List.union (found_tools (f (get_str args ''query'' []) (max 1 (min ?n 5)))) (ws_active (bt_state b)))"
    using assms by (auto simp: perform_def search_tools_def Let_def scene_def)
  then show ?thesis by (rule that)
qed

locale worker_world =
  fixes env :: "'w wenv" and R :: "'w \<Rightarrow> 'w \<Rightarrow> bool" and allowed :: "string set"
  assumes R_refl: "R w w"
    and R_trans: "R w w1 \<Longrightarrow> R w1 w2 \<Longrightarrow> R w w2"
    and llm_R: "R w (snd (we_llm env messages w))"
    and execute_R: "R w (snd (we_execute env contract w))"
    and stop_R: "R w (we_stop env server w)"
    and dispatch_R: "tool \<in> allowed \<Longrightarrow> R w (snd (we_dispatch env tool args w))"
    and search_allowed: "we_search env = Some f \<Longrightarrow> set (found_tools (f query n)) \<subseteq> allowed"
begin

definition linked :: "'w wstate \<Rightarrow> 'w wstate \<Rightarrow> bool" where
  "linked st st' \<longleftrightarrow>
     (set (ws_active st) \<subseteq> insert ''search_tools'' allowed \<longrightarrow>
        R (ws_world st) (ws_world st') \<and> set (ws_active st') \<subseteq> insert ''search_tools'' allowed)"

lemma linked_scene: "scene st' = scene st \<Longrightarrow> linked st st'"
  by (simp add: linked_def scene_def R_refl)

lemma linked_world: "ws_active st' = ws_active st \<Longrightarrow> R (ws_world st) (ws_world st') \<Longrightarrow> linked st st'"
  by (simp add: linked_def)

lemma linked_trans: "linked st st1 \<Longrightarrow> linked st1 st2 \<Longrightarrow> linked st st2"
  using R_trans by (auto simp: linked_def)

lemma stops_R: "R w (fold (we_stop env) servers w)"
  by (induction servers arbitrary: w) (auto intro: R_refl R_trans stop_R)

lemma finish_linked: "scene st = scene st0 \<Longrightarrow> linked st0 (fst (finish env r st))"
  by (rule linked_world) (use stops_R in \<open>auto simp: finish_world scene_def\<close>)

lemma perform_linked:
  assumes "perform env job tool args b = (r, b')" "tool \<in> set (ws_active (bt_state b))"
  shows "linked (bt_state b) (bt_state b')"
proof (cases "tool = ''search_tools''")
  case True
  show ?thesis
  proof (cases "we_search env")
    case None
    then show ?thesis using assms True linked_scene by (simp add: perform_def search_tools_def)
  next
    case (Some f)
    obtain query n where "scene (bt_state b') =
        (ws_world (bt_state b), List.union (found_tools (f query n)) (ws_active (bt_state b)))"
      using perform_search_scene [OF Some] assms(1) True by metis
    then show ?thesis using search_allowed [OF Some, of query n] R_refl by (auto simp: linked_def scene_def)
  qed
next
  case False
  obtain res w where d: "we_dispatch env tool args (ws_world (bt_state b)) = (res, w)" by fastforce
  then have "bt_state b' = (bt_state b)\<lparr>ws_world := w\<rparr>" using assms(1) False by (auto simp: perform_def)
  moreover have "R (ws_world (bt_state b)) w" if "set (ws_active (bt_state b)) \<subseteq> insert ''search_tools'' allowed"
    using dispatch_R [of tool "ws_world (bt_state b)" args] that assms(2) False d by auto
  ultimately show ?thesis by (auto simp: linked_def)
qed

lemma run_call_linked:
  assumes "run_call env job call b = (b', left)"
  shows "linked (bt_state b) (bt_state b')"
proof -
  let ?tool = "tool_of call"
  let ?args = "normalize_tool_args ?tool (py_or (dget call ''args'' (JObj [])) (JObj []))"
  consider (skip) "bt_state b' = bt_state b"
    | (reject) err where "reject_call env job ?tool ?args err b = (b', left)"
    | (run) "validate_tool_call (JStr ?tool) ?args (Some (ws_active (bt_state b))) = None"
        "execute_call env job ?tool (args_obj ?args) (dget call ''reasoning'' (JStr [])) b = (b', left)"
    using assms by (auto simp: run_call_def Let_def split: if_split_asm option.split_asm)
  then show ?thesis
  proof cases
    case skip
    then show ?thesis using linked_scene by simp
  next
    case (reject err)
    then show ?thesis using linked_scene reject_scene by blast
  next
    case run
    let ?b0 = "on_state (emitw env (called_event env job ?tool (args_obj ?args) (dget call ''reasoning'' (JStr []))
      (ws_count (bt_state b) + 1))) b"
    obtain r b1 where p: "perform env job ?tool (args_obj ?args) ?b0 = (r, b1)" by fastforce
    have b': "b' = settle_call env job ?tool (args_obj ?args) r b1"
      using run(2) p by (simp add: execute_call_def Let_def)
    have "linked (bt_state ?b0) (bt_state b1)"
      using perform_linked [OF p] validated_active [OF run(1)] by simp
    moreover have "linked (bt_state b) (bt_state ?b0)" by (rule linked_scene) simp
    moreover have "linked (bt_state b1) (bt_state b')" by (rule linked_scene) (simp add: b')
    ultimately show ?thesis using linked_trans by blast
  qed
qed

lemma run_calls_linked: "linked (bt_state b) (bt_state (run_calls env job calls b))"
proof (induction calls arbitrary: b)
  case Nil
  then show ?case using linked_scene by simp
next
  case (Cons call calls)
  obtain b' left where c: "run_call env job call b = (b', left)" by fastforce
  show ?case using Cons.IH [of b'] run_call_linked [OF c] linked_trans c by auto
qed

lemma autorun_linked: "linked st (fst (autorun env job wrote st))"
proof (rule linked_world)
  show "ws_active (fst (autorun env job wrote st)) = ws_active st"
    by (auto simp: autorun_def split: prod.splits)
  obtain r w where e: "we_execute env (jb_contract job) (ws_world st) = (r, w)" by fastforce
  then have "R (ws_world st) w" using execute_R [of "ws_world st" "jb_contract job"] by simp
  then show "R (ws_world st) (ws_world (fst (autorun env job wrote st)))"
    using R_refl e by (simp add: autorun_def)
qed

lemma after_batch_linked: "linked (bt_state b) (fst (after_batch env job raw remark b))"
proof -
  obtain st auto where a: "autorun env job (bt_wrote b) (bt_state b) = (st, auto)" by fastforce
  have l: "linked (bt_state b) st" using autorun_linked [of "bt_state b" job "bt_wrote b"] a by simp
  have said: "linked st (say_both x y st)" for x y by (rule linked_scene) simp
  have fin: "linked st (fst (finish env x y))" if "scene y = scene st" for x y using that by (rule finish_linked)
  have "linked st (fst (after_batch env job raw remark b))"
    using said fin linked_scene [of st st] a
    by (auto simp: after_batch_def Let_def block_on_breaker_def split: sum.splits option.splits)
  then show ?thesis using l linked_trans by blast
qed

lemma bad_json_linked: "linked st (fst (bad_json_turn env job raw st))"
  by (auto simp: bad_json_turn_def Let_def finish_linked linked_scene split: sum.splits)

lemma completion_linked: "scene st = scene st0 \<Longrightarrow> linked st0 (fst (completion env job summary st))"
  by (auto simp: completion_def finish_linked linked_scene split: sum.splits)

lemma complete_linked: "linked st (fst (complete_turn env job raw parsed st))"
  by (auto simp: complete_turn_def Let_def completion_linked linked_scene split: sum.splits option.splits)

lemma exhausted_linked: "linked st (fst (exhausted_turn env job st))"
  by (auto simp: exhausted_turn_def Let_def completion_linked linked_scene finish_linked split: sum.splits)

lemma reply_linked: "linked st (fst (reply_turn env job raw st))"
proof (cases "parse_agent_turn (we_reader env) (we_repair env) raw")
  case None
  then show ?thesis using bad_json_linked by (simp add: reply_turn_def)
next
  case (Some parsed)
  let ?st = "st\<lparr>ws_bad_json := 0\<rparr>"
  have l: "linked st ?st" by (rule linked_scene) (simp add: scene_def)
  have "linked ?st (fst (calls_turn env job raw parsed ?st))"
  proof (cases "extract_tool_calls (we_limits env) parsed")
    case (Inl e)
    then show ?thesis by (simp add: calls_turn_def linked_scene)
  next
    case (Inr cn)
    let ?b = "\<lparr>bt_state = ?st, bt_texts = [], bt_wrote = False, bt_discovery = False, bt_breaker = None\<rparr>"
    show ?thesis
      using Inr run_calls_linked [of ?b job "fst cn"] after_batch_linked linked_trans
      by (cases cn) (fastforce simp: calls_turn_def)
  qed
  moreover have "linked ?st (fst (scope_turn env job parsed ?st))" "linked ?st (fst (blocked_turn env job parsed ?st))"
    by (simp_all add: scope_turn_def blocked_turn_def Let_def finish_linked)
  ultimately have "linked ?st (fst (reply_turn env job raw st))"
    using Some complete_linked by (simp add: reply_turn_def Let_def)
  then show ?thesis using l linked_trans by blast
qed

lemma turn_linked: "linked st (fst (worker_turn env job st))"
proof -
  have "linked st (fst (reply_turn env job (py_strip (fst l)) (st\<lparr>ws_world := snd l\<rparr>)))"
    if "l = we_llm env messages (ws_world st)" for messages l
  proof (rule linked_trans [OF linked_world reply_linked])
    show "R (ws_world st) (ws_world (st\<lparr>ws_world := snd l\<rparr>))" using llm_R that by simp
  qed simp
  then show ?thesis
    using exhausted_linked finish_linked linked_scene
    by (auto simp: worker_turn_def split: sum.splits prod.splits) (metis fst_conv snd_conv)
qed

lemma loop_R:
  assumes "run_loop (worker_turn env job) n st = Some (st', r)"
    and "set (ws_active st) \<subseteq> insert ''search_tools'' allowed"
  shows "R (ws_world st) (ws_world st')"
proof -
  let ?inv = "\<lambda>s. R (ws_world st) (ws_world s) \<and> set (ws_active s) \<subseteq> insert ''search_tools'' allowed"
  have step: "?inv s'" if "?inv s" "worker_turn env job s = (s', x)" for s s' x
    using turn_linked [of s job] that R_trans by (auto simp: linked_def)
  have "turn_invariant (worker_turn env job) ?inv (\<lambda>s r. ?inv s)"
    by unfold_locales (use step in blast)+
  from turn_invariant.loop_post [OF this _ assms(1)] show ?thesis using assms(2) R_refl by simp
qed

end

end
