(* ===== verification/WorkerLaws.thy ===== *)
theory WorkerLaws
  imports Worker
begin

text \<open>
  What holds of a whole run of the worker: the bound on its tool calls, the limits of the circuit
  breaker, what a completed run has been checked for, the write jail around everything a model can do,
  and the replies on which it never returns.
\<close>

section \<open>The start of a run\<close>

lemma worker_start_shape:
  assumes "worker_start env pb ports ws op milestone w = Inr (job, st)"
  shows "worker_targets milestone = Inr (jb_targets job)" "ws_count st = 0" "ws_failures st = op_failures op"
    "ws_consecutive st = op_consecutive op" "ws_active st = List.insert ''search_tools'' (start_tools op)"
    "ws_world st = w \<or> ws_world st = snd (we_dispatch env ''list_directory'' [(''target_dir'', JStr ''.'')] w)"
    "ws_conversation st \<noteq> []"
proof -
  note d = worker_start_def Let_def bindR_def start_state_def
  note s = sum.split_asm if_split_asm prod.split_asm
  show "worker_targets milestone = Inr (jb_targets job)" using assms by (auto simp: d split: s)
  show "ws_count st = 0" using assms by (auto simp: d split: s)
  show "ws_failures st = op_failures op" using assms by (auto simp: d split: s)
  show "ws_consecutive st = op_consecutive op" using assms by (auto simp: d split: s)
  show "ws_active st = List.insert ''search_tools'' (start_tools op)" using assms by (auto simp: d split: s)
  show "ws_conversation st \<noteq> []" using assms by (auto simp: d split: s)
  show "ws_world st = w \<or> ws_world st = snd (we_dispatch env ''list_directory'' [(''target_dir'', JStr ''.'')] w)"
    using assms by (auto simp: d split: s)
qed

lemma run_worker_loop:
  assumes "run_worker n env pb ports ws op milestone w = Inr x"
  obtains job st where "worker_start env pb ports ws op milestone w = Inr (job, st)"
    and "x = run_loop (worker_turn env job) n st"
  using assms by (auto simp: run_worker_def bindR_def split: sum.split_asm)

text \<open>
  The states of a run from which it goes on: the first one, and each a turn leaves without an answer.
\<close>

inductive working ::
    "'w wenv \<Rightarrow> probe \<Rightarrow> int list \<Rightarrow> ppath \<Rightarrow> assignment \<Rightarrow> obj \<Rightarrow> 'w \<Rightarrow> job \<Rightarrow> 'w wstate \<Rightarrow> bool"
  for env pb ports ws op milestone w where
  working_start: "worker_start env pb ports ws op milestone w = Inr (job, st) \<Longrightarrow>
    working env pb ports ws op milestone w job st"
| working_turn: "working env pb ports ws op milestone w job st \<Longrightarrow> worker_turn env job st = (st', None) \<Longrightarrow>
    working env pb ports ws op milestone w job st'"

section \<open>Answers\<close>

text \<open>
  An answer reports the count of tool calls; a completed one was given in a world where no target file
  is missing and, below the budget, no import is uninstalled.
\<close>

definition checked :: "'w wenv \<Rightarrow> job \<Rightarrow> 'w wstate \<Rightarrow> bool" where
  "checked env job st \<longleftrightarrow>
     (\<exists>w servers. ws_world st = fold (we_stop env) servers w \<and> we_missing env (jb_targets job) w = Inr [] \<and>
        (we_deps env (jb_targets job) w = None \<or> we_budget env \<le> ws_count st))"

definition answered :: "'w wenv \<Rightarrow> job \<Rightarrow> 'w wstate \<times> obj res option \<Rightarrow> bool" where
  "answered env job y \<longleftrightarrow>
     (\<forall>d. snd y = Some (Inr d) \<longrightarrow> map_of d ''tool_calls'' = Some (JInt (ws_count (fst y))) \<and>
        (map_of d ''status'' = Some (JStr ''complete'') \<longrightarrow> checked env job (fst y)))"

lemma answered_none [simp]: "answered env job (st, None)" "answered env job (st, Some (Inl e))"
  by (simp_all add: answered_def)

lemma answered_finish:
  assumes "map_of r ''tool_calls'' = Some (JInt (ws_count st))"
    and "map_of r ''status'' = Some s" and "s = JStr ''complete'' \<Longrightarrow> checked env job (fst (finish env r st))"
  shows "answered env job (finish env r st)"
  using assms by (simp add: answered_def finish_def Let_def map_add_def)

lemma completion_answered:
  assumes "we_missing env (jb_targets job) (ws_world st) = Inr []"
    and "we_deps env (jb_targets job) (ws_world st) = None \<or> we_budget env \<le> ws_count st"
  shows "answered env job (completion env job summary st)"
proof (cases "distinct_files st")
  case (Inr files)
  have "checked env job (fst (finish env r (emitw env e st)))" for r e
    using assms by (auto simp: checked_def finish_def Let_def)
  then show ?thesis using Inr by (auto simp: completion_def intro!: answered_finish)
qed (simp add: completion_def)

lemma bad_json_answered: "answered env job (bad_json_turn env job raw st)"
  by (auto simp: bad_json_turn_def Let_def intro!: answered_finish split: sum.splits)

lemma scope_answered: "answered env job (scope_turn env job parsed st)"
  by (auto simp: scope_turn_def Let_def intro!: answered_finish)

lemma blocked_answered: "answered env job (blocked_turn env job parsed st)"
  by (auto simp: blocked_turn_def Let_def intro!: answered_finish)

lemma complete_answered: "answered env job (complete_turn env job raw parsed st)"
  by (auto simp: complete_turn_def Let_def intro!: completion_answered split: sum.splits option.splits)

lemma exhausted_answered: "we_budget env \<le> ws_count st \<Longrightarrow> answered env job (exhausted_turn env job st)"
  by (auto simp: exhausted_turn_def Let_def intro!: completion_answered answered_finish split: sum.splits)

lemma after_batch_answered: "answered env job (after_batch env job raw remark b)"
  by (auto simp: after_batch_def Let_def block_on_breaker_def intro!: answered_finish
      split: prod.splits sum.splits option.splits)

lemma reply_answered: "answered env job (reply_turn env job raw st)"
  by (auto simp: reply_turn_def Let_def calls_turn_def bad_json_answered scope_answered complete_answered
      blocked_answered after_batch_answered split: option.splits sum.splits)

lemma turn_answered: "answered env job (worker_turn env job st)"
  by (auto simp: worker_turn_def exhausted_answered reply_answered intro!: answered_finish
      split: sum.splits prod.splits)

interpretation wa: turn_invariant "worker_turn env job" "\<lambda>st. True"
    "\<lambda>st r. answered env job (st, Some r)" for env job
  by unfold_locales (use turn_answered in metis)+

section \<open>A worker on the file tools\<close>

text \<open>
  The worker of a milestone whose tools are the file tools of \<open>FileOps\<close> and whose model is any function
  of the conversation; no shell, no tool search, no browser.
\<close>

definition file_limits :: limits where
  "file_limits = \<lparr>l_batch = 4, l_history = 40, l_autorun = 2, l_same_fail = 2, l_consec_fail = 6, l_stdout = 2000,
     l_stderr = 2000, l_nudge = 3, l_strong_nudge = 6\<rparr>"

definition no_other :: "string \<Rightarrow> obj \<Rightarrow> tool_state \<Rightarrow> obj res \<times> tool_state" where
  "no_other tool args ts = (Inr [(''success'', JBool False)], ts)"

definition file_missing :: "fs_env \<Rightarrow> string list \<Rightarrow> tool_state \<Rightarrow> string list res" where
  "file_missing fe files ts = bindR
     (target_files_exist (e_resolve fe) (ts_root ts) (\<lambda>p. map_of (ts_fs ts) p \<noteq> None) files) (\<lambda>x. Inr (snd x))"

definition file_worker :: "fs_env \<Rightarrow> int \<Rightarrow> (message list \<Rightarrow> string) \<Rightarrow> tool_state wenv" where
  "file_worker fe budget model =
     \<lparr>we_limits = file_limits, we_budget = budget, we_emits = False, we_role = ''worker'',
      we_cancelled = (\<lambda>ts. False), we_llm = (\<lambda>messages ts. (model messages, ts)),
      we_dispatch = dispatch fe no_other, we_search = None,
      we_missing = file_missing fe,
      we_deps = (\<lambda>files ts. None), we_execute = (\<lambda>contract ts. ([], ts)), we_sandbox = False,
      we_created = get_created_files, we_stop = (\<lambda>server ts. ts),
      we_reader = \<lparr>rd_float = (\<lambda>s. s), rd_code = (\<lambda>n. [])\<rparr>, we_repair = (\<lambda>s. None), we_sha = (\<lambda>s. s),
      we_duration = JFloat ''0.0''\<rparr>"

lemma dispatch_confined:
  assumes "tool \<in> set file_tools"
  shows "confined fe ts (snd (dispatch fe other tool args ts))"
proof -
  have "snd (dispatch fe other tool args ts) =
      foldl (\<lambda>s c. snd (file_call fe c s)) ts [(tool, normalize_dispatch_args tool args)]"
    using dispatch_file_tool [OF assms] by simp
  then show ?thesis using ft.call_snd [of fe ts] by simp
qed

lemma list_dispatch: "snd (dispatch fe other ''list_directory'' args ts) = ts"
proof -
  have l: "''list_directory'' \<in> set file_tools" by (simp add: file_tools_def)
  have "snd (list_directory fe p k ts) = ts" for p k
    by (auto simp: list_directory_def Let_def split: sum.splits if_splits prod.splits)
  then show ?thesis
    unfolding dispatch_file_tool [OF l] by (auto simp: file_call_def file_tool_def raise_in_def split: sum.splits)
qed

interpretation fw: worker_world "file_worker fe budget model" "confined fe" "set file_tools" for fe budget model
proof
  show "confined fe w w" for w by simp
  show "confined fe w w1 \<Longrightarrow> confined fe w1 w2 \<Longrightarrow> confined fe w w2" for w w1 w2 by (rule confined_trans)
qed (simp_all add: file_worker_def dispatch_confined)

section \<open>Single turns\<close>

lemma turn_reply:
  assumes "ws_count st < we_budget env" "\<not> we_cancelled env (ws_world st)"
    and "trim_conversation (ws_conversation st) (l_history (we_limits env)) = Inr messages"
    and "we_llm env messages (ws_world st) = (reply, w)"
  shows "worker_turn env job st = reply_turn env job (py_strip reply) (st\<lparr>ws_world := w\<rparr>)"
  using assms by (simp add: worker_turn_def)

lemma empty_reply_turn:
  assumes "ws_count st < we_budget env" "\<not> we_cancelled env (ws_world st)" "ws_conversation st \<noteq> []"
    and "\<And>messages. we_llm env messages (ws_world st) = (empty_reply, ws_world st)"
  shows "worker_turn env job st =
    (say_both empty_reply missing_tool_error (st\<lparr>ws_bad_json := 0\<rparr>), None)"
proof -
  obtain messages where m: "trim_conversation (ws_conversation st) (l_history (we_limits env)) = Inr messages"
    using trim_total [OF assms(3)] by blast
  have "extract_tool_calls (we_limits env) [] = Inl missing_tool_error"
    by (simp add: extract_tool_calls_def dget_def)
  then show ?thesis
    unfolding turn_reply [OF assms(1,2) m assms(4)]
    by (simp add: empty_reply_parsed reply_turn_def Let_def dget_def calls_turn_def)
qed

definition done_reply :: string where
  "done_reply = ''{'' @ dq ''status'' @ '':'' @ dq ''complete'' @ ''}''"

lemma done_reply_parsed:
  "py_strip done_reply = done_reply" "parse_agent_turn rd repair done_reply = Some [(''status'', JStr ''complete'')]"
  by code_simp+

section \<open>A run on a small milestone\<close>

abbreviation no_probe :: probe where "no_probe \<equiv> demo_probe\<lparr>pb_is_file := (\<lambda>_. False)\<rparr>"

abbreviation demo_task :: obj where
  "demo_task \<equiv> [(''id'', JStr ''M1''), (''target_files'', JList [JStr ''a.py'']),
     (''acceptance_criteria'', JList [JStr ''c''])]"

definition demo_assignment :: assignment where
  "demo_assignment =
     \<lparr>op_plan = [], op_tools_md = [], op_root = ''/w'', op_feedback = None, op_constraints = None, op_hints = None,
      op_retry = 0, op_prior = [], op_prior_active = [], op_initial = [''write_file''], op_failures = [],
      op_consecutive = 0\<rparr>"

lemma demo_start:
  assumes "op_prior op = []"
  obtains job st where "worker_start (file_worker demo_env k model) no_probe [8001] (path_of ''/w'') op demo_task ts
      = Inr (job, st)"
    and "jb_targets job = [''a.py'']" "ws_count st = 0" "ws_files st = []" "ws_conversation st \<noteq> []" "ws_servers st = []"
    and "ws_world st = ts"
proof -
  let ?start = "worker_start (file_worker demo_env k model) no_probe [8001] (path_of ''/w'') op demo_task ts"
  have n: "case normalize_milestone_for_worker demo_task of Inr _ \<Rightarrow> True | _ \<Rightarrow> False" by code_simp
  have t: "worker_targets demo_task = Inr [''a.py'']" by code_simp
  have c: "case compile_validation_contract no_probe [8001] (path_of ''/w'') demo_task of
      Inr (Inl c) \<Rightarrow> worker_is_ui no_probe (path_of ''/w'') demo_task c = Inr False | _ \<Rightarrow> False" by code_simp
  have "\<exists>job st. ?start = Inr (job, st) \<and> ws_files st = [] \<and> ws_servers st = []"
    using n t c assms
    by (auto simp: worker_start_def Let_def bindR_def start_state_def split: sum.splits prod.splits)
  then obtain job st where s: "?start = Inr (job, st)" "ws_files st = []" "ws_servers st = []" by blast
  note shape = worker_start_shape [OF s(1)]
  show ?thesis
  proof (rule that [OF s(1)])
    show "jb_targets job = [''a.py'']" using shape(1) t by simp
    show "ws_world st = ts" using shape(6) list_dispatch by (auto simp: file_worker_def)
  qed (use s shape in simp_all)
qed

lemma demo_prior [simp]: "op_prior demo_assignment = []"
  by (simp add: demo_assignment_def)

lemma file_worker_simps [simp]:
  "we_budget (file_worker fe k model) = k" "we_limits (file_worker fe k model) = file_limits"
  "we_cancelled (file_worker fe k model) ts = False" "we_llm (file_worker fe k model) messages ts = (model messages, ts)"
  "we_missing (file_worker fe k model) = file_missing fe" "we_deps (file_worker fe k model) files ts = None"
  "we_dispatch (file_worker fe k model) = dispatch fe no_other" "we_search (file_worker fe k model) = None"
  "we_execute (file_worker fe k model) contract ts = ([], ts)" "we_stop (file_worker fe k model) server ts = ts"
  by (simp_all add: file_worker_def)

text \<open>A model that says at once that it is done, on a workspace with the target file.\<close>

lemma done_run:
  assumes "op_prior op = []" "ts_fs ts = ts_fs demo_tools" "ts_root ts = ts_root demo_tools" "ts_created ts = []"
  obtains st conversation active discovered failures where
    "run_worker 1 (file_worker demo_env 10 (\<lambda>_. done_reply)) no_probe [8001] (path_of ''/w'') op demo_task ts = Inr (Some (st, Inr
       [(''status'', JStr ''complete''), (''summary'', JStr []), (''files_modified'', JList []), (''tool_calls'', JInt 0),
        (''conversation'', conversation), (''created_files'', JList []), (''active_tools'', jstrs active),
        (''discovered_tools'', discovered), (''failure_state'', failures)]))"
    and "ws_world st = ts" "ws_count st = 0"
proof -
  let ?env = "file_worker demo_env 10 (\<lambda>_. done_reply)"
  obtain job st where s: "worker_start ?env no_probe [8001] (path_of ''/w'') op demo_task ts = Inr (job, st)"
      "jb_targets job = [''a.py'']" "ws_count st = 0" "ws_files st = []" "ws_conversation st \<noteq> []" "ws_servers st = []"
      "ws_world st = ts"
    by (rule demo_start [OF assms(1), of 10 "\<lambda>_. done_reply" ts])
  obtain messages where m: "trim_conversation (ws_conversation st) (l_history (we_limits ?env)) = Inr messages"
    using trim_total [OF s(5)] by blast
  have "file_missing demo_env [''a.py''] demo_tools = Inr []" by code_simp
  then have missing: "file_missing demo_env [''a.py''] ts = Inr []" by (simp add: file_missing_def assms(2,3))
  have "worker_turn ?env job st = reply_turn ?env job done_reply (st\<lparr>ws_world := ts\<rparr>)"
    using turn_reply [of st ?env messages done_reply ts job] s m by (simp add: done_reply_parsed)
  then obtain conversation active discovered failures st' where
      "worker_turn ?env job st = (st', Some (Inr
       [(''status'', JStr ''complete''), (''summary'', JStr []), (''files_modified'', JList []), (''tool_calls'', JInt 0),
        (''conversation'', conversation), (''created_files'', JList []), (''active_tools'', jstrs active),
        (''discovered_tools'', discovered), (''failure_state'', failures)]))"
      "ws_count st' = 0" "ws_world st' = ts"
    using s missing
    by (auto simp: reply_turn_def done_reply_parsed Let_def dget_def complete_turn_def completion_def distinct_files_def
        finish_def emitw_def file_worker_def get_created_files_def py_sorted_set_def jstrs_def [of "[]"] assms(4))
  then show ?thesis using s(1) by (intro that [of st']) (simp_all add: run_worker_def)
qed

lemma done_demo:
  obtains st d where "run_worker 1 (file_worker demo_env 10 (\<lambda>_. done_reply)) no_probe [8001] (path_of ''/w'')
      demo_assignment demo_task demo_tools = Inr (Some (st, Inr d))" "map_of d ''status'' = Some (JStr ''complete'')"
  by (rule done_run [of demo_assignment demo_tools]) (simp, simp, simp, simp, erule that, simp)

section \<open>Properties\<close>

text \<open>
  Property C30. The tool budget bounds a run: whatever the model replies, when the worker returns it has
  counted fewer calls than the budget and one batch together, and its answer reports that count.
\<close>

theorem worker_calls_bounded:
  assumes "run_worker n env pb ports ws op milestone w = Inr (Some (st, r))"
    and "1 \<le> l_batch (we_limits env)" and "0 \<le> we_budget env"
  shows "ws_count st < we_budget env + int (l_batch (we_limits env)) \<and>
    (\<forall>d. r = Inr d \<longrightarrow> map_of d ''tool_calls'' = Some (JInt (ws_count st)))"
proof -
  obtain job st0 where s: "worker_start env pb ports ws op milestone w = Inr (job, st0)"
    and l: "Some (st, r) = run_loop (worker_turn env job) n st0"
    using assms(1) by (rule run_worker_loop)
  have "within_budget env st0" using worker_start_shape(2) [OF s] assms(2,3) by (simp add: within_budget_def)
  from wb.loop_post [OF this l [symmetric]] have "within_budget env st" .
  moreover have "answered env job (st, Some r)" using wa.loop_post [OF TrueI l [symmetric]] .
  ultimately show ?thesis by (auto simp: within_budget_def answered_def)
qed

lemma worker_calls_bounded_witness:
  "\<exists>st r. run_worker 1 (file_worker demo_env 10 (\<lambda>_. done_reply)) no_probe [8001] (path_of ''/w'')
      demo_assignment demo_task demo_tools = Inr (Some (st, r)) \<and> ws_count st < 14"
proof (rule done_demo)
  fix st d
  assume r: "run_worker 1 (file_worker demo_env 10 (\<lambda>_. done_reply)) no_probe [8001] (path_of ''/w'')
      demo_assignment demo_task demo_tools = Inr (Some (st, Inr d))"
  show ?thesis using worker_calls_bounded [OF r] r by (auto simp: file_limits_def)
qed

text \<open>
  Property C31. A run that ends complete has passed its checks: in the world it had then, before its
  servers were stopped, every target file of the milestone existed, and every import of those files was
  installed - unless the run had used up its budget, which skips the second check.
\<close>

theorem worker_complete_checked:
  assumes "run_worker n env pb ports ws op milestone w = Inr (Some (st, Inr d))"
    and "map_of d ''status'' = Some (JStr ''complete'')" and "worker_targets milestone = Inr targets"
  shows "\<exists>w' servers. ws_world st = fold (we_stop env) servers w' \<and> we_missing env targets w' = Inr [] \<and>
    (we_deps env targets w' = None \<or> we_budget env \<le> ws_count st)"
proof -
  obtain job st0 where s: "worker_start env pb ports ws op milestone w = Inr (job, st0)"
    and l: "Some (st, Inr d) = run_loop (worker_turn env job) n st0"
    using assms(1) by (rule run_worker_loop)
  have "answered env job (st, Some (Inr d))" using wa.loop_post [OF TrueI l [symmetric]] .
  moreover have "jb_targets job = targets" using worker_start_shape(1) [OF s] assms(3) by simp
  ultimately show ?thesis using assms(2) by (auto simp: answered_def checked_def)
qed

lemma worker_complete_checked_witness:
  "\<exists>st d. run_worker 1 (file_worker demo_env 10 (\<lambda>_. done_reply)) no_probe [8001] (path_of ''/w'')
      demo_assignment demo_task demo_tools = Inr (Some (st, Inr d)) \<and>
    (\<exists>w'. file_missing demo_env [''a.py''] w' = Inr [])"
proof (rule done_demo)
  fix st d
  assume r: "run_worker 1 (file_worker demo_env 10 (\<lambda>_. done_reply)) no_probe [8001] (path_of ''/w'')
      demo_assignment demo_task demo_tools = Inr (Some (st, Inr d))"
    and c: "map_of d ''status'' = Some (JStr ''complete'')"
  have t: "worker_targets demo_task = Inr [''a.py'']" by code_simp
  show ?thesis using worker_complete_checked [OF r c t] r by (metis file_worker_simps(5))
qed



text \<open>
  Property C32. The circuit breaker: as long as a run goes on, no failure signature has been counted as
  often as the limit for identical failures, and fewer calls than the limit have failed in a row -
  provided the failures a retry resumes with are below the limits too.
\<close>

theorem worker_breaker_holds:
  assumes "working env pb ports ws op milestone w job st" and "0 < l_consec_fail (we_limits env)"
    and "\<forall>n\<in>snd ` set (op_failures op). n < l_same_fail (we_limits env)"
    and "op_consecutive op < l_consec_fail (we_limits env)"
  shows "(\<forall>n\<in>snd ` set (ws_failures st). n < l_same_fail (we_limits env)) \<and>
    ws_consecutive st < l_consec_fail (we_limits env)"
proof -
  have "still_below env st"
    using assms(1)
  proof induction
    case (working_start job st)
    then show ?case
      using assms(2-4) worker_start_shape(3,4) [OF working_start] by (simp add: still_below_def below_def)
  next
    case (working_turn job st st')
    then show ?case using turn_still_below by blast
  qed
  then show ?thesis by (simp add: still_below_def below_def)
qed

lemma worker_breaker_holds_witness:
  "\<exists>job st st'. working (file_worker demo_env 10 (\<lambda>_. empty_reply)) no_probe [8001] (path_of ''/w'') demo_assignment
      demo_task demo_tools job st' \<and> worker_turn (file_worker demo_env 10 (\<lambda>_. empty_reply)) job st = (st', None) \<and>
    ws_consecutive st' < 6"
proof (rule demo_start [OF demo_prior, of 10 "\<lambda>_. empty_reply"])
  fix job st
  let ?env = "file_worker demo_env 10 (\<lambda>_. empty_reply)"
  assume s: "worker_start ?env no_probe [8001] (path_of ''/w'') demo_assignment demo_task demo_tools = Inr (job, st)"
    and c: "ws_count st = 0" "ws_conversation st \<noteq> []"
  obtain st' where t: "worker_turn ?env job st = (st', None)"
    using empty_reply_turn [of st ?env job] c by simp
  have "working ?env no_probe [8001] (path_of ''/w'') demo_assignment demo_task demo_tools job st'"
    using working_turn [OF working_start [OF s] t] .
  from worker_breaker_holds [OF this] t this show ?thesis
    by (auto simp: file_limits_def demo_assignment_def)
qed

text \<open>
  But nothing bounds the turns themselves: a model that answers every conversation with the
  object \<open>{}\<close> - valid JSON without a call and without a status - keeps an uncancelled worker with a
  positive budget running forever, because neither the budget nor the count of invalid replies moves.
\<close>

lemma worker_spins:
  assumes "worker_start env pb ports ws op milestone w = Inr (job, st)" and "0 < we_budget env"
    and "\<forall>v. \<not> we_cancelled env v" and "\<forall>messages v. we_llm env messages v = (empty_reply, v)"
  shows "\<forall>n. run_worker n env pb ports ws op milestone w = Inr None"
proof
  fix n
  let ?P = "\<lambda>s. ws_count s < we_budget env \<and> ws_conversation s \<noteq> []"
  have step: "snd (worker_turn env job s) = None \<and> ?P (fst (worker_turn env job s))" if "?P s" for s
    using empty_reply_turn [of s env job] that assms(3,4) by (simp add: say_both_def)
  have "?P st" using worker_start_shape(2,7) [OF assms(1)] assms(2) by simp
  then have "run_loop (worker_turn env job) n st = None" by (rule run_loop_stuck) (rule step)
  then show "run_worker n env pb ports ws op milestone w = Inr None"
    using assms(1) by (simp add: run_worker_def bindR_def)
qed

end
