(* ===== verification/Dependencies.thy ===== *)
theory Dependencies
  imports PyJson Paths PyRegex Policy
begin

text \<open>
  \<open>src/sandbox/dependency_check.py\<close>: which third-party modules the target files of a milestone import,
  and whether they are installed. Python's parser, the workspace's listing and texts and the run of the
  session's interpreter are a record; a set of names is a list, sorted where the code sorts.
\<close>

section \<open>Data\<close>

definition preinstalled :: "string list" where
  "preinstalled = [''pytest'', ''flake8'', ''black'', ''mypy'', ''ruff'', ''_pytest'']"

definition third_party_names :: "string list" where
  "third_party_names =
     [''pygame'', ''flask'', ''django'', ''fastapi'', ''httpx'', ''requests'', ''numpy'', ''pandas'', ''pillow'',
      ''sqlalchemy'', ''uvicorn'', ''pydantic'', ''matplotlib'', ''scipy'', ''torch'', ''tensorflow'',
      ''beautifulsoup4'', ''bs4'', ''redis'', ''celery'', ''boto3'', ''aiohttp'', ''websockets'', ''click'', ''typer'',
      ''jinja2'', ''yaml'', ''email_validator'', ''phonenumbers'', ''cryptography'', ''jwt'', ''passlib'']"

definition third_party_hint :: parts where
  "third_party_hint = [(False, WordB), (True, alts (map lit_ci third_party_names)), (False, WordB)]"

definition import_to_package :: "string \<rightharpoonup> string" where
  "import_to_package = map_of
     [(''PIL'', ''Pillow''), (''bs4'', ''beautifulsoup4''), (''yaml'', ''PyYAML''), (''jwt'', ''PyJWT''),
      (''sklearn'', ''scikit-learn''), (''cv2'', ''opencv-python'')]"

text \<open>The import statements of a module, as \<open>ast.walk\<close> meets them.\<close>

datatype import_node =
    Import "string list"
  | ImportFrom "string option"

text \<open>An entry of the workspace below its root: its parts, whether it is a directory, a package.\<close>

record tree_entry =
  te_parts :: "string list"
  te_dir :: bool
  te_package :: bool

record dep_world =
  dw_stdlib :: "string list"
  dw_root :: ppath
  dw_resolve :: "ppath \<Rightarrow> ppath"
  dw_entries :: "tree_entry list option"
  dw_exists :: "ppath \<Rightarrow> bool"
  dw_read :: "ppath \<Rightarrow> string res"
  dw_parse :: "string \<Rightarrow> (json \<times> string) + import_node list"
  dw_python :: "string option"
  dw_run :: "string list \<Rightarrow> obj"

record dep_report =
  dp_required :: "string list"
  dp_missing_imports :: "string list"
  dp_missing_packages :: "string list"
  dp_checked :: "string list"
  dp_errors :: "string list"

definition dep_ok :: "dep_report \<Rightarrow> bool" where
  "dep_ok r = (dp_missing_packages r = [] \<and> dp_errors r = [])"

section \<open>Names\<close>

definition dotted_head :: "string \<Rightarrow> string" where
  "dotted_head s = hd (split_on (CHR ''.'') s)"

definition name_stem :: "string \<Rightarrow> string" where
  "name_stem n = take (length n - length (name_suffix n)) n"

definition entry_names :: "ppath \<Rightarrow> tree_entry \<Rightarrow> string list" where
  "entry_names root e =
     (let n = (if te_parts e = [] then [] else last (te_parts e))
      in if starts_with ''.'' n \<or> ''__pycache__'' \<in> set (p_parts root @ te_parts e) then []
         else if te_dir e \<and> te_package e then take 1 (te_parts e)
         else if name_suffix n = ''.py'' \<and> n \<noteq> ''__init__.py'' then name_stem n # take 1 (te_parts e)
         else [])"

definition local_module_names :: "dep_world \<Rightarrow> string list" where
  "local_module_names dw =
     (case dw_entries dw of None \<Rightarrow> [] | Some es \<Rightarrow> concat (map (entry_names (dw_root dw)) es))"

definition import_roots :: "import_node \<Rightarrow> string list" where
  "import_roots node =
     (case node of
        Import names \<Rightarrow> map dotted_head names
      | ImportFrom (Some (c # cs)) \<Rightarrow> [dotted_head (c # cs)]
      | ImportFrom _ \<Rightarrow> [])"

definition collect_import_roots :: "import_node list \<Rightarrow> string list" where
  "collect_import_roots tree = concat (map import_roots tree)"

definition py_islower :: "string \<Rightarrow> bool" where
  "py_islower s = (py_lower s = s \<and> py_upper s \<noteq> s)"

definition package_name_for_import :: "string \<Rightarrow> string" where
  "package_name_for_import import_root =
     (case import_to_package import_root of
        Some p \<Rightarrow> p
      | None \<Rightarrow> if py_islower import_root then py_lower (py_replace ''_'' ''-'' import_root) else import_root)"

text \<open>\<open>planned_module_names\<close>: the modules the plan is going to create.\<close>

definition add_module_name :: "json \<Rightarrow> string list" where
  "add_module_name module =
     (let value = py_strip (py_str (py_or module (JStr []))); first = dotted_head value
      in if value \<noteq> [] \<and> py_identifier first then [first] else [])"

definition add_import_root :: "json \<Rightarrow> string list" where
  "add_import_root spec =
     (let value = py_strip (py_str (py_or spec (JStr [])))
      in if value = [] then [] else add_module_name (JStr (dotted_head value)))"

definition target_module_names :: "json \<Rightarrow> string list" where
  "target_module_names rel =
     (let p = path_of (py_str rel); parts = (if is_absolute p then p_root p # p_parts p else p_parts p)
      in if path_suffix p = ''.py'' \<and> path_name p \<noteq> ''__init__.py''
         then name_stem (path_name p) # (if 1 < length parts then take 1 parts else [])
         else [])"

definition items_of :: "obj \<Rightarrow> string \<Rightarrow> json list res" where
  "items_of d k = py_iter (py_or (dget d k (JList [])) (JList []))"

definition milestone_modules :: "json \<Rightarrow> string list res" where
  "milestone_modules ms =
     (case ms of
        JObj d \<Rightarrow>
          bindR (items_of d ''target_files'') (\<lambda>targets.
            let names = concat (map target_module_names targets)
            in case dget d ''validation_contract'' (JObj []) of
                 JObj c \<Rightarrow>
                   bindR (items_of c ''public_api'') (\<lambda>apis.
                   bindR (items_of c ''required_imports'') (\<lambda>specs.
                     Inr (names
                       @ concat (map (\<lambda>api. case api of JObj a \<Rightarrow> add_module_name (dget a ''module'' JNull) | _ \<Rightarrow> []) apis)
                       @ concat (map add_import_root specs))))
               | _ \<Rightarrow> Inr names)
      | _ \<Rightarrow> Inr [])"

definition planned_module_names :: "obj option \<Rightarrow> string list res" where
  "planned_module_names plan =
     (case plan of
        Some (p # ps) \<Rightarrow>
          bindR (items_of (p # ps) ''milestones'') (\<lambda>mss. bindR (mapR milestone_modules mss) (\<lambda>xs. Inr (concat xs)))
      | _ \<Rightarrow> Inr [])"

section \<open>The scan\<close>

text \<open>Required imports, checked files, errors.\<close>

type_synonym scan = "string list \<times> string list \<times> string list"

definition known_name :: "dep_world \<Rightarrow> string list \<Rightarrow> string \<Rightarrow> bool" where
  "known_name dw planned root =
     (root \<in> set (dw_stdlib dw) \<or> root \<in> set (local_module_names dw) \<union> set planned \<or> root \<in> set preinstalled)"

definition scan_file :: "dep_world \<Rightarrow> string list \<Rightarrow> scan \<Rightarrow> string \<Rightarrow> scan res" where
  "scan_file dw planned acc rel0 =
     (case acc of (required, checked, errors) \<Rightarrow>
       let rel = py_strip rel0
       in if rel = [] then Inr acc
          else case resolve_workspace_path (dw_resolve dw) (dw_root dw) rel of
            Inl (ValueError m) \<Rightarrow> Inr (required, checked, errors @ [m])
          | Inl e \<Rightarrow> Inl e
          | Inr path \<Rightarrow>
              if \<not> dw_exists dw path \<or> path_suffix path \<noteq> ''.py'' then Inr acc
              else bindR (dw_read dw path) (\<lambda>source.
                case dw_parse dw source of
                  Inl (line, m) \<Rightarrow>
                    Inr (required, checked @ [rel], errors @ [rel @ '': syntax error at line '' @ py_str line @ '': '' @ m])
                | Inr tree \<Rightarrow>
                    Inr (required @ filter (\<lambda>r. \<not> known_name dw planned r) (collect_import_roots tree),
                         checked @ [rel], errors)))"

definition collect_third_party_imports :: "dep_world \<Rightarrow> string list \<Rightarrow> string list \<Rightarrow> scan res" where
  "collect_third_party_imports dw planned file_paths =
     bindR (foldR (scan_file dw planned) ([], [], []) file_paths) (\<lambda>(required, checked, errors).
       Inr (py_sorted_set required, checked, errors))"

definition find_spec_snippet :: "string \<Rightarrow> string" where
  "find_spec_snippet import_root =
     ''import importlib.util, sys; sys.exit(0 if importlib.util.find_spec('' @ repr_str import_root @ '') else 1)''"

definition is_import_installed :: "dep_world \<Rightarrow> string \<Rightarrow> bool" where
  "is_import_installed dw import_root =
     (case dw_python dw of
        None \<Rightarrow> False
      | Some python \<Rightarrow>
          dget (dw_run dw [python, ''-c'', find_spec_snippet import_root]) ''returncode'' JNull \<in> {JInt 0, JBool False})"

definition empty_report :: dep_report where
  "empty_report =
     \<lparr>dp_required = [], dp_missing_imports = [], dp_missing_packages = [], dp_checked = [], dp_errors = []\<rparr>"

definition scaffold_phase :: "string \<Rightarrow> bool" where
  "scaffold_phase phase = (py_lower (py_strip phase) \<in> set [''scaffold'', ''test_scaffold'', ''test-only''])"

definition check_target_file_dependencies ::
    "dep_world \<Rightarrow> string list \<Rightarrow> string \<Rightarrow> string list \<Rightarrow> dep_report res" where
  "check_target_file_dependencies dw planned phase file_paths =
     (if scaffold_phase phase then Inr empty_report
      else bindR (collect_third_party_imports dw planned file_paths) (\<lambda>(required, checked, errors).
        let missing = filter (\<lambda>r. \<not> is_import_installed dw r) required
        in Inr \<lparr>dp_required = required, dp_missing_imports = missing,
                dp_missing_packages = rev (remdups (rev (map package_name_for_import missing))),
                dp_checked = checked, dp_errors = errors\<rparr>))"

definition active_env_label :: "bool \<Rightarrow> string" where
  "active_env_label project = (if project then ''project venv (.venv)'' else ''session venv'')"

definition format_missing_dependency_message :: "bool \<Rightarrow> dep_report \<Rightarrow> string" where
  "format_missing_dependency_message project report =
     (let env = active_env_label project;
          parts =
            (if dp_missing_packages report = [] then []
             else [''Missing third-party packages in the '' @ env @ '': '' @ py_join '', '' (dp_missing_packages report)
                   @ ''. Call install_dependency for each package before signalling complete (it targets the '' @ env @ '').''])
            @ (if dp_errors report = [] then [] else [''Dependency scan errors: '' @ py_join ''; '' (dp_errors report)])
      in if parts = [] then ''Missing third-party dependencies.'' else py_join '' '' parts)"

section \<open>Hints in text\<close>

fun note_hint :: "string list \<Rightarrow> string list \<Rightarrow> string list" where
  "note_hint found [token] =
     (let pkg = package_name_for_import token
      in if py_lower pkg \<in> set (map py_lower found) then found else found @ [pkg])"
| "note_hint found _ = found"

definition third_party_hints_in_text :: "json list \<Rightarrow> string list res" where
  "third_party_hints_in_text texts =
     foldR (\<lambda>found t. if \<not> truthy t then Inr found
        else case t of JStr s \<Rightarrow> Inr (foldl note_hint found (rx_all third_party_hint s)) | _ \<Rightarrow> Inl TypeError) [] texts"

definition milestone_suggests_dependencies :: "obj \<Rightarrow> obj \<Rightarrow> bool res" where
  "milestone_suggests_dependencies milestone plan =
     bindR (third_party_hints_in_text
         ([dget milestone ''title'' (JStr []), dget milestone ''description'' (JStr [])]
          @ (if plan = [] then [] else [dget plan ''title'' (JStr []), dget plan ''description'' (JStr [])])))
       (\<lambda>found. Inr (found \<noteq> []))"


section \<open>What a report says\<close>

definition imports_in :: "dep_world \<Rightarrow> string \<Rightarrow> string \<Rightarrow> bool" where
  "imports_in dw rel root \<longleftrightarrow>
     (\<exists>path source tree. py_strip rel \<noteq> [] \<and>
        resolve_workspace_path (dw_resolve dw) (dw_root dw) (py_strip rel) = Inr path \<and> dw_exists dw path \<and>
        path_suffix path = ''.py'' \<and> dw_read dw path = Inr source \<and> dw_parse dw source = Inr tree \<and>
        root \<in> set (collect_import_roots tree))"

lemma scan_file_required:
  assumes "scan_file dw planned acc rel = Inr acc'"
  shows "set (fst acc') = set (fst acc) \<union> {root. imports_in dw rel root \<and> \<not> known_name dw planned root}"
  using assms
  by (auto simp: scan_file_def imports_in_def Let_def split: prod.split_asm if_split_asm sum.split_asm pyexn.split_asm)

lemma scan_required:
  assumes "foldR (scan_file dw planned) acc rels = Inr acc'"
  shows "set (fst acc') = set (fst acc) \<union> {root. (\<exists>rel\<in>set rels. imports_in dw rel root) \<and> \<not> known_name dw planned root}"
  using assms
proof (induction rels arbitrary: acc)
  case (Cons rel rels)
  then obtain acc1 where s: "scan_file dw planned acc rel = Inr acc1" and f: "foldR (scan_file dw planned) acc1 rels = Inr acc'"
    by auto
  show ?case using Cons.IH [OF f] scan_file_required [OF s] by auto
qed simp

lemma first_occurrences_set [simp]: "set (rev (remdups (rev xs))) = set xs" "rev (remdups (rev xs)) = [] \<longleftrightarrow> xs = []"
  by simp_all

section \<open>Property\<close>

text \<open>
  Property C27. A dependency report is exact: outside the scaffold phase the missing imports are the roots
  some existing, readable, parsable Python target imports that are no module of the standard library, of
  the workspace, of the plan or of the harness and that the session's interpreter does not find. The report
  is accepted just when there is none and no error.
\<close>

theorem dependency_report_exact:
  assumes "check_target_file_dependencies dw planned phase files = Inr r" and "\<not> scaffold_phase phase"
  shows "set (dp_missing_imports r) = {root. (\<exists>rel\<in>set files. imports_in dw rel root) \<and>
      \<not> known_name dw planned root \<and> \<not> is_import_installed dw root} \<and>
    (dep_ok r \<longleftrightarrow> dp_errors r = [] \<and>
      (\<forall>rel\<in>set files. \<forall>root. imports_in dw rel root \<longrightarrow> known_name dw planned root \<or> is_import_installed dw root))"
proof -
  obtain acc required checked errors where f: "foldR (scan_file dw planned) ([], [], []) files = Inr acc"
    and c: "acc = (required, checked, errors)"
    and r: "r = \<lparr>dp_required = py_sorted_set required,
        dp_missing_imports = filter (\<lambda>r. \<not> is_import_installed dw r) (py_sorted_set required),
        dp_missing_packages = rev (remdups (rev (map package_name_for_import
            (filter (\<lambda>r. \<not> is_import_installed dw r) (py_sorted_set required))))),
        dp_checked = checked, dp_errors = errors\<rparr>"
    using assms by (auto simp: check_target_file_dependencies_def collect_third_party_imports_def Let_def)
  have "set required = {root. (\<exists>rel\<in>set files. imports_in dw rel root) \<and> \<not> known_name dw planned root}"
    using scan_required [OF f] c by simp
  then have m: "set (dp_missing_imports r) = {root. (\<exists>rel\<in>set files. imports_in dw rel root) \<and>
      \<not> known_name dw planned root \<and> \<not> is_import_installed dw root}"
    using r by (auto simp: py_sorted_set_def)
  have "dep_ok r \<longleftrightarrow> dp_errors r = [] \<and> set (dp_missing_imports r) = {}"
    using r by (auto simp: dep_ok_def py_sorted_set_def filter_empty_conv)
  then have "dep_ok r \<longleftrightarrow> dp_errors r = [] \<and>
      (\<forall>rel\<in>set files. \<forall>root. imports_in dw rel root \<longrightarrow> known_name dw planned root \<or> is_import_installed dw root)"
    using m by auto
  then show ?thesis using m by blast
qed

abbreviation demo_deps :: dep_world where
  "demo_deps \<equiv> \<lparr>dw_stdlib = [''os''], dw_root = path_of ''/w'', dw_resolve = lexical_resolve, dw_entries = None,
     dw_exists = (\<lambda>_. True), dw_read = (\<lambda>_. Inr []), dw_parse = (\<lambda>_. Inr [Import [''os.path'', ''flask''], ImportFrom (Some ''cv2'')]),
     dw_python = Some ''python'', dw_run = (\<lambda>_. [(''returncode'', JInt 1)])\<rparr>"

lemma dependency_report_exact_witness:
  "\<exists>r. check_target_file_dependencies demo_deps [''flask''] ''implementation'' [''a.py''] = Inr r \<and>
     dp_missing_packages r = [''opencv-python''] \<and>
     ''cv2'' \<in> {root. (\<exists>rel\<in>{''a.py''}. imports_in demo_deps rel root) \<and>
        \<not> known_name demo_deps [''flask''] root \<and> \<not> is_import_installed demo_deps root}"
proof -
  let ?r = "check_target_file_dependencies demo_deps [''flask''] ''implementation'' [''a.py'']"
  have "case ?r of Inr r \<Rightarrow> dp_missing_packages r = [''opencv-python''] \<and> dp_missing_imports r = [''cv2''] | _ \<Rightarrow> False"
    by code_simp
  then obtain r where r: "?r = Inr r" "dp_missing_packages r = [''opencv-python'']" "dp_missing_imports r = [''cv2'']"
    by (cases ?r) auto
  have p: "\<not> scaffold_phase ''implementation''" by code_simp
  show ?thesis using dependency_report_exact [OF r(1) p] r by auto
qed

end
