(* ===== verification/UiSmoke.thy ===== *)
theory UiSmoke
  imports PyJson PyShlex
begin

text \<open>
  \<open>src/agents/ui_validation.py\<close>: the browser check of a UI milestone. It starts the application, runs the
  checks of the contract one by one until one fails, reads the server's log, and stops the server in a
  \<open>finally\<close> block. \<open>serve_app\<close> and \<open>inspect_ui\<close> act on a world and may raise.
\<close>

record 'w browser =
  br_serve :: "obj \<Rightarrow> 'w \<Rightarrow> obj res \<times> 'w"
  br_inspect :: "obj \<Rightarrow> 'w \<Rightarrow> obj res \<times> 'w"

definition no_serve_verdict :: obj where
  "no_serve_verdict =
     [(''verdict'', JStr ''REPLAN''), (''errors'', JList [JStr (''ui_smoke contract must contain a '' @ quoted ''serve'' @ '' object.'')]),
      (''replan_guidance'', JStr ''Add serve.kind, serve.port, and the app entry point.'')]"

definition bad_command_verdict :: "string \<Rightarrow> obj" where
  "bad_command_verdict m =
     [(''verdict'', JStr ''REPLAN''), (''errors'', JList [JStr (''Invalid generic server command: '' @ m)]),
      (''replan_guidance'', JStr ''Provide a shell-parseable command in the UI contract.'')]"

definition usable_serve :: "json \<Rightarrow> bool" where
  "usable_serve serve =
     (case serve of
        JObj d \<Rightarrow> d \<noteq> [] \<and> (''kind'' \<in> set (map fst d) \<or> ''command'' \<in> set (map fst d))
      | _ \<Rightarrow> False)"

text \<open>The arguments of the start, or the verdict on a command that does not parse.\<close>

definition start_args :: "obj \<Rightarrow> obj \<Rightarrow> obj + obj" where
  "start_args contract serve =
     (let args = AList.update ''action'' (JStr ''start'') serve
      in case dget contract ''command'' JNull of
           JStr c \<Rightarrow>
             if py_lower (get_str args ''kind'' []) = ''generic'' \<and> \<not> truthy (dget args ''command'' JNull) then
               (case sh_split c of
                  Inl (ValueError m) \<Rightarrow> Inl (bad_command_verdict m)
                | Inl _ \<Rightarrow> Inl (bad_command_verdict [])
                | Inr argv \<Rightarrow> Inr (AList.update ''command'' (JList (map JStr argv)) args))
             else Inr args
         | _ \<Rightarrow> Inr args)"

definition start_failed_verdict :: "obj \<Rightarrow> obj" where
  "start_failed_verdict started =
     [(''verdict'', JStr (if \<not> truthy (dget started ''policy_denied'' JNull) then ''FAIL'' else ''REPLAN'')),
      (''errors'', JList [dget started ''error'' (JStr ''UI server failed to start.'')]),
      (''root_cause'', JStr ''The managed UI server was not ready for validation.''),
      (''fix_guidance'', JStr
        (if truthy (dget started ''servers'' JNull)
         then ''Use serve_app(action='' @ [dquote] @ ''list'' @ [dquote]
              @ '') to inspect harness-managed servers, stop stale ones with serve_app(action='' @ [dquote] @ ''stop'' @ [dquote]
              @ '', server_id=...), then retry validation.''
         else ''Fix the application startup command and inspect server logs.'')),
      (''active_servers'', dget started ''servers'' (JList [])), (''allowed_ports'', dget started ''allowed_ports'' (JList []))]"

definition check_action :: "obj \<Rightarrow> string" where
  "check_action check =
     (let raw = py_lower (py_str (py_or (dget check ''action'' JNull) (py_or (dget check ''type'' JNull) (JStr ''snapshot''))))
      in if raw = ''visible_text'' then ''assert_text'' else if raw = ''browser_audit'' then ''audit'' else raw)"

definition check_args :: "string \<Rightarrow> obj \<Rightarrow> obj" where
  "check_args server_id check =
     [(''server_id'', JStr server_id), (''action'', JStr (check_action check)), (''path'', JStr (get_str check ''path'' ''/'')),
      (''text'', JStr (get_str check ''text'' [])), (''selector'', JStr (get_str check ''selector'' [])),
      (''value'', JStr (get_str check ''value'' []))]"

record ui_failure =
  uf_action :: string
  uf_error :: json
  uf_missing :: json

definition failure_of :: "obj \<Rightarrow> obj \<Rightarrow> ui_failure" where
  "failure_of check result =
     \<lparr>uf_action = check_action check,
      uf_error = py_or (dget result ''error'' JNull)
        (py_or (dget result ''asserted_text'' (JStr [])) (JStr ''the check returned success=false'')),
      uf_missing = dget result ''capability_missing'' JNull\<rparr>"

text \<open>The results so far and the first failure.\<close>

fun smoke_checks ::
    "'w browser \<Rightarrow> string \<Rightarrow> json list \<Rightarrow> obj list \<Rightarrow> 'w \<Rightarrow> (obj list \<times> ui_failure option) res \<times> 'w" where
  "smoke_checks br sid [] results w = (Inr (results, None), w)"
| "smoke_checks br sid (c # cs) results w =
     (case c of
        JObj check \<Rightarrow>
          (case br_inspect br (check_args sid check) w of
             (Inl e, w') \<Rightarrow> (Inl e, w')
           | (Inr result, w') \<Rightarrow>
               if truthy (dget result ''success'' JNull) then smoke_checks br sid cs (results @ [result]) w'
               else (Inr (results @ [result], Some (failure_of check result)), w'))
      | _ \<Rightarrow> smoke_checks br sid cs results w)"

definition smoke_verdict :: "obj list \<Rightarrow> ui_failure option \<Rightarrow> json \<Rightarrow> obj" where
  "smoke_verdict results failure logs =
     (case failure of
        Some f \<Rightarrow>
          (let missing = truthy (uf_missing f)
           in [(''verdict'', JStr (if missing then ''REPLAN'' else ''FAIL'')),
               (''errors'', JList [JStr (''UI check '' @ quoted (uf_action f) @ '' failed: '' @ py_str (uf_error f))]),
               (''root_cause'', JStr (if missing then ''The UI browser capability is unavailable.''
                  else ''The rendered UI did not satisfy the smoke contract.'')),
               (''fix_guidance'', JStr (if missing then ''Install the harness browser dependency and Chromium.''
                  else ''Use the URL, browser diagnostics, and server logs to fix the UI.'')),
               (''ui_results'', JList (map JObj results)), (''server_logs'', logs)])
      | None \<Rightarrow>
          [(''verdict'', JStr ''PASS''), (''validation_details'', JStr ''All UI smoke checks passed.''),
           (''ui_results'', JList (map JObj results)), (''server_logs'', logs)])"

text \<open>The body of the \<open>try\<close>.\<close>

definition smoke_body :: "'w browser \<Rightarrow> obj \<Rightarrow> string \<Rightarrow> 'w \<Rightarrow> obj res \<times> 'w" where
  "smoke_body br contract sid w =
     (case py_iter (py_or (dget contract ''checks'' (JList [])) (JList [])) of
        Inl e \<Rightarrow> (Inl e, w)
      | Inr checks \<Rightarrow>
          (case smoke_checks br sid checks [] w of
             (Inl e, w1) \<Rightarrow> (Inl e, w1)
           | (Inr (results, failure), w1) \<Rightarrow>
               (case br_serve br [(''action'', JStr ''logs''), (''server_id'', JStr sid)] w1 of
                  (Inl e, w2) \<Rightarrow> (Inl e, w2)
                | (Inr logs, w2) \<Rightarrow> (Inr (smoke_verdict results failure (dget logs ''logs'' (JStr []))), w2))))"

definition stop_args :: "string \<Rightarrow> obj" where
  "stop_args sid = [(''action'', JStr ''stop''), (''server_id'', JStr sid)]"

text \<open>An exception of the \<open>finally\<close> block replaces what the body returned or raised.\<close>

definition smoke_and_stop :: "'w browser \<Rightarrow> obj \<Rightarrow> string \<Rightarrow> 'w \<Rightarrow> obj res \<times> 'w" where
  "smoke_and_stop br contract sid w =
     (case smoke_body br contract sid w of
        (r, w1) \<Rightarrow> (case br_serve br (stop_args sid) w1 of (Inl e, w2) \<Rightarrow> (Inl e, w2) | (Inr _, w2) \<Rightarrow> (r, w2)))"

definition run_ui_smoke_contract :: "'w browser \<Rightarrow> obj \<Rightarrow> 'w \<Rightarrow> obj res \<times> 'w" where
  "run_ui_smoke_contract br contract w =
     (case dget contract ''serve'' (JObj []) of
        JObj serve \<Rightarrow>
          if \<not> usable_serve (JObj serve) then (Inr no_serve_verdict, w)
          else (case start_args contract serve of
            Inl verdict \<Rightarrow> (Inr verdict, w)
          | Inr args \<Rightarrow>
              (case br_serve br args w of
                 (Inl e, w1) \<Rightarrow> (Inl e, w1)
               | (Inr started, w1) \<Rightarrow>
                   if \<not> truthy (dget started ''success'' JNull) then (Inr (start_failed_verdict started), w1)
                   else smoke_and_stop br contract (get_str started ''server_id'' []) w1))
      | _ \<Rightarrow> (Inr no_serve_verdict, w))"

section \<open>Checks\<close>

lemma smoke_checks_passed:
  assumes "smoke_checks br sid cs results w = (Inr (results', None), w')"
  shows "\<exists>new. results' = results @ new \<and> length new = length (filter is_obj cs) \<and>
    (\<forall>r\<in>set new. truthy (dget r ''success'' JNull))"
  using assms
proof (induction br sid cs results w rule: smoke_checks.induct)
  case (2 br sid c cs results w)
  then show ?case
    by (cases c) (fastforce split: prod.split_asm sum.split_asm if_split_asm)+
qed simp

section \<open>Property\<close>

text \<open>
  Property C26. Whatever the browser and the application do - a check that fails, an exception in the
  middle, a missing capability - a server that was started is stopped, as the last thing that happens; and
  a PASS means that every check of the contract was run and succeeded.
\<close>

theorem ui_smoke_stops_and_checks:
  assumes "dget contract ''serve'' (JObj []) = JObj serve" and "usable_serve (JObj serve)"
    and "start_args contract serve = Inr args" and "br_serve br args w = (Inr started, w1)"
    and "truthy (dget started ''success'' JNull)"
    and "run_ui_smoke_contract br contract w = (r, w')"
  shows "(\<exists>w2. w' = snd (br_serve br (stop_args (get_str started ''server_id'' [])) w2)) \<and>
    (\<forall>v. r = Inr v \<and> dget v ''verdict'' JNull = JStr ''PASS'' \<longrightarrow>
      (\<exists>checks results. py_iter (py_or (dget contract ''checks'' (JList [])) (JList [])) = Inr checks \<and>
         dget v ''ui_results'' JNull = JList (map JObj results) \<and> length results = length (filter is_obj checks) \<and>
         (\<forall>x\<in>set results. truthy (dget x ''success'' JNull))))"
proof -
  let ?sid = "get_str started ''server_id'' []"
  have run: "smoke_and_stop br contract ?sid w1 = (r, w')"
    using assms by (simp add: run_ui_smoke_contract_def)
  obtain rb wb where b: "smoke_body br contract ?sid w1 = (rb, wb)" by fastforce
  obtain rs ws where s: "br_serve br (stop_args ?sid) wb = (rs, ws)" by fastforce
  have w': "w' = ws" and r: "r = (case rs of Inl e \<Rightarrow> Inl e | Inr _ \<Rightarrow> rb)"
    using run b s by (auto simp: smoke_and_stop_def split: sum.splits)
  have stop: "w' = snd (br_serve br (stop_args ?sid) wb)" using s w' by simp
  have "\<exists>checks results. py_iter (py_or (dget contract ''checks'' (JList [])) (JList [])) = Inr checks \<and>
         dget v ''ui_results'' JNull = JList (map JObj results) \<and> length results = length (filter is_obj checks) \<and>
         (\<forall>x\<in>set results. truthy (dget x ''success'' JNull))"
    if v: "r = Inr v" "dget v ''verdict'' JNull = JStr ''PASS''" for v
  proof -
    have "rb = Inr v" using v(1) r by (auto split: sum.splits)
    then obtain checks results failure wc logs where c: "py_iter (py_or (dget contract ''checks'' (JList [])) (JList [])) = Inr checks"
      and run: "smoke_checks br ?sid checks [] w1 = (Inr (results, failure), wc)" and vv: "v = smoke_verdict results failure logs"
      using b by (auto simp: smoke_body_def split: sum.splits prod.splits)
    have "failure = None" using v(2) vv by (auto simp: smoke_verdict_def Let_def dget_def split: option.splits if_splits)
    then show ?thesis
      using smoke_checks_passed [of br ?sid checks "[]" w1 results wc] run c vv
      by (auto simp: smoke_verdict_def dget_def)
  qed
  then show ?thesis using stop by blast
qed

abbreviation demo_browser :: "string list browser" where
  "demo_browser \<equiv> \<lparr>br_serve = (\<lambda>d w. (Inr [(''success'', JBool True), (''server_id'', JStr ''s1'')], get_str d ''action'' [] # w)),
     br_inspect = (\<lambda>d w. (Inr [(''success'', JBool True)], ''inspect'' # w))\<rparr>"

lemma ui_smoke_stops_and_checks_witness:
  "\<exists>v results. run_ui_smoke_contract demo_browser [(''serve'', JObj [(''kind'', JStr ''static'')]), (''checks'', JList [JObj [], JNull])] []
     = (Inr v, [''stop'', ''logs'', ''inspect'', ''start'']) \<and> dget v ''ui_results'' JNull = JList (map JObj results) \<and>
     length results = 1"
proof -
  let ?c = "[(''serve'', JObj [(''kind'', JStr ''static'')]), (''checks'', JList [JObj [], JNull])]"
  have a: "dget ?c ''serve'' (JObj []) = JObj [(''kind'', JStr ''static'')]" by (simp add: dget_def)
  have b: "usable_serve (JObj [(''kind'', JStr ''static'')])" by code_simp
  have s: "start_args ?c [(''kind'', JStr ''static'')] = Inr [(''kind'', JStr ''static''), (''action'', JStr ''start'')]" by code_simp
  have d: "br_serve demo_browser [(''kind'', JStr ''static''), (''action'', JStr ''start'')] []
      = (Inr [(''success'', JBool True), (''server_id'', JStr ''s1'')], [''start''])" by code_simp
  have e: "truthy (dget [(''success'', JBool True), (''server_id'', JStr ''s1'')] ''success'' JNull)" by code_simp
  have "case run_ui_smoke_contract demo_browser ?c [] of
      (Inr v, w) \<Rightarrow> w = [''stop'', ''logs'', ''inspect'', ''start''] \<and> dget v ''verdict'' JNull = JStr ''PASS'' | _ \<Rightarrow> False" by code_simp
  then obtain v where v: "run_ui_smoke_contract demo_browser ?c [] = (Inr v, [''stop'', ''logs'', ''inspect'', ''start''])"
      "dget v ''verdict'' JNull = JStr ''PASS''"
    by (auto split: prod.splits sum.splits)
  have "filter is_obj [JObj [], JNull] = [JObj []]" by simp
  then show ?thesis using ui_smoke_stops_and_checks [OF a b s d e v(1)] v by (fastforce simp: dget_def)
qed

end
