(* ===== verification/Milestone.thy ===== *)
theory Milestone
  imports Trace Verdict Dependencies FileOps Loops
begin

text \<open>
  The life of one milestone in \<open>src/main.py\<close>: \<open>_execute_milestone\<close> scopes the write policy, routes tools,
  and lets the worker (or the hotfix profile) try until the validator (or the fix verifier) accepts, asks
  for a new plan, or the attempts are used up. Its helpers are modelled beside it. What it calls is a
  record of operations on a world \<open>'w\<close>.
\<close>

section \<open>Helpers\<close>

definition max_retry_cycles :: int where "max_retry_cycles = 3"

definition core_worker_tools :: "string list" where
  "core_worker_tools =
     [''read_file'', ''write_file'', ''patch_file'', ''list_directory'', ''search_grep'', ''run_pytest'', ''run_linter'',
      ''project_info'', ''probe_dependency'', ''run_checks'']"

definition ui_hints :: "string list" where
  "ui_hints = [''frontend'', ''react'', ''vite'', ''streamlit'', ''browser'', ''web app'']"

text \<open>A milestone whose target files are all tests. The files are tested in order, up to the first that is none.\<close>

fun all_tests :: "json list \<Rightarrow> bool res" where
  "all_tests [] = Inr True"
| "all_tests (JStr f # fs) = (if is_test_path f then all_tests fs else Inr False)"
| "all_tests (_ # fs) = Inl AttributeError"

definition is_test_milestone :: "obj \<Rightarrow> bool res" where
  "is_test_milestone milestone =
     (let targets = dget milestone ''target_files'' (JList [])
      in if \<not> truthy targets then Inr False else bindR (py_iter targets) all_tests)"

definition hex_char :: "char \<Rightarrow> bool" where
  "hex_char c = (is_digit c \<or> c \<in> set ''abcdef'')"

definition slash_char :: "char \<Rightarrow> bool" where
  "slash_char c = (c = CHR ''/'' \<or> c = bslash)"

definition path_char :: "char \<Rightarrow> bool" where
  "path_char c = (is_word c \<or> c \<in> set ''.-~'')"

definition path_rx :: rx where
  "path_rx = (let part = Seq (Chars slash_char) (Plus (Chars path_char)) in Seq part (Plus part))"

definition normalize_failure_signature :: "json \<Rightarrow> json \<Rightarrow> string res" where
  "normalize_failure_signature errors fix_guidance =
     (if \<not> truthy errors then Inr []
      else bindR (py_iter errors) (\<lambda>es.
        let text = py_join '' | '' (map py_str es)
              @ (if truthy fix_guidance then '' || '' @ take 300 (py_str fix_guidance) else []);
            t1 = rx_sub (Seq (lit ''0x'') (Plus (Chars hex_char))) ''0x#'' (py_lower text);
            t2 = rx_sub path_rx ''<path>'' t1
        in Inr (py_join '' '' (split_ws (rx_sub (Plus (Chars is_digit)) ''#'' t2)))))"

text \<open>The verdict of the fix verifier as one of the retry loop, with its errors and guidance.\<close>

definition map_fix_verification :: "obj \<Rightarrow> string \<times> string list \<times> string" where
  "map_fix_verification verification =
     (let verdict = get_str verification ''verdict'' ''UNVERIFIED''
      in if verdict = ''NEEDS_REWORK'' then
           (''FAIL'',
            [py_str (py_or (dget verification ''summary'' (JStr [])) (JStr ''fix did not satisfy criteria''))],
            py_str (py_or (dget verification ''fix_guidance'' (JStr [])) (dget verification ''summary'' (JStr []))))
         else if verdict = ''ESCALATE_TO_MISSION'' then (''ESCALATE'', [], [])
         else (''PASS'', [], []))"

section \<open>The runtime around a milestone\<close>

text \<open>What one attempt of the worker is given.\<close>

record attempt =
  at_tools_md :: string
  at_feedback :: "string option"
  at_retry :: int
  at_conversation :: json
  at_active :: "string list"
  at_failures :: json

record 'w runtime =
  rt_cancelled :: "'w \<Rightarrow> bool"
  rt_work :: "attempt \<Rightarrow> 'w \<Rightarrow> obj res \<times> 'w"
  rt_validate :: "obj \<Rightarrow> int \<Rightarrow> bool \<Rightarrow> 'w \<Rightarrow> obj res \<times> 'w"
  rt_verify :: "obj \<Rightarrow> 'w \<Rightarrow> obj res \<times> 'w"
  rt_commit :: "string \<Rightarrow> 'w \<Rightarrow> obj \<times> 'w"
  rt_save :: "obj \<Rightarrow> 'w \<Rightarrow> unit res \<times> 'w"
  rt_artifact :: "obj \<Rightarrow> 'w \<Rightarrow> 'w"
  rt_log_failure :: "json \<Rightarrow> string \<Rightarrow> 'w \<Rightarrow> 'w"
  rt_memory :: bool
  rt_tools :: "(tool_state \<Rightarrow> tool_state) \<Rightarrow> 'w \<Rightarrow> 'w"
  rt_fs :: fs_env
  rt_search :: "string \<Rightarrow> obj"
  rt_skill :: "string \<Rightarrow> string option"
  rt_ports :: string
  rt_dumps :: "json \<Rightarrow> string"
  rt_elapsed :: json

record packet =
  pk_milestone :: obj
  pk_plan :: obj
  pk_id :: json
  pk_title :: json
  pk_hotfix :: bool
  pk_test :: bool
  pk_tools_md :: string

record handoff =
  h_id :: json
  h_title :: json
  h_summary :: json
  h_files :: json
  h_calls :: json
  h_retry :: int
  h_verdict :: string
  h_commit :: json
  h_elapsed :: json
  h_errors :: "string list"
  h_signature :: json
  h_verification :: "obj option"

text \<open>The variables of the retry loop. \<open>mi_over\<close> is set where the code leaves the loop by \<open>break\<close>.\<close>

record 'w mstate =
  mi_retry :: int
  mi_errors :: "string list"
  mi_prev :: "string option"
  mi_conversation :: json
  mi_active :: "string list"
  mi_failures :: json
  mi_over :: bool
  mi_world :: 'w
  mi_events :: "event list"

definition report :: "event \<Rightarrow> 'w mstate \<Rightarrow> 'w mstate" where
  "report e st = st\<lparr>mi_events := mi_events st @ [e]\<rparr>"

definition log_error :: "string \<Rightarrow> 'w mstate \<Rightarrow> 'w mstate" where
  "log_error m st = st\<lparr>mi_errors := mi_errors st @ [m]\<rparr>"

type_synonym 'w turn_end = "'w mstate \<times> handoff res option"

section \<open>Routing of tools\<close>

definition add_skill :: "string option \<Rightarrow> string \<Rightarrow> string" where
  "add_skill skill md =
     (case skill of
        Some (c # cs) \<Rightarrow>
          if contains (c # cs) md then md
          else if md \<noteq> [] then (c # cs) @ [nl, nl] @ ''---'' @ [nl, nl] @ md else c # cs
      | _ \<Rightarrow> md)"

definition fold_skills :: "'w runtime \<Rightarrow> string list \<Rightarrow> string \<Rightarrow> string" where
  "fold_skills rt names md = foldl (\<lambda>m n. add_skill (rt_skill rt n) m) md names"

definition packet_intent :: "obj \<Rightarrow> string" where
  "packet_intent milestone =
     get_str milestone ''title'' [] @ '': '' @ get_str milestone ''description'' [] @ nl
     # ''Acceptance criteria: '' @ py_str (dget milestone ''acceptance_criteria'' (JList [])) @ nl
     # ''Validation profile: '' @ get_str milestone ''validation_profile'' ''auto''"

definition ui_packet :: "obj \<Rightarrow> json list \<Rightarrow> bool" where
  "ui_packet milestone targets =
     (py_lower (get_str milestone ''validation_profile'' []) = ''ui'' \<or>
      (\<exists>p\<in>set targets. \<exists>s\<in>set [''.html'', ''.jsx'', ''.tsx'', ''.vue'']. ends_with s (py_lower (py_str p))))"

definition wants_ui :: "obj \<Rightarrow> json list \<Rightarrow> bool" where
  "wants_ui milestone targets =
     (ui_packet milestone targets \<or>
      (\<exists>hint\<in>set ui_hints. contains hint
         (py_lower (get_str milestone ''title'' [] @ '' '' @ get_str milestone ''description'' []))))"

text \<open>The documentation of the tools and their names, before the event and after the dependency hint.\<close>

definition routed_tools :: "'w runtime \<Rightarrow> obj \<Rightarrow> string list" where
  "routed_tools rt milestone =
     (case dget (rt_search rt (packet_intent milestone)) ''tools'' (JList []) of JList xs \<Rightarrow> map py_str xs | _ \<Rightarrow> [])"

definition route_tools :: "'w runtime \<Rightarrow> obj \<Rightarrow> json list \<Rightarrow> string \<times> string list" where
  "route_tools rt milestone targets =
     (let md0 = get_str (rt_search rt (packet_intent milestone)) ''documentation'' [];
          md1 = fold_skills rt core_worker_tools md0;
          active = List.union core_worker_tools (routed_tools rt milestone)
      in if \<not> wants_ui milestone targets then (md1, active)
         else (let md2 = fold_skills rt [''serve_app'', ''inspect_ui''] md1
               in (if md2 \<noteq> [] then md2 @ [nl, nl] @ rt_ports rt else rt_ports rt,
                   List.union [''serve_app'', ''inspect_ui''] active)))"

definition add_install :: "'w runtime \<Rightarrow> bool \<Rightarrow> string \<times> string list \<Rightarrow> string \<times> string list" where
  "add_install rt suggested routed =
     (case (rt_skill rt ''install_dependency'', routed) of
        (Some (c # cs), (md, active)) \<Rightarrow>
          if suggested \<and> \<not> contains ''install_dependency'' md
          then (if md \<noteq> [] then (c # cs) @ [nl, nl] @ ''---'' @ [nl, nl] @ md else c # cs,
                List.insert ''install_dependency'' active)
          else (md, active)
      | _ \<Rightarrow> routed)"

text \<open>
  What happens before the first attempt: the write policy of the milestone, the tools, the event.
  Target files that are no strings end in an exception.
\<close>

definition text_of :: "json \<Rightarrow> string res" where
  "text_of j = (case j of JStr s \<Rightarrow> Inr s | _ \<Rightarrow> Inl AttributeError)"

definition scope_policy :: "'w runtime \<Rightarrow> bool \<Rightarrow> string list \<Rightarrow> 'w \<Rightarrow> 'w" where
  "scope_policy rt is_test targets w =
     rt_tools rt (begin_milestone_write_policy (rt_fs rt) (Some targets) (\<not> is_test \<and> (\<exists>p\<in>set targets. is_test_path p)))
       (rt_tools rt (set_allow_test_edits is_test) w)"

definition routing_event :: "'w runtime \<Rightarrow> obj \<Rightarrow> bool \<Rightarrow> string list \<Rightarrow> event" where
  "routing_event rt milestone hotfix active =
     (''tool.routing'',
      [(''milestone_id'', dget milestone ''id'' (JStr ''?'')), (''query'', JStr (packet_intent milestone)),
       (''tools'', JList (map JStr (py_sorted_set active))), (''count'', JInt (int (length (remdups active)))),
       (''routed_tools'', JList (map JStr (py_sorted_set (routed_tools rt milestone)))),
       (''core_tools'', JList (map JStr core_worker_tools)),
       (''role'', JStr (if hotfix then ''hotfix'' else ''worker''))])"

definition milestone_start ::
    "'w runtime \<Rightarrow> bool \<Rightarrow> obj \<Rightarrow> obj \<Rightarrow> 'w \<Rightarrow> (packet \<times> 'w mstate) res" where
  "milestone_start rt hotfix plan milestone w =
     bindR (is_test_milestone milestone) (\<lambda>is_test.
     bindR (py_iter (dget milestone ''target_files'' (JList []))) (\<lambda>targets.
     bindR (mapR text_of targets) (\<lambda>names.
     bindR (milestone_suggests_dependencies milestone plan) (\<lambda>suggested.
       let routed = route_tools rt milestone targets;
           final = add_install rt suggested routed
       in Inr (\<lparr>pk_milestone = milestone, pk_plan = plan, pk_id = dget milestone ''id'' (JStr ''?''),
                 pk_title = dget milestone ''title'' (JStr []), pk_hotfix = hotfix, pk_test = is_test,
                 pk_tools_md = fst final\<rparr>,
               \<lparr>mi_retry = 0, mi_errors = [], mi_prev = None, mi_conversation = JNull, mi_active = snd final,
                 mi_failures = JObj [], mi_over = False, mi_world = scope_policy rt is_test names w,
                 mi_events = [routing_event rt milestone hotfix (snd routed)]\<rparr>)))))"

section \<open>Outcomes of an attempt\<close>

definition worker_summary_of :: "obj \<Rightarrow> json" where
  "worker_summary_of work = dget work ''summary'' (JStr [])"

definition files_of :: "obj \<Rightarrow> json" where
  "files_of work = dget work ''files_modified'' (JList [])"

definition calls_of :: "obj \<Rightarrow> json" where
  "calls_of work = dget work ''tool_calls'' (JInt 0)"

definition hand_over ::
    "'w runtime \<Rightarrow> packet \<Rightarrow> string \<Rightarrow> json \<Rightarrow> json \<Rightarrow> json \<Rightarrow> 'w mstate \<Rightarrow> handoff" where
  "hand_over rt pk verdict summary files calls st =
     \<lparr>h_id = pk_id pk, h_title = pk_title pk, h_summary = summary, h_files = files, h_calls = calls,
      h_retry = mi_retry st, h_verdict = verdict, h_commit = JStr [], h_elapsed = rt_elapsed rt,
      h_errors = mi_errors st, h_signature = JStr [], h_verification = None\<rparr>"

definition answer_with :: "'w mstate \<Rightarrow> handoff \<Rightarrow> 'w turn_end" where
  "answer_with st h = (st, Some (Inr h))"

definition raising :: "'w mstate \<Rightarrow> pyexn \<Rightarrow> 'w turn_end" where
  "raising st e = (st, Some (Inl e))"

text \<open>The worker is blocked, or asks for a wider scope: with a question the plan is to be changed.\<close>

definition block_question :: "obj \<Rightarrow> string" where
  "block_question work =
     (let requested = dget work ''requested_paths'' (JList [])
      in if dget work ''status'' JNull = JStr ''request_scope'' \<and> truthy requested
         then ''Requested workspace paths: '' @ py_str requested
           @ ''. The current work packet must be expanded before implementation can continue.''
         else py_str (py_or (dget work ''clarification'' (JStr [])) (JStr [])))"

definition block_reason :: "obj \<Rightarrow> json" where
  "block_reason work = dget work ''reason'' (JStr ''Unknown block'')"

definition question_line :: "obj \<Rightarrow> string" where
  "question_line work =
     ''Worker blocked with clarification request: '' @ py_str (block_reason work) @ '' | Question: '' @ block_question work
     @ '' | Fix the plan so this milestone'' @ [squote]
     @ ''s writable scope, target_files, and validation contract match what the implementation actually requires.''"

definition blocked_attempt :: "'w runtime \<Rightarrow> packet \<Rightarrow> obj \<Rightarrow> 'w mstate \<Rightarrow> 'w turn_end" where
  "blocked_attempt rt pk work st =
     (let why = block_reason work;
          st1 = report (''milestone.blocked'',
              [(''milestone_id'', pk_id pk), (''reason'', why), (''tool_calls'', calls_of work), (''elapsed_ms'', rt_elapsed rt)])
              (log_error (''Worker blocked: '' @ py_str why) st)
      in if py_strip (block_question work) \<noteq> [] then
           (let st2 = log_error (question_line work) st1
            in answer_with st2 (hand_over rt pk ''REPLAN'' why (JList []) (calls_of work) st2))
         else answer_with st1 (hand_over rt pk ''BLOCKED'' why (JList []) (calls_of work) st1))"

text \<open>A verified fix or an accepted milestone is committed and recorded.\<close>

definition commit_message :: "packet \<Rightarrow> string" where
  "commit_message pk =
     (if pk_hotfix pk then ''fix'' else ''feat'') @ ''('' @ py_str (pk_id pk) @ ''): '' @ py_str (pk_title pk)"

definition saved_handoff :: "packet \<Rightarrow> obj \<Rightarrow> obj \<Rightarrow> json \<Rightarrow> int \<Rightarrow> obj" where
  "saved_handoff pk work verdict commit retry =
     [(''milestone_id'', pk_id pk), (''title'', pk_title pk), (''verdict'', dget verdict ''verdict'' JNull),
      (''validation_details'', dget verdict ''validation_details'' JNull), (''worker_summary'', dget work ''summary'' JNull),
      (''files_modified'', dget work ''files_modified'' JNull), (''tool_calls'', dget work ''tool_calls'' JNull),
      (''retry_count'', JInt retry), (''commit_hash'', commit)]"

definition passed_attempt ::
    "'w runtime \<Rightarrow> packet \<Rightarrow> obj \<Rightarrow> obj \<Rightarrow> obj option \<Rightarrow> 'w mstate \<Rightarrow> 'w turn_end" where
  "passed_attempt rt pk work verdict verification st =
     (case rt_commit rt (commit_message pk) (mi_world st) of (commit, w1) \<Rightarrow>
       let hash = dget commit ''commit_hash'' (JStr [])
       in case rt_save rt (saved_handoff pk work verdict hash (mi_retry st)) w1 of
            (Inl e, w2) \<Rightarrow> raising (st\<lparr>mi_world := w2\<rparr>) e
          | (Inr _, w2) \<Rightarrow>
              (let st1 = report (''handoff.saved'', [(''milestone_id'', pk_id pk), (''commit_hash'', hash)])
                  (report (''milestone.passed'',
                     [(''milestone_id'', pk_id pk), (''commit_hash'', hash), (''tool_calls'', calls_of work),
                      (''files_modified'', files_of work), (''elapsed_ms'', rt_elapsed rt)])
                  (st\<lparr>mi_world := w2\<rparr>))
               in answer_with st1
                    ((hand_over rt pk ''PASS'' (worker_summary_of work) (files_of work) (calls_of work) st1)
                       \<lparr>h_commit := hash, h_verification := verification\<rparr>)))"

text \<open>The validator asks for a new plan; without an instruction the attempt counts as failed.\<close>

definition replan_line :: "'w runtime \<Rightarrow> obj \<Rightarrow> string" where
  "replan_line rt verdict =
     ''REPLAN requested: '' @ py_str (dget verdict ''replan_guidance'' JNull)
     @ (case dget verdict ''worker_replan'' JNull of
          JObj d \<Rightarrow> nl # ''Structured worker replan request:'' @ nl # rt_dumps rt (JObj d)
        | _ \<Rightarrow> [])"

definition replan_attempt :: "'w runtime \<Rightarrow> packet \<Rightarrow> obj \<Rightarrow> obj \<Rightarrow> 'w mstate \<Rightarrow> 'w turn_end" where
  "replan_attempt rt pk work verdict st =
     (if \<not> valid_replan_guidance (dget verdict ''replan_guidance'' JNull) then
        (let st1 = log_error ''REPLAN rejected: empty replan_guidance.'' st
         in (st1\<lparr>mi_retry := mi_retry st1 + 1\<rparr>, None))
      else
        (let st1 = log_error (replan_line rt verdict) st
         in answer_with st1
              ((hand_over rt pk ''REPLAN'' (JStr ''Validator requested plan negotiation.'') (files_of work) (calls_of work) st1)
                 \<lparr>h_signature := dget verdict ''failure_signature'' (JStr [])\<rparr>)))"

text \<open>
  A failed attempt. \<open>errors[:3]\<close> and the joins need a list of texts; a text is sliced to its first
  characters.
\<close>

definition bounded_output :: "string \<Rightarrow> string" where
  "bounded_output raw =
     (if 1500 < length raw
      then take 500 raw @ nl # ''...[middle omitted]...'' @ nl # last_n 1000 raw
      else raw)"

definition error_summary :: "obj \<Rightarrow> int \<Rightarrow> string" where
  "error_summary verdict retry =
     (let raw = py_str (py_or (dget verdict ''contract_output'' (JStr [])) (JStr []))
      in ''[Retry '' @ int_str (retry + 1) @ ''] Errors: '' @ py_str (dget verdict ''errors'' (JList []))
         @ '' | Guidance: '' @ py_str (dget verdict ''fix_guidance'' (JStr []))
         @ (if raw = [] then [] else nl # ''Raw validation output (bounded):'' @ nl # bounded_output raw))"

definition all_texts :: "json list \<Rightarrow> string list res" where
  "all_texts xs = mapR (\<lambda>x. case x of JStr s \<Rightarrow> Inr s | _ \<Rightarrow> Inl TypeError) xs"

definition first_errors :: "json \<Rightarrow> string list res" where
  "first_errors errors =
     (case errors of
        JList xs \<Rightarrow> all_texts (take 3 xs)
      | JStr s \<Rightarrow> Inr (map (\<lambda>c. [c]) (take 3 s))
      | _ \<Rightarrow> Inl TypeError)"

definition joined_errors :: "json \<Rightarrow> string res" where
  "joined_errors errors = bindR (py_iter errors) (\<lambda>xs. bindR (all_texts xs) (\<lambda>ts. Inr (py_join [nl] ts)))"

definition log_failures :: "'w runtime \<Rightarrow> obj \<Rightarrow> json \<Rightarrow> 'w \<Rightarrow> 'w res" where
  "log_failures rt work errors w =
     (if \<not> rt_memory rt then Inr w
      else bindR (py_iter (files_of work)) (\<lambda>files.
        if files = [] then Inr w
        else bindR (joined_errors errors) (\<lambda>m. Inr (fold (\<lambda>f. rt_log_failure rt f m) files w))))"

definition retry_event :: "packet \<Rightarrow> json \<Rightarrow> json \<Rightarrow> int \<Rightarrow> event" where
  "retry_event pk errors guidance retry =
     (''milestone.retry'',
      [(''milestone_id'', pk_id pk), (''retry'', JInt (retry + 1)), (''max_retries'', JInt max_retry_cycles),
       (''errors'', case errors of JList xs \<Rightarrow> JList (take 3 xs) | JStr s \<Rightarrow> JStr (take 3 s) | j \<Rightarrow> j),
       (''fix_guidance'', guidance)])"

definition repeat_line :: "string \<Rightarrow> string" where
  "repeat_line sig = ''Repeated identical failure - stopping retries early. Signature: '' @ take 200 sig"

definition failed_attempt :: "'w runtime \<Rightarrow> packet \<Rightarrow> obj \<Rightarrow> obj \<Rightarrow> 'w mstate \<Rightarrow> 'w turn_end" where
  "failed_attempt rt pk work verdict st =
     (let errors = dget verdict ''errors'' (JList []); guidance = dget verdict ''fix_guidance'' (JStr []);
          st1 = log_error (error_summary verdict (mi_retry st)) st
      in case first_errors errors of
           Inl e \<Rightarrow> raising st1 e
         | Inr _ \<Rightarrow>
             (case normalize_failure_signature errors guidance of
                Inl e \<Rightarrow> raising st1 e
              | Inr sig \<Rightarrow>
                  if sig \<noteq> [] \<and> mi_prev st1 = Some sig then
                    ((log_error (repeat_line sig) st1)\<lparr>mi_over := True\<rparr>, None)
                  else
                    (let st2 = report (retry_event pk errors guidance (mi_retry st1)) (st1\<lparr>mi_prev := Some sig\<rparr>)
                     in case log_failures rt work errors (mi_world st2) of
                          Inl e \<Rightarrow> raising st2 e
                        | Inr w \<Rightarrow> (st2\<lparr>mi_world := w, mi_retry := mi_retry st2 + 1\<rparr>, None))))"

definition judged_attempt ::
    "'w runtime \<Rightarrow> packet \<Rightarrow> obj \<Rightarrow> obj \<Rightarrow> obj option \<Rightarrow> 'w mstate \<Rightarrow> 'w turn_end" where
  "judged_attempt rt pk work verdict verification st =
     (let v = dget verdict ''verdict'' (JStr ''FAIL'')
      in if v = JStr ''PASS'' then passed_attempt rt pk work verdict verification st
         else if v = JStr ''REPLAN'' then replan_attempt rt pk work verdict st
         else failed_attempt rt pk work verdict st)"

section \<open>One attempt\<close>

text \<open>A hotfix is judged by the fix verifier.\<close>

definition verifier_input :: "obj \<Rightarrow> obj" where
  "verifier_input work =
     [(''files_modified'', files_of work), (''summary'', worker_summary_of work)]"

definition verification_verdict :: "obj \<Rightarrow> obj" where
  "verification_verdict verification =
     (case map_fix_verification verification of (loop_verdict, errors, guidance) \<Rightarrow>
        if loop_verdict = ''FAIL'' then
          [(''verdict'', JStr ''FAIL''), (''errors'', JList (map JStr errors)), (''fix_guidance'', JStr guidance)]
        else [(''verdict'', JStr ''PASS''), (''validation_details'', JStr (get_str verification ''summary'' []))])"

definition escalated_attempt :: "'w runtime \<Rightarrow> packet \<Rightarrow> obj \<Rightarrow> obj \<Rightarrow> 'w mstate \<Rightarrow> 'w turn_end" where
  "escalated_attempt rt pk work verification st =
     (let why = py_str (py_or (dget verification ''escalation_reason'' (JStr [])) (dget verification ''summary'' (JStr [])));
          st1 = log_error (''FixVerifier escalated to mission: '' @ why) st
      in answer_with st1
           ((hand_over rt pk ''REPLAN'' (worker_summary_of work) (files_of work) (calls_of work) st1)
              \<lparr>h_verification := Some verification\<rparr>))"

definition judge_attempt :: "'w runtime \<Rightarrow> packet \<Rightarrow> obj \<Rightarrow> 'w mstate \<Rightarrow> 'w turn_end" where
  "judge_attempt rt pk work st =
     (if pk_hotfix pk then
        (case rt_verify rt (verifier_input work) (mi_world st) of
           (Inl e, w) \<Rightarrow> raising (st\<lparr>mi_world := w\<rparr>) e
         | (Inr verification, w) \<Rightarrow>
             (let st1 = st\<lparr>mi_world := rt_artifact rt verification w\<rparr>
              in if fst (map_fix_verification verification) = ''ESCALATE''
                 then escalated_attempt rt pk work verification st1
                 else judged_attempt rt pk work (verification_verdict verification) (Some verification) st1))
      else
        (case rt_validate rt work (mi_retry st) (pk_test pk) (mi_world st) of
           (Inl e, w) \<Rightarrow> raising (st\<lparr>mi_world := w\<rparr>) e
         | (Inr verdict, w) \<Rightarrow> judged_attempt rt pk work verdict None (st\<lparr>mi_world := w\<rparr>)))"

definition worked_attempt :: "'w runtime \<Rightarrow> packet \<Rightarrow> obj \<Rightarrow> 'w mstate \<Rightarrow> 'w turn_end" where
  "worked_attempt rt pk work st =
     (case py_iter (dget work ''active_tools'' (JList [])) of
        Inl e \<Rightarrow> raising st e
      | Inr offered \<Rightarrow>
          (let st1 = st\<lparr>mi_conversation := py_or (dget work ''conversation'' JNull) (mi_conversation st),
                       mi_active := List.union (map py_str offered) (mi_active st),
                       mi_failures := dget work ''failure_state'' (mi_failures st)\<rparr>
           in if dget work ''status'' JNull = JStr ''cancelled'' then raising st1 RunCancelled
              else case in_str_set (dget work ''status'' JNull) [''blocked'', ''request_scope''] of
                Inl e \<Rightarrow> raising st1 e
              | Inr True \<Rightarrow> blocked_attempt rt pk work st1
              | Inr False \<Rightarrow> judge_attempt rt pk work st1))"

definition attempt_of :: "packet \<Rightarrow> 'w mstate \<Rightarrow> attempt" where
  "attempt_of pk st =
     \<lparr>at_tools_md = pk_tools_md pk,
      at_feedback = (if mi_errors st = [] then None else Some (last (mi_errors st))),
      at_retry = mi_retry st, at_conversation = mi_conversation st, at_active = mi_active st,
      at_failures = mi_failures st\<rparr>"

definition exhausted_attempts :: "'w runtime \<Rightarrow> packet \<Rightarrow> 'w mstate \<Rightarrow> 'w turn_end" where
  "exhausted_attempts rt pk st =
     (let st1 = report (''milestone.retries_exhausted'',
          [(''milestone_id'', pk_id pk), (''retry_count'', JInt (mi_retry st)), (''elapsed_ms'', rt_elapsed rt)]) st
      in answer_with st1 (hand_over rt pk ''FAIL'' (JStr ''Exhausted retries'') (JList []) (JInt 0) st1))"

definition milestone_turn :: "'w runtime \<Rightarrow> packet \<Rightarrow> 'w mstate \<Rightarrow> 'w turn_end" where
  "milestone_turn rt pk st =
     (if mi_over st \<or> max_retry_cycles \<le> mi_retry st then exhausted_attempts rt pk st
      else if rt_cancelled rt (mi_world st) then raising st RunCancelled
      else (case rt_work rt (attempt_of pk st) (mi_world st) of
              (Inl e, w) \<Rightarrow> raising (st\<lparr>mi_world := w\<rparr>) e
            | (Inr work, w) \<Rightarrow> worked_attempt rt pk work (st\<lparr>mi_world := w\<rparr>)))"

text \<open>Four turns are enough: three attempts, and the turn that finds them used up.\<close>

definition execute_milestone ::
    "'w runtime \<Rightarrow> bool \<Rightarrow> obj \<Rightarrow> obj \<Rightarrow> 'w \<Rightarrow> ('w mstate \<times> handoff res) option res" where
  "execute_milestone rt hotfix plan milestone w =
     bindR (milestone_start rt hotfix plan milestone w) (\<lambda>(pk, st). Inr (run_loop (milestone_turn rt pk) 4 st))"

section \<open>The retry policy\<close>

text \<open>
  What the loop promises, apart from the world, the logs and the messages: attempts left and the last
  failure, ended by the first verdict, by an exception, by a failure that repeats, or by exhaustion.
\<close>

datatype policy_state =
    Trying nat "string option"
  | Stuck
  | Decided string
  | Raised pyexn

inductive retry_step :: "policy_state \<Rightarrow> policy_state \<Rightarrow> bool" where
  step_verdict: "v \<in> {''PASS'', ''REPLAN'', ''BLOCKED''} \<Longrightarrow> retry_step (Trying (Suc k) p) (Decided v)"
| step_rejected: "retry_step (Trying (Suc k) p) (Trying k p)"
| step_failed: "s = [] \<or> p \<noteq> Some s \<Longrightarrow> retry_step (Trying (Suc k) p) (Trying k (Some s))"
| step_repeated: "s \<noteq> [] \<Longrightarrow> retry_step (Trying (Suc k) (Some s)) Stuck"
| step_raised: "retry_step (Trying (Suc k) p) (Raised e)"
| step_exhausted: "retry_step (Trying 0 p) (Decided ''FAIL'')"
| step_stuck: "retry_step Stuck (Decided ''FAIL'')"

inductive_simps trying_step [simp]:
  "retry_step (Trying (Suc k) p) (Raised e)" "retry_step (Trying (Suc k) p) (Decided v)"
  "retry_step (Trying (Suc k) p) (Trying k' p')" "retry_step (Trying (Suc k) p) Stuck"

definition policy_of :: "'w turn_end \<Rightarrow> policy_state" where
  "policy_of y =
     (case snd y of
        Some (Inr h) \<Rightarrow> Decided (h_verdict h)
      | Some (Inl e) \<Rightarrow> Raised e
      | None \<Rightarrow> if mi_over (fst y) then Stuck else Trying (nat (max_retry_cycles - mi_retry (fst y))) (mi_prev (fst y)))"

definition trying :: "'w mstate \<Rightarrow> bool" where
  "trying st \<longleftrightarrow> \<not> mi_over st \<and> mi_retry st < max_retry_cycles"

lemma policy_simps [simp]:
  "policy_of (answer_with st h) = Decided (h_verdict h)" "policy_of (raising st e) = Raised e"
  "h_verdict (hand_over rt pk v summary files calls st) = v"
  by (simp_all add: policy_of_def answer_with_def raising_def hand_over_def)

lemma state_simps [simp]:
  "mi_over (report e st) = mi_over st" "mi_retry (report e st) = mi_retry st" "mi_prev (report e st) = mi_prev st"
  "mi_world (report e st) = mi_world st" "mi_over (log_error m st) = mi_over st" "mi_retry (log_error m st) = mi_retry st"
  "mi_prev (log_error m st) = mi_prev st" "mi_world (log_error m st) = mi_world st"
  by (simp_all add: report_def log_error_def)

lemma policy_trying: "trying st \<Longrightarrow> policy_of (st, None) = Trying (Suc (nat (2 - mi_retry st))) (mi_prev st)"
  by (auto simp: policy_of_def trying_def max_retry_cycles_def Suc_nat_eq_nat_zadd1)

lemma retry_raised [simp]: "trying st \<Longrightarrow> retry_step (policy_of (st, None)) (Raised e)"
  by (simp add: policy_trying step_raised)

lemma retry_verdict [simp]:
  "trying st \<Longrightarrow> v \<in> {''PASS'', ''REPLAN'', ''BLOCKED''} \<Longrightarrow> retry_step (policy_of (st, None)) (Decided v)"
  using step_verdict by (simp add: policy_trying)

text \<open>Only these fields matter to the policy.\<close>

lemma policy_cong:
  "mi_over st = mi_over st' \<Longrightarrow> mi_retry st = mi_retry st' \<Longrightarrow> mi_prev st = mi_prev st' \<Longrightarrow>
     policy_of (st, None) = policy_of (st', None)" "mi_over st = mi_over st' \<Longrightarrow> mi_retry st = mi_retry st' \<Longrightarrow> trying st = trying st'"
  by (simp_all add: policy_of_def trying_def)

lemma blocked_refines: "trying st \<Longrightarrow> retry_step (policy_of (st, None)) (policy_of (blocked_attempt rt pk work st))"
  by (simp add: blocked_attempt_def Let_def)

lemma passed_refines: "trying st \<Longrightarrow> retry_step (policy_of (st, None)) (policy_of (passed_attempt rt pk work v ver st))"
  by (auto simp: passed_attempt_def Let_def split: prod.split sum.split)

lemma policy_next:
  "trying st \<Longrightarrow> policy_of (st\<lparr>mi_retry := mi_retry st + 1\<rparr>, None) = Trying (nat (2 - mi_retry st)) (mi_prev st)"
  by (simp add: policy_of_def trying_def max_retry_cycles_def)

lemma replan_refines:
  assumes "trying st"
  shows "retry_step (policy_of (st, None)) (policy_of (replan_attempt rt pk work v st))"
  using assms policy_next [of "log_error ''REPLAN rejected: empty replan_guidance.'' st"] policy_cong(2)
  by (simp add: replan_attempt_def Let_def policy_trying trying_def)

lemma failed_refines:
  assumes "trying st"
  shows "retry_step (policy_of (st, None)) (policy_of (failed_attempt rt pk work v st))"
  using assms
  by (auto simp: failed_attempt_def Let_def policy_trying split: sum.split)
     (auto simp: policy_of_def trying_def max_retry_cycles_def)

lemma judged_refines: "trying st \<Longrightarrow> retry_step (policy_of (st, None)) (policy_of (judged_attempt rt pk work v ver st))"
  by (simp add: judged_attempt_def Let_def passed_refines replan_refines failed_refines)

lemma judge_refines:
  assumes "trying st"
  shows "retry_step (policy_of (st, None)) (policy_of (judge_attempt rt pk work st))"
proof -
  have t: "trying (st\<lparr>mi_world := w\<rparr>)" "policy_of (st\<lparr>mi_world := w\<rparr>, None) = policy_of (st, None)" for w
    using assms by (simp_all add: trying_def policy_of_def)
  have "retry_step (policy_of (st, None)) (policy_of (judged_attempt rt pk work v ver (st\<lparr>mi_world := w\<rparr>)))" for v ver w
    using judged_refines [OF t(1)] t(2) by metis
  then show ?thesis
    using assms by (auto simp: judge_attempt_def escalated_attempt_def Let_def split: prod.split sum.split)
qed

lemma worked_refines:
  assumes "trying st"
  shows "retry_step (policy_of (st, None)) (policy_of (worked_attempt rt pk work st))"
proof (cases "py_iter (dget work ''active_tools'' (JList []))")
  case (Inl e)
  then show ?thesis using assms by (simp add: worked_attempt_def)
next
  case (Inr offered)
  let ?st = "st\<lparr>mi_conversation := py_or (dget work ''conversation'' JNull) (mi_conversation st),
       mi_active := List.union (map py_str offered) (mi_active st), mi_failures := dget work ''failure_state'' (mi_failures st)\<rparr>"
  have t: "trying ?st" "policy_of (?st, None) = policy_of (st, None)"
    using assms by (simp_all add: trying_def policy_of_def)
  have "retry_step (policy_of (st, None)) (policy_of (blocked_attempt rt pk work ?st))"
    "retry_step (policy_of (st, None)) (policy_of (judge_attempt rt pk work ?st))"
    using blocked_refines [OF t(1)] judge_refines [OF t(1)] t(2) by metis+
  then show ?thesis using Inr assms by (auto simp: worked_attempt_def Let_def split: sum.split bool.split)
qed

lemma turn_refines:
  "retry_step (policy_of (st, None)) (policy_of (milestone_turn rt pk st))"
proof (cases "trying st")
  case False
  then have "retry_step (policy_of (st, None)) (Decided ''FAIL'')"
    using step_exhausted step_stuck by (auto simp: policy_of_def trying_def)
  then show ?thesis using False by (auto simp: milestone_turn_def trying_def exhausted_attempts_def Let_def)
next
  case True
  have "trying (st\<lparr>mi_world := w\<rparr>)" "policy_of (st\<lparr>mi_world := w\<rparr>, None) = policy_of (st, None)" for w
    using True by (simp_all add: trying_def policy_of_def)
  then have "retry_step (policy_of (st, None)) (policy_of (worked_attempt rt pk work (st\<lparr>mi_world := w\<rparr>)))" for work w
    using worked_refines by metis
  then show ?thesis
    using True by (auto simp: milestone_turn_def trying_def split: prod.split sum.split)
qed

text \<open>Attempts left: each turn that goes on uses one up, or leaves none.\<close>

fun tries_left :: "policy_state \<Rightarrow> nat" where
  "tries_left (Trying k p) = k"
| "tries_left _ = 0"

lemma retry_step_left: "retry_step s s' \<Longrightarrow> s' = Stuck \<or> (\<exists>k p. s' = Trying k p) \<Longrightarrow> tries_left s' < tries_left s"
  by (induction rule: retry_step.induct) auto

lemma policy_undecided: "policy_of (st, None) = Stuck \<or> (\<exists>k p. policy_of (st, None) = Trying k p)"
  by (simp add: policy_of_def)

lemma turn_policy: "milestone_turn rt pk st = y \<Longrightarrow> retry_step (policy_of (st, None)) (policy_of y)"
  using turn_refines by blast

interpretation mt: progressing_turn "milestone_turn rt pk" "\<lambda>st. True" "\<lambda>st r. True"
    "\<lambda>st. tries_left (policy_of (st, None))" for rt pk
  by unfold_locales (use turn_policy retry_step_left policy_undecided in blast)+

lemma run_policy:
  "run_loop (milestone_turn rt pk) n st = Some (st', r) \<Longrightarrow> retry_step\<^sup>*\<^sup>* (policy_of (st, None)) (policy_of (st', Some r))"
proof (induction n arbitrary: st)
  case (Suc n)
  obtain t x where t: "milestone_turn rt pk st = (t, x)" by fastforce
  have step: "retry_step (policy_of (st, None)) (policy_of (t, x))" using turn_policy [OF t] .
  show ?case
  proof (cases x)
    case None
    then have "retry_step\<^sup>*\<^sup>* (policy_of (t, None)) (policy_of (st', Some r))" using Suc t by simp
    then show ?thesis using step None by (metis converse_rtranclp_into_rtranclp)
  next
    case (Some y)
    then show ?thesis using Suc.prems step t by simp
  qed
qed simp

lemma milestone_start_state:
  assumes "milestone_start rt hotfix plan milestone w = Inr (pk, st)"
  shows "pk_hotfix pk = hotfix" "policy_of (st, None) = Trying 3 None"
    "\<exists>is_test names. mi_world st = scope_policy rt is_test names w"
proof -
  obtain is_test names md active where pk: "pk = \<lparr>pk_milestone = milestone, pk_plan = plan,
        pk_id = dget milestone ''id'' (JStr ''?''), pk_title = dget milestone ''title'' (JStr []), pk_hotfix = hotfix,
        pk_test = is_test, pk_tools_md = md\<rparr>"
    and st: "mi_world st = scope_policy rt is_test names w" "mi_retry st = 0" "mi_prev st = None" "mi_over st = False"
    using assms by (auto simp: milestone_start_def Let_def)
  show "pk_hotfix pk = hotfix" "policy_of (st, None) = Trying 3 None"
    "\<exists>is_test names. mi_world st = scope_policy rt is_test names w"
    using st by (auto simp: pk policy_of_def max_retry_cycles_def)
qed

lemma mapR_text_of [simp]: "mapR text_of (map JStr names) = Inr names"
  by (induction names) (simp_all add: text_of_def)

lemma milestone_start_policy:
  assumes "milestone_start rt hotfix plan milestone w = Inr (pk, st)"
    and "dget milestone ''target_files'' (JList []) = JList (map JStr names)"
  shows "\<exists>is_test. mi_world st = scope_policy rt is_test names w"
  using assms by (auto simp: milestone_start_def Let_def)

lemma execute_milestone_run:
  assumes "execute_milestone rt hotfix plan milestone w = Inr x"
  obtains pk st where "milestone_start rt hotfix plan milestone w = Inr (pk, st)"
    and "x = run_loop (milestone_turn rt pk) 4 st"
  using assms by (auto simp: execute_milestone_def)

lemma milestone_ends:
  assumes "milestone_start rt hotfix plan milestone w = Inr (pk, st0)"
  obtains st r where "execute_milestone rt hotfix plan milestone w = Inr (Some (st, r))"
    and "run_loop (milestone_turn rt pk) 4 st0 = Some (st, r)"
proof -
  have "tries_left (policy_of (st0, None)) < 4" by (simp add: milestone_start_state(2) [OF assms])
  then obtain st r where l: "run_loop (milestone_turn rt pk) 4 st0 = Some (st, r)"
    using mt.loop_returns [of st0 4] by blast
  then show ?thesis using assms by (intro that [OF _ l]) (simp add: execute_milestone_def)
qed

section \<open>Commits\<close>

text \<open>
  What can be observed of the world changes by a commit only, and the validator has just accepted the
  work when there is one.
\<close>

definition approved :: "'w runtime \<Rightarrow> bool \<Rightarrow> 'w \<Rightarrow> bool" where
  "approved rt hotfix w \<longleftrightarrow>
     (if hotfix then \<exists>x w0 w1 v. rt_verify rt x w0 = (Inr v, w1) \<and> w = rt_artifact rt v w1 \<and> fst (map_fix_verification v) = ''PASS''
      else \<exists>work k t w0 v. rt_validate rt work k t w0 = (Inr v, w) \<and> dget v ''verdict'' JNull = JStr ''PASS'')"

locale commit_log =
  fixes rt :: "'w runtime" and seen :: "'w \<Rightarrow> 'c"
  assumes work_seen: "seen (snd (rt_work rt a w)) = seen w"
    and validate_seen: "seen (snd (rt_validate rt work k t w)) = seen w"
    and verify_seen: "seen (snd (rt_verify rt x w)) = seen w"
    and save_seen: "seen (snd (rt_save rt d w)) = seen w"
    and artifact_seen: "seen (rt_artifact rt v w) = seen w"
    and log_seen: "seen (rt_log_failure rt f m w) = seen w"
    and tools_seen: "seen (rt_tools rt g w) = seen w"
begin

definition committed :: "bool \<Rightarrow> 'c \<Rightarrow> 'w \<Rightarrow> bool" where
  "committed hotfix c w \<longleftrightarrow>
     (\<exists>m w1. approved rt hotfix w1 \<and> seen w1 = c \<and> seen w = seen (snd (rt_commit rt m w1)))"

definition settled :: "packet \<Rightarrow> 'c \<Rightarrow> 'w turn_end \<Rightarrow> bool" where
  "settled pk c y \<longleftrightarrow>
     (case snd y of
        Some (Inr h) \<Rightarrow> if h_verdict h = ''PASS'' then committed (pk_hotfix pk) c (mi_world (fst y)) else seen (mi_world (fst y)) = c
      | Some (Inl e) \<Rightarrow> seen (mi_world (fst y)) = c \<or> committed (pk_hotfix pk) c (mi_world (fst y))
      | None \<Rightarrow> seen (mi_world (fst y)) = c)"

lemma settled_simps [simp]:
  "settled pk c (answer_with st h) = (if h_verdict h = ''PASS'' then committed (pk_hotfix pk) c (mi_world st) else seen (mi_world st) = c)"
  "settled pk c (raising st e) = (seen (mi_world st) = c \<or> committed (pk_hotfix pk) c (mi_world st))"
  "settled pk c (st, None) = (seen (mi_world st) = c)"
  by (simp_all add: settled_def answer_with_def raising_def)

lemma blocked_settled: "seen (mi_world st) = c \<Longrightarrow> settled pk c (blocked_attempt rt pk work st)"
  by (simp add: blocked_attempt_def Let_def)

lemma passed_settled:
  assumes "seen (mi_world st) = c" "approved rt (pk_hotfix pk) (mi_world st)"
  shows "settled pk c (passed_attempt rt pk work v ver st)"
proof -
  obtain d w1 where d: "rt_commit rt (commit_message pk) (mi_world st) = (d, w1)" by fastforce
  have "committed (pk_hotfix pk) c w2" if "rt_save rt x w1 = (r, w2)" for x r w2
    using assms d that save_seen [of x w1] unfolding committed_def by (metis snd_conv)
  then show ?thesis using d by (auto simp: passed_attempt_def Let_def split: prod.split sum.split)
qed

lemma replan_settled: "seen (mi_world st) = c \<Longrightarrow> settled pk c (replan_attempt rt pk work v st)"
  by (simp add: replan_attempt_def Let_def)

lemma log_failures_seen: "log_failures rt work errors w = Inr w' \<Longrightarrow> seen w' = seen w"
proof -
  have "seen (fold (\<lambda>f. rt_log_failure rt f m) files v) = seen v" for m files v
    by (induction files arbitrary: v) (simp_all add: log_seen)
  then show "log_failures rt work errors w = Inr w' \<Longrightarrow> seen w' = seen w"
    by (auto simp: log_failures_def split: if_split_asm)
qed

lemma failed_settled: "seen (mi_world st) = c \<Longrightarrow> settled pk c (failed_attempt rt pk work v st)"
  by (auto simp: failed_attempt_def Let_def log_failures_seen split: sum.split)

lemma judged_settled:
  assumes "seen (mi_world st) = c" "dget v ''verdict'' JNull = JStr ''PASS'' \<Longrightarrow> approved rt (pk_hotfix pk) (mi_world st)"
  shows "settled pk c (judged_attempt rt pk work v ver st)"
proof -
  have "dget v ''verdict'' (JStr ''FAIL'') = JStr ''PASS'' \<Longrightarrow> dget v ''verdict'' JNull = JStr ''PASS''"
    by (auto simp: dget_def split: option.splits)
  then show ?thesis
    using assms by (simp add: judged_attempt_def Let_def passed_settled replan_settled failed_settled)
qed

lemma judge_settled:
  assumes "seen (mi_world st) = c"
  shows "settled pk c (judge_attempt rt pk work st)"
proof (cases "pk_hotfix pk")
  case False
  obtain r w where v: "rt_validate rt work (mi_retry st) (pk_test pk) (mi_world st) = (r, w)" by fastforce
  have w: "seen w = c" using validate_seen [of work "mi_retry st" "pk_test pk" "mi_world st"] v assms by simp
  show ?thesis
  proof (cases r)
    case (Inl e)
    then show ?thesis using False v w by (simp add: judge_attempt_def)
  next
    case (Inr d)
    have "settled pk c (judged_attempt rt pk work d None (st\<lparr>mi_world := w\<rparr>))"
    proof (rule judged_settled)
      assume "dget d ''verdict'' JNull = JStr ''PASS''"
      then show "approved rt (pk_hotfix pk) (mi_world (st\<lparr>mi_world := w\<rparr>))"
        unfolding approved_def using False v Inr by simp blast
    qed (simp add: w)
    then show ?thesis using False v Inr by (simp add: judge_attempt_def)
  qed
next
  case True
  obtain r w where v: "rt_verify rt (verifier_input work) (mi_world st) = (r, w)" by fastforce
  have w: "seen w = c" using verify_seen [of "verifier_input work" "mi_world st"] v assms by simp
  show ?thesis
  proof (cases r)
    case (Inl e)
    then show ?thesis using True v w by (simp add: judge_attempt_def)
  next
    case (Inr d)
    let ?st = "st\<lparr>mi_world := rt_artifact rt d w\<rparr>"
    have "settled pk c (judged_attempt rt pk work (verification_verdict d) (Some d) ?st)"
      if "fst (map_fix_verification d) \<noteq> ''ESCALATE''"
    proof (rule judged_settled)
      assume p: "dget (verification_verdict d) ''verdict'' JNull = JStr ''PASS''"
      have "fst (map_fix_verification d) = ''PASS''"
        using p that by (auto simp: verification_verdict_def map_fix_verification_def Let_def dget_def split: if_splits)
      then show "approved rt (pk_hotfix pk) (mi_world ?st)" using True v Inr by (auto simp: approved_def)
    qed (simp add: w artifact_seen)
    then show ?thesis
      using True v Inr w by (simp add: judge_attempt_def escalated_attempt_def Let_def artifact_seen)
  qed
qed

lemma worked_settled: "seen (mi_world st) = c \<Longrightarrow> settled pk c (worked_attempt rt pk work st)"
  by (auto simp: worked_attempt_def Let_def blocked_settled judge_settled split: sum.split bool.split)

lemma turn_settled:
  assumes "seen (mi_world st) = c"
  shows "settled pk c (milestone_turn rt pk st)"
proof -
  have "seen w = c" if "rt_work rt (attempt_of pk st) (mi_world st) = (r, w)" for r w
    using work_seen [of "attempt_of pk st" "mi_world st"] that assms by simp
  then show ?thesis
    using assms by (auto simp: milestone_turn_def exhausted_attempts_def Let_def worked_settled split: prod.split sum.split)
qed

lemma loop_settled:
  assumes "run_loop (milestone_turn rt pk) n st = Some (st', r)" "seen (mi_world st) = c"
  shows "settled pk c (st', Some r)"
proof -
  have "turn_invariant (milestone_turn rt pk) (\<lambda>s. seen (mi_world s) = c) (\<lambda>s r. settled pk c (s, Some r))"
    by unfold_locales (use turn_settled settled_simps(3) in metis)+
  from turn_invariant.loop_post [OF this assms(2,1)] show ?thesis .
qed

lemma scope_seen: "seen (scope_policy rt is_test names w) = seen w"
  by (simp add: scope_policy_def tools_seen)

end

section \<open>Property\<close>

text \<open>
  Property C6. The life of a milestone always ends, and as its retry policy says: whatever the worker, the
  validator, the verifier and the rest of the world do, \<open>_execute_milestone\<close> returns or raises within four
  rounds, by steps of the policy from three attempts - a verdict of PASS, REPLAN or BLOCKED comes from an
  attempt, FAIL only from three used attempts or from a failure with the non-empty signature of the
  failure before it.
\<close>

theorem milestone_follows_policy:
  assumes "milestone_start rt hotfix plan milestone w = Inr (pk, st0)"
  shows "\<exists>st r. execute_milestone rt hotfix plan milestone w = Inr (Some (st, r)) \<and>
    retry_step\<^sup>*\<^sup>* (Trying 3 None) (policy_of (st, Some r))"
proof -
  obtain st r where e: "execute_milestone rt hotfix plan milestone w = Inr (Some (st, r))"
    and l: "run_loop (milestone_turn rt pk) 4 st0 = Some (st, r)"
    using assms by (rule milestone_ends)
  show ?thesis using e run_policy [OF l] milestone_start_state(2) [OF assms] by simp
qed

text \<open>A runtime whose validator always answers the same.\<close>

definition fixed_runtime :: "obj \<Rightarrow> string list runtime" where
  "fixed_runtime verdict =
     \<lparr>rt_cancelled = (\<lambda>w. False), rt_work = (\<lambda>a w. (Inr [(''status'', JStr ''complete'')], w)),
      rt_validate = (\<lambda>work k t w. (Inr verdict, w)), rt_verify = (\<lambda>d w. (Inr [], w)),
      rt_commit = (\<lambda>m w. ([(''commit_hash'', JStr ''c'')], m # w)), rt_save = (\<lambda>d w. (Inr (), w)),
      rt_artifact = (\<lambda>v w. w), rt_log_failure = (\<lambda>f m w. w), rt_memory = False, rt_tools = (\<lambda>g w. w),
      rt_fs = \<lparr>e_resolve = (\<lambda>p. p), e_denied = (\<lambda>p. False), e_os_text = (\<lambda>p. [])\<rparr>, rt_search = (\<lambda>q. []),
      rt_skill = (\<lambda>n. None), rt_ports = [], rt_dumps = (\<lambda>j. []), rt_elapsed = JNull\<rparr>"

lemma milestone_follows_policy_witness:
  "\<exists>st r. execute_milestone (fixed_runtime [(''verdict'', JStr ''FAIL''), (''errors'', JList [JStr ''x''])]) False []
      [(''id'', JStr ''M1'')] [] = Inr (Some (st, r)) \<and> retry_step\<^sup>*\<^sup>* (Trying 3 None) (policy_of (st, Some r)) \<and>
    policy_of (st, Some r) = Decided ''FAIL'' \<and> mi_retry st = 1"
proof -
  let ?rt = "fixed_runtime [(''verdict'', JStr ''FAIL''), (''errors'', JList [JStr ''x''])]"
  let ?e = "execute_milestone ?rt False [] [(''id'', JStr ''M1'')] []"
  have "case milestone_start ?rt False [] [(''id'', JStr ''M1'')] [] of Inr _ \<Rightarrow> True | _ \<Rightarrow> False" by code_simp
  then obtain pk st0 where "milestone_start ?rt False [] [(''id'', JStr ''M1'')] [] = Inr (pk, st0)" by (auto split: sum.splits)
  from milestone_follows_policy [OF this] obtain st r where m: "?e = Inr (Some (st, r))"
      "retry_step\<^sup>*\<^sup>* (Trying 3 None) (policy_of (st, Some r))" by blast
  have "case ?e of Inr (Some (st, Inr h)) \<Rightarrow> h_verdict h = ''FAIL'' \<and> mi_retry st = 1 | _ \<Rightarrow> False" by code_simp
  then show ?thesis using m by (auto simp: policy_of_def split: sum.splits)
qed

end
