(* ===== verification/Mission.thy ===== *)
theory Mission
  imports Milestone
begin

text \<open>
  The mission loop of \<open>src/main.py\<close> (\<open>_run_mission_body\<close>, from the finished plan to the result): the
  milestones in order, the skipping of milestones a resumed run has completed, the replans with their two
  circuit breakers, and the audit of the outcome. The execution of a milestone, the orchestrator's replan,
  the memory and the plan file are a record of operations on a world \<open>'w\<close>.
\<close>

section \<open>State\<close>

record 'w mission =
  mn_cancelled :: "'w \<Rightarrow> bool"
  mn_execute :: "obj \<Rightarrow> obj \<Rightarrow> 'w \<Rightarrow> handoff res \<times> 'w"
  mn_replan :: "obj \<Rightarrow> string \<Rightarrow> 'w \<Rightarrow> obj res \<times> 'w"
  mn_completed :: "json \<Rightarrow> string \<Rightarrow> 'w \<Rightarrow> bool"
  mn_write_plan :: "obj \<Rightarrow> 'w \<Rightarrow> 'w"
  mn_log_state :: "handoff \<Rightarrow> string \<Rightarrow> 'w \<Rightarrow> 'w"
  mn_memory :: bool
  mn_resume :: bool
  mn_budget :: int
  mn_plan_id :: string
  mn_error_text :: "pyexn \<Rightarrow> string"

text \<open>
  The milestones are objects shared with the plan, so the plan as it stands is \<open>mm_plan\<close> with
  \<open>mm_milestones\<close> in it.
\<close>

record 'w mission_state =
  mm_plan :: obj
  mm_milestones :: "obj list"
  mm_handoffs :: "handoff list"
  mm_passed :: int
  mm_index :: nat
  mm_replans :: "(json \<times> int) list"
  mm_signatures :: "(json \<times> json list) list"
  mm_world :: 'w
  mm_events :: "event list"

definition current_plan :: "'w mission_state \<Rightarrow> obj" where
  "current_plan st =
     (if mm_milestones st = [] then mm_plan st
      else AList.update ''milestones'' (JList (map JObj (mm_milestones st))) (mm_plan st))"

definition id_of :: "obj \<Rightarrow> json" where
  "id_of ms = dget ms ''id'' (JStr ''?'')"

definition note_event :: "string \<Rightarrow> obj \<Rightarrow> 'w mission_state \<Rightarrow> 'w mission_state" where
  "note_event name details st = st\<lparr>mm_events := mm_events st @ [(name, details)]\<rparr>"

definition mark_completed :: "'w mission_state \<Rightarrow> 'w mission_state" where
  "mark_completed st =
     st\<lparr>mm_milestones := (mm_milestones st)
         [mm_index st := AList.update ''status'' (JStr ''completed'') (mm_milestones st ! mm_index st)]\<rparr>"

definition advance :: "'w mission_state \<Rightarrow> 'w mission_state" where
  "advance st = st\<lparr>mm_passed := mm_passed st + 1, mm_index := mm_index st + 1\<rparr>"

text \<open>How a turn of the loop ends: going on, leaving the loop, or an exception.\<close>

type_synonym 'w mission_end = "'w mission_state \<times> unit res option"

definition halt :: "'w mission_state \<Rightarrow> 'w mission_end" where
  "halt st = (st, Some (Inr ()))"

section \<open>Replanning\<close>

text \<open>\<open>milestones.index\<close> by identifier.\<close>

fun index_of_id :: "json \<Rightarrow> obj list \<Rightarrow> nat option" where
  "index_of_id i [] = None"
| "index_of_id i (m # ms) = (if dget m ''id'' JNull = i then Some 0 else map_option Suc (index_of_id i ms))"

definition adopt_plan :: "json \<Rightarrow> obj \<Rightarrow> obj list \<Rightarrow> 'w mission_state \<Rightarrow> 'w mission_end" where
  "adopt_plan ms_id plan milestones st =
     (let st1 = note_event ''plan.updated''
            [(''milestones_total'', JInt (int (length milestones))), (''milestone_ids'', JList (map id_of milestones))]
            (st\<lparr>mm_plan := plan, mm_milestones := milestones\<rparr>)
      in case index_of_id ms_id milestones of
           None \<Rightarrow> (note_event ''milestone.removed_by_replan'' [(''milestone_id'', ms_id)] st1, None)
         | Some i \<Rightarrow> (st1\<lparr>mm_index := i\<rparr>, None))"

definition milestones_of :: "obj \<Rightarrow> obj list res" where
  "milestones_of plan = bindR (py_iter (dget plan ''milestones'' (JList []))) (mapR as_obj)"

text \<open>The last line of the error log is the guidance; an empty log counts as a failed replan.\<close>

definition ask_replan :: "'w mission \<Rightarrow> json \<Rightarrow> handoff \<Rightarrow> 'w mission_state \<Rightarrow> 'w mission_end" where
  "ask_replan mn ms_id h st =
     (case (if h_errors h = [] then (Inl IndexError, mm_world st)
            else mn_replan mn (current_plan st) (last (h_errors h)) (mm_world st)) of
        (Inl e, w) \<Rightarrow>
          halt (note_event ''milestone.failed''
            [(''milestone_id'', ms_id), (''reason'', JStr ''replan_failed''), (''error'', JStr (mn_error_text mn e))]
            (st\<lparr>mm_world := w\<rparr>))
      | (Inr plan, w) \<Rightarrow>
          (case milestones_of plan of
             Inl e \<Rightarrow> (st\<lparr>mm_world := w, mm_plan := plan\<rparr>, Some (Inl e))
           | Inr milestones \<Rightarrow> adopt_plan ms_id plan milestones (st\<lparr>mm_world := w\<rparr>)))"

definition replan_milestone :: "'w mission \<Rightarrow> json \<Rightarrow> handoff \<Rightarrow> 'w mission_state \<Rightarrow> 'w mission_end" where
  "replan_milestone mn ms_id h st =
     (let sig = h_signature h; seen = dget (mm_signatures st) ms_id []; count = dget (mm_replans st) ms_id 0;
          st1 = note_event ''milestone.replan''
            [(''milestone_id'', ms_id), (''guidance'', JStr (if h_errors h = [] then [] else last (h_errors h)))] st
      in if truthy sig \<and> sig \<in> set seen then
           halt (note_event ''milestone.failed''
             [(''milestone_id'', ms_id), (''reason'', JStr ''replan_loop_same_failure''), (''failure_signature'', sig)] st1)
         else if mn_budget mn \<le> count then
           halt (note_event ''milestone.failed''
             [(''milestone_id'', ms_id), (''reason'', JStr ''replan_budget_exhausted''), (''replan_count'', JInt count)] st1)
         else ask_replan mn ms_id h
                (st1\<lparr>mm_signatures := AList.update ms_id (if truthy sig then seen @ [sig] else seen) (mm_signatures st1),
                    mm_replans := AList.update ms_id (count + 1) (mm_replans st1)\<rparr>))"

section \<open>One round of the loop\<close>

definition skip_milestone :: "'w mission \<Rightarrow> obj \<Rightarrow> 'w mission_state \<Rightarrow> 'w mission_end" where
  "skip_milestone mn ms st =
     (let st1 = mark_completed st;
          st2 = st1\<lparr>mm_world := mn_write_plan mn (current_plan st1) (mm_world st1)\<rparr>
      in (advance (note_event ''milestone.skipped''
            [(''milestone_id'', id_of ms), (''title'', dget ms ''title'' (JStr []))] st2), None))"

definition pass_milestone :: "'w mission \<Rightarrow> handoff \<Rightarrow> 'w mission_state \<Rightarrow> 'w mission_end" where
  "pass_milestone mn h st =
     (let st1 = mark_completed st
      in (advance (if mn_memory mn then st1\<lparr>mm_world := mn_log_state mn h (mn_plan_id mn) (mm_world st1)\<rparr> else st1), None))"

definition fail_milestone :: "json \<Rightarrow> handoff \<Rightarrow> 'w mission_state \<Rightarrow> 'w mission_end" where
  "fail_milestone ms_id h st =
     halt (note_event ''milestone.failed''
       [(''milestone_id'', ms_id), (''retry_count'', JInt (h_retry h)),
        (''errors'', JList (map JStr (last_n 3 (h_errors h))))] st)"

definition run_milestone :: "'w mission \<Rightarrow> obj \<Rightarrow> 'w mission_state \<Rightarrow> 'w mission_end" where
  "run_milestone mn ms st =
     (let st1 = note_event ''milestone.started'' [(''milestone_id'', id_of ms), (''title'', dget ms ''title'' (JStr []))] st
      in case mn_execute mn ms (current_plan st1) (mm_world st1) of
           (Inl e, w) \<Rightarrow> (st1\<lparr>mm_world := w\<rparr>, Some (Inl e))
         | (Inr h, w) \<Rightarrow>
             (let st2 = st1\<lparr>mm_world := w, mm_handoffs := mm_handoffs st1 @ [h]\<rparr>
              in if h_verdict h = ''PASS'' then pass_milestone mn h st2
                 else if h_verdict h = ''REPLAN'' then replan_milestone mn (id_of ms) h st2
                 else fail_milestone (id_of ms) h st2))"

definition mission_turn :: "'w mission \<Rightarrow> 'w mission_state \<Rightarrow> 'w mission_end" where
  "mission_turn mn st =
     (if length (mm_milestones st) \<le> mm_index st then halt st
      else if mn_cancelled mn (mm_world st) then (st, Some (Inl RunCancelled))
      else (let ms = mm_milestones st ! mm_index st
            in if mn_resume mn \<and> mn_memory mn \<and> mn_completed mn (id_of ms) (mn_plan_id mn) (mm_world st)
               then skip_milestone mn ms st else run_milestone mn ms st))"

definition mission_start :: "obj \<Rightarrow> 'w \<Rightarrow> 'w mission_state res" where
  "mission_start plan w =
     bindR (milestones_of plan) (\<lambda>milestones.
       Inr \<lparr>mm_plan = plan, mm_milestones = milestones, mm_handoffs = [], mm_passed = 0, mm_index = 0, mm_replans = [],
            mm_signatures = [], mm_world = w, mm_events = []\<rparr>)"

section \<open>The result\<close>

record mission_result =
  mo_status :: string
  mo_passed :: int
  mo_total :: int
  mo_incomplete :: "string list"
  mo_audit :: bool
  mo_handoffs :: "handoff list"

definition incomplete_ids :: "obj list \<Rightarrow> string list" where
  "incomplete_ids milestones =
     map (\<lambda>m. py_str (id_of m)) (filter (\<lambda>m. dget m ''status'' JNull \<noteq> JStr ''completed'') milestones)"

definition mission_audit :: "'w mission_state \<Rightarrow> mission_result" where
  "mission_audit st =
     (let passed = mm_passed st; total = int (length (mm_milestones st));
          short = (if passed > 0 then ''partial'' else ''failed'');
          status = (if passed = total then ''completed'' else short);
          incomplete = incomplete_ids (mm_milestones st);
          audit = (incomplete = [] \<and> passed = total)
      in \<lparr>mo_status = (if audit then status else short), mo_passed = passed, mo_total = total, mo_incomplete = incomplete,
          mo_audit = audit, mo_handoffs = mm_handoffs st\<rparr>)"

text \<open>None is a mission that is still going after \<open>n\<close> rounds.\<close>

definition run_mission :: "nat \<Rightarrow> 'w mission \<Rightarrow> obj \<Rightarrow> 'w \<Rightarrow> ('w mission_state \<times> mission_result res) option res" where
  "run_mission n mn plan w =
     bindR (mission_start plan w) (\<lambda>st.
       Inr (map_option (\<lambda>(st', r). (st', bindR r (\<lambda>_. Inr (mission_audit st')))) (run_loop (mission_turn mn) n st)))"

section \<open>Termination\<close>

text \<open>
  The replans left for a set of identifiers, and the rounds left: each replan costs one of the former, each
  pass one milestone.
\<close>

definition replans_left :: "'w mission \<Rightarrow> json set \<Rightarrow> 'w mission_state \<Rightarrow> nat" where
  "replans_left mn U st = (\<Sum>u\<in>U. nat (mn_budget mn - dget (mm_replans st) u 0))"

definition rounds_left :: "'w mission \<Rightarrow> json set \<Rightarrow> nat \<Rightarrow> 'w mission_state \<Rightarrow> nat" where
  "rounds_left mn U L st = replans_left mn U st * Suc L + (L - mm_index st)"

definition closed_in :: "json set \<Rightarrow> nat \<Rightarrow> obj list \<Rightarrow> bool" where
  "closed_in U L milestones \<longleftrightarrow> id_of ` set milestones \<subseteq> U \<and> length milestones \<le> L"

lemma note_event_simps [simp]:
  "mm_milestones (note_event n d st) = mm_milestones st" "mm_index (note_event n d st) = mm_index st"
  "mm_replans (note_event n d st) = mm_replans st" "mm_world (note_event n d st) = mm_world st"
  "mm_passed (note_event n d st) = mm_passed st" "mm_handoffs (note_event n d st) = mm_handoffs st"
  "mm_signatures (note_event n d st) = mm_signatures st" "mm_plan (note_event n d st) = mm_plan st"
  by (simp_all add: note_event_def)

lemma mark_completed_simps [simp]:
  "mm_index (mark_completed st) = mm_index st" "mm_replans (mark_completed st) = mm_replans st"
  "mm_passed (mark_completed st) = mm_passed st" "mm_handoffs (mark_completed st) = mm_handoffs st"
  "mm_world (mark_completed st) = mm_world st" "length (mm_milestones (mark_completed st)) = length (mm_milestones st)"
  by (simp_all add: mark_completed_def)

lemma id_of_update [simp]: "id_of (AList.update ''status'' v m) = id_of m"
  by (simp add: id_of_def dget_def update_conv')

lemma mark_completed_ids: "map id_of (mm_milestones (mark_completed st)) = map id_of (mm_milestones st)"
proof -
  let ?ids = "map id_of (mm_milestones st)" let ?i = "mm_index st"
  have "?ids[?i := id_of (mm_milestones st ! ?i)] = ?ids"
    by (cases "?i < length (mm_milestones st)") (simp_all add: nth_map [symmetric] list_update_beyond del: nth_map)
  then show ?thesis by (simp add: mark_completed_def map_update)
qed

lemma closed_ids: "map id_of ms = map id_of ms' \<Longrightarrow> closed_in U L ms = closed_in U L ms'"
  unfolding closed_in_def by (metis length_map list.set_map)

lemma replans_left_step:
  assumes "finite U" "u \<in> U" "dget (mm_replans st) u 0 < mn_budget mn"
    and "mm_replans st' = AList.update u (dget (mm_replans st) u 0 + 1) (mm_replans st)"
  shows "replans_left mn U st' < replans_left mn U st"
  unfolding replans_left_def
proof (rule sum_strict_mono_ex1 [OF assms(1)])
  have g: "dget (mm_replans st') x 0 = (if x = u then dget (mm_replans st) u 0 + 1 else dget (mm_replans st) x 0)" for x
    by (simp add: assms(4) dget_def update_conv')
  show "\<forall>x\<in>U. nat (mn_budget mn - dget (mm_replans st') x 0) \<le> nat (mn_budget mn - dget (mm_replans st) x 0)"
    using nat_mono by (auto simp: g)
  show "\<exists>x\<in>U. nat (mn_budget mn - dget (mm_replans st') x 0) < nat (mn_budget mn - dget (mm_replans st) x 0)"
    using assms(2,3) by (intro bexI [of _ u]) (simp_all add: g)
qed

lemma rounds_left_replan:
  assumes "replans_left mn U st' < replans_left mn U st"
  shows "rounds_left mn U L st' < rounds_left mn U L st"
proof -
  have "Suc (replans_left mn U st') * Suc L \<le> replans_left mn U st * Suc L"
    using assms by (intro mult_right_mono) auto
  then show ?thesis by (simp add: rounds_left_def)
qed

lemma rounds_left_pass:
  assumes "mm_replans st' = mm_replans st" "mm_index st' = mm_index st + 1" "mm_index st < L"
  shows "rounds_left mn U L st' < rounds_left mn U L st"
  using assms by (simp add: rounds_left_def replans_left_def)

text \<open>What a turn that goes on has done.\<close>

lemma adopt_plan_next:
  "adopt_plan i plan ms st = (st', x) \<Longrightarrow> x = None \<and> mm_milestones st' = ms \<and> mm_replans st' = mm_replans st"
  by (auto simp: adopt_plan_def Let_def split: option.split_asm)

lemma replan_next:
  assumes "replan_milestone mn i h st = (st', None)"
  obtains plan w where "mn_replan mn (current_plan st) (last (h_errors h)) (mm_world st) = (Inr plan, w)"
    and "milestones_of plan = Inr (mm_milestones st')"
    and "dget (mm_replans st) i 0 < mn_budget mn"
    and "mm_replans st' = AList.update i (dget (mm_replans st) i 0 + 1) (mm_replans st)"
proof -
  let ?st = "(note_event ''milestone.replan'' [(''milestone_id'', i), (''guidance'', JStr (if h_errors h = [] then [] else last (h_errors h)))] st)
      \<lparr>mm_signatures := AList.update i (if truthy (h_signature h) then dget (mm_signatures st) i [] @ [h_signature h]
          else dget (mm_signatures st) i []) (mm_signatures st),
       mm_replans := AList.update i (dget (mm_replans st) i 0 + 1) (mm_replans st)\<rparr>"
  have b: "dget (mm_replans st) i 0 < mn_budget mn" and a: "ask_replan mn i h ?st = (st', None)"
    using assms by (auto simp: replan_milestone_def Let_def halt_def split: if_split_asm)
  have cp: "current_plan ?st = current_plan st" by (simp add: current_plan_def)
  obtain plan w ms where r: "mn_replan mn (current_plan ?st) (last (h_errors h)) (mm_world st) = (Inr plan, w)"
    and m: "milestones_of plan = Inr ms" and ad: "adopt_plan i plan ms (?st\<lparr>mm_world := w\<rparr>) = (st', None)"
    using a by (auto simp: ask_replan_def halt_def split: if_split_asm prod.split_asm sum.split_asm)
  show ?thesis
  proof (rule that)
    show "mn_replan mn (current_plan st) (last (h_errors h)) (mm_world st) = (Inr plan, w)" using r cp by simp
    show "milestones_of plan = Inr (mm_milestones st')" using m adopt_plan_next [OF ad] by simp
    show "mm_replans st' = AList.update i (dget (mm_replans st) i 0 + 1) (mm_replans st)"
      using adopt_plan_next [OF ad] by simp
  qed (rule b)
qed

lemma turn_next:
  assumes "mission_turn mn st = (st', None)"
  obtains (passed) "mm_index st < length (mm_milestones st)" "map id_of (mm_milestones st') = map id_of (mm_milestones st)"
      "mm_replans st' = mm_replans st" "mm_index st' = mm_index st + 1"
    | (replanned) i plan w p g w0 where "mm_index st < length (mm_milestones st)" "i = id_of (mm_milestones st ! mm_index st)"
      "mn_replan mn p g w0 = (Inr plan, w)" "milestones_of plan = Inr (mm_milestones st')"
      "dget (mm_replans st) i 0 < mn_budget mn"
      "mm_replans st' = AList.update i (dget (mm_replans st) i 0 + 1) (mm_replans st)"
proof -
  let ?ms = "mm_milestones st ! mm_index st"
  have i: "mm_index st < length (mm_milestones st)"
    using assms by (auto simp: mission_turn_def halt_def split: if_split_asm)
  consider (skip) "skip_milestone mn ?ms st = (st', None)" | (run) "run_milestone mn ?ms st = (st', None)"
    using assms by (auto simp: mission_turn_def halt_def Let_def split: if_split_asm)
  then show ?thesis
  proof cases
    case skip
    then show ?thesis using i passed mark_completed_ids [of st] by (auto simp: skip_milestone_def Let_def advance_def)
  next
    case run
    let ?st1 = "note_event ''milestone.started'' [(''milestone_id'', id_of ?ms), (''title'', dget ?ms ''title'' (JStr []))] st"
    obtain h w where "mn_execute mn ?ms (current_plan ?st1) (mm_world ?st1) = (Inr h, w)"
      using run by (auto simp: run_milestone_def Let_def split: prod.split_asm sum.split_asm)
    moreover define st2 where "st2 = ?st1\<lparr>mm_world := w, mm_handoffs := mm_handoffs ?st1 @ [h]\<rparr>"
    ultimately consider (pass) "pass_milestone mn h st2 = (st', None)" | (replan) "replan_milestone mn (id_of ?ms) h st2 = (st', None)"
      using run by (auto simp: run_milestone_def Let_def fail_milestone_def halt_def split: if_split_asm)
    then show ?thesis
    proof cases
      case pass
      have "map id_of (mm_milestones (mark_completed st2)) = map id_of (mm_milestones st)"
        using mark_completed_ids [of st2] by (simp add: st2_def)
      then show ?thesis
        using pass i passed by (auto simp: pass_milestone_def Let_def advance_def st2_def split: if_split_asm)
    next
      case replan
      from replan_next [OF replan] obtain plan w' where
        "mn_replan mn (current_plan st2) (last (h_errors h)) (mm_world st2) = (Inr plan, w')"
        "milestones_of plan = Inr (mm_milestones st')" "dget (mm_replans st2) (id_of ?ms) 0 < mn_budget mn"
        "mm_replans st' = AList.update (id_of ?ms) (dget (mm_replans st2) (id_of ?ms) 0 + 1) (mm_replans st2)" .
      then show ?thesis using replanned [OF i refl] by (simp add: st2_def)
    qed
  qed
qed

lemma mission_progress:
  assumes "finite U" and "\<And>p g w plan w' ms. mn_replan mn p g w = (Inr plan, w') \<Longrightarrow> milestones_of plan = Inr ms \<Longrightarrow> closed_in U L ms"
  shows "progressing_turn (mission_turn mn) (\<lambda>st. closed_in U L (mm_milestones st)) (\<lambda>_ _. True) (rounds_left mn U L)"
proof
  fix st st'
  assume c: "closed_in U L (mm_milestones st)" and t: "mission_turn mn st = (st', None)"
  show "closed_in U L (mm_milestones st')"
    using t c assms(2) closed_ids by (cases rule: turn_next) blast+
  show "rounds_left mn U L st' < rounds_left mn U L st"
    using t
  proof (cases rule: turn_next)
    case passed
    then show ?thesis using c by (intro rounds_left_pass) (auto simp: closed_in_def)
  next
    case (replanned i plan w p g w0)
    have "i \<in> U" using c replanned(1,2) by (auto simp: closed_in_def)
    then show ?thesis using replans_left_step [OF assms(1) _ replanned(5,6)] rounds_left_replan by blast
  qed
qed simp

section \<open>Counting passes\<close>

definition earned :: "'w mission_state \<Rightarrow> bool" where
  "earned st \<longleftrightarrow> mm_passed st = int (length (filter (\<lambda>h. h_verdict h = ''PASS'') (mm_handoffs st)))"

definition tally_of :: "'w mission_state \<Rightarrow> int \<times> handoff list" where
  "tally_of st = (mm_passed st, mm_handoffs st)"

lemma adopt_plan_tally: "tally_of (fst (adopt_plan i plan ms st)) = tally_of st"
  by (simp add: adopt_plan_def Let_def tally_of_def split: option.split)

lemma ask_replan_tally: "tally_of (fst (ask_replan mn i h st)) = tally_of st"
  by (auto simp: ask_replan_def halt_def adopt_plan_tally split: prod.split sum.split) (simp_all add: tally_of_def)

lemma replan_tally: "tally_of (fst (replan_milestone mn i h st)) = tally_of st"
  by (auto simp: replan_milestone_def Let_def halt_def ask_replan_tally) (simp_all add: tally_of_def)

lemma earned_tally: "tally_of st = tally_of st' \<Longrightarrow> earned st = earned st'"
  by (simp add: tally_of_def earned_def)

lemma run_milestone_earned:
  assumes "earned st"
  shows "earned (fst (run_milestone mn ms st))"
proof -
  let ?st1 = "note_event ''milestone.started'' [(''milestone_id'', id_of ms), (''title'', dget ms ''title'' (JStr []))] st"
  obtain r w where x: "mn_execute mn ms (current_plan ?st1) (mm_world ?st1) = (r, w)" by fastforce
  show ?thesis
  proof (cases r)
    case (Inl e)
    then show ?thesis using x assms by (simp add: run_milestone_def Let_def earned_def)
  next
    case (Inr h)
    let ?st2 = "?st1\<lparr>mm_world := w, mm_handoffs := mm_handoffs ?st1 @ [h]\<rparr>"
    have "earned (fst (replan_milestone mn (id_of ms) h ?st2))" if "h_verdict h \<noteq> ''PASS''"
      using that assms earned_tally [OF replan_tally, of mn "id_of ms" h ?st2] by (simp add: earned_def)
    then show ?thesis
      using Inr x assms
      by (auto simp: run_milestone_def Let_def pass_milestone_def fail_milestone_def halt_def advance_def earned_def)
  qed
qed

lemma turn_earned:
  assumes "\<not> mn_resume mn" "earned st"
  shows "earned (fst (mission_turn mn st))"
  using assms by (simp add: mission_turn_def halt_def Let_def run_milestone_earned)

interpretation me: turn_invariant "mission_turn mn" "\<lambda>st. \<not> mn_resume mn \<and> earned st" "\<lambda>st r. earned st" for mn
  by unfold_locales (use turn_earned in force)+

section \<open>A small mission\<close>

text \<open>Every milestone ends in the same handoff, and the orchestrator is a function of the plan.\<close>

definition plain_handoff :: "string \<Rightarrow> handoff" where
  "plain_handoff verdict =
     \<lparr>h_id = JNull, h_title = JNull, h_summary = JNull, h_files = JList [], h_calls = JInt 0, h_retry = 0,
      h_verdict = verdict, h_commit = JStr [], h_elapsed = JNull, h_errors = [''x''], h_signature = JStr [],
      h_verification = None\<rparr>"

definition fixed_mission :: "string \<Rightarrow> (obj \<Rightarrow> obj) \<Rightarrow> unit mission" where
  "fixed_mission verdict replan =
     \<lparr>mn_cancelled = (\<lambda>w. False), mn_execute = (\<lambda>m p w. (Inr (plain_handoff verdict), w)),
      mn_replan = (\<lambda>p g w. (Inr (replan p), w)), mn_completed = (\<lambda>i p w. False), mn_write_plan = (\<lambda>p w. w),
      mn_log_state = (\<lambda>h p w. w), mn_memory = False, mn_resume = False, mn_budget = 2, mn_plan_id = [],
      mn_error_text = (\<lambda>e. [])\<rparr>"

abbreviation two_milestones :: obj where
  "two_milestones \<equiv> [(''milestones'', JList [JObj [(''id'', JStr ''M1'')], JObj [(''id'', JStr ''M2'')]])]"

text \<open>An orchestrator that replaces the first milestone by one with a longer identifier.\<close>

definition renamed :: "string \<Rightarrow> obj" where
  "renamed s = [(''milestones'', JList [JObj [(''id'', JStr s)]])]"

definition renaming :: "obj \<Rightarrow> obj" where
  "renaming plan =
     (case milestones_of plan of
        Inr (m # ms) \<Rightarrow> renamed (CHR ''x'' # get_str m ''id'' [])
      | _ \<Rightarrow> plan)"

section \<open>Properties\<close>

lemma run_mission_loop:
  assumes "run_mission n mn plan w = Inr (Some (st, r))"
  obtains st0 r0 where "mission_start plan w = Inr st0" "run_loop (mission_turn mn) n st0 = Some (st, r0)"
    "r = bindR r0 (\<lambda>_. Inr (mission_audit st))"
  using assms by (auto simp: run_mission_def)

text \<open>
  Property C8. A mission is only reported completed when it is: outside a resumed run, the status
  \<open>completed\<close> means that every milestone of the final plan is marked completed and that as many
  milestone executions ended in PASS as the plan has milestones.
\<close>

theorem mission_completed_earned:
  assumes "run_mission n mn plan w = Inr (Some (st, Inr res))" and "\<not> mn_resume mn"
    and "mo_status res = ''completed''"
  shows "length (filter (\<lambda>h. h_verdict h = ''PASS'') (mo_handoffs res)) = length (mm_milestones st) \<and>
    (\<forall>m\<in>set (mm_milestones st). dget m ''status'' JNull = JStr ''completed'') \<and> mo_incomplete res = []"
proof -
  obtain st0 r0 where s: "mission_start plan w = Inr st0" and l: "run_loop (mission_turn mn) n st0 = Some (st, r0)"
    and r: "Inr res = bindR r0 (\<lambda>_. Inr (mission_audit st))"
    using assms(1) by (rule run_mission_loop)
  have "earned st0" using s by (auto simp: mission_start_def earned_def)
  then have "earned st" using me.loop_post [of mn st0 n st r0] l assms(2) by simp
  moreover have "res = mission_audit st" using r by (cases r0) auto
  ultimately show ?thesis
    using assms(3) by (auto simp: mission_audit_def Let_def earned_def incomplete_ids_def filter_empty_conv split: if_splits)
qed

lemma run_value:
  assumes "case m of Inr (Some (st, Inr r)) \<Rightarrow> P st r | _ \<Rightarrow> False"
  obtains st r where "m = Inr (Some (st, Inr r))" "P st r"
proof -
  obtain st x where m: "m = Inr (Some (st, x))" using assms by (auto split: sum.split_asm option.split_asm)
  then obtain r where "x = Inr r" using assms by (cases x) auto
  then show ?thesis using that assms m by simp
qed

lemma mission_completed_earned_witness:
  "\<exists>st res. run_mission 3 (fixed_mission ''PASS'' (\<lambda>p. p)) two_milestones () = Inr (Some (st, Inr res)) \<and>
     length (filter (\<lambda>h. h_verdict h = ''PASS'') (mo_handoffs res)) = 2"
proof -
  let ?m = "run_mission 3 (fixed_mission ''PASS'' (\<lambda>p. p)) two_milestones ()"
  have "case ?m of Inr (Some (st, Inr res)) \<Rightarrow> mo_status res = ''completed'' \<and> length (mm_milestones st) = 2 | _ \<Rightarrow> False"
    by code_simp
  then obtain st res where m: "?m = Inr (Some (st, Inr res))" "mo_status res = ''completed''" "length (mm_milestones st) = 2"
    by (rule run_value) blast
  have "\<not> mn_resume (fixed_mission ''PASS'' (\<lambda>p. p))" by (simp add: fixed_mission_def)
  from mission_completed_earned [OF m(1) this m(2)] show ?thesis using m by simp
qed

text \<open>
  Property C7. Replanning is bounded as long as the orchestrator works on the milestones there are: when no
  replan leaves a finite set of identifiers or a bound on the number of milestones, a mission returns
  within (identifiers x budget) x (bound + 1) + bound + 1 rounds, whatever the milestones do.
\<close>

theorem mission_returns:
  assumes "finite U" and "milestones_of plan = Inr ms0" and "closed_in U L ms0"
    and "\<And>p g v plan' v' ms. mn_replan mn p g v = (Inr plan', v') \<Longrightarrow> milestones_of plan' = Inr ms \<Longrightarrow> closed_in U L ms"
  shows "\<exists>st r. run_mission (card U * nat (mn_budget mn) * Suc L + L + 1) mn plan w = Inr (Some (st, r))"
proof -
  obtain st0 where s: "mission_start plan w = Inr st0" "mm_milestones st0 = ms0" "mm_replans st0 = []" "mm_index st0 = 0"
    using assms(2) by (simp add: mission_start_def)
  have "rounds_left mn U L st0 = card U * nat (mn_budget mn) * Suc L + L"
    by (simp add: rounds_left_def replans_left_def s dget_def)
  then obtain st r where "run_loop (mission_turn mn) (card U * nat (mn_budget mn) * Suc L + L + 1) st0 = Some (st, r)"
    using progressing_turn.loop_returns [OF mission_progress, of U mn L st0] assms(1,3,4) s(2)
    by (metis less_add_one)
  then show ?thesis using s(1) by (simp add: run_mission_def)
qed

lemma mission_returns_witness:
  "\<exists>st r. run_mission (2 * nat 2 * Suc 2 + 2 + 1) (fixed_mission ''REPLAN'' (\<lambda>_. two_milestones)) two_milestones () = Inr (Some (st, r))"
proof -
  let ?mn = "fixed_mission ''REPLAN'' (\<lambda>_. two_milestones)" let ?U = "{JStr ''M1'', JStr ''M2''}"
  have ms: "milestones_of two_milestones = Inr [[(''id'', JStr ''M1'')], [(''id'', JStr ''M2'')]]" by code_simp
  have c: "closed_in ?U 2 [[(''id'', JStr ''M1'')], [(''id'', JStr ''M2'')]]" by (simp add: closed_in_def id_of_def dget_def)
  have r: "closed_in ?U 2 ms" if "mn_replan ?mn p g v = (Inr plan', v')" "milestones_of plan' = Inr ms" for p g v plan' v' ms
    using that ms c by (simp add: fixed_mission_def)
  have f: "finite ?U" by simp
  have k: "card ?U = 2" "mn_budget ?mn = 2" by (simp_all add: fixed_mission_def)
  have "\<exists>st r. run_mission (card ?U * nat (mn_budget ?mn) * Suc 2 + 2 + 1) ?mn two_milestones () = Inr (Some (st, r))"
    by (rule mission_returns [OF f ms c]) (rule r)
  then show ?thesis unfolding k .
qed

text \<open>
  Without that condition it is not: the budget is kept per milestone identifier, so an
  orchestrator that answers every request by removing the milestone and inserting the same work under
  another identifier keeps the mission running forever.
\<close>

lemma mission_replans_forever:
  assumes "0 < mn_budget mn" and "\<not> mn_resume mn" and "\<forall>v. \<not> mn_cancelled mn v"
    and "\<forall>m p v. mn_execute mn m p v = (Inr h, v)"
    and "h_verdict h = ''REPLAN''" and "h_errors h \<noteq> []" and "\<not> truthy (h_signature h)"
    and "\<forall>p g v. mn_replan mn p g v = (Inr (renaming p), v)"
  shows "\<forall>n. run_mission n mn (renamed s) w = Inr None"
proof
  fix n
  let ?P = "\<lambda>st. \<exists>s. mm_milestones st = [[(''id'', JStr s)]] \<and> mm_index st = 0 \<and>
      (\<forall>k\<in>fst ` set (mm_replans st). \<exists>t. k = JStr t \<and> length t < length s)"
  have ms: "milestones_of (renamed s) = Inr [[(''id'', JStr s)]]" for s
    by (simp add: milestones_of_def renamed_def dget_def)
  have cp: "renaming (current_plan st) = renamed (CHR ''x'' # s)" if "mm_milestones st = [[(''id'', JStr s)]]" for st :: "'a mission_state" and s
    using that by (simp add: renaming_def current_plan_def milestones_of_def dget_def update_conv' get_str_def)
  have step: "snd (mission_turn mn st) = None \<and> ?P (fst (mission_turn mn st))" if P: "?P st" for st
  proof -
    obtain s where s: "mm_milestones st = [[(''id'', JStr s)]]" "mm_index st = 0"
      and k: "\<forall>k\<in>fst ` set (mm_replans st). \<exists>t. k = JStr t \<and> length t < length s" using P by blast
    have "JStr s \<notin> fst ` set (mm_replans st)" using k by blast
    then have z: "dget (mm_replans st) (JStr s) 0 = 0" by (simp add: dget_def map_of_eq_None_iff [symmetric])
    have i: "id_of [(''id'', JStr s)] = JStr s" by (simp add: id_of_def dget_def)
    obtain st' where t: "mission_turn mn st = (st', None)" "mm_milestones st' = [[(''id'', JStr (CHR ''x'' # s))]]" "mm_index st' = 0"
      "mm_replans st' = AList.update (JStr s) 1 (mm_replans st)"
      using assms s z i
      by (auto simp: mission_turn_def run_milestone_def Let_def replan_milestone_def ask_replan_def cp ms adopt_plan_def dget_def)
    have "\<forall>k\<in>fst ` set (mm_replans st'). \<exists>u. k = JStr u \<and> length u < length (CHR ''x'' # s)"
    proof
      fix x
      assume "x \<in> fst ` set (mm_replans st')"
      then have "x = JStr s \<or> x \<in> fst ` set (mm_replans st)" by (simp add: t(4) dom_update)
      then show "\<exists>u. x = JStr u \<and> length u < length (CHR ''x'' # s)" using k less_SucI by auto
    qed
    then show ?thesis using t by auto
  qed
  obtain st0 where st0: "mission_start (renamed s) w = Inr st0" "?P st0"
    using ms by (auto simp: mission_start_def)
  have "run_loop (mission_turn mn) n st0 = None" using st0(2) by (rule run_loop_stuck) (rule step)
  then show "run_mission n mn (renamed s) w = Inr None" using st0(1) by (simp add: run_mission_def)
qed

end
