(* ===== verification/Harness.thy ===== *)
theory Harness
  imports WorkerLaws Milestone
begin

text \<open>
  The parts put together: a milestone whose attempts are runs of the worker of \<open>Worker\<close> on the file tools
  of \<open>FileOps\<close>, judged by the validator of \<open>Verdict\<close>, in a world of a workspace and a list of commits.
  The model of the worker is any function of its conversation; a worker that is still busy after a number
  of turns is cancelled by its user.
\<close>

section \<open>The harness\<close>

record world =
  hw_tools :: tool_state
  hw_commits :: "string list"

record rig =
  su_fs :: fs_env
  su_budget :: int
  su_model :: "message list \<Rightarrow> string"
  su_patience :: nat
  su_judge :: judge
  su_probe :: probe
  su_ports :: "int list"
  su_root :: ppath
  su_verify :: "obj \<Rightarrow> obj res"
  su_search :: "string \<Rightarrow> obj"
  su_skill :: "string \<Rightarrow> string option"

definition messages_of :: "json \<Rightarrow> message list" where
  "messages_of j =
     (case j of
        JList xs \<Rightarrow> List.map_filter (\<lambda>x. case x of
            JObj d \<Rightarrow> Some \<lparr>m_role = get_str d ''role'' [], m_content = get_str d ''content'' []\<rparr> | _ \<Rightarrow> None) xs
      | _ \<Rightarrow> [])"

definition failure_counts :: "json \<Rightarrow> (string \<times> int) list" where
  "failure_counts j =
     (case j of
        JObj d \<Rightarrow> (case dget d ''counts'' JNull of
            JObj c \<Rightarrow> List.map_filter (\<lambda>(k, v). case v of JInt n \<Rightarrow> Some (k, n) | _ \<Rightarrow> None) c | _ \<Rightarrow> [])
      | _ \<Rightarrow> [])"

definition failures_in_a_row :: "json \<Rightarrow> int" where
  "failures_in_a_row j = (case j of JObj d \<Rightarrow> (case dget d ''consecutive'' JNull of JInt n \<Rightarrow> n | _ \<Rightarrow> 0) | _ \<Rightarrow> 0)"

definition assignment_of :: "rig \<Rightarrow> obj \<Rightarrow> attempt \<Rightarrow> assignment" where
  "assignment_of su plan a =
     \<lparr>op_plan = plan, op_tools_md = at_tools_md a, op_root = path_str (su_root su), op_feedback = at_feedback a,
      op_constraints = None, op_hints = None, op_retry = at_retry a, op_prior = messages_of (at_conversation a),
      op_prior_active = at_active a, op_initial = at_active a, op_failures = failure_counts (at_failures a),
      op_consecutive = failures_in_a_row (at_failures a)\<rparr>"

definition harness_work :: "rig \<Rightarrow> obj \<Rightarrow> obj \<Rightarrow> attempt \<Rightarrow> world \<Rightarrow> obj res \<times> world" where
  "harness_work su plan milestone a w =
     (case run_worker (su_patience su) (file_worker (su_fs su) (su_budget su) (su_model su)) (su_probe su) (su_ports su)
             (su_root su) (assignment_of su plan a) milestone (hw_tools w) of
        Inl e \<Rightarrow> (Inl e, w)
      | Inr None \<Rightarrow> (Inr [(''status'', JStr ''cancelled'')], w)
      | Inr (Some (st, r)) \<Rightarrow> (r, w\<lparr>hw_tools := ws_world st\<rparr>))"

definition harness_validate :: "rig \<Rightarrow> obj \<Rightarrow> obj \<Rightarrow> int \<Rightarrow> bool \<Rightarrow> obj res" where
  "harness_validate su milestone work k is_test =
     result_of (run_validator (su_judge su) (su_probe su) (su_ports su) (su_root su) milestone work k is_test)"

definition harness :: "rig \<Rightarrow> obj \<Rightarrow> obj \<Rightarrow> world runtime" where
  "harness su plan milestone =
     \<lparr>rt_cancelled = (\<lambda>w. False), rt_work = harness_work su plan milestone,
      rt_validate = (\<lambda>work k t w. (harness_validate su milestone work k t, w)),
      rt_verify = (\<lambda>d w. (su_verify su d, w)),
      rt_commit = (\<lambda>m w. ([(''commit_hash'', JStr (nat_digits (length (hw_commits w))))], w\<lparr>hw_commits := hw_commits w @ [m]\<rparr>)),
      rt_save = (\<lambda>d w. (Inr (), w)), rt_artifact = (\<lambda>v w. w), rt_log_failure = (\<lambda>f m w. w), rt_memory = False,
      rt_tools = (\<lambda>g w. w\<lparr>hw_tools := g (hw_tools w)\<rparr>), rt_fs = su_fs su, rt_search = su_search su,
      rt_skill = su_skill su, rt_ports = [], rt_dumps = (\<lambda>j. json_dumps None j), rt_elapsed = JNull\<rparr>"

interpretation hr: commit_log "harness su plan milestone" hw_commits for su plan milestone
  by unfold_locales (auto simp: harness_def harness_work_def split: sum.split option.split prod.split)

section \<open>The write policy around a milestone\<close>

lemma any_tool_confined: "confined fe ts (snd (dispatch fe no_other tool args ts))"
proof (cases "tool \<in> set file_tools")
  case True
  then show ?thesis by (rule dispatch_confined)
next
  case False
  then show ?thesis by (simp add: dispatch_def no_other_def Let_def)
qed

interpretation fa: worker_world "file_worker fe budget model" "confined fe" UNIV for fe budget model
proof
  show "confined fe w w" for w by simp
  show "confined fe w w1 \<Longrightarrow> confined fe w1 w2 \<Longrightarrow> confined fe w w2" for w w1 w2 by (rule confined_trans)
qed (simp_all add: any_tool_confined)

lemma file_worker_confined:
  assumes "run_worker n (file_worker fe budget model) pb ports ws op milestone ts = Inr (Some (st, r))"
  shows "confined fe ts (ws_world st)"
proof -
  obtain job st0 where s: "worker_start (file_worker fe budget model) pb ports ws op milestone ts = Inr (job, st0)"
    and l: "Some (st, r) = run_loop (worker_turn (file_worker fe budget model) job) n st0"
    using assms by (rule run_worker_loop)
  have "confined fe (ws_world st0) (ws_world st)" using fa.loop_R [OF l [symmetric]] by simp
  moreover have "confined fe ts (ws_world st0)" using worker_start_shape(6) [OF s] any_tool_confined by auto
  ultimately show ?thesis by (rule confined_trans [rotated])
qed

lemma harness_work_confined:
  "confined (su_fs su) (hw_tools w) (hw_tools (snd (harness_work su plan milestone a w)))"
  by (auto simp: harness_work_def file_worker_confined split: sum.split option.split)

text \<open>A relation between workspaces that every attempt keeps is kept by the whole milestone.\<close>

locale attempt_relation =
  fixes rt :: "'w runtime" and R :: "'w \<Rightarrow> 'w \<Rightarrow> bool"
  assumes R_refl: "R w w"
    and R_trans: "R w w1 \<Longrightarrow> R w1 w2 \<Longrightarrow> R w w2"
    and work_R: "R w (snd (rt_work rt a w))"
    and validate_R: "R w (snd (rt_validate rt work k t w))"
    and verify_R: "R w (snd (rt_verify rt x w))"
    and commit_R: "R w (snd (rt_commit rt m w))"
    and save_R: "R w (snd (rt_save rt d w))"
    and artifact_R: "R w (rt_artifact rt v w)"
    and log_R: "R w (rt_log_failure rt f m w)"
begin

definition kept :: "'w \<Rightarrow> 'w turn_end \<Rightarrow> bool" where
  "kept w y \<longleftrightarrow> R w (mi_world (fst y))"

lemma kept_simps [simp]:
  "kept w (answer_with st h) = R w (mi_world st)" "kept w (raising st e) = R w (mi_world st)"
  "kept w (st, None) = R w (mi_world st)"
  by (simp_all add: kept_def answer_with_def raising_def)

lemma blocked_kept: "R w (mi_world st) \<Longrightarrow> kept w (blocked_attempt rt pk work st)"
  by (simp add: blocked_attempt_def Let_def)

lemma replan_kept: "R w (mi_world st) \<Longrightarrow> kept w (replan_attempt rt pk work v st)"
  by (simp add: replan_attempt_def Let_def)

lemma passed_kept:
  assumes "R w (mi_world st)"
  shows "kept w (passed_attempt rt pk work v ver st)"
proof -
  obtain d w1 where d: "rt_commit rt (commit_message pk) (mi_world st) = (d, w1)" by fastforce
  have "R w w1" using assms commit_R [of "mi_world st" "commit_message pk"] d R_trans by (metis snd_conv)
  then have "R w w2" if "rt_save rt x w1 = (r, w2)" for x r w2
    using that save_R [of w1 x] R_trans by (metis snd_conv)
  then show ?thesis using d by (auto simp: passed_attempt_def Let_def split: prod.split sum.split)
qed

lemma log_failures_kept:
  assumes "log_failures rt work errors w = Inr w'"
  shows "R w w'"
proof -
  have "R v (fold (\<lambda>f. rt_log_failure rt f m) files v)" for m files v
  proof (induction files arbitrary: v)
    case (Cons f files)
    then show ?case using log_R R_trans by (metis fold_simps(2))
  qed (simp add: R_refl)
  then show ?thesis using assms R_refl by (auto simp: log_failures_def split: if_split_asm)
qed

lemma failed_kept:
  assumes "R w (mi_world st)"
  shows "kept w (failed_attempt rt pk work v st)"
proof -
  have "R w w'" if "log_failures rt work errors (mi_world st) = Inr w'" for errors w'
    using assms log_failures_kept [OF that] R_trans by blast
  then show ?thesis using assms by (auto simp: failed_attempt_def Let_def split: sum.split)
qed

lemma judged_kept: "R w (mi_world st) \<Longrightarrow> kept w (judged_attempt rt pk work v ver st)"
  by (simp add: judged_attempt_def Let_def passed_kept replan_kept failed_kept)

lemma judge_kept:
  assumes "R w (mi_world st)"
  shows "kept w (judge_attempt rt pk work st)"
proof -
  have v: "R w w'" if "rt_validate rt work (mi_retry st) (pk_test pk) (mi_world st) = (r, w')" for r w'
    using that assms validate_R [of "mi_world st" work "mi_retry st" "pk_test pk"] R_trans by (metis snd_conv)
  have f: "R w w'" if "rt_verify rt (verifier_input work) (mi_world st) = (r, w')" for r w'
    using that assms verify_R [of "mi_world st" "verifier_input work"] R_trans by (metis snd_conv)
  have a: "R w (rt_artifact rt d w')" if "rt_verify rt (verifier_input work) (mi_world st) = (r, w')" for r w' d
    using f [OF that] artifact_R R_trans by blast
  show ?thesis
    using v f a by (auto simp: judge_attempt_def escalated_attempt_def Let_def judged_kept split: prod.split sum.split)
qed

lemma worked_kept: "R w (mi_world st) \<Longrightarrow> kept w (worked_attempt rt pk work st)"
  by (auto simp: worked_attempt_def Let_def blocked_kept judge_kept split: sum.split bool.split)

lemma turn_kept:
  assumes "R w (mi_world st)"
  shows "kept w (milestone_turn rt pk st)"
proof -
  have "R w w'" if "rt_work rt (attempt_of pk st) (mi_world st) = (r, w')" for r w'
    using that assms work_R [of "mi_world st" "attempt_of pk st"] R_trans by (metis snd_conv)
  then show ?thesis
    using assms by (auto simp: milestone_turn_def exhausted_attempts_def Let_def worked_kept split: prod.split sum.split)
qed

lemma loop_kept:
  assumes "run_loop (milestone_turn rt pk) n st = Some (st', r)"
  shows "R (mi_world st) (mi_world st')"
proof -
  let ?inv = "\<lambda>s :: 'w mstate. R (mi_world st) (mi_world s)"
  have "turn_invariant (milestone_turn rt pk) ?inv (\<lambda>s r. ?inv s)"
  proof
    fix s s' r
    assume i: "?inv s"
    show "?inv s'" if "milestone_turn rt pk s = (s', None)" using turn_kept [OF i, of pk] that by simp
    show "?inv s'" if "milestone_turn rt pk s = (s', Some r)" using turn_kept [OF i, of pk] that by (simp add: kept_def)
  qed
  from turn_invariant.loop_post [OF this _ assms] show ?thesis using R_refl by simp
qed

end

interpretation hc: attempt_relation "harness su plan milestone" "\<lambda>w w'. confined (su_fs su) (hw_tools w) (hw_tools w')"
    for su plan milestone
proof
  show "confined (su_fs su) (hw_tools w) (hw_tools w)" for w by simp
  show "confined (su_fs su) (hw_tools w) (hw_tools w1) \<Longrightarrow> confined (su_fs su) (hw_tools w1) (hw_tools w2) \<Longrightarrow>
      confined (su_fs su) (hw_tools w) (hw_tools w2)" for w w1 w2 by (rule confined_trans)
qed (simp_all add: harness_def harness_work_confined)

section \<open>A small harness\<close>

definition demo_rig :: rig where
  "demo_rig =
     \<lparr>su_fs = demo_env, su_budget = 10, su_model = (\<lambda>_. done_reply), su_patience = 1, su_judge = demo_judge 0 [] [],
      su_probe = no_probe, su_ports = [8001], su_root = path_of ''/w'', su_verify = (\<lambda>d. Inr []), su_search = (\<lambda>q. []),
      su_skill = (\<lambda>n. None)\<rparr>"

definition demo_world :: world where
  "demo_world = \<lparr>hw_tools = demo_tools, hw_commits = []\<rparr>"

abbreviation done_result :: "json \<Rightarrow> string list \<Rightarrow> json \<Rightarrow> json \<Rightarrow> obj" where
  "done_result conversation active discovered failures \<equiv>
     [(''status'', JStr ''complete''), (''summary'', JStr []), (''files_modified'', JList []), (''tool_calls'', JInt 0),
      (''conversation'', conversation), (''created_files'', JList []), (''active_tools'', jstrs active),
      (''discovered_tools'', discovered), (''failure_state'', failures)]"

lemma demo_attempt:
  assumes "messages_of (at_conversation a) = []" "ts_fs (hw_tools w) = ts_fs demo_tools"
    and "ts_root (hw_tools w) = ts_root demo_tools" "ts_created (hw_tools w) = []"
  obtains c e f g where "harness_work demo_rig plan demo_task a w = (Inr (done_result c e f g), w)"
proof (rule done_run [of "assignment_of demo_rig plan a" "hw_tools w"])
  show "op_prior (assignment_of demo_rig plan a) = []" using assms(1) by (simp add: assignment_of_def)
  fix st c e f g
  assume "run_worker 1 (file_worker demo_env 10 (\<lambda>_. done_reply)) no_probe [8001] (path_of ''/w'')
      (assignment_of demo_rig plan a) demo_task (hw_tools w) = Inr (Some (st, Inr (done_result c e f g)))"
    and "ws_world st = hw_tools w"
  then have "harness_work demo_rig plan demo_task a w = (Inr (done_result c e f g), w)"
    by (simp add: harness_work_def demo_rig_def)
  then show ?thesis by (rule that)
qed (use assms(2-4) in simp_all)

lemma demo_accepted:
  obtains v where "harness_validate demo_rig demo_task (done_result c e f g) 0 False = Inr v"
    and "dget v ''verdict'' JNull = JStr ''PASS''"
proof -
  have "case result_of (run_validator (demo_judge 0 [] []) no_probe [8001] (path_of ''/w'') demo_task (done_result c e f g) 0 False) of
      Inr v \<Rightarrow> dget v ''verdict'' JNull = JStr ''PASS'' | _ \<Rightarrow> False" by code_simp
  then show ?thesis using that by (auto simp: harness_validate_def demo_rig_def split: sum.split_asm)
qed

lemma harness_scope:
  "hw_tools (scope_policy (harness su plan milestone) is_test names w) =
     begin_milestone_write_policy (su_fs su) (Some names) (\<not> is_test \<and> (\<exists>p\<in>set names. is_test_path p))
       (set_allow_test_edits is_test (hw_tools w))"
  by (simp add: scope_policy_def harness_def)

lemma demo_passes:
  obtains st h where "execute_milestone (harness demo_rig [] demo_task) False [] demo_task demo_world = Inr (Some (st, Inr h))"
    and "h_verdict h = ''PASS''"
proof -
  let ?rt = "harness demo_rig [] demo_task"
  have t: "is_test_milestone demo_task = Inr False" "milestone_suggests_dependencies demo_task [] = Inr False" by code_simp+
  have f: "dget demo_task ''target_files'' (JList []) = JList (map JStr [''a.py''])" by (simp add: dget_def)
  obtain pk st0 where s: "milestone_start ?rt False [] demo_task demo_world = Inr (pk, st0)"
    and z: "pk_test pk = False" "pk_hotfix pk = False" "mi_conversation st0 = JNull" "mi_retry st0 = 0" "\<not> mi_over st0"
      "mi_world st0 = scope_policy ?rt False [''a.py''] demo_world"
    using t mapR_text_of [of "[''a.py'']"] by (auto simp: milestone_start_def Let_def f)
  have m: "messages_of (at_conversation (attempt_of pk st0)) = []" by (simp add: attempt_of_def z(3) messages_of_def)
  have w: "ts_fs (hw_tools (mi_world st0)) = ts_fs demo_tools" "ts_root (hw_tools (mi_world st0)) = ts_root demo_tools"
      "ts_created (hw_tools (mi_world st0)) = []"
    by (simp_all add: z(6) harness_scope demo_world_def begin_milestone_write_policy_def Let_def set_allow_test_edits_def)
  obtain c e f g where a: "harness_work demo_rig [] demo_task (attempt_of pk st0) (mi_world st0)
      = (Inr (done_result c e f g), mi_world st0)"
    by (rule demo_attempt [OF m w])
  obtain v where v: "harness_validate demo_rig demo_task (done_result c e f g) 0 False = Inr v" "dget v ''verdict'' JNull = JStr ''PASS''"
    by (rule demo_accepted)
  have "dget v ''verdict'' (JStr ''FAIL'') = JStr ''PASS''" using v(2) by (auto simp: dget_def split: option.splits)
  then obtain st h where turn: "milestone_turn ?rt pk st0 = (st, Some (Inr h))" "h_verdict h = ''PASS''"
    using a v z
    by (auto simp: milestone_turn_def max_retry_cycles_def harness_def worked_attempt_def Let_def dget_def jstrs_def
        judge_attempt_def judged_attempt_def passed_attempt_def answer_with_def hand_over_def)
  have "run_loop (milestone_turn ?rt pk) 4 st0 = Some (st, Inr h)"
    using turn(1) by (simp add: numeral_eq_Suc)
  then show ?thesis using s turn(2) by (intro that) (simp_all add: execute_milestone_def)
qed

section \<open>Properties\<close>

lemma write_policy_state:
  assumes "names \<noteq> []"
  shows "ts_fs (begin_milestone_write_policy fe (Some names) b ts) = ts_fs ts"
    "ts_root (begin_milestone_write_policy fe (Some names) b ts) = ts_root ts"
    "\<exists>A. ts_allowed (begin_milestone_write_policy fe (Some names) b ts) = Some A \<and> set A \<subseteq> normalize_workspace_path ` set names"
  using assms by (cases names; auto simp: begin_milestone_write_policy_def Let_def)+





end
