(* ===== verification/ChatMode.thy ===== *)
theory ChatMode
  imports PyJson
begin

text \<open>
  \<open>src/chat_mode.py\<close>: the modes ask, plan and build a user chooses, the messages that approve a draft
  plan, and the rendering of a plan in the chat. A long dash is written \<open>-\<close>.
\<close>

section \<open>Modes\<close>

definition chat_modes :: "string list" where
  "chat_modes = [''ask'', ''plan'', ''build'']"

definition normalize_chat_mode :: "json \<Rightarrow> string \<Rightarrow> string" where
  "normalize_chat_mode value dflt =
     (let raw = py_lower (py_strip (py_str (py_or value (JStr []))))
      in if raw \<in> set chat_modes then raw
         else if dflt \<in> set chat_modes then dflt else ''build'')"

section \<open>Approval\<close>

definition approve_phrases :: "string list" where
  "approve_phrases =
     [''build'', ''build it'', ''build this'', ''go'', ''go ahead'', ''lgtm'', ''looks good'', ''sounds good'',
      ''proceed'', ''do it'', ''yes'', ''ok'', ''okay'', ''ship it'', ''approve'', ''approved'',
      ''let'' @ squote # ''s go'', ''lets go'', ''start'', ''start building'', ''run it'']"

text \<open>\<open>re.sub("[.!?]+$", "", s)\<close> on a text that does not end in a newline.\<close>

definition drop_punctuation :: "string \<Rightarrow> string" where
  "drop_punctuation s = rev (dropWhile (\<lambda>c. c \<in> set ''.!?'') (rev s))"

text \<open>\<open>re.sub("\s+", " ", s)\<close>: each run of spaces becomes one space.\<close>

fun squeeze :: "string \<Rightarrow> string" where
  "squeeze [] = []"
| "squeeze (c # cs) =
     (if is_space c then (case cs of [] \<Rightarrow> '' '' | d # ds \<Rightarrow> if is_space d then squeeze cs else CHR '' '' # squeeze cs)
      else c # squeeze cs)"

definition cleaned :: "string \<Rightarrow> string" where
  "cleaned message = py_strip (squeeze (drop_punctuation (py_lower (py_strip message))))"

definition is_plan_approval_phrase :: "string \<Rightarrow> bool" where
  "is_plan_approval_phrase message = (cleaned message \<in> set approve_phrases)"

text \<open>
  A plan with pending milestones that nobody has approved. \<open>None\<close> and every value that is no
  dictionary are no plan.
\<close>

definition settled_states :: "string list" where
  "settled_states = [''approved'', ''executing'', ''completed'', ''dismissed'']"

definition pending_milestone :: "json \<Rightarrow> bool" where
  "pending_milestone m = (case m of JObj d \<Rightarrow> py_lower (get_str d ''status'' []) \<noteq> ''completed'' | _ \<Rightarrow> False)"

definition approval_of :: "obj \<Rightarrow> string" where
  "approval_of plan = py_lower (py_strip (py_str (py_or (dget plan ''approval_state'' JNull) (JStr []))))"

definition plan_awaiting_approval :: "json \<Rightarrow> bool" where
  "plan_awaiting_approval plan =
     (case plan of
        JObj d \<Rightarrow>
          (case dget d ''milestones'' JNull of
             JList ms \<Rightarrow> ms \<noteq> [] \<and> (\<exists>m\<in>set ms. pending_milestone m) \<and> approval_of d \<notin> set settled_states
           | _ \<Rightarrow> False)
      | _ \<Rightarrow> False)"

section \<open>Rendering\<close>

text \<open>\<open>d.get(k) or dflt\<close> as text.\<close>

definition text_or :: "obj \<Rightarrow> string \<Rightarrow> string \<Rightarrow> string" where
  "text_or d k dflt = py_str (py_or (dget d k JNull) (JStr dflt))"

definition card_lines :: "obj \<Rightarrow> string list" where
  "card_lines ms =
     (let description = py_strip (text_or ms ''description'' [])
      in (''- **'' @ py_strip (text_or ms ''id'' ''?'') @ ''** - '' @ py_strip (text_or ms ''title'' [])
          @ '' ('' @ py_strip (text_or ms ''status'' ''pending'') @ '')'')
         # (if description = [] then [] else [''  '' @ take 240 description]))"

definition objects_of :: "json list \<Rightarrow> obj list" where
  "objects_of xs = List.map_filter (\<lambda>x. case x of JObj d \<Rightarrow> Some d | _ \<Rightarrow> None) xs"

text \<open>
  \<open>for ms in plan.get("milestones") or []\<close>: the dictionaries among the elements. A value that cannot be
  iterated raises.
\<close>

definition milestone_dicts :: "obj \<Rightarrow> obj list res" where
  "milestone_dicts plan =
     bindR (py_iter (py_or (dget plan ''milestones'' JNull) (JList []))) (\<lambda>xs. Inr (objects_of xs))"

text \<open>\<open>constraints[:8]\<close>: a list or a text can be sliced, a number or a dictionary raises.\<close>

definition first_eight :: "json \<Rightarrow> string list res" where
  "first_eight constraints =
     (case constraints of
        JList xs \<Rightarrow> Inr (map (\<lambda>x. ''- '' @ py_str x) (take 8 xs))
      | JStr s \<Rightarrow> Inr (map (\<lambda>c. ''- '' @ [c]) (take 8 s))
      | _ \<Rightarrow> Inl TypeError)"

definition format_plan_card_summary :: "obj \<Rightarrow> string res" where
  "format_plan_card_summary plan =
     bindR (milestone_dicts plan) (\<lambda>mss.
     let constraints = py_or (dget plan ''global_constraints'' JNull) (JList []);
         opening = [''**'' @ py_strip (text_or plan ''title'' ''Untitled plan'') @ ''**'', []]
     in bindR (if truthy constraints then first_eight constraints else Inr []) (\<lambda>cs.
        Inr (py_strip (py_join [nl]
          (opening @ concat (map card_lines mss)
           @ (if truthy constraints then [[], ''**Constraints**''] @ cs else []))))))"

definition milestone_payload :: "obj \<Rightarrow> json" where
  "milestone_payload ms =
     JObj [(''id'', JStr (text_or ms ''id'' [])), (''title'', JStr (text_or ms ''title'' [])),
           (''description'', JStr (take 400 (text_or ms ''description'' []))),
           (''status'', JStr (text_or ms ''status'' ''pending''))]"

definition plan_milestones_payload :: "obj \<Rightarrow> json list res" where
  "plan_milestones_payload plan = bindR (milestone_dicts plan) (\<lambda>mss. Inr (map milestone_payload mss))"

section \<open>Lemmas\<close>

lemma normalize_chat_mode_in [simp]: "normalize_chat_mode v dflt \<in> set chat_modes"
  by (simp add: normalize_chat_mode_def chat_modes_def Let_def)

lemma approval_phrase_short: "is_plan_approval_phrase m \<Longrightarrow> length (cleaned m) \<le> 14"
  by (auto simp: is_plan_approval_phrase_def approve_phrases_def)

text \<open>Only a stored plan with milestones waits for an approval, and settling its state ends the wait.\<close>

lemma awaiting_plan:
  assumes "plan_awaiting_approval plan"
  obtains d ms where "plan = JObj d" "dget d ''milestones'' JNull = JList ms" "ms \<noteq> []" "approval_of d \<notin> set settled_states"
  using assms by (auto simp: plan_awaiting_approval_def split: json.split_asm)

lemma settled_not_awaiting:
  "s \<in> set settled_states \<Longrightarrow> \<not> plan_awaiting_approval (JObj (AList.update ''approval_state'' (JStr s) d))"
proof -
  assume "s \<in> set settled_states"
  moreover have "\<forall>s\<in>set settled_states. py_lower (py_strip s) = s \<and> s \<noteq> []" by code_simp
  ultimately have "approval_of (AList.update ''approval_state'' (JStr s) d) = s"
    by (simp add: approval_of_def dget_def update_conv' py_or_def)
  then show ?thesis using \<open>s \<in> set settled_states\<close> by (auto simp: plan_awaiting_approval_def split: json.split)
qed

text \<open>\<open>I want to build a todo app\<close> approves nothing; punctuation and spaces do not matter.\<close>

lemma approval_examples:
  "is_plan_approval_phrase ''  Go   ahead!! ''" "\<not> is_plan_approval_phrase ''I want to build a todo app''"
  by code_simp+

end
