(* ===== verification/Summary.thy ===== *)
theory Summary
  imports Milestone ChatMode
begin

text \<open>
  The texts a run ends with: \<open>src/agents/mission_summary.py\<close>, and of \<open>src/main.py\<close> the summary of a review
  and the note on missing toolchains. The marks of the verdicts, the bullet and the long dash are written
  with ASCII characters, the one-character ellipsis as a full stop; the elapsed seconds are a text argument.
\<close>

section \<open>Errors\<close>

definition shorten :: "string \<Rightarrow> nat \<Rightarrow> string" where
  "shorten s limit =
     (let t = py_join '' '' (split_ws s) in if length t \<le> limit then t else take (limit - 1) t @ ''.'')"

text \<open>\<open>s.split(p, 1)[1]\<close> for a \<open>p\<close> that occurs in \<open>s\<close>, and \<open>s.removeprefix(p)\<close> for a prefix.\<close>

fun after_first :: "string \<Rightarrow> string \<Rightarrow> string" where
  "after_first p [] = []"
| "after_first p (c # cs) = (if starts_with p (c # cs) then drop (length p) (c # cs) else after_first p cs)"

definition last_actionable_error :: "string list \<Rightarrow> string" where
  "last_actionable_error error_log =
     (if error_log = [] then []
      else (let raw = last error_log; rest = (\<lambda>p. shorten (py_strip (drop (length p) raw)) 400)
            in if contains ''Guidance:'' raw then shorten (py_strip (after_first ''Guidance:'' raw)) 400
               else if starts_with ''REPLAN requested:'' raw then rest ''REPLAN requested:''
               else if starts_with ''Worker blocked:'' raw then rest ''Worker blocked:''
               else shorten raw 400))"

section \<open>The recap of a mission\<close>

definition icon_of :: "string \<Rightarrow> string" where
  "icon_of verdict =
     (case map_of [(''PASS'', ''+''), (''FAIL'', ''x''), (''REPLAN'', ''r''), (''BLOCKED'', ''o'')] verdict of
        Some i \<Rightarrow> i | None \<Rightarrow> ''?'')"

definition touched_files :: "handoff \<Rightarrow> string list res" where
  "touched_files h =
     bindR (py_iter (py_or (h_files h) (JList []))) (\<lambda>files. Inr (map py_str (filter truthy files)))"

definition stock_summaries :: "string list" where
  "stock_summaries = [''Exhausted retries'', ''Validator requested plan negotiation.'']"

definition handoff_lines :: "handoff \<Rightarrow> string list res" where
  "handoff_lines h =
     bindR (if truthy (h_summary h) then in_str_set (h_summary h) stock_summaries else Inr True) (\<lambda>stock.
     let detail = last_actionable_error (h_errors h)
     in Inr ((''['' @ icon_of (h_verdict h) @ ''] '' @ py_str (h_id h) @ '': '' @ py_str (h_title h) @ '' - '' @ h_verdict h)
          # (if stock then [] else [''    Worker: '' @ shorten (py_str (h_summary h)) 240])
          @ (if h_verdict h \<noteq> ''PASS'' \<and> detail \<noteq> [] then [''    Detail: '' @ detail] else [])))"

definition failure_reason :: "string \<Rightarrow> handoff list \<Rightarrow> string list \<Rightarrow> string" where
  "failure_reason status handoffs incomplete_milestone_ids =
     (if status = ''completed'' then []
      else if handoffs = [] then ''The mission ended before any milestone completed.''
      else
        (let h = last handoffs; name = ''Milestone '' @ py_str (h_id h) @ '' ('' @ py_str (h_title h) @ '')'';
             detail = last_actionable_error (h_errors h)
         in if h_verdict h = ''FAIL'' then py_strip (name @ '' failed after retries were exhausted. '' @ detail)
            else if h_verdict h = ''REPLAN'' then
              py_strip (name @ '' requested a plan change the runtime could not resolve. '' @ detail)
            else if h_verdict h = ''BLOCKED'' then name @ '' was blocked: '' @ shorten (py_str (h_summary h)) 320
            else if incomplete_milestone_ids \<noteq> [] then
              ''The mission halted with unfinished milestones: '' @ py_join '', '' incomplete_milestone_ids @ ''.''
            else if status = ''partial'' then ''Some milestones passed, but the mission did not finish the full plan.''
            else ''The mission did not complete successfully.''))"

record recap =
  rc_text :: string
  rc_reason :: string
  rc_files :: "string list"

definition build_mission_summary ::
    "string \<Rightarrow> string \<Rightarrow> int \<Rightarrow> int \<Rightarrow> string \<Rightarrow> handoff list \<Rightarrow> string list \<Rightarrow> recap res" where
  "build_mission_summary title status passed count seconds handoffs incomplete_milestone_ids =
     bindR (mapR touched_files handoffs) (\<lambda>fss.
     bindR (mapR handoff_lines handoffs) (\<lambda>lss.
     let all_files = py_sorted_set (concat fss); milestone_lines = concat lss; dot = '' '' @ CHR 0xB7 # '' '';
         why = failure_reason status handoffs incomplete_milestone_ids
     in Inr \<lparr>rc_text = py_join [nl]
               ([title, ''Status: '' @ status @ dot @ int_str passed @ ''/'' @ int_str count @ '' milestones passed'' @ dot
                        @ seconds @ ''s'']
                @ (if all_files = [] then [] else [[], ''Files touched:''] @ map (\<lambda>p. ''  * '' @ p) all_files)
                @ (if milestone_lines = [] then [] else [[], ''What happened:''] @ map (\<lambda>l. ''  '' @ l) milestone_lines)
                @ (if why \<noteq> [] then [[], ''Why the mission stopped:'', ''  '' @ why]
                   else if status = ''completed'' then [[], ''Outcome:'', ''  All milestones passed validation.''] else [])),
             rc_reason = why, rc_files = all_files\<rparr>))"

section \<open>The summary of a review\<close>

text \<open>The report is a dictionary. A list of findings may hold anything; other values are iterated or raise.\<close>

definition finding_line :: "obj \<Rightarrow> string" where
  "finding_line f =
     ''- ['' @ py_upper (get_str f ''severity'' ''risk'') @ ''] '' @ get_str f ''title'' ''Untitled finding'' @ '': ''
     @ get_str f ''issue'' []"

definition verification_lines :: "obj \<Rightarrow> string list" where
  "verification_lines v =
     (let error = dget v ''error'' JNull
      in if truthy error then [[], ''Verification unavailable: '' @ py_str error]
         else [[], ''Post-fix review:'', ''- '' @ get_str v ''verdict'' ''unknown'' @ '': '' @ get_str v ''summary'' []])"

definition format_review_summary :: "obj \<Rightarrow> handoff option \<Rightarrow> obj option \<Rightarrow> string res" where
  "format_review_summary rep handoff verification =
     (let findings = dget rep ''findings'' (JList [])
      in bindR (if truthy findings then py_iter findings else Inr []) (\<lambda>fs.
         Inr (py_join [nl]
           ([''Code review'', ''Verdict: '' @ get_str rep ''verdict'' ''unknown'', get_strip rep ''summary'' []]
            @ (if truthy findings then [[], ''Findings:''] @ map finding_line (objects_of fs) else [])
            @ (case handoff of
                 None \<Rightarrow> []
               | Some h \<Rightarrow> [[], ''Fix outcome:'', ''- '' @ h_verdict h @ '': '' @ py_str (h_summary h)])
            @ (case verification of None \<Rightarrow> [] | Some v \<Rightarrow> verification_lines v)))))"

section \<open>Missing toolchains\<close>

definition infra_gap_markers :: "string list" where
  "infra_gap_markers =
     [''no module named pytest'', ''pytest: command not found'', ''no module named '', ''pip install'',
      ''connection refused'', ''network is unreachable'', ''temporary failure in name resolution'', ''environment prospect'']"

definition infra_gap_note :: "string list \<Rightarrow> string" where
  "infra_gap_note error_tail =
     (let haystack = py_lower (py_join [nl] error_tail)
      in case find (\<lambda>m. contains m haystack) infra_gap_markers of
           None \<Rightarrow> []
         | Some m \<Rightarrow>
             ''Validator failure looks like a missing toolchain/dependency (matched '' @ repr_str m
             @ ''), not a code defect. Prefer UNVERIFIED over mission escalation.'')"

section \<open>Lemmas\<close>

lemma shorten_length: "0 < limit \<Longrightarrow> length (shorten s limit) \<le> limit"
  by (auto simp: shorten_def Let_def min_def)

lemma last_actionable_error_length: "length (last_actionable_error es) \<le> 400"
  by (simp add: last_actionable_error_def Let_def shorten_length)

lemma py_strip_prefixed:
  assumes "\<not> is_space c"
  shows "py_strip (c # s) \<noteq> []"
  using assms by (simp add: is_space_strip_Nil)

text \<open>A reason is given exactly when the mission did not complete.\<close>

lemma failure_reason_given: "failure_reason status handoffs ids = [] \<longleftrightarrow> status = ''completed''"
proof -
  have m: "py_strip ((''Milestone '' @ a) @ b) \<noteq> []" for a b
    using py_strip_prefixed [of "CHR ''M''"] by (simp add: is_space_code)
  show ?thesis using m by (simp add: failure_reason_def Let_def)
qed

lemma mapR_concat:
  "mapR f xs = Inr yss \<Longrightarrow> set (concat yss) = {y. \<exists>x\<in>set xs. \<exists>ys. f x = Inr ys \<and> y \<in> set ys}"
proof (induction xs arbitrary: yss)
  case (Cons x xs)
  then obtain ys zss where "f x = Inr ys" "mapR f xs = Inr zss" "yss = ys # zss" by auto
  then show ?case using Cons.IH [of zss] by (simp only: concat.simps set_append) auto
qed simp

lemma build_mission_summary_Inr:
  assumes "build_mission_summary title status passed count seconds handoffs ids = Inr r"
  shows "rc_reason r = failure_reason status handoffs ids"
    and "f \<in> set (rc_files r) \<longleftrightarrow> (\<exists>h\<in>set handoffs. \<exists>fs. touched_files h = Inr fs \<and> f \<in> set fs)"
proof -
  obtain fss where fss: "mapR touched_files handoffs = Inr fss" and r: "rc_reason r = failure_reason status handoffs ids"
      "rc_files r = py_sorted_set (concat fss)"
    using assms by (auto simp: build_mission_summary_def Let_def)
  show "rc_reason r = failure_reason status handoffs ids" by (rule r(1))
  have "set (concat fss) = {f. \<exists>h\<in>set handoffs. \<exists>fs. touched_files h = Inr fs \<and> f \<in> set fs}"
    using fss by (rule mapR_concat)
  then show "f \<in> set (rc_files r) \<longleftrightarrow> (\<exists>h\<in>set handoffs. \<exists>fs. touched_files h = Inr fs \<and> f \<in> set fs)"
    by (simp add: r(2))
qed

end
