(* ===== verification/FixVerifier.thy ===== *)
theory FixVerifier
  imports Trace Verdict Contracts
begin

text \<open>
  \<open>src/agents/fix_verifier.py\<close>: the check of a bounded fix. Cheap checks of the touched Python files, the
  diff and the criteria go into one prompt; the answer of the model, normalised, is the verification. The
  tools, the diff and the model are a record; a model that raises gives the text of its exception.
\<close>

record fixer =
  fx_dispatch :: "string \<Rightarrow> obj \<Rightarrow> obj"
  fx_diff :: "obj option"
  fx_llm :: "string \<Rightarrow> string + string"
  fx_manual :: string
  fx_reader :: reader
  fx_repair :: "string \<Rightarrow> json option"
  fx_emits :: bool

section \<open>The deterministic checks\<close>

text \<open>\<open>str(result.get(k, ""))[:800]\<close> and the other fields of a tool result that are kept.\<close>

definition compact_result :: "obj \<Rightarrow> obj" where
  "compact_result result =
     [(''success'', dget result ''success'' (JBool False)), (''returncode'', dget result ''returncode'' JNull),
      (''stdout'', JStr (take 800 (get_str result ''stdout'' []))), (''stderr'', JStr (take 800 (get_str result ''stderr'' []))),
      (''policy_denied'', dget result ''policy_denied'' (JBool False))]"

definition file_checks :: "fixer \<Rightarrow> json \<Rightarrow> json list res" where
  "file_checks fx path =
     (case path of
        JStr p \<Rightarrow>
          Inr (if \<not> ends_with ''.py'' p then []
               else [JObj ((''check'', JStr (''py_compile '' @ p)) # compact_result
                       (fx_dispatch fx ''run_shellscript''
                          [(''script'', JStr (''python -m py_compile '' @ p)), (''profile'', JStr ''fixverify'')])),
                     JObj ((''check'', JStr (''lint '' @ p)) # compact_result
                       (fx_dispatch fx ''run_linter'' [(''target_path'', JStr p)]))])
      | _ \<Rightarrow> Inl AttributeError)"

definition deterministic_checks :: "fixer \<Rightarrow> json list \<Rightarrow> obj res" where
  "deterministic_checks fx target_files =
     bindR (mapR (file_checks fx) (take 6 target_files)) (\<lambda>css. Inr [(''checks'', JList (concat css))])"

definition bounded_diff :: "fixer \<Rightarrow> string" where
  "bounded_diff fx =
     (case fx_diff fx of
        None \<Rightarrow> []
      | Some result \<Rightarrow>
          (let t = py_str (py_or (dget result ''diff'' (JStr [])) (JStr []))
           in if \<not> truthy (dget result ''success'' JNull) \<or> py_strip t = [] \<or> starts_with ''(no'' t then [] else take 6000 t))"

section \<open>The criteria\<close>

text \<open>The criteria of the confirmed defects of the review, or else those of the packet.\<close>

definition finding_criteria :: "json list \<Rightarrow> json list res" where
  "finding_criteria acts =
     bindR (mapR (\<lambda>f. bindR (as_obj f) (\<lambda>d. py_iter (py_or (dget d ''fix_criteria'' (JList [])) (JList [])))) acts)
       (\<lambda>css. Inr (concat css))"

definition fix_criteria :: "obj \<Rightarrow> obj \<Rightarrow> json list res" where
  "fix_criteria review_report hotfix_packet =
     bindR (py_iter (dget review_report ''findings'' (JList []))) (\<lambda>findings.
     bindR (filterR brief_actionable findings) (\<lambda>acts.
     bindR (finding_criteria acts) (\<lambda>criteria.
       if criteria \<noteq> [] then Inr criteria
       else bindR (py_iter (dget hotfix_packet ''acceptance_criteria'' (JList []))) (\<lambda>cs.
              Inr (map (JStr \<circ> py_str) (filter (\<lambda>c. py_strip (py_str c) \<noteq> []) cs))))))"

section \<open>The verification\<close>

definition fenced :: "string \<Rightarrow> string \<Rightarrow> string" where
  "fenced lang body = ''```'' @ lang @ nl # body @ nl # ''```''"

definition fix_prompt :: "fixer \<Rightarrow> json list \<Rightarrow> json list \<Rightarrow> json \<Rightarrow> obj \<Rightarrow> string" where
  "fix_prompt fx criteria target_files modified deterministic =
     fx_manual fx @ [nl, nl] @ ''---'' @ [nl, nl] @ ''## Fix criteria'' @ nl
     # lines_text (map (\<lambda>c. ''- '' @ py_str c) (take 12 criteria))
     @ nl # ''## Target files'' @ nl # py_str (JList target_files) @ [nl, nl]
     @ ''## Files modified'' @ nl # py_str modified @ [nl, nl]
     @ ''## Deterministic checks'' @ nl # fenced ''json'' (take 5000 (json_dumps (Some 2) (JObj deterministic))) @ [nl, nl]
     @ ''## Diff'' @ nl # fenced ''diff'' (take 6000 (bounded_diff fx)) @ [nl, nl]
     @ ''Emit the verification JSON now.''"

definition verifier_failed :: "string \<Rightarrow> obj" where
  "verifier_failed error =
     AList.update ''missing_checks'' (jstrs [''verifier LLM unavailable''])
       (AList.update ''summary'' (JStr (''Verifier LLM failed ('' @ error @ ''); treating as unverified.''))
         (fix_verification_to_dict (normalize_fix_verification JNull)))"

definition judged_fix :: "fixer \<Rightarrow> string \<Rightarrow> obj" where
  "judged_fix fx prompt =
     (case fx_llm fx prompt of
        Inl error \<Rightarrow> verifier_failed error
      | Inr reply \<Rightarrow>
          fix_verification_to_dict (normalize_fix_verification
            (opt_json (parse_json_from_text (fx_reader fx) (fx_repair fx) reply))))"

text \<open>The three dictionaries may be None in the code, which counts as empty.\<close>

definition run_fix_verification :: "fixer \<Rightarrow> obj \<Rightarrow> obj \<Rightarrow> obj \<Rightarrow> obj traced" where
  "run_fix_verification fx review_report hotfix_packet hotfix_handoff =
     (let packet_id = JStr (get_str hotfix_packet ''id'' [])
      in bindT (emitT (fx_emits fx) [(''verify_hotfix.started'', [(''milestone_id'', packet_id)])]) (\<lambda>_.
         bindT (liftT (py_iter (dget hotfix_packet ''target_files'' (JList [])))) (\<lambda>target_files.
         bindT (liftT (deterministic_checks fx target_files)) (\<lambda>deterministic.
         bindT (liftT (fix_criteria review_report hotfix_packet)) (\<lambda>criteria.
         let verdict = AList.update ''deterministic_checks'' (JObj deterministic)
               (judged_fix fx (fix_prompt fx criteria target_files
                  (dget hotfix_handoff ''files_modified'' (JList [])) deterministic))
         in bindT (emitT (fx_emits fx)
                [(''verify_hotfix.completed'',
                  [(''milestone_id'', packet_id), (''verdict'', dget verdict ''verdict'' JNull),
                   (''summary'', JStr (take 500 (get_str verdict ''summary'' [])))])]) (\<lambda>_.
            pureT verdict))))))"

section \<open>What a verification looks like\<close>

definition verification_ok :: "obj \<Rightarrow> bool" where
  "verification_ok v \<longleftrightarrow>
     (\<exists>verdict summary missing why. verdict \<in> set fix_verdicts \<and> dget v ''verdict'' (JStr ''UNVERIFIED'') = JStr verdict \<and>
        dget v ''summary'' (JStr []) = JStr summary \<and> dget v ''missing_checks'' (JList []) = jstrs missing \<and>
        dget v ''escalation_reason'' JNull = JStr why)"

lemma to_dict_ok: "verification_ok (fix_verification_to_dict (normalize_fix_verification payload))"
  by (auto simp: verification_ok_def fix_verification_to_dict_def dget_def normalize_fix_verification_def one_of_def
      split: json.split)

lemma verification_ok_update: "verification_ok v \<Longrightarrow> verification_ok (AList.update ''deterministic_checks'' x v)"
  by (simp add: verification_ok_def)

lemma verifier_failed_ok: "verification_ok (verifier_failed e)"
  by (auto simp: verification_ok_def verifier_failed_def fix_verification_to_dict_def dget_def normalize_fix_verification_def)

lemma run_fix_verification_ok:
  assumes "result_of (run_fix_verification fx report packet handoff) = Inr v"
  shows "verification_ok v"
  using assms
  by (auto simp: run_fix_verification_def Let_def judged_fix_def to_dict_ok verifier_failed_ok verification_ok_update split: sum.split)

section \<open>Property\<close>

text \<open>
  The deterministic checks decide nothing: whatever the compiler, the linter and the diff
  say, the verdict on a fix is the one the model answers, so a fix whose files do not compile is VERIFIED
  by a model that says so. Only an answer that is missing or unreadable counts as UNVERIFIED.
\<close>

lemma fix_checks_decide_nothing:
  assumes "\<forall>prompt. fx_llm fx prompt = answer"
    and "result_of (run_fix_verification fx report packet handoff) = Inr v"
  shows "dget v ''verdict'' JNull =
    (case answer of
       Inl _ \<Rightarrow> JStr ''UNVERIFIED''
     | Inr reply \<Rightarrow>
         JStr (fv_verdict (normalize_fix_verification
           (opt_json (parse_json_from_text (fx_reader fx) (fx_repair fx) reply)))))"
  using assms
  by (auto simp: run_fix_verification_def Let_def judged_fix_def fix_verification_to_dict_def verifier_failed_def
      normalize_fix_verification_def split: sum.split) (simp_all add: dget_def)

definition broken_fixer :: fixer where
  "broken_fixer =
     \<lparr>fx_dispatch = (\<lambda>tool args. [(''success'', JBool False), (''stderr'', JStr ''SyntaxError'')]), fx_diff = None,
      fx_llm = (\<lambda>prompt. Inr (CHR ''{'' # dquote # ''verdict'' @ dquote # '':'' @ dquote # ''verified'' @ dquote # ''}'')),
      fx_manual = [], fx_reader = \<lparr>rd_float = (\<lambda>s. s), rd_code = (\<lambda>n. [])\<rparr>, fx_repair = (\<lambda>t. None), fx_emits = True\<rparr>"

end
