(* ===== verification/Effects.thy ===== *)
theory Effects
  imports Trace
begin

text \<open>
  Code that changes a state and may raise: actions on a state \<open>'s\<close>, with sequencing, \<open>try\<close> and
  conditions, and two calculi for them. \<open>wp m Q s\<close> computes the condition on \<open>s\<close> under which \<open>m\<close> ends
  with \<open>Q\<close>, exceptions included. The locale \<open>frame\<close> carries a relation between states through every
  combinator.
\<close>

section \<open>Actions\<close>

type_synonym ('s, 'a) act = "'s \<Rightarrow> 'a res \<times> 's"

definition returnA :: "'a \<Rightarrow> ('s, 'a) act" where
  "returnA x s = (Inr x, s)"

definition raiseA :: "pyexn \<Rightarrow> ('s, 'a) act" where
  "raiseA e s = (Inl e, s)"

definition liftA :: "'a res \<Rightarrow> ('s, 'a) act" where
  "liftA r s = (r, s)"

definition bindA :: "('s, 'a) act \<Rightarrow> ('a \<Rightarrow> ('s, 'b) act) \<Rightarrow> ('s, 'b) act" where
  "bindA m f s = (case m s of (Inl e, s1) \<Rightarrow> (Inl e, s1) | (Inr x, s1) \<Rightarrow> f x s1)"

definition getA :: "('s \<Rightarrow> 'a) \<Rightarrow> ('s, 'a) act" where
  "getA f s = (Inr (f s), s)"

definition updA :: "('s \<Rightarrow> 's) \<Rightarrow> ('s, unit) act" where
  "updA f s = (Inr (), f s)"

text \<open>\<open>try: m except Exception as e: h e\<close>, and \<open>try: m finally: c\<close> for a \<open>c\<close> that cannot raise.\<close>

definition tryA :: "('s, 'a) act \<Rightarrow> (pyexn \<Rightarrow> ('s, 'a) act) \<Rightarrow> ('s, 'a) act" where
  "tryA m h s = (case m s of (Inl e, s1) \<Rightarrow> h e s1 | (Inr x, s1) \<Rightarrow> (Inr x, s1))"

definition finallyA :: "('s, 'a) act \<Rightarrow> ('s \<Rightarrow> 's) \<Rightarrow> ('s, 'a) act" where
  "finallyA m c s = (case m s of (r, s1) \<Rightarrow> (r, c s1))"

definition whenA :: "bool \<Rightarrow> ('s, unit) act \<Rightarrow> ('s, unit) act" where
  "whenA b m = (if b then m else returnA ())"

section \<open>Preconditions\<close>

definition wp :: "('s, 'a) act \<Rightarrow> ('a res \<Rightarrow> 's \<Rightarrow> bool) \<Rightarrow> 's \<Rightarrow> bool" where
  "wp m Q s = (case m s of (r, s1) \<Rightarrow> Q r s1)"

named_theorems wp_simps \<open>preconditions of the combinators\<close>

lemma wp_return [wp_simps]: "wp (returnA x) Q s = Q (Inr x) s"
  by (simp add: wp_def returnA_def)

lemma wp_raise [wp_simps]: "wp (raiseA e) Q s = Q (Inl e) s"
  by (simp add: wp_def raiseA_def)

lemma wp_lift [wp_simps]: "wp (liftA r) Q s = Q r s"
  by (simp add: wp_def liftA_def)

lemma wp_get [wp_simps]: "wp (getA f) Q s = Q (Inr (f s)) s"
  by (simp add: wp_def getA_def)

lemma wp_upd [wp_simps]: "wp (updA f) Q s = Q (Inr ()) (f s)"
  by (simp add: wp_def updA_def)

lemma wp_bind [wp_simps]:
  "wp (bindA m f) Q s = wp m (\<lambda>r s1. case r of Inl e \<Rightarrow> Q (Inl e) s1 | Inr x \<Rightarrow> wp (f x) Q s1) s"
  by (auto simp: wp_def bindA_def split: prod.split sum.split)

lemma wp_try [wp_simps]:
  "wp (tryA m h) Q s = wp m (\<lambda>r s1. case r of Inl e \<Rightarrow> wp (h e) Q s1 | Inr x \<Rightarrow> Q (Inr x) s1) s"
  by (auto simp: wp_def tryA_def split: prod.split sum.split)

lemma wp_finally [wp_simps]: "wp (finallyA m c) Q s = wp m (\<lambda>r s1. Q r (c s1)) s"
  by (simp add: wp_def finallyA_def split: prod.split)

lemma wp_if [wp_simps]: "wp (if b then m else n) Q s = (if b then wp m Q s else wp n Q s)"
  by simp

lemma wp_when [wp_simps]: "wp (whenA b m) Q s = (if b then wp m Q s else Q (Inr ()) s)"
  by (simp add: whenA_def wp_simps)

lemma wp_mono: "wp m Q s \<Longrightarrow> (\<And>r t. Q r t \<Longrightarrow> Q' r t) \<Longrightarrow> wp m Q' s"
  by (auto simp: wp_def)

text \<open>The sequencing rule with a condition in the middle.\<close>

lemma wp_bindI:
  assumes "wp m P s" and "\<And>e t. P (Inl e) t \<Longrightarrow> Q (Inl e) t" and "\<And>x t. P (Inr x) t \<Longrightarrow> wp (f x) Q t"
  shows "wp (bindA m f) Q s"
  unfolding wp_bind by (rule wp_mono [OF assms(1)]) (auto simp: assms(2,3) split: sum.split)

lemma wp_tryI:
  assumes "wp m P s" and "\<And>x t. P (Inr x) t \<Longrightarrow> Q (Inr x) t" and "\<And>e t. P (Inl e) t \<Longrightarrow> wp (h e) Q t"
  shows "wp (tryA m h) Q s"
  unfolding wp_try by (rule wp_mono [OF assms(1)]) (auto simp: assms(2,3) split: sum.split)

lemma wp_conj: "wp m Q s \<Longrightarrow> wp m Q' s \<Longrightarrow> wp m (\<lambda>r t. Q r t \<and> Q' r t) s"
  by (auto simp: wp_def)

lemma wpD: "wp m Q s \<Longrightarrow> m s = (r, t) \<Longrightarrow> Q r t"
  by (simp add: wp_def)

lemma wpI: "(\<And>r t. m s = (r, t) \<Longrightarrow> Q r t) \<Longrightarrow> wp m Q s"
  by (auto simp: wp_def)

lemma wp_true [simp]: "wp m (\<lambda>r t. True) s"
  by (simp add: wp_def)

section \<open>Frames\<close>

text \<open>A relation between the states before and after, kept by whatever is built from parts that keep it.\<close>

locale frame =
  fixes R :: "'s \<Rightarrow> 's \<Rightarrow> bool"
  assumes R_refl [simp]: "R s s"
    and R_trans: "R s t \<Longrightarrow> R t u \<Longrightarrow> R s u"
begin

definition framed :: "('s, 'a) act \<Rightarrow> bool" where
  "framed m \<longleftrightarrow> (\<forall>s. R s (snd (m s)))"

lemma framedI: "(\<And>s. R s (snd (m s))) \<Longrightarrow> framed m"
  by (simp add: framed_def)

lemma framedD: "framed m \<Longrightarrow> m s = (r, t) \<Longrightarrow> R s t"
  by (metis framed_def snd_conv)

lemma framed_return: "framed (returnA x)"
  by (simp add: framed_def returnA_def)

lemma framed_raise: "framed (raiseA e)"
  by (simp add: framed_def raiseA_def)

lemma framed_lift: "framed (liftA r)"
  by (simp add: framed_def liftA_def)

lemma framed_get: "framed (getA f)"
  by (simp add: framed_def getA_def)

lemma framed_upd: "(\<And>s. R s (f s)) \<Longrightarrow> framed (updA f)"
  by (simp add: framed_def updA_def)

lemma framed_bind:
  assumes "framed m" and "\<And>x. framed (f x)"
  shows "framed (bindA m f)"
proof (rule framedI)
  fix s
  obtain r t where m: "m s = (r, t)" by fastforce
  have st: "R s t" using framedD [OF assms(1) m] .
  have "R s (snd (f x t))" for x using st assms(2) [of x] R_trans by (auto simp: framed_def)
  then show "R s (snd (bindA m f s))" using m st by (cases r) (simp_all add: bindA_def)
qed

lemma framed_try:
  assumes "framed m" and "\<And>e. framed (h e)"
  shows "framed (tryA m h)"
proof (rule framedI)
  fix s
  obtain r t where m: "m s = (r, t)" by fastforce
  have st: "R s t" using framedD [OF assms(1) m] .
  have "R s (snd (h e t))" for e using st assms(2) [of e] R_trans by (auto simp: framed_def)
  then show "R s (snd (tryA m h s))" using m st by (cases r) (simp_all add: tryA_def)
qed

lemma framed_if: "framed m \<Longrightarrow> framed n \<Longrightarrow> framed (if b then m else n)"
  by simp

lemma framed_when: "framed m \<Longrightarrow> framed (whenA b m)"
  by (simp add: whenA_def framed_return)

lemma framed_option: "framed m \<Longrightarrow> (\<And>x. framed (f x)) \<Longrightarrow> framed (case p of None \<Rightarrow> m | Some x \<Rightarrow> f x)"
  by (cases p) simp_all

lemma framed_sum: "(\<And>x. framed (g x)) \<Longrightarrow> (\<And>x. framed (f x)) \<Longrightarrow> framed (case p of Inl x \<Rightarrow> g x | Inr x \<Rightarrow> f x)"
  by (cases p) simp_all

lemma framed_prod: "(\<And>x y. framed (f x y)) \<Longrightarrow> framed (case p of (x, y) \<Rightarrow> f x y)"
  by (cases p) simp

lemma framed_Let: "framed (f x) \<Longrightarrow> framed (let y = x in f y)"
  by (simp add: Let_def)

lemmas framed_rules =
  framed_return framed_raise framed_lift framed_get framed_bind framed_try framed_if framed_when framed_option
  framed_sum framed_prod framed_Let

end

end
