(* ===== verification/WorkspaceFiles.thy ===== *)
theory WorkspaceFiles
  imports Paths
begin

text \<open>
  The two questions the program asks about a whole workspace: does it hold files of the user
  (\<open>_workspace_has_user_files\<close> of \<open>src/main.py\<close>), does it hold code worth exploring
  (\<open>_workspace_has_meaningful_code\<close> of \<open>src/agents/orchestrator_explore.py\<close>). \<open>rglob("*")\<close> is a list of
  the paths of the regular files under the root, each with the components of the root in front.
\<close>

definition skip_dirs :: "string list" where
  "skip_dirs = [''.git'', ''.pytest_cache'', ''.venv'', ''__pycache__'', ''node_modules'', ''target'']"

definition bootstrap_names :: "string list" where
  "bootstrap_names = [''.gitkeep'', ''pytest.ini'']"

definition user_file :: "ppath \<Rightarrow> bool" where
  "user_file p \<longleftrightarrow> path_name p \<notin> set bootstrap_names \<and> \<not> (\<exists>part\<in>set (p_parts p). part \<in> set skip_dirs)"

definition workspace_has_user_files :: "ppath list \<Rightarrow> bool" where
  "workspace_has_user_files files \<longleftrightarrow> (\<exists>p\<in>set files. user_file p)"

definition text_suffixes :: "string list" where
  "text_suffixes =
     [''.c'', ''.css'', ''.csv'', ''.go'', ''.html'', ''.ini'', ''.java'', ''.js'', ''.json'', ''.jsx'', ''.md'', ''.py'',
      ''.rs'', ''.sh'', ''.sql'', ''.toml'', ''.ts'', ''.tsx'', ''.txt'', ''.xml'', ''.yaml'', ''.yml'']"

definition meaningful_file :: "ppath \<Rightarrow> bool" where
  "meaningful_file p \<longleftrightarrow> user_file p \<and> (py_lower (path_suffix p) \<in> set text_suffixes \<or> path_suffix p = [])"

text \<open>The count stops at two.\<close>

definition workspace_has_meaningful_code :: "ppath list \<Rightarrow> bool" where
  "workspace_has_meaningful_code files \<longleftrightarrow> 2 \<le> length (filter meaningful_file files)"

text \<open>
  Whether to explore and how; \<open>None\<close> is a workspace that is not given or does not exist.
\<close>

definition should_explore :: "bool \<Rightarrow> ppath list option \<Rightarrow> string \<Rightarrow> bool \<times> string" where
  "should_explore enabled files run_kind =
     (case files of
        None \<Rightarrow> (False, ''none'')
      | Some fs \<Rightarrow>
          if \<not> enabled then (False, ''none'')
          else if run_kind = ''repair'' then (True, ''full'')
          else if run_kind = ''new'' \<and> workspace_has_meaningful_code fs then (True, ''full'')
          else if run_kind = ''resume'' \<and> workspace_has_meaningful_code fs then (True, ''light'')
          else (False, ''none''))"

definition explore_budget :: "int \<Rightarrow> int \<Rightarrow> string \<Rightarrow> int" where
  "explore_budget light full mode = (if mode = ''light'' then light else if mode = ''full'' then full else 0)"

text \<open>
  The components of the root count: below a directory called \<open>target\<close>, \<open>.venv\<close> or the like every
  workspace looks empty, whatever it holds, and is planned without looking at it.
\<close>

lemma skipped_root_looks_empty:
  assumes "part \<in> set (p_parts root)" and "part \<in> set skip_dirs" and "\<forall>p\<in>set files. inside root p"
    and "kind \<noteq> ''repair''"
  shows "\<not> workspace_has_user_files files \<and> should_explore enabled (Some files) kind = (False, ''none'')"
proof -
  have "part \<in> set (p_parts p)" if "p \<in> set files" for p
    using assms(1,3) that by (auto simp: inside_iff prefix_def)
  then have "\<not> user_file p" if "p \<in> set files" for p using assms(2) that by (auto simp: user_file_def)
  then show ?thesis using assms(4)
    by (auto simp: workspace_has_user_files_def should_explore_def workspace_has_meaningful_code_def meaningful_file_def)
qed

end
