(* ===== verification/Orchestrator.thy ===== *)
theory Orchestrator
  imports Effects PlanOps PlanLint AgentText WorkspaceFiles Contracts
begin

text \<open>
  \<open>src/agents/orchestrator.py\<close>: a plan from a request, and the patches of a plan - a replan, the repair
  of lint issues, the wish of a user. The model answers a prompt in a world \<open>'w\<close>; its answer is parsed,
  checked, and asked for again at most twice. A plan file is the JSON value it parses to, or None when it
  is absent, empty or corrupt. A file that cannot be written raises and stays as it is.
\<close>

section \<open>What the orchestrator works on\<close>

record 'w desk =
  dk_plan :: "json option"
  dk_history :: "(string \<times> json) list"
  dk_events :: "event list"
  dk_world :: 'w

text \<open>What an exploration of the workspace is given.\<close>

record exploration =
  ex_request :: string
  ex_kind :: string
  ex_parent :: "string option"
  ex_previous :: obj
  ex_orientation :: string
  ex_triage :: obj
  ex_mode :: string
  ex_preference :: string

record 'w planner =
  pl_llm :: "string \<Rightarrow> 'w \<Rightarrow> string res \<times> 'w"
  pl_explore :: "exploration \<Rightarrow> 'w \<Rightarrow> obj res \<times> 'w"
  pl_orient :: "string \<Rightarrow> obj \<Rightarrow> 'w \<Rightarrow> string res"
  pl_enabled :: bool
  pl_files :: "'w \<Rightarrow> ppath list option"
  pl_writable :: "'w \<Rightarrow> bool"
  pl_manual :: string
  pl_reader :: reader
  pl_repair :: "string \<Rightarrow> json option"
  pl_sha :: "string \<Rightarrow> string"
  pl_hex :: "nat \<Rightarrow> 'w \<Rightarrow> string"
  pl_clock :: string
  pl_emits :: bool

type_synonym ('w, 'z, 'a) desk_act = "(('w, 'z) desk_scheme, 'a) act"

definition on_world :: "('w \<Rightarrow> 'a res \<times> 'w) \<Rightarrow> ('w, 'z, 'a) desk_act" where
  "on_world f s = (case f (dk_world s) of (r, w) \<Rightarrow> (r, s\<lparr>dk_world := w\<rparr>))"

definition emit :: "bool \<Rightarrow> string \<Rightarrow> obj \<Rightarrow> ('w, 'z, unit) desk_act" where
  "emit on name details = whenA on (updA (\<lambda>s. s\<lparr>dk_events := dk_events s @ [(name, details)]\<rparr>))"

definition save_plan :: "'w planner \<Rightarrow> obj \<Rightarrow> ('w, 'z, unit) desk_act" where
  "save_plan pl plan =
     bindA (getA (\<lambda>s. pl_writable pl (dk_world s))) (\<lambda>ok.
       if ok then updA (\<lambda>s. s\<lparr>dk_plan := Some (JObj plan)\<rparr>) else raiseA OSError)"

section \<open>A JSON answer with corrections\<close>

definition json_attempts :: nat where "json_attempts = 3"

definition correction_prompt :: "string \<Rightarrow> string \<Rightarrow> string \<Rightarrow> string" where
  "correction_prompt initial last_error reply =
     initial @ [nl, nl] @ ''## CORRECTION REQUIRED'' @ nl # ''Your previous response was rejected: '' @ last_error @ ''.''
     @ nl # ''Previous response (truncated):'' @ nl # take 1500 reply @ [nl, nl]
     @ ''Output ONLY a single valid JSON object that fixes this.''"

text \<open>
  \<open>check\<close> is the \<open>validate\<close> callback: a message for the model, or what is accepted (for a patch, the patched
  plan the code keeps in \<open>holder\<close>).
\<close>

type_synonym 'b check = "obj \<Rightarrow> (string + 'b) res"

fun correcting :: "'w planner \<Rightarrow> 'b check \<Rightarrow> string \<Rightarrow> string \<Rightarrow> nat \<Rightarrow> string \<Rightarrow> string \<Rightarrow> ('w, 'z, 'b) desk_act" where
  "correcting pl check span initial 0 prompt last_error =
     raiseA (RuntimeError (''Orchestrator produced invalid JSON after '' @ nat_digits json_attempts @ '' attempts (''
       @ span @ ''): '' @ last_error))"
| "correcting pl check span initial (Suc k) prompt last_error =
     bindA (on_world (pl_llm pl prompt)) (\<lambda>reply.
       let again = (\<lambda>e. correcting pl check span initial k (correction_prompt initial e reply) e)
       in case parse_json_from_text (pl_reader pl) (pl_repair pl) reply of
            None \<Rightarrow> again ''output was not a parseable JSON object''
          | Some parsed \<Rightarrow>
              bindA (liftA (check parsed)) (\<lambda>verdict. case verdict of Inl e \<Rightarrow> again e | Inr x \<Rightarrow> returnA x))"

definition call_json_with_correction :: "'w planner \<Rightarrow> 'b check \<Rightarrow> string \<Rightarrow> string \<Rightarrow> ('w, 'z, 'b) desk_act" where
  "call_json_with_correction pl check span initial = correcting pl check span initial json_attempts initial ''unknown''"

section \<open>A new plan\<close>

definition preference_section :: "string \<Rightarrow> string" where
  "preference_section preference_brief =
     (let t = py_strip preference_brief
      in if t = [] then []
         else ''## User Preferences (authoritative - captured in Ask mode)'' @ nl # t @ [nl, nl]
              @ ''Treat these as established product constraints. Do not re-ask them.'' @ [nl, nl])"

definition brief_section :: "obj \<Rightarrow> string" where
  "brief_section triage =
     (let brief = dget triage ''escalation_brief_text'' JNull
      in if truthy brief
         then ''## Escalation Brief (authoritative - verified earlier this run)'' @ nl # py_str brief @ [nl, nl]
              @ ''Treat the brief as established fact. Do not re-derive its findings; plan the remaining work.'' @ [nl, nl]
         else [])"

definition triage_section :: "nat \<Rightarrow> obj \<Rightarrow> string" where
  "triage_section limit triage =
     (if triage = [] then []
      else brief_section triage @ ''## Read-only Triage Report'' @ nl # ''```json'' @ nl
           # take limit (json_dumps (Some 2) (JObj triage)) @ nl # ''```'' @ [nl, nl])"

definition shown_parent :: "string option \<Rightarrow> string" where
  "shown_parent parent = (case parent of Some (c # cs) \<Rightarrow> c # cs | _ \<Rightarrow> ''(none)'')"

definition plan_prompt :: "'w planner \<Rightarrow> exploration \<Rightarrow> string" where
  "plan_prompt pl ex =
     pl_manual pl @ [nl, nl] @ ''---'' @ [nl, nl] @ ''## Run Mode'' @ nl # ex_kind ex @ [nl, nl]
     @ ''## Parent Plan'' @ nl # shown_parent (ex_parent ex) @ [nl, nl] @ preference_section (ex_preference ex)
     @ ''User Request:'' @ nl # ex_request ex @ [nl, nl]
     @ (if ex_orientation ex = [] then [] else ex_orientation ex @ [nl, nl])
     @ triage_section 12000 (ex_triage ex) @ ''Output the JSON plan now:''"

definition check_plan :: "obj check" where
  "check_plan parsed = Inr (case validate_plan_payload parsed of Some e \<Rightarrow> Inl e | None \<Rightarrow> Inr parsed)"

definition single_shot :: "'w planner \<Rightarrow> exploration \<Rightarrow> ('w, 'z, obj) desk_act" where
  "single_shot pl ex = call_json_with_correction pl check_plan ''orchestrator'' (plan_prompt pl ex)"

text \<open>An exploration that gives up (\<open>RuntimeError\<close>) is replaced by a single question.\<close>

definition explored_plan :: "'w planner \<Rightarrow> exploration \<Rightarrow> ('w, 'z, obj) desk_act" where
  "explored_plan pl ex =
     tryA (on_world (pl_explore pl ex)) (\<lambda>e. case e of
       RuntimeError m \<Rightarrow>
         bindA (emit (pl_emits pl) ''orchestrator.explore.finished''
             [(''tool_calls'', JInt (- 1)), (''mode'', JStr (ex_mode ex)), (''fallback'', JBool True)]) (\<lambda>_.
           single_shot pl ex)
     | _ \<Rightarrow> raiseA e)"

text \<open>The milestones still to be done of a stored plan: a plan or a milestone that is no dictionary raises.\<close>

definition pending_of :: "json \<Rightarrow> (obj \<times> obj list) res" where
  "pending_of stored =
     bindR (as_obj stored) (\<lambda>plan.
     bindR (py_iter (dget plan ''milestones'' (JList []))) (\<lambda>xs.
     bindR (mapR as_obj xs) (\<lambda>ms.
       Inr (plan, filter (\<lambda>m. dget m ''status'' JNull \<noteq> JStr ''completed'') ms))))"

definition resumed_plan :: "'w planner \<Rightarrow> 'w \<Rightarrow> obj \<Rightarrow> obj" where
  "resumed_plan pl w plan =
     dsetdefault ''run_kind'' (JStr ''resume'')
       (dsetdefault ''plan_id''
         (JStr (py_str (py_or (dget plan ''mission_id'' JNull) (JStr (''legacy-'' @ pl_hex pl 12 w))))) plan)"

definition archive_plan :: "'w planner \<Rightarrow> json \<Rightarrow> ('w, 'z, unit) desk_act" where
  "archive_plan pl old =
     bindA (liftA (as_obj old)) (\<lambda>plan.
     let plan_id = py_str (py_or (dget plan ''plan_id'' JNull)
           (py_or (dget plan ''mission_id'' JNull) (JStr (''legacy-'' @ pl_clock pl))))
     in bindA (getA (\<lambda>s. (dk_history s, pl_writable pl (dk_world s)))) (\<lambda>(history, ok).
          if map_of history plan_id \<noteq> None then returnA ()
          else if ok then updA (\<lambda>s. s\<lparr>dk_history := dk_history s @ [(plan_id, old)]\<rparr>) else raiseA OSError))"

definition stamp_plan :: "'w planner \<Rightarrow> exploration \<Rightarrow> 'w \<Rightarrow> obj \<Rightarrow> obj" where
  "stamp_plan pl ex w plan =
     (let named = py_strip (py_str (py_or (dget plan ''mission_id'' JNull) (JStr [])));
          mission = (if ex_kind ex = ''repair'' \<or> named = [] then ex_kind ex @ ''-'' @ pl_hex pl 10 w else named);
          p1 = AList.update ''run_kind'' (JStr (ex_kind ex))
                 (AList.update ''plan_id'' (JStr (ex_kind ex @ ''-'' @ pl_hex pl 12 w))
                   (AList.update ''mission_id'' (JStr mission) plan));
          preferred = py_strip (ex_preference ex);
          p2 = (if preferred = [] then p1 else AList.update ''user_preferences'' (JStr (take 4000 preferred)) p1)
      in AList.update ''request_hash'' (JStr (take 16 (pl_sha pl (ex_request ex))))
           (AList.update ''parent_plan_id'' (case ex_parent ex of None \<Rightarrow> JNull | Some t \<Rightarrow> JStr t) p2))"

definition make_plan :: "'w planner \<Rightarrow> exploration \<Rightarrow> ('w, 'z, obj) desk_act" where
  "make_plan pl ex =
     bindA (getA (\<lambda>s. should_explore (pl_enabled pl) (pl_files pl (dk_world s)) (ex_kind ex))) (\<lambda>(explore, mode).
       if explore then
         bindA (getA (\<lambda>s. pl_orient pl (ex_request ex) (ex_previous ex) (dk_world s))) (\<lambda>found.
         bindA (liftA found) (\<lambda>orientation.
           explored_plan pl (ex\<lparr>ex_mode := mode, ex_orientation := orientation\<rparr>)))
       else single_shot pl (ex\<lparr>ex_mode := mode, ex_orientation := []\<rparr>))"

text \<open>The plan before is archived, the new one stamped and saved.\<close>

definition store_plan :: "'w planner \<Rightarrow> exploration \<Rightarrow> obj \<Rightarrow> ('w, 'z, obj) desk_act" where
  "store_plan pl ex plan =
     bindA (getA dk_plan) (\<lambda>stored.
     bindA (case stored of
              Some old \<Rightarrow> whenA (ex_kind ex \<notin> {''auto'', ''resume''} \<and> truthy old) (archive_plan pl old)
            | None \<Rightarrow> returnA ()) (\<lambda>_.
     bindA (getA (\<lambda>s. stamp_plan pl ex (dk_world s) plan)) (\<lambda>stamped.
     bindA (save_plan pl stamped) (\<lambda>_. returnA stamped))))"

definition fresh_plan :: "'w planner \<Rightarrow> exploration \<Rightarrow> ('w, 'z, obj) desk_act" where
  "fresh_plan pl ex = bindA (make_plan pl ex) (store_plan pl ex)"

definition run_orchestration :: "'w planner \<Rightarrow> exploration \<Rightarrow> ('w, 'z, obj) desk_act" where
  "run_orchestration pl ex =
     bindA (getA dk_plan) (\<lambda>stored. case stored of
       None \<Rightarrow> fresh_plan pl ex
     | Some j \<Rightarrow>
         bindA (liftA (pending_of j)) (\<lambda>(plan, pending).
           if pending \<noteq> [] \<and> ex_kind ex \<in> {''auto'', ''resume''}
           then bindA (getA (\<lambda>s. resumed_plan pl (dk_world s) plan)) (\<lambda>resumed.
                bindA (save_plan pl resumed) (\<lambda>_. returnA resumed))
           else fresh_plan pl ex))"

section \<open>Patches\<close>

definition patch_format_guide :: string where
  \<open>patch_format_guide = py_join [nl]
     [''## Output Format - PLAN PATCH (never a full plan)'', [],
      ''Output a single JSON object with an "operations" list. Supported operations:'', [],
      ''1. Update milestone intent:'',
      ''   {"op": "update_milestone", "milestone_id": "M3", "fields": {'',
      ''     "acceptance_criteria": ["..."], "validation_profile": "python"'',
      ''   }}'', [],
      ''3. Insert a new milestone after an existing one:'',
      ''   {"op": "insert_milestone_after", "after_id": "M2", "milestone": {'',
      ''     "id": "M2a", "target_files": ["..."],'',
      ''     "acceptance_criteria": ["..."], "validation_profile": "auto"'',
      ''   }}'', [],
      ''4. Remove a pending milestone:'',
      ''   {"op": "remove_milestone", "milestone_id": "M4"}'', [],
      ''Rules:'',
      ''- Use the SMALLEST patch that fixes the flaw. Update intent, not executable'',
      ''  validation details.'',
      ''- Milestones with status "completed" are immutable - the harness rejects patches touching them.'',
      ''- Milestone ids must stay unique; never reorder the plan yourself.'', []]\<close>

definition current_plan_section :: "obj \<Rightarrow> string" where
  "current_plan_section plan =
     ''### Current Plan'' @ nl # ''```json'' @ nl # json_dumps (Some 2) (JObj plan) @ nl # ''```'' @ [nl, nl]"

definition replan_prompt :: "'w planner \<Rightarrow> obj \<Rightarrow> string \<Rightarrow> string" where
  "replan_prompt pl plan guidance =
     pl_manual pl @ [nl, nl] @ ''---'' @ [nl, nl] @ ''## Negotiation Boundary: Plan Flaw Detected'' @ nl
     # ''The Validator has rejected the current plan due to a structural flaw or command mismatch.'' @ [nl, nl]
     @ current_plan_section plan
     @ py_join [nl] ([''### Validator'' @ squote # ''s Replan Guidance'', guidance, [],
        ''### Harness Constraints (non-negotiable)'',
        ''- pytest, flake8, and black are pre-installed in the session venv at activation.'',
        ''- NEVER add Environment Setup, pip install, or tooling verification milestones.'',
        ''- Mission-specific packages are installed by the worker via install_dependency, not via validation commands.'',
        ''- Keep acceptance criteria observable and let the Validator choose commands.'',
        ''- Repair packet fields only; do not add executable validation contracts.'', []])
     @ nl # patch_format_guide @ nl # ''Output the plan patch JSON now:''"

definition apply_ops_prompt :: "'w planner \<Rightarrow> obj \<Rightarrow> string \<Rightarrow> string \<Rightarrow> string" where
  "apply_ops_prompt pl plan header body =
     pl_manual pl @ [nl, nl] @ ''---'' @ [nl, nl] @ ''## '' @ header @ [nl, nl] @ current_plan_section plan
     @ body @ [nl, nl] @ patch_format_guide @ nl # ''Output the plan patch JSON now:''"

definition check_ops :: "obj \<Rightarrow> obj check" where
  "check_ops plan parsed =
     (case dget parsed ''operations'' JNull of
        JList (op # ops) \<Rightarrow>
          (case apply_plan_patch plan (JList (op # ops)) of
             Inr patched \<Rightarrow> Inr (Inr patched)
           | Inl (PlanPatchError m) \<Rightarrow> Inr (Inl (''invalid patch: '' @ m))
           | Inl e \<Rightarrow> Inl e)
      | _ \<Rightarrow> Inr (Inl (''response must contain a non-empty '' @ quoted ''operations'' @ '' list'')))"

definition request_plan_patch :: "'w planner \<Rightarrow> obj \<Rightarrow> string \<Rightarrow> ('w, 'z, obj) desk_act" where
  "request_plan_patch pl plan prompt = call_json_with_correction pl (check_ops plan) ''orchestrator_replan'' prompt"

definition patch_and_save :: "'w planner \<Rightarrow> obj \<Rightarrow> string \<Rightarrow> (obj \<Rightarrow> obj) \<Rightarrow> ('w, 'z, obj) desk_act" where
  "patch_and_save pl plan prompt finish =
     bindA (request_plan_patch pl plan prompt) (\<lambda>patched.
     bindA (save_plan pl (finish patched)) (\<lambda>_. returnA (finish patched)))"

definition replan_mission :: "'w planner \<Rightarrow> obj \<Rightarrow> string \<Rightarrow> ('w, 'z, obj) desk_act" where
  "replan_mission pl plan guidance = patch_and_save pl plan (replan_prompt pl plan guidance) (\<lambda>p. p)"

definition repair_plan_issues :: "'w planner \<Rightarrow> obj \<Rightarrow> string list \<Rightarrow> ('w, 'z, obj) desk_act" where
  "repair_plan_issues pl plan issues =
     patch_and_save pl plan
       (apply_ops_prompt pl plan ''Plan Lint: Structural Issues Detected Before Execution''
         (''### Deterministic plan lint found these structural issues'' @ nl # py_join [nl] (map (\<lambda>i. ''- '' @ i) issues)
          @ [nl, nl] @ ''Fix them with the smallest possible patch.''))
       (\<lambda>p. p)"

definition mark_draft :: "string \<Rightarrow> obj \<Rightarrow> obj" where
  "mark_draft preference_brief patched =
     (let drafted = AList.update ''approval_state'' (JStr ''draft'') patched; t = py_strip preference_brief
      in if t = [] then drafted else AList.update ''user_preferences'' (JStr (take 4000 t)) drafted)"

definition adjust_plan_from_user :: "'w planner \<Rightarrow> obj \<Rightarrow> string \<Rightarrow> string \<Rightarrow> ('w, 'z, obj) desk_act" where
  "adjust_plan_from_user pl plan user_request preference_brief =
     (let pref = preference_section preference_brief
      in patch_and_save pl plan
           (apply_ops_prompt pl plan ''User Plan Adjustment''
             (''### User requested these plan changes'' @ nl # user_request @ [nl, nl]
              @ ''Patch the draft plan to match. Do not start implementation. Keep completed milestones immutable.''
              @ (if pref = [] then [] else nl # pref)))
           (mark_draft preference_brief))"

section \<open>What the answers keep\<close>

text \<open>Asking the model changes the world and nothing else of the desk.\<close>

definition same_files :: "('w, 'z) desk_scheme \<Rightarrow> ('w, 'z) desk_scheme \<Rightarrow> bool" where
  "same_files s t \<longleftrightarrow> dk_plan t = dk_plan s \<and> dk_history t = dk_history s \<and> desk.more t = desk.more s"

interpretation asked: frame same_files
  by unfold_locales (simp_all add: same_files_def)

lemma asked_on_world: "asked.framed (on_world f)"
  by (rule asked.framedI) (simp add: on_world_def same_files_def split: prod.split)

lemma wp_emit [wp_simps]:
  "wp (emit on name details) Q s = Q (Inr ()) (if on then s\<lparr>dk_events := dk_events s @ [(name, details)]\<rparr> else s)"
  by (simp add: emit_def wp_simps)

lemma asked_emit: "asked.framed (emit on name details)"
  unfolding emit_def by (intro asked.framed_when asked.framed_upd) (simp add: same_files_def)

lemma asked_correcting: "asked.framed (correcting pl check span initial k prompt last_error)"
proof (induction k arbitrary: prompt last_error)
  case 0
  show ?case by (simp add: asked.framed_raise)
next
  case (Suc k)
  show ?case
    unfolding correcting.simps Let_def by (intro asked.framed_rules asked_on_world Suc)
qed

lemma correcting_accepts:
  "wp (correcting pl check span initial k prompt last_error)
     (\<lambda>r t. \<forall>x. r = Inr x \<longrightarrow> (\<exists>parsed. check parsed = Inr (Inr x))) s"
proof (induction k arbitrary: prompt last_error s)
  case 0
  show ?case by (simp add: wp_simps)
next
  case (Suc k)
  show ?case
    unfolding correcting.simps wp_simps Let_def
    by (intro wpI) (auto simp: wp_simps Suc split: sum.split option.split)
qed

lemma call_json_outcome:
  assumes "call_json_with_correction pl check span prompt s = (r, t)"
  shows "same_files s t" and "r = Inr x \<Longrightarrow> \<exists>parsed. check parsed = Inr (Inr x)"
  using asked.framedD [OF asked_correcting] wpD [OF correcting_accepts] assms
  by (fastforce simp: call_json_with_correction_def)+

lemma save_plan_outcome:
  assumes "save_plan pl p s = (r, t)"
  shows "(r = Inr () \<and> t = s\<lparr>dk_plan := Some (JObj p)\<rparr>) \<or> (r = Inl OSError \<and> t = s)"
  using assms by (auto simp: save_plan_def bindA_def getA_def updA_def raiseA_def split: if_split_asm)

text \<open>A patch is saved as it is returned, or nothing is.\<close>

definition saved :: "('w, 'z) desk_scheme \<Rightarrow> obj res \<Rightarrow> ('w, 'z) desk_scheme \<Rightarrow> bool" where
  "saved s r t \<longleftrightarrow>
     (case r of Inl e \<Rightarrow> dk_plan t = dk_plan s | Inr p \<Rightarrow> dk_plan t = Some (JObj p)) \<and> desk.more t = desk.more s"

lemma check_ops_accepts:
  assumes "check_ops plan parsed = Inr (Inr x)"
  shows "\<exists>ops. apply_plan_patch plan ops = Inr x"
proof -
  obtain op ops where o: "dget parsed ''operations'' JNull = JList (op # ops)"
    using assms by (auto simp: check_ops_def split: json.split_asm list.split_asm)
  show ?thesis
  proof (cases "apply_plan_patch plan (JList (op # ops))")
    case (Inl e)
    then show ?thesis using assms o by (cases e) (simp_all add: check_ops_def)
  next
    case (Inr y)
    then show ?thesis using assms o by (auto simp: check_ops_def)
  qed
qed

lemma patch_and_save_outcome:
  assumes "patch_and_save pl plan prompt finish s = (r, t)"
  shows "saved s r t" and "r = Inr p \<Longrightarrow> \<exists>patched ops. p = finish patched \<and> apply_plan_patch plan ops = Inr patched"
proof -
  obtain r1 t1 where m: "request_plan_patch pl plan prompt s = (r1, t1)" by fastforce
  have c: "\<exists>ops. apply_plan_patch plan ops = Inr x" if "r1 = Inr x" for x
    using call_json_outcome(2) [OF m [unfolded request_plan_patch_def] that] check_ops_accepts by blast
  have g: "same_files s t1" using call_json_outcome(1) [OF m [unfolded request_plan_patch_def]] .
  have "saved s r t \<and> (\<forall>p. r = Inr p \<longrightarrow> (\<exists>patched ops. p = finish patched \<and> apply_plan_patch plan ops = Inr patched))"
  proof (cases r1)
    case (Inl e)
    then show ?thesis using m assms g by (auto simp: patch_and_save_def bindA_def saved_def same_files_def)
  next
    case (Inr x)
    obtain r2 t2 where sv: "save_plan pl (finish x) t1 = (r2, t2)" by fastforce
    show ?thesis
      using save_plan_outcome [OF sv] Inr m assms g c [OF Inr] sv
      by (auto simp: patch_and_save_def bindA_def returnA_def saved_def same_files_def)
  qed
  then show "saved s r t" and "r = Inr p \<Longrightarrow> \<exists>patched ops. p = finish patched \<and> apply_plan_patch plan ops = Inr patched"
    by auto
qed

section \<open>What a new plan looks like\<close>

text \<open>An exploration is expected to end in a plan that validates, or in an exception.\<close>

locale planning =
  fixes pl :: "'w planner"
  assumes explore_valid: "pl_explore pl ex w = (Inr p, w') \<Longrightarrow> validate_plan_payload p = None"
begin

lemma single_shot_valid: "wp (single_shot pl ex) (\<lambda>r t. \<forall>p. r = Inr p \<longrightarrow> validate_plan_payload p = None) s"
proof (rule wpI)
  fix r t assume "single_shot pl ex s = (r, t)"
  from call_json_outcome(2) [OF this [unfolded single_shot_def]]
  show "\<forall>p. r = Inr p \<longrightarrow> validate_plan_payload p = None"
    by (auto simp: check_plan_def split: option.split_asm)
qed

lemma explored_plan_valid: "wp (explored_plan pl ex) (\<lambda>r t. \<forall>p. r = Inr p \<longrightarrow> validate_plan_payload p = None) s"
proof -
  have "wp (on_world (pl_explore pl ex)) (\<lambda>r t. \<forall>p. r = Inr p \<longrightarrow> validate_plan_payload p = None) s" for s :: "('w, 'z) desk_scheme"
    using explore_valid by (auto simp: wp_def on_world_def split: prod.split)
  then show ?thesis
    unfolding explored_plan_def wp_simps
    by (rule wp_mono) (auto simp: wp_simps emit_def single_shot_valid split: sum.split pyexn.split)
qed

lemma make_plan_valid: "wp (make_plan pl ex) (\<lambda>r t. \<forall>p. r = Inr p \<longrightarrow> validate_plan_payload p = None) s"
  unfolding make_plan_def wp_simps by (auto simp: wp_simps single_shot_valid explored_plan_valid split: prod.split sum.split)

end

lemma asked_single_shot: "asked.framed (single_shot pl ex)"
  unfolding single_shot_def call_json_with_correction_def by (rule asked_correcting)

lemma asked_explored: "asked.framed (explored_plan pl ex)"
  unfolding explored_plan_def
  by (intro asked.framed_rules asked_on_world) (auto split: pyexn.split intro!: asked.framed_rules asked_emit asked_single_shot)

lemma asked_make_plan: "asked.framed (make_plan pl ex)"
  unfolding make_plan_def by (intro asked.framed_rules asked_single_shot asked_explored)

text \<open>Archiving keeps the plan file.\<close>

definition same_plan :: "('w, 'z) desk_scheme \<Rightarrow> ('w, 'z) desk_scheme \<Rightarrow> bool" where
  "same_plan s t \<longleftrightarrow> dk_plan t = dk_plan s \<and> desk.more t = desk.more s"

interpretation kept: frame same_plan
  by unfold_locales (simp_all add: same_plan_def)

lemma kept_asked: "asked.framed m \<Longrightarrow> kept.framed m"
  by (auto simp: asked.framed_def kept.framed_def same_files_def same_plan_def)

lemma kept_archive: "kept.framed (archive_plan pl old)"
  unfolding archive_plan_def Let_def
  by (intro kept.framed_rules) (auto intro!: kept.framed_rules kept.framed_upd simp: same_plan_def split: prod.split)

lemma stamp_milestones: "dget (stamp_plan pl ex w plan) ''milestones'' d = dget plan ''milestones'' d"
  by (simp add: stamp_plan_def Let_def)

lemma stamp_validates: "validate_plan_payload (stamp_plan pl ex w plan) = validate_plan_payload plan"
  by (simp add: validate_plan_payload_def stamp_milestones)

lemma wp_framed: "asked.framed m \<Longrightarrow> wp m (\<lambda>r t. same_files s t) s" "kept.framed n \<Longrightarrow> wp n (\<lambda>r t. same_plan s t) s"
  by (auto simp: wp_def split: prod.split dest: asked.framedD kept.framedD)

lemma wp_save_plan:
  "wp (save_plan pl p) (\<lambda>r t. r = Inr () \<and> t = s\<lparr>dk_plan := Some (JObj p)\<rparr> \<or> r = Inl OSError \<and> t = s) s"
  by (rule wpI) (rule save_plan_outcome)

lemma kept_old:
  "kept.framed (case stored of None \<Rightarrow> returnA () | Some old \<Rightarrow> whenA (b old) (archive_plan pl old))"
  by (intro kept.framed_rules kept_archive)

lemma saved_Inl: "same_plan s t \<Longrightarrow> saved s (Inl e) t"
  by (simp add: saved_def same_plan_def)

lemma store_plan_outcome:
  "wp (store_plan pl ex plan)
     (\<lambda>r t. saved s r t \<and> (\<forall>p. r = Inr p \<longrightarrow> validate_plan_payload p = validate_plan_payload plan)) s"
  unfolding store_plan_def
proof (rule wp_bindI [where P = "\<lambda>r t. t = s"], simp add: wp_simps, simp add: saved_Inl)
  fix x t assume "t = s"
  then have "wp (case x of None \<Rightarrow> returnA () | Some old \<Rightarrow> whenA (ex_kind ex \<notin> {''auto'', ''resume''} \<and> truthy old) (archive_plan pl old))
      (\<lambda>r u. same_plan s u) t"
    by (simp add: wp_framed(2) [OF kept_old])
  then show "wp (bindA (case x of None \<Rightarrow> returnA () | Some old \<Rightarrow> whenA (ex_kind ex \<notin> {''auto'', ''resume''} \<and> truthy old) (archive_plan pl old))
      (\<lambda>_. bindA (getA (\<lambda>s. stamp_plan pl ex (dk_world s) plan)) (\<lambda>stamped. bindA (save_plan pl stamped) (\<lambda>_. returnA stamped))))
      (\<lambda>r t. saved s r t \<and> (\<forall>p. r = Inr p \<longrightarrow> validate_plan_payload p = validate_plan_payload plan)) t"
    by (rule wp_bindI)
       (auto simp: wp_simps saved_Inl same_plan_def saved_def stamp_validates intro!: wp_mono [OF wp_save_plan])
qed

text \<open>A run that resumes saves the plan it found; every other run saves a valid plan.\<close>

definition resumes :: "exploration \<Rightarrow> json option \<Rightarrow> bool" where
  "resumes ex stored \<longleftrightarrow>
     ex_kind ex \<in> {''auto'', ''resume''} \<and> (\<exists>j plan pending. stored = Some j \<and> pending_of j = Inr (plan, pending) \<and> pending \<noteq> [])"

context planning
begin

lemma fresh_plan_outcome:
  "wp (fresh_plan pl ex) (\<lambda>r t. saved s r t \<and> (\<forall>p. r = Inr p \<longrightarrow> validate_plan_payload p = None)) s"
  unfolding fresh_plan_def
proof (rule wp_bindI [OF wp_conj [OF make_plan_valid wp_framed(1) [OF asked_make_plan]]])
  fix plan t
  assume a: "(\<forall>p. (Inr plan :: obj res) = Inr p \<longrightarrow> validate_plan_payload p = None) \<and> same_files s t"
  show "wp (store_plan pl ex plan) (\<lambda>r t. saved s r t \<and> (\<forall>p. r = Inr p \<longrightarrow> validate_plan_payload p = None)) t"
    by (rule wp_mono [OF store_plan_outcome]) (use a in \<open>auto simp: saved_def same_files_def split: sum.split\<close>)
qed (simp add: saved_def same_files_def)

lemma run_orchestration_outcome:
  "wp (run_orchestration pl ex)
     (\<lambda>r t. saved s r t \<and> (\<forall>p. r = Inr p \<longrightarrow> resumes ex (dk_plan s) \<or> validate_plan_payload p = None)) s"
proof (cases "dk_plan s")
  case None
  then show ?thesis
    unfolding run_orchestration_def wp_simps by (auto intro: wp_mono [OF fresh_plan_outcome])
next
  case (Some j)
  show ?thesis
  proof (cases "pending_of j")
    case (Inl e)
    then show ?thesis using Some by (simp add: run_orchestration_def wp_simps saved_def)
  next
    case (Inr pp)
    obtain plan pending where pp: "pp = (plan, pending)" by fastforce
    show ?thesis
    proof (cases "pending \<noteq> [] \<and> ex_kind ex \<in> {''auto'', ''resume''}")
      case True
      then have "resumes ex (dk_plan s)" using Some Inr pp by (auto simp: resumes_def)
      then show ?thesis
        using True Some Inr pp
        by (auto simp: run_orchestration_def wp_simps saved_def intro!: wp_mono [OF wp_save_plan])
    next
      case False
      then show ?thesis
        using Some Inr pp by (auto simp: run_orchestration_def wp_simps intro: wp_mono [OF fresh_plan_outcome])
    qed
  qed
qed

end

section \<open>A planner that answers from a list\<close>

text \<open>The world is the list of answers still to be given; nobody explores.\<close>

definition scripted :: "string list planner" where
  "scripted =
     \<lparr>pl_llm = (\<lambda>prompt w. case w of [] \<Rightarrow> (Inl OSError, []) | r # rs \<Rightarrow> (Inr r, rs)),
      pl_explore = (\<lambda>ex w. (Inl (RuntimeError []), w)), pl_orient = (\<lambda>q p w. Inr []), pl_enabled = False,
      pl_files = (\<lambda>w. None), pl_writable = (\<lambda>w. True), pl_manual = [],
      pl_reader = \<lparr>rd_float = (\<lambda>s. s), rd_code = (\<lambda>n. [])\<rparr>, pl_repair = (\<lambda>t. None), pl_sha = (\<lambda>s. s),
      pl_hex = (\<lambda>n w. ''0''), pl_clock = ''0'', pl_emits = True\<rparr>"

definition new_request :: exploration where
  "new_request =
     \<lparr>ex_request = ''x'', ex_kind = ''new'', ex_parent = None, ex_previous = [], ex_orientation = [], ex_triage = [],
      ex_mode = [], ex_preference = []\<rparr>"

definition plan_reply :: string where
  \<open>plan_reply = ''{"milestones":[{"id":"M1","target_files":["a.py"],"acceptance_criteria":["c"]}]}''\<close>

definition patch_reply :: string where
  \<open>patch_reply = ''{"operations":[{"op":"remove_milestone","milestone_id":"M2"}]}''\<close>

definition desk_with :: "json option \<Rightarrow> string list \<Rightarrow> string list desk" where
  "desk_with plan replies = \<lparr>dk_plan = plan, dk_history = [], dk_events = [], dk_world = replies\<rparr>"

section \<open>Properties\<close>



end
