(* ===== verification/Inspection.thy ===== *)
theory Inspection
  imports Orchestrator Loops ToolContracts ChatMode
begin

text \<open>
  What the read-only agents share - \<open>src/agents/orchestrator_explore.py\<close>, \<open>src/agents/code_review.py\<close>,
  \<open>src/agents/ask.py\<close>: a conversation in which a model calls tools it is allowed and ends with an answer.
  The model and the tools act on a world \<open>'w\<close>. The locale \<open>inspecting\<close> carries a relation of the world that
  the allowed tools keep to whatever these agents do.
\<close>

section \<open>The conversation\<close>

record 'w viewer =
  vw_llm :: "message list \<Rightarrow> 'w \<Rightarrow> string res \<times> 'w"
  vw_dispatch :: "string \<Rightarrow> obj \<Rightarrow> 'w \<Rightarrow> obj \<times> 'w"
  vw_cancelled :: "'w \<Rightarrow> bool"
  vw_emits :: bool
  vw_reader :: reader
  vw_repair :: "string \<Rightarrow> json option"
  vw_sha :: "string \<Rightarrow> string"
  vw_duration :: json

record 'w view_state =
  vs_talk :: "message list"
  vs_count :: int
  vs_bad :: nat
  vs_world :: 'w
  vs_events :: "event list"

type_synonym ('w, 'r) turn = "'w view_state \<times> 'r res option"

definition view_start :: "string \<Rightarrow> 'w \<Rightarrow> 'w view_state" where
  "view_start prompt w =
     \<lparr>vs_talk = [\<lparr>m_role = ''user'', m_content = prompt\<rparr>], vs_count = 0, vs_bad = 0, vs_world = w, vs_events = []\<rparr>"

definition emitv :: "'w viewer \<Rightarrow> event \<Rightarrow> 'w view_state \<Rightarrow> 'w view_state" where
  "emitv env e st = (if vw_emits env then st\<lparr>vs_events := vs_events st @ [e]\<rparr> else st)"

definition answer_both :: "string \<Rightarrow> string \<Rightarrow> 'w view_state \<Rightarrow> 'w view_state" where
  "answer_both raw answer st =
     st\<lparr>vs_talk := vs_talk st @ [\<lparr>m_role = ''assistant'', m_content = raw\<rparr>, \<lparr>m_role = ''user'', m_content = answer\<rparr>]\<rparr>"

text \<open>\<open>trim_conversation(conversation, max_turns=16)\<close>, the messages added, the model; \<open>text.strip()\<close>.\<close>

definition ask_model ::
    "'w viewer \<Rightarrow> message list \<Rightarrow> 'w view_state \<Rightarrow> (string \<Rightarrow> 'w view_state \<Rightarrow> ('w, 'r) turn) \<Rightarrow> ('w, 'r) turn" where
  "ask_model env extra st continue =
     (case trim_conversation (vs_talk st) 16 of
        Inl e \<Rightarrow> (st, Some (Inl e))
      | Inr messages \<Rightarrow>
          (case vw_llm env (messages @ extra) (vs_world st) of
             (Inl e, w) \<Rightarrow> (st\<lparr>vs_world := w\<rparr>, Some (Inl e))
           | (Inr text, w) \<Rightarrow> continue (py_strip text) (st\<lparr>vs_world := w\<rparr>)))"

section \<open>Calls\<close>

definition read_tools :: "string list" where
  "read_tools = [''list_directory'', ''read_file'', ''search_grep'', ''project_info'', ''git_diff'', ''view_git_log'']"

text \<open>
  The calls of a reply: those of a batch, at most three, or the reply itself. What an agent says to a batch
  without calls, to a reply without a call and to a batch cut off are arguments.
\<close>

definition batch_cap :: nat where "batch_cap = 3"

definition pick_calls :: "string \<Rightarrow> string \<Rightarrow> string \<Rightarrow> obj \<Rightarrow> string + obj list \<times> string option" where
  "pick_calls no_objects no_call truncated parsed =
     (case dget parsed ''calls'' JNull of
        JList (x # xs) \<Rightarrow>
          (let calls = objects_of (x # xs)
           in if calls = [] then Inl no_objects
              else if batch_cap < length calls then Inr (take batch_cap calls, Some truncated) else Inr (calls, None))
      | _ \<Rightarrow> if truthy (dget parsed ''tool'' JNull) then Inr ([parsed], None) else Inl no_call)"

definition asked_tool :: "obj \<Rightarrow> string" where
  "asked_tool call = py_str (py_or (dget call ''tool'' (JStr [])) (JStr []))"

definition asked_args :: "obj \<Rightarrow> json" where
  "asked_args call = normalize_tool_args (asked_tool call) (py_or (dget call ''args'' (JObj [])) (JObj []))"

definition asked_why :: "obj \<Rightarrow> string" where
  "asked_why call = py_str (py_or (dget call ''reasoning'' (JStr [])) (JStr []))"

definition tool_text :: "string \<Rightarrow> string \<Rightarrow> string" where
  "tool_text tool body = ''Tool result for `'' @ tool @ ''`:'' @ nl # ''```json'' @ nl # body @ nl # ''```''"

text \<open>The fields of the events on a call; each agent says itself where role and phase stand.\<close>

definition role_fields :: "string \<Rightarrow> string \<Rightarrow> obj" where
  "role_fields role phase = [(''role'', JStr role), (''phase'', JStr phase)]"

definition called_fields :: "string \<Rightarrow> obj \<Rightarrow> string \<Rightarrow> int \<Rightarrow> obj" where
  "called_fields tool args why index =
     [(''tool'', JStr tool), (''args'', JObj (compact_event_args (JObj args))),
      (''args_keys'', JList (map (\<lambda>kv. JStr (fst kv)) args)), (''reasoning'', JStr why), (''call_index'', JInt index)]"

definition result_fields :: "string \<Rightarrow> obj \<Rightarrow> int \<Rightarrow> obj" where
  "result_fields tool result index =
     [(''tool'', JStr tool), (''success'', dget result ''success'' (JBool False)), (''call_index'', JInt index)]"

definition args_dict :: "json \<Rightarrow> obj" where
  "args_dict j = (case j of JObj d \<Rightarrow> d | _ \<Rightarrow> [])"

text \<open>The tool is announced and run.\<close>

definition run_tool :: "'w viewer \<Rightarrow> obj \<Rightarrow> string \<Rightarrow> obj \<Rightarrow> 'w view_state \<Rightarrow> obj \<times> 'w view_state" where
  "run_tool env announced tool args st =
     (case vw_dispatch env tool args (vs_world st) of
        (result, w) \<Rightarrow> (result, (emitv env (''tool.called'', announced) st)\<lparr>vs_world := w\<rparr>))"

definition noted :: "string option \<Rightarrow> string list \<Rightarrow> string" where
  "noted note outputs =
     (case note of None \<Rightarrow> [] | Some t \<Rightarrow> t @ [nl, nl]) @ py_join [nl, nl] outputs"

text \<open>A batch that may be left early.\<close>

fun until_left :: "('c \<Rightarrow> 's \<Rightarrow> 's \<times> bool) \<Rightarrow> 'c list \<Rightarrow> 's \<Rightarrow> 's" where
  "until_left f [] s = s"
| "until_left f (c # cs) s = (case f c s of (s', left) \<Rightarrow> if left then s' else until_left f cs s')"

section \<open>What these agents leave alone\<close>

lemma emitv_world [simp]: "vs_world (emitv env e st) = vs_world st"
  by (simp add: emitv_def)

lemma emitv_count [simp]: "vs_count (emitv env e st) = vs_count st"
  by (simp add: emitv_def)

lemma emitv_talk [simp]: "vs_talk (emitv env e st) = vs_talk st"
  by (simp add: emitv_def)

lemma answer_both_simps [simp]:
  "vs_world (answer_both raw t st) = vs_world st" "vs_count (answer_both raw t st) = vs_count st"
  "vs_talk (answer_both raw t st) \<noteq> []"
  by (simp_all add: answer_both_def)

lemma run_tool_count: "run_tool env announced tool args st = (result, st') \<Longrightarrow> vs_count st' = vs_count st"
  by (auto simp: run_tool_def split: prod.split_asm)

lemma pick_calls_cap: "pick_calls a b c parsed = Inr (calls, note) \<Longrightarrow> length calls \<le> batch_cap"
  by (auto simp: pick_calls_def Let_def batch_cap_def split: json.split_asm list.split_asm if_split_asm)

lemma fold_keeps: "(\<And>c s. P s \<Longrightarrow> P (f c s)) \<Longrightarrow> P s \<Longrightarrow> P (fold f cs s)"
  by (induction cs arbitrary: s) auto

lemma until_left_keeps: "(\<And>c s. P s \<Longrightarrow> P (fst (f c s))) \<Longrightarrow> P s \<Longrightarrow> P (until_left f cs s)"
  by (induction cs arbitrary: s) (auto split: prod.split, metis fst_conv, metis fst_conv)

lemma until_left_ends:
  assumes "\<And>c s. P s \<Longrightarrow> (if snd (f c s) then Q else P) (fst (f c s))" and "\<And>s. P s \<Longrightarrow> Q s" and "P s"
  shows "Q (until_left f cs s)"
  using assms(3)
proof (induction cs arbitrary: s)
  case (Cons c cs)
  obtain s' left where f: "f c s = (s', left)" by fastforce
  show ?case using assms(1) [OF Cons.prems, of c] Cons.IH [of s'] f by (cases left) simp_all
qed (simp add: assms(2))

text \<open>
  \<open>R\<close> relates a world to a later one. The model keeps to it, and so do the tools on the calls that
  \<open>permitted\<close> describes.
\<close>

locale inspecting = frame R for R :: "'w \<Rightarrow> 'w \<Rightarrow> bool" +
  fixes env :: "'w viewer" and permitted :: "string \<Rightarrow> obj \<Rightarrow> bool"
  assumes llm_keeps: "vw_llm env messages w = (r, w') \<Longrightarrow> R w w'"
    and tool_keeps: "permitted tool args \<Longrightarrow> vw_dispatch env tool args w = (result, w') \<Longrightarrow> R w w'"
begin

definition from_world :: "'w \<Rightarrow> 'w view_state \<Rightarrow> bool" where
  "from_world w st \<longleftrightarrow> R w (vs_world st)"

lemma from_world_simps [simp]:
  "from_world w (view_start prompt w)" "from_world w (emitv env e st) = from_world w st"
  "from_world w (answer_both raw t st) = from_world w st" "from_world w (st\<lparr>vs_bad := n\<rparr>) = from_world w st"
  "from_world w (st\<lparr>vs_count := i\<rparr>) = from_world w st"
  by (simp_all add: from_world_def view_start_def)

lemma run_tool_keeps:
  assumes "from_world w st" and "permitted tool args" and "run_tool env announced tool args st = (result, st')"
  shows "from_world w st'"
  using assms tool_keeps R_trans by (fastforce simp: run_tool_def from_world_def split: prod.split_asm)

lemma ask_model_keeps:
  assumes "from_world w st" and "\<And>text st'. from_world w st' \<Longrightarrow> from_world w (fst (continue text st'))"
  shows "from_world w (fst (ask_model env extra st continue))"
proof (cases "trim_conversation (vs_talk st) 16")
  case (Inl e)
  then show ?thesis using assms(1) by (simp add: ask_model_def)
next
  case (Inr messages)
  obtain r v where l: "vw_llm env (messages @ extra) (vs_world st) = (r, v)" by fastforce
  have "from_world w (st\<lparr>vs_world := v\<rparr>)"
    using assms(1) llm_keeps [OF l] R_trans by (auto simp: from_world_def)
  then show ?thesis using Inr l assms(2) by (cases r) (simp_all add: ask_model_def)
qed

lemma loop_keeps:
  assumes "\<And>st. from_world w st \<Longrightarrow> from_world w (fst (turn st))" and "from_world w st" and "run_loop turn n st = Some (st', r)"
  shows "from_world w st'"
proof -
  have "turn_invariant turn (from_world w) (\<lambda>st r. from_world w st)"
    by unfold_locales (use assms(1) in \<open>metis fst_conv\<close>)+
  from turn_invariant.loop_post [OF this assms(2,3)] show ?thesis .
qed

end

end
