(* ===== verification/Explore.thy ===== *)
theory Explore
  imports Inspection PyRegex
begin

text \<open>
  \<open>src/agents/orchestrator_explore.py\<close>: the exploration a plan is made from. The orientation of the
  workspace; then rounds in which the model calls read tools or answers with a plan, until a plan
  validates, the budget of calls is used up or two replies in a row are unreadable. One turn is one reply;
  there is no bound on the number of replies, so the loop has one (\<open>None\<close> is a loop still running).
\<close>

section \<open>The orientation\<close>

definition file_exts :: "string list" where
  "file_exts = [''html'', ''htm'', ''py'', ''js'', ''jsx'', ''ts'', ''tsx'', ''json'', ''md'', ''css'', ''yaml'', ''yml'',
     ''toml'', ''xml'', ''vue'']"

definition path_char :: "char \<Rightarrow> bool" where
  "path_char c = (is_word c \<or> c \<in> {CHR ''.'', CHR ''/'', CHR ''-''})"

definition is_quote :: "char \<Rightarrow> bool" where
  "is_quote c = (c = squote \<or> c = dquote)"

definition tick_or_quote :: "char \<Rightarrow> bool" where
  "tick_or_quote c = (is_quote c \<or> c = CHR ''`'')"

definition file_path_parts :: parts where
  "file_path_parts =
     [(False, Opt (Chars tick_or_quote)),
      (True, seqs [Plus (Chars path_char), lit ''.'', fold Alt (map lit_ci (rev (butlast file_exts))) (lit_ci (last file_exts))]),
      (False, Opt (Chars tick_or_quote))]"

fun times :: "nat \<Rightarrow> rx \<Rightarrow> rx" where
  "times 0 r = Eps"
| "times (Suc n) r = Seq r (times n r)"

definition quoted_parts :: parts where
  "quoted_parts =
     [(False, Chars is_quote),
      (True, Seq (times 3 (Chars (\<lambda>c. \<not> is_quote c))) (Upto 77 (Chars (\<lambda>c. \<not> is_quote c)))),
      (False, Chars is_quote)]"

definition port_parts :: parts where
  "port_parts =
     [(True, seqs [WordB, Alt (lit ''localhost'') (lit ''127.0.0.1''), lit '':'',
        Seq (times 2 (Chars is_digit)) (Upto 3 (Chars is_digit)), WordB])]"

definition url_parts :: parts where
  "url_parts =
     [(True, seqs [lit ''http'', Opt (lit ''s''), lit ''://'',
        Plus (Chars (\<lambda>c. \<not> is_space c \<and> \<not> is_quote c \<and> c \<noteq> CHR ''<'' \<and> c \<noteq> CHR ''>''))])]"

definition add_pattern :: "string \<Rightarrow> string list \<Rightarrow> string list" where
  "add_pattern raw patterns =
     (let token = py_strip raw in if token = [] \<or> token \<in> set patterns then patterns else patterns @ [token])"

definition add_file :: "string \<Rightarrow> string list \<Rightarrow> string list" where
  "add_file f patterns = add_pattern (py_replace ''workspace/'' [] f) (add_pattern (path_name (path_of f)) patterns)"

definition add_target :: "string \<Rightarrow> string list \<Rightarrow> string list" where
  "add_target f patterns = add_pattern (path_name (path_of f)) (add_pattern f patterns)"

definition plan_targets :: "obj \<Rightarrow> string list res" where
  "plan_targets previous_plan =
     bindR (py_iter (dget previous_plan ''milestones'' (JList []))) (\<lambda>xs.
     bindR (mapR (\<lambda>x. bindR (as_obj x) (\<lambda>m. py_iter (dget m ''target_files'' (JList [])))) xs) (\<lambda>tss.
       Inr (map py_str (concat tss))))"

definition defect_words :: "string list" where
  "defect_words = [''error'', ''fail'', ''bug'', ''fix'', ''localhost'', ''Exception'']"

definition grep_patterns_from_request :: "string \<Rightarrow> obj \<Rightarrow> string list res" where
  "grep_patterns_from_request user_request previous_plan =
     (let found = (\<lambda>ps. concat (rx_all ps user_request));
          p1 = fold add_file (found file_path_parts) [];
          p2 = fold add_pattern (found quoted_parts @ found port_parts @ found url_parts) p1
      in bindR (plan_targets previous_plan) (\<lambda>targets.
         Inr (fold add_pattern (filter (\<lambda>w. contains (py_lower w) (py_lower user_request)) defect_words)
                (fold add_target targets p2))))"

text \<open>The sections of the orientation, each from the answer of a read-only tool. \<open>', '.join\<close> raises on what is no text.\<close>

definition join_texts :: "json \<Rightarrow> string res" where
  "join_texts j =
     bindR (py_iter (py_or j (JList []))) (\<lambda>xs.
     bindR (mapR (\<lambda>x. case x of JStr s \<Rightarrow> Inr s | _ \<Rightarrow> Inl TypeError) xs) (\<lambda>ts. Inr (py_join '', '' ts)))"

definition or_none :: "string \<Rightarrow> string" where
  "or_none s = (if s = [] then ''(none)'' else s)"

definition project_section :: "obj \<Rightarrow> string list res" where
  "project_section project =
     (if \<not> truthy (dget project ''success'' JNull) then Inr []
      else bindR (join_texts (dget project ''ecosystems'' JNull)) (\<lambda>ecosystems.
           bindR (join_texts (dget project ''manifests'' JNull)) (\<lambda>manifests.
             Inr [''### Project'' @ nl # ''- ecosystems: '' @ or_none ecosystems @ nl # ''- manifests: '' @ or_none manifests @ [nl]])))"

definition tree_section :: "obj \<Rightarrow> string list" where
  "tree_section tree =
     (if truthy (dget tree ''success'' JNull)
      then [''### Directory tree'' @ nl # ''```'' @ nl # take 4000 (get_str tree ''tree'' []) @ nl # ''```'' @ [nl]]
      else [])"

definition completed_section :: "obj \<Rightarrow> string list res" where
  "completed_section previous_plan =
     (if previous_plan = [] then Inr []
      else bindR (py_iter (dget previous_plan ''milestones'' (JList []))) (\<lambda>xs.
           bindR (mapR as_obj xs) (\<lambda>ms.
           let completed = map (\<lambda>m. dget m ''id'' (JStr ''?'')) (filter (\<lambda>m. dget m ''status'' JNull = JStr ''completed'') ms)
           in if completed = [] then Inr []
              else bindR (join_texts (JList completed)) (\<lambda>ids.
                   Inr [''### Previous plan milestones (completed)'' @ nl # ids @ [nl]]))))"

definition match_line :: "obj \<Rightarrow> string" where
  "match_line m =
     ''  '' @ py_str (dget m ''file'' JNull) @ '':'' @ py_str (dget m ''line_no'' JNull) @ '': ''
     @ take 120 (get_strip m ''text'' [])"

definition grep_section :: "string \<Rightarrow> obj \<Rightarrow> string list res" where
  "grep_section pattern result =
     (if \<not> truthy (dget result ''success'' JNull) then Inr []
      else bindR (py_iter (py_or (dget result ''matches'' JNull) (JList []))) (\<lambda>matches.
           if matches = [] then Inr [''- `'' @ pattern @ ''` -> no matches'' @ [nl]]
           else bindR (mapR as_obj (take 8 matches)) (\<lambda>ms.
             let extra = int (length matches) - 8
             in Inr [''- `'' @ pattern @ ''`'' @ nl # py_join [nl] (map match_line ms) @ [nl]
                     @ (if 0 < extra then ''  ... +'' @ int_str extra @ '' more'' @ [nl] else [])])))"

text \<open>\<open>look\<close> is \<open>dispatch\<close> on the workspace as it is: these tools change nothing.\<close>

definition build_workspace_orientation :: "(string \<Rightarrow> obj \<Rightarrow> obj) \<Rightarrow> string \<Rightarrow> obj \<Rightarrow> string res" where
  "build_workspace_orientation look user_request previous_plan =
     bindR (project_section (look ''project_info'' [(''max_entries'', JInt 80)])) (\<lambda>project.
     let tree = tree_section (look ''list_directory'' [(''target_dir'', JStr ''.''), (''max_depth'', JInt 4)])
     in bindR (completed_section previous_plan) (\<lambda>completed.
        bindR (grep_patterns_from_request user_request previous_plan) (\<lambda>all_patterns.
        let patterns = take 6 all_patterns
        in bindR (mapR (\<lambda>p. grep_section p (look ''search_grep'' [(''query'', JStr p), (''target_dir'', JStr ''.'')])) patterns) (\<lambda>hits.
           Inr (py_join [nl]
             ([''## Session orientation (harness preflight)'' @ [nl]] @ project @ tree @ completed
              @ (if patterns = [] then [] else [''### Grep preflight'' @ [nl]] @ concat hits)))))))"

section \<open>The opening\<close>

definition explore_tools_md :: string where
  \<open>explore_tools_md = py_join [nl]
     [''## Read-only exploration tools'', [],
      ''You may call these tools to orient yourself before emitting the plan.'',
      ''You must NOT modify files - planning only.'', [],
      ''| Tool | Purpose |'', ''|------|---------|'',
      ''| `search_grep` | Find symbols, strings, URLs - **use this first** |'',
      ''| `read_file` | Read a slice (`offset`, `limit` lines) after grep narrows the target |'',
      ''| `list_directory` | Directory tree |'',
      ''| `project_info` | Ecosystem manifests and bounded file list |'',
      ''| `git_diff` | Recent uncommitted changes |'',
      ''| `view_git_log` | Recent commits (`limit` <= 5) |'', [],
      ''Rules:'',
      ''- **grep before read** - never read a whole large file without grep first.'',
      ''- `read_file` must use `offset` and `limit` unless the file is tiny (<80 lines).'',
      ''- `target_files` in the final plan must be files you found via these tools.'',
      ''- Acceptance criteria describe observable behavior, not line numbers.'', [],
      ''Emit ONE JSON object per turn - either a tool call or the final plan:'', [],
      ''```json'',
      ''{"tool": "search_grep", "args": {"query": "8080"}, "reasoning": "Locate endpoint config."}'',
      ''```'', [], ''When ready, emit the plan:'', [],
      ''```json'', ''{"action": "plan", "plan": { ... full plan object ... }}'', ''```'', []]\<close>

definition previous_section :: "obj \<Rightarrow> string" where
  "previous_section previous_plan =
     (if previous_plan = [] then []
      else ''## Previous Plan (summary)'' @ nl # ''```json'' @ nl
           # take 8000 (json_dumps (Some 2) (JObj previous_plan)) @ nl # ''```'' @ [nl, nl])"

definition explore_prompt :: "exploration \<Rightarrow> string" where
  \<open>explore_prompt ex =
     ex_orientation ex @ [nl, nl] @ ''## Run Mode'' @ nl # ex_kind ex @ [nl, nl]
     @ ''## Parent Plan'' @ nl # shown_parent (ex_parent ex) @ [nl, nl] @ preference_section (ex_preference ex)
     @ ''## User Request'' @ nl # ex_request ex @ [nl, nl] @ previous_section (ex_previous ex)
     @ triage_section 8000 (ex_triage ex) @ explore_tools_md @ nl
     # ''Explore the workspace with read-only tools, then emit `{"action": "plan", "plan": {...}}`.''\<close>

section \<open>Calls\<close>

definition explore_calls :: "obj \<Rightarrow> string + obj list \<times> string option" where
  \<open>explore_calls = pick_calls ''The "calls" array must contain tool objects.''
     ''Emit {"tool": "...", "args": {...}, "reasoning": "..."} or {"action": "plan", "plan": {...}}.''
     ''NOTE: batch truncated to 3 calls.''\<close>

definition not_available :: "string \<Rightarrow> string" where
  "not_available tool =
     ''Tool `'' @ tool @ ''` is not available during exploration. Allowed: '' @ repr_strs (py_sorted_set read_tools)"

definition explore_call :: "'w viewer \<Rightarrow> obj \<Rightarrow> 'w view_state \<times> string list \<Rightarrow> 'w view_state \<times> string list" where
  "explore_call env call = (\<lambda>(st, outputs).
     (let tool = asked_tool call; args = asked_args call; who = role_fields ''orchestrator'' ''explore''
      in if tool \<notin> set read_tools then (st, outputs @ [not_available tool])
         else case validate_tool_call (JStr tool) args None of
           Some err \<Rightarrow> (st\<lparr>vs_count := vs_count st + 1\<rparr>, outputs @ [tool_text tool (compact_tool_result err)])
         | None \<Rightarrow>
             (case run_tool env (called_fields tool (args_dict args) (asked_why call) (vs_count st + 1) @ who)
                     tool (args_dict args) st of
                (result, st1) \<Rightarrow>
                  (let st2 = st1\<lparr>vs_count := vs_count st + 1\<rparr>
                   in (emitv env (''tool.result'',
                         result_fields tool result (vs_count st2) @ who
                         @ event_diagnostics (vw_sha env) tool args result (vw_duration env)) st2,
                       outputs @ [tool_text tool (compact_tool_result result)])))))"

section \<open>One turn\<close>

definition invalid_explore_json :: string where
  \<open>invalid_explore_json =
     ''Invalid JSON. Emit a tool call {"tool": "...", "args": {...}, "reasoning": "..."} or final plan {"action": "plan", "plan": {...}}.''\<close>

definition plan_not_object :: string where
  \<open>plan_not_object = ''"plan" must be a JSON object when action is "plan".''\<close>

definition explore_unreadable :: "string \<Rightarrow> 'w view_state \<Rightarrow> ('w, obj) turn" where
  "explore_unreadable raw st =
     (let st1 = st\<lparr>vs_bad := vs_bad st + 1\<rparr>
      in if 2 \<le> vs_bad st1
         then (st1, Some (Inl (RuntimeError ''Orchestrator exploration failed: invalid JSON after retries.'')))
         else (answer_both raw invalid_explore_json st1, None))"

definition explore_plan :: "'w viewer \<Rightarrow> string \<Rightarrow> string \<Rightarrow> obj \<Rightarrow> 'w view_state \<Rightarrow> ('w, obj) turn" where
  "explore_plan env mode raw parsed st =
     (case dget parsed ''plan'' JNull of
        JObj plan \<Rightarrow>
          (case validate_plan_payload plan of
             Some error \<Rightarrow>
               (answer_both raw (''Plan rejected: '' @ error @ ''. Fix and emit action=plan again.'') st, None)
           | None \<Rightarrow>
               (emitv env (''orchestrator.explore.finished'',
                  [(''tool_calls'', JInt (vs_count st)), (''mode'', JStr mode)]) st, Some (Inr plan)))
      | _ \<Rightarrow> (answer_both raw plan_not_object st, None))"

definition explore_batch :: "'w viewer \<Rightarrow> string \<Rightarrow> obj \<Rightarrow> 'w view_state \<Rightarrow> ('w, obj) turn" where
  "explore_batch env raw parsed st =
     (case explore_calls parsed of
        Inl error \<Rightarrow> (answer_both raw error st, None)
      | Inr (calls, note) \<Rightarrow>
          (case fold (explore_call env) calls (st, []) of
             (st1, outputs) \<Rightarrow> (answer_both raw (noted note outputs) st1, None)))"

definition explore_reply :: "'w viewer \<Rightarrow> string \<Rightarrow> string \<Rightarrow> 'w view_state \<Rightarrow> ('w, obj) turn" where
  "explore_reply env mode raw st =
     (case parse_agent_turn (vw_reader env) (vw_repair env) raw of
        None \<Rightarrow> explore_unreadable raw st
      | Some parsed \<Rightarrow>
          (let st1 = st\<lparr>vs_bad := 0\<rparr>
           in if dget parsed ''action'' JNull = JStr ''plan'' then explore_plan env mode raw parsed st1
              else explore_batch env raw parsed st1))"

definition explore_turn :: "'w viewer \<Rightarrow> int \<Rightarrow> string \<Rightarrow> 'w view_state \<Rightarrow> ('w, obj) turn" where
  "explore_turn env budget mode st =
     (if vs_count st < budget then ask_model env [] st (explore_reply env mode)
      else (st, Some (Inl (RuntimeError (''Orchestrator exploration exhausted budget ('' @ int_str budget
             @ '' tool calls) without emitting action=plan.'')))))"

definition run_orchestration_explore ::
    "nat \<Rightarrow> 'w viewer \<Rightarrow> int \<Rightarrow> exploration \<Rightarrow> 'w \<Rightarrow> ('w view_state \<times> obj res) option" where
  "run_orchestration_explore n env budget ex w =
     run_loop (explore_turn env budget (ex_mode ex)) n
       (emitv env (''orchestrator.explore.started'',
          [(''run_kind'', JStr (ex_kind ex)), (''mode'', JStr (ex_mode ex)), (''budget'', JInt budget)])
          (view_start (explore_prompt ex) w))"

section \<open>What an exploration does\<close>

text \<open>The calls it makes: read tools, with arguments that pass the contract of the tool.\<close>

definition read_call :: "string \<Rightarrow> obj \<Rightarrow> bool" where
  "read_call tool args \<longleftrightarrow> tool \<in> set read_tools \<and> validate_tool_call (JStr tool) (JObj args) None = None"

lemma validated_dict:
  assumes "validate_tool_call (JStr tool) args active = None"
  shows "args = JObj (args_dict args)"
  using assms by (cases args) (simp_all add: validate_tool_call_def args_dict_def split: if_split_asm)

lemma explore_valid:
  assumes "run_orchestration_explore n env budget ex w = Some (st, Inr plan)"
  shows "validate_plan_payload plan = None"
proof -
  let ?post = "\<lambda>st r. \<forall>plan. r = Inr plan \<longrightarrow> validate_plan_payload plan = None"
  have "turn_invariant (explore_turn env budget mode) (\<lambda>st. True) ?post" for mode
    by unfold_locales
       (auto simp: explore_turn_def ask_model_def explore_reply_def explore_unreadable_def explore_plan_def explore_batch_def
         Let_def split: if_split_asm sum.split_asm prod.split_asm option.split_asm json.split_asm)
  from turn_invariant.loop_post [OF this _ assms [unfolded run_orchestration_explore_def]] show ?thesis by simp
qed

context inspecting
begin

lemma explore_call_keeps:
  assumes "\<And>tool args. read_call tool args \<Longrightarrow> permitted tool args" and "from_world w (fst acc)"
  shows "from_world w (fst (explore_call env call acc))"
proof -
  let ?tool = "asked_tool call" let ?args = "asked_args call"
  obtain st outputs where acc: "acc = (st, outputs)" by fastforce
  show ?thesis
  proof (cases "?tool \<in> set read_tools \<and> validate_tool_call (JStr ?tool) ?args None = None")
    case True
    then have p: "permitted ?tool (args_dict ?args)"
      using assms(1) validated_dict [of ?tool ?args None] by (simp add: read_call_def)
    show ?thesis
      using True assms(2) acc run_tool_keeps [OF _ p] by (auto simp: explore_call_def Let_def split: prod.split)
  next
    case False
    then show ?thesis using assms(2) acc by (auto simp: explore_call_def Let_def)
  qed
qed

lemma explore_turn_keeps:
  assumes "\<And>tool args. read_call tool args \<Longrightarrow> permitted tool args" and "from_world w st"
  shows "from_world w (fst (explore_turn env budget mode st))"
proof -
  have batch: "from_world w (fst (explore_batch env raw parsed st1))" if "from_world w st1" for raw parsed st1
  proof (cases "explore_calls parsed")
    case (Inr cn)
    have "from_world w (fst (fold (explore_call env) (fst cn) (st1, [])))"
      by (rule fold_keeps [where P = "\<lambda>acc. from_world w (fst acc)"]) (use assms(1) that in \<open>auto intro: explore_call_keeps\<close>)
    then show ?thesis using Inr by (auto simp: explore_batch_def split: prod.split)
  qed (use that in \<open>simp add: explore_batch_def\<close>)
  have "from_world w (fst (explore_reply env mode raw st1))" if "from_world w st1" for raw st1
    using that batch
    by (auto simp: explore_reply_def explore_unreadable_def explore_plan_def Let_def split: option.split json.split)
  then show ?thesis using assms(2) by (auto simp: explore_turn_def intro: ask_model_keeps)
qed

lemma explore_keeps:
  assumes "\<And>tool args. read_call tool args \<Longrightarrow> permitted tool args"
    and "run_orchestration_explore n env budget ex w = Some (st, r)"
  shows "R w (vs_world st)"
  using loop_keeps [OF explore_turn_keeps [OF assms(1)] _ assms(2) [unfolded run_orchestration_explore_def]]
  by (simp add: from_world_def [symmetric])

end

end
