(* ===== verification/Review.thy ===== *)
theory Review
  imports Explore Contracts
begin

text \<open>
  \<open>src/agents/code_review.py\<close>: a model inspects the workspace with tools and ends with a report, which is
  normalised. The tools include \<open>run_checks\<close> and \<open>run_shellscript\<close>; the loop names no shell profile of its
  own. One turn is one reply, as in \<open>Explore\<close>. A report that does not normalise ends the review.
\<close>

record review_task =
  rv_request :: string
  rv_root :: ppath
  rv_previous :: obj
  rv_verify :: obj
  rv_budget :: int

definition review_tools :: "string list" where
  "review_tools =
     [''project_info'', ''probe_dependency'', ''list_directory'', ''search_grep'', ''read_file'', ''git_diff'',
      ''view_git_log'', ''run_checks'', ''run_shellscript'']"

definition review_tools_md :: string where
  \<open>review_tools_md = py_join [nl]
     [''## Read-only tools'', [],
      ''Use only: project_info, probe_dependency, list_directory, search_grep, read_file,'',
      ''git_diff, view_git_log, run_checks, run_shellscript.'', [],
      ''Search before reading large files. You cannot write, patch, install, commit, or'',
      ''start services. run_shellscript uses the read-only `review` profile: dependency'',
      ''presence probes (`python -c` with importlib find_spec, `python -m pip show/list`),'',
      ''`git status/diff/log`, `rg`, and listing only. Use probe_dependency first instead'',
      ''of importing heavy packages directly.'', [],
      ''### Tool call format (required)'', [],
      ''Emit EXACTLY ONE JSON object per turn. No XML tags, no markdown fences, no prose.'', [],
      ''Single tool:'',
      ''{"tool":"git_diff","args":{},"reasoning":"Inspect current changes first."}'', [],
      ''Batch (up to 3):'', ''{"calls":['',
      ''  {"tool":"git_diff","args":{},"reasoning":"Inspect current changes."},'',
      ''  {"tool":"read_file","args":{"file_path":"app.py"},"reasoning":"Read changed file."}'', '']}'', [],
      ''Finish with:'',
      ''{"action":"review","report":{"verdict":"clean","summary":"...","scope":"...","findings":[]}}'', []]\<close>

definition review_phase :: "review_task \<Rightarrow> string" where
  "review_phase rv = (if rv_verify rv = [] then ''review'' else ''review_verify'')"

definition verify_section :: "obj \<Rightarrow> string" where
  "verify_section findings =
     (if findings = [] then []
      else ''## Findings to verify after an attempted fix'' @ nl # ''```json'' @ nl
           # take 12000 (json_dumps (Some 2) (JObj findings)) @ nl # ''```'' @ nl
           # ''Re-check only these findings. Report clean only if their fix criteria are now satisfied.'' @ [nl])"

definition review_prompt :: "string \<Rightarrow> review_task \<Rightarrow> string" where
  \<open>review_prompt orientation rv =
     orientation @ [nl, nl] @ ''## User request'' @ nl # rv_request rv @ [nl, nl] @ review_tools_md @ nl
     # verify_section (rv_verify rv)
     @ ''Begin with read-only inspection. Finish with {"action":"review","report":{...}}.''\<close>

section \<open>Calls\<close>

definition review_calls :: "obj \<Rightarrow> string + obj list \<times> string option" where
  \<open>review_calls = pick_calls ''calls must contain tool-call objects''
     ''Emit {"tool":"...","args":{},"reasoning":"..."} or {"action":"review","report":{...}}.''
     ''Batch truncated to 3 calls.''\<close>

definition denied :: "string \<Rightarrow> string \<Rightarrow> string \<Rightarrow> string list \<Rightarrow> obj" where
  "denied category who tool tools =
     [(''success'', JBool False), (''error_category'', JStr category),
      (''error'', JStr (''`'' @ tool @ ''` denied: '' @ who @ '' is read-only. Allowed tools: '' @ repr_strs (py_sorted_set tools)))]"

text \<open>The result of a call - a refusal, a contract error, the tool - with the duration reported for it.\<close>

definition review_result :: "'w viewer \<Rightarrow> string \<Rightarrow> obj \<Rightarrow> 'w view_state \<Rightarrow> (obj \<times> json) \<times> 'w view_state" where
  "review_result env phase call st =
     (let tool = asked_tool call; args = asked_args call
      in if tool \<notin> set review_tools then ((denied ''review_tool_denied'' ''Code Review'' tool review_tools, JFloat ''0.0''), st)
         else case validate_tool_call (JStr tool) args None of
           Some err \<Rightarrow> ((err, JFloat ''0.0''), st)
         | None \<Rightarrow>
             (case run_tool env (role_fields ''reviewer'' phase
                     @ called_fields tool (args_dict args) (asked_why call) (vs_count st + 1)) tool (args_dict args) st of
                (result, st1) \<Rightarrow> ((result, vw_duration env), st1)))"

text \<open>Every call counts and is reported; the batch is left when the budget is reached.\<close>

definition review_call ::
    "'w viewer \<Rightarrow> string \<Rightarrow> int \<Rightarrow> obj \<Rightarrow> 'w view_state \<times> string list \<Rightarrow> ('w view_state \<times> string list) \<times> bool" where
  "review_call env phase budget call = (\<lambda>(st, outputs).
     (case review_result env phase call st of
        ((result, duration), st1) \<Rightarrow>
          (let tool = asked_tool call; st2 = st1\<lparr>vs_count := vs_count st1 + 1\<rparr>;
               st3 = emitv env (''tool.result'',
                 role_fields ''reviewer'' phase @ result_fields tool result (vs_count st2)
                 @ event_diagnostics (vw_sha env) tool (asked_args call) result duration) st2
           in ((st3, outputs @ [tool_text tool (compact_tool_result result)]), budget \<le> vs_count st3))))"

section \<open>One turn\<close>

definition invalid_review_json :: string where
  \<open>invalid_review_json = py_join [nl]
     [''Invalid output. Emit EXACTLY ONE JSON object - no XML `<tool_call>` tags, no markdown fences, no prose.'', [],
      ''Tool example: {"tool":"git_diff","args":{},"reasoning":"..."}'',
      ''Finish example: {"action":"review","report":{...}}'']\<close>

definition review_unreadable :: "string \<Rightarrow> 'w view_state \<Rightarrow> ('w, review_report) turn" where
  "review_unreadable raw st =
     (let st1 = st\<lparr>vs_bad := vs_bad st + 1\<rparr>
      in if 4 \<le> vs_bad st1
         then (st1, Some (Inl (RuntimeError ''Code Review agent repeatedly returned an unparseable response.'')))
         else (answer_both raw invalid_review_json st1, None))"

definition review_report_turn ::
    "'w viewer \<Rightarrow> (ppath \<Rightarrow> ppath) \<Rightarrow> review_task \<Rightarrow> obj \<Rightarrow> 'w view_state \<Rightarrow> ('w, review_report) turn" where
  "review_report_turn env resolve rv parsed st =
     (case normalize_review_report resolve (dget parsed ''report'' JNull) (rv_root rv) (vs_count st) of
        Inl e \<Rightarrow> (st, Some (Inl e))
      | Inr r \<Rightarrow>
          (emitv env (''review.completed'',
             [(''phase'', JStr (review_phase rv)), (''verdict'', JStr (rr_verdict r)),
              (''findings'', JInt (int (length (rr_findings r)))),
              (''actionable_findings'', JInt (int (length (actionable_findings r))))]) st, Some (Inr r)))"

definition review_batch :: "'w viewer \<Rightarrow> review_task \<Rightarrow> string \<Rightarrow> obj \<Rightarrow> 'w view_state \<Rightarrow> ('w, review_report) turn" where
  "review_batch env rv raw parsed st =
     (case review_calls parsed of
        Inl error \<Rightarrow> (answer_both raw error st, None)
      | Inr (calls, note) \<Rightarrow>
          (case until_left (review_call env (review_phase rv) (rv_budget rv)) calls (st, []) of
             (st1, outputs) \<Rightarrow>
               (answer_both raw
                  (noted note outputs @ [nl, nl] @ ''Continue reviewing or emit the final review report.'') st1, None)))"

definition review_reply ::
    "'w viewer \<Rightarrow> (ppath \<Rightarrow> ppath) \<Rightarrow> review_task \<Rightarrow> string \<Rightarrow> 'w view_state \<Rightarrow> ('w, review_report) turn" where
  "review_reply env resolve rv raw st =
     (case parse_agent_turn (vw_reader env) (vw_repair env) raw of
        None \<Rightarrow> review_unreadable raw st
      | Some parsed \<Rightarrow>
          (let st1 = st\<lparr>vs_bad := 0\<rparr>
           in if dget parsed ''action'' JNull = JStr ''review'' then review_report_turn env resolve rv parsed st1
              else review_batch env rv raw parsed st1))"

definition review_turn ::
    "'w viewer \<Rightarrow> (ppath \<Rightarrow> ppath) \<Rightarrow> review_task \<Rightarrow> 'w view_state \<Rightarrow> ('w, review_report) turn" where
  "review_turn env resolve rv st =
     (if \<not> vs_count st < rv_budget rv then
        (st, Some (Inl (RuntimeError (''Code Review exhausted '' @ int_str (rv_budget rv)
           @ '' read-only tool calls without returning a report.''))))
      else if vw_cancelled env (vs_world st) then (st, Some (Inl RunCancelled))
      else ask_model env [] st (review_reply env resolve rv))"

definition run_code_review ::
    "nat \<Rightarrow> 'w viewer \<Rightarrow> (string \<Rightarrow> obj \<Rightarrow> 'w \<Rightarrow> obj) \<Rightarrow> (ppath \<Rightarrow> ppath) \<Rightarrow> review_task \<Rightarrow> 'w \<Rightarrow>
       ('w view_state \<times> review_report res) option res" where
  "run_code_review n env look resolve rv w =
     bindR (build_workspace_orientation (\<lambda>tool args. look tool args w) (rv_request rv) (rv_previous rv)) (\<lambda>orientation.
       Inr (run_loop (review_turn env resolve rv) n
         (emitv env (''review.started'', [(''phase'', JStr (review_phase rv))])
            (view_start (review_prompt orientation rv) w))))"

section \<open>What a review does\<close>

definition review_ok :: "string \<Rightarrow> obj \<Rightarrow> bool" where
  "review_ok tool args \<longleftrightarrow> tool \<in> set review_tools \<and> validate_tool_call (JStr tool) (JObj args) None = None"

text \<open>A validated shell call reaches the dispatcher as the model wrote it, its profile included.\<close>

lemma review_passes_call_on:
  assumes "asked_tool call \<in> set review_tools" and "validate_tool_call (JStr (asked_tool call)) (asked_args call) None = None"
    and "vw_dispatch env (asked_tool call) (args_dict (asked_args call)) (vs_world st) = (result, w)"
  shows "fst (review_result env phase call st) = (result, vw_duration env) \<and>
    vs_world (snd (review_result env phase call st)) = w"
  using assms by (simp add: review_result_def Let_def run_tool_def)

context inspecting
begin

lemma review_call_keeps:
  assumes "\<And>tool args. review_ok tool args \<Longrightarrow> permitted tool args" and "from_world w (fst acc)"
  shows "from_world w (fst (fst (review_call env phase budget call acc)))"
proof -
  let ?tool = "asked_tool call" let ?args = "asked_args call"
  obtain st outputs where acc: "acc = (st, outputs)" by fastforce
  have "from_world w (snd (review_result env phase call st))"
  proof (cases "?tool \<in> set review_tools \<and> validate_tool_call (JStr ?tool) ?args None = None")
    case True
    then have p: "permitted ?tool (args_dict ?args)"
      using assms(1) validated_dict [of ?tool ?args None] by (simp add: review_ok_def)
    show ?thesis
      using True assms(2) acc run_tool_keeps [OF _ p] by (auto simp: review_result_def Let_def split: prod.split)
  next
    case False
    then show ?thesis using assms(2) acc by (auto simp: review_result_def Let_def)
  qed
  then show ?thesis using acc by (auto simp: review_call_def Let_def split: prod.split)
qed

lemma review_turn_keeps:
  assumes "\<And>tool args. review_ok tool args \<Longrightarrow> permitted tool args" and "from_world w st"
  shows "from_world w (fst (review_turn env resolve rv st))"
proof -
  have batch: "from_world w (fst (review_batch env rv raw parsed st1))" if "from_world w st1" for raw parsed st1
  proof (cases "review_calls parsed")
    case (Inr cn)
    have "from_world w (fst (until_left (review_call env (review_phase rv) (rv_budget rv)) (fst cn) (st1, [])))"
      by (rule until_left_keeps [where P = "\<lambda>acc. from_world w (fst acc)"]) (use assms(1) that in \<open>auto intro: review_call_keeps\<close>)
    then show ?thesis using Inr by (auto simp: review_batch_def split: prod.split)
  qed (use that in \<open>simp add: review_batch_def\<close>)
  have "from_world w (fst (review_reply env resolve rv raw st1))" if "from_world w st1" for raw st1
    using that batch
    by (auto simp: review_reply_def review_unreadable_def review_report_turn_def Let_def split: option.split sum.split)
  then show ?thesis using assms(2) by (auto simp: review_turn_def intro: ask_model_keeps)
qed

lemma review_keeps:
  assumes "\<And>tool args. review_ok tool args \<Longrightarrow> permitted tool args"
    and "run_code_review n env look resolve rv w = Inr (Some (st, r))"
  shows "R w (vs_world st)"
proof -
  obtain orientation where "run_loop (review_turn env resolve rv) n
      (emitv env (''review.started'', [(''phase'', JStr (review_phase rv))]) (view_start (review_prompt orientation rv) w))
        = Some (st, r)"
    using assms(2) by (auto simp: run_code_review_def bindR_eq_Inr)
  from loop_keeps [OF review_turn_keeps [OF assms(1)] _ this] show ?thesis by (simp add: from_world_def [symmetric])
qed

end

text \<open>A report that is returned is normalised and counts no more than the calls made.\<close>

lemma review_report_outcome:
  assumes "run_code_review n env look resolve rv w = Inr (Some (st, Inr rep))"
  shows "\<exists>payload. normalize_review_report resolve payload (rv_root rv) (vs_count st) = Inr rep"
proof -
  let ?post = "\<lambda>st r. \<forall>rep. r = Inr rep \<longrightarrow>
      (\<exists>payload. normalize_review_report resolve payload (rv_root rv) (vs_count st) = Inr rep)"
  have inv: "turn_invariant (review_turn env resolve rv) (\<lambda>st. True) ?post"
    by unfold_locales
       (auto simp: review_turn_def ask_model_def review_reply_def review_unreadable_def review_report_turn_def review_batch_def
         Let_def split: if_split_asm sum.split_asm prod.split_asm option.split_asm)
  obtain s0 where "run_loop (review_turn env resolve rv) n s0 = Some (st, Inr rep)"
    using assms by (auto simp: run_code_review_def bindR_eq_Inr)
  from turn_invariant.loop_post [OF inv _ this] show ?thesis by simp
qed

end
