(* ===== verification/Triage.thy ===== *)
theory Triage
  imports Explore Contracts
begin

text \<open>
  The two questions asked of a model about a run: the route of a request (\<open>src/agents/triage.py\<close>) and whether
  a bounded fix should become a mission (\<open>run_escalation_triage\<close> of \<open>src/agents/escalation.py\<close>). An exception
  of the model carries its text. The messages and the log of a session are texts, None when unreadable.
\<close>

record 'w advisor =
  av_llm :: "string \<Rightarrow> 'w \<Rightarrow> ((pyexn \<times> string) + string) \<times> 'w"
  av_look :: "string \<Rightarrow> obj \<Rightarrow> 'w \<Rightarrow> obj"
  av_messages :: "'w \<Rightarrow> string option"
  av_log :: "'w \<Rightarrow> string option"
  av_triage_md :: string
  av_escalation_md :: string
  av_reader :: reader
  av_repair :: "string \<Rightarrow> json option"
  av_emits :: bool

text \<open>A call of the model as a value, its exception included.\<close>

definition consult :: "'w advisor \<Rightarrow> string \<Rightarrow> ('w, 'z, (pyexn \<times> string) + string) desk_act" where
  "consult av prompt = on_world (\<lambda>w. case av_llm av prompt w of (r, w') \<Rightarrow> (Inr r, w'))"

section \<open>Triage\<close>

definition is_text :: "json \<Rightarrow> bool" where
  "is_text j = (case j of JStr s \<Rightarrow> py_strip s \<noteq> [] | _ \<Rightarrow> False)"

text \<open>
  The first complaint, if any. Membership in a set of strings raises for a list or a dictionary: the route
  and the confidence of a reply can make the check itself fail.
\<close>

definition complain :: "bool \<Rightarrow> string \<Rightarrow> string option res \<Rightarrow> string option res" where
  "complain bad message rest = (if bad then Inr (Some message) else rest)"

definition member_or_complain :: "json \<Rightarrow> string list \<Rightarrow> string \<Rightarrow> string option res \<Rightarrow> string option res" where
  "member_or_complain j xs message rest = bindR (in_str_set j xs) (\<lambda>ok. complain (\<not> ok) message rest)"

definition routes :: "string list" where "routes = [''mission'', ''hotfix'', ''review'']"
definition confidences :: "string list" where "confidences = [''high'', ''medium'', ''low'']"

definition validate_triage :: "obj option \<Rightarrow> string option res" where
  "validate_triage parsed =
     (case parsed of
        None \<Rightarrow> Inr (Some ''response was not a JSON object'')
      | Some d \<Rightarrow>
          (let at = (\<lambda>k. dget d k JNull)
           in complain (\<not> is_text (at ''summary'')) ''summary must be a non-empty string''
             (member_or_complain (at ''route'') routes ''route must be mission, hotfix, or review''
             (complain (\<not> is_text (at ''rationale'')) ''rationale must be a non-empty string''
             (complain (\<not> is_list (at ''evidence'')) ''evidence must be a list''
             (complain (\<not> is_list (at ''candidate_files'')) ''candidate_files must be a list''
             (complain (\<not> is_list (at ''constraints'')) ''constraints must be a list''
             (complain (\<not> is_list (at ''validation_intent'')) ''validation_intent must be a list''
             (member_or_complain (at ''confidence'') confidences ''confidence must be high, medium, or low''
               (Inr None))))))))))"

definition file_tail :: "string option \<Rightarrow> nat \<Rightarrow> nat \<Rightarrow> string \<Rightarrow> string" where
  "file_tail file lines chars missing =
     (case file of None \<Rightarrow> missing | Some s \<Rightarrow> last_n chars (py_join [nl] (last_n lines (line_list s))))"

definition read_recent_events :: "string option \<Rightarrow> string" where
  "read_recent_events file = file_tail file 80 12000 ''(events unavailable)''"

definition read_messages :: "string option \<Rightarrow> string" where
  "read_messages file = file_tail file 20 10000 ''(messages unavailable)''"

definition json_section :: "string \<Rightarrow> obj \<Rightarrow> nat \<Rightarrow> string" where
  "json_section title d limit =
     ''## '' @ title @ nl # ''```json'' @ nl # take limit (json_dumps (Some 2) (JObj d)) @ nl # ''```'' @ [nl, nl]"

text \<open>What triage is asked about; plan and profile are empty when there is none.\<close>

record triage_task =
  tt_request :: string
  tt_previous :: obj
  tt_profile :: obj

definition triage_prompt :: "'w advisor \<Rightarrow> triage_task \<Rightarrow> 'w \<Rightarrow> string res" where
  "triage_prompt av tt w =
     bindR (build_workspace_orientation (\<lambda>tool args. av_look av tool args w) (tt_request tt) (tt_previous tt)) (\<lambda>snapshot.
       Inr (av_triage_md av @ [nl, nl] @ ''---'' @ [nl, nl]
         @ ''## Incoming User Request'' @ nl # tt_request tt @ [nl, nl]
         @ ''## Session Conversation'' @ nl # ''```'' @ nl # read_messages (av_messages av w) @ nl # ''```'' @ [nl, nl]
         @ json_section ''Previous Plan'' (tt_previous tt) 12000 @ json_section ''Project Profile'' (tt_profile tt) 12000
         @ ''## Recent Session Events'' @ nl # ''```'' @ nl # read_recent_events (av_log av w) @ nl # ''```'' @ [nl, nl]
         @ ''## Current Workspace Snapshot'' @ nl # snapshot @ [nl, nl] @ ''Produce the triage JSON now.''))"

definition triage_correction :: "string \<Rightarrow> string \<Rightarrow> string \<Rightarrow> string" where
  "triage_correction prompt last_error reply =
     prompt @ [nl, nl] @ ''## CORRECTION REQUIRED'' @ nl # ''Your previous response was rejected: '' @ last_error @ ''.''
     @ nl # ''Previous response (truncated): '' @ take 1500 reply
     @ nl # ''Return only a valid JSON object matching the required triage schema.''"

definition triage_completed :: "obj \<Rightarrow> obj" where
  "triage_completed d =
     [(''route'', dget d ''route'' (JStr ''mission'')), (''rationale'', dget d ''rationale'' (JStr [])),
      (''confidence'', dget d ''confidence'' (JStr ''low'')), (''candidate_files'', dget d ''candidate_files'' (JList []))]"

text \<open>The prompt of the second attempt contains the first one.\<close>

fun triaging :: "'w advisor \<Rightarrow> nat \<Rightarrow> string \<Rightarrow> string \<Rightarrow> ('w, 'z, obj) desk_act" where
  "triaging av 0 prompt last_error =
     bindA (emit (av_emits av) ''triage.failed'' [(''error'', JStr last_error)]) (\<lambda>_.
       raiseA (RuntimeError (''Triage produced an invalid report: '' @ last_error)))"
| "triaging av (Suc k) prompt last_error =
     bindA (consult av prompt) (\<lambda>r. case r of
         Inl (e, _) \<Rightarrow> raiseA e
       | Inr reply \<Rightarrow>
           (let parsed = parse_json_from_text (av_reader av) (av_repair av) reply
            in bindA (liftA (validate_triage parsed)) (\<lambda>complaint. case complaint of
                 Some error \<Rightarrow> triaging av k (triage_correction prompt error reply) error
               | None \<Rightarrow>
                   (let d = (case parsed of None \<Rightarrow> [] | Some d \<Rightarrow> d)
                    in bindA (emit (av_emits av) ''triage.completed'' (triage_completed d)) (\<lambda>_. returnA d)))))"

definition triage_attempts :: nat where "triage_attempts = 2"

definition run_triage :: "'w advisor \<Rightarrow> triage_task \<Rightarrow> ('w, 'z, obj) desk_act" where
  "run_triage av tt =
     bindA (emit (av_emits av) ''triage.started'' []) (\<lambda>_.
     bindA (getA (\<lambda>s. triage_prompt av tt (dk_world s))) (\<lambda>p.
     bindA (liftA p) (\<lambda>prompt. triaging av triage_attempts prompt ''unknown'')))"

section \<open>The snapshot of a workspace\<close>

text \<open>
  Not called by the program. \<open>files\<close> are the regular files under the root; \<open>text\<close> is the content of a file
  that can be read.
\<close>

record disk =
  ds_files :: "ppath list"
  ds_text :: "ppath \<Rightarrow> string option"
  ds_exists :: "ppath \<Rightarrow> bool"
  ds_resolve :: "ppath \<Rightarrow> ppath"

definition snapshot_skip :: "string list" where
  "snapshot_skip = [''.git'', ''.pytest_cache'', ''.venv'', ''__pycache__'', ''node_modules'']"

definition workspace_files :: "disk \<Rightarrow> ppath \<Rightarrow> ppath list" where
  "workspace_files ds root =
     (if \<not> ds_exists ds root then []
      else sort_key path_str (filter (\<lambda>p. \<not> (\<exists>part\<in>set (p_parts p). part \<in> set snapshot_skip)
             \<and> py_lower (path_suffix p) \<in> set text_suffixes) (ds_files ds)))"

definition safe_workspace_path :: "(ppath \<Rightarrow> ppath) \<Rightarrow> ppath \<Rightarrow> string \<Rightarrow> ppath option" where
  "safe_workspace_path resolve root raw =
     (let candidate = path_of raw
      in if is_absolute candidate then (if inside root candidate then Some candidate else None)
         else (let resolved = resolve (path_join root candidate)
               in if inside (resolve root) resolved then Some resolved else None))"

definition add_candidate :: "disk \<Rightarrow> ppath \<Rightarrow> string \<Rightarrow> ppath list \<Rightarrow> ppath list" where
  "add_candidate ds root raw candidates =
     (case safe_workspace_path (ds_resolve ds) root raw of
        None \<Rightarrow> candidates
      | Some p \<Rightarrow> if ds_exists ds p \<and> p \<notin> set candidates then candidates @ [p] else candidates)"

definition traceback_parts :: parts where
  "traceback_parts =
     [(False, seqs [lit ''File'', Spaces1, Chars is_quote]), (True, Plus (Chars (\<lambda>c. \<not> is_quote c))), (False, Chars is_quote)]"

definition candidate_paths :: "disk \<Rightarrow> ppath \<Rightarrow> obj \<Rightarrow> string \<Rightarrow> ppath list res" where
  "candidate_paths ds root previous_plan user_request =
     bindR (plan_targets previous_plan) (\<lambda>targets.
     let named = fold (add_candidate ds root) (concat (rx_all traceback_parts user_request) @ targets) []
     in Inr (named @ filter (\<lambda>p. p \<notin> set named) (workspace_files ds root)))"

definition relative_text :: "ppath \<Rightarrow> ppath \<Rightarrow> string res" where
  "relative_text root p =
     (case relative_to p root of None \<Rightarrow> Inl (ValueError ''is not in the subpath of'') | Some r \<Rightarrow> Inr (path_str r))"

fun snapshot_sections :: "disk \<Rightarrow> ppath \<Rightarrow> nat \<Rightarrow> ppath list \<Rightarrow> string list res" where
  "snapshot_sections ds root used [] = Inr []"
| "snapshot_sections ds root used (p # ps) =
     (case ds_text ds p of
        None \<Rightarrow> snapshot_sections ds root used ps
      | Some t \<Rightarrow>
          bindR (relative_text root p) (\<lambda>rel.
          let s = ''### '' @ rel @ nl # ''```'' @ nl # take 8000 t @ nl # ''```'' @ [nl]
          in if 32000 < used + length s then Inr []
             else bindR (snapshot_sections ds root (used + length s) ps) (\<lambda>rest. Inr (s # rest))))"

definition workspace_snapshot :: "disk \<Rightarrow> ppath \<Rightarrow> obj \<Rightarrow> string \<Rightarrow> string res" where
  "workspace_snapshot ds root previous_plan user_request =
     bindR (candidate_paths ds root previous_plan user_request) (\<lambda>found.
     bindR (snapshot_sections ds root 0 (if found = [] then take 20 (workspace_files ds root) else found)) (\<lambda>sections.
     bindR (mapR (relative_text root) (take 80 (workspace_files ds root))) (\<lambda>rels.
     let files = py_join [nl] (map (\<lambda>r. ''- '' @ r) rels)
     in Inr (''### Workspace files'' @ nl # (if files = [] then ''(empty)'' else files) @ [nl, nl]
             @ ''### Selected file contents'' @ nl
             # (if concat sections = [] then ''(no readable text files)'' else concat sections)))))"

section \<open>Escalation\<close>

record escalation_task =
  et_review :: obj
  et_packet :: obj
  et_handoff :: obj
  et_verification :: obj
  et_diff :: string
  et_project :: obj

definition finding_text :: "obj \<Rightarrow> string" where
  "finding_text f =
     (let at = (\<lambda>k. py_str (dget f k JNull))
      in ''- ['' @ at ''severity'' @ ''/'' @ at ''confidence'' @ ''] '' @ at ''title'' @ '': files=''
         @ py_str (dget f ''affected_files'' (JList [])))"

text \<open>The first twelve findings; a slice of something that is neither a list nor a text raises.\<close>

definition summarize_findings :: "obj \<Rightarrow> string res" where
  "summarize_findings report =
     (case dget report ''findings'' (JList []) of
        JList xs \<Rightarrow>
          (let lines = map finding_text (objects_of (take 12 xs))
           in Inr (if py_join [nl] lines = [] then ''(no findings)'' else py_join [nl] lines))
      | JStr _ \<Rightarrow> Inr ''(no findings)''
      | _ \<Rightarrow> Inl TypeError)"

definition escalation_prompt :: "'w advisor \<Rightarrow> escalation_task \<Rightarrow> string res" where
  "escalation_prompt av et =
     bindR (summarize_findings (et_review et)) (\<lambda>findings.
       Inr (av_escalation_md av @ [nl, nl] @ ''---'' @ [nl, nl]
         @ ''## Review summary'' @ nl # take 4000 (get_str (et_review et) ''summary'' []) @ [nl, nl]
         @ ''## Findings'' @ nl # findings @ [nl, nl]
         @ json_section ''Hotfix packet'' (et_packet et) 4000 @ json_section ''Hotfix handoff'' (et_handoff et) 3000
         @ json_section ''Verification'' (et_verification et) 3000
         @ ''## Diff summary'' @ nl # take 4000 (et_diff et) @ [nl, nl]
         @ json_section ''Project'' (et_project et) 3000 @ ''Emit the escalation JSON now.''))"

definition escalation_failed :: "string \<Rightarrow> obj" where
  "escalation_failed error =
     AList.update ''source'' (JStr ''deterministic'')
       (AList.update ''reason'' (JStr (''Escalation LLM failed ('' @ error @ ''); defaulting to bounded fix.''))
         (escalation_to_dict (normalize_escalation_decision JNull)))"

definition escalation_of :: "'w advisor \<Rightarrow> (pyexn \<times> string) + string \<Rightarrow> obj" where
  "escalation_of av r =
     (case r of
        Inl (_, error) \<Rightarrow> escalation_failed error
      | Inr reply \<Rightarrow>
          escalation_to_dict (normalize_escalation_decision
            (opt_json (parse_json_from_text (av_reader av) (av_repair av) reply))))"

definition run_escalation_triage :: "'w advisor \<Rightarrow> escalation_task \<Rightarrow> ('w, 'z, obj) desk_act" where
  "run_escalation_triage av et =
     bindA (emit (av_emits av) ''escalation.started'' []) (\<lambda>_.
     bindA (liftA (escalation_prompt av et)) (\<lambda>prompt.
     bindA (consult av prompt) (\<lambda>r.
     let decision = escalation_of av r; at = (\<lambda>k. dget decision k JNull)
     in bindA (emit (av_emits av) ''escalation.completed''
          [(''decision'', at ''decision''), (''scope_type'', at ''scope_type''), (''risk'', at ''risk''),
           (''reason'', JStr (take 500 (get_str decision ''reason'' [])))]) (\<lambda>_. returnA decision))))"

section \<open>What is answered\<close>

lemma wp_consult [wp_simps]:
  "wp (consult av prompt) Q s = (case av_llm av prompt (dk_world s) of (r, w) \<Rightarrow> Q (Inr r) (s\<lparr>dk_world := w\<rparr>))"
  by (simp add: consult_def on_world_def wp_def split: prod.split)

definition triage_ok :: "obj \<Rightarrow> bool" where
  "triage_ok d \<longleftrightarrow>
     is_text (dget d ''summary'' JNull) \<and> (\<exists>r\<in>set routes. dget d ''route'' JNull = JStr r) \<and>
     is_text (dget d ''rationale'' JNull) \<and> (\<exists>c\<in>set confidences. dget d ''confidence'' JNull = JStr c) \<and>
     (\<forall>k\<in>{''evidence'', ''candidate_files'', ''constraints'', ''validation_intent''}. is_list (dget d k JNull))"

lemma in_str_set_Inr: "in_str_set j xs = Inr True \<Longrightarrow> \<exists>x\<in>set xs. j = JStr x"
  by (cases j) auto

lemma validate_triage_None: "validate_triage (Some d) = Inr None \<Longrightarrow> triage_ok d"
  by (auto simp: validate_triage_def complain_def member_or_complain_def triage_ok_def Let_def
      split: if_split_asm dest!: in_str_set_Inr)

lemma validate_triage_Nothing: "validate_triage None \<noteq> Inr None"
  by (simp add: validate_triage_def)

lemma asked_consult: "asked.framed (consult av prompt)"
  unfolding consult_def by (rule asked_on_world)

lemma triaging_ok:
  fixes s :: "('w, 'z) desk_scheme"
  shows "wp (triaging av k prompt error) (\<lambda>r t. \<forall>d. r = Inr d \<longrightarrow> triage_ok d) s"
proof (induction k arbitrary: prompt error s)
  case 0
  show ?case by (simp add: wp_simps emit_def)
next
  case (Suc k)
  show ?case
    unfolding triaging.simps
  proof (rule wp_bindI [where P = "\<lambda>r t. True"])
    fix r :: "(pyexn \<times> string) + string" and t :: "('w, 'z) desk_scheme"
    show "wp (case r of Inl (e, _) \<Rightarrow> raiseA e | Inr reply \<Rightarrow>
        (let parsed = parse_json_from_text (av_reader av) (av_repair av) reply
         in bindA (liftA (validate_triage parsed)) (\<lambda>complaint. case complaint of
              Some error \<Rightarrow> triaging av k (triage_correction prompt error reply) error
            | None \<Rightarrow> (let d = (case parsed of None \<Rightarrow> [] | Some d \<Rightarrow> d)
                in bindA (emit (av_emits av) ''triage.completed'' (triage_completed d)) (\<lambda>_. returnA d)))))
        (\<lambda>r t. \<forall>d. r = Inr d \<longrightarrow> triage_ok d) t"
      using validate_triage_None validate_triage_Nothing
      by (auto simp: Let_def wp_simps emit_def split: sum.split option.split simp: Suc)
  qed simp_all
qed

lemma run_triage_ok: "wp (run_triage av tt) (\<lambda>r t. \<forall>d. r = Inr d \<longrightarrow> triage_ok d) s"
  unfolding run_triage_def
  by (rule wp_bindI [where P = "\<lambda>r t. True"])
     (auto simp: wp_simps emit_def triaging_ok split: sum.split)

text \<open>A reply whose route is a list is not corrected: the check itself raises.\<close>

lemma triage_list_route_raises:
  assumes "parse_json_from_text (av_reader av) (av_repair av) reply = Some d"
    and "is_text (dget d ''summary'' JNull)" and "dget d ''route'' JNull = JList xs"
    and "av_llm av prompt (dk_world s) = (Inr reply, w)"
  shows "triaging av (Suc k) prompt error s = (Inl TypeError, s\<lparr>dk_world := w\<rparr>)"
  using assms
  by (simp add: bindA_def consult_def on_world_def liftA_def Let_def validate_triage_def complain_def member_or_complain_def)

text \<open>An absolute path is accepted when it begins like the root, whatever follows.\<close>

lemma safe_absolute_path_escapes:
  "safe_workspace_path lexical_resolve (path_of ''/w'') ''/w/../etc/passwd'' = Some (path_of ''/w/../etc/passwd'') \<and>
   \<not> inside (path_of ''/w'') (lexical_resolve (path_of ''/w/../etc/passwd''))"
  by code_simp

definition escalation_ok :: "obj \<Rightarrow> bool" where
  "escalation_ok d \<longleftrightarrow>
     (\<exists>v. dget d ''decision'' JNull = JStr v \<and> v \<in> set [''stay_hotfix'', ''escalate_mission'']) \<and>
     (\<exists>v. dget d ''risk'' JNull = JStr v \<and> v \<in> set [''low'', ''medium'', ''high'']) \<and>
     (\<exists>v. dget d ''reason'' JNull = JStr v)"

lemma escalation_of_ok: "escalation_ok (escalation_of av r)"
proof -
  have "escalation_ok (escalation_to_dict (normalize_escalation_decision j))" for j
    using normalize_escalation_ok(1,3) [of "normalize_escalation_decision j" j]
    by (auto simp: escalation_ok_def escalation_to_dict_def dget_def)
  moreover have "escalation_ok (escalation_failed e)" for e
    by (simp add: escalation_ok_def escalation_failed_def escalation_to_dict_def dget_def normalize_escalation_decision_def)
  ultimately show ?thesis by (simp add: escalation_of_def split: sum.split prod.split)
qed

text \<open>
  Escalation never depends on the model being there: an exception of the model is a stay, and the only
  exception left is a review whose findings are neither a list nor a text.
\<close>

lemma run_escalation_outcome:
  "wp (run_escalation_triage av et)
     (\<lambda>r t. (\<exists>d. r = Inr d \<and> escalation_ok d) \<or> (r = Inl TypeError \<and> summarize_findings (et_review et) = Inl TypeError)) s"
proof (cases "summarize_findings (et_review et)")
  case (Inl e)
  then have "e = TypeError" by (auto simp: summarize_findings_def Let_def split: json.split_asm)
  then show ?thesis using Inl by (simp add: run_escalation_triage_def escalation_prompt_def wp_simps)
next
  case (Inr findings)
  then show ?thesis
    by (simp add: run_escalation_triage_def escalation_prompt_def wp_simps Let_def escalation_of_ok split: prod.split)
qed

lemma asked_triaging: "asked.framed (triaging av k prompt error)"
proof (induction k arbitrary: prompt error)
  case 0
  show ?case by (simp add: asked.framed_rules asked_emit)
next
  case (Suc k)
  show ?case
    unfolding triaging.simps Let_def by (intro asked.framed_rules asked_consult asked_emit Suc)
qed

lemma asked_run_triage: "asked.framed (run_triage av tt)"
  unfolding run_triage_def by (intro asked.framed_rules asked_emit asked_triaging)

lemma asked_escalation: "asked.framed (run_escalation_triage av et)"
  unfolding run_escalation_triage_def Let_def by (intro asked.framed_rules asked_emit asked_consult)

end
