(* ===== verification/Hotfix.thy ===== *)
theory Hotfix
  imports WorkerLaws Contracts
begin

text \<open>
  \<open>src/agents/hotfix.py\<close>: the worker under another role, with its own prompt and budget (parts of \<open>wenv\<close>);
  its result is completed by a normalised report, and two events frame those of the worker.
\<close>

definition hotfix_id :: "obj \<Rightarrow> json" where
  "hotfix_id milestone = dget milestone ''id'' (JStr ''HOTFIX'')"

definition hotfix_started :: "obj \<Rightarrow> int \<Rightarrow> event" where
  "hotfix_started milestone retry = (''hotfix.started'', [(''milestone_id'', hotfix_id milestone), (''retry'', JInt retry)])"

definition hotfix_finished :: "obj \<Rightarrow> obj \<Rightarrow> event" where
  "hotfix_finished milestone result =
     (''hotfix.finished'',
      [(''milestone_id'', hotfix_id milestone), (''status'', dget result ''status'' (JStr ''blocked'')),
       (''files_modified'', dget result ''files_modified'' (JList []))])"

definition hotfix_to_dict :: "hotfix_result \<Rightarrow> obj" where
  "hotfix_to_dict h =
     [(''status'', JStr (hr_status h)), (''diagnosis'', JStr (hr_diagnosis h)),
      (''files_modified'', JList (map JStr (hr_files_modified h))), (''summary'', JStr (hr_summary h)),
      (''requested_scope'', JList (map JStr (hr_requested_scope h)))]"

definition report_hotfix :: "'w wenv \<Rightarrow> obj \<Rightarrow> int \<Rightarrow> 'w wstate \<times> obj res \<Rightarrow> 'w wstate \<times> obj res" where
  "report_hotfix env milestone retry = (\<lambda>(st, r).
     (let st1 = (if we_emits env then st\<lparr>ws_events := hotfix_started milestone retry # ws_events st\<rparr> else st)
      in case bindR r (\<lambda>result. bindR (normalize_hotfix_result (JObj result)) (\<lambda>h.
                Inr (AList.update ''hotfix_result'' (JObj (hotfix_to_dict h)) result))) of
           Inl e \<Rightarrow> (st1, Inl e)
         | Inr result \<Rightarrow> (emitw env (hotfix_finished milestone result) st1, Inr result)))"

definition run_hotfix ::
    "nat \<Rightarrow> 'w wenv \<Rightarrow> probe \<Rightarrow> int list \<Rightarrow> ppath \<Rightarrow> assignment \<Rightarrow> obj \<Rightarrow> 'w \<Rightarrow> ('w wstate \<times> obj res) option res" where
  "run_hotfix n env pb ports ws op milestone w =
     (let henv = env\<lparr>we_role := ''hotfix''\<rparr>
      in bindR (run_worker n henv pb ports ws op milestone w) (\<lambda>r.
           Inr (map_option (report_hotfix henv milestone (op_retry op)) r)))"

section \<open>A hotfix is a run of the worker\<close>

text \<open>What the report adds to the result of the worker; status, summary and world stay.\<close>

lemma run_hotfix_worker:
  assumes "run_hotfix n env pb ports ws op milestone w = Inr (Some (st, Inr result))"
  shows "\<exists>st0 result0. run_worker n (env\<lparr>we_role := ''hotfix''\<rparr>) pb ports ws op milestone w = Inr (Some (st0, Inr result0)) \<and>
    ws_world st = ws_world st0 \<and> (\<forall>k. k \<noteq> ''hotfix_result'' \<longrightarrow> map_of result k = map_of result0 k)"
proof -
  obtain st0 r0 where w: "run_worker n (env\<lparr>we_role := ''hotfix''\<rparr>) pb ports ws op milestone w = Inr (Some (st0, r0))"
      and r: "report_hotfix (env\<lparr>we_role := ''hotfix''\<rparr>) milestone (op_retry op) (st0, r0) = (st, Inr result)"
    using assms by (auto simp: run_hotfix_def Let_def bindR_eq_Inr)
  show ?thesis using w r by (cases r0) (auto simp: report_hotfix_def Let_def split: sum.split_asm if_split_asm)
qed

text \<open>The report says what the worker says.\<close>

lemma run_hotfix_status:
  assumes "run_hotfix n env pb ports ws op milestone w = Inr (Some (st, Inr result))"
  shows "\<exists>h. map_of result ''hotfix_result'' = Some (JObj (hotfix_to_dict h)) \<and>
    hr_status h \<in> set [''complete'', ''blocked'', ''request_scope'', ''cancelled'']"
proof -
  have s: "hr_status h \<in> set [''complete'', ''blocked'', ''request_scope'', ''cancelled'']"
    if "normalize_hotfix_result (JObj d) = Inr h" for d h
    using that by (auto simp: normalize_hotfix_result_def Let_def one_of_def split: if_split_asm)
  obtain st0 r0 where "report_hotfix (env\<lparr>we_role := ''hotfix''\<rparr>) milestone (op_retry op) (st0, r0) = (st, Inr result)"
    using assms by (auto simp: run_hotfix_def Let_def bindR_eq_Inr)
  then obtain d h where "normalize_hotfix_result (JObj d) = Inr h" "map_of result ''hotfix_result'' = Some (JObj (hotfix_to_dict h))"
    by (cases r0) (auto simp: report_hotfix_def Let_def bindR_eq_Inr split: sum.split_asm if_split_asm)
  then show ?thesis using s by blast
qed

end
