(* ===== verification/Readers.thy ===== *)
theory Readers
  imports Ask Triage Hotfix Policy
begin

text \<open>
  The read-only agents on the program's own parts: the dispatcher and file tools of \<open>FileOps\<close>, and the
  orchestrator whose explorations are those of \<open>Explore\<close>. An exploration that is still busy after a number
  of replies is cancelled by its user.
\<close>

section \<open>Readers on the file tools\<close>

definition file_viewer :: "fs_env \<Rightarrow> (message list \<Rightarrow> string) \<Rightarrow> tool_state viewer" where
  "file_viewer fe model =
     \<lparr>vw_llm = (\<lambda>messages ts. (Inr (model messages), ts)), vw_dispatch = dispatch fe no_other,
      vw_cancelled = (\<lambda>ts. False), vw_emits = True, vw_reader = \<lparr>rd_float = (\<lambda>s. s), rd_code = (\<lambda>n. [])\<rparr>,
      vw_repair = (\<lambda>t. None), vw_sha = (\<lambda>s. s), vw_duration = JFloat ''0.0''\<rparr>"

definition same_fs :: "tool_state \<Rightarrow> tool_state \<Rightarrow> bool" where
  "same_fs ts ts' \<longleftrightarrow> ts_fs ts' = ts_fs ts"

text \<open>\<open>read_file\<close> remembers what it has read and changes no file.\<close>

lemma read_dispatch: "same_fs ts (snd (dispatch fe other ''read_file'' args ts))"
proof -
  have l: "''read_file'' \<in> set file_tools" by (simp add: file_tools_def)
  have "ts_fs (snd (read_file fe p off lim ts)) = ts_fs ts" for p off lim
    by (auto simp: read_file_def Let_def split: sum.splits if_splits prod.splits option.splits)
  then show ?thesis
    unfolding dispatch_file_tool [OF l] same_fs_def
    by (auto simp: file_call_def file_tool_def raise_in_def split: sum.splits)
qed

lemma other_dispatch:
  assumes "tool \<notin> set file_tools"
  shows "snd (dispatch fe no_other tool args ts) = ts"
  using assms by (simp add: dispatch_def Let_def no_other_def)

lemma reading_dispatch:
  assumes "tool \<notin> {''write_file'', ''patch_file''}"
  shows "same_fs ts (snd (dispatch fe no_other tool args ts))"
proof (cases "tool \<in> set file_tools")
  case True
  then have "tool = ''read_file'' \<or> tool = ''list_directory''" using assms by (auto simp: file_tools_def)
  then show ?thesis using read_dispatch list_dispatch by (auto simp: same_fs_def)
qed (simp add: other_dispatch same_fs_def)

definition reading :: "string \<Rightarrow> obj \<Rightarrow> bool" where
  "reading tool args \<longleftrightarrow> tool \<notin> {''write_file'', ''patch_file''}"

interpretation fv: inspecting same_fs "file_viewer fe model" reading for fe model
proof
  show "same_fs s s" for s by (simp add: same_fs_def)
  show "same_fs s t \<Longrightarrow> same_fs t u \<Longrightarrow> same_fs s u" for s t u by (simp add: same_fs_def)
  show "same_fs w w'" if "reading tool args" "vw_dispatch (file_viewer fe model) tool args w = (result, w')" for tool args w result w'
    using reading_dispatch [of tool w fe args] that by (simp add: file_viewer_def reading_def)
qed (simp add: file_viewer_def same_fs_def)

lemma readers_read:
  "read_call tool args \<Longrightarrow> reading tool args" "review_ok tool args \<Longrightarrow> reading tool args"
  "bounded_call tool args \<Longrightarrow> reading tool args"
  by (auto simp: read_call_def review_ok_def bounded_call_def reading_def read_tools_def review_tools_def)

text \<open>No file changes while the agents look around, on any replies; the shell of a review is not there.\<close>

lemma readers_change_nothing:
  "run_orchestration_explore n (file_viewer fe model) budget ex ts = Some (st, r) \<Longrightarrow> ts_fs (vs_world st) = ts_fs ts"
  "run_code_review n (file_viewer fe model) look resolve rv ts = Inr (Some (st', r')) \<Longrightarrow> ts_fs (vs_world st') = ts_fs ts"
  using fv.explore_keeps [OF readers_read(1)] fv.review_keeps [OF readers_read(2)] by (simp_all add: same_fs_def)

section \<open>Readers that never end\<close>

text \<open>A reply that asks for a correction and counts for nothing, given again and again.\<close>

lemma unread_turn:
  assumes "vs_talk st \<noteq> []" and "\<And>messages. vw_llm env messages (vs_world st) = (Inr empty_reply, vs_world st)"
    and "continue empty_reply st = (answer_both empty_reply answer (st\<lparr>vs_bad := 0\<rparr>), None)"
  shows "ask_model env extra st continue = (answer_both empty_reply answer (st\<lparr>vs_bad := 0\<rparr>), None)"
  using trim_total [OF assms(1), of 16] assms(2,3) by (auto simp: ask_model_def empty_reply_parsed)

lemma no_call_in_empty: "pick_calls a b c [] = Inl b"
  by (simp add: pick_calls_def dget_def)

definition stuck_at :: "'w \<Rightarrow> 'w view_state \<Rightarrow> bool" where
  "stuck_at w st \<longleftrightarrow> vs_world st = w \<and> vs_count st = 0 \<and> vs_talk st \<noteq> []"

lemma stuck_simps [simp]:
  "stuck_at w (view_start prompt w)" "stuck_at w (emitv env e st) = stuck_at w st"
  "stuck_at w st \<Longrightarrow> stuck_at w (answer_both raw t st)" "stuck_at w (st\<lparr>vs_bad := n\<rparr>) = stuck_at w st"
  by (simp_all add: stuck_at_def view_start_def)

lemma explore_stuck:
  assumes "stuck_at w st" and "0 < budget" and "\<And>messages. vw_llm env messages w = (Inr empty_reply, w)"
  shows "snd (explore_turn env budget mode st) = None \<and> stuck_at w (fst (explore_turn env budget mode st))"
proof -
  obtain answer where "explore_reply env mode empty_reply st = (answer_both empty_reply answer (st\<lparr>vs_bad := 0\<rparr>), None)"
    by (simp add: explore_reply_def empty_reply_parsed Let_def dget_def explore_batch_def explore_calls_def no_call_in_empty)
  then have "explore_turn env budget mode st = (answer_both empty_reply answer (st\<lparr>vs_bad := 0\<rparr>), None)"
    using assms by (simp add: explore_turn_def stuck_at_def unread_turn)
  then show ?thesis using assms(1) by simp
qed

lemma review_stuck:
  assumes "stuck_at w st" and "0 < rv_budget rv" and "\<not> vw_cancelled env w"
    and "\<And>messages. vw_llm env messages w = (Inr empty_reply, w)"
  shows "snd (review_turn env resolve rv st) = None \<and> stuck_at w (fst (review_turn env resolve rv st))"
proof -
  obtain answer where "review_reply env resolve rv empty_reply st = (answer_both empty_reply answer (st\<lparr>vs_bad := 0\<rparr>), None)"
    by (simp add: review_reply_def empty_reply_parsed Let_def dget_def review_batch_def review_calls_def no_call_in_empty)
  then have "review_turn env resolve rv st = (answer_both empty_reply answer (st\<lparr>vs_bad := 0\<rparr>), None)"
    using assms by (simp add: review_turn_def stuck_at_def unread_turn)
  then show ?thesis using assms(1) by simp
qed

section \<open>The orchestrator with its explorations\<close>

text \<open>
  The planner whose explorations are \<open>run_orchestration_explore\<close> with the viewer \<open>env\<close> and the two budgets
  of the settings, for a user who waits for \<open>n\<close> replies.
\<close>

definition exploring_planner :: "nat \<Rightarrow> 'w viewer \<Rightarrow> int \<Rightarrow> int \<Rightarrow> 'w planner \<Rightarrow> 'w planner" where
  "exploring_planner n env light full pl =
     pl\<lparr>pl_explore := (\<lambda>ex w.
          case run_orchestration_explore n env (explore_budget light full (ex_mode ex)) ex w of
            None \<Rightarrow> (Inl RunCancelled, w)
          | Some (st, r) \<Rightarrow> (r, vs_world st)),
        pl_orient := (\<lambda>request previous w.
          build_workspace_orientation (\<lambda>tool args. fst (vw_dispatch env tool args w)) request previous)\<rparr>"

interpretation xp: planning "exploring_planner n env light full pl" for n env light full pl
  by unfold_locales (auto simp: exploring_planner_def split: option.split_asm prod.split_asm dest: explore_valid)

section \<open>Scripts\<close>

definition viewer_of :: "string list viewer" where
  "viewer_of =
     \<lparr>vw_llm = (\<lambda>messages w. case w of [] \<Rightarrow> (Inl OSError, []) | r # rs \<Rightarrow> (Inr r, rs)),
      vw_dispatch = (\<lambda>tool args w. ([], w)), vw_cancelled = (\<lambda>w. False), vw_emits = True,
      vw_reader = pl_reader scripted, vw_repair = (\<lambda>t. None), vw_sha = (\<lambda>s. s), vw_duration = JFloat ''0.0''\<rparr>"

definition tool_reply :: string where
  \<open>tool_reply = ''{"tool":"git_diff","args":{}}''\<close>

definition answer_reply :: string where
  \<open>answer_reply = ''{"answer":"done"}''\<close>

definition explored_reply :: string where
  \<open>explored_reply =
     ''{"action":"plan","plan":{"milestones":[{"id":"M1","target_files":["a.py"],"acceptance_criteria":["c"]}]}}''\<close>

definition two_files :: "ppath list" where
  "two_files = [path_of ''/w/a.py'', path_of ''/w/b.py'']"

definition curious :: "string list planner" where
  "curious = exploring_planner 5 viewer_of 4 8 (scripted\<lparr>pl_enabled := True, pl_files := (\<lambda>w. Some two_files)\<rparr>)"

definition quick_review :: review_task where
  "quick_review = \<lparr>rv_request = ''x'', rv_root = path_of ''/w'', rv_previous = [], rv_verify = [], rv_budget = 5\<rparr>"

text \<open>
  A review runs the script a model asks for under the profile of the worker, where the review profile
  would refuse it: the call names no profile and is passed on as it is.
\<close>

definition remove_call :: obj where
  "remove_call = [(''tool'', JStr ''run_shellscript''), (''args'', JObj [(''script'', JStr ''rm app.py'')])]"

lemma review_shell_unrestricted:
  assumes "vw_dispatch env ''run_shellscript'' [(''script'', JStr ''rm app.py'')] (vs_world st) = (result, w)"
  shows "fst (fst (review_result env phase remove_call st)) = result \<and> vs_world (snd (review_result env phase remove_call st)) = w \<and>
    allowed (validate_shell_script ''rm app.py'' ''worker'' Strict) \<and>
    \<not> allowed (validate_shell_script ''rm app.py'' ''review'' Strict)"
proof -
  have c: "asked_tool remove_call = ''run_shellscript''" "asked_args remove_call = JObj [(''script'', JStr ''rm app.py'')]"
    "''run_shellscript'' \<in> set review_tools"
    "validate_tool_call (JStr ''run_shellscript'') (JObj [(''script'', JStr ''rm app.py'')]) None = None"
    "allowed (validate_shell_script ''rm app.py'' ''worker'' Strict)"
    "\<not> allowed (validate_shell_script ''rm app.py'' ''review'' Strict)"
    by code_simp+
  show ?thesis
    using review_passes_call_on [of remove_call env st result w phase] assms c by (simp add: args_dict_def)
qed

section \<open>Properties\<close>



text \<open>
  Ask mode reads, within bounds: whatever relation of the world the model and the bounded calls
  of the six read tools keep - at most 160 lines, 60 matches, 4 levels, 100 entries, 5 commits - a run of Ask
  keeps, on any replies; no file changes, for one. It makes at most twelve calls.
\<close>

lemma ask_reads_within_bounds:
  assumes "\<forall>u. R u u" and "\<forall>u v w. R u v \<longrightarrow> R v w \<longrightarrow> R u w"
    and "\<forall>messages u. R u (snd (vw_llm env messages u))"
    and "\<forall>tool args u. bounded_call tool args \<longrightarrow> R u (snd (vw_dispatch env tool args u))"
    and "run_ask n env conv mission request recent w = Inr (Some (st, r))"
  shows "R w (vs_world st) \<and> vs_count st \<le> 12"
proof -
  have "inspecting R env bounded_call"
    by unfold_locales (use assms(1-4) in \<open>metis snd_conv\<close>)+
  from inspecting.ask_keeps [OF this _ assms(5)] ask_calls_within [OF assms(5)]
  show ?thesis by (simp add: max_ask_calls_def)
qed

text \<open>
  A model that always answers with an empty object keeps an exploration and a review going
  forever, whatever the budget of calls: such replies are answered with a correction and count neither as a
  call nor as unreadable.
\<close>

lemma inspections_spin:
  assumes "\<forall>messages. vw_llm env messages w = (Inr ''{}'', w)" and "\<not> vw_cancelled env w"
    and "0 < budget" and "0 < rv_budget rv"
  shows "run_orchestration_explore n env budget ex w = None \<and>
    (\<forall>st r. run_code_review n env look resolve rv w \<noteq> Inr (Some (st, r)))"
proof -
  have l: "vw_llm env messages w = (Inr empty_reply, w)" for messages
    using assms(1) by (simp add: empty_reply_def)
  have "run_orchestration_explore n env budget ex w = None"
    unfolding run_orchestration_explore_def
    by (rule run_loop_stuck [where P = "stuck_at w"]) (simp_all add: explore_stuck [OF _ assms(3) l])
  moreover have "run_loop (review_turn env resolve rv) n (emitv env e (view_start p w)) = None" for e p
    by (rule run_loop_stuck [where P = "stuck_at w"]) (simp_all add: review_stuck [OF _ assms(4,2) l])
  ultimately show ?thesis by (auto simp: run_code_review_def bindR_def split: sum.split)
qed

end
