(* ===== verification/Office.thy ===== *)
theory Office
  imports Readers Mission Decisions Summary Briefs FixVerifier
begin

text \<open>
  What the modes and routes of a run share in \<open>src/main.py\<close>: the state of \<open>MissionsRuntime\<close> with the files of
  its session, what a run is given, artifacts, the status of a session, the pause for a human and the end of
  a focused run. A desk (\<open>Orchestrator\<close>) is extended, so that the orchestrator, triage and escalation act on
  the state as they are. Files are the values they parse to. Printing and telemetry are left out. Events are
  those of the runtime and of the agents it calls; those of an attempt at a milestone are in \<open>Milestone\<close>.
\<close>

section \<open>State\<close>

text \<open>
  \<open>of_brief\<close> to \<open>of_skip\<close> are the fields \<open>_escalation_brief\<close>, \<open>_active_run_kind\<close>, \<open>_active_execution_route\<close>,
  \<open>_active_chat_mode\<close>, \<open>_skip_orchestration\<close>; then the status in \<open>session.json\<close>, the files of the pending
  decision, the conversation brief and the mission brief, and the artifacts of the run. \<open>of_executed\<close> records
  the calls of \<open>_execute_milestone\<close>, with the profile hotfix or not; \<open>of_scoped\<close> holds while sandbox,
  workspace root and write policy are those of the session.
\<close>

record 'w office = "'w desk" +
  of_brief :: "obj option"
  of_kind :: string
  of_route :: string
  of_mode :: string
  of_skip :: bool
  of_status :: string
  of_pending :: "json option"
  of_conv :: "json option"
  of_mission_brief :: "obj option"
  of_artifacts :: "(string \<times> json) list"
  of_executed :: "(obj \<times> bool) list"
  of_scoped :: bool

text \<open>
  What a run is given: its agents, the runtime of a milestone (by plan, milestone and review report), the
  memory, whether a file can be written, the workspace and the session. A user waits for \<open>bu_patience\<close>
  replies or rounds and cancels then.
\<close>

record 'w bureau =
  bu_planner :: "'w planner"
  bu_advisor :: "'w advisor"
  bu_asker :: "'w viewer"
  bu_reviewer :: "'w viewer"
  bu_patience :: nat
  bu_fixer :: "'w \<Rightarrow> fixer"
  bu_runtime :: "obj \<Rightarrow> obj \<Rightarrow> obj \<Rightarrow> 'w runtime"
  bu_compact :: "'w \<Rightarrow> string \<Rightarrow> string res"
  bu_compact_md :: string
  bu_memory :: bool
  bu_completed :: "json \<Rightarrow> string \<Rightarrow> 'w \<Rightarrow> bool"
  bu_log_state :: "handoff \<Rightarrow> string \<Rightarrow> 'w \<Rightarrow> 'w"
  bu_budget :: int
  bu_review_budget :: int
  bu_cancelled :: "'w \<Rightarrow> bool"
  bu_disk :: "string \<Rightarrow> 'w \<Rightarrow> bool"
  bu_prepare :: "'w \<Rightarrow> unit res \<times> 'w"
  bu_snapshot :: "'w \<Rightarrow> obj res"
  bu_files :: "'w \<Rightarrow> ppath list"
  bu_resolve :: "ppath \<Rightarrow> ppath"
  bu_root :: ppath
  bu_read_only :: bool
  bu_external :: bool
  bu_profile :: obj
  bu_session :: string
  bu_title :: string
  bu_model :: string
  bu_run :: "string option"
  bu_fix_mode :: string
  bu_now :: string
  bu_elapsed :: json
  bu_seconds :: string
  bu_exn :: "pyexn \<Rightarrow> string"

type_synonym ('w, 'a) deed = "('w office, 'a) act"

text \<open>\<open>MissionResult\<close>; identifiers and titles taken from a plan file may be any value.\<close>

record run_answer =
  ra_mission :: json
  ra_title :: json
  ra_status :: string
  ra_passed :: int
  ra_total :: int
  ra_handoffs :: "handoff list"
  ra_elapsed :: json
  ra_model :: string
  ra_session :: string
  ra_kind :: string
  ra_plan :: json
  ra_summary :: string
  ra_failure :: string
  ra_route :: string
  ra_pending :: "obj option"

section \<open>Files\<close>

definition writes :: "'w bureau \<Rightarrow> string \<Rightarrow> ('w office \<Rightarrow> 'w office) \<Rightarrow> ('w, unit) deed" where
  "writes bu file f =
     bindA (getA (\<lambda>s. bu_disk bu file (dk_world s))) (\<lambda>ok. if ok then updA f else raiseA OSError)"

text \<open>\<open>except OSError\<close> with nothing but a message.\<close>

definition quietly :: "('w, unit) deed \<Rightarrow> ('w, unit) deed" where
  "quietly m = tryA m (\<lambda>e. if e = OSError then returnA () else raiseA e)"

definition quiet_plan :: "'w bureau \<Rightarrow> obj \<Rightarrow> ('w, unit) deed" where
  "quiet_plan bu plan = quietly (save_plan (bu_planner bu) plan)"

definition persist_run_artifact :: "'w bureau \<Rightarrow> string \<Rightarrow> json \<Rightarrow> ('w, unit) deed" where
  "persist_run_artifact bu name payload =
     (case bu_run bu of
        Some (c # cs) \<Rightarrow>
          quietly (writes bu ''artifacts'' (\<lambda>s. s\<lparr>of_artifacts := AList.update name payload (of_artifacts s)\<rparr>))
      | _ \<Rightarrow> returnA ())"

definition update_status :: "'w bureau \<Rightarrow> string \<Rightarrow> ('w, unit) deed" where
  "update_status bu status = writes bu ''session'' (\<lambda>s. s\<lparr>of_status := status\<rparr>)"

definition load_plan :: "('w, 'z) desk_scheme \<Rightarrow> obj" where
  "load_plan s = (case dk_plan s of Some (JObj d) \<Rightarrow> d | _ \<Rightarrow> [])"

text \<open>The states and events of a reader are those of the run while it reads.\<close>

definition reads :: "('w \<Rightarrow> ('w view_state \<times> 'a res) option res) \<Rightarrow> ('w, 'a) deed" where
  "reads m s =
     (case m (dk_world s) of
        Inl e \<Rightarrow> (Inl e, s)
      | Inr None \<Rightarrow> (Inl RunCancelled, s)
      | Inr (Some (st, r)) \<Rightarrow> (r, s\<lparr>dk_world := vs_world st, dk_events := dk_events s @ vs_events st\<rparr>))"

definition traced_deed :: "('w \<Rightarrow> 'a traced) \<Rightarrow> ('w, 'a) deed" where
  "traced_deed m s = (case m (dk_world s) of (es, r) \<Rightarrow> (r, s\<lparr>dk_events := dk_events s @ es\<rparr>))"

section \<open>Milestones\<close>

text \<open>\<open>_save_handoff\<close> marks the first milestone of that identifier in the plan file.\<close>

fun mark_first :: "json \<Rightarrow> json list \<Rightarrow> json list option res" where
  "mark_first i [] = Inr None"
| "mark_first i (m # ms) =
     bindR (as_obj m) (\<lambda>d.
       if dget d ''id'' JNull = i then Inr (Some (JObj (AList.update ''status'' (JStr ''completed'') d) # ms))
       else bindR (mark_first i ms) (\<lambda>r. Inr (map_option ((#) m) r)))"

definition marked_plan :: "json \<Rightarrow> json \<Rightarrow> obj option res" where
  "marked_plan i stored =
     bindR (as_obj stored) (\<lambda>plan.
     bindR (py_iter (dget plan ''milestones'' (JList []))) (\<lambda>ms.
     bindR (mark_first i ms) (\<lambda>r. Inr (map_option (\<lambda>ms'. AList.update ''milestones'' (JList ms') plan) r))))"

definition mark_saved :: "'w bureau \<Rightarrow> json \<Rightarrow> ('w, unit) deed" where
  "mark_saved bu i =
     bindA (getA dk_plan) (\<lambda>stored. case stored of
       None \<Rightarrow> returnA ()
     | Some j \<Rightarrow> bindA (liftA (marked_plan i j)) (\<lambda>p. case p of None \<Rightarrow> returnA () | Some plan \<Rightarrow> quiet_plan bu plan))"

definition attempt_milestone :: "'w bureau \<Rightarrow> bool \<Rightarrow> obj \<Rightarrow> obj \<Rightarrow> obj \<Rightarrow> ('w, handoff) deed" where
  "attempt_milestone bu hotfix rep plan milestone =
     on_world (\<lambda>w. case execute_milestone (bu_runtime bu plan milestone rep) hotfix plan milestone w of
         Inl e \<Rightarrow> (Inl e, w)
       | Inr None \<Rightarrow> (Inl RunCancelled, w)
       | Inr (Some (st, r)) \<Rightarrow> (r, mi_world st))"

definition run_packet :: "'w bureau \<Rightarrow> bool \<Rightarrow> obj \<Rightarrow> obj \<Rightarrow> obj \<Rightarrow> ('w, handoff) deed" where
  "run_packet bu hotfix rep plan milestone =
     bindA (updA (\<lambda>s. s\<lparr>of_executed := of_executed s @ [(milestone, hotfix)]\<rparr>)) (\<lambda>_.
     bindA (attempt_milestone bu hotfix rep plan milestone) (\<lambda>h.
     bindA (whenA (h_verdict h = ''PASS'') (mark_saved bu (h_id h))) (\<lambda>_. returnA h)))"

text \<open>\<open>asdict(handoff)\<close>.\<close>

definition handoff_dict :: "handoff \<Rightarrow> obj" where
  "handoff_dict h =
     [(''milestone_id'', h_id h), (''title'', h_title h), (''worker_summary'', h_summary h), (''files_modified'', h_files h),
      (''tool_calls_made'', h_calls h), (''retry_count'', JInt (h_retry h)), (''verdict'', JStr (h_verdict h)),
      (''commit_hash'', h_commit h), (''elapsed_ms'', h_elapsed h), (''error_log'', jstrs (h_errors h)),
      (''failure_signature'', h_signature h), (''verification'', opt_json (h_verification h))]"

text \<open>\<open>sorted(set(...))\<close> of names; a name that is no text counts as one that cannot be sorted.\<close>

definition name_of :: "json \<Rightarrow> string res" where
  "name_of j = (case j of JStr s \<Rightarrow> Inr s | _ \<Rightarrow> Inl TypeError)"

definition sorted_names :: "json list \<Rightarrow> string list res" where
  "sorted_names js = bindR (mapR name_of js) (\<lambda>names. Inr (py_sorted_set names))"

definition handoff_files :: "handoff list \<Rightarrow> string list res" where
  "handoff_files handoffs = bindR (mapR (\<lambda>h. py_iter (h_files h)) handoffs) (\<lambda>fss. sorted_names (concat fss))"

section \<open>The end of a focused run\<close>

definition refresh_mission_brief :: "'w bureau \<Rightarrow> obj \<Rightarrow> string \<Rightarrow> string \<Rightarrow> string list \<Rightarrow> ('w, unit) deed" where
  "refresh_mission_brief bu plan status summary_text files_modified =
     bindA (liftA (build_mission_brief_from_run plan status summary_text files_modified)) (\<lambda>brief.
     bindA (getA (\<lambda>s. bu_disk bu ''mission_brief'' (dk_world s))) (\<lambda>ok.
     whenA ok
       (bindA (updA (\<lambda>s. s\<lparr>of_mission_brief := Some brief\<rparr>)) (\<lambda>_.
        whenA (truthy (dget plan ''milestones'' JNull) \<and> status \<in> {''completed'', ''partial'', ''failed''})
          (quiet_plan bu (AList.update ''approval_state'' (JStr status) plan))))))"

definition refresh_focused :: "'w bureau \<Rightarrow> string \<Rightarrow> string \<Rightarrow> handoff list \<Rightarrow> ('w, unit) deed" where
  "refresh_focused bu status summary handoffs =
     bindA (getA load_plan) (\<lambda>plan.
     bindA (liftA (handoff_files handoffs)) (\<lambda>files. refresh_mission_brief bu plan status summary files))"

text \<open>What a focused run ends with; the summary is given, or else the recap of a mission.\<close>

record ending =
  en_title :: string
  en_route :: string
  en_handoffs :: "handoff list"
  en_plan :: json
  en_status :: "string option"
  en_summary :: "string option"
  en_failure :: string
  en_pending :: "obj option"

definition passed_count :: "handoff list \<Rightarrow> int" where
  "passed_count handoffs = int (length (filter (\<lambda>h. h_verdict h = ''PASS'') handoffs))"

definition focused_status :: "ending \<Rightarrow> string" where
  "focused_status en =
     (case en_status en of
        Some (c # cs) \<Rightarrow> c # cs
      | _ \<Rightarrow> if passed_count (en_handoffs en) = int (length (en_handoffs en)) then ''completed''
             else if passed_count (en_handoffs en) \<noteq> 0 then ''partial'' else ''failed'')"

definition focused_texts :: "'w bureau \<Rightarrow> ending \<Rightarrow> (string \<times> string) res" where
  "focused_texts bu en =
     (case en_summary en of
        Some t \<Rightarrow> Inr (t, en_failure en)
      | None \<Rightarrow>
          bindR (build_mission_summary (en_title en) (focused_status en) (passed_count (en_handoffs en))
              (int (length (en_handoffs en))) (bu_seconds bu) (en_handoffs en) [])
            (\<lambda>rc. Inr (rc_text rc, rc_reason rc)))"

definition focused_answer :: "'w bureau \<Rightarrow> ending \<Rightarrow> string \<times> string \<Rightarrow> 'w office \<Rightarrow> run_answer" where
  "focused_answer bu en texts s =
     \<lparr>ra_mission = JStr (en_route en @ ''-'' @ pl_hex (bu_planner bu) 10 (dk_world s)), ra_title = JStr (en_title en),
      ra_status = focused_status en, ra_passed = passed_count (en_handoffs en),
      ra_total = int (length (en_handoffs en)), ra_handoffs = en_handoffs en, ra_elapsed = bu_elapsed bu,
      ra_model = bu_model bu, ra_session = bu_session bu, ra_kind = of_kind s, ra_plan = en_plan en,
      ra_summary = fst texts, ra_failure = snd texts, ra_route = en_route en, ra_pending = en_pending en\<rparr>"

definition audit_fields :: "run_answer \<Rightarrow> obj" where
  "audit_fields a =
     [(''passed'', JBool (ra_status a = ''completed'')),
      (''incomplete_milestones'',
        JList (if ra_status a = ''completed'' then []
               else map h_id (filter (\<lambda>h. h_verdict h \<noteq> ''PASS'') (ra_handoffs a)))),
      (''run_kind'', JStr (ra_kind a)), (''execution_route'', JStr (ra_route a)), (''plan_id'', ra_plan a)]"

definition complete_fields :: "run_answer \<Rightarrow> string list \<Rightarrow> obj" where
  "complete_fields a files =
     [(''status'', JStr (ra_status a)), (''run_kind'', JStr (ra_kind a)), (''execution_route'', JStr (ra_route a)),
      (''plan_id'', ra_plan a), (''milestones_passed'', JInt (ra_passed a)), (''milestones_total'', JInt (ra_total a)),
      (''total_elapsed_ms'', ra_elapsed a), (''summary_text'', JStr (ra_summary a)), (''failure_reason'', JStr (ra_failure a)),
      (''files_modified'', jstrs files)]"

definition finish_focused_result :: "'w bureau \<Rightarrow> ending \<Rightarrow> ('w, run_answer) deed" where
  "finish_focused_result bu en =
     bindA (liftA (focused_texts bu en)) (\<lambda>texts.
     bindA (getA (focused_answer bu en texts)) (\<lambda>a.
     bindA (whenA (ra_status a \<noteq> ''awaiting_decision'') (refresh_focused bu (ra_status a) (ra_summary a) (ra_handoffs a))) (\<lambda>_.
     bindA (update_status bu (ra_status a)) (\<lambda>_.
     bindA (emit True ''mission.audit'' (audit_fields a)) (\<lambda>_.
     bindA (liftA (handoff_files (ra_handoffs a))) (\<lambda>files.
     bindA (emit True ''mission.complete'' (complete_fields a files)) (\<lambda>_. returnA a)))))))"

section \<open>The pause for a human\<close>

record question =
  qu_title :: string
  qu_route :: string
  qu_type :: string
  qu_heading :: string
  qu_summary :: string
  qu_options :: "string list"
  qu_payload :: obj
  qu_handoffs :: "handoff list"

definition decision_of :: "question \<Rightarrow> obj" where
  "decision_of qu =
     [(''type'', JStr (qu_type qu)), (''title'', JStr (qu_heading qu)), (''summary'', JStr (qu_summary qu)),
      (''options'', jstrs (qu_options qu)), (''payload'', JObj (qu_payload qu))]"

definition pause_for_decision :: "'w bureau \<Rightarrow> question \<Rightarrow> ('w, run_answer) deed" where
  "pause_for_decision bu qu =
     (let pending = pending_payload (bu_now bu) (bu_session bu) (decision_of qu)
      in bindA (writes bu ''decision'' (\<lambda>s. s\<lparr>of_pending := Some (JObj pending)\<rparr>)) (\<lambda>_.
         bindA (persist_run_artifact bu ''pending_decision'' (JObj pending)) (\<lambda>_.
         bindA (emit True ''run.awaiting_decision''
           [(''decision_type'', JStr (qu_type qu)), (''title'', JStr (qu_heading qu)), (''options'', jstrs (qu_options qu))]) (\<lambda>_.
         finish_focused_result bu
           \<lparr>en_title = qu_title qu, en_route = qu_route qu, en_handoffs = qu_handoffs qu, en_plan = JNull,
            en_status = Some ''awaiting_decision'', en_summary = Some (qu_summary qu), en_failure = [],
            en_pending = Some pending\<rparr>))))"

end
