(* ===== verification/Focused.thy ===== *)
theory Focused
  imports Office
begin

text \<open>
  The focused routes of \<open>src/main.py\<close>: a hotfix, a review and the fix it leads to, and the packets a human
  has approved. Each ends with a result, or with None and a brief for the planned mission that follows.
\<close>

section \<open>Escalation\<close>

text \<open>What became of an attempt: its origin, \<open>hotfix\<close> or \<open>review_fix\<close>, the handoff and the review before it.\<close>

record outcome_of_fix =
  fo_request :: string
  fo_origin :: string
  fo_handoff :: handoff
  fo_review :: "obj option"
  fo_milestone :: obj

definition stash_mission_brief ::
    "'w bureau \<Rightarrow> outcome_of_fix \<Rightarrow> string list \<Rightarrow> string \<Rightarrow> obj option \<Rightarrow> obj \<Rightarrow> ('w, unit) deed" where
  "stash_mission_brief bu fo targets rationale verification escalation =
     (let why = (if escalation = [] then [(''reason'', JStr rationale)] else escalation)
      in bindA (liftA (build_mission_brief (fo_request fo) (fo_review fo)
             (Some [(''target_files'', jstrs targets), (''origin'', JStr (fo_origin fo))])
             (Some (handoff_dict (fo_handoff fo))) verification (Some why))) (\<lambda>brief.
         bindA (updA (\<lambda>s. s\<lparr>of_brief := Some brief\<rparr>)) (\<lambda>_.
         bindA (persist_run_artifact bu ''mission_brief'' (JObj brief)) (\<lambda>_.
         emit True (if fo_origin fo = ''hotfix'' then ''hotfix.escalated'' else ''review.escalated'')
           [(''reason'', JStr ''escalation_triage''), (''affected_files'', jstrs targets),
            (''escalated_from'', JStr (fo_origin fo))]))))"

definition diff_summary :: "outcome_of_fix \<Rightarrow> string" where
  "diff_summary fo =
     (let h = fo_handoff fo; error_tail = last_n 4 (h_errors h)
      in ''origin='' @ fo_origin fo @ '' verdict='' @ h_verdict h @ '' files_modified='' @ py_str (h_files h) @ nl
         # ''error_tail:'' @ nl # py_join [nl] error_tail @ nl # infra_gap_note error_tail)"

definition escalation_task_of :: "'w bureau \<Rightarrow> outcome_of_fix \<Rightarrow> string list \<Rightarrow> escalation_task" where
  "escalation_task_of bu fo targets =
     \<lparr>et_review = opt_obj (fo_review fo),
      et_packet = (if fo_milestone fo = [] then [(''target_files'', jstrs targets)] else fo_milestone fo),
      et_handoff = handoff_dict (fo_handoff fo), et_verification = [], et_diff = diff_summary fo, et_project = bu_profile bu\<rparr>"

definition stalled_question :: "outcome_of_fix \<Rightarrow> string list \<Rightarrow> obj \<Rightarrow> question" where
  "stalled_question fo targets decision =
     (let h = fo_handoff fo
      in \<lparr>qu_title = ''Focused fix'', qu_route = fo_origin fo, qu_type = ''hotfix_followup'',
          qu_heading = ''Hotfix stalled - how should we proceed?'',
          qu_summary = ''The focused fix ended with verdict '' @ h_verdict h @ ''. ''
            @ ''Escalation triage says the work is still bounded: '' @ get_str decision ''reason'' [],
          qu_options = [''apply_fix'', ''escalate_mission'', ''dismiss''],
          qu_payload =
            [(''kind'', JStr ''hotfix_retry''), (''milestone'', JObj (fo_milestone fo)), (''target_files'', jstrs targets),
             (''verdict'', JStr (h_verdict h)), (''errors'', jstrs (last_n 4 (h_errors h))),
             (''review_report'', JObj (opt_obj (fo_review fo))), (''triage_rationale'', dget decision ''reason'' (JStr []))],
          qu_handoffs = [h]\<rparr>)"

definition escalate_hotfix_failure ::
    "'w bureau \<Rightarrow> outcome_of_fix \<Rightarrow> string list \<Rightarrow> ('w, run_answer option) deed" where
  "escalate_hotfix_failure bu fo targets =
     bindA (run_escalation_triage (bu_advisor bu) (escalation_task_of bu fo targets)) (\<lambda>triage.
     bindA (liftA (deterministic_guard triage targets)) (\<lambda>decision.
     bindA (persist_run_artifact bu ''escalation_decision'' (JObj decision)) (\<lambda>_.
       if dget decision ''decision'' JNull = JStr ''escalate_mission''
       then bindA (stash_mission_brief bu fo targets (get_str decision ''reason'' []) None decision) (\<lambda>_. returnA None)
       else bindA (pause_for_decision bu (stalled_question fo targets decision)) (\<lambda>a. returnA (Some a)))))"

section \<open>The verdict on a fix\<close>

definition touched_by :: "outcome_of_fix \<Rightarrow> string list res" where
  "touched_by fo =
     bindR (py_iter (h_files (fo_handoff fo))) (\<lambda>files.
     bindR (py_iter (dget (fo_milestone fo) ''target_files'' (JList []))) (\<lambda>targets. sorted_names (files @ targets)))"

text \<open>A verification made in the loop is used again, otherwise the verifier is asked.\<close>

definition obtain_verification :: "'w bureau \<Rightarrow> outcome_of_fix \<Rightarrow> obj option \<Rightarrow> ('w, obj) deed" where
  "obtain_verification bu fo given =
     (case given of
        Some v \<Rightarrow> returnA v
      | None \<Rightarrow>
          traced_deed (\<lambda>w. run_fix_verification (bu_fixer bu w) (opt_obj (fo_review fo)) (fo_milestone fo)
            (handoff_dict (fo_handoff fo))))"

definition fix_title :: "string \<Rightarrow> string" where
  "fix_title origin = (if origin = ''hotfix'' then ''Focused hotfix'' else ''Code review'')"

definition review_or_request :: "outcome_of_fix \<Rightarrow> obj" where
  "review_or_request fo =
     (case opt_obj (fo_review fo) of
        [] \<Rightarrow> [(''verdict'', JStr ''n/a''), (''summary'', JStr (fo_request fo)), (''findings'', JList [])]
      | r # rs \<Rightarrow> r # rs)"

definition finish_verified :: "'w bureau \<Rightarrow> outcome_of_fix \<Rightarrow> obj \<Rightarrow> ('w, run_answer) deed" where
  "finish_verified bu fo v =
     bindA (liftA (format_review_summary (review_or_request fo) (Some (fo_handoff fo)) None)) (\<lambda>summary.
       finish_focused_result bu
         \<lparr>en_title = fix_title (fo_origin fo), en_route = fo_origin fo, en_handoffs = [fo_handoff fo], en_plan = JNull,
          en_status = None,
          en_summary = Some (summary @ [nl, nl] @ ''Fix verification: VERIFIED - '' @ get_str v ''summary'' []),
          en_failure = [], en_pending = None\<rparr>)"

definition rework_question :: "outcome_of_fix \<Rightarrow> string list \<Rightarrow> obj \<Rightarrow> question" where
  "rework_question fo touched v =
     \<lparr>qu_title = fix_title (fo_origin fo), qu_route = fo_origin fo, qu_type = ''fix_followup'',
      qu_heading = ''Fix needs rework - how should we proceed?'',
      qu_summary = ''The fix landed but verification says NEEDS_REWORK: '' @ get_str v ''summary'' []
        @ '' Guidance: '' @ get_str v ''fix_guidance'' [],
      qu_options = [''apply_fix'', ''escalate_mission'', ''dismiss''],
      qu_payload =
        [(''kind'', JStr ''fix_rework''), (''milestone'', JObj (fo_milestone fo)), (''target_files'', jstrs touched),
         (''verdict'', JStr (h_verdict (fo_handoff fo))), (''verification'', JObj v),
         (''review_report'', JObj (opt_obj (fo_review fo)))],
      qu_handoffs = [fo_handoff fo]\<rparr>"

text \<open>\<open>', '.join(missing)\<close>: names that are no texts raise.\<close>

definition joined_names :: "json \<Rightarrow> string res" where
  "joined_names j = bindR (py_iter j) (\<lambda>xs. bindR (mapR name_of xs) (\<lambda>names. Inr (py_join '', '' names)))"

definition unverified_question :: "outcome_of_fix \<Rightarrow> string list \<Rightarrow> obj \<Rightarrow> string \<Rightarrow> question" where
  "unverified_question fo touched v missing =
     \<lparr>qu_title = fix_title (fo_origin fo), qu_route = fo_origin fo, qu_type = ''fix_unverified'',
      qu_heading = ''Fix landed but could not be verified - set up tests?'',
      qu_summary = ''Files changed: '' @ or_text (py_join '', '' touched) ''(none)'' @ ''. ''
        @ ''Verification is UNVERIFIED: '' @ get_str v ''summary'' [] @ '' ''
        @ ''Missing checks: '' @ or_text missing ''none listed'' @ ''.'',
      qu_options = [''run_smoke'', ''setup_env'', ''escalate_mission'', ''dismiss''],
      qu_payload =
        [(''kind'', JStr ''fix_unverified''), (''milestone'', JObj (fo_milestone fo)), (''target_files'', jstrs touched),
         (''touched_files'', jstrs touched), (''verdict'', JStr (h_verdict (fo_handoff fo))),
         (''missing_checks'', dget v ''missing_checks'' (JList [])), (''packages'', dget v ''missing_checks'' (JList [])),
         (''verification'', JObj v), (''review_report'', JObj (opt_obj (fo_review fo)))],
      qu_handoffs = [fo_handoff fo]\<rparr>"

definition fix_mode :: "'w bureau \<Rightarrow> string" where
  "fix_mode bu = one_of [''auto'', ''ask''] ''ask'' (bu_fix_mode bu)"

definition as_some :: "('w, 'a) deed \<Rightarrow> ('w, 'a option) deed" where
  "as_some m = bindA m (\<lambda>a. returnA (Some a))"

definition conclude_fix :: "'w bureau \<Rightarrow> outcome_of_fix \<Rightarrow> string list \<Rightarrow> obj \<Rightarrow> ('w, run_answer option) deed" where
  "conclude_fix bu fo touched v =
     (let verdict = get_str v ''verdict'' ''UNVERIFIED''
      in if verdict = ''VERIFIED'' then as_some (finish_verified bu fo v)
         else if verdict = ''ESCALATE_TO_MISSION'' then
           bindA (stash_mission_brief bu fo touched
               (py_str (py_or (dget v ''escalation_reason'' JNull) (dget v ''summary'' (JStr [])))) (Some v)
               [(''reason'', dget v ''escalation_reason'' (JStr []))]) (\<lambda>_. returnA None)
         else if verdict = ''NEEDS_REWORK'' then
           (if fix_mode bu = ''auto'' then escalate_hotfix_failure bu fo touched
            else as_some (pause_for_decision bu (rework_question fo touched v)))
         else
           bindA (liftA (joined_names (dget v ''missing_checks'' (JList [])))) (\<lambda>missing.
             as_some (pause_for_decision bu (unverified_question fo touched v missing))))"

definition verify_hotfix_result :: "'w bureau \<Rightarrow> outcome_of_fix \<Rightarrow> obj option \<Rightarrow> ('w, run_answer option) deed" where
  "verify_hotfix_result bu fo given =
     bindA (liftA (touched_by fo)) (\<lambda>touched.
     bindA (obtain_verification bu fo given) (\<lambda>v.
     bindA (persist_run_artifact bu ''fix_verification'' (JObj v)) (\<lambda>_. conclude_fix bu fo touched v)))"

section \<open>An attempt at a fix\<close>

definition needs_escalation :: "handoff \<Rightarrow> bool" where
  "needs_escalation h \<longleftrightarrow> h_verdict h \<in> {''REPLAN'', ''BLOCKED'', ''FAIL''}"

definition target_names :: "obj \<Rightarrow> string list res" where
  "target_names milestone = bindR (py_iter (dget milestone ''target_files'' (JList []))) (mapR name_of)"

definition follow_up :: "'w bureau \<Rightarrow> outcome_of_fix \<Rightarrow> string list res \<Rightarrow> obj \<Rightarrow> obj option \<Rightarrow> ('w, run_answer option) deed" where
  "follow_up bu fo targets verify_milestone given =
     (if needs_escalation (fo_handoff fo) then bindA (liftA targets) (escalate_hotfix_failure bu fo)
      else verify_hotfix_result bu (fo\<lparr>fo_milestone := verify_milestone\<rparr>) given)"

text \<open>
  One packet, its handoff as an artifact, and what follows. The verification of the loop is used again when
  the milestone it was about is the one to be verified.
\<close>

definition attempt_fix ::
    "'w bureau \<Rightarrow> string \<Rightarrow> string \<Rightarrow> string \<Rightarrow> obj option \<Rightarrow> obj \<Rightarrow> obj \<Rightarrow> string list res \<Rightarrow> obj \<Rightarrow> bool \<Rightarrow>
       ('w, run_answer option) deed" where
  "attempt_fix bu artifact user_request origin review plan milestone targets verify_milestone reuse =
     bindA (run_packet bu True (opt_obj review) plan milestone) (\<lambda>h.
     bindA (persist_run_artifact bu artifact (JObj (handoff_dict h))) (\<lambda>_.
       follow_up bu
         \<lparr>fo_request = user_request, fo_origin = origin, fo_handoff = h, fo_review = review, fo_milestone = milestone\<rparr>
         targets verify_milestone (if reuse then h_verification h else None)))"

section \<open>Packets\<close>

definition setup_milestone :: "string \<Rightarrow> obj" where
  "setup_milestone packages =
     [(''id'', JStr ''SETUP-ENV''), (''title'', JStr ''Set up test environment for verification''),
      (''description'', JStr (''Install the missing test dependencies into the session virtualenv: ''
         @ or_text packages ''(see missing checks)'' @ ''. ''
         @ ''Use run_shellscript with profile='' @ quoted ''pip''
         @ '' (e.g. python -m pip install pytest). Do NOT modify any project code - this packet only repairs the toolchain.'')),
      (''depends_on'', JList []), (''target_files'', JList []),
      (''acceptance_criteria'', jstrs [''The missing test dependencies import successfully.'',
         ''No project source files were modified.'']),
      (''validation_profile'', JStr ''auto''), (''status'', JStr ''pending''), (''route'', JStr ''packet'')]"

definition smoke_milestone :: "string \<Rightarrow> json list \<Rightarrow> obj" where
  "smoke_milestone names touched =
     [(''id'', JStr ''SMOKE''), (''title'', JStr ''Run smoke checks for the recent fix''),
      (''description'', JStr (''Run the project'' @ squote # ''s test suite and linters over the recent change. Fix only ''
         @ ''trivial breakage directly caused by the recent change. Touched files: '' @ names @ ''.'')),
      (''depends_on'', JList []), (''target_files'', JList touched),
      (''acceptance_criteria'', jstrs [''Test suite and linters pass for the touched area.'']),
      (''validation_profile'', JStr ''auto''), (''status'', JStr ''pending''), (''route'', JStr ''packet'')]"

text \<open>\<open>dict(packet.get("milestone") or {})\<close>; the pairs that \<open>dict\<close> takes as well count as an error.\<close>

definition stored_milestone :: "obj \<Rightarrow> obj res" where
  "stored_milestone packet =
     (case py_or (dget packet ''milestone'' JNull) (JObj []) of JObj d \<Rightarrow> Inr d | _ \<Rightarrow> Inl TypeError)"

definition packet_touched :: "obj \<Rightarrow> json" where
  "packet_touched packet = get_or2 packet ''touched_files'' ''target_files''"

definition packet_milestone :: "obj \<Rightarrow> string \<Rightarrow> obj res" where
  "packet_milestone packet kind =
     (if kind = ''setup_env'' then
        bindR (py_iter (get_or2 packet ''packages'' ''missing_checks'')) (\<lambda>ps.
          Inr (setup_milestone (py_join '', '' (map py_str ps))))
      else if kind = ''smoke'' then
        bindR (joined_names (packet_touched packet)) (\<lambda>names.
        bindR (py_iter (packet_touched packet)) (\<lambda>touched. Inr (smoke_milestone names touched)))
      else stored_milestone packet)"

definition empty_packet_question :: "string \<Rightarrow> json \<Rightarrow> question" where
  "empty_packet_question kind rep =
     \<lparr>qu_title = ''Follow-up fix'', qu_route = ''review'', qu_type = ''hotfix_followup'',
      qu_heading = ''Approved fix packet is empty'',
      qu_summary = ''The approved fix packet carried no milestone; nothing to execute.'',
      qu_options = [''escalate_mission'', ''dismiss''],
      qu_payload = [(''kind'', JStr kind), (''review_report'', rep)], qu_handoffs = []\<rparr>"

text \<open>The report of a packet counts when it is a dictionary.\<close>

definition review_dict :: "json \<Rightarrow> obj" where
  "review_dict j = (case j of JObj d \<Rightarrow> d | _ \<Rightarrow> [])"

definition run_packet_run :: "'w bureau \<Rightarrow> string \<Rightarrow> obj \<Rightarrow> string \<Rightarrow> ('w, run_answer option) deed" where
  "run_packet_run bu user_request packet run_kind =
     (let kind = text_or packet ''kind'' ''review_fix'';
          rep = py_or (dget packet ''report'' JNull) (py_or (dget packet ''review_report'' JNull) (JObj []))
      in bindA (emit True ''packet.started'' [(''kind'', JStr kind), (''target_files'', dget packet ''target_files'' (JList []))]) (\<lambda>_.
         bindA (liftA (packet_milestone packet kind)) (\<lambda>milestone.
           if milestone = [] then as_some (pause_for_decision bu (empty_packet_question kind rep))
           else
             bindA (getA (\<lambda>s. pl_hex (bu_planner bu) 10 (dk_world s))) (\<lambda>hex.
             bindA (persist_run_artifact bu ''followup_packet'' (JObj milestone)) (\<lambda>_.
             attempt_fix bu ''followup_handoff'' user_request ''review_fix'' (Some (review_dict rep))
               [(''mission_id'', JStr (''packet-'' @ hex)), (''title'', JStr (''Follow-up: '' @ kind)),
                (''run_kind'', JStr run_kind), (''execution_route'', JStr ''review''),
                (''milestones'', JList [JObj milestone])]
               milestone (target_names milestone)
               (if kind = ''setup_env'' then [(''target_files'', packet_touched packet)] else milestone)
               (kind \<noteq> ''setup_env''))))))"

section \<open>The hotfix route\<close>

definition run_hotfix_route :: "'w bureau \<Rightarrow> string \<Rightarrow> route_decision \<Rightarrow> obj \<Rightarrow> ('w, run_answer option) deed" where
  "run_hotfix_route bu user_request d previous_plan =
     (if rd_candidate_files d = [] then
        bindA (emit True ''hotfix.escalated'' [(''reason'', JStr ''no_targets''), (''candidate_files'', jstrs [])]) (\<lambda>_. returnA None)
      else
        (let milestone = hotfix_milestone_from_route d user_request ''HOTFIX''
         in bindA (getA (\<lambda>s. (pl_hex (bu_planner bu) 10 (dk_world s), of_kind s))) (\<lambda>(hex, kind).
            bindA (persist_run_artifact bu ''hotfix_packet'' (JObj milestone)) (\<lambda>_.
              attempt_fix bu ''hotfix_handoff'' user_request ''hotfix'' None
                [(''mission_id'', JStr (''hotfix-'' @ hex)), (''plan_id'', dget previous_plan ''plan_id'' JNull),
                 (''title'', JStr ''Focused hotfix''), (''run_kind'', JStr kind), (''execution_route'', JStr ''hotfix''),
                 (''milestones'', JList [JObj milestone])]
                milestone (Inr (rd_candidate_files d)) milestone True))))"

section \<open>The review route\<close>

definition review_ending :: "obj \<Rightarrow> string option \<Rightarrow> string \<Rightarrow> string \<Rightarrow> ending" where
  "review_ending previous_plan status summary failure =
     \<lparr>en_title = ''Code review'', en_route = ''review'', en_handoffs = [], en_plan = dget previous_plan ''plan_id'' JNull,
      en_status = status, en_summary = Some summary, en_failure = failure, en_pending = None\<rparr>"

definition fix_question :: "obj \<Rightarrow> obj \<Rightarrow> string \<Rightarrow> question" where
  "fix_question milestone report_dict summary =
     \<lparr>qu_title = ''Code review'', qu_route = ''review'', qu_type = ''review_fix'',
      qu_heading = ''Review found actionable defects - apply the fix?'', qu_summary = summary,
      qu_options = [''apply_fix'', ''escalate_mission'', ''dismiss''],
      qu_payload =
        [(''kind'', JStr ''review_fix''), (''milestone'', JObj milestone),
         (''target_files'', dget milestone ''target_files'' (JList [])), (''review_report'', JObj report_dict)],
      qu_handoffs = []\<rparr>"

definition review_deed :: "'w bureau \<Rightarrow> string \<Rightarrow> route_decision \<Rightarrow> obj \<Rightarrow> ('w, review_report) deed" where
  "review_deed bu user_request d previous_plan =
     reads (run_code_review (bu_patience bu) (bu_reviewer bu) (\<lambda>tool args w. fst (vw_dispatch (bu_reviewer bu) tool args w))
       (bu_resolve bu)
       \<lparr>rv_request = user_request @ [nl, nl] @ ''Requested review scope: '' @ rd_review_scope d, rv_root = bu_root bu,
        rv_previous = previous_plan, rv_verify = [], rv_budget = bu_review_budget bu\<rparr>)"

text \<open>What follows a report with defects that can be fixed, in a workspace that can be written.\<close>

definition fix_findings ::
    "'w bureau \<Rightarrow> string \<Rightarrow> obj \<Rightarrow> obj \<Rightarrow> obj \<Rightarrow> ('w, run_answer option) deed" where
  "fix_findings bu user_request previous_plan report_dict milestone =
     bindA (persist_run_artifact bu ''review_fix_packet'' (JObj milestone)) (\<lambda>_.
       if fix_mode bu \<noteq> ''auto'' then
         bindA (liftA (format_review_summary report_dict None None)) (\<lambda>summary.
           as_some (pause_for_decision bu (fix_question milestone report_dict summary)))
       else
         bindA (getA (\<lambda>s. (pl_hex (bu_planner bu) 10 (dk_world s), of_kind s))) (\<lambda>(hex, kind).
           attempt_fix bu ''review_fix_handoff'' user_request ''review_fix'' (Some report_dict)
             [(''mission_id'', JStr (''review-fix-'' @ hex)), (''plan_id'', dget previous_plan ''plan_id'' JNull),
              (''title'', JStr ''Review-driven fix''), (''run_kind'', JStr kind), (''execution_route'', JStr ''review''),
              (''milestones'', JList [JObj milestone])]
             milestone (target_names milestone) milestone True))"

definition reviewed :: "'w bureau \<Rightarrow> string \<Rightarrow> obj \<Rightarrow> review_report \<Rightarrow> ('w, run_answer option) deed" where
  "reviewed bu user_request previous_plan rep =
     (let report_dict = review_to_dict rep; milestone = hotfix_milestone_from_review rep ''REVIEW-FIX''
      in bindA (persist_run_artifact bu ''review_report'' (JObj report_dict)) (\<lambda>_.
           if actionable_findings rep = [] \<or> bu_read_only bu then
             bindA (liftA (format_review_summary report_dict None None)) (\<lambda>summary.
               as_some (finish_focused_result bu (review_ending previous_plan None summary [])))
           else if \<not> truthy (dget milestone ''target_files'' JNull) then
             bindA (emit True ''review.escalated'' [(''reason'', JStr ''no_actionable_targets''), (''affected_files'', JList [])])
               (\<lambda>_. returnA None)
           else fix_findings bu user_request previous_plan report_dict milestone))"

text \<open>The answer and the report; a review that fails is the end of the run, a cancellation is not caught.\<close>

definition run_review_route ::
    "'w bureau \<Rightarrow> string \<Rightarrow> route_decision \<Rightarrow> obj \<Rightarrow> ('w, run_answer option \<times> obj option) deed" where
  "run_review_route bu user_request d previous_plan =
     bindA (tryA (bindA (review_deed bu user_request d previous_plan) (\<lambda>rep. returnA (Inr rep)))
       (\<lambda>e. if e = RunCancelled then raiseA e else returnA (Inl e))) (\<lambda>r. case r of
         Inl e \<Rightarrow>
           (let summary = ''Code review failed before producing a report: '' @ bu_exn bu e
            in bindA (finish_focused_result bu (review_ending previous_plan (Some ''failed'') summary summary)) (\<lambda>a.
                 returnA (Some a, None)))
       | Inr rep \<Rightarrow>
           bindA (reviewed bu user_request previous_plan rep) (\<lambda>a. returnA (a, Some (review_to_dict rep))))"

end
