(* ===== verification/Runtime.thy ===== *)
theory Runtime
  imports Focused
begin

text \<open>
  A run of \<open>src/main.py\<close> from the request to the answer: the modes ask, plan and build, the choice of a route,
  the planned mission with its lint, and what surrounds a run. The loop over the milestones is the one of
  \<open>Mission\<close>, on the state of a run.
\<close>

section \<open>Small steps\<close>

definition preference_brief_text :: "'w office \<Rightarrow> string" where
  "preference_brief_text s = format_conversation_brief (load_conversation_brief (of_conv s))"

definition with_preference :: "string \<Rightarrow> obj \<Rightarrow> obj" where
  "with_preference preference plan =
     (if preference = [] then plan else AList.update ''user_preferences'' (JStr preference) plan)"

definition with_approval :: "string \<Rightarrow> obj \<Rightarrow> obj" where
  "with_approval state plan = AList.update ''approval_state'' (JStr state) plan"

text \<open>The dictionaries among the lines of the log; a line that does not parse is skipped.\<close>

definition chat_line :: "reader \<Rightarrow> string \<Rightarrow> obj option" where
  "chat_line rd line =
     (if py_strip line = [] then None else case json_loads rd line of Some (JObj d) \<Rightarrow> Some d | _ \<Rightarrow> None)"

definition load_chat_log :: "'w bureau \<Rightarrow> 'w \<Rightarrow> obj list" where
  "load_chat_log bu w =
     (case av_messages (bu_advisor bu) w of
        None \<Rightarrow> []
      | Some t \<Rightarrow> List.map_filter (chat_line (av_reader (bu_advisor bu))) (line_list t))"

definition merge_escalation_brief :: "obj option \<Rightarrow> string \<Rightarrow> json \<Rightarrow> ('w, obj) deed" where
  "merge_escalation_brief triage_report route review_report =
     bindA (getA of_brief) (\<lambda>brief.
     bindA (updA (\<lambda>s. s\<lparr>of_brief := None\<rparr>)) (\<lambda>_.
     let base = AList.update ''route'' (JStr ''mission'') (opt_obj triage_report);
         told = (case brief of
            None \<Rightarrow>
              AList.update ''summary'' (JStr (''The '' @ route @ '' route escalated to a planned mission without a ''
                @ ''structured brief (guard-level escalation).'')) base
          | Some b \<Rightarrow>
              AList.update ''escalation_brief_text'' (dget b ''briefing'' (JStr []))
                (AList.update ''mission_brief'' (JObj b)
                  (AList.update ''summary'' (JStr (''Escalated to a planned mission. Read MISSION BRIEF first - ''
                    @ ''it carries verified review/hotfix context. Do not re-derive what is already established there.''))
                    base)))
     in returnA (if truthy review_report then AList.update ''review_report'' review_report told else told)))"

section \<open>Answers\<close>

text \<open>A result with the defaults of \<open>MissionResult\<close>.\<close>

definition answer_of :: "'w bureau \<Rightarrow> json \<Rightarrow> json \<Rightarrow> string \<Rightarrow> string \<Rightarrow> json \<Rightarrow> run_answer" where
  "answer_of bu mission title status kind plan_id =
     \<lparr>ra_mission = mission, ra_title = title, ra_status = status, ra_passed = 0, ra_total = 0, ra_handoffs = [],
      ra_elapsed = bu_elapsed bu, ra_model = bu_model bu, ra_session = bu_session bu, ra_kind = kind, ra_plan = plan_id,
      ra_summary = [], ra_failure = [], ra_route = ''mission'', ra_pending = None\<rparr>"

section \<open>Ask\<close>

definition compact_deed :: "'w bureau \<Rightarrow> string \<Rightarrow> string \<Rightarrow> ('w, unit) deed" where
  "compact_deed bu user_request reply =
     updA (\<lambda>s. s\<lparr>of_conv :=
       snd (compact_conversation (av_reader (bu_advisor bu)) (av_repair (bu_advisor bu)) (bu_compact bu (dk_world s))
         (bu_disk bu ''conversation_brief'' (dk_world s)) (bu_compact_md bu) (of_conv s) user_request reply)\<rparr>)"

definition ask_deed :: "'w bureau \<Rightarrow> string \<Rightarrow> ('w, string) deed" where
  "ask_deed bu user_request =
     bindA (getA (\<lambda>s. (load_conversation_brief (of_conv s), opt_obj (of_mission_brief s)))) (\<lambda>(conv, mission).
       reads (\<lambda>w. run_ask (bu_patience bu) (bu_asker bu) conv mission user_request (load_chat_log bu w) w))"

definition run_ask_mode :: "'w bureau \<Rightarrow> string \<Rightarrow> ('w, run_answer) deed" where
  "run_ask_mode bu user_request =
     bindA (updA (\<lambda>s. s\<lparr>of_route := ''mission''\<rparr>)) (\<lambda>_.
     bindA (emit True ''ask.started'' []) (\<lambda>_.
     bindA (ask_deed bu user_request) (\<lambda>reply.
     bindA (emit True ''ask.replied'' [(''chars'', JInt (int (length reply))), (''answer'', JStr reply)]) (\<lambda>_.
     bindA (compact_deed bu user_request reply) (\<lambda>_.
     bindA (getA (\<lambda>s. pl_hex (bu_planner bu) 10 (dk_world s))) (\<lambda>hex.
     bindA (update_status bu ''paused'') (\<lambda>_.
       returnA ((answer_of bu (JStr (''ask-'' @ hex)) (JStr (bu_title bu)) ''completed'' ''new'' JNull)
         \<lparr>ra_summary := reply\<rparr>))))))))"

section \<open>The lint of a plan\<close>

text \<open>The second lint fixes the repaired plan in place as well, without saving it.\<close>

definition repair_plan :: "'w bureau \<Rightarrow> obj \<Rightarrow> string list \<Rightarrow> ('w, obj) deed" where
  "repair_plan bu plan issues =
     tryA
       (bindA (repair_plan_issues (bu_planner bu) plan issues) (\<lambda>repaired.
        case lint_plan repaired of (linted, _, remaining) \<Rightarrow>
          bindA (emit (remaining \<noteq> []) ''plan.lint_issues'' [(''issues'', jstrs remaining), (''stage'', JStr ''post_repair'')]) (\<lambda>_.
            returnA linted)))
       (\<lambda>e. bindA (emit True ''plan.lint_repair_failed'' [(''error'', JStr (bu_exn bu e))]) (\<lambda>_. returnA plan))"

definition lint_and_repair_plan :: "'w bureau \<Rightarrow> obj \<Rightarrow> ('w, obj) deed" where
  "lint_and_repair_plan bu plan =
     (case lint_plan plan of (linted, fixes, issues) \<Rightarrow>
        bindA (whenA (fixes \<noteq> [])
          (bindA (save_plan (bu_planner bu) linted) (\<lambda>_. emit True ''plan.linted'' [(''fixes'', jstrs fixes)]))) (\<lambda>_.
        if issues = [] then returnA linted
        else bindA (emit True ''plan.lint_issues'' [(''issues'', jstrs issues)]) (\<lambda>_. repair_plan bu linted issues)))"

section \<open>Plan\<close>

record errand =
  er_request :: string
  er_kind :: string
  er_parent :: "string option"
  er_previous :: obj
  er_route :: string
  er_packet :: "obj option"

definition exploration_of :: "errand \<Rightarrow> string \<Rightarrow> obj \<Rightarrow> obj \<Rightarrow> string \<Rightarrow> exploration" where
  "exploration_of er kind previous triage preference =
     \<lparr>ex_request = er_request er, ex_kind = kind, ex_parent = er_parent er, ex_previous = previous, ex_orientation = [],
      ex_triage = triage, ex_mode = [], ex_preference = preference\<rparr>"

text \<open>\<open>try: m except Exception as exc\<close>, with the exception as a value.\<close>

definition caught :: "('w, 'a) deed \<Rightarrow> ('w, pyexn + 'a) deed" where
  "caught m = tryA (bindA m (\<lambda>x. returnA (Inr x))) (\<lambda>e. returnA (Inl e))"

definition milestone_count :: "obj \<Rightarrow> int res" where
  "milestone_count plan =
     bindR (py_iter (py_or (dget plan ''milestones'' JNull) (JList []))) (\<lambda>ms. Inr (int (length ms)))"

definition plan_question :: "'w bureau \<Rightarrow> obj \<Rightarrow> string \<Rightarrow> json list \<Rightarrow> question" where
  "plan_question bu plan summary milestones =
     (let title = text_or plan ''title'' (bu_title bu);
          plan_id = py_str (py_or (dget plan ''plan_id'' JNull) (py_or (dget plan ''mission_id'' JNull) (JStr [])))
      in \<lparr>qu_title = title, qu_route = ''mission'', qu_type = ''plan_approval'', qu_heading = title, qu_summary = summary,
          qu_options = [''approve_plan'', ''dismiss''],
          qu_payload = [(''plan_id'', JStr plan_id), (''title'', JStr title), (''milestones'', JList milestones)],
          qu_handoffs = []\<rparr>)"

definition pause_for_plan :: "'w bureau \<Rightarrow> obj \<Rightarrow> ('w, run_answer) deed" where
  "pause_for_plan bu plan =
     bindA (liftA (format_plan_card_summary plan)) (\<lambda>summary.
     bindA (liftA (milestone_count plan)) (\<lambda>n.
     bindA (emit True ''plan.ready''
       [(''title'', JStr (text_or plan ''title'' (bu_title bu))), (''plan_id'', JStr (text_or plan ''plan_id'' [])),
        (''approval_state'', JStr ''draft''), (''milestones_total'', JInt n)]) (\<lambda>_.
     bindA (liftA (plan_milestones_payload plan)) (\<lambda>milestones.
       pause_for_decision bu (plan_question bu plan summary milestones)))))"

definition adjust_failed :: "'w bureau \<Rightarrow> errand \<Rightarrow> obj \<Rightarrow> pyexn \<Rightarrow> ('w, run_answer) deed" where
  "adjust_failed bu er plan e =
     bindA (emit True ''mission.failed'' [(''phase'', JStr ''plan_adjust''), (''error'', JStr (bu_exn bu e))]) (\<lambda>_.
     bindA (liftA (milestone_count plan)) (\<lambda>n.
     let plan_id = text_or plan ''plan_id'' []
     in returnA ((answer_of bu (JStr (text_or plan ''mission_id'' [])) (JStr (text_or plan ''title'' (bu_title bu))) ''failed''
           (er_kind er) (if plan_id = [] then JNull else JStr plan_id))
          \<lparr>ra_total := n, ra_summary := ''Could not adjust the plan: '' @ bu_exn bu e\<rparr>)))"

definition draft_plan :: "'w bureau \<Rightarrow> errand \<Rightarrow> string \<Rightarrow> ('w, run_answer) deed" where
  "draft_plan bu er preference =
     (let kind = (if er_kind er \<in> {''new'', ''repair''} then er_kind er else ''new'')
      in bindA (caught (bindA (run_orchestration (bu_planner bu) (exploration_of er kind (er_previous er) [] preference))
             (lint_and_repair_plan bu))) (\<lambda>r. case r of
           Inl e \<Rightarrow>
             bindA (emit True ''mission.failed'' [(''phase'', JStr ''plan''), (''error'', JStr (bu_exn bu e))]) (\<lambda>_.
               returnA ((answer_of bu (JStr []) (JStr (bu_title bu)) ''failed'' kind JNull)
                 \<lparr>ra_summary := ''Could not create a plan: '' @ bu_exn bu e\<rparr>))
         | Inr plan \<Rightarrow>
             (let drafted = with_preference preference (with_approval ''draft'' plan)
              in bindA (quiet_plan bu drafted) (\<lambda>_. pause_for_plan bu drafted))))"

text \<open>None is an approval: the caller goes on to build.\<close>

definition run_plan_mode :: "'w bureau \<Rightarrow> errand \<Rightarrow> ('w, run_answer option) deed" where
  "run_plan_mode bu er =
     bindA (updA (\<lambda>s. s\<lparr>of_route := ''mission''\<rparr>)) (\<lambda>_.
     bindA (getA (\<lambda>s. (preference_brief_text s, of_skip s))) (\<lambda>(preference, skip).
     let plan = er_previous er; awaiting = plan_awaiting_approval (JObj plan)
     in if skip \<and> awaiting then returnA None
        else if is_plan_approval_phrase (er_request er) \<and> awaiting then
          bindA (quiet_plan bu (with_preference preference (with_approval ''approved'' plan))) (\<lambda>_. returnA None)
        else if awaiting then
          bindA (caught (adjust_plan_from_user (bu_planner bu) plan (er_request er) preference)) (\<lambda>r. case r of
              Inl e \<Rightarrow> as_some (adjust_failed bu er plan e)
            | Inr adjusted \<Rightarrow> as_some (pause_for_plan bu adjusted))
        else as_some (draft_plan bu er preference)))"

section \<open>The choice of a route\<close>

text \<open>Any regular file outside the directories of tools; the parts are those of the absolute path.\<close>

definition ignored_dirs :: "string list" where
  "ignored_dirs = [''.git'', ''.pytest_cache'', ''.venv'', ''__pycache__'', ''node_modules'', ''target'']"

definition workspace_has_user_files :: "ppath list \<Rightarrow> bool" where
  "workspace_has_user_files files =
     (\<exists>p\<in>set files. path_name p \<notin> {''.gitkeep'', ''pytest.ini''} \<and> \<not> (\<exists>part\<in>set (p_parts p). part \<in> set ignored_dirs))"

definition asks_for_review :: "string \<Rightarrow> bool" where
  "asks_for_review user_request =
     (let t = py_lower (py_strip user_request)
      in (\<exists>p\<in>set [''review '', ''review:'', ''audit '', ''audit:'']. starts_with p t) \<or> contains ''code review'' t)"

definition deterministic_route :: "errand \<Rightarrow> ppath list \<Rightarrow> string" where
  "deterministic_route er files =
     (let named = (if er_route er = ''auto'' \<and> asks_for_review (er_request er) then ''review'' else er_route er)
      in if named = ''auto'' \<and> er_kind er = ''new'' \<and> \<not> workspace_has_user_files files then ''mission'' else named)"

definition route_dict :: "route_decision \<Rightarrow> obj" where
  "route_dict d =
     [(''route'', JStr (rd_route d)), (''confidence'', JStr (rd_confidence d)), (''rationale'', JStr (rd_rationale d)),
      (''candidate_files'', jstrs (rd_candidate_files d)), (''constraints'', jstrs (rd_constraints d)),
      (''validation_intent'', jstrs (rd_validation_intent d)), (''review_scope'', JStr (rd_review_scope d)),
      (''source'', JStr (rd_source d))]"

definition to_mission :: "string \<Rightarrow> string \<Rightarrow> route_decision" where
  "to_mission rationale source =
     \<lparr>rd_route = ''mission'', rd_confidence = ''high'', rd_rationale = rationale, rd_candidate_files = [],
      rd_constraints = [], rd_validation_intent = [], rd_review_scope = ''user_request'', rd_source = source\<rparr>"

definition ask_triage :: "'w bureau \<Rightarrow> errand \<Rightarrow> ('w, obj option) deed" where
  "ask_triage bu er =
     tryA
       (bindA (run_triage (bu_advisor bu)
          \<lparr>tt_request = er_request er, tt_previous = er_previous er, tt_profile = bu_profile bu\<rparr>) (\<lambda>d. returnA (Some d)))
       (\<lambda>e. bindA (emit True ''triage.failed'' [(''error'', JStr (bu_exn bu e)), (''fatal'', JBool False)]) (\<lambda>_. returnA None))"

text \<open>The decision and the report of triage so far.\<close>

definition choose_route :: "'w bureau \<Rightarrow> errand \<Rightarrow> obj option \<Rightarrow> ('w, route_decision \<times> obj option) deed" where
  "choose_route bu er triage_report =
     (if er_kind er = ''resume'' then
        returnA (to_mission ''Pending milestones require crash-safe resume.'' ''lifecycle'', triage_report)
      else if er_packet er \<noteq> None then
        returnA (to_mission ''Follow-up packet escalated to a planned mission.'' ''packet'', triage_report)
      else
        bindA (getA (\<lambda>s. deterministic_route er (bu_files bu (dk_world s)))) (\<lambda>route.
        bindA (if route \<in> {''auto'', ''hotfix''} then ask_triage bu er else returnA triage_report) (\<lambda>rep.
          returnA (normalize_route_decision (bu_resolve bu) (opt_obj rep) (bu_root bu) route, rep))))"

definition announce_route :: "'w bureau \<Rightarrow> errand \<Rightarrow> route_decision \<Rightarrow> ('w, unit) deed" where
  "announce_route bu er d =
     bindA (updA (\<lambda>s. s\<lparr>of_route := rd_route d\<rparr>)) (\<lambda>_.
     bindA (emit True ''triage.route.selected''
       [(''execution_route'', JStr (rd_route d)), (''confidence'', JStr (rd_confidence d)),
        (''rationale'', JStr (rd_rationale d)), (''source'', JStr (rd_source d)),
        (''candidate_files'', jstrs (rd_candidate_files d))]) (\<lambda>_.
     persist_run_artifact bu ''route''
       (JObj [(''decision'', JObj (route_dict d)),
              (''run_id'', case bu_run bu of None \<Rightarrow> JNull | Some i \<Rightarrow> JStr i), (''session_id'', JStr (bu_session bu)),
              (''run_kind'', JStr (er_kind er)),
              (''parent_plan_id'', case er_parent er of None \<Rightarrow> JNull | Some p \<Rightarrow> JStr p)])))"

text \<open>A focused route ends the run, or leaves its brief to the mission.\<close>

definition take_route :: "'w bureau \<Rightarrow> errand \<Rightarrow> route_decision \<Rightarrow> obj option \<Rightarrow> ('w, run_answer + obj option) deed" where
  "take_route bu er d triage_report =
     (let onward = (\<lambda>rep route. bindA (merge_escalation_brief triage_report route rep) (\<lambda>merged.
            bindA (updA (\<lambda>s. s\<lparr>of_route := ''mission''\<rparr>)) (\<lambda>_. returnA (Inr (Some merged)))))
      in if rd_route d = ''hotfix'' then
           bindA (run_hotfix_route bu (er_request er) d (er_previous er)) (\<lambda>r. case r of
               Some a \<Rightarrow> returnA (Inl a) | None \<Rightarrow> onward JNull ''hotfix'')
         else if rd_route d = ''review'' then
           bindA (run_review_route bu (er_request er) d (er_previous er)) (\<lambda>(r, rep). case r of
               Some a \<Rightarrow> returnA (Inl a) | None \<Rightarrow> onward (opt_json rep) ''review'')
         else returnA (Inr triage_report))"

section \<open>The planned mission\<close>

definition mission_of :: "'w bureau \<Rightarrow> string \<Rightarrow> string \<Rightarrow> 'w office mission" where
  "mission_of bu kind plan_id =
     \<lparr>mn_cancelled = (\<lambda>s. bu_cancelled bu (dk_world s)), mn_execute = (\<lambda>ms plan. run_packet bu False [] plan ms),
      mn_replan = replan_mission (bu_planner bu), mn_completed = (\<lambda>i p s. bu_completed bu i p (dk_world s)),
      mn_write_plan = (\<lambda>plan s. snd (quiet_plan bu plan s)),
      mn_log_state = (\<lambda>h p s. s\<lparr>dk_world := bu_log_state bu h p (dk_world s)\<rparr>), mn_memory = bu_memory bu,
      mn_resume = (kind = ''resume''), mn_budget = bu_budget bu, mn_plan_id = plan_id, mn_error_text = bu_exn bu\<rparr>"

text \<open>The loop as long as its user waits.\<close>

fun patient :: "('s \<Rightarrow> 's \<times> 'a res option) \<Rightarrow> nat \<Rightarrow> 's \<Rightarrow> 's \<times> 'a res" where
  "patient turn 0 st = (st, Inl RunCancelled)"
| "patient turn (Suc n) st = (case turn st of (st', Some r) \<Rightarrow> (st', r) | (st', None) \<Rightarrow> patient turn n st')"

text \<open>The milestones are run on the state of the run itself; the loop's events follow those before it.\<close>

definition milestone_loop :: "'w bureau \<Rightarrow> string \<Rightarrow> string \<Rightarrow> obj \<Rightarrow> ('w, obj \<times> mission_result) deed" where
  "milestone_loop bu kind plan_id plan s =
     (case mission_start plan s of
        Inl e \<Rightarrow> (Inl e, s)
      | Inr st0 \<Rightarrow>
          (case patient (mission_turn (mission_of bu kind plan_id)) (bu_patience bu) st0 of (st, r) \<Rightarrow>
             let t = (mm_world st)\<lparr>dk_events := dk_events (mm_world st) @ mm_events st\<rparr>
             in case r of Inl e \<Rightarrow> (Inl e, t) | Inr _ \<Rightarrow> (Inr (current_plan st, mission_audit st), t)))"

definition plan_created :: "obj \<Rightarrow> json \<Rightarrow> json \<Rightarrow> string \<Rightarrow> string \<Rightarrow> string \<Rightarrow> json \<Rightarrow> obj list \<Rightarrow> obj" where
  "plan_created plan mission title kind plan_id route parent milestones =
     [(''mission_id'', mission), (''title'', title), (''run_kind'', JStr kind), (''plan_id'', JStr plan_id),
      (''execution_route'', JStr route), (''parent_plan_id'', parent), (''milestones_total'', JInt (int (length milestones))),
      (''milestone_ids'', JList (map id_of milestones))]"

definition mission_answer :: "'w bureau \<Rightarrow> json \<Rightarrow> json \<Rightarrow> string \<Rightarrow> string \<Rightarrow> mission_result \<Rightarrow> recap \<Rightarrow> run_answer" where
  "mission_answer bu mission title kind plan_id mo rc =
     (answer_of bu mission title (mo_status mo) kind (JStr plan_id))
       \<lparr>ra_passed := mo_passed mo, ra_total := mo_total mo, ra_handoffs := mo_handoffs mo, ra_summary := rc_text rc,
        ra_failure := rc_reason rc\<rparr>"

definition finish_mission ::
    "'w bureau \<Rightarrow> json \<Rightarrow> json \<Rightarrow> string \<Rightarrow> string \<Rightarrow> obj \<Rightarrow> mission_result \<Rightarrow> ('w, run_answer) deed" where
  "finish_mission bu mission title kind plan_id plan mo =
     bindA (emit True ''mission.audit''
       [(''passed'', JBool (mo_audit mo)), (''incomplete_milestones'', jstrs (mo_incomplete mo)),
        (''run_kind'', JStr kind), (''plan_id'', JStr plan_id)]) (\<lambda>_.
     bindA (update_status bu (mo_status mo)) (\<lambda>_.
     bindA (liftA (bindR (name_of title) (\<lambda>t.
       build_mission_summary t (mo_status mo) (mo_passed mo) (mo_total mo) (bu_seconds bu) (mo_handoffs mo) (mo_incomplete mo)))) (\<lambda>rc.
     bindA (refresh_mission_brief bu plan (mo_status mo) (rc_text rc) (rc_files rc)) (\<lambda>_.
     bindA (getA of_route) (\<lambda>route.
     let a = mission_answer bu mission title kind plan_id mo rc
     in bindA (emit True ''mission.complete''
          [(''status'', JStr (ra_status a)), (''run_kind'', JStr kind), (''plan_id'', JStr plan_id),
           (''milestones_passed'', JInt (ra_passed a)), (''milestones_total'', JInt (ra_total a)),
           (''total_elapsed_ms'', ra_elapsed a), (''execution_route'', JStr route), (''summary_text'', JStr (ra_summary a)),
           (''failure_reason'', JStr (ra_failure a)), (''files_modified'', jstrs (rc_files rc))]) (\<lambda>_. returnA a))))))"

definition carry_out :: "'w bureau \<Rightarrow> errand \<Rightarrow> string \<Rightarrow> obj \<Rightarrow> ('w, run_answer) deed" where
  "carry_out bu er kind plan =
     bindA (getA (\<lambda>s. (dget plan ''mission_id'' (JStr (pl_hex (bu_planner bu) 8 (dk_world s))), of_route s))) (\<lambda>(mission, route).
     let plan_id = py_str (py_or (dget plan ''plan_id'' JNull) mission); title = dget plan ''title'' (JStr ''Untitled Mission'')
     in bindA (liftA (milestones_of plan)) (\<lambda>milestones.
        bindA (emit True ''plan.created''
          (plan_created plan mission title kind plan_id route
             (case er_parent er of None \<Rightarrow> JNull | Some p \<Rightarrow> JStr p) milestones)) (\<lambda>_.
        bindA (milestone_loop bu kind plan_id plan) (\<lambda>(final, mo). finish_mission bu mission title kind plan_id final mo))))"

text \<open>A plan that awaits approval, or an approved one, is carried out as it is.\<close>

definition replays :: "errand \<Rightarrow> 'w office \<Rightarrow> bool" where
  "replays er s \<longleftrightarrow>
     (of_skip s \<or> of_mode s = ''build'' \<and> plan_awaiting_approval (JObj (er_previous er))) \<and>
     truthy (dget (er_previous er) ''milestones'' JNull)"

definition prepare_replay :: "'w bureau \<Rightarrow> errand \<Rightarrow> string \<Rightarrow> ('w, string \<times> obj) deed" where
  "prepare_replay bu er preference =
     bindA (getA (replays er)) (\<lambda>again.
       if again then
         (let plan = with_preference preference (with_approval ''executing'' (er_previous er))
          in bindA (updA (\<lambda>s. s\<lparr>of_kind := ''resume''\<rparr>)) (\<lambda>_.
             bindA (quiet_plan bu plan) (\<lambda>_. returnA (''resume'', plan))))
       else returnA (er_kind er, er_previous er))"

definition orchestration_failed :: "'w bureau \<Rightarrow> string \<Rightarrow> pyexn \<Rightarrow> ('w, run_answer) deed" where
  "orchestration_failed bu kind e =
     bindA (emit True ''mission.failed'' [(''phase'', JStr ''orchestration''), (''error'', JStr (bu_exn bu e))]) (\<lambda>_.
       returnA (answer_of bu (JStr []) (JStr (bu_title bu)) ''failed'' kind JNull))"

definition start_executing :: "'w bureau \<Rightarrow> string \<Rightarrow> obj \<Rightarrow> ('w, obj) deed" where
  "start_executing bu preference plan =
     bindA (lint_and_repair_plan bu plan) (\<lambda>linted.
     bindA (getA (\<lambda>s. of_mode s = ''build'')) (\<lambda>build.
     let p = with_preference preference linted
     in if build then bindA (quiet_plan bu (with_approval ''executing'' p)) (\<lambda>_. returnA (with_approval ''executing'' p))
        else returnA p))"

definition planned_mission :: "'w bureau \<Rightarrow> errand \<Rightarrow> obj option \<Rightarrow> ('w, run_answer) deed" where
  "planned_mission bu er triage_report =
     bindA (getA preference_brief_text) (\<lambda>preference.
     bindA (prepare_replay bu er preference) (\<lambda>(kind, previous).
     bindA (caught (run_orchestration (bu_planner bu)
         (exploration_of er kind previous (opt_obj triage_report) preference))) (\<lambda>r. case r of
         Inl e \<Rightarrow> orchestration_failed bu kind e
       | Inr plan \<Rightarrow> bindA (start_executing bu preference plan) (carry_out bu er kind))))"

section \<open>The body of a run\<close>

definition build_mode :: "'w bureau \<Rightarrow> errand \<Rightarrow> obj option \<Rightarrow> ('w, run_answer) deed" where
  "build_mode bu er triage_report =
     bindA (choose_route bu er triage_report) (\<lambda>(d, rep).
     bindA (announce_route bu er d) (\<lambda>_.
     bindA (take_route bu er d rep) (\<lambda>r. case r of Inl a \<Rightarrow> returnA a | Inr merged \<Rightarrow> planned_mission bu er merged)))"

definition packet_or_build :: "'w bureau \<Rightarrow> errand \<Rightarrow> ('w, run_answer) deed" where
  "packet_or_build bu er =
     (case er_packet er of
        None \<Rightarrow> build_mode bu er None
      | Some packet \<Rightarrow>
          bindA (run_packet_run bu (er_request er) packet (er_kind er)) (\<lambda>r. case r of
              Some a \<Rightarrow> returnA a
            | None \<Rightarrow>
                bindA (merge_escalation_brief None ''packet''
                    (py_or (dget packet ''report'' JNull) (dget packet ''review_report'' JNull))) (\<lambda>merged.
                  build_mode bu er (Some merged))))"

definition approved_build :: "'w bureau \<Rightarrow> errand \<Rightarrow> ('w, run_answer) deed" where
  "approved_build bu er =
     bindA (updA (\<lambda>s. s\<lparr>of_mode := ''build'', of_skip := True\<rparr>)) (\<lambda>_.
     bindA (getA load_plan) (\<lambda>previous.
     bindA (updA (\<lambda>s. s\<lparr>of_kind := ''resume''\<rparr>)) (\<lambda>_.
       packet_or_build bu (er\<lparr>er_kind := ''resume'', er_previous := previous\<rparr>))))"

definition run_mission_body :: "'w bureau \<Rightarrow> errand \<Rightarrow> ('w, run_answer) deed" where
  "run_mission_body bu er =
     bindA (getA (\<lambda>s. bu_cancelled bu (dk_world s))) (\<lambda>cancelled.
       if cancelled then raiseA RunCancelled
       else
         bindA (updA (\<lambda>s. s\<lparr>of_kind := er_kind er\<rparr>)) (\<lambda>_.
         bindA (getA of_mode) (\<lambda>mode.
           if mode = ''ask'' then run_ask_mode bu (er_request er)
           else if mode = ''plan'' then
             bindA (run_plan_mode bu er) (\<lambda>r. case r of Some a \<Rightarrow> returnA a | None \<Rightarrow> approved_build bu er)
           else packet_or_build bu er)))"

section \<open>A run\<close>

text \<open>\<open>any(...)\<close> stops at the first milestone that is not completed.\<close>

definition resolve_run_kind :: "obj \<Rightarrow> string \<Rightarrow> string res" where
  "resolve_run_kind plan requested =
     (if requested \<in> {''new'', ''resume'', ''repair''} then Inr requested
      else
        bindR (py_iter (dget plan ''milestones'' (JList []))) (\<lambda>ms.
        bindR (anyR (\<lambda>m. bindR (as_obj m) (\<lambda>d. Inr (dget d ''status'' JNull \<noteq> JStr ''completed''))) ms) (\<lambda>pending.
          Inr (if pending then ''resume'' else if truthy (dget plan ''milestones'' JNull) then ''repair'' else ''new''))))"

definition completed_count :: "json list \<Rightarrow> int res" where
  "completed_count ms =
     bindR (filterR (\<lambda>m. bindR (as_obj m) (\<lambda>d. Inr (dget d ''status'' JNull = JStr ''completed''))) ms)
       (\<lambda>done. Inr (int (length done)))"

definition finish_cancelled :: "'w bureau \<Rightarrow> ('w, run_answer) deed" where
  "finish_cancelled bu =
     bindA (update_status bu ''paused'') (\<lambda>_.
     bindA (getA (\<lambda>s. (dk_plan s, of_kind s, of_route s))) (\<lambda>(stored, kind, route).
     bindA (liftA (case stored of None \<Rightarrow> Inr [] | Some j \<Rightarrow> as_obj j)) (\<lambda>plan.
     bindA (liftA (py_iter (dget plan ''milestones'' (JList [])))) (\<lambda>ms.
     bindA (liftA (completed_count ms)) (\<lambda>passed.
     let n = int (length ms)
     in bindA (emit True ''mission.cancelled''
          [(''milestones_passed'', JInt passed), (''milestones_total'', JInt n), (''total_elapsed_ms'', bu_elapsed bu)]) (\<lambda>_.
        returnA ((answer_of bu (dget plan ''mission_id'' (JStr [])) (dget plan ''title'' (JStr (bu_title bu))) ''cancelled'' kind
            (py_or (dget plan ''plan_id'' JNull) (dget plan ''mission_id'' JNull)))
          \<lparr>ra_passed := passed, ra_total := n, ra_route := route\<rparr>)))))))"

record request =
  rq_request :: string
  rq_kind :: string
  rq_route :: string
  rq_mode :: json
  rq_skip :: bool
  rq_packet :: "obj option"

text \<open>What happens before the \<open>try\<close>.\<close>

definition open_run :: "'w bureau \<Rightarrow> request \<Rightarrow> ('w, errand) deed" where
  "open_run bu rq =
     bindA (updA (\<lambda>s. s\<lparr>of_mode := normalize_chat_mode (rq_mode rq) ''build'', of_skip := rq_skip rq, of_brief := None\<rparr>)) (\<lambda>_.
     bindA (getA load_plan) (\<lambda>previous.
     bindA (liftA (resolve_run_kind previous (rq_kind rq))) (\<lambda>kind.
     bindA (writes bu ''directories'' (\<lambda>s. s\<lparr>of_scoped := True\<rparr>)) (\<lambda>_.
     bindA (on_world (bu_prepare bu)) (\<lambda>_.
     bindA (update_status bu ''running'') (\<lambda>_.
     bindA (getA of_mode) (\<lambda>mode.
     bindA (emit True ''session.started''
       [(''request'', JStr (rq_request rq)), (''model'', JStr (bu_model bu)), (''run_kind'', JStr kind),
        (''workspace'', JStr (path_str (bu_root bu))), (''chat_mode'', JStr mode)]) (\<lambda>_.
       returnA
         \<lparr>er_request = rq_request rq, er_kind = kind,
          er_parent = (if kind = ''repair''
             then Some (py_str (py_or (dget previous ''plan_id'' JNull) (py_or (dget previous ''mission_id'' JNull) (JStr []))))
             else None),
          er_previous = previous, er_route = rq_route rq, er_packet = rq_packet rq\<rparr>))))))))"

text \<open>The \<open>finally\<close>: the snapshot of an attached project may raise, and then the rest is skipped.\<close>

definition close_run :: "'w bureau \<Rightarrow> ('w, unit) deed" where
  "close_run bu =
     bindA (if bu_external bu
            then bindA (getA (\<lambda>s. bu_snapshot bu (dk_world s))) (\<lambda>r. bindA (liftA r) (\<lambda>snapshot.
                   persist_run_artifact bu ''git_postflight'' (JObj snapshot)))
            else returnA ()) (\<lambda>_.
       updA (\<lambda>s. s\<lparr>of_scoped := False\<rparr>))"

definition closing :: "('w, 'a) deed \<Rightarrow> ('w, unit) deed \<Rightarrow> ('w, 'a) deed" where
  "closing m c s = (case m s of (r, s1) \<Rightarrow> (case c s1 of (Inl e, s2) \<Rightarrow> (Inl e, s2) | (Inr _, s2) \<Rightarrow> (r, s2)))"

definition run :: "'w bureau \<Rightarrow> request \<Rightarrow> ('w, run_answer) deed" where
  "run bu rq =
     bindA (open_run bu rq) (\<lambda>er.
       closing (tryA (run_mission_body bu er) (\<lambda>e. if e = RunCancelled then finish_cancelled bu else raiseA e)) (close_run bu))"

end
