(* ===== verification/RunLaws.thy ===== *)
theory RunLaws
  imports Runtime
begin

text \<open>
  What a run leaves alone, how it ends and what a human can do with it: the laws of \<open>Office\<close>, \<open>Focused\<close> and
  \<open>Runtime\<close>.
\<close>

section \<open>The orchestrator leaves the run alone\<close>

definition same_more :: "('w, 'z) desk_scheme \<Rightarrow> ('w, 'z) desk_scheme \<Rightarrow> bool" where
  "same_more s t \<longleftrightarrow> desk.more t = desk.more s"

interpretation inner: frame same_more
  by unfold_locales (simp_all add: same_more_def)

lemma inner_kept: "kept.framed m \<Longrightarrow> inner.framed m"
  by (auto simp: kept.framed_def inner.framed_def same_plan_def same_more_def)

lemmas inner_asked = inner_kept [OF kept_asked]

lemma inner_save_plan: "inner.framed (save_plan pl plan)"
  unfolding save_plan_def by (intro inner.framed_rules inner.framed_upd) (simp add: same_more_def)

lemma inner_patch_and_save: "inner.framed (patch_and_save pl plan prompt fin)"
  unfolding patch_and_save_def request_plan_patch_def call_json_with_correction_def
  by (intro inner.framed_rules inner_save_plan inner_asked asked_correcting)

lemma inner_patches:
  "inner.framed (replan_mission pl plan guidance)" "inner.framed (repair_plan_issues pl plan issues)"
  "inner.framed (adjust_plan_from_user pl plan user_request preference)"
  by (simp_all add: replan_mission_def repair_plan_issues_def adjust_plan_from_user_def Let_def inner_patch_and_save)

lemma inner_store_plan: "inner.framed (store_plan pl ex plan)"
  unfolding store_plan_def by (intro inner.framed_rules inner_kept [OF kept_archive] inner_save_plan)

lemma inner_run_orchestration: "inner.framed (run_orchestration pl ex)"
  unfolding run_orchestration_def fresh_plan_def
  by (intro inner.framed_rules inner_store_plan inner_asked [OF asked_make_plan] inner_save_plan)

section \<open>What is calm\<close>

text \<open>
  Deeds that run no milestone, keep the tools where they are bound and ask no human: everything but
  \<open>run_packet\<close>, \<open>pause_for_decision\<close>, \<open>open_run\<close> and \<open>close_run\<close>.
\<close>

definition calm :: "'w office \<Rightarrow> 'w office \<Rightarrow> bool" where
  "calm s t \<longleftrightarrow> of_executed t = of_executed s \<and> of_scoped t = of_scoped s \<and> of_pending t = of_pending s"

definition idle :: "'w office \<Rightarrow> 'w office \<Rightarrow> bool" where
  "idle s t \<longleftrightarrow> of_executed t = of_executed s \<and> of_scoped t = of_scoped s"

interpretation calm: frame calm
  by unfold_locales (simp_all add: calm_def)

interpretation idle: frame idle
  by unfold_locales (simp_all add: idle_def)

lemma calm_inner: "inner.framed m \<Longrightarrow> calm.framed m"
proof (rule calm.framedI)
  fix s :: "'a office" assume "inner.framed m"
  then have "desk.more (snd (m s)) = desk.more s" by (simp add: inner.framed_def same_more_def)
  then show "calm s (snd (m s))" by (cases s; cases "snd (m s)") (simp add: calm_def)
qed

lemma idle_calm: "calm.framed m \<Longrightarrow> idle.framed m"
  by (auto simp: calm.framed_def idle.framed_def calm_def idle_def)

lemma calm_asked: "asked.framed m \<Longrightarrow> calm.framed m"
  by (rule calm_inner) (rule inner_asked)

lemma calm_writes: "(\<And>s. calm s (f s)) \<Longrightarrow> calm.framed (writes bu file f)"
  unfolding writes_def by (intro calm.framed_rules calm.framed_upd)

lemma calm_quietly: "calm.framed m \<Longrightarrow> calm.framed (quietly m)"
  unfolding quietly_def by (intro calm.framed_rules)

lemma calm_quiet_plan: "calm.framed (quiet_plan bu plan)"
  unfolding quiet_plan_def by (intro calm_quietly calm_inner inner_save_plan)

lemma calm_persist: "calm.framed (persist_run_artifact bu name payload)"
proof -
  have "calm.framed (quietly (writes bu ''artifacts'' (\<lambda>s. s\<lparr>of_artifacts := AList.update name payload (of_artifacts s)\<rparr>)))"
    by (intro calm_quietly calm_writes) (simp add: calm_def)
  then show ?thesis by (auto simp: persist_run_artifact_def calm.framed_return split: option.split list.split)
qed

lemma calm_status: "calm.framed (update_status bu status)"
  unfolding update_status_def by (intro calm_writes) (simp add: calm_def)

lemma calm_emit: "calm.framed (emit on name details)"
  by (intro calm_asked asked_emit)

lemma calm_reads: "calm.framed (reads m)"
  by (rule calm.framedI) (auto simp: reads_def calm_def split: sum.split option.split prod.split)

lemma calm_traced: "calm.framed (traced_deed m)"
  by (rule calm.framedI) (auto simp: traced_deed_def calm_def split: prod.split)

lemmas calm_steps = calm_quiet_plan calm_persist calm_status calm_emit calm_reads calm_traced

lemma calm_refresh: "calm.framed (refresh_mission_brief bu plan status summary files)"
  unfolding refresh_mission_brief_def
  by (intro calm.framed_rules calm_steps calm.framed_upd) (simp add: calm_def)

lemma calm_finish_focused: "calm.framed (finish_focused_result bu en)"
  unfolding finish_focused_result_def refresh_focused_def by (intro calm.framed_rules calm_steps calm_refresh)

lemma calm_stash: "calm.framed (stash_mission_brief bu fo targets rationale v escalation)"
  unfolding stash_mission_brief_def Let_def
  by (intro calm.framed_rules calm_steps calm.framed_upd) (simp add: calm_def)

lemma calm_lint: "calm.framed (lint_and_repair_plan bu plan)"
  unfolding lint_and_repair_plan_def repair_plan_def
  by (intro calm.framed_rules calm_steps calm_inner inner_save_plan inner_patches)

lemma calm_caught: "calm.framed m \<Longrightarrow> calm.framed (caught m)"
  unfolding caught_def by (intro calm.framed_rules)

section \<open>Pauses\<close>

lemma idle_pause: "idle.framed (pause_for_decision bu qu)"
proof -
  have "idle.framed (writes bu ''decision'' (\<lambda>s. s\<lparr>of_pending := p\<rparr>))" for p
    unfolding writes_def by (intro idle.framed_rules idle.framed_upd) (simp add: idle_def)
  then show ?thesis
    unfolding pause_for_decision_def Let_def
    by (intro idle.framed_rules idle_calm [OF calm_persist] idle_calm [OF calm_emit] idle_calm [OF calm_finish_focused])
qed

lemma wp_calm: "calm.framed m \<Longrightarrow> wp m (\<lambda>r t. calm s t) s"
  by (auto simp: wp_def split: prod.split dest: calm.framedD)

lemma wp_idle: "idle.framed m \<Longrightarrow> wp m (\<lambda>r t. idle s t) s"
  by (auto simp: wp_def split: prod.split dest: idle.framedD)

text \<open>The answer of a focused run is made of its ending.\<close>

definition answers :: "ending \<Rightarrow> run_answer \<Rightarrow> bool" where
  "answers en a \<longleftrightarrow>
     ra_status a = focused_status en \<and> ra_handoffs a = en_handoffs en \<and> ra_pending a = en_pending en \<and>
     ra_route a = en_route en"

lemma finish_focused_answers:
  "wp (finish_focused_result bu en) (\<lambda>r t. \<forall>a. r = Inr a \<longrightarrow> answers en a) s"
proof -
  have a: "answers en (focused_answer bu en texts u)" for texts u by (simp add: answers_def focused_answer_def)
  show ?thesis
    unfolding finish_focused_result_def wp_simps
    by (auto simp: wp_simps a split: sum.split intro!: wpI)
qed

text \<open>A pause leaves the question behind, and the answer carries it.\<close>

definition asked_human :: "'w bureau \<Rightarrow> question \<Rightarrow> run_answer \<Rightarrow> 'w office \<Rightarrow> bool" where
  "asked_human bu qu a t \<longleftrightarrow>
     (let d = pending_payload (bu_now bu) (bu_session bu) (decision_of qu)
      in ra_status a = ''awaiting_decision'' \<and> ra_handoffs a = qu_handoffs qu \<and> ra_pending a = Some d \<and>
         of_pending t = Some (JObj d))"

lemma pause_asks: "wp (pause_for_decision bu qu) (\<lambda>r t. \<forall>a. r = Inr a \<longrightarrow> asked_human bu qu a t) s"
proof -
  let ?d = "pending_payload (bu_now bu) (bu_session bu) (decision_of qu)"
  let ?en = "\<lparr>en_title = qu_title qu, en_route = qu_route qu, en_handoffs = qu_handoffs qu, en_plan = JNull,
    en_status = Some ''awaiting_decision'', en_summary = Some (qu_summary qu), en_failure = [], en_pending = Some ?d\<rparr>"
  have f: "wp (finish_focused_result bu ?en) (\<lambda>r t. \<forall>a. r = Inr a \<longrightarrow> asked_human bu qu a t) u"
    if "of_pending u = Some (JObj ?d)" for u
    by (rule wp_mono [OF wp_conj [OF finish_focused_answers wp_calm [OF calm_finish_focused]]])
       (use that in \<open>auto simp: asked_human_def answers_def focused_status_def calm_def Let_def\<close>)
  have p: "wp (persist_run_artifact bu ''pending_decision'' (JObj ?d)) (\<lambda>r t. calm u t) u" for u
    by (rule wp_calm [OF calm_persist])
  show ?thesis
    unfolding pause_for_decision_def Let_def
  proof (rule wp_bindI [where P = "\<lambda>r t. r = Inr () \<longrightarrow> of_pending t = Some (JObj ?d)"], goal_cases)
    case 1
    show ?case by (simp add: writes_def wp_simps)
  next
    case (3 x t)
    then have "wp (persist_run_artifact bu ''pending_decision'' (JObj ?d)) (\<lambda>r t. of_pending t = Some (JObj ?d)) t"
      by (intro wp_mono [OF p]) (simp add: calm_def)
    then show ?case by (rule wp_bindI) (auto simp: wp_simps intro!: f)
  qed simp
qed

section \<open>Fixes\<close>

lemma idle_escalation: "idle.framed (escalate_hotfix_failure bu fo targets)"
  unfolding escalate_hotfix_failure_def
  by (intro idle.framed_rules idle_calm [OF calm_asked [OF asked_escalation]] idle_calm [OF calm_persist]
      idle_calm [OF calm_stash] idle_pause)

lemma idle_some: "idle.framed m \<Longrightarrow> idle.framed (as_some m)"
  unfolding as_some_def by (intro idle.framed_rules)

lemma calm_obtain: "calm.framed (obtain_verification bu fo given)"
  unfolding obtain_verification_def by (intro calm.framed_rules calm_traced)

lemma idle_verify: "idle.framed (verify_hotfix_result bu fo given)"
proof -
  have "idle.framed (finish_verified bu fo v)" for v
    unfolding finish_verified_def by (intro idle.framed_rules idle_calm [OF calm_finish_focused])
  then show ?thesis
    unfolding verify_hotfix_result_def conclude_fix_def Let_def
    by (intro idle.framed_rules idle_calm [OF calm_obtain] idle_calm [OF calm_persist] idle_calm [OF calm_stash]
        idle_escalation idle_pause idle_some)
qed

lemma idle_follow_up: "idle.framed (follow_up bu fo targets verify_milestone given)"
  unfolding follow_up_def by (intro idle.framed_rules idle_escalation idle_verify)

lemma calm_mark_saved: "calm.framed (mark_saved bu i)"
  unfolding mark_saved_def by (intro calm.framed_rules calm_quiet_plan)

text \<open>A packet is executed once.\<close>

definition ran :: "obj \<Rightarrow> bool \<Rightarrow> 'w office \<Rightarrow> 'w office \<Rightarrow> bool" where
  "ran milestone hotfix s t \<longleftrightarrow>
     of_executed t = of_executed s @ [(milestone, hotfix)] \<and> of_scoped t = of_scoped s \<and> of_pending t = of_pending s"

lemma run_packet_ran: "wp (run_packet bu hotfix rep plan milestone) (\<lambda>r t. ran milestone hotfix s t) s"
proof -
  have "calm.framed (bindA (attempt_milestone bu hotfix rep plan milestone) (\<lambda>h.
      bindA (whenA (h_verdict h = ''PASS'') (mark_saved bu (h_id h))) (\<lambda>_. returnA h)))"
    unfolding attempt_milestone_def by (intro calm.framed_rules calm_asked [OF asked_on_world] calm_mark_saved)
  note w = wp_calm [OF this]
  show ?thesis
    unfolding run_packet_def
    by (rule wp_bindI [where P = "\<lambda>r t. ran milestone hotfix s t"], simp add: wp_simps ran_def, assumption,
        rule wp_mono [OF w]) (simp add: ran_def calm_def)
qed

text \<open>The verdict a fix got, from the loop or from a verifier that was asked.\<close>

definition judged_by :: "'w bureau \<Rightarrow> outcome_of_fix \<Rightarrow> obj option \<Rightarrow> obj \<Rightarrow> bool" where
  "judged_by bu fo given v \<longleftrightarrow>
     (case given of
        Some g \<Rightarrow> v = g
      | None \<Rightarrow>
          (\<exists>w. result_of (run_fix_verification (bu_fixer bu w) (opt_obj (fo_review fo)) (fo_milestone fo)
             (handoff_dict (fo_handoff fo))) = Inr v))"

lemma obtain_judged: "wp (obtain_verification bu fo given) (\<lambda>r t. \<forall>v. r = Inr v \<longrightarrow> judged_by bu fo given v) s"
  by (auto simp: obtain_verification_def judged_by_def wp_def returnA_def traced_deed_def result_of_def
      split: option.split prod.split intro: exI [of _ "dk_world s"])

abbreviation verdict_in :: "obj \<Rightarrow> string" where
  "verdict_in v \<equiv> get_str v ''verdict'' ''UNVERIFIED''"

text \<open>
  What a fix with that verdict ends in: None is the planned mission; an answer is about this one fix, and it
  is final only for a verified fix, otherwise a human is asked.
\<close>

definition fix_ends :: "'w bureau \<Rightarrow> outcome_of_fix \<Rightarrow> obj \<Rightarrow> run_answer option \<Rightarrow> bool" where
  "fix_ends bu fo v x \<longleftrightarrow>
     (case x of
        None \<Rightarrow> verdict_in v = ''ESCALATE_TO_MISSION'' \<or> verdict_in v = ''NEEDS_REWORK'' \<and> fix_mode bu = ''auto''
      | Some a \<Rightarrow>
          ra_handoffs a = [fo_handoff fo] \<and>
          (if verdict_in v = ''VERIFIED''
           then ra_status a = (if h_verdict (fo_handoff fo) = ''PASS'' then ''completed'' else ''failed'')
           else ra_status a = ''awaiting_decision''))"

lemma some_wp: "wp m (\<lambda>r t. \<forall>a. r = Inr a \<longrightarrow> P (Some a)) s \<Longrightarrow> wp (as_some m) (\<lambda>r t. \<forall>x. r = Inr x \<longrightarrow> P x) s"
  unfolding as_some_def by (rule wp_bindI, assumption) (simp_all add: wp_return)

text \<open>A sequence whose beginning does not matter.\<close>

lemma wp_then: "(\<And>x t. wp (f x) Q t) \<Longrightarrow> (\<And>e t. Q (Inl e) t) \<Longrightarrow> wp (bindA m f) Q s"
  by (rule wp_bindI [where P = "\<lambda>r t. True"]) simp_all

lemma finish_verified_ends:
  "verdict_in v = ''VERIFIED'' \<Longrightarrow> wp (finish_verified bu fo v) (\<lambda>r t. \<forall>a. r = Inr a \<longrightarrow> fix_ends bu fo v (Some a)) s"
  unfolding finish_verified_def
  by (rule wp_bindI [where P = "\<lambda>r t. True"])
     (auto intro!: wp_mono [OF finish_focused_answers] simp: answers_def focused_status_def passed_count_def fix_ends_def)

lemma pause_ends:
  "verdict_in v \<noteq> ''VERIFIED'' \<Longrightarrow> qu_handoffs qu = [fo_handoff fo] \<Longrightarrow>
     wp (pause_for_decision bu qu) (\<lambda>r t. \<forall>a. r = Inr a \<longrightarrow> fix_ends bu fo v (Some a)) s"
  by (rule wp_mono [OF pause_asks]) (auto simp: asked_human_def fix_ends_def Let_def)

text \<open>Escalation ends in the mission or in a question.\<close>

lemma escalation_asks:
  "wp (escalate_hotfix_failure bu fo targets)
     (\<lambda>r t. \<forall>a. r = Inr (Some a) \<longrightarrow> ra_status a = ''awaiting_decision'' \<and> ra_handoffs a = [fo_handoff fo]) s"
proof -
  have p: "wp (pause_for_decision bu (stalled_question fo targets d))
      (\<lambda>r t. \<forall>a. r = Inr a \<longrightarrow> ra_status a = ''awaiting_decision'' \<and> ra_handoffs a = [fo_handoff fo]) u" for d u
    by (rule wp_mono [OF pause_asks]) (auto simp: asked_human_def stalled_question_def Let_def)
  have q: "wp (bindA (pause_for_decision bu (stalled_question fo targets d)) (\<lambda>a. returnA (Some a)))
      (\<lambda>r t. \<forall>a. r = Inr (Some a) \<longrightarrow> ra_status a = ''awaiting_decision'' \<and> ra_handoffs a = [fo_handoff fo]) u" for d u
    by (rule wp_bindI [OF p]) (simp_all add: wp_return)
  have n: "wp (bindA m (\<lambda>_. returnA None)) (\<lambda>r t. \<forall>a. r = Inr (Some a) \<longrightarrow> P a) u" for m P and u :: "'a office"
    by (rule wp_then) (simp_all add: wp_return)
  show ?thesis
    unfolding escalate_hotfix_failure_def by (intro wp_then) (simp_all only: wp_if q n if_cancel sum.distinct simp_thms)
qed

lemma escalation_ends:
  "verdict_in v = ''NEEDS_REWORK'' \<Longrightarrow> fix_mode bu = ''auto'' \<Longrightarrow>
     wp (escalate_hotfix_failure bu fo targets) (\<lambda>r t. \<forall>x. r = Inr x \<longrightarrow> fix_ends bu fo v x) s"
  by (rule wp_mono [OF escalation_asks]) (auto simp: fix_ends_def split: option.split)

lemma conclude_ends: "wp (conclude_fix bu fo touched v) (\<lambda>r t. \<forall>x. r = Inr x \<longrightarrow> fix_ends bu fo v x) s"
proof -
  consider "verdict_in v = ''VERIFIED''" | "verdict_in v = ''ESCALATE_TO_MISSION''"
    | "verdict_in v = ''NEEDS_REWORK''" "fix_mode bu = ''auto''" | "verdict_in v = ''NEEDS_REWORK''" "fix_mode bu \<noteq> ''auto''"
    | "verdict_in v \<notin> {''VERIFIED'', ''ESCALATE_TO_MISSION'', ''NEEDS_REWORK''}" by blast
  then show ?thesis
  proof cases
    case 1
    then show ?thesis by (simp add: conclude_fix_def some_wp finish_verified_ends)
  next
    case 2
    then show ?thesis by (simp add: conclude_fix_def, intro wp_then) (simp_all add: wp_return fix_ends_def)
  next
    case 3
    then show ?thesis by (simp add: conclude_fix_def escalation_ends)
  next
    case 4
    then show ?thesis by (simp add: conclude_fix_def some_wp pause_ends rework_question_def)
  next
    case 5
    then have "wp (as_some (pause_for_decision bu (unverified_question fo touched v missing)))
        (\<lambda>r t. \<forall>x. r = Inr x \<longrightarrow> fix_ends bu fo v x) t" for missing t
      by (simp add: some_wp pause_ends unverified_question_def)
    then show ?thesis using 5 by (simp add: conclude_fix_def wp_then)
  qed
qed

lemma verify_ends:
  "wp (verify_hotfix_result bu fo given)
     (\<lambda>r t. \<forall>x. r = Inr x \<longrightarrow> (\<exists>v. judged_by bu fo given v \<and> fix_ends bu fo v x)) s"
  unfolding verify_hotfix_result_def
proof (rule wp_then)
  fix touched t
  show "wp (bindA (obtain_verification bu fo given) (\<lambda>v.
      bindA (persist_run_artifact bu ''fix_verification'' (JObj v)) (\<lambda>_. conclude_fix bu fo touched v)))
      (\<lambda>r t. \<forall>x. r = Inr x \<longrightarrow> (\<exists>v. judged_by bu fo given v \<and> fix_ends bu fo v x)) t"
    by (rule wp_bindI [OF obtain_judged], simp, rule wp_then) (auto intro!: wp_mono [OF conclude_ends])
qed simp

text \<open>
  An answer after an attempt is about that attempt: it passed and was verified, or it did not pass, or a human
  is asked.
\<close>

definition verified :: "'w bureau \<Rightarrow> handoff \<Rightarrow> bool" where
  "verified bu h \<longleftrightarrow>
     h_verdict h = ''PASS'' \<and>
     (\<exists>v. verdict_in v = ''VERIFIED'' \<and>
        (h_verification h = Some v \<or>
         (\<exists>w review packet. result_of (run_fix_verification (bu_fixer bu w) review packet (handoff_dict h)) = Inr v)))"

definition fix_answer :: "'w bureau \<Rightarrow> run_answer \<Rightarrow> bool" where
  "fix_answer bu a \<longleftrightarrow>
     (\<exists>h. ra_handoffs a = [h] \<and>
        (ra_status a = ''completed'' \<and> verified bu h \<or> ra_status a = ''failed'' \<or> ra_status a = ''awaiting_decision''))"

lemma follow_up_answers:
  assumes "given = None \<or> given = h_verification (fo_handoff fo)"
  shows "wp (follow_up bu fo targets vm given) (\<lambda>r t. \<forall>a. r = Inr (Some a) \<longrightarrow> fix_answer bu a) s"
proof (cases "needs_escalation (fo_handoff fo)")
  case True
  then show ?thesis
    unfolding follow_up_def
    by (simp, intro wp_then wp_mono [OF escalation_asks]) (auto simp: fix_answer_def)
next
  case False
  have "fix_answer bu a" if "judged_by bu (fo\<lparr>fo_milestone := vm\<rparr>) given v" "fix_ends bu (fo\<lparr>fo_milestone := vm\<rparr>) v (Some a)" for v a
    using that assms by (auto simp: fix_answer_def fix_ends_def verified_def judged_by_def split: if_split_asm option.split_asm)
  then show ?thesis
    using False unfolding follow_up_def by (auto intro!: wp_mono [OF verify_ends])
qed

lemma attempt_fix_answers:
  "wp (attempt_fix bu artifact request origin review plan milestone targets vm reuse)
     (\<lambda>r t. idle (s\<lparr>of_executed := of_executed s @ [(milestone, True)]\<rparr>) t \<and> (\<forall>a. r = Inr (Some a) \<longrightarrow> fix_answer bu a)) s"
  unfolding attempt_fix_def
proof (rule wp_bindI [OF run_packet_ran], goal_cases)
  case (1 e t)
  then show ?case by (simp add: ran_def idle_def)
next
  case (2 h t)
  let ?fo = "\<lparr>fo_request = request, fo_origin = origin, fo_handoff = h, fo_review = review, fo_milestone = milestone\<rparr>"
  have f: "wp (follow_up bu ?fo targets vm (if reuse then h_verification h else None))
      (\<lambda>r v. idle u v \<and> (\<forall>a. r = Inr (Some a) \<longrightarrow> fix_answer bu a)) u" for u
    by (rule wp_conj [OF wp_idle [OF idle_follow_up] follow_up_answers]) simp
  show ?case
    by (rule wp_bindI [OF wp_calm [OF calm_persist]], use 2 in \<open>simp add: ran_def idle_def calm_def\<close>, rule wp_mono [OF f])
       (use 2 in \<open>simp add: ran_def idle_def calm_def\<close>)
qed

text \<open>A route that starts an attempt: nothing else is executed.\<close>

definition fix_route :: "'w bureau \<Rightarrow> 'w office \<Rightarrow> run_answer option res \<Rightarrow> 'w office \<Rightarrow> bool" where
  "fix_route bu s r t \<longleftrightarrow>
     (\<forall>a. r = Inr (Some a) \<longrightarrow>
        ra_status a \<noteq> ''completed'' \<or>
        (\<exists>h milestone. ra_handoffs a = [h] \<and> verified bu h \<and> of_executed t = of_executed s @ [(milestone, True)]))"

lemma fix_route_Inl [simp]: "fix_route bu s (Inl e) t"
  by (simp add: fix_route_def)

lemma attempt_fix_route:
  assumes "calm s0 s"
  shows "wp (attempt_fix bu artifact request origin review plan milestone targets vm reuse) (fix_route bu s0) s"
  by (rule wp_mono [OF attempt_fix_answers]) (use assms in \<open>auto simp: fix_route_def fix_answer_def idle_def calm_def\<close>)

lemma persisted_attempt:
  "calm s0 s \<Longrightarrow>
     wp (bindA (persist_run_artifact bu name payload) (\<lambda>_. attempt_fix bu artifact rq origin review plan ms tg vm reuse))
       (fix_route bu s0) s"
  by (rule wp_bindI [OF wp_calm [OF calm_persist]])
     (auto intro: attempt_fix_route calm.R_trans)

lemma hotfix_route: "wp (run_hotfix_route bu request d previous) (fix_route bu s) s"
proof (cases "rd_candidate_files d = []")
  case True
  then show ?thesis by (simp add: run_hotfix_route_def wp_simps fix_route_def)
next
  case False
  then show ?thesis
    by (simp add: run_hotfix_route_def Let_def, intro wp_bindI [where P = "\<lambda>r t. t = s"])
       (auto simp: wp_get intro: persisted_attempt)
qed

lemma pause_route: "wp (as_some (pause_for_decision bu qu)) (fix_route bu s0) s"
  unfolding as_some_def
  by (rule wp_bindI [OF pause_asks]) (auto simp: wp_return fix_route_def asked_human_def Let_def)

lemma packet_route: "wp (run_packet_run bu request packet kind) (fix_route bu s) s"
  unfolding run_packet_run_def Let_def
proof (rule wp_bindI [OF wp_calm [OF calm_emit]], goal_cases)
  case (1 e t)
  show ?case by simp
next
  case (2 x t)
  show ?case
  proof (rule wp_bindI [where P = "\<lambda>r u. u = t"], goal_cases)
    case (3 milestone u)
    have "calm s t" using 2 by simp
    then show ?case
      using 3 by (auto simp: pause_route wp_get intro!: wp_bindI [where P = "\<lambda>r v. v = t"] persisted_attempt)
  qed (simp_all add: wp_lift)
qed

section \<open>Questions that can be answered\<close>

text \<open>What the decisions endpoint needs of a question to carry out each option it offers.\<close>

definition answerable :: "question \<Rightarrow> bool" where
  "answerable qu \<longleftrightarrow>
     (let p = qu_payload qu
      in (''apply_fix'' \<in> set (qu_options qu) \<longrightarrow> (\<exists>f fs. dget p ''milestone'' JNull = JObj (f # fs))) \<and>
         (''escalate_mission'' \<in> set (qu_options qu) \<longrightarrow>
            (\<exists>es. py_or (dget p ''errors'' JNull) (JList []) = JList es) \<and>
            (\<exists>xs. get_or2 p ''target_files'' ''touched_files'' = JList xs)))"

lemma py_or_list: "py_or (JList xs) (JList ys) = JList (if xs = [] then ys else xs)"
  by (cases xs) (simp_all add: py_or_def)

lemma answerable_resolves:
  assumes "answerable qu" and "load_pending_decision sf = Some (pending_payload now session (decision_of qu))"
    and "action_text act \<in> set (qu_options qu)"
  shows "\<exists>resp sf'. resolve_decision now' rid act sf = (Inr resp, sf')"
proof -
  let ?d = "pending_payload now session (decision_of qu)" let ?p = "qu_payload qu"
  have d: "dget ?d ''options'' (JList []) = jstrs (qu_options qu)" "dget ?d ''payload'' (JObj []) = JObj ?p"
    by (simp_all add: pending_payload_def decision_of_def dget_def)
  have o: "offered (action_text act) (jstrs (qu_options qu)) = Inr True" using assms(3) by (auto simp: jstrs_def)
  have "\<exists>x sf1. decision_branch now' rid act ?d (JObj ?p) (clear_pending_decision sf) = (Inr x, sf1)"
  proof (cases act)
    case ApplyFix
    then obtain f fs where "dget ?p ''milestone'' JNull = JObj (f # fs)" using assms(1,3) by (auto simp: answerable_def Let_def)
    then show ?thesis using ApplyFix by (simp add: decision_branch_def packet_for_action_def Let_def)
  next
    case EscalateMission
    then obtain es xs where "py_or (dget ?p ''errors'' JNull) (JList []) = JList es"
        "get_or2 ?p ''target_files'' ''touched_files'' = JList xs"
      using assms(1,3) by (auto simp: answerable_def Let_def)
    then show ?thesis using EscalateMission
      by (auto simp: decision_branch_def escalation_request_def Let_def error_lines_def)
  qed (simp_all add: decision_branch_def packet_for_action_def Let_def)
  then show ?thesis using assms(2) d o by (auto simp: resolve_decision_def Let_def split: prod.split)
qed

definition sound :: "'w bureau \<Rightarrow> run_answer res \<Rightarrow> 'w office \<Rightarrow> bool" where
  "sound bu r t \<longleftrightarrow>
     (\<forall>a. r = Inr a \<longrightarrow> ra_status a = ''awaiting_decision'' \<longrightarrow> (\<exists>qu. answerable qu \<and> asked_human bu qu a t))"

definition sound_option :: "'w bureau \<Rightarrow> run_answer option res \<Rightarrow> 'w office \<Rightarrow> bool" where
  "sound_option bu r t \<longleftrightarrow> (\<forall>a. r = Inr (Some a) \<longrightarrow> sound bu (Inr a) t)"

lemma sound_simps [simp]:
  "sound bu (Inl e) t" "sound_option bu (Inl e) t" "sound_option bu (Inr None) t"
  "sound_option bu (Inr (Some a)) t = sound bu (Inr a) t"
  "ra_status a \<noteq> ''awaiting_decision'' \<Longrightarrow> sound bu (Inr a) t"
  by (simp_all add: sound_def sound_option_def)

lemma some_sound: "wp m (sound bu) s \<Longrightarrow> wp (as_some m) (sound_option bu) s"
  unfolding as_some_def by (rule wp_bindI, assumption) (simp_all add: wp_return)

lemma pause_sound: "answerable qu \<Longrightarrow> wp (pause_for_decision bu qu) (sound bu) s"
  by (rule wp_mono [OF pause_asks]) (auto simp: sound_def)

lemma finish_sound: "focused_status en \<noteq> ''awaiting_decision'' \<Longrightarrow> wp (finish_focused_result bu en) (sound bu) s"
  by (rule wp_mono [OF finish_focused_answers]) (auto simp: sound_def answers_def)

lemma status_final: "en_status en = None \<Longrightarrow> focused_status en \<noteq> ''awaiting_decision''"
  by (simp add: focused_status_def)

lemma questions_answerable:
  "fo_milestone fo \<noteq> [] \<Longrightarrow> answerable (stalled_question fo targets d)"
  "fo_milestone fo \<noteq> [] \<Longrightarrow> answerable (rework_question fo targets v)"
  "answerable (unverified_question fo targets v missing)" "answerable (empty_packet_question kind rep)"
  "milestone \<noteq> [] \<Longrightarrow> dget milestone ''target_files'' (JList []) = JList ts \<Longrightarrow> answerable (fix_question milestone r t)"
  "answerable (plan_question bu plan t ms)"
  by (auto simp: answerable_def Let_def stalled_question_def rework_question_def unverified_question_def
      empty_packet_question_def fix_question_def plan_question_def dget_def get_or2_def py_or_list jstrs_def neq_Nil_conv
      py_or_False [of JNull])

section \<open>Whatever a run asks can be answered\<close>

lemma wp_then_none: "Q (Inr None) = (\<lambda>t. True) \<Longrightarrow> (\<And>e t. Q (Inl e) t) \<Longrightarrow> wp (bindA m (\<lambda>_. returnA None)) Q s"
  by (rule wp_then) (simp_all add: wp_return)

lemma escalation_sound: "fo_milestone fo \<noteq> [] \<Longrightarrow> wp (escalate_hotfix_failure bu fo targets) (sound_option bu) s"
  unfolding escalate_hotfix_failure_def as_some_def [symmetric]
  by (intro wp_then) (auto intro!: some_sound pause_sound questions_answerable wp_then_none)

lemma conclude_sound: "fo_milestone fo \<noteq> [] \<Longrightarrow> wp (conclude_fix bu fo touched v) (sound_option bu) s"
proof -
  have v: "wp (finish_verified bu fo v) (sound bu) s" for s
    unfolding finish_verified_def by (rule wp_then) (auto intro!: finish_sound status_final)
  assume "fo_milestone fo \<noteq> []"
  then show ?thesis
    unfolding conclude_fix_def Let_def
    by (auto intro!: some_sound pause_sound questions_answerable v escalation_sound wp_then_none
        intro: wp_then [OF some_sound [OF pause_sound [OF questions_answerable(3)]]])
qed

lemma verify_sound: "fo_milestone fo \<noteq> [] \<Longrightarrow> wp (verify_hotfix_result bu fo given) (sound_option bu) s"
  unfolding verify_hotfix_result_def by (intro wp_then conclude_sound) simp_all

lemma attempt_sound:
  assumes "milestone \<noteq> []" and "vm \<noteq> []"
  shows "wp (attempt_fix bu artifact request origin review plan milestone targets vm reuse) (sound_option bu) s"
  unfolding attempt_fix_def follow_up_def
  by (intro wp_then) (use assms in \<open>auto intro!: verify_sound wp_then [OF escalation_sound]\<close>)

lemma hotfix_sound: "wp (run_hotfix_route bu request d previous) (sound_option bu) s"
proof -
  have "hotfix_milestone_from_route d request ''HOTFIX'' \<noteq> []" by (simp add: hotfix_milestone_from_route_def Let_def)
  then show ?thesis
    unfolding run_hotfix_route_def Let_def by (auto intro!: wp_then_none wp_then attempt_sound simp: wp_return)
qed

lemma packet_sound: "wp (run_packet_run bu request packet kind) (sound_option bu) s"
  unfolding run_packet_run_def Let_def
  by (intro wp_then) (auto intro!: some_sound pause_sound questions_answerable wp_then attempt_sound)

lemma review_milestone:
  "hotfix_milestone_from_review rep i \<noteq> []"
  "\<exists>ts. dget (hotfix_milestone_from_review rep i) ''target_files'' (JList []) = JList ts"
  by (simp_all add: hotfix_milestone_from_review_def hotfix_milestone_from_route_def Let_def dget_def jstrs_def)

lemma reviewed_sound: "wp (reviewed bu request previous rep) (sound_option bu) s"
proof -
  let ?m = "hotfix_milestone_from_review rep ''REVIEW-FIX''"
  obtain ts where ts: "dget ?m ''target_files'' (JList []) = JList ts" using review_milestone(2) by blast
  have f: "wp (fix_findings bu request previous r ?m) (sound_option bu) u" for r u
    unfolding fix_findings_def
    by (intro wp_then)
       (auto intro!: wp_then some_sound pause_sound questions_answerable(5) [OF review_milestone(1) ts] attempt_sound
          review_milestone(1))
  have e: "wp (as_some (finish_focused_result bu (review_ending previous None x []))) (sound_option bu) u" for x u
    by (intro some_sound finish_sound status_final) (simp add: review_ending_def)
  show ?thesis
    unfolding reviewed_def Let_def by (intro wp_then) (auto intro!: wp_then [OF e] wp_then_none f)
qed

lemma review_sound:
  "wp (run_review_route bu request d previous) (\<lambda>r t. \<forall>a rep. r = Inr (Some a, rep) \<longrightarrow> sound bu (Inr a) t) s"
proof -
  have f: "wp (finish_focused_result bu (review_ending previous (Some ''failed'') x y)) (sound bu) u" for x y u
    by (rule finish_sound) (simp add: review_ending_def focused_status_def)
  show ?thesis
    unfolding run_review_route_def Let_def
  proof (rule wp_then, goal_cases)
    case (1 r t)
    show ?case
    proof (cases r)
      case (Inl e)
      then show ?thesis by (auto intro!: wp_bindI [OF f] simp: wp_return)
    next
      case (Inr rep)
      then show ?thesis by (auto intro!: wp_bindI [OF reviewed_sound] simp: wp_return sound_option_def)
    qed
  qed simp
qed

lemma plan_pause_sound: "wp (pause_for_plan bu plan) (sound bu) s"
  unfolding pause_for_plan_def by (intro wp_then pause_sound questions_answerable) simp_all

lemma final_sound: "ra_status a \<noteq> ''awaiting_decision'' \<Longrightarrow> wp (returnA a) (sound bu) s"
  by (simp add: wp_return)

lemma adjust_failed_sound: "wp (adjust_failed bu er plan e) (sound bu) s"
  unfolding adjust_failed_def Let_def by (intro wp_then final_sound) (simp_all add: answer_of_def)

lemma draft_sound: "wp (draft_plan bu er preference) (sound bu) s"
  unfolding draft_plan_def Let_def
proof (rule wp_then, goal_cases)
  case (1 r t)
  show ?case
    by (cases r) (auto intro!: wp_then plan_pause_sound final_sound simp: answer_of_def)
qed simp

lemma plan_sound: "wp (run_plan_mode bu er) (sound_option bu) s"
proof -
  have r: "wp (case r of Inl e \<Rightarrow> as_some (adjust_failed bu er plan e) | Inr p \<Rightarrow> as_some (pause_for_plan bu p)) (sound_option bu) t"
    for r plan t by (cases r) (simp_all add: some_sound adjust_failed_sound plan_pause_sound)
  show ?thesis
    unfolding run_plan_mode_def Let_def
    by (intro wp_then) (auto intro!: wp_then some_sound draft_sound wp_then_none r simp: wp_return split: prod.split)
qed

lemma ask_sound: "wp (run_ask_mode bu request) (sound bu) s"
  unfolding run_ask_mode_def by (intro wp_then final_sound) (simp_all add: answer_of_def)

section \<open>The planned mission asks nobody\<close>

lemma audit_status: "mo_status (mission_audit st) \<in> {''completed'', ''partial'', ''failed''}"
  by (simp add: mission_audit_def Let_def)

text \<open>A loop that ends within its patience is the loop of \<open>Mission\<close>.\<close>

lemma patient_run_loop: "run_loop turn n st = Some x \<Longrightarrow> patient turn n st = x"
  by (induction n arbitrary: st) (auto split: prod.split_asm prod.split option.split_asm option.split)

lemma loop_status:
  "wp (milestone_loop bu kind plan_id plan)
     (\<lambda>r t. \<forall>p mo. r = Inr (p, mo) \<longrightarrow> mo_status mo \<in> {''completed'', ''partial'', ''failed''}) s"
  using audit_status
  by (auto simp: wp_def milestone_loop_def Let_def split: sum.split prod.split)

definition final :: "run_answer res \<Rightarrow> bool" where
  "final r \<longleftrightarrow> (\<forall>a. r = Inr a \<longrightarrow> ra_status a \<in> {''completed'', ''partial'', ''failed''})"

lemma final_Inl [simp]: "final (Inl e)"
  by (simp add: final_def)

lemma finish_mission_final:
  assumes "mo_status mo \<in> {''completed'', ''partial'', ''failed''}"
  shows "wp (finish_mission bu mission title kind plan_id plan mo) (\<lambda>r t. final r) s"
  unfolding finish_mission_def Let_def
  by (intro wp_then) (use assms in \<open>auto simp: wp_return final_def mission_answer_def answer_of_def\<close>)

lemma carry_out_final: "wp (carry_out bu er kind plan) (\<lambda>r t. final r) s"
proof -
  have f: "wp (bindA (milestone_loop bu kind i plan) (\<lambda>(final, mo). finish_mission bu m ti kind i final mo)) (\<lambda>r t. final r) u"
    for i m ti u
    by (rule wp_bindI [OF loop_status]) (auto intro!: finish_mission_final)
  show ?thesis
    unfolding carry_out_def Let_def
  proof (rule wp_then, goal_cases)
    case (1 x t)
    show ?case by (cases x, simp only: case_prod_conv, intro wp_then f) simp_all
  qed simp
qed

lemma planned_final: "wp (planned_mission bu er triage) (\<lambda>r t. final r) s"
proof -
  have o: "wp (orchestration_failed bu kind e) (\<lambda>r t. final r) u" for kind e u
    unfolding orchestration_failed_def by (rule wp_then) (simp_all add: wp_return final_def answer_of_def)
  have c: "wp (bindA (start_executing bu preference plan) (carry_out bu er kind)) (\<lambda>r t. final r) u" for preference plan kind u
    by (intro wp_then carry_out_final) simp
  show ?thesis
    unfolding planned_mission_def
  proof (intro wp_then, goal_cases)
    case (1 preference t x u)
    obtain kind previous where "x = (kind, previous)" by fastforce
    then show ?case
      by (simp, intro wp_then) (auto simp: o c split: sum.split)
  qed simp_all
qed

lemma planned_sound: "wp (planned_mission bu er triage) (sound bu) s"
  by (rule wp_mono [OF planned_final]) (auto simp: final_def sound_def)

lemma take_route_sound:
  "wp (take_route bu er d triage) (\<lambda>r t. \<forall>a. r = Inr (Inl a) \<longrightarrow> sound bu (Inr a) t) s"
proof -
  have o: "wp (bindA m (\<lambda>x. bindA (n x) (\<lambda>_. returnA (Inr (Some x))))) (\<lambda>r t. \<forall>a. r = Inr (Inl a) \<longrightarrow> sound bu (Inr a) t) u"
    for m :: "('a, obj) deed" and n :: "obj \<Rightarrow> ('a, unit) deed" and u
    by (intro wp_then) (simp_all add: wp_return)
  show ?thesis
    unfolding take_route_def Let_def
    by (auto intro!: wp_bindI [OF hotfix_sound] wp_bindI [OF review_sound] o simp: wp_return split: option.split prod.split)
qed

lemma build_sound: "wp (build_mode bu er triage) (sound bu) s"
proof -
  have t: "wp (bindA (take_route bu er d rep) (\<lambda>r. case r of Inl a \<Rightarrow> returnA a | Inr merged \<Rightarrow> planned_mission bu er merged)) (sound bu) u"
    for d rep u
    by (rule wp_bindI [OF take_route_sound]) (auto simp: wp_return planned_sound split: sum.split)
  show ?thesis
    unfolding build_mode_def
  proof (rule wp_then, goal_cases)
    case (1 x u)
    show ?case by (cases x, simp only: case_prod_conv, intro wp_then t) simp
  qed simp
qed

lemma packet_or_build_sound: "wp (packet_or_build bu er) (sound bu) s"
proof (cases "er_packet er")
  case None
  then show ?thesis by (simp add: packet_or_build_def build_sound)
next
  case (Some packet)
  have "wp (case r of Some a \<Rightarrow> returnA a | None \<Rightarrow>
      bindA (merge_escalation_brief None ''packet'' rep) (\<lambda>merged. build_mode bu er (Some merged))) (sound bu) t"
    if "sound_option bu (Inr r) t" for r rep t
    using that by (cases r) (auto intro!: wp_then build_sound simp: wp_return)
  then show ?thesis
    unfolding packet_or_build_def Some option.case by (intro wp_bindI [OF packet_sound]) auto
qed

lemma body_sound: "wp (run_mission_body bu er) (sound bu) s"
proof -
  have a: "wp (approved_build bu er) (sound bu) u" for u
    unfolding approved_build_def by (auto intro!: wp_then packet_or_build_sound)
  have "wp (bindA (run_plan_mode bu er) (\<lambda>r. case r of Some a \<Rightarrow> returnA a | None \<Rightarrow> approved_build bu er)) (sound bu) u" for u
    by (rule wp_bindI [OF plan_sound]) (auto simp: wp_return a split: option.split)
  then show ?thesis
    unfolding run_mission_body_def
    by (intro wp_then) (auto simp: wp_raise intro!: wp_then ask_sound packet_or_build_sound)
qed

section \<open>Around the body\<close>

lemma persist_returns: "wp (persist_run_artifact bu name payload) (\<lambda>r t. r = Inr () \<and> calm s t) s"
proof (rule wp_conj [OF _ wp_calm [OF calm_persist]])
  show "wp (persist_run_artifact bu name payload) (\<lambda>r t. r = Inr ()) s"
    by (auto simp: persist_run_artifact_def quietly_def writes_def wp_simps split: option.split list.split)
qed

lemma close_run_outcome:
  "wp (close_run bu)
     (\<lambda>r t. r = Inr () \<and> \<not> of_scoped t \<and> of_pending t = of_pending s \<or>
            (\<exists>e. r = Inl e \<and> bu_external bu \<and> bu_snapshot bu (dk_world s) = Inl e \<and> t = s)) s"
proof (cases "bu_external bu")
  case False
  then show ?thesis by (simp add: close_run_def wp_simps)
next
  case True
  show ?thesis
  proof (cases "bu_snapshot bu (dk_world s)")
    case (Inl e)
    then show ?thesis using True by (simp add: close_run_def wp_simps)
  next
    case (Inr d)
    show ?thesis
      using True Inr by (simp add: close_run_def wp_simps) (rule wp_mono [OF persist_returns], simp add: calm_def wp_upd)
  qed
qed

lemma cancelled_sound: "wp (finish_cancelled bu) (sound bu) s"
proof -
  have "wp (bindA (getA (\<lambda>s. (dk_plan s, of_kind s, of_route s))) (\<lambda>(stored, kind, route). f stored kind route)) (sound bu) u"
    if "\<And>a b c v. wp (f a b c) (sound bu) v" for f u
    by (intro wp_then) (auto simp: that split: prod.split)
  then show ?thesis
    unfolding finish_cancelled_def Let_def
    by (auto intro!: wp_then final_sound simp: answer_of_def split: prod.split)
qed

definition guarded_body :: "'w bureau \<Rightarrow> errand \<Rightarrow> ('w, run_answer) deed" where
  "guarded_body bu er = tryA (run_mission_body bu er) (\<lambda>e. if e = RunCancelled then finish_cancelled bu else raiseA e)"

lemma guarded_sound: "wp (guarded_body bu er) (sound bu) s"
  unfolding guarded_body_def
  by (rule wp_tryI [OF body_sound]) (auto simp: cancelled_sound wp_raise)

text \<open>A run either stops before its body, or closes after it.\<close>

lemma run_cases:
  assumes "run bu rq s = (r, t)"
  obtains e where "open_run bu rq s = (Inl e, t)" "r = Inl e"
    | er u r1 v where "open_run bu rq s = (Inr er, u)" "guarded_body bu er u = (r1, v)" "close_run bu v = (Inr (), t)" "r = r1"
    | er u r1 v e where "open_run bu rq s = (Inr er, u)" "guarded_body bu er u = (r1, v)" "close_run bu v = (Inl e, t)" "r = Inl e"
  using assms
  by (auto simp: run_def bindA_def closing_def guarded_body_def [symmetric] split: prod.split_asm sum.split_asm)

section \<open>Ask mode\<close>

text \<open>The files of workspace and session that ask mode has no business with.\<close>

definition untouched :: "tool_state office \<Rightarrow> tool_state office \<Rightarrow> bool" where
  "untouched s t \<longleftrightarrow>
     ts_fs (dk_world t) = ts_fs (dk_world s) \<and> dk_plan t = dk_plan s \<and> dk_history t = dk_history s \<and>
     of_pending t = of_pending s \<and> of_executed t = of_executed s \<and> of_mission_brief t = of_mission_brief s \<and>
     of_artifacts t = of_artifacts s"

interpretation untouched: frame untouched
  by unfold_locales (simp_all add: untouched_def)

lemma ask_mode_untouched:
  assumes "bu_asker bu = file_viewer fe model"
  shows "untouched.framed (run_ask_mode bu request)"
proof -
  have emits: "untouched.framed (emit True name details)" for name details
    unfolding emit_def by (intro untouched.framed_when untouched.framed_upd) (simp add: untouched_def)
  have status: "untouched.framed (update_status bu status)" for status
    unfolding update_status_def writes_def by (intro untouched.framed_rules untouched.framed_upd) (simp add: untouched_def)
  have compact: "untouched.framed (compact_deed bu request reply)" for reply
    unfolding compact_deed_def by (rule untouched.framed_upd) (simp add: untouched_def)
  have route: "untouched.framed (updA (\<lambda>s. s\<lparr>of_route := ''mission''\<rparr>))"
    by (rule untouched.framed_upd) (simp add: untouched_def)
  have ask: "untouched.framed (reads (\<lambda>w. run_ask n (bu_asker bu) conv mission request (log w) w))" for n conv mission log
    using fv.ask_keeps [OF readers_read(3)]
    by (intro untouched.framedI)
       (auto simp: reads_def assms untouched_def same_fs_def split: sum.split option.split prod.split)
  show ?thesis
    unfolding run_ask_mode_def ask_deed_def by (intro untouched.framed_rules emits status compact route ask)
qed

section \<open>Plan mode\<close>

lemma idle_pause_for_plan: "idle.framed (pause_for_plan bu plan)"
  unfolding pause_for_plan_def by (intro idle.framed_rules idle_pause idle_calm [OF calm_emit])

lemma idle_plan_mode: "idle.framed (run_plan_mode bu er)"
proof -
  have "idle.framed (draft_plan bu er preference)" for preference
    unfolding draft_plan_def Let_def
    by (intro idle.framed_rules idle_pause_for_plan idle_calm [OF calm_emit] idle_calm [OF calm_quiet_plan]
        idle_calm [OF calm_caught] calm.framed_rules calm_lint calm_inner [OF inner_run_orchestration])
  moreover have "idle.framed (adjust_failed bu er plan e)" for plan e
    unfolding adjust_failed_def Let_def by (intro idle.framed_rules idle_calm [OF calm_emit])
  moreover have "idle.framed (updA (\<lambda>s. s\<lparr>of_route := ''mission''\<rparr>))"
    by (rule idle.framed_upd) (simp add: idle_def)
  ultimately show ?thesis
    unfolding run_plan_mode_def Let_def
    by (intro idle.framed_rules idle_some idle_pause_for_plan idle_calm [OF calm_quiet_plan]
        idle_calm [OF calm_caught [OF calm_inner [OF inner_patches(3)]]])
qed

text \<open>What plan mode answers: a failure, or the question whether the plan is approved.\<close>

definition plan_answer :: "run_answer \<Rightarrow> 'w office \<Rightarrow> bool" where
  "plan_answer a t \<longleftrightarrow>
     ra_status a = ''failed'' \<or>
     ra_status a = ''awaiting_decision'' \<and>
       (\<exists>d. ra_pending a = Some d \<and> of_pending t = Some (JObj d) \<and> dget d ''type'' JNull = JStr ''plan_approval'')"

lemma plan_failed: "ra_status a = ''failed'' \<Longrightarrow> plan_answer a t"
  by (simp add: plan_answer_def)

lemma plan_pause_answer: "wp (pause_for_plan bu plan) (\<lambda>r t. \<forall>a. r = Inr a \<longrightarrow> plan_answer a t) s"
proof -
  have "wp (pause_for_decision bu (plan_question bu plan x ms)) (\<lambda>r t. \<forall>a. r = Inr a \<longrightarrow> plan_answer a t) u" for x ms u
    by (rule wp_mono [OF pause_asks])
       (auto simp: asked_human_def plan_answer_def Let_def plan_question_def decision_of_def pending_payload_def dget_def)
  then show ?thesis unfolding pause_for_plan_def by (intro wp_then) simp_all
qed

lemma plan_mode_answer:
  assumes "\<not> (plan_awaiting_approval (JObj (er_previous er)) \<and> (of_skip s \<or> is_plan_approval_phrase (er_request er)))"
  shows "wp (run_plan_mode bu er) (\<lambda>r t. \<forall>x. r = Inr x \<longrightarrow> (\<exists>a. x = Some a \<and> plan_answer a t)) s"
proof -
  let ?Q = "\<lambda>r t. \<forall>x. r = Inr x \<longrightarrow> (\<exists>a. x = Some a \<and> plan_answer a t)"
  have some: "wp (as_some m) ?Q u" if "wp m (\<lambda>r t. \<forall>a. r = Inr a \<longrightarrow> plan_answer a t) u" for m :: "('a, run_answer) deed" and u
    unfolding as_some_def by (rule wp_bindI [OF that]) (simp_all add: wp_return)
  have failed: "wp (adjust_failed bu er p e) (\<lambda>r t. \<forall>a. r = Inr a \<longrightarrow> plan_answer a t) u" for p e u
    unfolding adjust_failed_def Let_def by (intro wp_then) (simp_all add: wp_return plan_failed answer_of_def)
  have draft: "wp (draft_plan bu er preference) (\<lambda>r t. \<forall>a. r = Inr a \<longrightarrow> plan_answer a t) u" for preference u
    unfolding draft_plan_def Let_def
  proof (rule wp_then, goal_cases)
    case (1 r t)
    show ?case
      by (cases r) (auto intro!: wp_then plan_pause_answer simp: wp_return plan_failed answer_of_def)
  qed simp
  have case_r: "wp (case r of Inl e \<Rightarrow> as_some (adjust_failed bu er p e) | Inr q \<Rightarrow> as_some (pause_for_plan bu q)) ?Q u" for r p u
    by (cases r) (simp_all add: some failed plan_pause_answer)
  have skip: "wp (getA (\<lambda>s. (preference_brief_text s, of_skip s))) (\<lambda>r t. \<forall>p k. r = Inr (p, k) \<longrightarrow> k = of_skip s) u"
    if "of_skip u = of_skip s" for u using that by (simp add: wp_get)
  show ?thesis
    unfolding run_plan_mode_def Let_def
  proof (rule wp_bindI [where P = "\<lambda>r t. of_skip t = of_skip s"], simp add: wp_upd, simp, rule wp_bindI [OF skip],
      assumption, simp, goal_cases)
    case (1 x t pk u)
    obtain preference k where pk: "pk = (preference, k)" by fastforce
    then have "k = of_skip s" using 1(2) by simp
    show ?case
    proof (cases "plan_awaiting_approval (JObj (er_previous er))")
      case True
      then have "\<not> k" "\<not> is_plan_approval_phrase (er_request er)" using assms \<open>k = of_skip s\<close> by auto
      then show ?thesis using True by (simp add: pk) (rule wp_then [OF case_r], simp)
    next
      case False
      then show ?thesis by (simp add: pk some draft)
    qed
  qed
qed

section \<open>Planning that fails\<close>

text \<open>The session keeps its status and nothing is executed.\<close>

definition stalled :: "'w office \<Rightarrow> 'w office \<Rightarrow> bool" where
  "stalled s t \<longleftrightarrow> of_status t = of_status s \<and> of_executed t = of_executed s"

interpretation stalled: frame stalled
  by unfold_locales (simp_all add: stalled_def)

lemma stalled_inner: "inner.framed m \<Longrightarrow> stalled.framed m"
proof (rule stalled.framedI)
  fix s :: "'a office" assume "inner.framed m"
  then have "desk.more (snd (m s)) = desk.more s" by (simp add: inner.framed_def same_more_def)
  then show "stalled s (snd (m s))" by (cases s; cases "snd (m s)") (simp add: stalled_def)
qed

lemma stalled_emit: "stalled.framed (emit on name details)"
  by (intro stalled_inner inner_asked asked_emit)

lemma stalled_quiet_plan: "stalled.framed (quiet_plan bu plan)"
  unfolding quiet_plan_def quietly_def by (intro stalled.framed_rules stalled_inner inner_save_plan)

lemma stalled_caught: "stalled.framed m \<Longrightarrow> stalled.framed (caught m)"
  unfolding caught_def by (intro stalled.framed_rules)

lemma stalled_lint: "stalled.framed (lint_and_repair_plan bu plan)"
  unfolding lint_and_repair_plan_def repair_plan_def
  by (intro stalled.framed_rules stalled_emit stalled_inner inner_save_plan inner_patches)

lemma stalled_replay: "stalled.framed (prepare_replay bu er preference)"
proof -
  have "stalled.framed (updA (\<lambda>s. s\<lparr>of_kind := ''resume''\<rparr>))" by (rule stalled.framed_upd) (simp add: stalled_def)
  then show ?thesis unfolding prepare_replay_def Let_def by (intro stalled.framed_rules stalled_quiet_plan)
qed

lemma wp_stalled: "stalled.framed m \<Longrightarrow> wp m (\<lambda>r t. stalled s t) s"
  by (auto simp: wp_def split: prod.split dest: stalled.framedD)

text \<open>A failure of planning has no plan, and a mission has one.\<close>

definition unplanned :: "'w office \<Rightarrow> run_answer res \<Rightarrow> 'w office \<Rightarrow> bool" where
  "unplanned s r t \<longleftrightarrow> (\<forall>a. r = Inr a \<longrightarrow> ra_plan a = JNull \<longrightarrow> ra_status a = ''failed'' \<and> stalled s t)"

lemma unplanned_Inl [simp]: "unplanned s (Inl e) t"
  by (simp add: unplanned_def)

lemma carry_out_plan: "wp (carry_out bu er kind plan) (unplanned s0) s"
proof -
  have f: "wp (finish_mission bu mission title kind plan_id p mo) (unplanned s0) u" for mission title plan_id p mo u
    unfolding finish_mission_def Let_def
    by (intro wp_then) (simp_all add: wp_return unplanned_def mission_answer_def answer_of_def)
  show ?thesis
    unfolding carry_out_def Let_def
  proof (rule wp_then, goal_cases)
    case (1 x t)
    show ?case
    proof (cases x, simp only: case_prod_conv, intro wp_then, goal_cases)
      case (1 a b c d e f g h)
      show ?case by (cases g) (simp add: f)
    qed simp_all
  qed simp
qed

lemma planned_unplanned: "wp (planned_mission bu er triage) (unplanned s) s"
proof -
  have o: "wp (orchestration_failed bu kind e) (unplanned s) u" if "stalled s u" for kind e u
    unfolding orchestration_failed_def
    by (rule wp_bindI [OF wp_stalled [OF stalled_emit]])
       (use that in \<open>auto simp: wp_return unplanned_def answer_of_def stalled_def\<close>)
  have c: "wp (bindA (start_executing bu preference plan) (carry_out bu er kind)) (unplanned s) u" for preference plan kind u
    by (intro wp_then carry_out_plan) simp
  have r: "wp (bindA (caught (run_orchestration (bu_planner bu) ex)) (\<lambda>r. case r of
      Inl e \<Rightarrow> orchestration_failed bu kind e | Inr plan \<Rightarrow> bindA (start_executing bu preference plan) (carry_out bu er kind)))
      (unplanned s) u" if "stalled s u" for ex kind preference u
    by (rule wp_bindI [OF wp_stalled [OF stalled_caught [OF stalled_inner [OF inner_run_orchestration]]]])
       (use that stalled.R_trans in \<open>auto simp: c intro: o split: sum.split\<close>)
  show ?thesis
    unfolding planned_mission_def
  proof (rule wp_bindI [where P = "\<lambda>r t. stalled s t"], simp add: wp_get, simp, goal_cases)
    case (1 preference t)
    show ?case
      by (rule wp_bindI [OF wp_stalled [OF stalled_replay]])
         (use 1 stalled.R_trans in \<open>auto intro: r split: prod.split\<close>)
  qed
qed

lemma draft_unplanned: "wp (draft_plan bu er preference)
    (\<lambda>r t. \<forall>a. r = Inr a \<longrightarrow> ra_status a = ''failed'' \<longrightarrow> ra_plan a = JNull \<and> stalled s t) s"
proof -
  have p: "wp (pause_for_plan bu plan) (\<lambda>r t. \<forall>a. r = Inr a \<longrightarrow> ra_status a \<noteq> ''failed'') u" for plan u
    unfolding pause_for_plan_def
    by (intro wp_then wp_mono [OF pause_asks]) (simp_all add: asked_human_def Let_def)
  have f: "stalled.framed (bindA (run_orchestration (bu_planner bu) ex) (lint_and_repair_plan bu))" for ex
    by (intro stalled.framed_rules stalled_lint stalled_inner inner_run_orchestration)
  show ?thesis
    unfolding draft_plan_def Let_def
  proof (rule wp_bindI [OF wp_stalled [OF stalled_caught [OF f]]], simp, goal_cases)
    case (1 r t)
    show ?case
    proof (cases r)
      case (Inl e)
      then show ?thesis
        using 1 by (auto simp: wp_return answer_of_def stalled_def
            intro!: wp_bindI [OF wp_stalled [OF stalled_emit]])
    next
      case (Inr plan)
      then show ?thesis by (auto intro!: wp_then intro: wp_mono [OF p])
    qed
  qed
qed

section \<open>Plans that were not finished\<close>

lemma wp_quiet_plan: "pl_writable (bu_planner bu) (dk_world s) \<Longrightarrow> wp (quiet_plan bu p) (\<lambda>r t. dk_plan t = Some (JObj p)) s"
  by (simp add: quiet_plan_def quietly_def save_plan_def wp_simps)

lemma finish_mission_plan:
  assumes "\<forall>w. bu_disk bu ''mission_brief'' w \<and> pl_writable (bu_planner bu) w" and "mo_status mo \<in> {''completed'', ''partial'', ''failed''}"
    and "truthy (dget plan ''milestones'' JNull)"
  shows "wp (finish_mission bu mission title kind plan_id plan mo)
    (\<lambda>r t. \<forall>a. r = Inr a \<longrightarrow> dk_plan t = Some (JObj (with_approval (mo_status mo) plan))) s"
proof -
  have "wp (refresh_mission_brief bu plan (mo_status mo) summary files)
      (\<lambda>r t. \<forall>u. r = Inr u \<longrightarrow> dk_plan t = Some (JObj (with_approval (mo_status mo) plan))) u" for summary files u
    unfolding refresh_mission_brief_def
    by (rule wp_then)
       (use assms in \<open>auto simp: wp_bind wp_get wp_upd wp_when with_approval_def intro!: wp_mono [OF wp_quiet_plan]\<close>)
  note r = this
  show ?thesis
    unfolding finish_mission_def Let_def
    by (rule wp_then, rule wp_then, rule wp_then, rule wp_bindI [OF r]) (simp_all add: wp_simps)
qed

end
