(* ===== verification/Runs.thy ===== *)
theory Runs
  imports RunLaws
begin

text \<open>What a run promises, from the request to the decision of a human, and concrete runs.\<close>

section \<open>Runs to try\<close>

text \<open>A bureau around a planner, a reader and the runtime of a milestone; its verifier accepts every fix.\<close>

definition plain_bureau :: "'w planner \<Rightarrow> 'w viewer \<Rightarrow> 'w runtime \<Rightarrow> 'w bureau" where
  "plain_bureau pl env rt =
     \<lparr>bu_planner = pl,
      bu_advisor = \<lparr>av_llm = (\<lambda>prompt w. (Inl (OSError, ''x''), w)), av_look = (\<lambda>tool args w. []), av_messages = (\<lambda>w. None),
        av_log = (\<lambda>w. None), av_triage_md = [], av_escalation_md = [], av_reader = pl_reader pl, av_repair = (\<lambda>t. None),
        av_emits = True\<rparr>,
      bu_asker = env, bu_reviewer = env, bu_patience = 5, bu_fixer = (\<lambda>w. broken_fixer), bu_runtime = (\<lambda>plan ms rep. rt),
      bu_compact = (\<lambda>w prompt. Inl OSError), bu_compact_md = [], bu_memory = False, bu_completed = (\<lambda>i p w. False),
      bu_log_state = (\<lambda>h p w. w), bu_budget = 2, bu_review_budget = 5, bu_cancelled = (\<lambda>w. False), bu_disk = (\<lambda>file w. True),
      bu_prepare = (\<lambda>w. (Inr (), w)), bu_snapshot = (\<lambda>w. Inl OSError), bu_files = (\<lambda>w. []), bu_resolve = lexical_resolve,
      bu_root = path_of ''/w'', bu_read_only = False, bu_external = False, bu_profile = [], bu_session = ''s'',
      bu_title = ''t'', bu_model = ''auto'', bu_run = Some ''r'', bu_fix_mode = ''ask'', bu_now = ''0'', bu_elapsed = JInt 0,
      bu_seconds = ''0.0'', bu_exn = (\<lambda>e. ''x'')\<rparr>"

definition fixing_runtime :: "string list runtime" where
  "fixing_runtime = (fixed_runtime [])\<lparr>rt_verify := (\<lambda>d w. (Inr [(''verdict'', JStr ''VERIFIED'')], w))\<rparr>"

definition demo_bureau :: "string list bureau" where
  "demo_bureau = plain_bureau scripted viewer_of fixing_runtime"

definition demo_office :: "string \<Rightarrow> json option \<Rightarrow> 'w \<Rightarrow> 'w office" where
  "demo_office mode plan w =
     \<lparr>dk_plan = plan, dk_history = [], dk_events = [], dk_world = w, of_brief = None, of_kind = ''new'',
      of_route = ''mission'', of_mode = mode, of_skip = False, of_status = ''running'', of_pending = None, of_conv = None,
      of_mission_brief = None, of_artifacts = [], of_executed = [], of_scoped = True\<rparr>"

definition demo_errand :: errand where
  "demo_errand =
     \<lparr>er_request = ''x'', er_kind = ''new'', er_parent = None, er_previous = [], er_route = ''auto'', er_packet = None\<rparr>"

definition hotfix_decision :: route_decision where
  "hotfix_decision = (to_mission ''y'' ''override'')\<lparr>rd_route := ''hotfix'', rd_candidate_files := [''a.py'']\<rparr>"

definition empty_packet :: request where
  "empty_packet =
     \<lparr>rq_request = ''x'', rq_kind = ''new'', rq_route = ''auto'', rq_mode = JStr ''build'', rq_skip = False, rq_packet = Some []\<rparr>"

text \<open>A planner and a runtime on the file tools that do nothing.\<close>

definition silent_planner :: "'w planner" where
  "silent_planner =
     \<lparr>pl_llm = (\<lambda>prompt w. (Inl OSError, w)), pl_explore = (\<lambda>ex w. (Inl OSError, w)), pl_orient = (\<lambda>q p w. Inr []),
      pl_enabled = False, pl_files = (\<lambda>w. None), pl_writable = (\<lambda>w. True), pl_manual = [],
      pl_reader = \<lparr>rd_float = (\<lambda>s. s), rd_code = (\<lambda>n. [])\<rparr>, pl_repair = (\<lambda>t. None), pl_sha = (\<lambda>s. s),
      pl_hex = (\<lambda>n w. ''0''), pl_clock = ''0'', pl_emits = True\<rparr>"

definition silent_runtime :: "'w runtime" where
  "silent_runtime =
     \<lparr>rt_cancelled = (\<lambda>w. True), rt_work = (\<lambda>a w. (Inl OSError, w)), rt_validate = (\<lambda>work k t w. (Inl OSError, w)),
      rt_verify = (\<lambda>d w. (Inl OSError, w)), rt_commit = (\<lambda>m w. ([], w)), rt_save = (\<lambda>d w. (Inl OSError, w)),
      rt_artifact = (\<lambda>v w. w), rt_log_failure = (\<lambda>f m w. w), rt_memory = False, rt_tools = (\<lambda>g w. w),
      rt_fs = demo_env, rt_search = (\<lambda>q. []), rt_skill = (\<lambda>n. None), rt_ports = [], rt_dumps = (\<lambda>j. []),
      rt_elapsed = JNull\<rparr>"

definition reading_bureau :: "tool_state bureau" where
  "reading_bureau = plain_bureau silent_planner (file_viewer demo_env (\<lambda>messages. answer_reply)) silent_runtime"

lemma Inr_cases: "(case x of (Inl e, t) \<Rightarrow> False | (Inr y, t) \<Rightarrow> P y t) \<Longrightarrow> \<exists>y t. x = (Inr y, t) \<and> P y t"
  by (auto split: prod.split_asm sum.split_asm)

section \<open>Where the packets lead\<close>

text \<open>
  The packet that may not touch project files names no target files, and so runs without a write jail. A
  review that ends without a fix leaves its own status as the approval of the stored plan.
\<close>

lemma setup_env_unjailed:
  assumes "packet_milestone packet ''setup_env'' = Inr milestone"
  shows "target_names milestone = Inr [] \<and> ts_allowed (begin_milestone_write_policy fe (Some []) new_tests ts) = None"
  using assms
  by (auto simp: packet_milestone_def setup_milestone_def target_names_def dget_def begin_milestone_write_policy_def Let_def)

lemma focused_run_marks_plan:
  assumes "\<forall>w. bu_disk bu ''mission_brief'' w \<and> pl_writable (bu_planner bu) w" and "truthy (dget (load_plan s) ''milestones'' JNull)"
    and "refresh_focused bu ''completed'' summary handoffs s = (Inr u, t)"
  shows "dk_plan t = Some (JObj (with_approval ''completed'' (load_plan s)))"
proof -
  have "wp (refresh_focused bu ''completed'' summary handoffs)
      (\<lambda>r t. \<forall>u. r = Inr u \<longrightarrow> dk_plan t = Some (JObj (with_approval ''completed'' (load_plan s)))) s"
    using assms(1,2)
    by (auto simp: refresh_focused_def refresh_mission_brief_def wp_simps with_approval_def quiet_plan_def quietly_def
        save_plan_def split: sum.split)
  from wpD [OF this assms(3)] show ?thesis by simp
qed

section \<open>Properties\<close>

text \<open>
  Property C9. A focused fix that is reported as completed has been verified: the hotfix route and the packet
  of a human end with status completed only after exactly one attempt, which passed and for which the fix
  verifier - in the loop of the attempt, or asked afterwards - answered VERIFIED.
\<close>

theorem completed_fix_is_verified:
  assumes "m = run_hotfix_route bu request d previous \<or> m = run_packet_run bu request packet kind"
    and "m s = (Inr (Some a), t)" and "ra_status a = ''completed''"
  shows "\<exists>h milestone. ra_handoffs a = [h] \<and> verified bu h \<and> of_executed t = of_executed s @ [(milestone, True)]"
proof -
  have "wp m (fix_route bu s) s" using assms(1) hotfix_route packet_route by metis
  from wpD [OF this assms(2)] assms(3) show ?thesis by (auto simp: fix_route_def)
qed

lemma completed_fix_is_verified_witness:
  "\<exists>a t h. run_hotfix_route demo_bureau ''x'' hotfix_decision [] (demo_office ''build'' None []) = (Inr (Some a), t) \<and>
     ra_handoffs a = [h] \<and> verified demo_bureau h \<and> length (of_executed t) = 1"
proof -
  let ?x = "run_hotfix_route demo_bureau ''x'' hotfix_decision [] (demo_office ''build'' None [])"
  have "case ?x of (Inl e, t) \<Rightarrow> False | (Inr y, t) \<Rightarrow> (case y of Some a \<Rightarrow> ra_status a = ''completed'' | None \<Rightarrow> False)"
    by code_simp
  from Inr_cases [OF this] obtain a t where x: "?x = (Inr (Some a), t)" "ra_status a = ''completed''"
    by (auto split: option.split_asm)
  from completed_fix_is_verified [OF disjI1 [OF refl] x] show ?thesis using x by (auto simp: demo_office_def)
qed

text \<open>
  Property C10. Whatever a run asks a human can be answered: a run that ends awaiting a decision has stored it,
  and each action the decision offers is carried out by the decisions endpoint - no stored packet is missing,
  no request cannot be built - so that no such decision is lost.
\<close>

theorem pending_decision_resolves:
  assumes "run bu rq s = (Inr a, t)" and "ra_status a = ''awaiting_decision''"
  shows "\<exists>pending. of_pending t = Some (JObj pending) \<and> ra_pending a = Some pending \<and>
    (\<forall>act sf now rid. sf_pending sf = of_pending t \<and>
       offered (action_text act) (dget pending ''options'' (JList [])) = Inr True \<longrightarrow>
       (\<exists>resp sf'. resolve_decision now rid act sf = (Inr resp, sf')))"
proof -
  from assms(1) obtain er u v where b: "guarded_body bu er u = (Inr a, v)" "close_run bu v = (Inr (), t)"
    by (rule run_cases) auto
  from wpD [OF guarded_sound b(1)] assms(2) obtain qu where q: "answerable qu" "asked_human bu qu a v"
    by (auto simp: sound_def)
  have t: "of_pending t = of_pending v" using wpD [OF close_run_outcome b(2)] by auto
  let ?d = "pending_payload (bu_now bu) (bu_session bu) (decision_of qu)"
  have o: "dget ?d ''options'' (JList []) = jstrs (qu_options qu)"
    by (simp add: pending_payload_def decision_of_def dget_def)
  have "\<exists>resp sf'. resolve_decision now rid act sf = (Inr resp, sf')"
    if "sf_pending sf = of_pending t" and "offered (action_text act) (dget ?d ''options'' (JList [])) = Inr True" for act sf now rid
    using that q t
    by (intro answerable_resolves [OF q(1)])
       (auto simp: o jstrs_def load_pending_decision_def asked_human_def Let_def)
  then show ?thesis using q t by (auto simp: asked_human_def Let_def)
qed

lemma pending_decision_resolves_witness:
  "\<exists>a t pending. run demo_bureau empty_packet (demo_office ''build'' None []) = (Inr a, t) \<and>
     of_pending t = Some (JObj pending) \<and> ra_pending a = Some pending"
proof -
  let ?x = "run demo_bureau empty_packet (demo_office ''build'' None [])"
  have "case ?x of (Inl e, t) \<Rightarrow> False | (Inr a, t) \<Rightarrow> ra_status a = ''awaiting_decision''" by code_simp
  from Inr_cases [OF this] obtain a t where x: "?x = (Inr a, t)" "ra_status a = ''awaiting_decision''" by blast
  from pending_decision_resolves [OF x] show ?thesis using x by auto
qed



text \<open>
  Property C12. Plan mode builds nothing without an approval: unless a plan awaits approval and the message is
  one of the approving phrases (or the approval was given before), no milestone is executed, and the run
  fails or ends in the question whether the plan is approved.
\<close>

theorem plan_mode_executes_nothing:
  assumes "of_mode s = ''plan''"
    and "\<not> (plan_awaiting_approval (JObj (er_previous er)) \<and> (of_skip s \<or> is_plan_approval_phrase (er_request er)))"
    and "run_mission_body bu er s = (r, t)"
  shows "of_executed t = of_executed s \<and> (\<forall>a. r = Inr a \<longrightarrow> plan_answer a t)"
proof (cases "bu_cancelled bu (dk_world s)")
  case True
  then show ?thesis using assms(3) by (auto simp: run_mission_body_def bindA_def getA_def raiseA_def)
next
  case False
  let ?s = "s\<lparr>of_kind := er_kind er\<rparr>"
  obtain r1 t1 where m: "run_plan_mode bu er ?s = (r1, t1)" by fastforce
  have a: "\<exists>a. x = Some a \<and> plan_answer a t1" if "r1 = Inr x" for x
    using wpD [OF plan_mode_answer m] assms(2) that by simp
  have e: "of_executed t1 = of_executed s" using idle.framedD [OF idle_plan_mode m] by (simp add: idle_def)
  have "run_mission_body bu er s =
      (case r1 of Inl e \<Rightarrow> (Inl e, t1) | Inr x \<Rightarrow> (case x of Some a \<Rightarrow> returnA a | None \<Rightarrow> approved_build bu er) t1)"
    using False assms(1) m by (simp add: run_mission_body_def bindA_def getA_def updA_def split: sum.split)
  then show ?thesis using a e assms(3) by (cases r1) (auto simp: returnA_def)
qed

lemma plan_mode_executes_nothing_witness:
  "\<exists>a t. run_mission_body demo_bureau demo_errand (demo_office ''plan'' None [plan_reply]) = (Inr a, t) \<and>
     ra_status a = ''awaiting_decision'' \<and> of_executed t = [] \<and> plan_answer a t"
proof -
  let ?s = "demo_office ''plan'' None [plan_reply]" let ?x = "run_mission_body demo_bureau demo_errand ?s"
  have "case ?x of (Inl e, t) \<Rightarrow> False | (Inr a, t) \<Rightarrow> ra_status a = ''awaiting_decision''" by code_simp
  from Inr_cases [OF this] obtain a t where x: "?x = (Inr a, t)" "ra_status a = ''awaiting_decision''" by blast
  have "of_mode ?s = ''plan''" "\<not> (plan_awaiting_approval (JObj (er_previous demo_errand)) \<and>
      (of_skip ?s \<or> is_plan_approval_phrase (er_request demo_errand)))" by code_simp+
  from plan_mode_executes_nothing [OF this x(1)] show ?thesis using x by (simp add: demo_office_def)
qed

text \<open>
  Property C13. A run that answers has released the tools. Sandbox, workspace root and write policy stay bound
  to a session only when the run raises, and only if it raised before its body - while the workspace was
  prepared or the session file written - or if the git snapshot of an attached project raised.
\<close>

theorem run_releases_tools:
  assumes "run bu rq s = (r, t)" and "of_scoped t"
  shows "\<exists>e. r = Inl e \<and> (open_run bu rq s = (Inl e, t) \<or> bu_external bu \<and> bu_snapshot bu (dk_world t) = Inl e)"
  using assms(1)
proof (rule run_cases, goal_cases)
  case (1 e)
  then show ?case by blast
next
  case (2 er u r1 v)
  then show ?case using wpD [OF close_run_outcome 2(3)] assms(2) by auto
next
  case (3 er u r1 v e)
  then show ?case using wpD [OF close_run_outcome 3(3)] by auto
qed

lemma run_releases_tools_witness:
  "\<exists>e t. run (demo_bureau\<lparr>bu_external := True\<rparr>) empty_packet (demo_office ''build'' None []) = (Inl e, t) \<and> of_scoped t"
proof -
  let ?x = "run (demo_bureau\<lparr>bu_external := True\<rparr>) empty_packet (demo_office ''build'' None [])"
  have "of_scoped (snd ?x)" by code_simp
  then obtain r t where x: "?x = (r, t)" "of_scoped t" by (metis prod.collapse)
  from run_releases_tools [OF x] show ?thesis using x by auto
qed

text \<open>
  A run whose planning fails reports a failure but leaves the session as it was, which is running:
  neither the planned mission nor plan mode updates the status when no plan comes about.
\<close>

lemma failed_planning_keeps_status:
  assumes "m = planned_mission bu er triage \<or> m = draft_plan bu er preference"
    and "m s = (Inr a, t)" and "ra_status a = ''failed''" and "ra_plan a = JNull"
  shows "of_status t = of_status s \<and> of_executed t = of_executed s"
  using assms(1)
proof
  assume "m = planned_mission bu er triage"
  then have "planned_mission bu er triage s = (Inr a, t)" using assms(2) by simp
  from wpD [OF planned_unplanned this] assms(4) show ?thesis by (simp add: unplanned_def stalled_def)
next
  assume "m = draft_plan bu er preference"
  then have "draft_plan bu er preference s = (Inr a, t)" using assms(2) by simp
  from wpD [OF draft_unplanned this] assms(3) show ?thesis by (simp add: stalled_def)
qed


definition failed_result :: mission_result where
  "failed_result =
     \<lparr>mo_status = ''failed'', mo_passed = 0, mo_total = 1, mo_incomplete = [''M1''], mo_audit = False, mo_handoffs = []\<rparr>"


end
