(* ===== verification/Sandbox.thy ===== *)
theory Sandbox
  imports Policy Paths Effects
begin

text \<open>
  \<open>src/sandbox/context.py\<close>, \<open>env.py\<close> and \<open>executor.py\<close>: the jail of a session, the environment of child
  processes and the executor every command of an agent goes through. The state is a record \<open>cell\<close>: the
  active sandbox, the backend the executor was created with, the root of the file tools, and the processes
  started so far, in order, on a world of their effects. The operating system and the settings are a
  record \<open>host\<close>.
\<close>

section \<open>Sandbox, processes, host\<close>

record box =
  sb_session :: string
  sb_jail :: ppath
  sb_workspace :: ppath
  sb_venv :: ppath
  sb_tmp :: ppath
  sb_home :: ppath
  sb_pip :: ppath
  sb_kind :: string
  sb_mode :: string
  sb_strategy :: string
  sb_required :: bool
  sb_project :: bool
  sb_preflight :: "obj option"

datatype backend = Auto | Native | Bwrap

datatype network = NoNetwork | PipEgress | Localhost

text \<open>A command is an argument vector, a script for \<open>bash\<close>, or the harness' own set-up of an environment.\<close>

datatype command = Argv "string list" | Shell string | Setup "string list"

type_synonym environ = "(string \<times> string) list"

record launch =
  la_command :: command
  la_cwd :: ppath
  la_env :: environ

text \<open>What \<open>communicate\<close> brings: the exit code and both streams, or a timeout.\<close>

datatype exit = Finished int string string | Timed_out

record 'w cell =
  cl_box :: "box option"
  cl_backend :: "backend option"
  cl_root :: ppath
  cl_launches :: "launch list"
  cl_world :: 'w

text \<open>
  Files are asked about and written through the host; \<open>ho_links\<close> lists the symbolic links of a directory with
  what they resolve to, \<open>ho_files\<close> the files below a directory, \<open>ho_lines\<close> the decoded lines of a file, and
  \<open>ho_regex\<close> is \<open>re.compile\<close>. \<open>ho_popen\<close> runs a process to its end under a timeout, \<open>ho_setup\<close> is
  \<open>subprocess.run\<close> with \<open>check\<close>. \<open>ho_executable\<close> and \<open>ho_base\<close> are \<open>sys.executable\<close> and the resolved base
  interpreter; the last four fields are settings and the text of an exception.
\<close>

record 'w host =
  ho_exists :: "ppath \<Rightarrow> 'w \<Rightarrow> bool"
  ho_is_file :: "ppath \<Rightarrow> 'w \<Rightarrow> bool"
  ho_is_dir :: "ppath \<Rightarrow> 'w \<Rightarrow> bool"
  ho_resolve :: "ppath \<Rightarrow> ppath"
  ho_absolute :: "ppath \<Rightarrow> ppath"
  ho_links :: "ppath \<Rightarrow> 'w \<Rightarrow> (string \<times> ppath res) list"
  ho_relink :: "ppath \<Rightarrow> ppath \<Rightarrow> 'w \<Rightarrow> unit res \<times> 'w"
  ho_mkdir :: "ppath \<Rightarrow> 'w \<Rightarrow> unit res \<times> 'w"
  ho_read :: "ppath \<Rightarrow> 'w \<Rightarrow> string res"
  ho_write :: "ppath \<Rightarrow> string \<Rightarrow> 'w \<Rightarrow> unit res \<times> 'w"
  ho_files :: "ppath \<Rightarrow> 'w \<Rightarrow> ppath list"
  ho_lines :: "ppath \<Rightarrow> 'w \<Rightarrow> string list res"
  ho_regex :: "string \<Rightarrow> string + (string \<Rightarrow> bool)"
  ho_setup :: "string list \<Rightarrow> 'w \<Rightarrow> unit res \<times> 'w"
  ho_popen :: "launch \<Rightarrow> int \<Rightarrow> 'w \<Rightarrow> exit res \<times> 'w"
  ho_bwrap :: "'w \<Rightarrow> bool"
  ho_environ :: environ
  ho_executable :: string
  ho_base :: ppath
  ho_executor :: string
  ho_require :: bool
  ho_policy :: sandbox_mode
  ho_exn :: "pyexn \<Rightarrow> string"

type_synonym ('w, 'a) job = "('w cell, 'a) act"

definition seen :: "('w \<Rightarrow> 'a) \<Rightarrow> ('w, 'a) job" where
  "seen f = getA (\<lambda>s. f (cl_world s))"

definition on_host :: "('w \<Rightarrow> 'a res \<times> 'w) \<Rightarrow> ('w, 'a) job" where
  "on_host f s = (case f (cl_world s) of (r, w) \<Rightarrow> (r, s\<lparr>cl_world := w\<rparr>))"

text \<open>The active sandbox; an attribute of none raises.\<close>

definition boxed :: "(box \<Rightarrow> ('w, 'a) job) \<Rightarrow> ('w, 'a) job" where
  "boxed f = bindA (getA cl_box) (\<lambda>b. case b of None \<Rightarrow> raiseA AttributeError | Some b \<Rightarrow> f b)"

primrec eachA :: "('a \<Rightarrow> ('s, unit) act) \<Rightarrow> 'a list \<Rightarrow> ('s, unit) act" where
  "eachA f [] = returnA ()"
| "eachA f (x # xs) = bindA (f x) (\<lambda>_. eachA f xs)"

definition path_parent :: "ppath \<Rightarrow> ppath" where
  "path_parent p = p\<lparr>p_parts := butlast (p_parts p)\<rparr>"

definition below :: "ppath \<Rightarrow> string list \<Rightarrow> ppath" where
  "below p names = p\<lparr>p_parts := p_parts p @ names\<rparr>"

definition venv_bin :: "box \<Rightarrow> ppath" where
  "venv_bin b = below (sb_venv b) [''bin'']"

definition venv_python :: "box \<Rightarrow> ppath" where
  "venv_python b = below (venv_bin b) [''python'']"

section \<open>Environments of Python\<close>

definition set_up :: "'w host \<Rightarrow> string list \<Rightarrow> ('w, unit) job" where
  "set_up h argv =
     bindA (updA (\<lambda>s. s\<lparr>cl_launches := cl_launches s @
         [\<lparr>la_command = Setup argv, la_cwd = path_of ''.'', la_env = ho_environ h\<rparr>]\<rparr>)) (\<lambda>_.
       on_host (ho_setup h argv))"

definition interpreter_names :: "string list" where
  "interpreter_names = ''python'' # ''python3'' # map (\<lambda>n. ''python'' @ nat_digits n) [7..<14]"

definition harden_link :: "'w host \<Rightarrow> box \<Rightarrow> string \<times> ppath res \<Rightarrow> ('w, unit) job" where
  "harden_link h b l =
     (case l of (name, target) \<Rightarrow>
        (case target of
           Inl _ \<Rightarrow> returnA ()
         | Inr t \<Rightarrow>
             whenA (\<not> inside (ho_resolve h (sb_jail b)) t \<and> name \<in> set interpreter_names)
               (on_host (ho_relink h (below (venv_bin b) [name]) (ho_base h)))))"

definition harden_venv_symlinks :: "'w host \<Rightarrow> box \<Rightarrow> ('w, unit) job" where
  "harden_venv_symlinks h b =
     bindA (seen (ho_is_dir h (venv_bin b))) (\<lambda>d.
       if \<not> d then returnA ()
       else bindA (seen (ho_links h (venv_bin b))) (eachA (harden_link h b)))"

definition ensure_venv :: "'w host \<Rightarrow> ('w, ppath) job" where
  "ensure_venv h =
     boxed (\<lambda>b.
       bindA (seen (ho_exists h (venv_python b))) (\<lambda>there.
         if there then
           bindA (whenA (\<not> sb_project b) (harden_venv_symlinks h b)) (\<lambda>_. returnA (venv_python b))
         else if sb_project b then
           raiseA (RuntimeError (''Project environment is incomplete: '' @ path_str (sb_venv b)))
         else
           bindA (on_host (ho_mkdir h (path_parent (sb_venv b)))) (\<lambda>_.
           bindA (set_up h [path_str (ho_base h), ''-m'', ''venv'', path_str (sb_venv b)]) (\<lambda>_.
           bindA (harden_venv_symlinks h b) (\<lambda>_. returnA (venv_python b))))))"

definition project_candidates :: "box \<Rightarrow> ppath list" where
  "project_candidates b = [below (sb_workspace b) [''.venv''], below (sb_workspace b) [''venv'']]"

definition bind_venv :: "ppath \<Rightarrow> ('w, unit) job" where
  "bind_venv p = updA (\<lambda>s. s\<lparr>cl_box := map_option (\<lambda>b. b\<lparr>sb_venv := p, sb_project := True\<rparr>) (cl_box s)\<rparr>)"

definition ensure_project_venv :: "'w host \<Rightarrow> bool \<Rightarrow> ('w, ppath) job" where
  "ensure_project_venv h with_pip =
     boxed (\<lambda>b.
       if sb_kind b \<noteq> ''external'' then ensure_venv h
       else if sb_mode b = ''read_only'' then
         raiseA (RuntimeError ''Cannot create or use a project venv for a read-only workspace'')
       else
         bindA (seen (ho_exists h (venv_python b))) (\<lambda>there.
           if sb_project b \<and> there then returnA (venv_python b)
           else
             bindA (seen (\<lambda>w. find (\<lambda>c. ho_is_file h (below c [''bin'', ''python'']) w) (project_candidates b))) (\<lambda>found.
               case found of
                 Some c \<Rightarrow> bindA (bind_venv c) (\<lambda>_. returnA (below c [''bin'', ''python'']))
               | None \<Rightarrow>
                   let venv = below (sb_workspace b) [''.venv'']
                   in bindA (set_up h ([path_str (ho_base h), ''-m'', ''venv'', path_str venv] @
                               (if with_pip then [] else [''--without-pip'']))) (\<lambda>_.
                      bindA (bind_venv venv) (\<lambda>_. returnA (below venv [''bin'', ''python''])))))) "

definition resolve_python :: "'w host \<Rightarrow> ('w, string) job" where
  "resolve_python h =
     boxed (\<lambda>b.
       bindA (seen (ho_exists h (venv_python b))) (\<lambda>there.
         if there then returnA (path_str (ho_absolute h (venv_python b)))
         else if sb_kind b = ''external'' then
           (if sb_mode b \<noteq> ''read_only''
            then tryA (bindA (ensure_project_venv h True) (\<lambda>p. returnA (path_str p))) (\<lambda>_. returnA (ho_executable h))
            else returnA (ho_executable h))
         else tryA (bindA (ensure_venv h) (\<lambda>p. returnA (path_str p))) (\<lambda>_. returnA (ho_executable h))))"

section \<open>The environment of a child process\<close>

definition secret_prefixes :: "string list" where
  "secret_prefixes =
     [''OPENAI_'', ''GEMINI_'', ''HF_'', ''API_KEY'', ''SECRET'', ''TOKEN'', ''PASSWORD'', ''PHOENIX_'', ''QDRANT_'',
      ''AWS_'', ''AZURE_'', ''GOOGLE_'']"

definition is_secret_key :: "string \<Rightarrow> bool" where
  "is_secret_key key = (\<exists>p\<in>set secret_prefixes. starts_with p (py_upper key) \<or> contains p (py_upper key))"

definition safe_passthrough :: "string list" where
  "safe_passthrough = [''SSL_CERT_FILE'', ''SSL_CERT_DIR'', ''HTTP_PROXY'', ''HTTPS_PROXY'', ''NO_PROXY'']"

definition system_path :: "environ \<Rightarrow> string" where
  "system_path env = dget env ''PATH'' ''/usr/local/bin:/usr/bin:/bin''"

definition base_env :: "'w host \<Rightarrow> box \<Rightarrow> bool \<Rightarrow> environ" where
  "base_env h b venv =
     [(''PATH'', py_join '':'' (filter (\<lambda>p. p \<noteq> []) [if venv then path_str (venv_bin b) else [], system_path (ho_environ h)])),
      (''HOME'', path_str (sb_home b)), (''TMPDIR'', path_str (sb_tmp b)), (''PYTHONPATH'', path_str (sb_workspace b)),
      (''PIP_CACHE_DIR'', path_str (sb_pip b)), (''NO_COLOR'', ''1''), (''TERM'', ''dumb''), (''LANG'', ''C.UTF-8''),
      (''LC_ALL'', ''C.UTF-8'')]"

definition pass_through :: "environ \<Rightarrow> environ \<Rightarrow> environ" where
  "pass_through host env =
     foldl (\<lambda>e key. case map_of host key of
                      Some v \<Rightarrow> if is_secret_key key then e else AList.update key v e
                    | None \<Rightarrow> e) env safe_passthrough"

definition build_sandbox_env :: "'w host \<Rightarrow> bool \<Rightarrow> ('w, environ) job" where
  "build_sandbox_env h use_venv =
     boxed (\<lambda>b.
       bindA (seen (ho_exists h (venv_python b))) (\<lambda>there.
         let venv = use_venv \<and> there; env = base_env h b venv
         in if venv then
              returnA (pass_through (ho_environ h) (env @
                [(''VIRTUAL_ENV'', path_str (sb_venv b)), (''MISSIONS_PYTHON'', path_str (ho_resolve h (venv_python b)))]))
            else
              bindA (resolve_python h) (\<lambda>python.
                returnA (pass_through (ho_environ h) (env @ [(''MISSIONS_PYTHON'', python)])))))"

section \<open>Backends\<close>

definition resolve_backend :: "string \<Rightarrow> bool \<Rightarrow> backend" where
  "resolve_backend raw available =
     (if raw = ''bwrap'' then Bwrap else if raw = ''native'' then Native else if available then Bwrap else Native)"

definition backend_value :: "backend \<Rightarrow> string" where
  "backend_value k = (case k of Auto \<Rightarrow> ''auto'' | Native \<Rightarrow> ''native'' | Bwrap \<Rightarrow> ''bwrap'')"

text \<open>\<open>get_executor\<close>: the backend is chosen when the executor is first asked for, and kept.\<close>

definition get_executor :: "'w host \<Rightarrow> ('w, backend) job" where
  "get_executor h =
     bindA (getA cl_backend) (\<lambda>k. case k of
         Some k \<Rightarrow> returnA k
       | None \<Rightarrow>
           bindA (seen (\<lambda>w. resolve_backend (ho_executor h) (ho_bwrap h w))) (\<lambda>k.
           bindA (updA (\<lambda>s. s\<lparr>cl_backend := Some k\<rparr>)) (\<lambda>_. returnA k)))"

record run_spec =
  rs_cwd :: ppath
  rs_env :: environ
  rs_timeout :: int
  rs_network :: network
  rs_profile :: string
  rs_jail :: "ppath option"
  rs_mode :: string
  rs_required :: bool

definition refused :: "string \<Rightarrow> obj" where
  "refused why =
     [(''returncode'', JInt (-1)), (''stdout'', JStr []), (''stderr'', JStr why), (''success'', JBool False),
      (''timed_out'', JBool False)]"

definition deny_missing_bwrap :: "'w host \<Rightarrow> backend \<Rightarrow> box \<Rightarrow> 'w \<Rightarrow> obj option" where
  "deny_missing_bwrap h k b w =
     (if sb_required b \<and> \<not> (k = Bwrap \<and> ho_bwrap h w) \<and> ho_require h
      then Some (refused ''Sandbox required for external workspace, but bubblewrap is unavailable'' @
                 [(''sandbox_denied'', JBool True)])
      else None)"

definition collect_result :: "int \<Rightarrow> ppath \<Rightarrow> exit \<Rightarrow> obj" where
  "collect_result timeout cwd x =
     (case x of
        Finished rc out err \<Rightarrow>
          [(''returncode'', JInt rc), (''stdout'', JStr (py_strip out)), (''stderr'', JStr (py_strip err)),
           (''success'', JBool (rc = 0)), (''timed_out'', JBool False), (''cwd'', JStr (path_str cwd))]
      | Timed_out \<Rightarrow>
          [(''returncode'', JInt (-1)), (''stdout'', JStr []),
           (''stderr'', JStr (''Process timed out after '' @ int_str timeout @ ''s'')), (''success'', JBool False),
           (''timed_out'', JBool True), (''cwd'', JStr (path_str cwd))])"

text \<open>\<open>_native_popen\<close> and \<open>_collect_result\<close>.\<close>

definition start :: "'w host \<Rightarrow> run_spec \<Rightarrow> int \<Rightarrow> command \<Rightarrow> ('w, obj) job" where
  "start h spec timeout cmd =
     (let l = \<lparr>la_command = cmd, la_cwd = rs_cwd spec, la_env = rs_env spec\<rparr>
      in bindA (updA (\<lambda>s. s\<lparr>cl_launches := cl_launches s @ [l]\<rparr>)) (\<lambda>_.
         bindA (on_host (ho_popen h l timeout)) (\<lambda>x. returnA (collect_result timeout (rs_cwd spec) x))))"

section \<open>The jail of bubblewrap\<close>

definition os_mounts :: "string list" where
  "os_mounts = [''/usr'', ''/bin'', ''/lib'', ''/lib64'', ''/etc/resolv.conf'', ''/etc/ssl'', ''/etc/pki'']"

definition bwrap_env_keys :: "string list" where
  "bwrap_env_keys =
     [''PATH'', ''VIRTUAL_ENV'', ''MISSIONS_PYTHON'', ''PYTHONPATH'', ''HOME'', ''TMPDIR'', ''PIP_CACHE_DIR'', ''LANG'',
      ''LC_ALL'', ''NO_COLOR'', ''TERM'']"

definition state_dir :: "'w host \<Rightarrow> run_spec \<Rightarrow> ppath" where
  "state_dir h spec = ho_resolve h (case rs_jail spec of Some j \<Rightarrow> j | None \<Rightarrow> rs_cwd spec)"

text \<open>The prefix of an interpreter that lies outside everything mounted.\<close>

definition python_prefix :: "'w host \<Rightarrow> run_spec \<Rightarrow> ppath option" where
  "python_prefix h spec =
     (case map_of (rs_env spec) ''MISSIONS_PYTHON'' of
        None \<Rightarrow> None
      | Some raw \<Rightarrow>
          if raw = [] then None
          else let p = ho_resolve h (path_of raw)
               in if inside (state_dir h spec) p \<or> inside (ho_resolve h (rs_cwd spec)) p \<or>
                     (\<exists>base\<in>set [''/usr'', ''/bin'', ''/lib'', ''/lib64'']. inside (path_of base) p)
                  then None
                  else Some (if path_name (path_parent p) = ''bin'' then path_parent (path_parent p) else path_parent p))"

definition mount :: "string \<Rightarrow> string \<Rightarrow> string list" where
  "mount flag p = [flag, p, p]"

definition bwrap_cmd :: "'w host \<Rightarrow> 'w \<Rightarrow> string list \<Rightarrow> run_spec \<Rightarrow> string list" where
  "bwrap_cmd h w inner spec =
     (let state = state_dir h spec; workspace = ho_resolve h (rs_cwd spec)
      in [''bwrap''] @
         concat (map (\<lambda>m. if ho_exists h (path_of m) w then mount ''--ro-bind'' (path_str (path_of m)) else []) os_mounts) @
         mount ''--bind'' (path_str state) @
         (if workspace \<noteq> state
          then mount (if rs_mode spec = ''read_only'' then ''--ro-bind'' else ''--bind'') (path_str workspace) else []) @
         (case python_prefix h spec of Some p \<Rightarrow> mount ''--ro-bind'' (path_str p) | None \<Rightarrow> []) @
         [''--chdir'', path_str workspace] @
         concat (map (\<lambda>k. case map_of (rs_env spec) k of Some v \<Rightarrow> [''--setenv'', k, v] | None \<Rightarrow> []) bwrap_env_keys) @
         [''--proc'', ''/proc'', ''--dev'', ''/dev'', ''--die-with-parent'', ''--new-session''] @
         (if rs_network spec = NoNetwork then [''--unshare-net''] else []) @ [''--''] @ inner)"

section \<open>The executor\<close>

definition annotate_result :: "'w host \<Rightarrow> backend \<Rightarrow> run_spec \<Rightarrow> obj \<Rightarrow> ('w, obj) job" where
  "annotate_result h k spec r =
     bindA (case map_of (rs_env spec) ''MISSIONS_PYTHON'' of
              Some p \<Rightarrow> if p \<noteq> [] then returnA p else resolve_python h
            | None \<Rightarrow> resolve_python h) (\<lambda>python.
     boxed (\<lambda>b. returnA
       (foldl (\<lambda>d (x, v). AList.update x v d) r
          [(''python'', JStr python), (''venv'', JStr (path_str (sb_venv b))), (''profile'', JStr (rs_profile spec)),
           (''executor'', JStr (backend_value k)), (''cwd'', JStr (path_str (rs_cwd spec)))])))"

definition spec_from_ctx ::
    "'w host \<Rightarrow> int \<Rightarrow> network \<Rightarrow> string \<Rightarrow> bool \<Rightarrow> ppath option \<Rightarrow> environ \<Rightarrow> ('w, run_spec) job" where
  "spec_from_ctx h timeout net profile use_venv cwd overlay =
     bindA (build_sandbox_env h use_venv) (\<lambda>env.
     boxed (\<lambda>b. returnA
       \<lparr>rs_cwd = (case cwd of Some p \<Rightarrow> p | None \<Rightarrow> sb_workspace b), rs_env = foldl (\<lambda>e (k, v). AList.update k v e) env overlay,
        rs_timeout = timeout, rs_network = net, rs_profile = profile, rs_jail = Some (sb_jail b), rs_mode = sb_mode b,
        rs_required = sb_required b\<rparr>))"

definition failed_run :: "obj \<Rightarrow> bool" where
  "failed_run r \<longleftrightarrow> dget r ''returncode'' JNull \<noteq> JInt 0 \<and> contains ''bwrap:'' (get_str r ''stderr'' [])"

text \<open>The end of both entry points: in the jail, natively after a failure of the jail, or natively at once.\<close>

definition perform :: "'w host \<Rightarrow> backend \<Rightarrow> run_spec \<Rightarrow> int \<Rightarrow> string list \<Rightarrow> command \<Rightarrow> ('w, obj) job" where
  "perform h k spec timeout inner plain =
     bindA (seen (\<lambda>w. k = Bwrap \<and> ho_bwrap h w)) (\<lambda>jailed.
     bindA
       (if jailed then
          bindA (seen (\<lambda>w. bwrap_cmd h w inner spec)) (\<lambda>argv.
          bindA (start h spec timeout (Argv argv)) (\<lambda>r.
            if failed_run r \<and> \<not> rs_required spec then
              bindA (start h spec timeout plain) (\<lambda>r. returnA (AList.update ''executor_fallback'' (JStr ''native'') r))
            else returnA (if failed_run r then AList.update ''sandbox_denied'' (JBool True) r else r)))
        else start h spec timeout plain)
       (annotate_result h k spec))"

definition denied_by_policy :: "'w host \<Rightarrow> string \<Rightarrow> obj \<Rightarrow> ('w, obj) job" where
  "denied_by_policy h why extra =
     bindA (resolve_python h) (\<lambda>python.
       returnA (refused (''Policy denied: '' @ why) @ [(''policy_denied'', JBool True)] @ extra @ [(''python'', JStr python)]))"

text \<open>What \<open>run_argv\<close> and \<open>run_shell\<close> do with the verdict of the policy on their command.\<close>

definition governed ::
    "'w host \<Rightarrow> policy_verdict \<Rightarrow> (box \<Rightarrow> obj) \<Rightarrow> string list \<Rightarrow> command \<Rightarrow> int \<Rightarrow> network \<Rightarrow> string \<Rightarrow> ppath option \<Rightarrow> bool \<Rightarrow>
     environ \<Rightarrow> ('w, obj) job" where
  "governed h verdict extra inner plain timeout net profile cwd use_venv overlay =
     bindA (get_executor h) (\<lambda>k.
     bindA (getA cl_box) (\<lambda>ctx. case ctx of
         None \<Rightarrow> returnA (refused ''No active sandbox context'')
       | Some b \<Rightarrow>
           bindA (seen (deny_missing_bwrap h k b)) (\<lambda>denied. case denied of
               Some d \<Rightarrow> returnA d
             | None \<Rightarrow>
                 if \<not> allowed verdict then denied_by_policy h (reason verdict) (extra b)
                 else bindA (spec_from_ctx h timeout net profile use_venv cwd overlay) (\<lambda>spec.
                        perform h k spec timeout inner plain))))"

definition run_argv ::
    "'w host \<Rightarrow> int \<Rightarrow> network \<Rightarrow> string \<Rightarrow> ppath option \<Rightarrow> bool \<Rightarrow> environ \<Rightarrow> string list \<Rightarrow> ('w, obj) job" where
  "run_argv h timeout net profile cwd use_venv overlay argv =
     governed h (validate_argv argv profile) (\<lambda>b. []) argv (Argv argv) timeout net profile cwd use_venv overlay"

definition run_shell :: "'w host \<Rightarrow> int \<Rightarrow> network \<Rightarrow> string \<Rightarrow> environ \<Rightarrow> string \<Rightarrow> ('w, obj) job" where
  "run_shell h timeout net profile overlay script =
     governed h (validate_shell_script script profile (ho_policy h)) (\<lambda>b. [(''cwd'', JStr (path_str (sb_workspace b)))])
       [''/bin/bash'', ''-c'', script] (Shell script) timeout net profile None True overlay"

end
