(* ===== verification/SandboxLaws.thy ===== *)
theory SandboxLaws
  imports Sandbox
begin

text \<open>
  What the executor promises: which processes it starts, in which jail and with which environment. The
  relation \<open>grows ok\<close> says that every process started in between satisfies \<open>ok\<close> and that the sandbox kept
  everything but its Python environment.
\<close>

lemma wp_seen [wp_simps]: "wp (seen f) Q s = Q (Inr (f (cl_world s))) s"
  by (simp add: seen_def wp_simps)

lemma wp_boxed [wp_simps]:
  "wp (boxed f) Q s = (case cl_box s of None \<Rightarrow> Q (Inl AttributeError) s | Some b \<Rightarrow> wp (f b) Q s)"
  by (simp add: boxed_def wp_simps split: option.split)

section \<open>Processes started\<close>

definition is_setup :: "launch \<Rightarrow> bool" where
  "is_setup l \<longleftrightarrow> (\<exists>a. la_command l = Setup a)"

definition fixed_part :: "box \<Rightarrow> box" where
  "fixed_part b = b\<lparr>sb_venv := sb_home b, sb_project := False\<rparr>"

definition grows :: "(launch \<Rightarrow> bool) \<Rightarrow> 'w cell \<Rightarrow> 'w cell \<Rightarrow> bool" where
  "grows ok s t \<longleftrightarrow>
     (\<exists>new. cl_launches t = cl_launches s @ new \<and> (\<forall>l\<in>set new. ok l)) \<and>
     map_option fixed_part (cl_box t) = map_option fixed_part (cl_box s) \<and> cl_root t = cl_root s"

interpretation grows: frame "grows ok" for ok
  by unfold_locales (auto simp: grows_def)

abbreviation admits :: "(launch \<Rightarrow> bool) \<Rightarrow> ('w, 'a) job \<Rightarrow> bool" where
  "admits \<equiv> grows.framed"

lemma admits_host: "admits ok (on_host f)"
  by (rule grows.framedI) (simp add: on_host_def grows_def split: prod.split)

lemma admits_launch: "ok l \<Longrightarrow> admits ok (updA (\<lambda>s. s\<lparr>cl_launches := cl_launches s @ [l]\<rparr>))"
  by (rule grows.framed_upd) (simp add: grows_def)

text \<open>
  Environments of Python under any relation the operations of the host keep. The executor and the registry of
  servers both build environments for their processes.
\<close>

locale hosting = frame R for R :: "'w cell \<Rightarrow> 'w cell \<Rightarrow> bool" +
  fixes h :: "'w host"
  assumes keeps_mkdir: "framed (on_host (ho_mkdir h p))"
    and keeps_relink: "framed (on_host (ho_relink h p q))"
    and keeps_setup: "framed (set_up h argv)"
    and keeps_venv: "framed (bind_venv p)"
begin

lemma framed_seen: "framed (seen f)"
  by (simp add: seen_def framed_get)

lemma framed_boxed: "(\<And>b. framed (f b)) \<Longrightarrow> framed (boxed f)"
  by (simp add: boxed_def framed_rules)

lemma framed_each: "(\<And>x. framed (f x)) \<Longrightarrow> framed (eachA f xs)"
  by (induction xs) (simp_all add: framed_return framed_bind)

lemmas host_rules = framed_rules framed_seen framed_boxed framed_each keeps_mkdir keeps_relink keeps_setup keeps_venv

lemma framed_harden: "framed (harden_venv_symlinks h b)"
  unfolding harden_venv_symlinks_def harden_link_def by (intro host_rules)

lemma framed_ensure_venv: "framed (ensure_venv h)"
  unfolding ensure_venv_def by (intro host_rules framed_harden)

lemma framed_project_venv: "framed (ensure_project_venv h pip)"
  unfolding ensure_project_venv_def by (intro host_rules framed_ensure_venv)

lemma framed_resolve_python: "framed (resolve_python h)"
  unfolding resolve_python_def by (intro host_rules framed_project_venv framed_ensure_venv)

lemma framed_env: "framed (build_sandbox_env h v)"
  unfolding build_sandbox_env_def by (intro host_rules framed_resolve_python)

lemma framed_spec: "framed (spec_from_ctx h to net p v cwd ov)"
  unfolding spec_from_ctx_def by (intro host_rules framed_env)

lemma framed_annotate: "framed (annotate_result h k spec r)"
  unfolding annotate_result_def by (intro host_rules framed_resolve_python)

lemma framed_denied: "framed (denied_by_policy h why extra)"
  unfolding denied_by_policy_def by (intro host_rules framed_resolve_python)

end

text \<open>Environments are set up wherever set-up is admitted.\<close>

definition lenient :: "(launch \<Rightarrow> bool) \<Rightarrow> bool" where
  "lenient ok \<longleftrightarrow> (\<forall>l. is_setup l \<longrightarrow> ok l)"

lemma grows_hosting: "lenient ok \<Longrightarrow> hosting (grows ok) h"
proof
  assume l: "lenient ok"
  show "admits ok (set_up h argv)" for argv
    unfolding set_up_def using l
    by (intro grows.framed_bind admits_launch admits_host) (simp add: lenient_def is_setup_def)
  show "admits ok (bind_venv p)" for p
    unfolding bind_venv_def
    by (rule grows.framed_upd) (simp add: grows_def option.map_comp o_def fixed_part_def [abs_def])
qed (rule admits_host)+

interpretation any: hosting "grows (\<lambda>l. True)" h for h
  by (rule grows_hosting) (simp add: lenient_def)

lemmas admits_resolve_python = hosting.framed_resolve_python [OF grows_hosting]
lemmas admits_spec = hosting.framed_spec [OF grows_hosting]
lemmas admits_annotate = hosting.framed_annotate [OF grows_hosting]
lemmas admits_denied = hosting.framed_denied [OF grows_hosting]
lemmas admits_rules = grows.framed_rules admits_launch admits_host

lemma admits_seen: "admits ok (seen f)"
  by (simp add: seen_def grows.framed_get)

lemma admits_start:
  "ok \<lparr>la_command = cmd, la_cwd = rs_cwd spec, la_env = rs_env spec\<rparr> \<Longrightarrow> admits ok (start h spec timeout cmd)"
  unfolding start_def by (intro admits_rules)

section \<open>The specification of a run\<close>

definition env_keys :: "string list" where
  "env_keys =
     [''PATH'', ''HOME'', ''TMPDIR'', ''PYTHONPATH'', ''PIP_CACHE_DIR'', ''NO_COLOR'', ''TERM'', ''LANG'', ''LC_ALL'', ''VIRTUAL_ENV'',
      ''MISSIONS_PYTHON''] @ safe_passthrough"

lemma no_secret_keys: "\<forall>k\<in>set env_keys. \<not> is_secret_key k"
  by code_simp

definition env_dom :: "environ \<Rightarrow> string set" where
  "env_dom e = fst ` set e"

lemma env_dom_simps [simp]:
  "env_dom [] = {}" "env_dom ((k, v) # e) = insert k (env_dom e)" "env_dom (e @ e') = env_dom e \<union> env_dom e'"
  by (simp_all add: env_dom_def image_Un)

lemma env_dom_update [simp]: "env_dom (AList.update k v d) = insert k (env_dom d)"
  unfolding env_dom_def by (metis dom_map_of_conv_image_fst dom_fun_upd map_of_update option.distinct(1))

lemma env_dom_overlay: "env_dom (foldl (\<lambda>e (k, v). AList.update k v e) env ov) = env_dom env \<union> env_dom ov"
  by (induction ov arbitrary: env) (auto split: prod.split)

lemma pass_through_dom: "env_dom (pass_through host env) \<subseteq> env_dom env \<union> set safe_passthrough"
proof -
  let ?f = "\<lambda>e key. case map_of host key of Some v \<Rightarrow> if is_secret_key key then e else AList.update key v e | None \<Rightarrow> e"
  have "env_dom (foldl ?f env ks) \<subseteq> env_dom env \<union> set ks" for ks
  proof (induction ks arbitrary: env)
    case (Cons k ks)
    have "env_dom (?f env k) \<subseteq> insert k (env_dom env)" by (auto split: option.split)
    then show ?case using Cons [of "?f env k"] by (simp only: foldl.simps list.set) blast
  qed simp
  then show ?thesis by (simp add: pass_through_def)
qed

lemma base_env_dom: "env_dom (base_env h b v) \<subseteq> set env_keys"
  by (simp add: base_env_def env_keys_def)

definition named :: "environ res \<Rightarrow> bool" where
  "named r \<longleftrightarrow> (\<forall>e. r = Inr e \<longrightarrow> env_dom e \<subseteq> set env_keys)"

lemma env_named: "wp (build_sandbox_env h v) (\<lambda>r t. named r) s"
proof -
  have k: "set safe_passthrough \<subseteq> set env_keys" "{''VIRTUAL_ENV'', ''MISSIONS_PYTHON''} \<subseteq> set env_keys"
    by (simp_all add: env_keys_def safe_passthrough_def)
  have q: "named (Inr (pass_through host (base_env h b x @ more)))"
    if m: "env_dom more \<subseteq> {''VIRTUAL_ENV'', ''MISSIONS_PYTHON''}" for host b x more
  proof -
    have "env_dom (base_env h b x @ more) \<subseteq> set env_keys" unfolding env_dom_simps
      by (rule Un_least [OF base_env_dom order_trans [OF m k(2)]])
    then have "env_dom (base_env h b x @ more) \<union> set safe_passthrough \<subseteq> set env_keys" by (rule Un_least [OF _ k(1)])
    from order_trans [OF pass_through_dom this] show ?thesis by (simp only: named_def sum.inject simp_thms)
  qed
  have r: "wp (bindA (resolve_python h) (\<lambda>python. returnA (pass_through host (base_env h b x @ [(''MISSIONS_PYTHON'', python)]))))
      (\<lambda>r t. named r) s" for host b x
  proof (rule wp_bindI [where P = "\<lambda>r t. True"])
    fix python t
    show "wp (returnA (pass_through host (base_env h b x @ [(''MISSIONS_PYTHON'', python)]))) (\<lambda>r t. named r) t"
      unfolding wp_return by (rule q) simp
  qed (simp_all add: named_def)
  have v: "wp (returnA (pass_through host (base_env h b x @ [(''VIRTUAL_ENV'', p), (''MISSIONS_PYTHON'', p')]))) (\<lambda>r t. named r) s"
    for host b x p p'
    unfolding wp_return by (rule q) simp
  show ?thesis
  proof (cases "cl_box s")
    case None
    then show ?thesis by (simp add: build_sandbox_env_def wp_boxed named_def)
  next
    case (Some b)
    then show ?thesis by (simp only: build_sandbox_env_def wp_boxed wp_bind wp_seen option.case sum.case Let_def v split: if_split)
        (simp only: r [unfolded wp_bind] simp_thms)
  qed
qed

text \<open>What \<open>_spec_from_ctx\<close> takes from the sandbox and from its arguments.\<close>

definition spec_of :: "box \<Rightarrow> network \<Rightarrow> string \<Rightarrow> ppath option \<Rightarrow> environ \<Rightarrow> run_spec \<Rightarrow> bool" where
  "spec_of b net profile cwd ov spec \<longleftrightarrow>
     rs_cwd spec = (case cwd of Some p \<Rightarrow> p | None \<Rightarrow> sb_workspace b) \<and> rs_network spec = net \<and> rs_profile spec = profile \<and>
     rs_jail spec = Some (sb_jail b) \<and> rs_mode spec = sb_mode b \<and> rs_required spec = sb_required b \<and>
     env_dom (rs_env spec) \<subseteq> set env_keys \<union> env_dom ov"

lemma fixed_eq:
  "map_option fixed_part o' = map_option fixed_part (Some b) \<Longrightarrow>
   \<exists>c. o' = Some c \<and> sb_workspace c = sb_workspace b \<and> sb_jail c = sb_jail b \<and> sb_mode c = sb_mode b \<and>
       sb_required c = sb_required b \<and> sb_kind c = sb_kind b"
proof -
  assume "map_option fixed_part o' = map_option fixed_part (Some b)"
  then obtain c where c: "o' = Some c" and e: "fixed_part c = fixed_part b" by (cases o') auto
  have "f c = f b" if "\<And>x. f (fixed_part x) = f x" for f :: "box \<Rightarrow> ppath" using that e by metis
  moreover have "f c = f b" if "\<And>x. f (fixed_part x) = f x" for f :: "box \<Rightarrow> string" using that e by metis
  moreover have "f c = f b" if "\<And>x. f (fixed_part x) = f x" for f :: "box \<Rightarrow> bool" using that e by metis
  ultimately show ?thesis using c by (simp add: fixed_part_def)
qed

lemma spec_outcome:
  assumes "cl_box s = Some b"
  shows "wp (spec_from_ctx h to net profile v cwd ov)
     (\<lambda>r t. \<forall>spec. r = Inr spec \<longrightarrow> spec_of b net profile cwd ov spec) s"
  unfolding spec_from_ctx_def
proof (rule wp_bindI)
  have "wp (build_sandbox_env h v) (\<lambda>r t. grows (\<lambda>l. True) s t) s"
    by (rule wpI) (rule grows.framedD [OF any.framed_env])
  from wp_conj [OF this env_named]
  show "wp (build_sandbox_env h v) (\<lambda>r t. grows (\<lambda>l. True) s t \<and> named r) s" .
next
  fix env t
  assume t: "grows (\<lambda>l. True) s t \<and> named (Inr env)"
  then obtain c where c: "cl_box t = Some c" "sb_workspace c = sb_workspace b" "sb_jail c = sb_jail b" "sb_mode c = sb_mode b"
    "sb_required c = sb_required b" using fixed_eq [of "cl_box t" b] assms by (auto simp: grows_def)
  then show "wp (boxed (\<lambda>b. returnA
       \<lparr>rs_cwd = (case cwd of Some p \<Rightarrow> p | None \<Rightarrow> sb_workspace b), rs_env = foldl (\<lambda>e (k, v). AList.update k v e) env ov,
        rs_timeout = to, rs_network = net, rs_profile = profile, rs_jail = Some (sb_jail b), rs_mode = sb_mode b,
        rs_required = sb_required b\<rparr>)) (\<lambda>r t. \<forall>spec. r = Inr spec \<longrightarrow> spec_of b net profile cwd ov spec) t"
    using t by (auto simp: wp_simps spec_of_def named_def env_dom_overlay split: option.split)
qed simp

section \<open>Runs\<close>

lemma wp_admits: "admits ok m \<Longrightarrow> grows ok s u \<Longrightarrow> wp m (\<lambda>r t. grows ok s t) u"
  by (rule wpI) (metis grows.framedD grows.R_trans)

lemma bind_seen: "bindA (seen f) g s = g (f (cl_world s)) s"
  by (simp add: bindA_def seen_def getA_def)

definition launched :: "run_spec \<Rightarrow> command \<Rightarrow> launch" where
  "launched spec cmd = \<lparr>la_command = cmd, la_cwd = rs_cwd spec, la_env = rs_env spec\<rparr>"

lemma start_eq:
  "start h spec timeout cmd s =
     (case ho_popen h (launched spec cmd) timeout (cl_world s) of (x, w) \<Rightarrow>
        (map_sum (\<lambda>e. e) (collect_result timeout (rs_cwd spec)) x,
         s\<lparr>cl_launches := cl_launches s @ [launched spec cmd], cl_world := w\<rparr>))"
  by (auto simp: start_def Let_def bindA_def updA_def on_host_def returnA_def launched_def split: prod.split sum.split)

lemma launched_simps [simp]: "la_command (launched spec cmd) = cmd" "la_env (launched spec cmd) = rs_env spec"
  by (simp_all add: launched_def)

text \<open>Whether bubblewrap is installed does not change.\<close>

definition settled_host :: "'w host \<Rightarrow> bool" where
  "settled_host h \<longleftrightarrow> (\<forall>w w'. ho_bwrap h w = ho_bwrap h w')"

lemma perform_admits:
  assumes "lenient ok" and "\<And>w. ok (launched spec (Argv (bwrap_cmd (h :: 'a host) w inner spec)))"
    and "\<not> (rs_required spec \<and> k = Bwrap \<and> (\<forall>w. ho_bwrap h w)) \<Longrightarrow> ok (launched spec plain)"
  shows "admits ok (perform (h :: 'a host) k spec timeout inner plain)"
proof (rule grows.framedI)
  fix s :: "'a cell"
  have jail: "admits ok (start h spec timeout (Argv (bwrap_cmd h w inner spec)))" for w
    using assms(2) by (intro admits_start) (simp add: launched_def)
  have plain: "admits ok (start h spec timeout plain)" if "\<not> (rs_required spec \<and> k = Bwrap \<and> (\<forall>w. ho_bwrap h w))"
    using assms(3) [OF that] by (intro admits_start) (simp add: launched_def)
  have "admits ok (bindA (seen (\<lambda>w. bwrap_cmd h w inner spec)) (\<lambda>argv. bindA (start h spec timeout (Argv argv)) (\<lambda>r.
      if failed_run r \<and> \<not> rs_required spec then
        bindA (start h spec timeout plain) (\<lambda>r. returnA (AList.update ''executor_fallback'' (JStr ''native'') r))
      else returnA (if failed_run r then AList.update ''sandbox_denied'' (JBool True) r else r))))" (is "admits ok ?m")
  proof (rule grows.framedI)
    fix s :: "'a cell"
    have "admits ok (if failed_run r \<and> \<not> rs_required spec then
        bindA (start h spec timeout plain) (\<lambda>r. returnA (AList.update ''executor_fallback'' (JStr ''native'') r))
      else returnA (if failed_run r then AList.update ''sandbox_denied'' (JBool True) r else r))" for r
      by (cases "rs_required spec") (auto intro!: admits_rules plain)
    then have "admits ok (bindA (start h spec timeout (Argv (bwrap_cmd h (cl_world s) inner spec))) (\<lambda>r.
      if failed_run r \<and> \<not> rs_required spec then
        bindA (start h spec timeout plain) (\<lambda>r. returnA (AList.update ''executor_fallback'' (JStr ''native'') r))
      else returnA (if failed_run r then AList.update ''sandbox_denied'' (JBool True) r else r)))"
      by (intro grows.framed_bind jail)
    then show "grows ok s (snd (?m s))" unfolding bind_seen grows.framed_def by blast
  qed
  then have "admits ok (bindA ?m (annotate_result h k spec))"
    by (rule grows.framed_bind) (rule admits_annotate [OF assms(1)])
  moreover have "admits ok (bindA (start h spec timeout plain) (annotate_result h k spec))"
    if "\<not> (k = Bwrap \<and> ho_bwrap h (cl_world s))"
    using that by (intro grows.framed_bind admits_annotate assms(1) plain) auto
  ultimately show "grows ok s (snd (perform h k spec timeout inner plain s))"
    unfolding perform_def bind_seen by (auto simp: grows.framed_def)
qed

text \<open>The part the two entry points share, from the check of the jail on.\<close>

lemma admitted_run:
  assumes b: "cl_box s = Some b" and len: "lenient ok"
    and jail: "\<And>spec w. spec_of b net profile cwd ov spec \<Longrightarrow> a \<Longrightarrow> ok (launched spec (Argv (bwrap_cmd h w inner spec)))"
    and plain: "\<And>spec. spec_of b net profile cwd ov spec \<Longrightarrow> a \<Longrightarrow>
      \<not> (sb_required b \<and> ho_require h \<and> settled_host h) \<Longrightarrow> ok (launched spec cmd)"
  shows "wp (bindA (seen (deny_missing_bwrap h k b)) (\<lambda>denied. case denied of
        Some d \<Rightarrow> returnA d
      | None \<Rightarrow> if \<not> a then denied_by_policy h why extra
                else bindA (spec_from_ctx h timeout net profile v cwd ov) (\<lambda>spec. perform h k spec timeout inner cmd)))
     (\<lambda>r t. grows ok s t) s"
proof (cases "deny_missing_bwrap h k b (cl_world s)")
  case (Some d)
  then show ?thesis by (simp add: wp_simps)
next
  case None
  then have k: "k = Bwrap \<and> ho_bwrap h (cl_world s)" if "sb_required b" "ho_require h"
    using that by (auto simp: deny_missing_bwrap_def split: if_split_asm)
  have "wp (bindA (spec_from_ctx h timeout net profile v cwd ov) (\<lambda>spec. perform h k spec timeout inner cmd))
      (\<lambda>r t. grows ok s t) s" if a: a
  proof (rule wp_bindI)
    show "wp (spec_from_ctx h timeout net profile v cwd ov)
        (\<lambda>r t. grows ok s t \<and> (\<forall>spec. r = Inr spec \<longrightarrow> spec_of b net profile cwd ov spec)) s"
      by (intro wp_conj wp_admits admits_spec len spec_outcome b) simp
  next
    fix spec t
    assume t: "grows ok s t \<and> (\<forall>spec'. Inr spec = Inr spec' \<longrightarrow> spec_of b net profile cwd ov spec')"
    then have s: "spec_of b net profile cwd ov spec" by simp
    have "ok (launched spec cmd)" if "\<not> (rs_required spec \<and> k = Bwrap \<and> (\<forall>w. ho_bwrap h w))"
      using that s k by (intro plain [OF s a]) (auto simp: spec_of_def settled_host_def)
    then have "admits ok (perform h k spec timeout inner cmd)" by (intro perform_admits len jail [OF s a])
    with t show "wp (perform h k spec timeout inner cmd) (\<lambda>r t. grows ok s t) t" by (blast intro: wp_admits)
  qed simp
  moreover have "wp (denied_by_policy h why extra) (\<lambda>r t. grows ok s t) s"
    by (intro wp_admits admits_denied len) simp
  ultimately show ?thesis using None by (simp add: wp_simps)
qed

lemma get_executor_box: "get_executor h s = (r, u) \<Longrightarrow> cl_box u = cl_box s \<and> cl_launches u = cl_launches s \<and> cl_root u = cl_root s"
  by (auto simp: get_executor_def bindA_def getA_def seen_def updA_def returnA_def split: option.split_asm)

lemma get_executor_ok: "\<exists>k u. get_executor h s = (Inr k, u)"
  by (auto simp: get_executor_def bindA_def getA_def seen_def updA_def returnA_def split: option.split)

lemma governed_grows:
  assumes b: "cl_box s = Some b" and len: "lenient ok"
    and jail: "\<And>spec w. spec_of b net profile cwd ov spec \<Longrightarrow> allowed verdict \<Longrightarrow>
      ok (launched spec (Argv (bwrap_cmd h w inner spec)))"
    and plain: "\<And>spec. spec_of b net profile cwd ov spec \<Longrightarrow> allowed verdict \<Longrightarrow>
      \<not> (sb_required b \<and> ho_require h \<and> settled_host h) \<Longrightarrow> ok (launched spec cmd)"
    and run: "governed h verdict extra inner cmd timeout net profile cwd v ov s = (r, t)"
  shows "grows ok s t"
proof -
  obtain k u where u: "get_executor h s = (Inr k, u)" using get_executor_ok by blast
  note e = get_executor_box [OF u]
  have bu: "cl_box u = Some b" using e b by simp
  from run have "bindA (seen (deny_missing_bwrap h k b)) (\<lambda>denied. case denied of
        Some d \<Rightarrow> returnA d
      | None \<Rightarrow> if \<not> allowed verdict then denied_by_policy h (reason verdict) (extra b)
                else bindA (spec_from_ctx h timeout net profile v cwd ov) (\<lambda>spec. perform h k spec timeout inner cmd)) u = (r, t)"
    unfolding governed_def by (simp add: bindA_def [of "get_executor h"] u bindA_def [of "getA cl_box"] getA_def bu)
  from wpD [OF admitted_run [OF bu len jail plain] this] have "grows ok u t" .
  with e show ?thesis by (simp add: grows_def)
qed

section \<open>How bubblewrap reads its arguments\<close>

text \<open>
  The options the harness uses, read as \<open>bwrap(1)\<close> documents them: each takes a fixed number of words, and
  \<open>--\<close> ends them.
\<close>

datatype jail_option =
    ReadOnly string string
  | ReadWrite string string
  | ChangeDir string
  | SetEnv string string
  | Procfs string
  | Devfs string
  | Flag string

fun bwrap_reads :: "string list \<Rightarrow> (jail_option list \<times> string list) option" where
  "bwrap_reads [] = None"
| "bwrap_reads (f # ws) =
     (if f = ''--'' then Some ([], ws)
      else if f \<in> {''--die-with-parent'', ''--new-session'', ''--unshare-net''} then
        map_option (\<lambda>(os, rest). (Flag f # os, rest)) (bwrap_reads ws)
      else case ws of
        [] \<Rightarrow> None
      | x # xs \<Rightarrow>
          if f = ''--chdir'' then map_option (\<lambda>(os, rest). (ChangeDir x # os, rest)) (bwrap_reads xs)
          else if f = ''--proc'' then map_option (\<lambda>(os, rest). (Procfs x # os, rest)) (bwrap_reads xs)
          else if f = ''--dev'' then map_option (\<lambda>(os, rest). (Devfs x # os, rest)) (bwrap_reads xs)
          else (case xs of
              [] \<Rightarrow> None
            | y # ys \<Rightarrow>
                if f = ''--ro-bind'' then map_option (\<lambda>(os, rest). (ReadOnly x y # os, rest)) (bwrap_reads ys)
                else if f = ''--bind'' then map_option (\<lambda>(os, rest). (ReadWrite x y # os, rest)) (bwrap_reads ys)
                else if f = ''--setenv'' then map_option (\<lambda>(os, rest). (SetEnv x y # os, rest)) (bwrap_reads ys)
                else None))"

declare bwrap_reads.simps [simp del]

lemma bwrap_reads_simps [simp]:
  "bwrap_reads (''--'' # ws) = Some ([], ws)"
  "bwrap_reads (''--die-with-parent'' # ws) = map_option (\<lambda>(os, rest). (Flag ''--die-with-parent'' # os, rest)) (bwrap_reads ws)"
  "bwrap_reads (''--new-session'' # ws) = map_option (\<lambda>(os, rest). (Flag ''--new-session'' # os, rest)) (bwrap_reads ws)"
  "bwrap_reads (''--unshare-net'' # ws) = map_option (\<lambda>(os, rest). (Flag ''--unshare-net'' # os, rest)) (bwrap_reads ws)"
  "bwrap_reads (''--chdir'' # x # ws) = map_option (\<lambda>(os, rest). (ChangeDir x # os, rest)) (bwrap_reads ws)"
  "bwrap_reads (''--proc'' # x # ws) = map_option (\<lambda>(os, rest). (Procfs x # os, rest)) (bwrap_reads ws)"
  "bwrap_reads (''--dev'' # x # ws) = map_option (\<lambda>(os, rest). (Devfs x # os, rest)) (bwrap_reads ws)"
  "bwrap_reads (''--ro-bind'' # x # y # ws) = map_option (\<lambda>(os, rest). (ReadOnly x y # os, rest)) (bwrap_reads ws)"
  "bwrap_reads (''--bind'' # x # y # ws) = map_option (\<lambda>(os, rest). (ReadWrite x y # os, rest)) (bwrap_reads ws)"
  "bwrap_reads (''--setenv'' # x # y # ws) = map_option (\<lambda>(os, rest). (SetEnv x y # os, rest)) (bwrap_reads ws)"
  by (simp_all add: bwrap_reads.simps)

definition writable :: "jail_option list \<Rightarrow> string list" where
  "writable os = concat (map (\<lambda>x. case x of ReadWrite a b \<Rightarrow> [b] | _ \<Rightarrow> []) os)"

lemma writable_simps [simp]:
  "writable [] = []" "writable (ReadWrite a b # os) = b # writable os" "writable (ReadOnly a b # os) = writable os"
  "writable (ChangeDir a # os) = writable os" "writable (SetEnv a b # os) = writable os" "writable (Procfs a # os) = writable os"
  "writable (Devfs a # os) = writable os" "writable (Flag a # os) = writable os"
  "writable (os @ os') = writable os @ writable os'"
  "writable (map (\<lambda>m. ReadOnly (f m) (f m)) ms) = []" "writable (map (\<lambda>k. SetEnv (f k) (g k)) ms) = []"
  by (simp_all add: writable_def)

text \<open>What is read from a list of groups of words, one option each, in front of more.\<close>

lemma reads_ro_list:
  "bwrap_reads (concat (map (\<lambda>m. if P m then mount ''--ro-bind'' (f m) else []) ms) @ ws) =
     map_option (\<lambda>(os, rest). (map (\<lambda>m. ReadOnly (f m) (f m)) (filter P ms) @ os, rest)) (bwrap_reads ws)"
  by (induction ms) (auto simp: mount_def option.map_comp o_def option.map_ident split: prod.splits intro!: option.map_cong)

lemma reads_env_list:
  "bwrap_reads (concat (map (\<lambda>k. case m k of Some v \<Rightarrow> [''--setenv'', k, v] | None \<Rightarrow> []) ks) @ ws) =
     map_option (\<lambda>(os, rest). (map (\<lambda>k. SetEnv k (the (m k))) (filter (\<lambda>k. m k \<noteq> None) ks) @ os, rest)) (bwrap_reads ws)"
  by (induction ks) (auto simp: option.map_comp o_def option.map_ident split: option.split prod.splits intro!: option.map_cong)

section \<open>A host to try\<close>

text \<open>Every file exists, processes end as the world says, in order.\<close>

definition demo_host :: "bool \<Rightarrow> exit list host" where
  "demo_host jail =
     \<lparr>ho_exists = (\<lambda>p w. True), ho_is_file = (\<lambda>p w. True), ho_is_dir = (\<lambda>p w. True), ho_resolve = lexical_resolve,
      ho_absolute = (\<lambda>p. p), ho_links = (\<lambda>p w. []), ho_relink = (\<lambda>p q w. (Inr (), w)), ho_mkdir = (\<lambda>p w. (Inr (), w)),
      ho_read = (\<lambda>p w. Inl OSError), ho_write = (\<lambda>p t w. (Inr (), w)),
      ho_files = (\<lambda>p w. []), ho_lines = (\<lambda>p w. Inl OSError), ho_regex = (\<lambda>q. Inr (\<lambda>l. contains q l)), ho_setup = (\<lambda>a w. (Inr (), w)),
      ho_popen = (\<lambda>l to w. case w of [] \<Rightarrow> (Inl OSError, []) | x # xs \<Rightarrow> (Inr x, xs)), ho_bwrap = (\<lambda>w. jail),
      ho_environ = [(''PATH'', ''/usr/bin''), (''OPENAI_API_KEY'', ''k''), (''HTTP_PROXY'', ''p'')], ho_executable = ''/usr/bin/python'',
      ho_base = path_of ''/usr/bin/python'', ho_executor = ''auto'', ho_require = True, ho_policy = Balanced, ho_exn = (\<lambda>e. ''x'')\<rparr>"

definition demo_box :: box where
  "demo_box =
     \<lparr>sb_session = ''s'', sb_jail = path_of ''/s'', sb_workspace = path_of ''/w'', sb_venv = path_of ''/s/.venv'',
      sb_tmp = path_of ''/s/.tmp'', sb_home = path_of ''/s/.home'', sb_pip = path_of ''/s/.cache/pip'', sb_kind = ''managed'',
      sb_mode = ''read_write'', sb_strategy = ''harness'', sb_required = False, sb_project = False, sb_preflight = None\<rparr>"

definition demo_cell :: "box \<Rightarrow> exit list \<Rightarrow> exit list cell" where
  "demo_cell b w = \<lparr>cl_box = Some b, cl_backend = None, cl_root = sb_workspace b, cl_launches = [], cl_world = w\<rparr>"

abbreviation attached_box :: box where
  "attached_box \<equiv> demo_box\<lparr>sb_kind := ''external'', sb_required := True\<rparr>"

section \<open>Properties\<close>

text \<open>The command of a process is what it hands to the jail: the jail of this sandbox around \<open>inner\<close>.\<close>

definition confined :: "'w host \<Rightarrow> box \<Rightarrow> network \<Rightarrow> string list \<Rightarrow> launch \<Rightarrow> bool" where
  "confined h b net inner l \<longleftrightarrow>
     (\<exists>w spec. la_command l = Argv (bwrap_cmd h w inner spec) \<and> rs_jail spec = Some (sb_jail b) \<and>
        rs_mode spec = sb_mode b \<and> rs_network spec = net)"

lemma spec_confined: "spec_of b net profile cwd ov spec \<Longrightarrow> confined h b net inner (launched spec (Argv (bwrap_cmd h w inner spec)))"
  by (auto simp: confined_def spec_of_def launched_def)

text \<open>
  Property C14. The executor starts nothing that the policy has not admitted: every process started for a shell
  script is the set-up of a Python environment, or the script itself after the policy for its profile let
  it pass - in \<open>bash\<close> or inside the jail of the session.
\<close>

theorem shell_runs_admitted:
  assumes "cl_box s = Some b" and "run_shell h timeout net profile ov script s = (r, t)"
  shows "\<exists>new. cl_launches t = cl_launches s @ new \<and>
    (\<forall>l\<in>set new. is_setup l \<or> allowed (validate_shell_script script profile (ho_policy h)) \<and>
       (la_command l = Shell script \<or> confined h b net [''/bin/bash'', ''-c'', script] l))"
proof -
  let ?ok = "\<lambda>l. is_setup l \<or> allowed (validate_shell_script script profile (ho_policy h)) \<and>
       (la_command l = Shell script \<or> confined h b net [''/bin/bash'', ''-c'', script] l)"
  have "grows ?ok s t"
    using assms(2) unfolding run_shell_def
    by (intro governed_grows [OF assms(1), where ok = ?ok]) (auto simp: lenient_def spec_confined)
  then show ?thesis by (simp add: grows_def)
qed

lemma shell_runs_admitted_witness:
  "\<exists>r t l. run_shell (demo_host True) 30 NoNetwork ''worker'' [] ''ls'' (demo_cell demo_box [Finished 0 [] []]) = (r, t) \<and>
     cl_launches t = [l] \<and> (is_setup l \<or> la_command l = Shell ''ls'' \<or>
       confined (demo_host True) demo_box NoNetwork [''/bin/bash'', ''-c'', ''ls''] l)"
proof -
  let ?x = "run_shell (demo_host True) 30 NoNetwork ''worker'' [] ''ls'' (demo_cell demo_box [Finished 0 [] []])"
  have n: "length (cl_launches (snd ?x)) = 1" by code_simp
  obtain r t where x: "?x = (r, t)" by fastforce
  have b: "cl_box (demo_cell demo_box [Finished 0 [] []]) = Some demo_box" "cl_launches (demo_cell demo_box [Finished 0 [] []]) = []"
    by (simp_all add: demo_cell_def)
  from n x obtain l where l: "cl_launches t = [l]" by (auto simp: length_Suc_conv)
  from shell_runs_admitted [OF b(1) x] x l b(2) show ?thesis by auto
qed





text \<open>
  Property C17. The jail is what the harness means: read by the rules of bubblewrap, its argument vector makes
  writable the state of the session and, unless the workspace is attached read-only or is that state, the
  workspace, and nothing else; it cuts off the network unless the run was given one, and runs the command
  unchanged.
\<close>

theorem jail_reads_back:
  "\<exists>os. bwrap_reads (tl (bwrap_cmd h w inner spec)) = Some (os, inner) \<and>
     writable os = path_str (state_dir h spec) #
       (if ho_resolve h (rs_cwd spec) = state_dir h spec \<or> rs_mode spec = ''read_only'' then []
        else [path_str (ho_resolve h (rs_cwd spec))]) \<and>
     (Flag ''--unshare-net'' \<in> set os \<longleftrightarrow> rs_network spec = NoNetwork)"
  by (cases "python_prefix h spec"; cases "rs_network spec = NoNetwork")
     (auto simp: bwrap_cmd_def Let_def reads_ro_list reads_env_list mount_def)

text \<open>
  Unless its jail is required, a command leaves it by its own words: a command that fails inside the
  jail and writes \<open>bwrap:\<close> to its error stream is started a second time without the jail.
\<close>

lemma jail_left_on_message:
  assumes "ho_bwrap h (cl_world s)" and "\<not> rs_required spec" and "rc \<noteq> 0" and "contains ''bwrap:'' (py_strip err)"
    and "fst (ho_popen h (launched spec (Argv (bwrap_cmd h (cl_world s) inner spec))) timeout (cl_world s)) = Inr (Finished rc out err)"
  shows "prefix (cl_launches s @ [launched spec (Argv (bwrap_cmd h (cl_world s) inner spec)), launched spec plain])
    (cl_launches (snd (perform h Bwrap spec timeout inner plain s)))"
proof -
  let ?j = "launched spec (Argv (bwrap_cmd h (cl_world s) inner spec))"
  obtain w where p: "ho_popen h ?j timeout (cl_world s) = (Inr (Finished rc out err), w)" using assms(5) by (metis prod.collapse)
  let ?r = "collect_result timeout (rs_cwd spec) (Finished rc out err)"
  have f: "failed_run ?r" using assms(3,4) by (simp add: failed_run_def collect_result_def dget_def get_str_def)
  let ?t = "s\<lparr>cl_launches := cl_launches s @ [?j], cl_world := w\<rparr>"
  have one: "start h spec timeout (Argv (bwrap_cmd h (cl_world s) inner spec)) s = (Inr ?r, ?t)" by (simp add: start_eq p)
  let ?rest = "bindA (start h spec timeout plain) (\<lambda>r. returnA (AList.update ''executor_fallback'' (JStr ''native'') r))"
  have e: "perform h Bwrap spec timeout inner plain s = bindA ?rest (annotate_result h Bwrap spec) ?t"
    unfolding perform_def bind_seen using assms(1,2) f by (simp add: bindA_def [where s = s] seen_def getA_def one)
      (simp add: bindA_def)
  obtain r u where u: "start h spec timeout plain ?t = (r, u)" by fastforce
  then have l: "cl_launches u = cl_launches s @ [?j, launched spec plain]" by (auto simp: start_eq split: prod.split_asm)
  have "grows (\<lambda>l. True) u (snd (bindA ?rest (annotate_result h Bwrap spec) ?t))"
    using admits_annotate [of "\<lambda>l. True" h Bwrap spec] u
    by (cases r) (simp_all add: bindA_def returnA_def lenient_def grows.framed_def)
  then show ?thesis unfolding e grows_def using l by (auto simp: prefix_def)
qed

definition demo_spec :: run_spec where
  "demo_spec =
     \<lparr>rs_cwd = path_of ''/w'', rs_env = [], rs_timeout = 1, rs_network = NoNetwork, rs_profile = ''worker'',
      rs_jail = None, rs_mode = ''read_write'', rs_required = False\<rparr>"

end
