(* ===== verification/SystemOps.thy ===== *)
theory SystemOps
  imports SandboxLaws ValidationCompiler
begin

text \<open>
  \<open>src/tools/system_ops.py\<close> and \<open>src/tools/git_ops.py\<close>: tests, linter, packages, search, shell and git, each
  through the executor.
\<close>

section \<open>Tests and linter\<close>

definition attempt :: "('s, 'a) act \<Rightarrow> ('s, pyexn + 'a) act" where
  "attempt m = tryA (bindA m (\<lambda>x. returnA (Inr x))) (\<lambda>e. returnA (Inl e))"

definition value_text :: "'w host \<Rightarrow> pyexn \<Rightarrow> string" where
  "value_text h e = (case e of ValueError m \<Rightarrow> m | _ \<Rightarrow> ho_exn h e)"

definition session_python :: "'w host \<Rightarrow> ('w, string) job" where
  "session_python h =
     bindA (getA cl_box) (\<lambda>b. case b of None \<Rightarrow> returnA (ho_executable h) | Some _ \<Rightarrow> resolve_python h)"

text \<open>\<open>str(target.relative_to(get_workspace_root().resolve()))\<close>.\<close>

definition rel_text :: "'w host \<Rightarrow> ppath \<Rightarrow> ppath \<Rightarrow> string res" where
  "rel_text h root target =
     (case relative_to target (ho_resolve h root) of
        Some p \<Rightarrow> Inr (path_str p) | None \<Rightarrow> Inl (ValueError (path_str target)))"

definition exit_zero :: "obj \<Rightarrow> json" where
  "exit_zero r = JBool (dget r ''returncode'' JNull = JInt 0)"

definition rejected_target :: "'w host \<Rightarrow> string \<Rightarrow> pyexn \<Rightarrow> obj" where
  "rejected_target h key e =
     [(key, JBool False), (''returncode'', JInt (-1)), (''stdout'', JStr []), (''stderr'', JStr (value_text h e))]"

definition checked_target :: "'w host \<Rightarrow> string \<Rightarrow> string \<Rightarrow> int \<Rightarrow> (string \<Rightarrow> string list) \<Rightarrow> string \<Rightarrow> string \<Rightarrow> string \<Rightarrow> ('w, obj) job" where
  "checked_target h key path_key timeout cmd path extra target_path =
     bindA (getA cl_root) (\<lambda>root.
       case resolve_workspace_path (ho_resolve h) root target_path of
         Inl e \<Rightarrow> returnA (rejected_target h key e)
       | Inr target \<Rightarrow>
           bindA (liftA (rel_text h root target)) (\<lambda>rel.
           bindA (session_python h) (\<lambda>python.
           bindA (run_argv h timeout NoNetwork ''worker'' (Some root) True [] (python # cmd rel @ split_ws extra)) (\<lambda>r.
             returnA (AList.update path_key (JStr rel) (AList.update key (exit_zero r) r))))))"

definition run_pytest :: "'w host \<Rightarrow> string \<Rightarrow> string \<Rightarrow> ('w, obj) job" where
  "run_pytest h test_path extra_args =
     checked_target h ''passed'' ''test_path'' 120 (\<lambda>rel. [''-m'', ''pytest'', rel]) test_path extra_args test_path"

definition run_linter :: "'w host \<Rightarrow> string \<Rightarrow> string \<Rightarrow> string \<Rightarrow> ('w, obj) job" where
  "run_linter h target_path tool extra_args =
     checked_target h ''clean'' ''target_path'' 60
       (\<lambda>rel. if tool = ''black'' then [''-m'', ''black'', ''--check'', rel] else [''-m'', ''flake8'', rel])
       target_path extra_args target_path"

section \<open>Packages\<close>

definition no_package :: "string \<Rightarrow> obj" where
  "no_package why = [(''success'', JBool False), (''stdout'', JStr []), (''stderr'', JStr why)]"

definition base_name :: "string \<Rightarrow> string" where
  "base_name package = py_strip (takeWhile (\<lambda>c. c \<notin> set ''><=!'') package)"

text \<open>The interpreter to install into, the kind of its environment, and a note.\<close>

definition resolve_install_python :: "'w host \<Rightarrow> ('w, string \<times> string \<times> string) job" where
  "resolve_install_python h =
     boxed (\<lambda>b.
       let session = (\<lambda>note. bindA (ensure_venv h) (\<lambda>p. returnA (path_str p, ''session'', note)))
       in if sb_kind b = ''external'' then
            tryA (bindA (ensure_project_venv h True) (\<lambda>p. returnA (path_str p, ''project'', [])))
              (\<lambda>e. session (''project venv unavailable ('' @ ho_exn h e @ ''); fell back to session venv''))
          else session [])"

definition package_pip_show :: "'w host \<Rightarrow> string \<Rightarrow> string \<Rightarrow> ('w, bool) job" where
  "package_pip_show h python base =
     boxed (\<lambda>b.
       tryA (bindA (run_argv h 30 NoNetwork ''pip'' (Some (sb_workspace b)) False [] [python, ''-m'', ''pip'', ''show'', base])
              (\<lambda>r. returnA (truthy (dget r ''success'' (JBool False)))))
         (\<lambda>_. returnA False))"

definition py_rstrip :: "string \<Rightarrow> string" where
  "py_rstrip s = rev (dropWhile is_space (rev s))"

definition requirements_file :: "('w, ppath) job" where
  "requirements_file = getA (\<lambda>s. below (cl_root s) [''requirements.txt''])"

definition record_requirement :: "'w host \<Rightarrow> string \<Rightarrow> string \<Rightarrow> ('w, unit) job" where
  "record_requirement h base package =
     bindA requirements_file (\<lambda>req.
     bindA (seen (ho_exists h req)) (\<lambda>there.
       if there then
         bindA (seen (ho_read h req)) (\<lambda>t. bindA (liftA t) (\<lambda>existing.
           if contains base existing then returnA ()
           else on_host (ho_write h req (py_rstrip existing @ [nl] @ package @ [nl]))))
       else returnA ()))"

definition run_install :: "'w host \<Rightarrow> string \<Rightarrow> string \<Rightarrow> string \<Rightarrow> string \<Rightarrow> string \<Rightarrow> ('w, obj) job" where
  "run_install h package base python kind note =
     (let environment = (''environment'', JObj [(''kind'', JStr kind), (''python'', JStr python)])
      in bindA (package_pip_show h python base) (\<lambda>there.
         if there then
           returnA [(''success'', JBool True), (''stdout'', JStr (base @ '' already installed in '' @ kind @ '' environment'')),
             (''stderr'', JStr []), (''already_installed'', JBool True), environment]
         else
           bindA (boxed (\<lambda>b. run_argv h 180 PipEgress ''pip'' (Some (sb_workspace b)) True []
                    [python, ''-m'', ''pip'', ''install'', package, ''--quiet''])) (\<lambda>r.
           let r = AList.update (fst environment) (snd environment) (AList.update ''already_installed'' (JBool False) r);
               r = (if note \<noteq> [] then AList.update ''note'' (JStr note) r else r)
           in bindA (whenA (truthy (dget r ''success'' JNull) \<and> kind = ''session'') (record_requirement h base package)) (\<lambda>_.
                returnA r))))"

definition install_dependency :: "'w host \<Rightarrow> string \<Rightarrow> ('w, obj) job" where
  "install_dependency h package =
     bindA (getA cl_box) (\<lambda>ctx. case ctx of
         None \<Rightarrow> returnA (no_package ''No active sandbox context'')
       | Some b \<Rightarrow>
           if sb_mode b = ''read_only'' then returnA (no_package ''Cannot install dependencies for a read-only workspace'')
           else if base_name package = [] then returnA (no_package (''Invalid package name: '' @ repr_str package))
           else
             bindA (attempt (resolve_install_python h)) (\<lambda>r. case r of
                 Inl e \<Rightarrow> returnA (no_package (''venv creation failed: '' @ ho_exn h e))
               | Inr (python, kind, note) \<Rightarrow> run_install h package (base_name package) python kind note))"

definition keeps_line :: "string \<Rightarrow> string \<Rightarrow> bool" where
  "keeps_line base line =
     (let clean = py_strip line
      in clean = [] \<or> starts_with ''#'' clean \<or> base_name clean \<noteq> base)"

definition forget_requirement :: "'w host \<Rightarrow> string \<Rightarrow> ('w, unit) job" where
  "forget_requirement h package =
     bindA requirements_file (\<lambda>req.
     bindA (seen (ho_exists h req)) (\<lambda>there.
       if there then
         bindA (seen (ho_read h req)) (\<lambda>t. bindA (liftA t) (\<lambda>existing.
           on_host (ho_write h req (py_rstrip (py_join [nl] (filter (keeps_line (base_name package)) (line_list existing))) @ [nl]))))
       else returnA ()))"

definition uninstall_dependency :: "'w host \<Rightarrow> string \<Rightarrow> ('w, obj) job" where
  "uninstall_dependency h package =
     bindA (getA cl_box) (\<lambda>ctx. case ctx of
         None \<Rightarrow> returnA (no_package ''No active sandbox context'')
       | Some b \<Rightarrow>
           if sb_mode b = ''read_only'' then returnA (no_package ''Cannot uninstall dependencies for a read-only workspace'')
           else
             bindA (seen (ho_exists h (venv_python b))) (\<lambda>there.
               if \<not> there then returnA (no_package ''Session venv not initialized'')
               else
                 bindA (run_argv h 180 PipEgress ''pip'' (Some (sb_workspace b)) True []
                     [path_str (venv_python b), ''-m'', ''pip'', ''uninstall'', package, ''-y'', ''--quiet'']) (\<lambda>r.
                 bindA (whenA (truthy (dget r ''success'' JNull)) (forget_requirement h package)) (\<lambda>_. returnA r))))"

section \<open>Search\<close>

definition no_search :: "string \<Rightarrow> obj" where
  "no_search why =
     [(''success'', JBool False), (''matches'', JList []), (''match_count'', JInt 0), (''error'', JStr why)]"

definition found_all :: "ppath \<Rightarrow> obj list \<Rightarrow> obj" where
  "found_all root matches =
     [(''success'', JBool True), (''matches'', JList (map JObj matches)), (''match_count'', JInt (int (length matches))),
      (''cwd'', JStr (path_str root))]"

definition match_of :: "string \<Rightarrow> string \<Rightarrow> string \<Rightarrow> obj" where
  "match_of file no text = [(''file'', JStr file), (''line_no'', JStr no), (''text'', JStr text)]"

definition split_once :: "char \<Rightarrow> string \<Rightarrow> string \<times> string option" where
  "split_once c s =
     (case dropWhile (\<lambda>x. x \<noteq> c) s of [] \<Rightarrow> (s, None) | _ # rest \<Rightarrow> (takeWhile (\<lambda>x. x \<noteq> c) s, Some rest))"

text \<open>One line of ripgrep, \<open>line.split(":", 2)\<close>.\<close>

definition rg_match :: "'w host \<Rightarrow> ppath \<Rightarrow> string \<Rightarrow> obj list" where
  "rg_match h root line =
     (case split_once (CHR '':'') line of
        (f, None) \<Rightarrow> []
      | (f, Some rest) \<Rightarrow>
          let file = path_join root (path_of f)
          in if is_sensitive_path file then []
             else (case split_once (CHR '':'') rest of
                 (no, None) \<Rightarrow> [match_of f no []]
               | (no, Some text) \<Rightarrow>
                   [match_of (case relative_to (ho_resolve h file) root of Some p \<Rightarrow> path_str p | None \<Rightarrow> f) no text]))"

text \<open>The lines of one file; an exception skips what is left of it.\<close>

definition file_matches :: "'w host \<Rightarrow> 'w \<Rightarrow> ppath \<Rightarrow> (string \<Rightarrow> bool) \<Rightarrow> ppath \<Rightarrow> obj list" where
  "file_matches h w root hit p =
     (if \<not> ho_is_file h p w \<or> is_sensitive_path p then []
      else case ho_lines h p w of
          Inl _ \<Rightarrow> []
        | Inr ls \<Rightarrow>
            (case relative_to (ho_resolve h p) root of
               None \<Rightarrow> []
             | Some rel \<Rightarrow>
                 concat (map (\<lambda>(i, l). if hit l then [match_of (path_str rel) (int_str (int i)) l] else [])
                   (zip [1..<length ls + 1] ls))))"

definition scan_files :: "'w host \<Rightarrow> ppath \<Rightarrow> ppath \<Rightarrow> nat \<Rightarrow> string \<Rightarrow> ('w, obj) job" where
  "scan_files h root target limit query =
     (case ho_regex h query of
        Inl e \<Rightarrow> returnA (no_search (''Invalid regex: '' @ e))
      | Inr hit \<Rightarrow>
          bindA (seen (\<lambda>w. concat (map (file_matches h w root hit) (ho_files h target w)))) (\<lambda>ms.
            returnA (found_all root (take limit ms))))"

definition search_grep :: "'w host \<Rightarrow> string \<Rightarrow> string \<Rightarrow> int \<Rightarrow> ('w, obj) job" where
  "search_grep h query target_dir max_results =
     bindA (getA cl_root) (\<lambda>ws.
       case resolve_workspace_path (ho_resolve h) ws (if target_dir \<noteq> [] then target_dir else ''.'') of
         Inl e \<Rightarrow> returnA (no_search (value_text h e))
       | Inr target \<Rightarrow>
           if is_sensitive_path target then returnA (no_search ''SENSITIVE FILE DENIED: this path is not agent-accessible.'')
           else
             bindA (seen (ho_exists h target)) (\<lambda>there.
               if \<not> there then returnA (no_search (''Directory not found: '' @ normalize_workspace_path target_dir))
               else
                 let limit = nat (min 500 (max 1 max_results)); root = ho_resolve h ws
                 in bindA (liftA (rel_text h ws target)) (\<lambda>rel.
                    bindA (run_argv h 30 NoNetwork ''worker'' (Some root) True []
                        [''rg'', ''--line-number'', ''--no-heading'', ''--max-count'', int_str (int limit), query, rel]) (\<lambda>r.
                      if dget r ''returncode'' JNull \<in> {JInt 0, JInt 1} then
                        returnA (found_all root (take limit (concat (map (rg_match h root) (line_list (get_str r ''stdout'' []))))))
                      else scan_files h root target limit query))))"

section \<open>Shell\<close>

text \<open>The profile under which a script runs, and the script the policy sees.\<close>

definition shell_profile :: "box option \<Rightarrow> string \<Rightarrow> string" where
  "shell_profile ctx profile =
     (case ctx of
        Some b \<Rightarrow> if sb_mode b = ''read_only'' \<and> profile = ''worker'' then ''review'' else profile
      | None \<Rightarrow> profile)"

definition run_shellscript :: "'w host \<Rightarrow> string \<Rightarrow> int \<Rightarrow> string \<Rightarrow> ('w, obj) job" where
  "run_shellscript h script timeout profile =
     bindA (getA cl_box) (\<lambda>ctx.
     bindA (case ctx of
              None \<Rightarrow> returnA (normalize_shell_command script)
            | Some _ \<Rightarrow> bindA (resolve_python h) (\<lambda>python.
                returnA (canonicalize_shell_script (Some python) (normalize_shell_command script)))) (\<lambda>script.
       run_shell h timeout NoNetwork (shell_profile ctx profile) [] script))"

section \<open>Git\<close>

text \<open>The root of the active repository; \<open>repo\<close> is the harness' own, used without a sandbox.\<close>

definition git_root :: "'w host \<Rightarrow> ppath \<Rightarrow> ('w, ppath) job" where
  "git_root h repo =
     bindA (getA cl_box) (\<lambda>ctx. case ctx of
         None \<Rightarrow> returnA repo
       | Some b \<Rightarrow>
           bindA (seen (ho_exists h (below (sb_jail b) [''.git'']))) (\<lambda>legacy.
             returnA (if sb_kind b = ''managed'' \<and> legacy then sb_jail b else sb_workspace b)))"

definition git :: "'w host \<Rightarrow> ppath \<Rightarrow> string list \<Rightarrow> ('w, obj) job" where
  "git h root args = run_argv h 30 NoNetwork ''worker'' (Some root) False [] (''git'' # args)"

abbreviation git_ok :: "obj \<Rightarrow> bool" where
  "git_ok r \<equiv> truthy (dget r ''success'' JNull)"

definition git_failed :: "string \<Rightarrow> obj \<Rightarrow> obj" where
  "git_failed what r =
     [(''success'', JBool False), (''error'', JStr (what @ '' failed: '' @ get_str r ''stderr'' []))]"

definition ensure_git_repo :: "'w host \<Rightarrow> ppath \<Rightarrow> ('w, obj option) job" where
  "ensure_git_repo h root =
     bindA (seen (ho_exists h (below root [''.git'']))) (\<lambda>there.
       if there then returnA None
       else bindA (git h root [''init'']) (\<lambda>r.
         if \<not> git_ok r then returnA (Some (git_failed ''git init'' r))
         else bindA (git h root [''config'', ''user.email'', ''agent@missions.local'']) (\<lambda>_.
              bindA (git h root [''config'', ''user.name'', ''Missions Agent'']) (\<lambda>_. returnA None))))"

definition record_commit :: "'w host \<Rightarrow> ppath \<Rightarrow> string \<Rightarrow> ('w, obj) job" where
  "record_commit h root message =
     bindA (git h root [''status'', ''--porcelain'']) (\<lambda>status.
       if get_str status ''stdout'' [] = [] then
         returnA [(''success'', JBool True), (''commit_hash'', JStr ''none''),
           (''message'', JStr ''Nothing to commit -- workspace already clean.'')]
       else
         bindA (git h root [''commit'', ''-m'', message]) (\<lambda>commit.
           if \<not> git_ok commit then returnA (git_failed ''git commit'' commit)
           else
             bindA (git h root [''rev-parse'', ''--short'', ''HEAD'']) (\<lambda>rev.
               let hash = (if git_ok rev then get_str rev ''stdout'' [] else ''unknown'')
               in returnA [(''success'', JBool True), (''commit_hash'', JStr hash),
                    (''message'', JStr (''Committed ['' @ hash @ '']: '' @ message))])))"

definition git_commit :: "'w host \<Rightarrow> ppath \<Rightarrow> string \<Rightarrow> ('w, obj) job" where
  "git_commit h repo message =
     bindA (getA cl_box) (\<lambda>ctx.
       if (case ctx of Some b \<Rightarrow> sb_kind b = ''external'' | None \<Rightarrow> False) then
         returnA [(''success'', JBool True), (''commit_hash'', JStr ''not-committed''),
           (''message'', JStr ''External workspace changes were not auto-committed.''), (''skipped'', JBool True)]
       else if (case ctx of Some b \<Rightarrow> sb_mode b = ''read_only'' | None \<Rightarrow> False) then
         returnA [(''success'', JBool False), (''commit_hash'', JStr []), (''error'', JStr ''Cannot commit a read-only workspace.'')]
       else
         bindA (git_root h repo) (\<lambda>root.
         bindA (ensure_git_repo h root) (\<lambda>err. case err of
             Some e \<Rightarrow> returnA e
           | None \<Rightarrow>
               bindA (git h root [''add'', if (case ctx of Some b \<Rightarrow> root = sb_jail b | None \<Rightarrow> False) then ''workspace/'' else ''.''])
                 (\<lambda>stage.
                   if \<not> git_ok stage \<and> \<not> contains ''pathspec'' (get_str stage ''stderr'' [])
                   then returnA (git_failed ''git add'' stage)
                   else record_commit h root message))))"

text \<open>Sections of a diff about secret files are left out.\<close>

definition strip_quotes :: "string \<Rightarrow> string" where
  "strip_quotes s = rev (dropWhile (\<lambda>c. c = dquote) (rev (dropWhile (\<lambda>c. c = dquote) s)))"

definition without_prefix :: "string \<Rightarrow> string \<Rightarrow> string" where
  "without_prefix p s = (if starts_with p s then drop (length p) s else s)"

fun cut_at :: "string \<Rightarrow> string \<Rightarrow> (string \<times> string) option" where
  "cut_at p [] = (if p = [] then Some ([], []) else None)"
| "cut_at p (c # cs) =
     (if starts_with p (c # cs) then Some ([], drop (length p) (c # cs))
      else map_option (\<lambda>(a, b). (c # a, b)) (cut_at p cs))"

definition is_header :: "string \<Rightarrow> bool" where
  "is_header line = starts_with ''diff --git '' line"

definition header_sensitive :: "string \<Rightarrow> bool" where
  "header_sensitive line =
     (let header = py_strip (drop (length ''diff --git '') line);
          (left, right) = (case cut_at '' b/'' header of Some (a, b) \<Rightarrow> (a, strip_quotes b) | None \<Rightarrow> (header, []))
      in is_sensitive_path (path_of (strip_quotes (without_prefix ''a/'' left))) \<or> is_sensitive_path (path_of right))"

definition marker_sensitive :: "string \<Rightarrow> bool" where
  "marker_sensitive line =
     ((starts_with ''--- '' line \<or> starts_with ''+++ '' line) \<and>
      (let p = without_prefix ''b/'' (without_prefix ''a/'' (strip_quotes (py_strip (drop 4 line))))
       in p \<noteq> ''/dev/null'' \<and> is_sensitive_path (path_of p)))"

record diff_scan =
  ds_sections :: "string list"
  ds_current :: "string list"
  ds_secret :: bool

definition flush :: "diff_scan \<Rightarrow> string list" where
  "flush d = (if ds_current d \<noteq> [] \<and> \<not> ds_secret d then ds_sections d @ ds_current d else ds_sections d)"

definition scan_line :: "diff_scan \<Rightarrow> string \<Rightarrow> diff_scan" where
  "scan_line d line =
     (if is_header line then \<lparr>ds_sections = flush d, ds_current = [line], ds_secret = header_sensitive line\<rparr>
      else d\<lparr>ds_current := ds_current d @ [line], ds_secret := ds_secret d \<or> marker_sensitive line\<rparr>)"

definition filter_sensitive_diff :: "string \<Rightarrow> string" where
  "filter_sensitive_diff text =
     concat (flush (foldl scan_line \<lparr>ds_sections = [], ds_current = [], ds_secret = False\<rparr> (split_lines text)))"

definition git_diff :: "'w host \<Rightarrow> ppath \<Rightarrow> ('w, obj) job" where
  "git_diff h repo =
     bindA (git_root h repo) (\<lambda>root.
     bindA (seen (ho_exists h (below root [''.git'']))) (\<lambda>there.
       if \<not> there then
         returnA [(''success'', JBool True), (''diff'', JStr ''(no git repository -- workspace is untracked)''),
           (''has_changes'', JBool False)]
       else
         bindA (git h root [''diff'', ''HEAD'']) (\<lambda>r.
         bindA (if \<not> git_ok r \<and> get_str r ''stderr'' [] \<noteq> [] then git h root [''diff'', ''--cached''] else returnA r) (\<lambda>r.
         bindA (getA cl_box) (\<lambda>ctx.
           let kept = filter_sensitive_diff (get_str r ''stdout'' []);
               diff = (if kept \<noteq> [] then kept else ''(no changes)'');
               preflight = (case ctx of Some b \<Rightarrow> (case sb_preflight b of Some d \<Rightarrow> d | None \<Rightarrow> []) | None \<Rightarrow> [])
           in returnA
                [(''success'', JBool True), (''diff'', JStr diff),
                 (''has_changes'', JBool (py_strip diff \<noteq> [] \<and> diff \<noteq> ''(no changes)'')),
                 (''preexisting_changes'', JObj preflight),
                 (''note'', JStr (if preflight \<noteq> []
                    then ''Diff may include user changes that existed before this run; compare '' @
                         ''against preexisting_changes and worker-reported files.''
                    else []))])))))"

definition view_git_log :: "'w host \<Rightarrow> ppath \<Rightarrow> int \<Rightarrow> ('w, obj) job" where
  "view_git_log h repo limit =
     bindA (git_root h repo) (\<lambda>root.
     bindA (seen (ho_exists h (below root [''.git'']))) (\<lambda>there.
       if \<not> there then
         returnA [(''success'', JBool True), (''log'', JStr ''(no git repository)''), (''count'', JInt 0)]
       else
         bindA (git h root [''log'', ''--max-count='' @ int_str limit, ''--pretty=format:%h  %ad  %s'', ''--date=short'']) (\<lambda>r.
           if \<not> git_ok r then returnA [(''success'', JBool False), (''error'', JStr (get_str r ''stderr'' []))]
           else
             let out = get_str r ''stdout'' []
             in returnA
                  [(''success'', JBool True), (''log'', JStr (if out \<noteq> [] then out else ''(no commits yet)'')),
                   (''count'', JInt (int (length (filter (\<lambda>l. py_strip l \<noteq> []) (line_list out)))))])))"

end
