(* ===== verification/SystemLaws.thy ===== *)
theory SystemLaws
  imports SystemOps
begin

text \<open>
  What the tools around the executor keep: read-only workspaces, the sections of a diff, and the gaps of the
  checks.
\<close>

section \<open>Diffs by sections\<close>

text \<open>A diff cut before each of its headers; lines before the first header are a section of their own.\<close>

function diff_sections :: "string list \<Rightarrow> string list list" where
  "diff_sections [] = []"
| "diff_sections (l # ls) =
     (l # takeWhile (\<lambda>x. \<not> is_header x) ls) # diff_sections (dropWhile (\<lambda>x. \<not> is_header x) ls)"
  by pat_completeness auto
termination by (relation "measure length") (auto simp: le_imp_less_Suc length_dropWhile_le)

definition secret_section :: "string list \<Rightarrow> bool" where
  "secret_section ls =
     (case ls of [] \<Rightarrow> False
      | l # ls \<Rightarrow> (if is_header l then header_sensitive l else marker_sensitive l) \<or> (\<exists>x\<in>set ls. marker_sensitive x))"

lemma scan_sections:
  assumes "ds_current d \<noteq> []"
  shows "flush (foldl scan_line d ls) =
    ds_sections d @
    (if ds_secret d \<or> (\<exists>x\<in>set (takeWhile (\<lambda>x. \<not> is_header x) ls). marker_sensitive x) then []
     else ds_current d @ takeWhile (\<lambda>x. \<not> is_header x) ls) @
    concat (filter (\<lambda>x. \<not> secret_section x) (diff_sections (dropWhile (\<lambda>x. \<not> is_header x) ls)))"
  using assms
proof (induction ls arbitrary: d)
  case Nil
  then show ?case by (simp add: flush_def)
next
  case (Cons l ls)
  show ?case
  proof (cases "is_header l")
    case True
    let ?d = "\<lparr>ds_sections = flush d, ds_current = [l], ds_secret = header_sensitive l\<rparr>"
    have "foldl scan_line d (l # ls) = foldl scan_line ?d ls" using True by (simp add: scan_line_def)
    then show ?thesis using Cons.IH [of ?d] True Cons.prems
      by (simp add: secret_section_def) (simp add: flush_def)
  next
    case False
    let ?d = "d\<lparr>ds_current := ds_current d @ [l], ds_secret := ds_secret d \<or> marker_sensitive l\<rparr>"
    have "foldl scan_line d (l # ls) = foldl scan_line ?d ls" using False by (simp add: scan_line_def)
    then show ?thesis using Cons.IH [of ?d] False by auto
  qed
qed

section \<open>Properties\<close>

text \<open>
  Property C18. The filter of diffs is the one it claims to be: it leaves out exactly the sections whose header or
  file markers name a secret-bearing path, and keeps all others as they are and in their order.
\<close>

theorem diff_filter_exact:
  "filter_sensitive_diff text = concat (concat (filter (\<lambda>x. \<not> secret_section x) (diff_sections (split_lines text))))"
proof (cases "split_lines text")
  case Nil
  then show ?thesis by (simp add: filter_sensitive_diff_def flush_def)
next
  case (Cons l ls)
  let ?d = "scan_line \<lparr>ds_sections = [], ds_current = [], ds_secret = False\<rparr> l"
  have c: "ds_current ?d = [l]" "ds_sections ?d = []" "ds_secret ?d = (if is_header l then header_sensitive l else marker_sensitive l)"
    by (auto simp: scan_line_def flush_def)
  show ?thesis using scan_sections [of ?d ls] c Cons
    by (auto simp: filter_sensitive_diff_def secret_section_def)
qed

text \<open>
  Package and commit tools leave a read-only workspace alone: they answer with a failure - or, where
  the workspace is attached, without a commit - start no process and write no file.
\<close>

lemma read_only_untouched:
  assumes "cl_box s = Some b" and "sb_mode b = ''read_only''"
    and "m = install_dependency h package \<or> m = uninstall_dependency h package \<or> m = git_commit h repo message"
    and "m s = (r, t)"
  shows "t = s \<and> (\<exists>d. r = Inr d \<and> (dget d ''success'' JNull = JBool False \<or> dget d ''skipped'' JNull = JBool True))"
  using assms
  by (auto simp: install_dependency_def uninstall_dependency_def git_commit_def bindA_def getA_def returnA_def no_package_def
      dget_def split: if_split_asm)

text \<open>
  A shell call of the worker in a read-only workspace runs under the review policy: whatever it starts
  besides the set-up of a Python environment is a script that policy admits.
\<close>

lemma read_only_shell_reviewed:
  assumes "cl_box s = Some b" and "sb_mode b = ''read_only''"
    and "run_shellscript h script timeout ''worker'' s = (r, t)"
  shows "\<exists>new. cl_launches t = cl_launches s @ new \<and>
    (\<forall>l\<in>set new. is_setup l \<or> (\<exists>script'. allowed (validate_shell_script script' ''review'' (ho_policy h)) \<and>
       (la_command l = Shell script' \<or> confined h b NoNetwork [''/bin/bash'', ''-c'', script'] l)))"
proof -
  let ?ok = "\<lambda>l. is_setup l \<or> (\<exists>script'. allowed (validate_shell_script script' ''review'' (ho_policy h)) \<and>
       (la_command l = Shell script' \<or> confined h b NoNetwork [''/bin/bash'', ''-c'', script'] l))"
  have p: "shell_profile (cl_box s) ''worker'' = ''review''" using assms(1,2) by (simp add: shell_profile_def)
  obtain pr u where u: "resolve_python h s = (pr, u)" by fastforce
  have su: "grows ?ok s u" by (rule grows.framedD [OF admits_resolve_python u]) (simp add: lenient_def)
  show ?thesis
  proof (cases pr)
    case (Inl e)
    then have "t = u" using assms(3) u assms(1) by (simp add: run_shellscript_def bindA_def getA_def)
    then show ?thesis using su by (simp add: grows_def)
  next
    case (Inr python)
    let ?script = "canonicalize_shell_script (Some python) (normalize_shell_command script)"
    have run: "run_shell h timeout NoNetwork ''review'' [] ?script u = (r, t)"
      using assms(3) u assms(1) Inr p by (simp add: run_shellscript_def bindA_def getA_def returnA_def)
    obtain c where c: "cl_box u = Some c" "sb_jail c = sb_jail b" "sb_mode c = sb_mode b"
      using su fixed_eq [of "cl_box u" b] assms(1) by (auto simp: grows_def)
    have conf: "confined h c NoNetwork inner l = confined h b NoNetwork inner l" for inner l
      using c by (simp add: confined_def)
    from shell_runs_admitted [OF c(1) run] obtain new where "cl_launches t = cl_launches u @ new"
      "\<forall>l\<in>set new. ?ok l" unfolding conf by blast
    moreover obtain old where "cl_launches u = cl_launches s @ old" "\<forall>l\<in>set old. ?ok l"
      using su unfolding grows_def by blast
    ultimately show ?thesis by (intro exI [of _ "old @ new"]) auto
  qed
qed

section \<open>Gaps\<close>

text \<open>
  The review policy replaces the profile \<open>worker\<close> alone. A profile of another name, which a model is free to
  give, stays, and an unknown one has the commands of a worker: files are removed in a read-only workspace.
\<close>

lemma other_profile_writes:
  "map la_command (cl_launches (snd (run_shellscript (demo_host False) ''rm x'' 30 ''any''
     (demo_cell (demo_box\<lparr>sb_mode := ''read_only''\<rparr>) [Finished 0 [] []])))) = [Shell ''rm x'']"
  by code_simp

text \<open>Without ripgrep the search raises; the scan in Python is for exit codes other than 0 and 1.\<close>

lemma search_needs_ripgrep: "fst (search_grep (demo_host False) ''x'' ''.'' 5 (demo_cell demo_box [])) = Inl OSError"
  by code_simp

text \<open>
  An attached project whose environment cannot be made falls back to the environment of the session, and its own
  \<open>requirements.txt\<close> is then extended; removing a package rewrites that file in any case. The host notes
  what is written.
\<close>

definition noting_host :: "exit list host" where
  "noting_host = (demo_host False)\<lparr>ho_is_file := (\<lambda>p w. False), ho_setup := (\<lambda>a w. (Inl OSError, w)),
     ho_read := (\<lambda>p w. Inr ''a''), ho_write := (\<lambda>p t w. (Inr (), Finished 0 (path_str p) t # w))\<rparr>"

lemma attached_requirements_written:
  "cl_world (snd (install_dependency noting_host ''x'' (demo_cell (demo_box\<lparr>sb_kind := ''external''\<rparr>) [Finished 1 [] [], Finished 0 [] []]))) =
     [Finished 0 ''/w/requirements.txt'' (''a'' @ [nl] @ ''x'' @ [nl])]"
  "cl_world (snd (uninstall_dependency noting_host ''a'' (demo_cell (demo_box\<lparr>sb_kind := ''external''\<rparr>) [Finished 0 [] []]))) =
     [Finished 0 ''/w/requirements.txt'' [nl]]"
  by code_simp+

text \<open>A requirement whose name is part of another counts as recorded.\<close>

lemma requirement_by_substring:
  "cl_world (snd (install_dependency (noting_host\<lparr>ho_read := (\<lambda>p w. Inr ''httpx'')\<rparr>) ''http'' (demo_cell demo_box [Finished 1 [] [], Finished 0 [] []]))) = []"
  by code_simp

text \<open>The interpreter names that are re-pointed into the jail lack the minor versions in use.\<close>

lemma versioned_links_kept: "''python7'' \<in> set interpreter_names \<and> ''python3.11'' \<notin> set interpreter_names"
  by code_simp

end
