(* ===== verification/Servers.thy ===== *)
theory Servers
  imports SandboxLaws
begin

text \<open>
  \<open>src/sandbox/process_manager.py\<close> and \<open>serve_app\<close> of \<open>src/tools/ui.py\<close>: the development servers of a
  session. The registry of the module and, beside it, all processes ever started for servers are in a
  record \<open>rack\<close> around the state of the sandbox; what the operating system does with processes is a record
  \<open>procs\<close>.
\<close>

section \<open>The registry\<close>

record server =
  sv_pid :: nat
  sv_port :: int
  sv_log :: ppath
  sv_started :: int

record 'w rack =
  rk_cell :: "'w cell"
  rk_servers :: "(string \<times> server) list"
  rk_next :: nat
  rk_pids :: "nat list"

text \<open>
  \<open>pr_term\<close> is SIGTERM and the wait of three seconds, true when the process has ended; \<open>pr_probe\<close> gives the
  answers of the requests made before the deadline, a status or none for an exception; \<open>pr_id\<close> numbers
  the identifiers of \<open>uuid4\<close>.
\<close>

record 'w procs =
  pr_spawn :: "launch \<Rightarrow> 'w \<Rightarrow> nat res \<times> 'w"
  pr_alive :: "nat \<Rightarrow> 'w \<Rightarrow> bool"
  pr_term :: "nat \<Rightarrow> 'w \<Rightarrow> bool \<times> 'w"
  pr_kill :: "nat \<Rightarrow> 'w \<Rightarrow> 'w"
  pr_probe :: "string \<Rightarrow> int \<Rightarrow> 'w \<Rightarrow> int option list \<times> 'w"
  pr_open :: "ppath \<Rightarrow> 'w \<Rightarrow> unit res \<times> 'w"
  pr_log :: "ppath \<Rightarrow> 'w \<Rightarrow> string option"
  pr_id :: "nat \<Rightarrow> string"
  pr_now :: "'w \<Rightarrow> int"
  pr_float :: "int \<Rightarrow> string"

type_synonym ('w, 'a) duty = "('w rack, 'a) act"

definition in_cell :: "('w, 'a) job \<Rightarrow> ('w, 'a) duty" where
  "in_cell m s = (case m (rk_cell s) of (r, c) \<Rightarrow> (r, s\<lparr>rk_cell := c\<rparr>))"

definition of_world :: "('w \<Rightarrow> 'a) \<Rightarrow> ('w, 'a) duty" where
  "of_world f = getA (\<lambda>s. f (cl_world (rk_cell s)))"

definition doing :: "('w \<Rightarrow> 'a \<times> 'w) \<Rightarrow> ('w, 'a) duty" where
  "doing f = in_cell (on_host (\<lambda>w. case f w of (x, w') \<Rightarrow> (Inr x, w')))"

definition allowed_port_list :: "int list" where
  "allowed_port_list = [9000..9049]"

definition max_servers :: nat where "max_servers = 4"

definition ports_json :: json where
  "ports_json = JList (map JInt allowed_port_list)"

definition format_allowed_ports_block :: "int list \<Rightarrow> string" where
  \<open>format_allowed_ports_block ports =
     (if ports = [] then ''## Session server ports'' @ [nl] @ ''No ports are configured for harness-managed servers.''
      else
        let listing = (if length ports \<le> 12 then py_join '', '' (map int_str ports)
              else int_str (hd ports) @ ''-'' @ int_str (last ports) @ '' ('' @ int_str (int (length ports)) @ '' ports)'')
        in ''## Session server ports'' @ [nl] @
           ''The harness may start test servers only on: **'' @ listing @ ''**.'' @ [nl] @
           ''Admin and infrastructure services on other ports are not reachable or stoppable by `serve_app`.'' @ [nl] @
           ''Use `serve_app` with `action: "list"` to inspect harness-managed servers before stopping stale ones.'')\<close>

definition prune_dead_servers :: "'w procs \<Rightarrow> ('w, unit) duty" where
  "prune_dead_servers pr =
     updA (\<lambda>s. s\<lparr>rk_servers := filter (\<lambda>(i, v). pr_alive pr (sv_pid v) (cl_world (rk_cell s))) (rk_servers s)\<rparr>)"

definition read_log :: "'w procs \<Rightarrow> ppath \<Rightarrow> nat \<Rightarrow> 'w \<Rightarrow> string" where
  "read_log pr p limit w = (case pr_log pr p w of Some t \<Rightarrow> last_n limit t | None \<Rightarrow> [])"

definition server_entry :: "'w procs \<Rightarrow> bool \<Rightarrow> 'w \<Rightarrow> string \<times> server \<Rightarrow> json" where
  "server_entry pr logs w x =
     (case x of (i, v) \<Rightarrow> JObj
        ([(''server_id'', JStr i), (''port'', JInt (sv_port v)), (''running'', JBool (pr_alive pr (sv_pid v) w)),
          (''started_at'', JFloat (pr_float pr (sv_started v)))] @
         (if logs then [(''logs_tail'', JStr (read_log pr (sv_log v) 3000 w))] else [])))"

definition active_servers :: "'w procs \<Rightarrow> bool \<Rightarrow> ('w, json) duty" where
  "active_servers pr logs =
     bindA (prune_dead_servers pr) (\<lambda>_.
       getA (\<lambda>s. JList (map (server_entry pr logs (cl_world (rk_cell s))) (sort_key (\<lambda>(i, v). sv_started v) (rk_servers s)))))"

definition kill_process :: "'w procs \<Rightarrow> nat \<Rightarrow> ('w, unit) duty" where
  "kill_process pr p =
     bindA (of_world (pr_alive pr p)) (\<lambda>alive.
       if \<not> alive then returnA ()
       else bindA (doing (pr_term pr p)) (\<lambda>gone. whenA (\<not> gone) (doing (\<lambda>w. ((), pr_kill pr p w)))))"

text \<open>\<open>urlopen\<close> raises for a status of 400 and more, which \<open>pr_probe\<close> answers with none.\<close>

definition ready :: "int option list \<Rightarrow> bool" where
  "ready answers \<longleftrightarrow> (\<exists>a\<in>set answers. case a of Some status \<Rightarrow> 200 \<le> status \<and> status < 500 | None \<Rightarrow> False)"

section \<open>Operations\<close>

definition server_failure :: "string \<Rightarrow> obj" where
  "server_failure why = [(''success'', JBool False), (''error'', JStr why)]"

definition unknown_server :: "string \<Rightarrow> obj" where
  "unknown_server i = server_failure (''Unknown server '' @ quoted i @ ''.'')"

definition forget :: "string \<Rightarrow> ('w, unit) duty" where
  "forget i = updA (\<lambda>s. s\<lparr>rk_servers := AList.delete i (rk_servers s)\<rparr>)"

text \<open>The server is registered as soon as its process runs, and forgotten again when it does not answer.\<close>

definition await_server :: "'w procs \<Rightarrow> string \<Rightarrow> ppath \<Rightarrow> int \<Rightarrow> string \<Rightarrow> int \<Rightarrow> nat \<Rightarrow> ('w, obj) duty" where
  "await_server pr i log port ready_url timeout p =
     bindA (updA (\<lambda>s. s\<lparr>rk_pids := rk_pids s @ [p], rk_servers := AList.update i
         \<lparr>sv_pid = p, sv_port = port, sv_log = log, sv_started = pr_now pr (cl_world (rk_cell s))\<rparr> (rk_servers s)\<rparr>)) (\<lambda>_.
     bindA (doing (pr_probe pr ready_url (max 1 (min timeout 120)))) (\<lambda>answers.
       if \<not> ready answers then
         bindA (kill_process pr p) (\<lambda>_. bindA (forget i) (\<lambda>_.
         bindA (of_world (read_log pr log 3000)) (\<lambda>tail.
           returnA (server_failure (''Server did not become ready at '' @ ready_url @ ''.'') @ [(''logs_tail'', JStr tail)]))))
       else
         bindA (of_world (read_log pr log 3000)) (\<lambda>tail.
           returnA [(''success'', JBool True), (''server_id'', JStr i), (''port'', JInt port), (''ready'', JBool True),
             (''logs_tail'', JStr tail), (''sandbox'', JStr ''session_jail''), (''allowed_ports'', ports_json)])))"

definition spawn_server :: "'w host \<Rightarrow> 'w procs \<Rightarrow> launch \<Rightarrow> ('w, obj + nat) duty" where
  "spawn_server h pr l =
     tryA (bindA (in_cell (on_host (pr_spawn pr l))) (\<lambda>p. returnA (Inr p)))
       (\<lambda>e. if e = OSError then returnA (Inl (server_failure (''Could not start server: '' @ ho_exn h e))) else raiseA e)"

definition fresh_server_id :: "'w procs \<Rightarrow> ('w, string) duty" where
  "fresh_server_id pr =
     bindA (getA (\<lambda>s. ''server-'' @ pr_id pr (rk_next s))) (\<lambda>i.
     bindA (updA (\<lambda>s. s\<lparr>rk_next := Suc (rk_next s)\<rparr>)) (\<lambda>_. returnA i))"

definition launch_server :: "'w host \<Rightarrow> 'w procs \<Rightarrow> box \<Rightarrow> string list \<Rightarrow> int \<Rightarrow> string \<Rightarrow> int \<Rightarrow> ('w, obj) duty" where
  "launch_server h pr b argv port ready_url timeout =
     (let dir = below (sb_jail b) [''artifacts'', ''ui'']
      in bindA (in_cell (on_host (ho_mkdir h dir))) (\<lambda>_.
         bindA (fresh_server_id pr) (\<lambda>i.
         let log = below dir [i @ ''.log'']
         in bindA (in_cell (on_host (pr_open pr log))) (\<lambda>_.
            bindA (in_cell (build_sandbox_env h True)) (\<lambda>env.
            bindA (spawn_server h pr \<lparr>la_command = Argv argv, la_cwd = sb_workspace b, la_env = env\<rparr>)
              (\<lambda>r. case r of Inl failure \<Rightarrow> returnA failure | Inr p \<Rightarrow> await_server pr i log port ready_url timeout p))))))"

definition start_server :: "'w host \<Rightarrow> 'w procs \<Rightarrow> string list \<Rightarrow> int \<Rightarrow> string \<Rightarrow> int \<Rightarrow> ('w, obj) duty" where
  "start_server h pr argv port ready_url timeout =
     bindA (getA (\<lambda>s. cl_box (rk_cell s))) (\<lambda>ctx. case ctx of
         None \<Rightarrow> returnA (server_failure ''No active sandbox context'')
       | Some b \<Rightarrow>
           bindA (of_world (ho_bwrap h)) (\<lambda>available.
             if sb_required b \<and> ho_require h \<and> \<not> available then
               returnA (server_failure (''Managed development servers are disabled for external '' @
                 ''workspaces when bubblewrap is required but unavailable.'') @ [(''sandbox_denied'', JBool True)])
             else
               bindA (prune_dead_servers pr) (\<lambda>_.
               bindA (getA (\<lambda>s. length (rk_servers s))) (\<lambda>n.
                 if n \<ge> max_servers then
                   bindA (active_servers pr False) (\<lambda>servers.
                     returnA (server_failure (''At most '' @ int_str (int max_servers) @ '' harness-managed servers may run per session.'') @
                       [(''servers'', servers), (''allowed_ports'', ports_json)]))
                 else if port \<notin> set allowed_port_list then
                   returnA (server_failure (''Port '' @ int_str port @ '' is not in the session port allowlist.'') @
                     [(''allowed_ports'', ports_json)])
                 else if \<not> starts_with ''http://127.0.0.1:'' ready_url then
                   returnA (server_failure ''Servers must expose an http://127.0.0.1 URL.'')
                 else
                   let verdict = validate_argv argv ''devserver''
                   in if \<not> allowed verdict then
                        returnA (server_failure (''Policy denied: '' @ reason verdict) @ [(''policy_denied'', JBool True)])
                      else launch_server h pr b argv port ready_url timeout))))"

definition list_servers :: "'w procs \<Rightarrow> bool \<Rightarrow> ('w, obj) duty" where
  "list_servers pr logs =
     bindA (active_servers pr logs) (\<lambda>servers.
       returnA [(''success'', JBool True), (''servers'', servers), (''allowed_ports'', ports_json),
         (''max_servers'', JInt (int max_servers))])"

definition server_status :: "'w procs \<Rightarrow> string \<Rightarrow> ('w, obj) duty" where
  "server_status pr i =
     getA (\<lambda>s. case map_of (rk_servers s) i of
         None \<Rightarrow> unknown_server i
       | Some v \<Rightarrow>
           let w = cl_world (rk_cell s)
           in [(''success'', JBool True), (''server_id'', JStr i), (''running'', JBool (pr_alive pr (sv_pid v) w)),
               (''port'', JInt (sv_port v)), (''logs_tail'', JStr (read_log pr (sv_log v) 3000 w)), (''allowed_ports'', ports_json)])"

definition stop_server :: "'w procs \<Rightarrow> string \<Rightarrow> ('w, obj) duty" where
  "stop_server pr i =
     bindA (getA (\<lambda>s. map_of (rk_servers s) i)) (\<lambda>v. case v of
         None \<Rightarrow> returnA (unknown_server i)
       | Some v \<Rightarrow>
           bindA (forget i) (\<lambda>_. bindA (kill_process pr (sv_pid v)) (\<lambda>_.
             returnA [(''success'', JBool True), (''server_id'', JStr i), (''stopped'', JBool True)])))"

definition server_logs :: "'w procs \<Rightarrow> string \<Rightarrow> ('w, obj) duty" where
  "server_logs pr i =
     getA (\<lambda>s. case map_of (rk_servers s) i of
         None \<Rightarrow> unknown_server i
       | Some v \<Rightarrow> [(''success'', JBool True), (''server_id'', JStr i),
           (''logs'', JStr (read_log pr (sv_log v) 3000 (cl_world (rk_cell s))))])"

definition stop_all_servers :: "'w procs \<Rightarrow> ('w, unit) duty" where
  "stop_all_servers pr =
     bindA (getA (\<lambda>s. map fst (rk_servers s))) (eachA (\<lambda>i. bindA (stop_server pr i) (\<lambda>_. returnA ())))"

definition deactivate_sandbox :: "'w procs \<Rightarrow> ('w, unit) duty" where
  "deactivate_sandbox pr =
     bindA (stop_all_servers pr) (\<lambda>_. in_cell (updA (\<lambda>c. c\<lparr>cl_box := None\<rparr>)))"

section \<open>Starting an application\<close>

record serve_args =
  sa_action :: string
  sa_kind :: string
  sa_port :: int
  sa_app :: string
  sa_entry :: string
  sa_module :: string
  sa_command :: "string list option"
  sa_server :: string
  sa_url :: string
  sa_timeout :: int

definition app_of :: "serve_args \<Rightarrow> string" where
  "app_of a = normalize_workspace_path (if sa_entry a \<noteq> [] \<and> sa_app a = ''app.py'' then sa_entry a else sa_app a)"

definition serve_kind :: "'w host \<Rightarrow> serve_args \<Rightarrow> ppath \<Rightarrow> 'w \<Rightarrow> string" where
  "serve_kind h a root w =
     (let selected = py_strip (py_lower (sa_kind a))
      in if selected \<noteq> ''auto'' then selected
         else if ho_exists h (below root [''package.json'']) w then ''vite''
         else if ho_exists h (path_join root (path_of (app_of a))) w then ''streamlit'' else ''generic'')"

definition serve_argv :: "box \<Rightarrow> serve_args \<Rightarrow> string \<Rightarrow> string list option" where
  "serve_argv b a selected =
     (let port = int_str (sa_port a); python = path_str (venv_python b)
      in if selected \<in> {''vite'', ''react'', ''next''} then
           Some [''npm'', ''run'', ''dev'', ''--'', ''--host'', ''127.0.0.1'', ''--port'', port]
         else if selected = ''streamlit'' then
           Some [python, ''-m'', ''streamlit'', ''run'', app_of a, ''--server.address'', ''127.0.0.1'', ''--server.port'', port,
                 ''--server.headless'', ''true'']
         else if selected \<in> {''fastapi'', ''uvicorn''} then
           Some [python, ''-m'', ''uvicorn'', sa_module a, ''--host'', ''127.0.0.1'', ''--port'', port]
         else if selected = ''generic'' then (case sa_command a of Some c \<Rightarrow> if c \<noteq> [] then Some c else None | None \<Rightarrow> None)
         else None)"

definition serve_start :: "'w host \<Rightarrow> 'w procs \<Rightarrow> serve_args \<Rightarrow> ('w, obj) duty" where
  "serve_start h pr a =
     bindA (getA (\<lambda>s. (cl_box (rk_cell s), cl_root (rk_cell s)))) (\<lambda>(ctx, root). case ctx of
         None \<Rightarrow> returnA (server_failure ''No active sandbox context'')
       | Some b \<Rightarrow>
           bindA (of_world (serve_kind h a root)) (\<lambda>selected. case serve_argv b a selected of
               None \<Rightarrow> returnA (server_failure ''Provide a supported kind (vite, streamlit, fastapi, or generic command).'')
             | Some argv \<Rightarrow>
                 start_server h pr argv (sa_port a)
                   (if sa_url a \<noteq> [] then sa_url a else ''http://127.0.0.1:'' @ int_str (sa_port a) @ ''/'') (sa_timeout a)))"

definition serve_app :: "'w host \<Rightarrow> 'w procs \<Rightarrow> serve_args \<Rightarrow> ('w, obj) duty" where
  "serve_app h pr a =
     (let action = py_strip (py_lower (sa_action a))
      in if action = ''list'' then list_servers pr False
         else if action = ''status'' then server_status pr (sa_server a)
         else if action = ''logs'' then server_logs pr (sa_server a)
         else if action = ''stop'' then stop_server pr (sa_server a)
         else if action \<noteq> ''start'' then
           returnA (server_failure ''action must be start, list, status, logs, or stop'' @ [(''allowed_ports'', ports_json)])
         else serve_start h pr a)"

end
