(* ===== verification/ServerLaws.thy ===== *)
theory ServerLaws
  imports Servers
begin

text \<open>
  The servers of a session over every sequence of calls: the bound on their number, their ports and names, and
  that none survives the end of a session.
\<close>

section \<open>Calls in sequence\<close>

text \<open>
  Between calls other tools change the sandbox and the world; what they may not do is to bring a process of the
  registry back to life.
\<close>

definition stays_dead :: "'w procs \<Rightarrow> 'w \<Rightarrow> 'w \<Rightarrow> bool" where
  "stays_dead pr w w' \<longleftrightarrow> (\<forall>p. \<not> pr_alive pr p w \<longrightarrow> \<not> pr_alive pr p w')"

inductive serving :: "'w host \<Rightarrow> 'w procs \<Rightarrow> 'w rack \<Rightarrow> bool" for h pr where
  opened: "serving h pr \<lparr>rk_cell = c, rk_servers = [], rk_next = 0, rk_pids = []\<rparr>"
| called: "serving h pr s \<Longrightarrow> serve_app h pr a s = (r, t) \<Longrightarrow> serving h pr t"
| closed: "serving h pr s \<Longrightarrow> deactivate_sandbox pr s = (r, t) \<Longrightarrow> serving h pr t"
| others: "serving h pr s \<Longrightarrow> stays_dead pr (cl_world (rk_cell s)) (cl_world c) \<Longrightarrow> serving h pr (s\<lparr>rk_cell := c\<rparr>)"

lemma wp_in_cell [wp_simps]: "wp (in_cell m) Q s = wp m (\<lambda>r c. Q r (s\<lparr>rk_cell := c\<rparr>)) (rk_cell s)"
  by (simp add: wp_def in_cell_def split: prod.split)

lemma wp_of_world [wp_simps]: "wp (of_world f) Q s = Q (Inr (f (cl_world (rk_cell s)))) s"
  by (simp add: of_world_def wp_simps)

lemma wp_on_host [wp_simps]: "wp (on_host f) Q s = (case f (cl_world s) of (r, w) \<Rightarrow> Q r (s\<lparr>cl_world := w\<rparr>))"
  by (simp add: wp_def on_host_def split: prod.split)

section \<open>The registry is in order\<close>

definition registry_ok :: "'w rack \<Rightarrow> bool" where
  "registry_ok s \<longleftrightarrow>
     length (rk_servers s) \<le> max_servers \<and> distinct (map fst (rk_servers s)) \<and>
     (\<forall>(i, v)\<in>set (rk_servers s). sv_port v \<in> set allowed_port_list)"

text \<open>An operation that registers nothing at most shortens the registry.\<close>

definition shrinks :: "'w rack \<Rightarrow> 'w rack \<Rightarrow> bool" where
  "shrinks s t \<longleftrightarrow> (\<exists>P. rk_servers t = filter P (rk_servers s))"

interpretation shrinks: frame shrinks
proof
  show "shrinks s s" for s :: "'w rack" unfolding shrinks_def by (rule exI [of _ "\<lambda>x. True"]) simp
  show "shrinks s t \<Longrightarrow> shrinks t u \<Longrightarrow> shrinks s u" for s t u :: "'w rack"
    by (auto simp: shrinks_def)
qed

lemma shrinks_ok: "shrinks s t \<Longrightarrow> registry_ok s \<Longrightarrow> registry_ok t"
  unfolding registry_ok_def shrinks_def
  by (auto simp: distinct_map_filter intro: order.trans [OF length_filter_le])

lemma shrinks_cell: "shrinks.framed (in_cell m)"
  by (rule shrinks.framedI) (auto simp: in_cell_def shrinks_def split: prod.split intro!: exI [of _ "\<lambda>x. True"])

lemma shrinks_world: "shrinks.framed (of_world f)"
  by (simp add: of_world_def shrinks.framed_get)

lemma shrinks_doing: "shrinks.framed (doing f)"
  unfolding doing_def by (rule shrinks_cell)

lemma shrinks_prune: "shrinks.framed (prune_dead_servers pr)"
  unfolding prune_dead_servers_def by (rule shrinks.framed_upd) (auto simp: shrinks_def)

lemma shrinks_forget: "shrinks.framed (forget i)"
  unfolding forget_def by (rule shrinks.framed_upd) (auto simp: shrinks_def AList.delete_eq)

lemmas shrinks_rules = shrinks.framed_rules shrinks_cell shrinks_world shrinks_doing shrinks_prune shrinks_forget

lemma shrinks_kill: "shrinks.framed (kill_process pr p)"
  unfolding kill_process_def by (intro shrinks_rules)

lemma shrinks_stop: "shrinks.framed (stop_server pr i)"
  unfolding stop_server_def by (intro shrinks_rules shrinks_kill)

lemma wp_shrinks: "shrinks.framed m \<Longrightarrow> registry_ok s \<Longrightarrow> wp m (\<lambda>r t. registry_ok t) s"
  by (rule wpI) (metis shrinks.framedD shrinks_ok)

text \<open>One more server fits below the bound.\<close>

lemma register_ok:
  assumes "registry_ok s" and "length (rk_servers s) < max_servers" and "sv_port v \<in> set allowed_port_list"
    and "rk_servers t = AList.update i v (rk_servers s)"
  shows "registry_ok t"
proof -
  have "length (AList.update i v xs) \<le> Suc (length xs)" for xs :: "(string \<times> server) list" by (induction xs) auto
  from this [of "rk_servers s"] have "length (rk_servers t) \<le> max_servers" using assms(2,4) by simp
  moreover have "\<forall>(j, w)\<in>set (AList.update i v (rk_servers s)). sv_port w \<in> set allowed_port_list"
  proof -
    have "set (AList.update i v xs) \<subseteq> insert (i, v) (set xs)" for xs :: "(string \<times> server) list" by (induction xs) auto
    with assms(1,3) show ?thesis unfolding registry_ok_def by fast
  qed
  ultimately show ?thesis using assms(1,4) by (simp add: registry_ok_def distinct_update)
qed

lemma await_ok:
  assumes "registry_ok s" and "length (rk_servers s) < max_servers" and "port \<in> set allowed_port_list"
  shows "wp (await_server pr i log port url timeout p) (\<lambda>r t. registry_ok t) s"
  unfolding await_server_def
proof (rule wp_bindI [where P = "\<lambda>r t. registry_ok t"])
  let ?v = "\<lparr>sv_pid = p, sv_port = port, sv_log = log, sv_started = pr_now pr (cl_world (rk_cell s))\<rparr>"
  show "wp (updA (\<lambda>s. s\<lparr>rk_pids := rk_pids s @ [p], rk_servers := AList.update i
         \<lparr>sv_pid = p, sv_port = port, sv_log = log, sv_started = pr_now pr (cl_world (rk_cell s))\<rparr> (rk_servers s)\<rparr>))
      (\<lambda>r t. registry_ok t) s"
    unfolding wp_upd by (rule register_ok [OF assms(1,2), of ?v _ i]) (simp_all add: assms(3))
qed (assumption, rule wp_shrinks, intro shrinks_rules shrinks_kill)

text \<open>Nothing is registered before the process runs.\<close>

definition same_servers :: "'w rack \<Rightarrow> 'w rack \<Rightarrow> bool" where
  "same_servers s t \<longleftrightarrow> rk_servers t = rk_servers s"

interpretation same: frame same_servers
  by unfold_locales (auto simp: same_servers_def)

lemma same_cell: "same.framed (in_cell m)"
  by (rule same.framedI) (simp add: in_cell_def same_servers_def split: prod.split)

lemma same_fresh: "same.framed (fresh_server_id pr)"
  unfolding fresh_server_id_def by (intro same.framed_rules same.framed_upd) (simp add: same_servers_def)

lemma same_spawn: "same.framed (spawn_server h pr l)"
  unfolding spawn_server_def by (intro same.framed_rules same_cell)

lemma same_then:
  assumes "same.framed m" and "\<And>x t. rk_servers t = rk_servers s \<Longrightarrow> wp (f x) Q t" and "\<And>e t. rk_servers t = rk_servers s \<Longrightarrow> Q (Inl e) t"
  shows "wp (bindA m f) Q s"
proof (rule wp_bindI [where P = "\<lambda>r t. rk_servers t = rk_servers s"])
  show "wp m (\<lambda>r t. rk_servers t = rk_servers s) s"
    by (rule wpI) (drule same.framedD [OF assms(1)], simp add: same_servers_def)
qed (simp_all add: assms(2,3))

lemma launch_ok:
  assumes "registry_ok s" and "length (rk_servers s) < max_servers" and "port \<in> set allowed_port_list"
  shows "wp (launch_server h pr b argv port url timeout) (\<lambda>r t. registry_ok t) s"
proof -
  have ok: "registry_ok t" if "rk_servers t = rk_servers s" for t
    using assms(1) that by (simp add: registry_ok_def)
  have last: "wp (case r of Inl failure \<Rightarrow> returnA failure | Inr p \<Rightarrow> await_server pr i log port url timeout p) (\<lambda>r t. registry_ok t) t"
    if "rk_servers t = rk_servers s" for r i log t
    using await_ok [OF ok [OF that] _ assms(3)] that assms(2) ok [OF that] by (cases r) (simp_all add: wp_return)
  show ?thesis
    unfolding launch_server_def Let_def
    by (intro same_then same_cell same_fresh same_spawn last ok) (simp_all only:)
qed

text \<open>
  An invariant of the registry: what pruning, stopping a server and launching one below the bound keep, every
  call keeps.
\<close>

locale guarding =
  fixes h :: "'w host" and pr :: "'w procs" and I :: "'w rack \<Rightarrow> bool"
  assumes prune_keeps: "I s \<Longrightarrow> wp (prune_dead_servers pr) (\<lambda>r t. I t) s"
    and stop_keeps: "I s \<Longrightarrow> wp (stop_server pr i) (\<lambda>r t. I t) s"
    and launch_keeps: "I s \<Longrightarrow> length (rk_servers s) < max_servers \<Longrightarrow> port \<in> set allowed_port_list \<Longrightarrow>
      wp (launch_server h pr b argv port url timeout) (\<lambda>r t. I t) s"
begin

lemma active_keeps: "I s \<Longrightarrow> wp (bindA (active_servers pr logs) (\<lambda>x. returnA (f x))) (\<lambda>r t. I t) s"
  unfolding active_servers_def
  by (rule wp_bindI [OF wp_bindI [OF prune_keeps, where Q = "\<lambda>r t. I t"]]) (auto simp: wp_simps)

lemma start_keeps:
  assumes "I s"
  shows "wp (start_server h pr argv port url timeout) (\<lambda>r t. I t) s"
proof -
  have rest: "wp (bindA (getA (\<lambda>s. length (rk_servers s))) (\<lambda>n.
                 if n \<ge> max_servers then
                   bindA (active_servers pr False) (\<lambda>servers. returnA (full servers))
                 else if port \<notin> set allowed_port_list then returnA bad_port
                 else if \<not> starts_with ''http://127.0.0.1:'' url then returnA bad_url
                 else
                   let verdict = validate_argv argv ''devserver''
                   in if \<not> allowed verdict then returnA (denied verdict)
                      else launch_server h pr b argv port url timeout)) (\<lambda>r t. I t) t"
    if t: "I t" for t b full bad_port bad_url denied
    using launch_keeps [OF t] active_keeps [OF t, of False full] t
    by (simp add: wp_bind [of "getA f" for f] wp_get wp_return Let_def not_le)
  have "wp (bindA (prune_dead_servers pr) (\<lambda>_. bindA (getA (\<lambda>s. length (rk_servers s))) (\<lambda>n.
                 if n \<ge> max_servers then
                   bindA (active_servers pr False) (\<lambda>servers. returnA (full servers))
                 else if port \<notin> set allowed_port_list then returnA bad_port
                 else if \<not> starts_with ''http://127.0.0.1:'' url then returnA bad_url
                 else
                   let verdict = validate_argv argv ''devserver''
                   in if \<not> allowed verdict then returnA (denied verdict)
                      else launch_server h pr b argv port url timeout))) (\<lambda>r t. I t) s"
    for b full bad_port bad_url denied
    by (rule wp_bindI [OF prune_keeps [OF assms]]) (simp, rule rest)
  then show ?thesis
    unfolding start_server_def using assms
    by (simp add: wp_bind [of "getA f" for f] wp_bind [of "of_world f" for f] wp_get wp_of_world wp_return split: option.split)
qed

lemma serve_keeps:
  assumes "I s"
  shows "wp (serve_app h pr a) (\<lambda>r t. I t) s"
proof -
  have "wp (list_servers pr False) (\<lambda>r t. I t) s"
    unfolding list_servers_def by (rule active_keeps [OF assms])
  moreover have "wp (serve_start h pr a) (\<lambda>r t. I t) s"
    unfolding serve_start_def using assms start_keeps [OF assms]
    by (simp add: wp_bind [of "getA f" for f] wp_bind [of "of_world f" for f] wp_get wp_of_world wp_return split: option.split)
  ultimately show ?thesis using assms stop_keeps [OF assms]
    by (simp add: serve_app_def Let_def server_status_def server_logs_def wp_get wp_return)
qed

lemma stop_each_keeps: "I s \<Longrightarrow> wp (eachA (\<lambda>i. bindA (stop_server pr i) (\<lambda>_. returnA ())) is) (\<lambda>r t. I t) s"
proof (induction "is" arbitrary: s)
  case (Cons i "is")
  then show ?case
    by (auto intro!: wp_bindI [OF wp_bindI [OF stop_keeps [OF Cons.prems], where Q = "\<lambda>r t. I t"]] simp: wp_return)
qed (simp add: wp_return)

lemma deactivate_keeps:
  assumes "I s" and "\<And>s c. I s \<Longrightarrow> cl_world c = cl_world (rk_cell s) \<Longrightarrow> I (s\<lparr>rk_cell := c\<rparr>)"
  shows "wp (deactivate_sandbox pr) (\<lambda>r t. I t) s"
  unfolding deactivate_sandbox_def
proof (rule wp_bindI)
  show "wp (stop_all_servers pr) (\<lambda>r t. I t) s"
    unfolding stop_all_servers_def wp_bind wp_get sum.case by (rule stop_each_keeps [OF assms(1)])
next
  show "I t \<Longrightarrow> wp (in_cell (updA (\<lambda>c. c\<lparr>cl_box := None\<rparr>))) (\<lambda>r t. I t) t" for t
    unfolding wp_in_cell wp_upd by (rule assms(2)) simp_all
qed

end

interpretation registry: guarding h pr registry_ok for h pr
  by unfold_locales (blast intro: wp_shrinks shrinks_prune shrinks_stop launch_ok)+

lemma serving_registry: "serving h pr s \<Longrightarrow> registry_ok s"
proof (induction rule: serving.induct)
  case (opened c)
  then show ?case by (simp add: registry_ok_def)
next
  case (called s a r t)
  from wpD [OF registry.serve_keeps [OF called.IH] called.hyps(2)] show ?case .
next
  case (closed s r t)
  have "wp (deactivate_sandbox pr) (\<lambda>r t. registry_ok t) s"
    by (rule registry.deactivate_keeps [OF closed.IH]) (simp add: registry_ok_def)
  from wpD [OF this closed.hyps(2)] show ?case .
next
  case (others s c)
  then show ?case by (simp add: registry_ok_def)
qed

section \<open>Every process is accounted for\<close>

text \<open>
  What the operating system promises: a process that has ended stays so, whatever the harness does; after a wait
  that succeeds, and after SIGKILL, the process has ended.
\<close>

definition obedient :: "'w host \<Rightarrow> 'w procs \<Rightarrow> bool" where
  "obedient h pr \<longleftrightarrow>
     (\<forall>w p q a u n. stays_dead pr w (snd (ho_mkdir h p w)) \<and> stays_dead pr w (snd (ho_relink h p q w)) \<and>
        stays_dead pr w (snd (ho_setup h a w)) \<and> stays_dead pr w (snd (pr_open pr p w)) \<and>
        stays_dead pr w (snd (pr_probe pr u n w))) \<and>
     (\<forall>w p. stays_dead pr w (snd (pr_term pr p w)) \<and> stays_dead pr w (pr_kill pr p w) \<and> \<not> pr_alive pr p (pr_kill pr p w) \<and>
        (fst (pr_term pr p w) \<longrightarrow> \<not> pr_alive pr p (snd (pr_term pr p w)))) \<and>
     (\<forall>w l q. \<not> pr_alive pr q w \<longrightarrow> fst (pr_spawn pr l w) \<noteq> Inr q \<longrightarrow> \<not> pr_alive pr q (snd (pr_spawn pr l w)))"

definition ids_known :: "'w procs \<Rightarrow> 'w rack \<Rightarrow> bool" where
  "ids_known pr s \<longleftrightarrow> distinct (map fst (rk_servers s)) \<and>
     (\<forall>i\<in>fst ` set (rk_servers s). \<exists>n<rk_next s. i = ''server-'' @ pr_id pr n)"

definition accounted :: "'w procs \<Rightarrow> nat set \<Rightarrow> 'w rack \<Rightarrow> bool" where
  "accounted pr free s \<longleftrightarrow> ids_known pr s \<and>
     (\<forall>p\<in>set (rk_pids s) - free. \<not> pr_alive pr p (cl_world (rk_cell s)) \<or> p \<in> sv_pid ` snd ` set (rk_servers s))"

text \<open>A step that leaves the registry alone and revives nothing.\<close>

definition calmly :: "'w procs \<Rightarrow> 'w rack \<Rightarrow> 'w rack \<Rightarrow> bool" where
  "calmly pr s t \<longleftrightarrow> rk_servers t = rk_servers s \<and> rk_pids t = rk_pids s \<and> rk_next t = rk_next s \<and>
     stays_dead pr (cl_world (rk_cell s)) (cl_world (rk_cell t))"

interpretation calmly: frame "calmly pr" for pr
  by unfold_locales (auto simp: calmly_def stays_dead_def)

lemma calmly_accounted: "calmly pr s t \<Longrightarrow> accounted pr free s \<Longrightarrow> accounted pr free t"
  by (auto simp: calmly_def accounted_def ids_known_def stays_dead_def)

lemma dead_hosting: "obedient h pr \<Longrightarrow> hosting (\<lambda>s t. stays_dead pr (cl_world s) (cl_world t)) h"
proof -
  assume o: "obedient h pr"
  have f: "frame (\<lambda>s t. stays_dead pr (cl_world s) (cl_world (t :: 'a cell)))" for pr :: "'a procs"
    by unfold_locales (auto simp: stays_dead_def)
  note framedI = frame.framedI [OF f]
  show ?thesis
  proof (intro hosting.intro f hosting_axioms.intro)
    show "frame.framed (\<lambda>s t. stays_dead pr (cl_world s) (cl_world t)) (on_host (ho_mkdir h p))" for p
      using o by (intro framedI) (simp add: on_host_def obedient_def case_prod_beta)
    show "frame.framed (\<lambda>s t. stays_dead pr (cl_world s) (cl_world t)) (on_host (ho_relink h p q))" for p q
      using o by (intro framedI) (simp add: on_host_def obedient_def case_prod_beta)
    show "frame.framed (\<lambda>s t. stays_dead pr (cl_world s) (cl_world t)) (set_up h argv)" for argv
      using o by (intro framedI) (simp add: set_up_def bindA_def updA_def on_host_def obedient_def case_prod_beta)
    show "frame.framed (\<lambda>s t. stays_dead pr (cl_world s) (cl_world t)) (bind_venv p)" for p
      by (intro framedI) (simp add: bind_venv_def updA_def stays_dead_def)
  qed
qed

lemma calmly_env:
  assumes "obedient (h :: 'w host) pr"
  shows "calmly.framed pr (in_cell (build_sandbox_env h v))"
proof (rule calmly.framedI)
  fix s :: "'w rack"
  have "stays_dead pr (cl_world (rk_cell s)) (cl_world (snd (build_sandbox_env h v (rk_cell s))))"
    using hosting.framed_env [OF dead_hosting [OF assms]] by (simp add: frame.framed_def [OF hosting.axioms(1) [OF dead_hosting [OF assms]]])
  then show "calmly pr s (snd (in_cell (build_sandbox_env h v) s))"
    by (simp add: in_cell_def calmly_def case_prod_beta)
qed

lemma calmly_host: "(\<And>w. stays_dead pr w (snd (f w))) \<Longrightarrow> calmly.framed pr (in_cell (on_host f))"
  by (rule calmly.framedI) (simp add: in_cell_def on_host_def calmly_def case_prod_beta)

lemma calmly_doing: "(\<And>w. stays_dead pr w (snd (f w))) \<Longrightarrow> calmly.framed pr (doing f)"
  unfolding doing_def by (rule calmly_host) (simp add: case_prod_beta)

lemma calmly_world: "calmly.framed pr (of_world f)"
  by (simp add: of_world_def calmly.framed_get)

lemma wp_calmly: "calmly.framed pr m \<Longrightarrow> wp m (\<lambda>r t. calmly pr s t) s"
  by (rule wpI) (metis calmly.framedD)

text \<open>A killed process is dead, and nothing else changes.\<close>

lemma kill_wp:
  assumes "obedient h pr"
  shows "wp (kill_process pr p) (\<lambda>r t. r = Inr () \<and> calmly pr s t \<and> \<not> pr_alive pr p (cl_world (rk_cell t))) s"
proof -
  have "stays_dead pr w w" for w by (simp add: stays_dead_def)
  moreover have "stays_dead pr w w' \<Longrightarrow> stays_dead pr w' w'' \<Longrightarrow> stays_dead pr w w''" for w w' w'' by (simp add: stays_dead_def)
  ultimately show ?thesis
    using assms unfolding obedient_def kill_process_def doing_def
    by (simp add: wp_simps calmly_def case_prod_beta) blast
qed

lemma forget_free:
  assumes "accounted pr free s" and "map_of (rk_servers s) i = Some v"
  shows "accounted pr (insert (sv_pid v) free) (s\<lparr>rk_servers := AList.delete i (rk_servers s)\<rparr>)"
proof -
  have d: "distinct (map fst (rk_servers s))" using assms(1) by (simp add: accounted_def ids_known_def)
  have "q \<in> sv_pid ` snd ` set (AList.delete i (rk_servers s))"
    if "q \<in> sv_pid ` snd ` set (rk_servers s)" "q \<noteq> sv_pid v" for q
  proof -
    from that(1) obtain j u where u: "(j, u) \<in> set (rk_servers s)" "q = sv_pid u" by auto
    then have "map_of (rk_servers s) j = Some u" using d by simp
    with assms(2) that(2) u(2) have "j \<noteq> i" by auto
    then have "(j, u) \<in> set (AList.delete i (rk_servers s))" using u(1) by (simp add: AList.delete_eq)
    then show ?thesis using u(2) by force
  qed
  moreover have "ids_known pr (s\<lparr>rk_servers := AList.delete i (rk_servers s)\<rparr>)"
    using assms(1) by (auto simp: accounted_def ids_known_def AList.delete_eq distinct_map_filter)
  ultimately show ?thesis using assms(1) unfolding accounted_def by auto
qed

lemma freed_dead: "accounted pr (insert p free) s \<Longrightarrow> \<not> pr_alive pr p (cl_world (rk_cell s)) \<Longrightarrow> accounted pr free s"
  by (auto simp: accounted_def)

lemma update_new: "i \<notin> fst ` set xs \<Longrightarrow> AList.update i v xs = xs @ [(i, v)]"
  by (induction xs) auto

lemma register_accounted:
  assumes "accounted pr {sv_pid v} s" and "i \<notin> fst ` set (rk_servers s)" and "\<exists>n<rk_next s. i = ''server-'' @ pr_id pr n"
  shows "accounted pr {} (s\<lparr>rk_pids := rk_pids s @ [sv_pid v], rk_servers := AList.update i v (rk_servers s)\<rparr>)"
  using assms by (auto simp: accounted_def ids_known_def update_new)

lemma wp_forget [wp_simps]: "wp (forget i) Q s = Q (Inr ()) (s\<lparr>rk_servers := AList.delete i (rk_servers s)\<rparr>)"
  by (simp add: forget_def wp_simps)

lemma wp_upd_then: "wp (f ()) Q (g s) \<Longrightarrow> wp (bindA (updA g) f) Q s"
  by (simp add: wp_simps)

lemma await_accounted:
  assumes o: "obedient h pr" and "accounted pr {p} s" and "i \<notin> fst ` set (rk_servers s)"
    and "\<exists>n<rk_next s. i = ''server-'' @ pr_id pr n"
  shows "wp (await_server pr i log port url timeout p) (\<lambda>r t. accounted pr {} t) s"
  unfolding await_server_def
proof (rule wp_upd_then, rule wp_bindI [where P = "\<lambda>r t. accounted pr {} t \<and> (\<exists>v. map_of (rk_servers t) i = Some v \<and> sv_pid v = p)"])
  let ?v = "\<lparr>sv_pid = p, sv_port = port, sv_log = log, sv_started = pr_now pr (cl_world (rk_cell s))\<rparr>"
  let ?t = "s\<lparr>rk_pids := rk_pids s @ [p], rk_servers := AList.update i ?v (rk_servers s)\<rparr>"
  have a: "accounted pr {} ?t" using register_accounted [of pr ?v s i] assms(2-4) by simp
  have c: "calmly.framed pr (doing (pr_probe pr url (max 1 (min timeout 120))))"
    using o by (intro calmly_doing) (simp add: obedient_def)
  show "wp (doing (pr_probe pr url (max 1 (min timeout 120))))
     (\<lambda>r t. accounted pr {} t \<and> (\<exists>v. map_of (rk_servers t) i = Some v \<and> sv_pid v = p)) ?t"
  proof (rule wp_mono [OF wp_calmly [OF c]])
    fix r t
    assume t: "calmly pr ?t t"
    from calmly_accounted [OF t a] t show "accounted pr {} t \<and> (\<exists>v. map_of (rk_servers t) i = Some v \<and> sv_pid v = p)"
      by (simp add: calmly_def)
  qed
next
  fix answers t
  assume t: "accounted pr {} t \<and> (\<exists>v. map_of (rk_servers t) i = Some v \<and> sv_pid v = p)"
  then obtain v where v: "accounted pr {} t" "map_of (rk_servers t) i = Some v" "sv_pid v = p" by blast
  have "wp (bindA (kill_process pr p) (\<lambda>_. bindA (forget i) (\<lambda>_. bindA (of_world (read_log pr log 3000)) (\<lambda>tail. returnA (out tail)))))
      (\<lambda>r t. accounted pr {} t) t" for out :: "string \<Rightarrow> obj"
  proof (rule wp_bindI [OF kill_wp [OF o]])
    fix u' u
    assume u: "Inr u' = Inr () \<and> calmly pr t u \<and> \<not> pr_alive pr p (cl_world (rk_cell u))"
    then have au: "accounted pr {} u" and "map_of (rk_servers u) i = Some v"
      using calmly_accounted [of pr t u "{}"] v(1,2) u by (simp_all add: calmly_def)
    have "accounted pr {p} (u\<lparr>rk_servers := AList.delete i (rk_servers u)\<rparr>)"
      using forget_free [OF au \<open>map_of (rk_servers u) i = Some v\<close>] v(3) by simp
    then have "accounted pr {} (u\<lparr>rk_servers := AList.delete i (rk_servers u)\<rparr>)" by (rule freed_dead) (simp add: u)
    then show "wp (bindA (forget i) (\<lambda>_. bindA (of_world (read_log pr log 3000)) (\<lambda>tail. returnA (out tail))))
        (\<lambda>r t. accounted pr {} t) u" by (simp add: wp_simps)
  qed simp
  then show "wp (if \<not> ready answers then
         bindA (kill_process pr p) (\<lambda>_. bindA (forget i) (\<lambda>_.
         bindA (of_world (read_log pr log 3000)) (\<lambda>tail.
           returnA (server_failure (''Server did not become ready at '' @ url @ ''.'') @ [(''logs_tail'', JStr tail)]))))
       else
         bindA (of_world (read_log pr log 3000)) (\<lambda>tail.
           returnA [(''success'', JBool True), (''server_id'', JStr i), (''port'', JInt port), (''ready'', JBool True),
             (''logs_tail'', JStr tail), (''sandbox'', JStr ''session_jail''), (''allowed_ports'', ports_json)]))
      (\<lambda>r t. accounted pr {} t) t" using v(1) by (simp add: wp_simps)
qed simp

text \<open>Between the choice of the identifier and the registration.\<close>

definition named_fresh :: "'w procs \<Rightarrow> string \<Rightarrow> 'w rack \<Rightarrow> bool" where
  "named_fresh pr i s \<longleftrightarrow> i \<notin> fst ` set (rk_servers s) \<and> (\<exists>n<rk_next s. i = ''server-'' @ pr_id pr n)"

lemma fresh_id_wp:
  assumes "inj (pr_id pr)" and "accounted pr {} s"
  shows "wp (fresh_server_id pr) (\<lambda>r t. accounted pr {} t \<and> (\<forall>i. r = Inr i \<longrightarrow> named_fresh pr i t)) s"
proof -
  have "''server-'' @ pr_id pr (rk_next s) \<notin> fst ` set (rk_servers s)"
    using assms unfolding accounted_def ids_known_def by (metis injD less_irrefl same_append_eq)
  then show ?thesis using assms(2)
    by (auto simp: fresh_server_id_def wp_simps named_fresh_def accounted_def ids_known_def less_Suc_eq)
qed

lemma calm_then:
  assumes "calmly.framed pr m" and "P s" and "\<And>t. calmly pr s t \<Longrightarrow> P t"
    and "\<And>x t. P t \<Longrightarrow> wp (f x) Q t" and "\<And>e t. P t \<Longrightarrow> Q (Inl e) t"
  shows "wp (bindA m f) Q s"
proof (rule wp_bindI [where P = "\<lambda>r t. P t"])
  show "wp m (\<lambda>r t. P t) s" by (rule wp_mono [OF wp_calmly [OF assms(1)] assms(3)])
qed (simp_all add: assms(4,5))

lemma spawn_accounted:
  assumes "obedient h pr" and "accounted pr {} s" and "named_fresh pr i s"
  shows "wp (spawn_server h pr l)
    (\<lambda>r t. case r of Inr (Inr p) \<Rightarrow> accounted pr {p} t \<and> named_fresh pr i t | _ \<Rightarrow> accounted pr {} t) s"
proof -
  obtain r w where p: "pr_spawn pr l (cl_world (rk_cell s)) = (r, w)" by fastforce
  let ?t = "s\<lparr>rk_cell := rk_cell s\<lparr>cl_world := w\<rparr>\<rparr>"
  have d: "\<not> pr_alive pr q w" if "\<not> pr_alive pr q (cl_world (rk_cell s))" "r \<noteq> Inr q" for q
    using assms(1) that p unfolding obedient_def by (metis fst_conv snd_conv)
  have "accounted pr {p} ?t" if "r = Inr p" for p
    using assms(2) d that by (auto simp: accounted_def ids_known_def)
  moreover have "accounted pr {} ?t" if "r = Inl e" for e
    using assms(2) d that by (auto simp: accounted_def ids_known_def)
  ultimately show ?thesis using p assms(3)
    by (cases r) (auto simp: spawn_server_def wp_simps named_fresh_def)
qed

lemma launch_accounted:
  assumes o: "obedient h pr" and "inj (pr_id pr)" and "accounted pr {} s"
  shows "wp (launch_server h pr b argv port url timeout) (\<lambda>r t. accounted pr {} t) s"
  unfolding launch_server_def Let_def
proof (rule calm_then [where P = "accounted pr {}"])
  show "calmly.framed pr (in_cell (on_host (ho_mkdir h p)))" for p
    using o by (intro calmly_host) (simp add: obedient_def)
  fix x t
  assume t: "accounted pr {} t"
  show "wp (bindA (fresh_server_id pr) (\<lambda>i.
      bindA (in_cell (on_host (pr_open pr (below (below (sb_jail b) [''artifacts'', ''ui'']) [i @ ''.log''])))) (\<lambda>_.
      bindA (in_cell (build_sandbox_env h True)) (\<lambda>env.
      bindA (spawn_server h pr \<lparr>la_command = Argv argv, la_cwd = sb_workspace b, la_env = env\<rparr>)
        (\<lambda>r. case r of Inl failure \<Rightarrow> returnA failure
             | Inr p \<Rightarrow> await_server pr i (below (below (sb_jail b) [''artifacts'', ''ui'']) [i @ ''.log'']) port url timeout p)))))
     (\<lambda>r t. accounted pr {} t) t"
  proof (rule wp_bindI [OF fresh_id_wp [OF assms(2) t]])
    fix i t
    assume "accounted pr {} t \<and> (\<forall>i'. Inr i = Inr i' \<longrightarrow> named_fresh pr i' t)"
    then have t: "accounted pr {} t \<and> named_fresh pr i t" by simp
    have keep: "accounted pr {} u \<and> named_fresh pr i u" if "calmly pr t u" "accounted pr {} t \<and> named_fresh pr i t" for t u
      using that calmly_accounted by (auto simp: calmly_def named_fresh_def)
    have last: "wp (bindA (spawn_server h pr l) (\<lambda>r. case r of Inl failure \<Rightarrow> returnA failure
             | Inr p \<Rightarrow> await_server pr i log port url timeout p)) (\<lambda>r t. accounted pr {} t) u"
      if "accounted pr {} u \<and> named_fresh pr i u" for l log u
      by (rule wp_bindI [OF spawn_accounted [OF o]])
         (use that in \<open>auto simp: wp_simps named_fresh_def intro!: await_accounted [OF o] split: sum.split_asm\<close>)
    show "wp (bindA (in_cell (on_host (pr_open pr (below (below (sb_jail b) [''artifacts'', ''ui'']) [i @ ''.log''])))) (\<lambda>_.
      bindA (in_cell (build_sandbox_env h True)) (\<lambda>env.
      bindA (spawn_server h pr \<lparr>la_command = Argv argv, la_cwd = sb_workspace b, la_env = env\<rparr>)
        (\<lambda>r. case r of Inl failure \<Rightarrow> returnA failure
             | Inr p \<Rightarrow> await_server pr i (below (below (sb_jail b) [''artifacts'', ''ui'']) [i @ ''.log'']) port url timeout p))))
     (\<lambda>r t. accounted pr {} t) t"
    proof (rule calm_then [where P = "\<lambda>u. accounted pr {} u \<and> named_fresh pr i u", OF _ t keep [OF _ t]])
      show "calmly.framed pr (in_cell (on_host (pr_open pr p)))" for p
        using o by (intro calmly_host) (simp add: obedient_def)
      fix x u
      assume u: "accounted pr {} u \<and> named_fresh pr i u"
      show "wp (bindA (in_cell (build_sandbox_env h True)) (\<lambda>env.
          bindA (spawn_server h pr \<lparr>la_command = Argv argv, la_cwd = sb_workspace b, la_env = env\<rparr>)
            (\<lambda>r. case r of Inl failure \<Rightarrow> returnA failure
               | Inr p \<Rightarrow> await_server pr i (below (below (sb_jail b) [''artifacts'', ''ui'']) [i @ ''.log'']) port url timeout p)))
         (\<lambda>r t. accounted pr {} t) u"
        by (rule calm_then [where P = "\<lambda>u. accounted pr {} u \<and> named_fresh pr i u", OF calmly_env [OF o] u keep [OF _ u] last]) simp_all
    qed simp_all
  qed simp
qed (use assms(3) calmly_accounted in auto)

lemma accounted_stop:
  assumes o: "obedient h pr" and a: "accounted pr {} s"
  shows "wp (stop_server pr i) (\<lambda>r t. (\<exists>d. r = Inr d) \<and> accounted pr {} t \<and> i \<notin> fst ` set (rk_servers t) \<and>
     set (rk_servers t) \<subseteq> set (rk_servers s) \<and> rk_pids t = rk_pids s) s"
proof (cases "map_of (rk_servers s) i")
  case None
  then have "i \<notin> fst ` set (rk_servers s)" by (simp add: map_of_eq_None_iff)
  then show ?thesis using a by (simp add: stop_server_def wp_bind wp_get None wp_return)
next
  case (Some v)
  let ?t = "s\<lparr>rk_servers := AList.delete i (rk_servers s)\<rparr>"
  have f: "accounted pr {sv_pid v} ?t" using forget_free [OF a Some] by simp
  have "wp (kill_process pr (sv_pid v)) (\<lambda>r t. (\<exists>d. r = Inr d) \<and> accounted pr {} t \<and> rk_servers t = rk_servers ?t \<and> rk_pids t = rk_pids s) ?t"
  proof (rule wp_mono [OF kill_wp [OF o]])
    fix r t
    assume t: "r = Inr () \<and> calmly pr ?t t \<and> \<not> pr_alive pr (sv_pid v) (cl_world (rk_cell t))"
    have "accounted pr {sv_pid v} t" using calmly_accounted [OF _ f] t by blast
    then have "accounted pr {} t" by (rule freed_dead) (simp add: t)
    then show "(\<exists>d. r = Inr d) \<and> accounted pr {} t \<and> rk_servers t = rk_servers ?t \<and> rk_pids t = rk_pids s" using t by (simp add: calmly_def)
  qed
  then have "wp (kill_process pr (sv_pid v)) (\<lambda>r t. (\<exists>d. r = Inr d) \<and> accounted pr {} t \<and> i \<notin> fst ` set (rk_servers t) \<and>
     set (rk_servers t) \<subseteq> set (rk_servers s) \<and> rk_pids t = rk_pids s) ?t"
    by (rule wp_mono) (auto simp: AList.delete_eq)
  then show ?thesis using Some
    by (simp add: stop_server_def wp_bind [of "getA f" for f] wp_bind [of "forget i"] wp_get wp_forget)
       (rule wp_bindI, assumption, simp_all add: wp_return)
qed

lemma accounted_prune: "accounted pr {} s \<Longrightarrow> wp (prune_dead_servers pr) (\<lambda>r t. accounted pr {} t) s"
proof -
  assume a: "accounted pr {} s"
  let ?w = "cl_world (rk_cell s)"
  let ?live = "filter (\<lambda>(i, v). pr_alive pr (sv_pid v) ?w) (rk_servers s)"
  have "p \<in> sv_pid ` snd ` set ?live" if "p \<in> sv_pid ` snd ` set (rk_servers s)" "pr_alive pr p ?w" for p
    using that by force
  with a show ?thesis
    unfolding prune_dead_servers_def wp_upd accounted_def ids_known_def by (auto simp: distinct_map_filter)
qed

lemma accounted_guarding: "obedient h pr \<Longrightarrow> inj (pr_id pr) \<Longrightarrow> guarding h pr (accounted pr {})"
  by unfold_locales (auto intro: accounted_prune wp_mono [OF accounted_stop] launch_accounted)

lemma serving_accounted: "serving h pr s \<Longrightarrow> obedient h pr \<Longrightarrow> inj (pr_id pr) \<Longrightarrow> accounted pr {} s"
proof (induction rule: serving.induct)
  case (opened c)
  then show ?case by (simp add: accounted_def ids_known_def)
next
  case (called s a r t)
  then have "accounted pr {} s" by blast
  from wpD [OF guarding.serve_keeps [OF accounted_guarding [OF called.prems] this] called.hyps(2)] show ?case .
next
  case (closed s r t)
  then have "accounted pr {} s" by blast
  then have "wp (deactivate_sandbox pr) (\<lambda>r t. accounted pr {} t) s"
    by (rule guarding.deactivate_keeps [OF accounted_guarding [OF closed.prems]]) (simp add: accounted_def ids_known_def)
  from wpD [OF this closed.hyps(2)] show ?case .
next
  case (others s c)
  then show ?case by (auto simp: accounted_def ids_known_def stays_dead_def)
qed

text \<open>The end of a session starts nothing.\<close>

definition same_pids :: "'w rack \<Rightarrow> 'w rack \<Rightarrow> bool" where
  "same_pids s t \<longleftrightarrow> rk_pids t = rk_pids s"

interpretation pids: frame same_pids
  by unfold_locales (auto simp: same_pids_def)

lemma pids_cell: "pids.framed (in_cell m)"
  by (rule pids.framedI) (simp add: in_cell_def same_pids_def split: prod.split)

lemma pids_stop: "pids.framed (stop_server pr i)"
  unfolding stop_server_def kill_process_def of_world_def doing_def forget_def
  by (intro pids.framed_rules pids_cell pids.framed_upd) (simp add: same_pids_def)

lemma pids_each: "pids.framed (eachA (\<lambda>i. bindA (stop_server pr i) (\<lambda>_. returnA ())) is)"
  by (induction "is") (auto intro!: pids.framed_rules pids_stop)

lemma pids_kept: "deactivate_sandbox pr s = (r, t) \<Longrightarrow> rk_pids t = rk_pids s"
  unfolding deactivate_sandbox_def stop_all_servers_def
  by (drule pids.framedD [rotated], intro pids.framed_rules pids_each pids_cell) (simp add: same_pids_def)

section \<open>Properties\<close>

text \<open>
  Property C19. Whatever the sequence of calls, a session never has more than four servers registered, under
  distinct identifiers and on ports of the allowlist.
\<close>

theorem servers_bounded:
  assumes "serving h pr s"
  shows "length (rk_servers s) \<le> 4 \<and> distinct (map fst (rk_servers s)) \<and>
    (\<forall>(i, v)\<in>set (rk_servers s). 9000 \<le> sv_port v \<and> sv_port v \<le> 9049)"
  using serving_registry [OF assms] by (auto simp: registry_ok_def max_servers_def allowed_port_list_def)

definition demo_procs :: "exit list procs" where
  "demo_procs =
     \<lparr>pr_spawn = (\<lambda>l w. (Inr 7, Finished 7 [] [] # w)), pr_alive = (\<lambda>p w. Finished (int p) [] [] \<in> set w),
      pr_term = (\<lambda>p w. (False, w)), pr_kill = (\<lambda>p w. removeAll (Finished (int p) [] []) w),
      pr_probe = (\<lambda>u n w. ([None, Some 200], w)), pr_open = (\<lambda>p w. (Inr (), w)), pr_log = (\<lambda>p w. Some ''ok''),
      pr_id = (\<lambda>n. replicate n CHR ''a''), pr_now = (\<lambda>w. 1), pr_float = int_str\<rparr>"

definition demo_args :: serve_args where
  "demo_args =
     \<lparr>sa_action = ''start'', sa_kind = ''generic'', sa_port = 9000, sa_app = ''app.py'', sa_entry = [], sa_module = [],
      sa_command = Some [''npm''], sa_server = [], sa_url = ''http://127.0.0.1:9000/'', sa_timeout = 5\<rparr>"

definition demo_rack :: "exit list rack" where
  "demo_rack = \<lparr>rk_cell = demo_cell demo_box [], rk_servers = [], rk_next = 0, rk_pids = []\<rparr>"

lemma demo_call:
  assumes "cl_box (rk_cell s) = Some b"
  shows "serve_app h pr demo_args s = start_server h pr [''npm''] 9000 ''http://127.0.0.1:9000/'' 5 s"
proof -
  have "py_strip (py_lower ''start'') = ''start''" and k: "py_strip (py_lower ''generic'') = ''generic''" by code_simp+
  then have "serve_app h pr demo_args = serve_start h pr demo_args"
    by (simp add: serve_app_def demo_args_def)
  moreover have "serve_kind h demo_args r w = ''generic''" for r w
    by (simp add: serve_kind_def demo_args_def k)
  moreover have "serve_argv b demo_args ''generic'' = Some [''npm'']"
    unfolding serve_argv_def Let_def by (simp add: demo_args_def)
  ultimately show ?thesis using assms
    by (simp add: serve_start_def bindA_def getA_def of_world_def) (simp add: demo_args_def)
qed

lemma demo_serves:
  obtains s where "serving (demo_host False) demo_procs s" "length (rk_servers s) = 1" "rk_pids s = [7]"
proof -
  let ?x = "serve_app (demo_host False) demo_procs demo_args demo_rack"
  obtain r s where x: "?x = (r, s)" by fastforce
  let ?y = "start_server (demo_host False) demo_procs [''npm''] 9000 ''http://127.0.0.1:9000/'' 5 demo_rack"
  have "length (rk_servers (snd ?y)) = 1" and "rk_pids (snd ?y) = [7]" by code_simp+
  moreover have "?x = ?y" by (rule demo_call) (simp add: demo_rack_def demo_cell_def)
  moreover have "serving (demo_host False) demo_procs s"
    by (rule serving.called [OF _ x]) (simp add: demo_rack_def serving.opened)
  moreover have "snd ?x = s" using x by simp
  ultimately show thesis using that by metis
qed

theorem servers_bounded_witness:
  "\<exists>s. serving (demo_host False) demo_procs s \<and> length (rk_servers s) = 1 \<and>
     (\<forall>(i, v)\<in>set (rk_servers s). 9000 \<le> sv_port v \<and> sv_port v \<le> 9049)"
proof -
  obtain s where s: "serving (demo_host False) demo_procs s" "length (rk_servers s) = 1" by (rule demo_serves)
  from servers_bounded [OF s(1)] s show ?thesis by blast
qed

text \<open>
  Property C20. No server outlives its session: when the sandbox is deactivated, every process that was ever started
  for a server has ended - also those whose start failed or that were forgotten - and none is registered.
  This rests on the operating system ending what is killed and on identifiers that do not repeat.
\<close>

theorem session_end_stops_servers:
  assumes "serving h pr s" and "obedient h pr" and "inj (pr_id pr)" and "deactivate_sandbox pr s = (r, t)"
  shows "r = Inr () \<and> rk_servers t = [] \<and> (\<forall>p\<in>set (rk_pids t). \<not> pr_alive pr p (cl_world (rk_cell t)))"
proof -
  let ?over = "\<lambda>r t. r = Inr () \<and> accounted pr {} t \<and> rk_servers t = []"
  have each: "wp (eachA (\<lambda>i. bindA (stop_server pr i) (\<lambda>_. returnA ())) is) ?over s"
    if "accounted pr {} s" "fst ` set (rk_servers s) \<subseteq> set is" for "is" s
    using that
  proof (induction "is" arbitrary: s)
    case (Cons i "is")
    have "wp (eachA (\<lambda>i. bindA (stop_server pr i) (\<lambda>_. returnA ())) is) ?over t"
      if "accounted pr {} t" "i \<notin> fst ` set (rk_servers t)" "set (rk_servers t) \<subseteq> set (rk_servers s)" for t
    proof (rule Cons.IH [OF that(1)])
      have "fst ` set (rk_servers t) \<subseteq> fst ` set (rk_servers s)" using that(3) by blast
      then show "fst ` set (rk_servers t) \<subseteq> set is" using Cons.prems(2) that(2) by auto
    qed
    then have rest: "wp (eachA (\<lambda>i. bindA (stop_server pr i) (\<lambda>_. returnA ())) is) ?over t"
      if "accounted pr {} t \<and> i \<notin> fst ` set (rk_servers t) \<and> set (rk_servers t) \<subseteq> set (rk_servers s)" for t
      using that by blast
    have "wp (bindA (stop_server pr i) (\<lambda>_. returnA ())) (\<lambda>r t. r = Inr () \<and>
        (accounted pr {} t \<and> i \<notin> fst ` set (rk_servers t) \<and> set (rk_servers t) \<subseteq> set (rk_servers s))) s"
      by (rule wp_bindI [OF accounted_stop [OF assms(2) Cons.prems(1)]]) (auto simp: wp_return)
    then show ?case unfolding eachA.simps
      by (rule wp_bindI) (simp_all add: rest)
  qed (simp add: wp_return)
  have a: "accounted pr {} s" by (rule serving_accounted [OF assms(1-3)])
  have "wp (deactivate_sandbox pr) ?over s"
    unfolding deactivate_sandbox_def
  proof (rule wp_bindI)
    show "wp (stop_all_servers pr) ?over s"
      unfolding stop_all_servers_def wp_bind wp_get sum.case by (rule each [OF a]) simp
  next
    show "?over (Inr x) t \<Longrightarrow> wp (in_cell (updA (\<lambda>c. c\<lparr>cl_box := None\<rparr>))) ?over t" for x t
      by (auto simp: wp_simps accounted_def ids_known_def)
  qed simp
  from wpD [OF this assms(4)] show ?thesis by (auto simp: accounted_def)
qed

theorem session_end_stops_servers_witness:
  "\<exists>r t. r = Inr () \<and> rk_servers t = [] \<and> rk_pids t = [7] \<and> \<not> pr_alive demo_procs 7 (cl_world (rk_cell (t :: exit list rack)))"
proof -
  obtain s where s: "serving (demo_host False) demo_procs s" "rk_pids s = [7]" by (rule demo_serves)
  obtain r t where x: "deactivate_sandbox demo_procs s = (r, t)" by fastforce
  have o: "obedient (demo_host False) demo_procs" by (auto simp: obedient_def stays_dead_def demo_host_def demo_procs_def)
  have i: "inj (pr_id demo_procs)" unfolding demo_procs_def inj_def by simp
  have "rk_pids t = [7]" using pids_kept [OF x] s(2) by simp
  with session_end_stops_servers [OF s(1) o i x] show ?thesis by auto
qed

text \<open>
  The command of a server is started as it is, without the jail of the executor, also where a jail is required
  and installed.
\<close>

lemma server_outside_jail:
  "let h = demo_host True; s = demo_rack\<lparr>rk_cell := demo_cell attached_box []\<rparr>;
       pr = demo_procs\<lparr>pr_spawn := \<lambda>l w. (if la_command l = Argv [''npm''] then Inr 7 else Inl OSError, w)\<rparr>
   in map_of (projr (fst (start_server h pr [''npm''] 9000 ''http://127.0.0.1:9000/'' 5 s))) ''sandbox'' = Some (JStr ''session_jail'')"
  by code_simp

text \<open>The port of a new server is not compared with those of the servers that run.\<close>

lemma ports_shared:
  "let go = start_server (demo_host False) demo_procs [''npm''] 9000 ''http://127.0.0.1:9000/'' 5
   in map (sv_port \<circ> snd) (rk_servers (snd (go (snd (go demo_rack))))) = [9000, 9000]"
  by code_simp

end
