(* ===== verification/ModelClient.thy ===== *)
theory ModelClient
  imports PyRegex Trace
begin

text \<open>
  \<open>src/llm_client.py\<close> with the parts of \<open>src/settings/schema.py\<close> it reads, \<open>src/agents/llm_stream_events.py\<close> and
  \<open>src/session_usage.py\<close>: a call of a model, from the choice of a provider to the answer. The record \<open>line\<close>
  has the request profiles learned so far, every request sent with its fate, the events of the stream, the
  session file and a world; what providers answer is a record \<open>wire\<close>. An exception is a value \<open>fault\<close>.
\<close>

section \<open>Settings\<close>

record provider =
  pv_id :: string
  pv_label :: string
  pv_url :: string
  pv_adapter :: string
  pv_model :: string
  pv_models :: "(string \<times> string) list"
  pv_compat :: string
  pv_enabled :: bool
  pv_context :: "int option"
  pv_key :: string

text \<open>A temperature is the text of a number.\<close>

record role_cfg =
  ro_temperature :: string
  ro_top_p :: string
  ro_max_tokens :: int
  ro_thinking :: string
  ro_enabled :: bool

record settings =
  st_providers :: "provider list"
  st_order :: "string list"
  st_seed :: int
  st_context :: int
  st_roles :: "(string \<times> role_cfg) list"

definition unsupported_by :: "string \<Rightarrow> string list" where
  "unsupported_by adapter = (if adapter = ''gemini_openai'' then [''seed'', ''stream_options''] else [])"

definition provider_of :: "settings \<Rightarrow> string \<Rightarrow> provider option" where
  "provider_of st i = find (\<lambda>p. pv_id p = i) (st_providers st)"

definition model_for_role :: "provider \<Rightarrow> string \<Rightarrow> string" where
  "model_for_role p role =
     (case map_of (pv_models p) role of
        Some m \<Rightarrow> if m \<noteq> [] then m else if pv_model p \<noteq> [] then pv_model p else pv_id p
      | None \<Rightarrow> if pv_model p \<noteq> [] then pv_model p else pv_id p)"

definition display_label :: "provider \<Rightarrow> string" where
  "display_label p = (if pv_label p \<noteq> [] then pv_label p else pv_id p)"

definition enabled_ids :: "settings \<Rightarrow> string list" where
  "enabled_ids st = map pv_id (filter pv_enabled (st_providers st))"

definition fallback_ids :: "settings \<Rightarrow> string list" where
  "fallback_ids st =
     (let ordered = filter (\<lambda>i. i \<in> set (enabled_ids st)) (st_order st)
      in if ordered \<noteq> [] then ordered else enabled_ids st)"

section \<open>Exceptions\<close>

text \<open>\<open>APIStatusError\<close> with status, body and text, or any other exception with its text.\<close>

datatype fault = Status int json string | Fault string

fun fault_text :: "fault \<Rightarrow> string" where
  "fault_text (Status n b t) = t"
| "fault_text (Fault t) = t"

definition role_settings :: "settings \<Rightarrow> string \<Rightarrow> fault + role_cfg" where
  "role_settings st role =
     (case map_of (st_roles st) role of
        Some c \<Rightarrow> Inr c | None \<Rightarrow> Inl (Fault (quoted (''Unknown agent role: '' @ role))))"

section \<open>Request profiles\<close>

record profile =
  pf_token :: string
  pf_sampling :: bool
  pf_reasoning :: bool
  pf_drop :: "string list"

definition classic_profile :: profile where
  "classic_profile = \<lparr>pf_token = ''max_tokens'', pf_sampling = True, pf_reasoning = False, pf_drop = []\<rparr>"

definition openai_reasoning_profile :: profile where
  "openai_reasoning_profile =
     \<lparr>pf_token = ''max_completion_tokens'', pf_sampling = False, pf_reasoning = True, pf_drop = []\<rparr>"

definition reasoning_prefixes :: "string list" where
  "reasoning_prefixes = [''o1'', ''o3'', ''o4'', ''gpt-5'', ''gpt-6'', ''gpt-7'']"

definition strip_slashes :: "string \<Rightarrow> string" where
  "strip_slashes s = rev (dropWhile (\<lambda>c. c = CHR ''/'') (rev s))"

definition profile_cache_key :: "string \<Rightarrow> string \<Rightarrow> string \<times> string" where
  "profile_cache_key url model = (py_lower (strip_slashes url), py_lower (py_strip model))"

definition looks_openai_reasoning :: "string \<Rightarrow> bool" where
  "looks_openai_reasoning model =
     (let text = py_lower (last (split_on (CHR ''/'') (py_strip model)))
      in text \<noteq> [] \<and>
         (\<exists>p\<in>set reasoning_prefixes. text = p \<or> starts_with (p @ ''-'') text \<or> starts_with (p @ ''.'') text \<or>
            (starts_with ''gpt-'' p \<and> starts_with p text)))"

type_synonym learned = "((string \<times> string) \<times> profile) list"

definition resolve_request_profile :: "learned \<Rightarrow> string \<Rightarrow> string \<Rightarrow> string \<Rightarrow> string \<Rightarrow> profile" where
  "resolve_request_profile known adapter model shape url =
     (case map_of known (profile_cache_key url model) of
        Some p \<Rightarrow> p
      | None \<Rightarrow>
          let adapter = (if adapter \<noteq> [] then adapter else ''generic'');
              mode = py_lower (py_strip (if shape \<noteq> [] then shape else ''auto''))
          in if adapter = ''llamacpp_qwen'' \<or> adapter = ''gemini_openai'' then classic_profile
             else if mode = ''classic'' then classic_profile
             else if mode = ''openai_reasoning'' then openai_reasoning_profile
             else if adapter = ''openai'' \<and> looks_openai_reasoning model then openai_reasoning_profile
             else classic_profile)"

definition normalize_thinking :: "role_cfg \<Rightarrow> string \<Rightarrow> bool \<Rightarrow> string" where
  "normalize_thinking c adapter reasoning =
     (let effort = py_lower (py_strip (if ro_thinking c \<noteq> [] then ro_thinking c else ''medium''))
      in if effort = ''off'' \<or> \<not> ro_enabled c then ''off''
         else
           let effort = (if effort = ''high'' \<or> effort = ''max'' then ''xhigh''
                         else if \<not> reasoning \<and> effort = ''minimal'' then ''low'' else effort)
           in if adapter = ''llamacpp_qwen'' then
                (if effort \<in> set [''low'', ''medium'', ''xhigh''] then effort else ''medium'')
              else if adapter = ''gemini_openai'' then
                (if effort \<in> set [''off'', ''minimal'', ''low'', ''medium'', ''high''] then effort else ''medium'')
              else if reasoning then
                (let effort = (if effort = ''xhigh'' then ''high'' else effort)
                 in if effort \<in> set [''minimal'', ''low'', ''medium'', ''high''] then effort else ''medium'')
              else ''off'')"

record config =
  cf_backend :: string
  cf_role :: string
  cf_url :: string
  cf_key :: string
  cf_model :: string
  cf_thinking :: string
  cf_adapter :: string
  cf_compat :: string

definition config_key :: "config \<Rightarrow> string \<times> string" where
  "config_key cf = profile_cache_key (cf_url cf) (cf_model cf)"

definition profile_of :: "learned \<Rightarrow> config \<Rightarrow> profile" where
  "profile_of known cf = resolve_request_profile known (cf_adapter cf) (cf_model cf) (cf_compat cf) (cf_url cf)"

definition resolve_model_config :: "settings \<Rightarrow> learned \<Rightarrow> string \<Rightarrow> string \<Rightarrow> fault + config" where
  "resolve_model_config st known backend role =
     (if backend = ''auto'' then Inl (Fault (dquote # ''resolve_model_config does not accept backend='' @ quoted ''auto'' @ [dquote]))
      else case provider_of st backend of
          None \<Rightarrow> Inl (Fault (quoted (''Unknown or disabled provider: '' @ backend)))
        | Some p \<Rightarrow>
            if \<not> pv_enabled p then Inl (Fault (quoted (''Unknown or disabled provider: '' @ backend)))
            else case role_settings st role of
                Inl e \<Rightarrow> Inl e
              | Inr c \<Rightarrow>
                  let adapter = (if pv_adapter p \<noteq> [] then pv_adapter p else ''generic'');
                      shape = (if pv_compat p \<noteq> [] then pv_compat p else ''auto'');
                      model = model_for_role p role;
                      profile = resolve_request_profile known adapter model shape (pv_url p)
                  in Inr \<lparr>cf_backend = backend, cf_role = role, cf_url = pv_url p,
                       cf_key = (if pv_key p \<noteq> [] then pv_key p else ''EMPTY''), cf_model = model,
                       cf_thinking = normalize_thinking c adapter (pf_reasoning profile), cf_adapter = adapter, cf_compat = shape\<rparr>)"

text \<open>The candidates of a call.\<close>

definition candidate_ids :: "settings \<Rightarrow> string \<Rightarrow> fault + string list" where
  "candidate_ids st model =
     (if model \<noteq> [] \<and> model \<noteq> ''auto'' \<and> (case provider_of st model of Some p \<Rightarrow> pv_enabled p | None \<Rightarrow> False) then Inr [model]
      else if fallback_ids st = [] then
        Inl (Fault (''No LLM providers configured. Open Settings and add a local '' @
          ''OpenAI-compatible URL or a cloud API key.''))
      else Inr (fallback_ids st))"

section \<open>The request\<close>

definition openai_reasoning_effort :: "string \<Rightarrow> string option" where
  "openai_reasoning_effort level =
     (if level = ''off'' \<or> level = [] then None
      else if level = ''xhigh'' then Some ''high''
      else if level \<in> set [''minimal'', ''low'', ''medium'', ''high''] then Some level else Some ''medium'')"

definition sampling_fields :: "role_cfg \<Rightarrow> int \<Rightarrow> obj" where
  "sampling_fields c seed =
     [(''temperature'', JFloat (ro_temperature c)), (''top_p'', JFloat (ro_top_p c)), (''seed'', JInt seed)]"

definition put :: "string \<Rightarrow> json \<Rightarrow> obj \<Rightarrow> obj" where
  "put k v d = AList.update k v d"

definition without :: "string list \<Rightarrow> obj \<Rightarrow> obj" where
  "without ks d = filter (\<lambda>(k, v). k \<notin> set ks) d"

definition gemini_extra_body :: "string \<Rightarrow> json" where
  "gemini_extra_body level =
     JObj [(''google'', JObj [(''thinking_config'', JObj [(''thinking_level'', JStr level), (''include_thoughts'', JBool False)])])]"

definition qwen_extra_body :: "string \<Rightarrow> json" where
  "qwen_extra_body level =
     JObj [(''chat_template_kwargs'', JObj ((''enable_thinking'', JBool (level \<noteq> ''off'')) #
       (if level \<noteq> ''off'' then [(''reasoning_effort'', JStr level)] else [])))]"

definition build_chat_kwargs ::
    "config \<Rightarrow> json list \<Rightarrow> role_cfg \<Rightarrow> int \<Rightarrow> bool \<Rightarrow> string \<Rightarrow> profile \<Rightarrow> int \<Rightarrow> obj" where
  "build_chat_kwargs cf messages c max_tokens json_mode level pf seed =
     (let kw = [(''model'', JStr (if cf_model cf \<noteq> [] then cf_model cf else ''default'')), (''messages'', JList messages),
                (''stream'', JBool True), (''stream_options'', JObj [(''include_usage'', JBool True)])];
          kw = put (pf_token pf) (JInt max_tokens) kw;
          kw = (if pf_sampling pf then kw @ without (pf_drop pf) (sampling_fields c seed) else kw);
          kw = (if json_mode then put ''response_format'' (JObj [(''type'', JStr ''json_object'')]) kw else kw);
          kw = (if cf_adapter cf = ''llamacpp_qwen'' then put ''extra_body'' (qwen_extra_body level) kw else kw);
          kw = (if cf_adapter cf = ''gemini_openai'' \<and> level \<noteq> ''off'' then put ''extra_body'' (gemini_extra_body level) kw else kw);
          kw = (if pf_reasoning pf \<and> cf_adapter cf \<noteq> ''llamacpp_qwen'' \<and> cf_adapter cf \<noteq> ''gemini_openai''
                then (case openai_reasoning_effort level of Some e \<Rightarrow> put ''reasoning_effort'' (JStr e) kw | None \<Rightarrow> kw) else kw)
      in without (pf_drop pf) (without (unsupported_by (cf_adapter cf)) kw))"

section \<open>Refused parameters\<close>

definition error_of :: "json \<Rightarrow> obj option" where
  "error_of body = (case body of JObj d \<Rightarrow> (case dget d ''error'' JNull of JObj e \<Rightarrow> Some e | _ \<Rightarrow> None) | _ \<Rightarrow> None)"

definition param_char :: "char \<Rightarrow> bool" where
  "param_char c \<longleftrightarrow> is_word c \<and> ord c < 128"

definition unsupported_parts :: parts where
  "unsupported_parts =
     [(False, seqs [lit_ci ''unsupported parameter:'', Spaces, lit [squote]]), (True, Plus (Chars param_char)), (False, lit [squote])]"

definition unsupported_param :: "fault \<Rightarrow> string" where
  "unsupported_param f =
     (case f of
        Fault t \<Rightarrow> []
      | Status n body t \<Rightarrow>
          let err = (case error_of body of Some e \<Rightarrow> e | None \<Rightarrow> []);
              named = (case dget err ''param'' JNull of JStr p \<Rightarrow> py_strip p | _ \<Rightarrow> [])
          in if named \<noteq> [] then named
             else let message = (let m = dget err ''message'' JNull in if truthy m then py_str m else t)
                  in (case rx_groups unsupported_parts message of Some (g # gs) \<Rightarrow> g | _ \<Rightarrow> []))"

definition is_param_compat_error :: "fault \<Rightarrow> bool" where
  "is_param_compat_error f =
     (case f of
        Fault t \<Rightarrow> False
      | Status n body t \<Rightarrow>
          n = 400 \<and>
          (case error_of body of
             Some err \<Rightarrow> dget err ''code'' JNull = JStr ''unsupported_parameter'' \<or>
               contains ''unsupported parameter'' (py_lower (py_str (dget err ''message'' JNull)))
           | None \<Rightarrow> contains ''unsupported parameter'' (py_lower t)))"

definition blamed_param :: "fault \<Rightarrow> string" where
  "blamed_param f = (if unsupported_param f \<noteq> [] then unsupported_param f else ''max_tokens'')"

text \<open>The profile for the next attempt, or none when it accounts for the parameter already.\<close>

definition sampling_names :: "string list" where
  "sampling_names = [''temperature'', ''top_p'', ''seed'']"

definition apply_unsupported_param :: "profile \<Rightarrow> string \<Rightarrow> profile option" where
  "apply_unsupported_param pf param =
     (let name = py_strip param
      in if name = [] then None
         else if name = ''max_tokens'' then
           (if pf_token pf = ''max_completion_tokens'' then None else Some (pf\<lparr>pf_token := ''max_completion_tokens''\<rparr>))
         else if name = ''max_completion_tokens'' then
           (if pf_token pf = ''max_tokens'' then None else Some (pf\<lparr>pf_token := ''max_tokens''\<rparr>))
         else if name \<in> set (pf_drop pf) then None
         else if name \<in> set sampling_names then
           (let drop' = name # pf_drop pf
            in Some (pf\<lparr>pf_drop := drop', pf_sampling := pf_sampling pf \<and> \<not> set sampling_names \<subseteq> set drop'\<rparr>))
         else Some (pf\<lparr>pf_drop := name # pf_drop pf, pf_reasoning := pf_reasoning pf \<and> name \<noteq> ''reasoning_effort''\<rparr>))"

section \<open>Usage of a session\<close>

datatype session_file = Missing | Unreadable | Holding json

definition usage_keys :: "string list" where
  "usage_keys = [''prompt'', ''generated'', ''calls'', ''estimated_calls'']"

type_synonym usage = "(string \<times> int) list"

definition empty_token_usage :: usage where
  "empty_token_usage = map (\<lambda>k. (k, 0)) usage_keys"

text \<open>\<open>int(v)\<close>; none where it raises. Only numbers written as text or as floats need the parameter.\<close>

definition int_of :: "(json \<Rightarrow> int option) \<Rightarrow> json \<Rightarrow> int option" where
  "int_of other v = (case v of JInt i \<Rightarrow> Some i | JBool b \<Rightarrow> Some (if b then 1 else 0) | JStr t \<Rightarrow> other v | JFloat t \<Rightarrow> other v | _ \<Rightarrow> None)"

text \<open>\<open>merge_token_usage\<close> of what the file holds; a part that is no dictionary raises.\<close>

definition merge_token_usage :: "(json \<Rightarrow> int option) \<Rightarrow> json \<Rightarrow> usage option" where
  "merge_token_usage other part =
     (if \<not> truthy part then Some empty_token_usage
      else case part of
          JObj d \<Rightarrow> Some (map (\<lambda>k. (k, case int_of other (py_or (dget d k JNull) (JInt 0)) of Some i \<Rightarrow> max 0 i | None \<Rightarrow> 0)) usage_keys)
        | _ \<Rightarrow> None)"

definition add_usage :: "int \<Rightarrow> int \<Rightarrow> bool \<Rightarrow> usage \<Rightarrow> usage" where
  "add_usage p g estimated u =
     map (\<lambda>(k, n). (k, n + (if k = ''prompt'' then max 0 p else if k = ''generated'' then max 0 g
        else if k = ''calls'' then 1 else if estimated then 1 else 0))) u"

text \<open>\<open>record_session_tokens\<close>: the new file, or the old one when it raises. A file that cannot be parsed counts as empty.\<close>

definition record_session_tokens :: "(json \<Rightarrow> int option) \<Rightarrow> int \<Rightarrow> int \<Rightarrow> bool \<Rightarrow> session_file \<Rightarrow> session_file" where
  "record_session_tokens other p g estimated f =
     (case (case f of Missing \<Rightarrow> Some ([], empty_token_usage)
                    | Unreadable \<Rightarrow> map_option (Pair []) (merge_token_usage other JNull)
                    | Holding (JObj d) \<Rightarrow> map_option (Pair d) (merge_token_usage other (dget d ''token_usage'' JNull))
                    | Holding _ \<Rightarrow> None) of
        None \<Rightarrow> f
      | Some (d, u) \<Rightarrow>
          Holding (JObj (AList.update ''token_usage'' (JObj (map (\<lambda>(k, n). (k, JInt n)) (add_usage p g estimated u))) d)))"

section \<open>The line to a provider\<close>

text \<open>
  A piece of a stream: its two texts, its usage and the time of its arrival; a piece without choices carries usage
  alone. A stream ends, or breaks off with an exception.
\<close>

record chunk =
  ck_choices :: bool
  ck_reasoning :: string
  ck_content :: string
  ck_usage :: "(int \<times> int) option"
  ck_at :: int

record stream =
  sm_chunks :: "chunk list"
  sm_broken :: "fault option"
  sm_end :: int

record stream_context =
  sc_call :: string
  sc_role :: string
  sc_milestone :: string
  sc_phase :: string
  sc_kind :: string
  sc_visible :: bool

text \<open>A request that was sent: to whom, what, and the exception it met at once, if any.\<close>

type_synonym request = "config \<times> obj \<times> fault option"

record 'w line =
  ln_learned :: learned
  ln_sent :: "request list"
  ln_events :: "event list"
  ln_session :: session_file
  ln_world :: 'w

record 'w wire =
  wi_settings :: settings
  wi_post :: "config \<Rightarrow> obj \<Rightarrow> 'w \<Rightarrow> (fault + stream) \<times> 'w"
  wi_clock :: "'w \<Rightarrow> int"
  wi_ms :: "int \<Rightarrow> string"
  wi_int :: "json \<Rightarrow> int option"

definition remember_profile :: "config \<Rightarrow> profile \<Rightarrow> 'w line \<Rightarrow> 'w line" where
  "remember_profile cf pf s = s\<lparr>ln_learned := AList.update (config_key cf) pf (ln_learned s)\<rparr>"

definition emitl :: "event list \<Rightarrow> 'w line \<Rightarrow> 'w line" where
  "emitl es s = s\<lparr>ln_events := ln_events s @ es\<rparr>"

definition send :: "'w wire \<Rightarrow> config \<Rightarrow> obj \<Rightarrow> 'w line \<Rightarrow> (fault + stream) \<times> 'w line" where
  "send wi cf kw s =
     (case wi_post wi cf kw (ln_world s) of
        (r, w) \<Rightarrow> (r, s\<lparr>ln_sent := ln_sent s @ [(cf, kw, case r of Inl e \<Rightarrow> Some e | Inr x \<Rightarrow> None)], ln_world := w\<rparr>))"

text \<open>The attempts to open a stream: a refused parameter is taken out and the request sent again.\<close>

fun open_stream ::
    "'w wire \<Rightarrow> config \<Rightarrow> (profile \<Rightarrow> obj) \<Rightarrow> nat \<Rightarrow> profile \<Rightarrow> fault option \<Rightarrow> 'w line \<Rightarrow> (fault + int \<times> stream) \<times> 'w line" where
  "open_stream wi cf body 0 pf failed s =
     (Inl (case failed of Some e \<Rightarrow> e | None \<Rightarrow> Fault (cf_backend cf @ '' failed to start a completion stream'')), s)"
| "open_stream wi cf body (Suc n) pf failed s =
     (case send wi cf (body pf) s of
        (Inr st, s1) \<Rightarrow> (Inr (wi_clock wi (ln_world s), st), s1)
      | (Inl e, s1) \<Rightarrow>
          if \<not> is_param_compat_error e then (Inl e, s1)
          else case apply_unsupported_param pf (blamed_param e) of
              None \<Rightarrow> (Inl e, s1)
            | Some pf' \<Rightarrow> open_stream wi cf body n pf' (Some e) (remember_profile cf pf' s1))"

section \<open>The stream\<close>

record taken =
  tk_first :: "int option"
  tk_text :: string
  tk_thinking :: string
  tk_pending_text :: string
  tk_pending_thinking :: string
  tk_deltas :: "(string \<times> string) list"
  tk_prompt :: int
  tk_generated :: int

definition nothing_taken :: taken where
  "nothing_taken = \<lparr>tk_first = None, tk_text = [], tk_thinking = [], tk_pending_text = [], tk_pending_thinking = [],
     tk_deltas = [], tk_prompt = 0, tk_generated = 0\<rparr>"

definition flush_delta :: "string \<Rightarrow> string \<Rightarrow> (string \<times> string) list" where
  "flush_delta channel pending = (if pending \<noteq> [] then [(channel, pending)] else [])"

definition delta_flush :: nat where "delta_flush = 48"

definition take_usage :: "chunk \<Rightarrow> taken \<Rightarrow> taken" where
  "take_usage c t = (case ck_usage c of Some (p, g) \<Rightarrow> t\<lparr>tk_prompt := p, tk_generated := g\<rparr> | None \<Rightarrow> t)"

definition take_thinking :: "string \<Rightarrow> taken \<Rightarrow> taken" where
  "take_thinking x t =
     (if x = [] then t
      else let t = t\<lparr>tk_thinking := tk_thinking t @ x, tk_pending_thinking := tk_pending_thinking t @ x\<rparr>
           in if length (tk_pending_thinking t) \<ge> delta_flush
              then t\<lparr>tk_deltas := tk_deltas t @ flush_delta ''thinking'' (tk_pending_thinking t), tk_pending_thinking := []\<rparr> else t)"

definition take_text :: "string \<Rightarrow> taken \<Rightarrow> taken" where
  "take_text x t =
     (if x = [] then t
      else let t = t\<lparr>tk_text := tk_text t @ x, tk_pending_text := tk_pending_text t @ x\<rparr>
           in if length (tk_pending_text t) \<ge> delta_flush
              then t\<lparr>tk_deltas := tk_deltas t @ flush_delta ''content'' (tk_pending_text t), tk_pending_text := []\<rparr> else t)"

definition take_chunk :: "taken \<Rightarrow> chunk \<Rightarrow> taken" where
  "take_chunk t c =
     (if \<not> ck_choices c then take_usage c t
      else let t = (if tk_first t = None \<and> (ck_reasoning c \<noteq> [] \<or> ck_content c \<noteq> []) then t\<lparr>tk_first := Some (ck_at c)\<rparr> else t)
           in take_usage c (take_text (ck_content c) (take_thinking (ck_reasoning c) t)))"

definition take_rest :: "taken \<Rightarrow> taken" where
  "take_rest t =
     t\<lparr>tk_deltas := tk_deltas t @ flush_delta ''thinking'' (tk_pending_thinking t) @ flush_delta ''content'' (tk_pending_text t),
       tk_pending_thinking := [], tk_pending_text := []\<rparr>"

text \<open>What was taken from a stream; one that breaks off loses what is pending.\<close>

definition take_stream :: "stream \<Rightarrow> taken" where
  "take_stream st =
     (let t = foldl take_chunk nothing_taken (sm_chunks st)
      in case sm_broken st of None \<Rightarrow> take_rest t | Some e \<Rightarrow> t)"

section \<open>Events of a stream\<close>

record answer =
  an_text :: string
  an_model :: string
  an_prefill :: string
  an_decode :: string
  an_total :: string
  an_generated :: int
  an_prompt :: int
  an_fallback :: bool
  an_level :: string
  an_thinking :: string
  an_estimated :: bool

definition placed :: "stream_context \<Rightarrow> obj" where
  "placed c = (if sc_milestone c \<noteq> [] then [(''milestone_id'', JStr (sc_milestone c))] else []) @
     (if sc_phase c \<noteq> [] then [(''phase'', JStr (sc_phase c))] else [])"

definition start_event :: "stream_context \<Rightarrow> string \<Rightarrow> string \<Rightarrow> event list" where
  "start_event c model level =
     (if \<not> sc_visible c then []
      else [(''llm.stream.start'',
        [(''call_id'', JStr (sc_call c)), (''role'', JStr (sc_role c)), (''model_used'', JStr model),
         (''thinking_level'', JStr level), (''output_kind'', JStr (sc_kind c))] @ placed c)])"

definition delta_event :: "stream_context \<Rightarrow> string \<times> string \<Rightarrow> event list" where
  "delta_event c d =
     (case d of (channel, text) \<Rightarrow>
        if text = [] \<or> \<not> sc_visible c then []
        else [(''llm.stream.delta'',
          [(''call_id'', JStr (sc_call c)), (''role'', JStr (sc_role c)), (''channel'', JStr channel), (''text'', JStr text)])])"

definition preview_limit :: nat where "preview_limit = 12000"

definition previews :: "answer \<Rightarrow> obj" where
  "previews a =
     (if an_thinking a \<noteq> [] then [(''thinking_preview'', JStr (take preview_limit (an_thinking a)))] else []) @
     (if an_text a \<noteq> [] then [(''output_preview'', JStr (take preview_limit (an_text a)))] else [])"

definition shared_fields :: "stream_context \<Rightarrow> answer \<Rightarrow> obj" where
  "shared_fields c a =
     [(''call_id'', JStr (sc_call c)), (''role'', JStr (sc_role c)), (''model_used'', JStr (an_model a)),
      (''tokens_prompt'', JInt (an_prompt a)), (''tokens_generated'', JInt (an_generated a)),
      (''prefill_ms'', JFloat (an_prefill a)), (''decode_ms'', JFloat (an_decode a)), (''total_ms'', JFloat (an_total a)),
      (''thinking_level'', JStr (an_level a)), (''fallback_used'', JBool (an_fallback a)),
      (''tokens_estimated'', JBool (an_estimated a)), (''output_kind'', JStr (sc_kind c)),
      (''thinking_chars'', JInt (int (length (an_thinking a)))), (''output_chars'', JInt (int (length (an_text a))))]"

definition finish_events :: "stream_context \<Rightarrow> answer \<Rightarrow> event list" where
  "finish_events c a =
     (let full = shared_fields c a @ previews a @ placed c
      in if sc_visible c then [(''llm.stream.end'', full), (''llm.call'', full)]
         else [(''llm.call'', shared_fields c a @ placed c)])"

definition finish :: "'w wire \<Rightarrow> stream_context \<Rightarrow> answer \<Rightarrow> 'w line \<Rightarrow> 'w line" where
  "finish wi c a s =
     (emitl (finish_events c a) s)\<lparr>ln_session :=
        record_session_tokens (wi_int wi) (an_prompt a) (an_generated a) (an_estimated a) (ln_session s)\<rparr>"

definition stream_context_for :: "bool \<Rightarrow> stream_context \<Rightarrow> stream_context option" where
  "stream_context_for has_emitter c = (if has_emitter then Some c else None)"

section \<open>One provider\<close>

record call =
  ca_prompt :: string
  ca_max_tokens :: int
  ca_system :: string
  ca_json :: bool
  ca_role :: string
  ca_enable :: "bool option"
  ca_messages :: "obj list option"
  ca_context :: "stream_context option"

definition plain_message :: "obj \<Rightarrow> fault + json" where
  "plain_message m =
     (case map_of m ''role'' of
        None \<Rightarrow> Inl (Fault (quoted ''role''))
      | Some r \<Rightarrow> Inr (JObj [(''role'', r), (''content'', dget m ''content'' (JStr []))]))"

fun plain_messages :: "obj list \<Rightarrow> fault + json list" where
  "plain_messages [] = Inr []"
| "plain_messages (m # ms) =
     (case plain_message m of
        Inl e \<Rightarrow> Inl e
      | Inr j \<Rightarrow> (case plain_messages ms of Inl e \<Rightarrow> Inl e | Inr js \<Rightarrow> Inr (j # js)))"

definition chat_messages :: "call \<Rightarrow> fault + json list" where
  "chat_messages a =
     (let system = (if ca_system a \<noteq> [] then [JObj [(''role'', JStr ''system''), (''content'', JStr (ca_system a))]] else [])
      in case ca_messages a of
           Some ms \<Rightarrow> (case plain_messages ms of Inl e \<Rightarrow> Inl e | Inr js \<Rightarrow> Inr (system @ js))
         | None \<Rightarrow> Inr (system @ [JObj [(''role'', JStr ''user''), (''content'', JStr (ca_prompt a))]]))"

definition thinking_for :: "call \<Rightarrow> config \<Rightarrow> string" where
  "thinking_for a cf =
     (case ca_enable a of
        Some b \<Rightarrow> if cf_adapter cf = ''llamacpp_qwen'' then (if b then ''medium'' else ''off'') else cf_thinking cf
      | None \<Rightarrow> cf_thinking cf)"

definition message_text :: "json \<Rightarrow> string" where
  "message_text m = (case m of JObj d \<Rightarrow> py_str (py_or (dget d ''content'' JNull) (JStr [])) | _ \<Rightarrow> [])"

text \<open>Four characters to a token where the provider counts none.\<close>

definition estimated :: "int \<Rightarrow> string \<Rightarrow> int \<times> bool" where
  "estimated n blob = (if n \<le> 0 \<and> blob \<noteq> [] then (max 1 (int (length blob) div 4), True) else (n, False))"

definition answer_of :: "'w wire \<Rightarrow> config \<Rightarrow> string \<Rightarrow> bool \<Rightarrow> json list \<Rightarrow> int \<Rightarrow> stream \<Rightarrow> taken \<Rightarrow> answer" where
  "answer_of wi cf level fallback messages t0 st t =
     (let t2 = sm_end st; t1 = (case tk_first t of Some x \<Rightarrow> x | None \<Rightarrow> t2);
          (prompt, e1) = estimated (tk_prompt t) (concat (map message_text messages));
          (generated, e2) = estimated (tk_generated t) (tk_text t @ tk_thinking t)
      in \<lparr>an_text = tk_text t, an_model = cf_backend cf @ ''/'' @ cf_model cf, an_prefill = wi_ms wi (t1 - t0),
          an_decode = wi_ms wi (t2 - t1), an_total = wi_ms wi (t2 - t0), an_generated = generated, an_prompt = prompt,
          an_fallback = fallback, an_level = level, an_thinking = tk_thinking t, an_estimated = e1 \<or> e2\<rparr>)"

definition told :: "call \<Rightarrow> (stream_context \<Rightarrow> event list) \<Rightarrow> 'w line \<Rightarrow> 'w line" where
  "told a f s = (case ca_context a of Some c \<Rightarrow> emitl (f c) s | None \<Rightarrow> s)"

definition receive :: "'w wire \<Rightarrow> call \<Rightarrow> config \<Rightarrow> bool \<Rightarrow> json list \<Rightarrow> int \<Rightarrow> stream \<Rightarrow> 'w line \<Rightarrow> (fault + answer) \<times> 'w line" where
  "receive wi a cf fallback messages t0 st s =
     (let t = take_stream st;
          s1 = told a (\<lambda>c. concat (map (delta_event c) (tk_deltas t))) s
      in case sm_broken st of
           Some e \<Rightarrow> (Inl e, s1)
         | None \<Rightarrow>
             let r = answer_of wi cf (thinking_for a cf) fallback messages t0 st t
             in (Inr r, case ca_context a of Some c \<Rightarrow> finish wi c r s1 | None \<Rightarrow> s1))"

definition max_attempts :: nat where "max_attempts = 5"

definition call_single :: "'w wire \<Rightarrow> call \<Rightarrow> string \<Rightarrow> bool \<Rightarrow> 'w line \<Rightarrow> (fault + answer) \<times> 'w line" where
  "call_single wi a backend fallback s =
     (let st = wi_settings wi
      in case resolve_model_config st (ln_learned s) backend (ca_role a) of
           Inl e \<Rightarrow> (Inl e, s)
         | Inr cf \<Rightarrow>
             case role_settings st (ca_role a) of
               Inl e \<Rightarrow> (Inl e, s)
             | Inr c \<Rightarrow>
                 let level = thinking_for a cf;
                     s1 = told a (\<lambda>x. start_event x (backend @ ''/'' @ cf_model cf) level) s
                 in case chat_messages a of
                      Inl e \<Rightarrow> (Inl e, s1)
                    | Inr messages \<Rightarrow>
                        case open_stream wi cf (\<lambda>pf. build_chat_kwargs cf messages c (ca_max_tokens a) (ca_json a) level pf (st_seed st))
                               max_attempts (profile_of (ln_learned s1) cf) None s1 of
                          (Inl e, s2) \<Rightarrow> (Inl e, s2)
                        | (Inr (t0, stream), s2) \<Rightarrow> receive wi a cf fallback messages t0 stream s2)"

section \<open>The chain of providers\<close>

definition tries_next :: "fault \<Rightarrow> bool" where
  "tries_next f = (case f of Fault t \<Rightarrow> True | Status n b t \<Rightarrow> n \<in> set [400, 401, 403, 429] \<or> 500 \<le> n)"

definition all_failed :: "fault option \<Rightarrow> fault" where
  "all_failed failed =
     Fault (''All LLM backends failed. Last error: '' @ (case failed of Some e \<Rightarrow> fault_text e | None \<Rightarrow> ''None''))"

fun try_candidates :: "'w wire \<Rightarrow> call \<Rightarrow> bool \<Rightarrow> fault option \<Rightarrow> string list \<Rightarrow> 'w line \<Rightarrow> (fault + answer) \<times> 'w line" where
  "try_candidates wi a fallback failed [] s = (Inl (all_failed failed), s)"
| "try_candidates wi a fallback failed (i # is) s =
     (case call_single wi a i fallback s of
        (Inr r, s1) \<Rightarrow> (Inr r, s1)
      | (Inl e, s1) \<Rightarrow> if tries_next e then try_candidates wi a True (Some e) is s1 else (Inl e, s1))"

definition call_llm :: "'w wire \<Rightarrow> string \<Rightarrow> call \<Rightarrow> 'w line \<Rightarrow> (fault + answer) \<times> 'w line" where
  "call_llm wi model a s =
     (case candidate_ids (wi_settings wi) model of
        Inl e \<Rightarrow> (Inl e, s)
      | Inr is \<Rightarrow> try_candidates wi a False None is s)"

section \<open>The catalog\<close>

definition context_length :: "settings \<Rightarrow> int" where
  "context_length st =
     (let general = max 1024 (if st_context st \<noteq> 0 then st_context st else 32768)
      in case provider_of st ''local'' of
           Some p \<Rightarrow> (case pv_context p of Some n \<Rightarrow> if n \<noteq> 0 then max 1024 n else general | None \<Rightarrow> general)
         | None \<Rightarrow> general)"

definition agent_roles :: "string list" where
  "agent_roles =
     [''triage'', ''orchestrator'', ''worker'', ''hotfix'', ''reviewer'', ''validator'', ''ask'', ''compact'']"

text \<open>All roles have settings here; a missing one raises in the source.\<close>

definition thinking_entry :: "settings \<Rightarrow> learned \<Rightarrow> provider \<Rightarrow> string \<Rightarrow> fault + string \<times> json" where
  "thinking_entry st known p role =
     (let pf = resolve_request_profile known (pv_adapter p) (model_for_role p role)
                 (if pv_compat p \<noteq> [] then pv_compat p else ''auto'') (pv_url p)
      in case role_settings st role of
           Inl e \<Rightarrow> Inl e | Inr c \<Rightarrow> Inr (role, JStr (normalize_thinking c (pv_adapter p) (pf_reasoning pf))))"

fun all_of :: "('a \<Rightarrow> 'e + 'b) \<Rightarrow> 'a list \<Rightarrow> 'e + 'b list" where
  "all_of f [] = Inr []"
| "all_of f (x # xs) = (case f x of Inl e \<Rightarrow> Inl e | Inr y \<Rightarrow> (case all_of f xs of Inl e \<Rightarrow> Inl e | Inr ys \<Rightarrow> Inr (y # ys)))"

definition catalog_entry :: "settings \<Rightarrow> learned \<Rightarrow> provider \<Rightarrow> fault + json" where
  "catalog_entry st known p =
     (case all_of (thinking_entry st known p) agent_roles of
        Inl e \<Rightarrow> Inl e
      | Inr thinking \<Rightarrow> Inr (JObj
          [(''key'', JStr (pv_id p)), (''label'', JStr (display_label p)), (''base_url'', JStr (pv_url p)),
           (''adapter'', JStr (pv_adapter p)), (''compat'', JStr (if pv_compat p \<noteq> [] then pv_compat p else ''auto'')),
           (''enabled'', JBool (pv_enabled p)), (''model'', JStr (model_for_role p ''orchestrator'')),
           (''models_by_role'', JObj (map (\<lambda>r. (r, JStr (model_for_role p r))) agent_roles)), (''thinking_by_role'', JObj thinking),
           (''context_length'',
             case pv_context p of
               Some n \<Rightarrow> if n \<noteq> 0 then JInt n else if pv_adapter p = ''llamacpp_qwen'' then JInt (context_length st) else JNull
             | None \<Rightarrow> if pv_adapter p = ''llamacpp_qwen'' then JInt (context_length st) else JNull),
           (''api_key_set'', JBool (pv_key p \<noteq> []))]))"

definition auto_entry :: "settings \<Rightarrow> json" where
  "auto_entry st =
     (let chain = fallback_ids st
      in JObj
        [(''key'', JStr ''auto''), (''label'', JStr ''Auto''), (''base_url'', JStr []), (''adapter'', JStr ''generic''),
         (''enabled'', JBool (chain \<noteq> [])),
         (''model'', JStr (if chain \<noteq> [] then ''(auto -- '' @ py_join '' -> '' chain @ '')'' else ''(auto -- no providers configured)'')),
         (''models_by_role'', JObj (map (\<lambda>r. (r, JStr ''(fallback chain)'')) agent_roles)),
         (''thinking_by_role'', JObj (map (\<lambda>r. (r, JStr ''per-provider'')) agent_roles)),
         (''context_length'', JInt (context_length st)), (''api_key_set'', JBool False)])"

definition get_model_catalog :: "settings \<Rightarrow> learned \<Rightarrow> fault + json list" where
  "get_model_catalog st known =
     (case all_of (catalog_entry st known) (st_providers st) of Inl e \<Rightarrow> Inl e | Inr es \<Rightarrow> Inr (auto_entry st # es))"

definition span_model_name :: "settings \<Rightarrow> learned \<Rightarrow> string \<Rightarrow> string \<Rightarrow> string" where
  "span_model_name st known backend role =
     (if backend = [] \<or> backend = ''auto'' then ''auto''
      else case resolve_model_config st known backend role of Inr cf \<Rightarrow> cf_model cf | Inl e \<Rightarrow> backend)"

end
