(* ===== verification/ModelClientLaws.thy ===== *)
theory ModelClientLaws
  imports ModelClient
begin

text \<open>
  Calls of models: whom they ask and how often, what they send over every sequence of calls, and what of the
  answer reaches the stream of events.
\<close>

section \<open>Requests\<close>

lemma send_Inr: "send wi cf kw s = (Inr st, t) \<Longrightarrow>
    ln_sent t = ln_sent s @ [(cf, kw, None)] \<and> ln_learned t = ln_learned s \<and> ln_events t = ln_events s"
  by (auto simp: send_def split: prod.split_asm)

lemma send_Inl: "send wi cf kw s = (Inl e, t) \<Longrightarrow>
    ln_sent t = ln_sent s @ [(cf, kw, Some e)] \<and> ln_learned t = ln_learned s \<and> ln_events t = ln_events s"
  by (auto simp: send_def split: prod.split_asm)

lemma remember_simps [simp]:
  "ln_sent (remember_profile cf pf s) = ln_sent s" "ln_events (remember_profile cf pf s) = ln_events s"
  "ln_learned (remember_profile cf pf s) = AList.update (config_key cf) pf (ln_learned s)"
  by (simp_all add: remember_profile_def)

lemma emitl_simps [simp]:
  "ln_sent (emitl es s) = ln_sent s" "ln_events (emitl es s) = ln_events s @ es" "ln_learned (emitl es s) = ln_learned s"
  by (simp_all add: emitl_def)

lemma finish_simps [simp]:
  "ln_sent (finish wi c r s) = ln_sent s" "ln_learned (finish wi c r s) = ln_learned s"
  "ln_events (finish wi c r s) = ln_events s @ finish_events c r"
  by (simp_all add: finish_def)

lemma told_events: "prefix (ln_events s) (ln_events (told a f s))"
  by (simp add: told_def split: option.split)

lemma told_simps [simp]: "ln_sent (told a f s) = ln_sent s" "ln_learned (told a f s) = ln_learned s"
  by (simp_all add: told_def split: option.split)

lemma receive_simps [simp]:
  "ln_sent (snd (receive wi a cf fb ms t0 st s)) = ln_sent s" "ln_learned (snd (receive wi a cf fb ms t0 st s)) = ln_learned s"
  by (simp_all add: receive_def Let_def split: option.split)

lemma answer_of_simps [simp]:
  "an_model (answer_of wi cf lv fb ms t0 st t) = cf_backend cf @ ''/'' @ cf_model cf"
  "an_fallback (answer_of wi cf lv fb ms t0 st t) = fb" "an_level (answer_of wi cf lv fb ms t0 st t) = lv"
  "an_text (answer_of wi cf lv fb ms t0 st t) = tk_text t" "an_thinking (answer_of wi cf lv fb ms t0 st t) = tk_thinking t"
  by (simp_all add: answer_of_def Let_def case_prod_beta)

text \<open>A call of one provider is a failure before any request, or the attempts to open a stream and its reading.\<close>

lemma call_single_cases:
  assumes "call_single wi a i fb s = (r, t)"
  obtains (early) e where "r = Inl e" "ln_sent t = ln_sent s" "ln_learned t = ln_learned s" "prefix (ln_events s) (ln_events t)"
  | (asked) cf ms c u r' v where
      "cf_backend cf = i" "resolve_model_config (wi_settings wi) (ln_learned s) i (ca_role a) = Inr cf"
      "u = told a (\<lambda>x. start_event x (i @ ''/'' @ cf_model cf) (thinking_for a cf)) s"
      "open_stream wi cf (\<lambda>pf. build_chat_kwargs cf ms c (ca_max_tokens a) (ca_json a) (thinking_for a cf) pf
         (st_seed (wi_settings wi))) max_attempts (profile_of (ln_learned s) cf) None u = (r', v)"
      "(\<exists>e. r' = Inl e \<and> r = Inl e \<and> t = v) \<or> (\<exists>t0 st. r' = Inr (t0, st) \<and> receive wi a cf fb ms t0 st v = (r, t))"
proof (cases "resolve_model_config (wi_settings wi) (ln_learned s) i (ca_role a)")
  case (Inl e)
  with assms show ?thesis by (intro early [of e]) (simp_all add: call_single_def)
next
  case (Inr cf)
  have b: "cf_backend cf = i"
    using Inr by (auto simp: resolve_model_config_def Let_def split: if_split_asm option.split_asm sum.split_asm)
  show ?thesis
  proof (cases "role_settings (wi_settings wi) (ca_role a)")
    case (Inl e)
    with assms Inr show ?thesis by (intro early [of e]) (simp_all add: call_single_def)
  next
    case c: (Inr c)
    let ?u = "told a (\<lambda>x. start_event x (i @ ''/'' @ cf_model cf) (thinking_for a cf)) s"
    show ?thesis
    proof (cases "chat_messages a")
      case (Inl e)
      then have "r = Inl e" "t = ?u" using assms Inr c \<open>resolve_model_config _ _ _ _ = Inr cf\<close> by (simp_all add: call_single_def Let_def)
      then show ?thesis by (intro early) (simp_all add: told_events)
    next
      case m: (Inr ms)
      obtain r' v where o: "open_stream wi cf (\<lambda>pf. build_chat_kwargs cf ms c (ca_max_tokens a) (ca_json a) (thinking_for a cf) pf
         (st_seed (wi_settings wi))) max_attempts (profile_of (ln_learned s) cf) None ?u = (r', v)" by fastforce
      show ?thesis
      proof (rule asked [OF b Inr refl o])
        show "(\<exists>e. r' = Inl e \<and> r = Inl e \<and> t = v) \<or> (\<exists>t0 st. r' = Inr (t0, st) \<and> receive wi a cf fb ms t0 st v = (r, t))"
          using assms Inr c m o by (cases r') (auto simp: call_single_def Let_def)
      qed
    qed
  qed
qed

section \<open>Whom a call asks\<close>

lemma open_stream_sent:
  "open_stream wi cf body n pf failed s = (r, t) \<Longrightarrow>
    \<exists>new. ln_sent t = ln_sent s @ new \<and> length new \<le> n \<and> (\<forall>x\<in>set new. fst x = cf)"
proof (induction n arbitrary: pf failed s)
  case (Suc n)
  obtain r' u where u: "send wi cf (body pf) s = (r', u)" by fastforce
  show ?case
  proof (cases r')
    case (Inr st)
    then show ?thesis using Suc.prems u send_Inr by (fastforce split: if_split_asm)
  next
    case (Inl e)
    have sent: "ln_sent u = ln_sent s @ [(cf, body pf, Some e)]" using send_Inl u Inl by blast
    show ?thesis
    proof (cases "is_param_compat_error e \<and> apply_unsupported_param pf (blamed_param e) \<noteq> None")
      case True
      then obtain pf' where p: "apply_unsupported_param pf (blamed_param e) = Some pf'" by blast
      then have "open_stream wi cf body n pf' (Some e) (remember_profile cf pf' u) = (r, t)" using Suc.prems u Inl True by simp
      from Suc.IH [OF this] sent show ?thesis by force
    next
      case False
      then have "t = u" using Suc.prems u Inl by (auto split: if_split_asm)
      then show ?thesis using sent by simp
    qed
  qed
qed simp

lemma call_single_sent:
  assumes "call_single wi a i fb s = (r, t)"
  shows "\<exists>new. ln_sent t = ln_sent s @ new \<and> length new \<le> 5 \<and> map (\<lambda>x. cf_backend (fst x)) new = replicate (length new) i \<and>
    (\<forall>x. r = Inr x \<longrightarrow> (\<exists>m. an_model x = i @ ''/'' @ m) \<and> an_fallback x = fb)"
  using assms
proof (cases rule: call_single_cases)
  case (early e)
  then show ?thesis by simp
next
  case (asked cf ms c u r' v)
  obtain new where new: "ln_sent v = ln_sent u @ new" "length new \<le> 5" "\<forall>x\<in>set new. fst x = cf"
    using open_stream_sent [OF asked(4)] by (auto simp: max_attempts_def)
  have "ln_sent t = ln_sent s @ new"
    using asked(3,5) new(1) receive_simps(1) [of wi a cf fb ms _ _ v] by (metis snd_conv told_simps(1))
  moreover have "map (\<lambda>x. cf_backend (fst x)) new = replicate (length new) i"
    using new(3) asked(1) by (intro replicate_eqI) auto
  moreover have "\<forall>x. r = Inr x \<longrightarrow> (\<exists>m. an_model x = i @ ''/'' @ m) \<and> an_fallback x = fb"
    using asked(1,5) by (auto simp: receive_def Let_def split: option.split_asm)
  ultimately show ?thesis using new(2) by blast
qed

lemma try_candidates_sent:
  "try_candidates wi a fb failed is s = (r, t) \<Longrightarrow> (is = [] \<Longrightarrow> failed \<noteq> None) \<Longrightarrow>
    \<exists>ns new. ln_sent t = ln_sent s @ new \<and> length ns \<le> length is \<and> (\<forall>n\<in>set ns. n \<le> 5) \<and>
      map (\<lambda>x. cf_backend (fst x)) new = concat (map2 replicate ns is) \<and>
      (case r of
         Inr x \<Rightarrow> ns \<noteq> [] \<and> (\<exists>m. an_model x = is ! (length ns - 1) @ ''/'' @ m) \<and> an_fallback x = (fb \<or> 1 < length ns)
       | Inl e \<Rightarrow> \<not> tries_next e \<or> (length ns = length is \<and> (\<exists>f. e = all_failed (Some f))))"
proof (induction "is" arbitrary: fb failed s)
  case Nil
  then show ?case by (intro exI [of _ "[]"]) auto
next
  case (Cons i "is")
  obtain r' u where u: "call_single wi a i fb s = (r', u)" by fastforce
  obtain new where new: "ln_sent u = ln_sent s @ new" "length new \<le> 5" "map (\<lambda>x. cf_backend (fst x)) new = replicate (length new) i"
    "\<forall>x. r' = Inr x \<longrightarrow> (\<exists>m. an_model x = i @ ''/'' @ m) \<and> an_fallback x = fb"
    using call_single_sent [OF u] by blast
  show ?case
  proof (cases "\<exists>e. r' = Inl e \<and> tries_next e")
    case False
    then have "r = r'" "t = u" using Cons.prems(1) u by (auto split: sum.split_asm)
    then show ?thesis using new False
      by (intro exI [of _ "[length new]"] exI [of _ new]) (auto split: sum.split)
  next
    case True
    then obtain e where e: "r' = Inl e" "tries_next e" by blast
    then have "try_candidates wi a True (Some e) is u = (r, t)" using Cons.prems(1) u by simp
    from Cons.IH [OF this] obtain ns new' where rest: "ln_sent t = ln_sent u @ new'" "length ns \<le> length is" "\<forall>n\<in>set ns. n \<le> 5"
      "map (\<lambda>x. cf_backend (fst x)) new' = concat (map2 replicate ns is)"
      "case r of
         Inr x \<Rightarrow> ns \<noteq> [] \<and> (\<exists>m. an_model x = is ! (length ns - 1) @ ''/'' @ m) \<and> an_fallback x = (True \<or> 1 < length ns)
       | Inl e \<Rightarrow> \<not> tries_next e \<or> (length ns = length is \<and> (\<exists>f. e = all_failed (Some f)))" by auto
    show ?thesis
      by (intro exI [of _ "length new # ns"] exI [of _ "new @ new'"])
         (use new rest in \<open>auto split: sum.split_asm simp: nth_Cons' Suc_le_eq\<close>)
  qed
qed

section \<open>What is sent\<close>

text \<open>
  Calls in sequence, by whomever and under whatever settings; in between the session file and the world change.
\<close>

inductive talking :: "'w line \<Rightarrow> bool" where
  fresh: "ln_learned s = [] \<Longrightarrow> ln_sent s = [] \<Longrightarrow> talking s"
| called: "talking s \<Longrightarrow> call_llm wi model a s = (r, t) \<Longrightarrow> talking t"
| others: "talking s \<Longrightarrow> talking (s\<lparr>ln_session := f, ln_world := w\<rparr>)"

text \<open>An invariant of the requests, and the condition under which the next attempt is made with a profile.\<close>

locale dialing =
  fixes I :: "'w line \<Rightarrow> bool" and J :: "config \<Rightarrow> profile \<Rightarrow> 'w line \<Rightarrow> bool"
  assumes initial: "ln_learned s = [] \<Longrightarrow> ln_sent s = [] \<Longrightarrow> I s"
    and quiet: "I s \<Longrightarrow> ln_learned t = ln_learned s \<Longrightarrow> ln_sent t = ln_sent s \<Longrightarrow> I t"
    and begins: "I s \<Longrightarrow> J cf (profile_of (ln_learned s) cf) s"
    and rests: "J cf pf s \<Longrightarrow> I s"
    and sent: "J cf pf s \<Longrightarrow> ln_learned t = ln_learned s \<Longrightarrow>
      ln_sent t = ln_sent s @ [(cf, build_chat_kwargs cf ms c mt jm lv pf seed, out)] \<Longrightarrow>
      (\<And>e. out = Some e \<Longrightarrow> is_param_compat_error e \<Longrightarrow> apply_unsupported_param pf (blamed_param e) = None) \<Longrightarrow> I t"
    and adapted: "J cf pf s \<Longrightarrow> ln_learned t = ln_learned s \<Longrightarrow>
      ln_sent t = ln_sent s @ [(cf, build_chat_kwargs cf ms c mt jm lv pf seed, Some e)] \<Longrightarrow>
      is_param_compat_error e \<Longrightarrow> apply_unsupported_param pf (blamed_param e) = Some pf' \<Longrightarrow> J cf pf' (remember_profile cf pf' t)"
begin

lemma open_keeps:
  "J cf pf s \<Longrightarrow> open_stream wi cf (\<lambda>pf. build_chat_kwargs cf ms c mt jm lv pf seed) n pf failed s = (r, t) \<Longrightarrow> I t"
proof (induction n arbitrary: pf failed s)
  case 0
  then show ?case using rests by simp
next
  case (Suc n)
  let ?kw = "build_chat_kwargs cf ms c mt jm lv pf seed"
  obtain r' u where u: "send wi cf ?kw s = (r', u)" by fastforce
  show ?case
  proof (cases r')
    case (Inr st)
    then have "t = u" using Suc.prems(2) u by simp
    moreover have "I u" by (rule sent [OF Suc.prems(1), of u ms c mt jm lv seed None]) (use send_Inr [OF u [unfolded Inr]] in auto)
    ultimately show ?thesis by simp
  next
    case (Inl e)
    have s: "ln_sent u = ln_sent s @ [(cf, ?kw, Some e)]" "ln_learned u = ln_learned s" using send_Inl u Inl by blast+
    show ?thesis
    proof (cases "is_param_compat_error e \<and> apply_unsupported_param pf (blamed_param e) \<noteq> None")
      case True
      then obtain pf' where p: "apply_unsupported_param pf (blamed_param e) = Some pf'" by blast
      have "J cf pf' (remember_profile cf pf' u)" by (rule adapted [OF Suc.prems(1) s(2,1) _ p]) (use True in blast)
      moreover have "open_stream wi cf (\<lambda>pf. build_chat_kwargs cf ms c mt jm lv pf seed) n pf' (Some e) (remember_profile cf pf' u) = (r, t)"
        using Suc.prems(2) u Inl True p by simp
      ultimately show ?thesis by (rule Suc.IH)
    next
      case False
      then have "t = u" using Suc.prems(2) u Inl by (auto split: if_split_asm)
      moreover have "I u" by (rule sent [OF Suc.prems(1) s(2,1)]) (use False in auto)
      ultimately show ?thesis by simp
    qed
  qed
qed

lemma single_keeps:
  assumes "I s" and "call_single wi a i fb s = (r, t)"
  shows "I t"
  using assms(2)
proof (cases rule: call_single_cases)
  case (early e)
  then show ?thesis using quiet [OF assms(1)] by simp
next
  case (asked cf ms c u r' v)
  have u: "I u" "ln_learned u = ln_learned s" using quiet [OF assms(1)] asked(3) by simp_all
  have "I v" by (rule open_keeps [OF _ asked(4)]) (use begins [OF u(1)] u(2) in metis)
  moreover have "t = v \<or> ln_learned t = ln_learned v \<and> ln_sent t = ln_sent v"
    using asked(5) receive_simps [of wi a cf fb ms _ _ v] by (metis snd_conv)
  ultimately show ?thesis using quiet by blast
qed

lemma candidates_keep: "I s \<Longrightarrow> try_candidates wi a fb failed is s = (r, t) \<Longrightarrow> I t"
proof (induction "is" arbitrary: fb failed s)
  case (Cons i "is")
  obtain r' u where u: "call_single wi a i fb s = (r', u)" by fastforce
  then have "I u" by (rule single_keeps [OF Cons.prems(1)])
  then show ?case using Cons u by (auto split: sum.split_asm if_split_asm)
qed simp

lemma talking_keeps: "talking s \<Longrightarrow> I s"
proof (induction rule: talking.induct)
  case (fresh s)
  then show ?case by (rule initial)
next
  case (called s wi model a r t)
  then show ?case by (auto simp: call_llm_def split: sum.split_asm intro: candidates_keep)
next
  case (others s f w)
  show ?case by (rule quiet [OF others.IH]) simp_all
qed

end

section \<open>Refused parameters\<close>

text \<open>
  The name of the parameter a refused request is taken to be about. The two names of the token limit are
  exchanged for one another, every other parameter is left out from then on.
\<close>

definition refused_name :: "request \<Rightarrow> string option" where
  "refused_name x =
     (case x of (cf, kw, out) \<Rightarrow>
        (case out of Some e \<Rightarrow> if is_param_compat_error e then Some (py_strip (blamed_param e)) else None | None \<Rightarrow> None))"

definition token_names :: "string list" where
  "token_names = [''max_tokens'', ''max_completion_tokens'']"

definition droppable :: "string \<Rightarrow> bool" where
  "droppable p \<longleftrightarrow> p \<noteq> [] \<and> p \<notin> set token_names"

definition dropped :: "learned \<Rightarrow> string \<times> string \<Rightarrow> string \<Rightarrow> bool" where
  "dropped known k p \<longleftrightarrow> (case map_of known k of Some pf \<Rightarrow> p \<in> set (pf_drop pf) | None \<Rightarrow> False)"

definition never_again :: "request \<Rightarrow> request \<Rightarrow> bool" where
  "never_again x y \<longleftrightarrow>
     (\<forall>p. refused_name x = Some p \<longrightarrow> droppable p \<longrightarrow> config_key (fst y) = config_key (fst x) \<longrightarrow> map_of (fst (snd y)) p = None)"

definition remembers :: "'w line \<Rightarrow> bool" where
  "remembers s \<longleftrightarrow>
     (\<forall>x\<in>set (ln_sent s). \<forall>p. refused_name x = Some p \<longrightarrow> droppable p \<longrightarrow> dropped (ln_learned s) (config_key (fst x)) p) \<and>
     sorted_wrt never_again (ln_sent s)"

definition current :: "config \<Rightarrow> profile \<Rightarrow> 'w line \<Rightarrow> bool" where
  "current cf pf s \<longleftrightarrow> (\<forall>p. dropped (ln_learned s) (config_key cf) p \<longleftrightarrow> p \<in> set (pf_drop pf))"

lemma apply_Some:
  assumes "apply_unsupported_param pf q = Some pf'"
  shows "set (pf_drop pf) \<subseteq> set (pf_drop pf')" and "droppable (py_strip q) \<Longrightarrow> py_strip q \<in> set (pf_drop pf')"
    and "pf_token pf \<in> set token_names \<Longrightarrow> pf_token pf' \<in> set token_names"
  using assms by (auto simp: apply_unsupported_param_def Let_def droppable_def token_names_def split: if_split_asm)

lemma apply_None:
  assumes "apply_unsupported_param pf q = None" and "droppable (py_strip q)"
  shows "py_strip q \<in> set (pf_drop pf)"
  using assms by (auto simp: apply_unsupported_param_def Let_def droppable_def token_names_def split: if_split_asm)

lemma map_of_without: "map_of (without ks d) k = (if k \<in> set ks then None else map_of d k)"
  by (induction d) (auto simp: without_def)

lemma built_without: "p \<in> set (pf_drop pf) \<Longrightarrow> map_of (build_chat_kwargs cf ms c mt jm lv pf seed) p = None"
  by (simp add: build_chat_kwargs_def Let_def map_of_without)

lemma profile_current: "current cf (profile_of (ln_learned s) cf) s"
  by (auto simp: current_def dropped_def profile_of_def resolve_request_profile_def config_key_def Let_def classic_profile_def
      openai_reasoning_profile_def split: option.split)

lemma remembers_sent:
  assumes r: "remembers s" and c: "current cf pf s" and l: "ln_learned t = ln_learned s"
    and "ln_sent t = ln_sent s @ [(cf, build_chat_kwargs cf ms c0 mt jm lv pf seed, out)]"
  shows "sorted_wrt never_again (ln_sent t)"
proof -
  have "never_again x (cf, build_chat_kwargs cf ms c0 mt jm lv pf seed, out)" if x: "x \<in> set (ln_sent s)" for x
    unfolding never_again_def
  proof (intro allI impI)
    fix p
    assume p: "refused_name x = Some p" "droppable p"
      and k: "config_key (fst (cf, build_chat_kwargs cf ms c0 mt jm lv pf seed, out)) = config_key (fst x)"
    have "dropped (ln_learned s) (config_key cf) p" using r x p k unfolding remembers_def by simp
    then show "map_of (fst (snd (cf, build_chat_kwargs cf ms c0 mt jm lv pf seed, out))) p = None"
      using c by (simp add: current_def built_without)
  qed
  with r assms(4) show ?thesis by (simp add: remembers_def sorted_wrt_append)
qed

interpretation refusals: dialing remembers "\<lambda>cf pf s. remembers s \<and> current cf pf s"
proof
  show "ln_learned s = [] \<Longrightarrow> ln_sent s = [] \<Longrightarrow> remembers s" for s :: "'w line" by (simp add: remembers_def)
  show "remembers s \<Longrightarrow> ln_learned t = ln_learned s \<Longrightarrow> ln_sent t = ln_sent s \<Longrightarrow> remembers t" for s t :: "'w line"
    by (simp add: remembers_def)
  show "remembers s \<Longrightarrow> remembers s \<and> current cf (profile_of (ln_learned s) cf) s" for s :: "'w line" and cf
    by (simp add: profile_current)
next
  fix cf pf ms c mt jm lv seed out and s t :: "'w line"
  assume rc: "remembers s \<and> current cf pf s" and l: "ln_learned t = ln_learned s"
    and n: "ln_sent t = ln_sent s @ [(cf, build_chat_kwargs cf ms c mt jm lv pf seed, out)]"
    and last: "\<And>e. out = Some e \<Longrightarrow> is_param_compat_error e \<Longrightarrow> apply_unsupported_param pf (blamed_param e) = None"
  have "dropped (ln_learned t) (config_key cf) p"
    if p: "refused_name (cf, build_chat_kwargs cf ms c mt jm lv pf seed, out) = Some p" "droppable p" for p
  proof -
    obtain e where "out = Some e" "is_param_compat_error e" "p = py_strip (blamed_param e)"
      using p(1) by (auto simp: refused_name_def split: option.split_asm if_split_asm)
    then have "p \<in> set (pf_drop pf)" using apply_None last p(2) by blast
    then show ?thesis using rc l by (simp add: current_def)
  qed
  then show "remembers t" using rc l n remembers_sent [of s cf pf t ms c mt jm lv seed out]
    unfolding remembers_def by (simp add: ball_Un)
next
  fix cf pf pf' ms c mt jm lv seed e and s t :: "'w line"
  assume rc: "remembers s \<and> current cf pf s" and l: "ln_learned t = ln_learned s"
    and n: "ln_sent t = ln_sent s @ [(cf, build_chat_kwargs cf ms c mt jm lv pf seed, Some e)]"
    and e: "is_param_compat_error e" "apply_unsupported_param pf (blamed_param e) = Some pf'"
  let ?t = "remember_profile cf pf' t"
  have here: "dropped (ln_learned ?t) (config_key cf) p \<longleftrightarrow> p \<in> set (pf_drop pf')" for p by (simp add: dropped_def update_conv)
  have more_dropped: "dropped (ln_learned ?t) k p" if "dropped (ln_learned s) k p" for k p
    using that rc apply_Some(1) [OF e(2)] l by (cases "k = config_key cf") (auto simp: current_def dropped_def update_conv split: option.split_asm)
  have "p \<in> set (pf_drop pf')" if "refused_name (cf, build_chat_kwargs cf ms c mt jm lv pf seed, Some e) = Some p" "droppable p" for p
    using that e(1) apply_Some(2) [OF e(2)] by (simp add: refused_name_def)
  then have "remembers ?t" using rc n remembers_sent [OF _ _ l n] here more_dropped
    unfolding remembers_def by simp
  with here show "remembers ?t \<and> current cf pf' ?t" by (simp add: current_def)
qed blast

section \<open>Well-formed requests\<close>

definition request_ok :: "config \<Rightarrow> obj \<Rightarrow> bool" where
  "request_ok cf kw \<longleftrightarrow>
     distinct (map fst kw) \<and> \<not> set token_names \<subseteq> fst ` set kw \<and> fst ` set kw \<inter> set (unsupported_by (cf_adapter cf)) = {}"

definition tokens_ok :: "learned \<Rightarrow> bool" where
  "tokens_ok known \<longleftrightarrow> (\<forall>k pf. map_of known k = Some pf \<longrightarrow> pf_token pf \<in> set token_names)"

lemma without_keys: "fst ` set (without ks d) = fst ` set d - set ks"
  by (force simp: without_def)

lemma without_distinct: "distinct (map fst d) \<Longrightarrow> distinct (map fst (without ks d))"
  by (simp add: without_def distinct_map_filter)

lemma put_keys: "fst ` set (put k v d) = insert k (fst ` set d)"
  by (simp add: put_def dom_update)

lemma put_distinct: "distinct (map fst d) \<Longrightarrow> distinct (map fst (put k v d))"
  by (simp add: put_def distinct_update)

text \<open>What holds of a dictionary and of one more key holds after each of the fields is set.\<close>

lemma put_fields:
  assumes "P d" and "\<And>d k v. P d \<Longrightarrow> k \<notin> set token_names \<Longrightarrow> P (put k v d)"
  shows "P (let kw = (if b then put ''response_format'' v1 d else d);
     kw = (if b2 then put ''extra_body'' v2 kw else kw); kw = (if b3 then put ''extra_body'' v3 kw else kw)
   in if b4 then (case x of Some e \<Rightarrow> put ''reasoning_effort'' (JStr e) kw | None \<Rightarrow> kw) else kw)"
  using assms by (simp add: Let_def token_names_def split: option.split)

lemma two_not_one: "a \<noteq> b \<Longrightarrow> \<not> {a, b} \<subseteq> {x}"
  by blast

lemma build_ok:
  assumes "pf_token pf \<in> set token_names"
  shows "request_ok cf (build_chat_kwargs cf ms c mt jm lv pf seed)"
proof -
  let ?base = "[(''model'', JStr (if cf_model cf \<noteq> [] then cf_model cf else ''default'')), (''messages'', JList ms),
                (''stream'', JBool True), (''stream_options'', JObj [(''include_usage'', JBool True)])]"
  let ?first = "put (pf_token pf) (JInt mt) ?base"
  let ?P = "\<lambda>d. distinct (map fst d) \<and> fst ` set d \<inter> set token_names \<subseteq> {pf_token pf}"
  have first: "distinct (map fst ?first)" "fst ` set ?first = insert (pf_token pf) (fst ` set ?base)"
    by (rule put_distinct) (simp_all add: put_keys)
  let ?more = "without (pf_drop pf) (sampling_fields c seed)"
  have more: "distinct (map fst ?more)" "fst ` set ?more \<subseteq> set sampling_names"
    by (rule without_distinct) (auto simp: without_keys sampling_fields_def sampling_names_def)
  have base: "fst ` set ?base \<inter> set sampling_names = {}" "fst ` set ?base \<inter> set token_names = {}"
    by (simp_all add: sampling_names_def token_names_def)
  have token: "set token_names \<inter> set sampling_names = {}" by (simp add: sampling_names_def token_names_def)
  have keys: "fst ` set (?first @ ?more) = fst ` set ?first \<union> fst ` set ?more" by (simp only: set_append image_Un)
  have "distinct (map fst (?first @ ?more))"
  proof -
    have "fst ` set ?first \<inter> set sampling_names = {}" unfolding first(2) using base(1) token assms by blast
    then have "fst ` set ?first \<inter> fst ` set ?more = {}" using more(2) by blast
    with first(1) more(1) show ?thesis unfolding map_append distinct_append set_map by (intro conjI)
  qed
  moreover have "fst ` set (?first @ ?more) \<inter> set token_names \<subseteq> {pf_token pf}"
    unfolding keys first(2) using more(2) base(2) token by blast
  moreover have "?P ?first" using first base(2) by blast
  ultimately have P: "?P (if pf_sampling pf then ?first @ ?more else ?first)" by simp
  have step: "?P (put k v d)" if "?P d" "k \<notin> set token_names" for d k v
    using that by (auto simp: put_keys put_distinct)
  obtain d where d: "?P d" "build_chat_kwargs cf ms c mt jm lv pf seed = without (pf_drop pf) (without (unsupported_by (cf_adapter cf)) d)"
    using put_fields [of ?P, OF P step] unfolding build_chat_kwargs_def Let_def by blast
  have "fst ` set (build_chat_kwargs cf ms c mt jm lv pf seed) \<subseteq> fst ` set d - set (unsupported_by (cf_adapter cf))"
    unfolding d(2) without_keys by blast
  moreover have "distinct (map fst (build_chat_kwargs cf ms c mt jm lv pf seed))"
    unfolding d(2) by (intro without_distinct) (use d(1) in blast)
  moreover have "\<not> set token_names \<subseteq> {pf_token pf}"
    unfolding token_names_def list.set by (rule two_not_one) simp
  ultimately show ?thesis using d(1) unfolding request_ok_def by blast
qed

lemma profile_token: "tokens_ok (ln_learned s) \<Longrightarrow> pf_token (profile_of (ln_learned s) cf) \<in> set token_names"
proof (cases "map_of (ln_learned s) (profile_cache_key (cf_url cf) (cf_model cf))")
  case None
  then show ?thesis
    by (simp add: profile_of_def resolve_request_profile_def Let_def classic_profile_def openai_reasoning_profile_def token_names_def)
next
  case (Some pf)
  moreover assume "tokens_ok (ln_learned s)"
  ultimately have "pf_token pf \<in> set token_names" unfolding tokens_ok_def by blast
  then show ?thesis using Some by (simp add: profile_of_def resolve_request_profile_def)
qed

definition well_asked :: "'w line \<Rightarrow> bool" where
  "well_asked s \<longleftrightarrow> (\<forall>x\<in>set (ln_sent s). request_ok (fst x) (fst (snd x))) \<and> tokens_ok (ln_learned s)"

interpretation shapes: dialing well_asked "\<lambda>cf pf s. well_asked s \<and> pf_token pf \<in> set token_names"
proof
  show "ln_learned s = [] \<Longrightarrow> ln_sent s = [] \<Longrightarrow> well_asked s" for s :: "'w line" by (simp add: well_asked_def tokens_ok_def)
  show "well_asked s \<Longrightarrow> ln_learned t = ln_learned s \<Longrightarrow> ln_sent t = ln_sent s \<Longrightarrow> well_asked t" for s t :: "'w line"
    by (simp add: well_asked_def)
  show "well_asked s \<Longrightarrow> well_asked s \<and> pf_token (profile_of (ln_learned s) cf) \<in> set token_names" for s :: "'w line" and cf
    by (simp add: well_asked_def profile_token)
next
  fix cf pf ms c mt jm lv seed out and s t :: "'w line"
  assume "well_asked s \<and> pf_token pf \<in> set token_names" and "ln_learned t = ln_learned s"
    and "ln_sent t = ln_sent s @ [(cf, build_chat_kwargs cf ms c mt jm lv pf seed, out)]"
  then show "well_asked t" by (simp add: well_asked_def build_ok ball_Un)
next
  fix cf pf pf' ms c mt jm lv seed e and s t :: "'w line"
  assume w: "well_asked s \<and> pf_token pf \<in> set token_names" and "ln_learned t = ln_learned s"
    and "ln_sent t = ln_sent s @ [(cf, build_chat_kwargs cf ms c mt jm lv pf seed, Some e)]"
    and "apply_unsupported_param pf (blamed_param e) = Some pf'"
  then show "well_asked (remember_profile cf pf' t) \<and> pf_token pf' \<in> set token_names"
    using apply_Some(3) by (simp add: well_asked_def build_ok ball_Un tokens_ok_def update_conv)
qed blast

section \<open>The stream of events\<close>

definition channel_text :: "string \<Rightarrow> (string \<times> string) list \<Rightarrow> string" where
  "channel_text ch ds = concat (map snd (filter (\<lambda>d. fst d = ch) ds))"

lemma channel_text_simps [simp]:
  "channel_text ch [] = []" "channel_text ch (ds @ es) = channel_text ch ds @ channel_text ch es"
  "channel_text ch (flush_delta ch' x) = (if ch' = ch then x else [])"
  by (simp_all add: channel_text_def flush_delta_def)

definition adds_up :: "taken \<Rightarrow> bool" where
  "adds_up t \<longleftrightarrow> channel_text ''content'' (tk_deltas t) @ tk_pending_text t = tk_text t \<and>
     channel_text ''thinking'' (tk_deltas t) @ tk_pending_thinking t = tk_thinking t"

lemma adds_up_chunk: "adds_up t \<Longrightarrow> adds_up (take_chunk t c)"
  by (auto simp: adds_up_def take_chunk_def take_usage_def take_text_def take_thinking_def Let_def split: option.split)

lemma adds_up_chunks: "adds_up t \<Longrightarrow> adds_up (foldl take_chunk t cs)"
  by (induction cs arbitrary: t) (simp_all add: adds_up_chunk)

lemma take_stream_adds_up:
  assumes "sm_broken st = None"
  shows "channel_text ''content'' (tk_deltas (take_stream st)) = tk_text (take_stream st)"
    and "channel_text ''thinking'' (tk_deltas (take_stream st)) = tk_thinking (take_stream st)"
proof -
  have "adds_up (foldl take_chunk nothing_taken (sm_chunks st))"
    by (rule adds_up_chunks) (simp add: adds_up_def nothing_taken_def)
  then show "channel_text ''content'' (tk_deltas (take_stream st)) = tk_text (take_stream st)"
    and "channel_text ''thinking'' (tk_deltas (take_stream st)) = tk_thinking (take_stream st)"
    using assms by (simp_all add: adds_up_def take_stream_def take_rest_def Let_def)
qed

lemma open_stream_events: "open_stream wi cf body n pf failed s = (r, t) \<Longrightarrow> ln_events t = ln_events s"
proof (induction n arbitrary: pf failed s)
  case (Suc n)
  obtain r' u where u: "send wi cf (body pf) s = (r', u)" by fastforce
  then have "ln_events u = ln_events s" using send_Inr send_Inl by (cases r') blast+
  then show ?case using Suc u by (cases r') (auto split: if_split_asm option.split_asm)
qed simp

definition streamed :: "stream_context \<Rightarrow> event list \<Rightarrow> answer \<Rightarrow> event list \<Rightarrow> bool" where
  "streamed c before x after \<longleftrightarrow>
     (\<exists>ds. after = before @ start_event c (an_model x) (an_level x) @ concat (map (delta_event c) ds) @ finish_events c x \<and>
        channel_text ''content'' ds = an_text x \<and> channel_text ''thinking'' ds = an_thinking x)"

lemma receive_events:
  assumes "receive wi a cf fb ms t0 st s = (r, t)" and "ca_context a = Some c"
  shows "prefix (ln_events s) (ln_events t)" and
    "r = Inr x \<Longrightarrow> \<exists>ds. ln_events t = ln_events s @ concat (map (delta_event c) ds) @ finish_events c x \<and>
       channel_text ''content'' ds = an_text x \<and> channel_text ''thinking'' ds = an_thinking x \<and>
       an_model x = cf_backend cf @ ''/'' @ cf_model cf \<and> an_level x = thinking_for a cf"
  using assms take_stream_adds_up [of st] by (auto simp: receive_def Let_def told_def split: option.split_asm)

lemma call_single_events:
  assumes "call_single wi a i fb s = (r, t)" and "ca_context a = Some c"
  shows "prefix (ln_events s) (ln_events t) \<and> (\<forall>x. r = Inr x \<longrightarrow> streamed c (ln_events s) x (ln_events t))"
  using assms(1)
proof (cases rule: call_single_cases)
  case (early e)
  then show ?thesis by simp
next
  case (asked cf ms c0 u r' v)
  have v: "ln_events v = ln_events s @ start_event c (i @ ''/'' @ cf_model cf) (thinking_for a cf)"
    using open_stream_events [OF asked(4)] asked(3) assms(2) by (simp add: told_def)
  show ?thesis using asked(5)
  proof
    assume "\<exists>e. r' = Inl e \<and> r = Inl e \<and> t = v"
    then show ?thesis using v by auto
  next
    assume "\<exists>t0 st. r' = Inr (t0, st) \<and> receive wi a cf fb ms t0 st v = (r, t)"
    then obtain t0 st where st: "receive wi a cf fb ms t0 st v = (r, t)" by blast
    have "prefix (ln_events s) (ln_events t)" using receive_events(1) [OF st assms(2)] v by (metis prefix_order.trans prefixI)
    moreover have "streamed c (ln_events s) x (ln_events t)" if "r = Inr x" for x
      using receive_events(2) [OF st assms(2) that] v asked(1) unfolding streamed_def by auto
    ultimately show ?thesis by blast
  qed
qed

lemma candidates_events:
  assumes "ca_context a = Some c"
  shows "try_candidates wi a fb failed is s = (Inr x, t) \<Longrightarrow>
    \<exists>before. prefix (ln_events s) before \<and> streamed c before x (ln_events t)"
proof (induction "is" arbitrary: fb failed s)
  case (Cons i "is")
  obtain r' u where u: "call_single wi a i fb s = (r', u)" by fastforce
  note e = call_single_events [OF u assms]
  show ?case
  proof (cases r')
    case (Inl f)
    then have "try_candidates wi a True (Some f) is u = (Inr x, t)" using Cons.prems u by (auto split: if_split_asm)
    from Cons.IH [OF this] show ?thesis using e prefix_order.trans by blast
  next
    case (Inr y)
    then have "y = x" "u = t" using Cons.prems u by simp_all
    then show ?thesis using e Inr by blast
  qed
qed simp

section \<open>An example\<close>

text \<open>Two providers, and a wire that gives the answers of a list.\<close>

definition demo_provider :: "string \<Rightarrow> provider" where
  "demo_provider i =
     \<lparr>pv_id = i, pv_label = [], pv_url = i, pv_adapter = ''generic'', pv_model = ''m'', pv_models = [], pv_compat = ''auto'',
      pv_enabled = True, pv_context = None, pv_key = []\<rparr>"

definition demo_settings :: settings where
  "demo_settings =
     \<lparr>st_providers = [demo_provider ''a'', demo_provider ''b''], st_order = [], st_seed = 42, st_context = 0,
      st_roles = [(''worker'', \<lparr>ro_temperature = ''0.5'', ro_top_p = ''0.8'', ro_max_tokens = 9, ro_thinking = ''low'', ro_enabled = False\<rparr>)]\<rparr>"

definition demo_wire :: "(fault + stream) list wire" where
  "demo_wire =
     \<lparr>wi_settings = demo_settings, wi_post = (\<lambda>cf kw w. case w of [] \<Rightarrow> (Inl (Fault []), []) | x # xs \<Rightarrow> (x, xs)),
      wi_clock = (\<lambda>w. 0), wi_ms = int_str, wi_int = (\<lambda>j. None)\<rparr>"

definition demo_refusal :: "string \<Rightarrow> fault" where
  "demo_refusal p = Status 400 (JObj [(''error'', JObj [(''param'', JStr p), (''code'', JStr ''unsupported_parameter'')])]) ''x''"

definition demo_stream :: stream where
  "demo_stream =
     \<lparr>sm_chunks = [\<lparr>ck_choices = True, ck_reasoning = ''r'', ck_content = ''hi'', ck_usage = None, ck_at = 1\<rparr>], sm_broken = None, sm_end = 3\<rparr>"

definition demo_context :: stream_context where
  "demo_context = \<lparr>sc_call = ''c'', sc_role = ''worker'', sc_milestone = [], sc_phase = [], sc_kind = ''text'', sc_visible = True\<rparr>"

definition demo_ask :: call where
  "demo_ask =
     \<lparr>ca_prompt = ''q'', ca_max_tokens = 5, ca_system = [], ca_json = False, ca_role = ''worker'', ca_enable = None,
      ca_messages = None, ca_context = Some demo_context\<rparr>"

definition demo_line :: "(fault + stream) list \<Rightarrow> (fault + stream) list line" where
  "demo_line w = \<lparr>ln_learned = [], ln_sent = [], ln_events = [], ln_session = Missing, ln_world = w\<rparr>"

abbreviation demo_talk :: "(fault + stream) list \<Rightarrow> (fault + answer) \<times> (fault + stream) list line" where
  "demo_talk w \<equiv> call_llm demo_wire ''auto'' demo_ask (demo_line w)"

lemma demo_talking: "talking (snd (demo_talk w))"
  by (rule talking.called [of "demo_line w", OF talking.fresh surjective_pairing]) (simp_all add: demo_line_def)

definition demo_answered :: "(fault + stream) list \<Rightarrow> bool" where
  "demo_answered w = (case fst (demo_talk w) of Inr x \<Rightarrow> True | Inl e \<Rightarrow> False)"

section \<open>Properties\<close>

text \<open>
  Property C21. A call asks the providers of its chain one after the other, each at most five times. An answer comes
  from the last one asked and says whether it is a fallback. A failure means that every provider of the chain failed,
  or that one answered with a status the client does not go on from.
\<close>

theorem call_asks_in_order:
  assumes "call_llm wi model a s = (r, t)" and "candidate_ids (wi_settings wi) model = Inr is"
  shows "\<exists>ns new. ln_sent t = ln_sent s @ new \<and> length ns \<le> length is \<and> (\<forall>n\<in>set ns. n \<le> 5) \<and>
    map (\<lambda>x. cf_backend (fst x)) new = concat (map2 replicate ns is) \<and>
    (case r of
       Inr x \<Rightarrow> ns \<noteq> [] \<and> (\<exists>m. an_model x = is ! (length ns - 1) @ ''/'' @ m) \<and> an_fallback x = (1 < length ns)
     | Inl e \<Rightarrow> \<not> tries_next e \<or> (length ns = length is \<and> (\<exists>f. e = all_failed (Some f))))"
proof -
  have "is \<noteq> []" using assms(2) by (auto simp: candidate_ids_def split: if_split_asm)
  then have some: "is = [] \<Longrightarrow> (None :: fault option) \<noteq> None" by simp
  have "try_candidates wi a False None is s = (r, t)" using assms by (simp add: call_llm_def)
  from try_candidates_sent [OF this some] show ?thesis unfolding simp_thms .
qed

theorem call_asks_in_order_witness:
  "\<exists>x t (ns :: nat list). demo_talk [Inl (Fault ''x''), Inr demo_stream] = (Inr x, t) \<and> length ns \<le> 2 \<and> an_fallback x = (1 < length ns)"
proof -
  let ?w = "[Inl (Fault ''x''), Inr demo_stream]"
  have a: "demo_answered ?w" by code_simp
  then obtain x t where x: "demo_talk ?w = (Inr x, t)"
    unfolding demo_answered_def by (cases "demo_talk ?w") (auto split: sum.split_asm)
  have c: "candidate_ids (wi_settings demo_wire) ''auto'' = Inr [''a'', ''b'']" by code_simp
  obtain ns :: "nat list" where "length ns \<le> length [''a'', ''b'']" "an_fallback x = (1 < length ns)"
    using call_asks_in_order [OF x c] unfolding sum.case by (elim exE conjE) (rule that, assumption+)
  with x show ?thesis by (metis length_Cons list.size(3) numeral_2_eq_2)
qed



text \<open>
  Every request is well formed: its keys are distinct, it never carries both names of the token limit,
  and it carries no parameter the adapter of its provider is known not to take.
\<close>

lemma requests_well_formed:
  assumes "talking s" and "(cf, kw, out) \<in> set (ln_sent s)"
  shows "distinct (map fst kw) \<and> \<not> {''max_tokens'', ''max_completion_tokens''} \<subseteq> fst ` set kw \<and>
    (cf_adapter cf = ''gemini_openai'' \<longrightarrow> ''seed'' \<notin> fst ` set kw \<and> ''stream_options'' \<notin> fst ` set kw)"
proof -
  have "request_ok cf kw" using shapes.talking_keeps [OF assms(1)] assms(2) by (auto simp: well_asked_def)
  then have ok: "distinct (map fst kw)" "\<not> set token_names \<subseteq> fst ` set kw"
    and keys: "fst ` set kw \<inter> set (unsupported_by (cf_adapter cf)) = {}"
    unfolding request_ok_def by blast+
  have "{''max_tokens'', ''max_completion_tokens''} = set token_names" by (simp add: token_names_def)
  with ok keys show ?thesis
    by (cases "cf_adapter cf = ''gemini_openai''") (simp_all only: unsupported_by_def if_True list.set disjoint_iff insert_iff simp_thms, blast+)
qed

text \<open>
  Property C23. What is streamed adds up to the answer: after whatever earlier providers left in the stream, an answer
  is announced, its pieces follow, and the end repeats it; the pieces of each channel, put together, are the
  text and the reasoning returned to the caller.
\<close>

theorem stream_adds_up:
  assumes "call_llm wi model a s = (Inr x, t)" and "ca_context a = Some c"
  shows "\<exists>before ds. prefix (ln_events s) before \<and>
    ln_events t = before @ start_event c (an_model x) (an_level x) @ concat (map (delta_event c) ds) @ finish_events c x \<and>
    concat (map snd (filter (\<lambda>d. fst d = ''content'') ds)) = an_text x \<and>
    concat (map snd (filter (\<lambda>d. fst d = ''thinking'') ds)) = an_thinking x"
proof -
  obtain "is" where "try_candidates wi a False None is s = (Inr x, t)"
    using assms(1) by (auto simp: call_llm_def split: sum.split_asm)
  from candidates_events [OF assms(2) this] show ?thesis unfolding streamed_def channel_text_def by blast
qed

theorem stream_adds_up_witness:
  "\<exists>x t ds. demo_talk [Inr demo_stream] = (Inr x, t) \<and> concat (map snd (filter (\<lambda>d. fst d = ''content'') ds)) = an_text x"
proof -
  have "demo_answered [Inr demo_stream]" by code_simp
  then obtain x t where x: "demo_talk [Inr demo_stream] = (Inr x, t)"
    unfolding demo_answered_def by (cases "demo_talk [Inr demo_stream]") (auto split: sum.split_asm)
  have c: "ca_context demo_ask = Some demo_context" by (simp add: demo_ask_def)
  from stream_adds_up [OF x c] x show ?thesis by blast
qed

text \<open>
  A provider that refuses both names of the token limit is asked five times, under either name in turn.
\<close>

lemma token_limit_renamed_in_turn:
  "let refuse = (\<lambda>p. Inl (demo_refusal p)); long = ''max_completion_tokens''; short = ''max_tokens'';
       s = snd (demo_talk [refuse short, refuse long, refuse short, refuse long, refuse short])
   in map (\<lambda>x. (cf_backend (fst x), map_of (fst (snd x)) short \<noteq> None)) (take 5 (ln_sent s)) =
        [(''a'', True), (''a'', False), (''a'', True), (''a'', False), (''a'', True)]"
  by code_simp

text \<open>An unknown model at the first provider ends the call, although the next provider would answer.\<close>

lemma unknown_model_ends_chain:
  "fst (demo_talk [Inl (Status 404 JNull ''no such model''), Inr demo_stream]) = Inl (Status 404 JNull ''no such model'')"
  by code_simp

text \<open>A session file that cannot be read is replaced by one that holds nothing but the usage.\<close>

lemma unreadable_session_replaced:
  "record_session_tokens other 3 4 False Unreadable =
     Holding (JObj [(''token_usage'', JObj [(''prompt'', JInt 3), (''generated'', JInt 4), (''calls'', JInt 1), (''estimated_calls'', JInt 0)])])"
  by (simp add: record_session_tokens_def merge_token_usage_def add_usage_def empty_token_usage_def usage_keys_def)

text \<open>The parameter that makes a stream can be dropped like any other.\<close>

lemma stream_flag_dropped:
  "map_of (fst (snd (ln_sent (snd (demo_talk [Inl (demo_refusal ''stream''), Inr demo_stream])) ! 1))) ''stream'' = None"
  by code_simp

text \<open>The effort \<open>high\<close> of a role becomes \<open>medium\<close> at Gemini, whose own \<open>high\<close> no setting reaches.\<close>

lemma gemini_high_is_medium:
  assumes "ro_enabled c" and "py_lower (py_strip (ro_thinking c)) = ''high''" and "ro_thinking c \<noteq> []"
  shows "normalize_thinking c ''gemini_openai'' r = ''medium''"
  using assms by (simp add: normalize_thinking_def Let_def)

end
