(* ===== verification/ToolRouter.thy ===== *)
theory ToolRouter
  imports Complex_Main PyRegex Effects
begin

text \<open>
  \<open>src/tool_registry.py\<close>: the search for tools. Skills are parsed from a document and indexed in a vector store;
  a query is answered by the fusion of two rankings of the store or, without it, by keywords. The state is a record
  \<open>router\<close>; settings, encoder and store are a record \<open>shop\<close>. Floating-point numbers are rationals and the
  logarithm is a parameter.
\<close>

section \<open>Skills\<close>

record skill =
  sk_id :: nat
  sk_name :: string
  sk_raw :: string
  sk_keywords :: "string list"
  sk_base :: "string list"
  sk_tokens :: "string list"

datatype query = Dense "rat list" | Sparse "nat list" "rat list"

record point =
  pt_id :: nat
  pt_dense :: "rat list"
  pt_indices :: "nat list"
  pt_values :: "rat list"
  pt_name :: string
  pt_raw :: string
  pt_keywords :: "string list"

text \<open>\<open>ro_meta\<close> is the file with the hash of the last index, \<open>ro_upserts\<close> what was written to the store, in order.\<close>

record 'w router =
  ro_skills :: "skill list"
  ro_client :: bool
  ro_encoder :: string
  ro_mode :: string
  ro_error :: "string option"
  ro_vocab :: "(string \<times> nat) list"
  ro_freq :: "(string \<times> nat) list"
  ro_total :: nat
  ro_valid :: bool
  ro_meta :: obj
  ro_upserts :: "point list list"
  ro_world :: 'w

text \<open>
  \<open>se_order\<close> is the order in which Python iterates over a set of strings, which differs from process to process.
\<close>

record 'w shop =
  se_backend :: string
  se_openai_key :: string
  se_mode :: string
  se_url :: string
  se_collection :: string
  se_has_st :: bool
  se_has_qdrant :: bool
  se_load_hf :: "'w \<Rightarrow> unit res \<times> 'w"
  se_open_ai :: "'w \<Rightarrow> unit res \<times> 'w"
  se_connect :: "'w \<Rightarrow> unit res \<times> 'w"
  se_ensure :: "'w \<Rightarrow> unit res \<times> 'w"
  se_encode :: "string \<Rightarrow> bool \<Rightarrow> string \<Rightarrow> 'w \<Rightarrow> rat list res \<times> 'w"
  se_upsert :: "point list \<Rightarrow> 'w \<Rightarrow> unit res \<times> 'w"
  se_query :: "query \<Rightarrow> nat \<Rightarrow> 'w \<Rightarrow> nat list res \<times> 'w"
  se_read :: "'w \<Rightarrow> string res"
  se_write_meta :: "obj \<Rightarrow> 'w \<Rightarrow> unit res \<times> 'w"
  se_digest :: "string \<Rightarrow> string"
  se_order :: "string list \<Rightarrow> string list"
  se_log :: "rat \<Rightarrow> rat"
  se_exn :: "pyexn \<Rightarrow> string"

type_synonym ('w, 'a) errand = "('w router, 'a) act"

definition outside :: "('w \<Rightarrow> 'a res \<times> 'w) \<Rightarrow> ('w, 'a) errand" where
  "outside f s = (case f (ro_world s) of (r, w) \<Rightarrow> (r, s\<lparr>ro_world := w\<rparr>))"

section \<open>Set-up\<close>

definition use_encoder :: "string \<Rightarrow> ('w, unit) errand" where
  "use_encoder e = updA (\<lambda>s. s\<lparr>ro_encoder := e\<rparr>)"

definition init_openai :: "'w shop \<Rightarrow> string \<Rightarrow> ('w, unit) errand" where
  "init_openai se backend =
     (if (backend = ''auto'' \<or> backend = ''openai'') \<and> se_openai_key se \<noteq> [] then
        tryA (bindA (outside (se_open_ai se)) (\<lambda>_. use_encoder ''openai'')) (\<lambda>e. use_encoder ''none'')
      else use_encoder ''none'')"

definition init_encoder :: "'w shop \<Rightarrow> ('w, unit) errand" where
  "init_encoder se =
     (let backend = py_lower (py_strip (if se_backend se \<noteq> [] then se_backend se else ''auto''))
      in if backend = ''none'' then use_encoder ''none''
         else if (backend = ''auto'' \<or> backend = ''hf'') \<and> se_has_st se then
           bindA (tryA (bindA (outside (se_load_hf se)) (\<lambda>_. returnA True)) (\<lambda>e. returnA False)) (\<lambda>loaded.
             if loaded then use_encoder ''hf'' else if backend = ''hf'' then use_encoder ''none'' else init_openai se backend)
         else init_openai se backend)"

definition failed_store :: "string \<Rightarrow> ('w, unit) errand" where
  "failed_store why = updA (\<lambda>s. s\<lparr>ro_error := Some why, ro_client := False\<rparr>)"

definition init_qdrant :: "'w shop \<Rightarrow> ('w, unit) errand" where
  "init_qdrant se =
     bindA (updA (\<lambda>s. s\<lparr>ro_mode := se_mode se\<rparr>)) (\<lambda>_.
       if se_mode se = ''off'' then returnA ()
       else if \<not> se_has_qdrant se then updA (\<lambda>s. s\<lparr>ro_error := Some ''qdrant-client not installed''\<rparr>)
       else
         tryA
           (bindA (if se_mode se = ''http'' \<and> se_url se = [] then raiseA (RuntimeError ''qdrant.mode=http but url is empty'')
                   else outside (se_connect se)) (\<lambda>_.
            bindA (updA (\<lambda>s. s\<lparr>ro_client := True\<rparr>)) (\<lambda>_. outside (se_ensure se))))
           (\<lambda>e. failed_store (se_exn se e)))"

definition collection :: "'w shop \<Rightarrow> string" where
  "collection se = (if se_collection se \<noteq> [] then se_collection se else ''agent_skills'')"

definition status :: "'w shop \<Rightarrow> ('w, obj) errand" where
  "status se =
     getA (\<lambda>s. [(''mode'', JStr (ro_mode s)), (''reachable'', JBool (ro_client s)),
       (''error'', case ro_error s of Some e \<Rightarrow> JStr e | None \<Rightarrow> JNull), (''encoder'', JStr (ro_encoder s)),
       (''collection'', JStr (collection se)), (''skill_count'', JInt (int (length (ro_skills s))))])"

section \<open>Parsing\<close>

definition token_char :: "char \<Rightarrow> bool" where
  "token_char c \<longleftrightarrow> is_word c \<and> ord c < 128 \<and> lower_char c = c"

fun runs :: "string \<Rightarrow> string \<Rightarrow> string list" where
  "runs acc [] = [rev acc]"
| "runs acc (c # cs) = (if token_char c then runs (c # acc) cs else rev acc # runs [] cs)"

definition tokenize :: "string \<Rightarrow> string list" where
  "tokenize text = filter (\<lambda>t. 1 < length t) (runs [] (py_lower text))"

definition nonspace :: rx where
  "nonspace = Chars (\<lambda>c. \<not> is_space c)"

definition skill_parts :: parts where
  "skill_parts =
     [(False, Seq (lit ''<!-- SKILL_START:'') Spaces), (True, Seq nonspace (LazyStar nonspace)), (False, Seq Spaces (lit ''-->'')),
      (True, LazyStar (Chars (\<lambda>_. True))), (False, lit ''<!-- SKILL_END -->'')]"

definition keyword_parts :: parts where
  "keyword_parts = [(False, Seq (lit ''**Keywords:**'') Spaces), (True, Plus (Chars (\<lambda>c. c \<noteq> nl)))]"

definition keywords_of :: "string \<Rightarrow> string list" where
  "keywords_of clean =
     (case rx_groups keyword_parts clean of
        Some (g # gs) \<Rightarrow> filter (\<lambda>k. k \<noteq> []) (map py_strip (split_on (CHR '','') g))
      | _ \<Rightarrow> [])"

definition keyword_boost :: nat where "keyword_boost = 2"

definition skill_of :: "nat \<Rightarrow> string list \<Rightarrow> skill" where
  "skill_of i groups =
     (let clean = py_strip (groups ! 1); base = tokenize clean; kws = keywords_of clean
      in \<lparr>sk_id = i, sk_name = groups ! 0, sk_raw = clean, sk_keywords = kws, sk_base = base,
          sk_tokens = base @ concat (replicate keyword_boost (map py_lower kws))\<rparr>)"

definition parse_skills :: "string \<Rightarrow> skill list" where
  "parse_skills content = map (\<lambda>(i, g). skill_of i g) (enumerate 0 (rx_all skill_parts content))"

section \<open>The sparse vectors\<close>

text \<open>Vocabulary and document frequencies: one pass over the set of tokens of each skill.\<close>

definition count_token :: "(string \<times> nat) list \<times> (string \<times> nat) list \<Rightarrow> string \<Rightarrow> (string \<times> nat) list \<times> (string \<times> nat) list" where
  "count_token st t =
     (case st of (vocab, freq) \<Rightarrow>
        (if map_of vocab t = None then vocab @ [(t, length vocab)] else vocab, AList.update t (dget freq t 0 + 1) freq))"

definition bm25_stats :: "(string list \<Rightarrow> string list) \<Rightarrow> skill list \<Rightarrow> (string \<times> nat) list \<times> (string \<times> nat) list" where
  "bm25_stats order skills = foldl (\<lambda>st s. foldl count_token st (order (remdups (sk_tokens s)))) ([], []) skills"

definition rebuild_bm25_stats :: "'w shop \<Rightarrow> ('w, unit) errand" where
  "rebuild_bm25_stats se =
     updA (\<lambda>s. case bm25_stats (se_order se) (ro_skills s) of
         (vocab, freq) \<Rightarrow> s\<lparr>ro_vocab := vocab, ro_freq := freq, ro_total := sum_list (map (length \<circ> sk_tokens) (ro_skills s)),
                          ro_valid := True\<rparr>)"

definition counts :: "string list \<Rightarrow> (string \<times> nat) list" where
  "counts tokens = foldl (\<lambda>d t. AList.update t (dget d t 0 + 1) d) [] tokens"

definition average_length :: "'w router \<Rightarrow> rat" where
  "average_length s = of_nat (ro_total s) / of_nat (max 1 (length (ro_skills s)))"

definition weight :: "'w shop \<Rightarrow> 'w router \<Rightarrow> nat \<Rightarrow> string \<Rightarrow> nat \<Rightarrow> rat" where
  "weight se s doc_len t tf =
     (let n = of_nat (max 1 (length (ro_skills s))); f = of_nat (dget (ro_freq s) t 0);
          idf = se_log se ((n - f + 1 / 2) / (f + 1 / 2) + 1);
          norm = (of_nat tf * (5 / 2)) / (of_nat tf + 3 / 2 * (1 / 4 + 3 / 4 * of_nat doc_len / max (average_length s) 1))
      in idf * norm)"

definition bm25_vector :: "'w shop \<Rightarrow> 'w router \<Rightarrow> string list \<Rightarrow> nat list \<times> rat list" where
  "bm25_vector se s tokens =
     (let known = filter (\<lambda>(t, n). map_of (ro_vocab s) t \<noteq> None) (counts tokens)
      in (map (\<lambda>(t, n). the (map_of (ro_vocab s) t)) known, map (\<lambda>(t, n). weight se s (length tokens) t n) known))"

definition bm25_query_vector :: "'w shop \<Rightarrow> 'w router \<Rightarrow> string list \<Rightarrow> nat list \<times> rat list" where
  "bm25_query_vector se s tokens = (if ro_skills s = [] \<or> \<not> ro_valid s then ([], []) else bm25_vector se s tokens)"

section \<open>Indexing\<close>

definition encode :: "'w shop \<Rightarrow> bool \<Rightarrow> string \<Rightarrow> ('w, rat list) errand" where
  "encode se asked text =
     bindA (getA ro_encoder) (\<lambda>b. if b = ''none'' then returnA [] else outside (se_encode se b asked text))"

definition skills_hash :: "'w shop \<Rightarrow> string \<Rightarrow> 'w router \<Rightarrow> string" where
  "skills_hash se content s = se_digest se content @ '':'' @ ro_encoder s @ '':'' @ collection se"

definition point_of :: "'w shop \<Rightarrow> 'w router \<Rightarrow> skill \<Rightarrow> rat list \<Rightarrow> point" where
  "point_of se s k dense =
     (case bm25_vector se s (sk_tokens k) of
        (is, vs) \<Rightarrow> \<lparr>pt_id = sk_id k, pt_dense = dense, pt_indices = is, pt_values = vs, pt_name = sk_name k, pt_raw = sk_raw k,
                     pt_keywords = sk_keywords k\<rparr>)"

primrec points_of :: "'w shop \<Rightarrow> skill list \<Rightarrow> ('w, point list) errand" where
  "points_of se [] = returnA []"
| "points_of se (k # ks) =
     bindA (encode se False (sk_raw k)) (\<lambda>dense.
     bindA (getA (\<lambda>s. point_of se s k dense)) (\<lambda>p.
     bindA (points_of se ks) (\<lambda>ps. returnA (p # ps))))"

definition store_points :: "'w shop \<Rightarrow> string \<Rightarrow> point list \<Rightarrow> ('w, unit) errand" where
  "store_points se content points =
     tryA
       (bindA (outside (se_upsert se points)) (\<lambda>_.
        bindA (updA (\<lambda>s. s\<lparr>ro_upserts := ro_upserts s @ [points]\<rparr>)) (\<lambda>_.
        bindA (getA (\<lambda>s. [(''hash'', JStr (skills_hash se content s)), (''count'', JInt (int (length points)))])) (\<lambda>meta.
        bindA (outside (se_write_meta se meta)) (\<lambda>_. updA (\<lambda>s. s\<lparr>ro_meta := meta\<rparr>))))))
       (\<lambda>e. updA (\<lambda>s. s\<lparr>ro_error := Some (se_exn se e)\<rparr>))"

definition parse_and_index_skills :: "'w shop \<Rightarrow> ('w, nat) errand" where
  "parse_and_index_skills se =
     bindA (getA (\<lambda>s. se_read se (ro_world s))) (\<lambda>t. bindA (liftA t) (\<lambda>content.
     bindA (updA (\<lambda>s. s\<lparr>ro_skills := parse_skills content\<rparr>)) (\<lambda>_.
     bindA (rebuild_bm25_stats se) (\<lambda>_.
     bindA (getA (\<lambda>s. ro_client s \<and> ro_encoder s \<noteq> ''none'' \<and>
              dget (ro_meta s) ''hash'' JNull \<noteq> JStr (skills_hash se content s))) (\<lambda>stale.
     bindA (getA ro_skills) (\<lambda>skills.
     bindA (whenA stale (bindA (points_of se skills) (\<lambda>ps. whenA (ps \<noteq> []) (store_points se content ps)))) (\<lambda>_.
       returnA (length skills))))))))"

text \<open>\<open>DynamicToolRouter(path)\<close>, with what earlier processes left in the meta file and the store.\<close>

definition new_router :: "obj \<Rightarrow> 'w \<Rightarrow> 'w router" where
  "new_router meta w =
     \<lparr>ro_skills = [], ro_client = False, ro_encoder = ''none'', ro_mode = ''off'', ro_error = None, ro_vocab = [], ro_freq = [],
      ro_total = 0, ro_valid = False, ro_meta = meta, ro_upserts = [], ro_world = w\<rparr>"

definition dynamic_tool_router :: "'w shop \<Rightarrow> ('w, nat) errand" where
  "dynamic_tool_router se = bindA (init_encoder se) (\<lambda>_. bindA (init_qdrant se) (\<lambda>_. parse_and_index_skills se))"

section \<open>Retrieval\<close>

definition rule :: string where "rule = [nl, nl] @ ''---'' @ [nl, nl]"

definition keyword_score :: "string \<Rightarrow> skill \<Rightarrow> nat" where
  "keyword_score asked k =
     card (set (tokenize asked) \<inter> set (sk_base k)) + 2 * length (filter (\<lambda>kw. contains kw (py_lower asked)) (sk_keywords k))"

definition ranked :: "string \<Rightarrow> skill list \<Rightarrow> skill list" where
  "ranked asked skills = sort_key (\<lambda>k. - int (keyword_score asked k)) skills"

definition keyword_fallback :: "string \<Rightarrow> nat \<Rightarrow> skill list \<Rightarrow> string" where
  "keyword_fallback asked top_k skills = py_join rule (map sk_raw (take top_k (ranked asked skills)))"

definition fuse :: "nat \<Rightarrow> nat list \<Rightarrow> (nat \<times> rat) list \<Rightarrow> (nat \<times> rat) list" where
  "fuse rrf_k hits scores =
     foldl (\<lambda>d (rank, i). AList.update i (dget d i 0 + 1 / of_nat (rrf_k + rank + 1)) d) scores (enumerate 0 hits)"

definition fused_ids :: "nat \<Rightarrow> nat list \<Rightarrow> nat list \<Rightarrow> nat list" where
  "fused_ids rrf_k dense sparse = map fst (sort_key (\<lambda>(i, x). - x) (fuse rrf_k sparse (fuse rrf_k dense [])))"

definition skill_by_id :: "skill list \<Rightarrow> nat \<Rightarrow> skill option" where
  "skill_by_id skills i = find (\<lambda>k. sk_id k = i) skills"

definition hybrid_search :: "'w shop \<Rightarrow> string \<Rightarrow> nat \<Rightarrow> nat \<Rightarrow> ('w, string) errand" where
  "hybrid_search se asked top_k rrf_k =
     bindA (encode se True asked) (\<lambda>dense.
     bindA (getA (\<lambda>s. bm25_query_vector se s (tokenize asked))) (\<lambda>(is, vs).
     bindA (outside (se_query se (Dense dense) (top_k * 2))) (\<lambda>dense_hits.
     bindA (outside (se_query se (Sparse is vs) (top_k * 2))) (\<lambda>sparse_hits.
       getA (\<lambda>s. py_join rule (map sk_raw (List.map_filter (skill_by_id (ro_skills s))
         (take top_k (fused_ids rrf_k dense_hits sparse_hits)))))))))"

definition fetch_curated_skills :: "'w shop \<Rightarrow> string \<Rightarrow> nat \<Rightarrow> nat \<Rightarrow> ('w, string) errand" where
  "fetch_curated_skills se asked top_k rrf_k =
     bindA (getA (\<lambda>s. (ro_skills s, ro_client s \<and> ro_encoder s \<noteq> ''none''))) (\<lambda>(skills, vectors).
       if skills = [] then returnA []
       else if vectors then
         tryA (hybrid_search se asked top_k rrf_k) (\<lambda>e. returnA (keyword_fallback asked top_k skills))
       else returnA (keyword_fallback asked top_k skills))"

record found =
  fo_query :: string
  fo_tools :: "string list"
  fo_documentation :: string

definition search_tools :: "'w shop \<Rightarrow> string \<Rightarrow> int \<Rightarrow> nat \<Rightarrow> ('w, found) errand" where
  "search_tools se asked top_k rrf_k =
     bindA (fetch_curated_skills se asked (nat (max 1 (min top_k 5))) rrf_k) (\<lambda>text.
       getA (\<lambda>s. \<lparr>fo_query = asked, fo_tools = map sk_name (filter (\<lambda>k. contains (sk_raw k) text) (ro_skills s)),
         fo_documentation = text\<rparr>))"

text \<open>The answer to the worker.\<close>

definition found_dict :: "found \<Rightarrow> obj" where
  "found_dict f =
     [(''success'', JBool True), (''query'', JStr (fo_query f)), (''tools'', jstrs (fo_tools f)),
      (''documentation'', JStr (fo_documentation f)), (''count'', JInt (int (length (fo_tools f))))]"

definition list_skills :: "('w, string list) errand" where
  "list_skills = getA (\<lambda>s. map sk_name (ro_skills s))"

definition skill_named :: "string \<Rightarrow> 'w router \<Rightarrow> skill option" where
  "skill_named name s = find (\<lambda>k. sk_name k = name) (ro_skills s)"

definition get_skill_by_name :: "string \<Rightarrow> ('w, string option) errand" where
  "get_skill_by_name name = getA (\<lambda>s. map_option sk_raw (skill_named name s))"

definition get_skill_keywords :: "string \<Rightarrow> ('w, string list) errand" where
  "get_skill_keywords name = getA (\<lambda>s. case skill_named name s of Some k \<Rightarrow> sk_keywords k | None \<Rightarrow> [])"

definition close :: "('w, unit) errand" where
  "close = updA (\<lambda>s. s\<lparr>ro_client := False\<rparr>)"

end
