(* ===== verification/ToolRouterLaws.thy ===== *)
theory ToolRouterLaws
  imports ToolRouter
begin

text \<open>
  What a search for tools reveals, the statistics behind the sparse ranking, and when the index goes stale.
\<close>

section \<open>Ranking\<close>

lemma sorted_take_drop:
  assumes "sorted (map f xs)" and "x \<in> set (take n xs)" and "y \<in> set (drop n xs)"
  shows "f x \<le> f y"
proof -
  have "sorted (map f (take n xs) @ map f (drop n xs))" using assms(1) by (simp flip: map_append)
  then show ?thesis using assms(2,3) by (auto simp: sorted_append)
qed

lemma ranked_best:
  assumes "k \<in> set (take n (ranked asked skills))" and "k' \<in> set skills" and "k' \<notin> set (take n (ranked asked skills))"
  shows "keyword_score asked k' \<le> keyword_score asked k"
proof -
  let ?f = "\<lambda>k. - int (keyword_score asked k)"
  have "set (ranked asked skills) = set skills" by (simp add: ranked_def)
  then have "k' \<in> set (drop n (ranked asked skills))"
    using assms(2,3) by (metis Un_iff append_take_drop_id set_append)
  moreover have "sorted (map ?f (ranked asked skills))" by (simp add: ranked_def)
  ultimately have "?f k \<le> ?f k'" by (intro sorted_take_drop [OF _ assms(1)])
  then show ?thesis by simp
qed

lemma sublist_join: "x \<in> set xs \<Longrightarrow> sublist x (py_join sep xs)"
proof (induction sep xs rule: py_join.induct)
  case (3 sep u y zs)
  show ?case
  proof (cases "x = u")
    case True
    then show ?thesis by simp
  next
    case False
    then obtain a b where "py_join sep (y # zs) = a @ x @ b" using 3 by (auto simp: sublist_def)
    then have "py_join sep (u # y # zs) = (u @ sep @ a) @ x @ b" by simp
    then show ?thesis unfolding sublist_def by blast
  qed
qed auto

lemma fallback_documents:
  "k \<in> set (take n (ranked asked skills)) \<Longrightarrow> contains (sk_raw k) (keyword_fallback asked n skills)"
  unfolding contains_sublist keyword_fallback_def by (intro sublist_join) simp

section \<open>The state of the router\<close>

definition same_index :: "'w router \<Rightarrow> 'w router \<Rightarrow> bool" where
  "same_index s t \<longleftrightarrow> (\<exists>w. t = s\<lparr>ro_world := w\<rparr>)"

interpretation index: frame same_index
proof
  show "same_index s s" for s :: "'w router" unfolding same_index_def by (rule exI [of _ "ro_world s"]) simp
  show "same_index s t \<Longrightarrow> same_index t u \<Longrightarrow> same_index s u" for s t u :: "'w router" by (auto simp: same_index_def)
qed

lemma index_outside: "index.framed (outside f)"
  by (rule index.framedI) (auto simp: outside_def same_index_def split: prod.split)

lemma index_encode: "index.framed (encode se asked text)"
  unfolding encode_def by (intro index.framed_rules index_outside)

lemma index_fetch: "index.framed (fetch_curated_skills se asked n k)"
  unfolding fetch_curated_skills_def hybrid_search_def
  by (intro index.framed_rules index_outside index_encode)

lemma fetch_outcome:
  assumes "fetch_curated_skills se asked n k s = (r, t)"
  shows "\<exists>doc. r = Inr doc \<and> (\<not> (ro_client s \<and> ro_encoder s \<noteq> ''none'') \<longrightarrow>
    doc = (if ro_skills s = [] then [] else keyword_fallback asked n (ro_skills s)))"
  using assms
  by (cases "hybrid_search se asked n k s" rule: prod.exhaust)
     (auto simp: fetch_curated_skills_def bindA_def getA_def tryA_def returnA_def split: if_split_asm sum.split_asm)

section \<open>Properties\<close>

text \<open>
  Property C24. The search for tools does not fail, whatever encoder and store do, leaves the index as it is, and
  reveals exactly the skills whose text its documentation holds. Without a vector store these are at least the
  best ones: of the skills shown none has a lower keyword score than one that is not shown, and all are revealed.
\<close>

theorem tool_search_reveals_best:
  assumes "search_tools se asked top_k rrf_k s = (r, t)"
  shows "\<exists>f. r = Inr f \<and> t = s\<lparr>ro_world := ro_world t\<rparr> \<and>
    fo_tools f = map sk_name (filter (\<lambda>k. contains (sk_raw k) (fo_documentation f)) (ro_skills s)) \<and>
    (\<not> (ro_client s \<and> ro_encoder s \<noteq> ''none'') \<longrightarrow> ro_skills s \<noteq> [] \<longrightarrow>
      (\<exists>best. best = take (nat (max 1 (min top_k 5))) (ranked asked (ro_skills s)) \<and>
        fo_documentation f = py_join rule (map sk_raw best) \<and> sk_name ` set best \<subseteq> set (fo_tools f) \<and>
        (\<forall>k\<in>set best. \<forall>k'\<in>set (ro_skills s) - set best. keyword_score asked k' \<le> keyword_score asked k)))"
proof -
  let ?n = "nat (max 1 (min top_k 5))" and ?best = "take (nat (max 1 (min top_k 5))) (ranked asked (ro_skills s))"
  obtain r' u where u: "fetch_curated_skills se asked ?n rrf_k s = (r', u)" by fastforce
  from fetch_outcome [OF u] obtain doc where doc: "r' = Inr doc"
    "\<not> (ro_client s \<and> ro_encoder s \<noteq> ''none'') \<longrightarrow> doc = (if ro_skills s = [] then [] else keyword_fallback asked ?n (ro_skills s))"
    by blast
  have same: "u = s\<lparr>ro_world := ro_world u\<rparr>" and skills: "ro_skills u = ro_skills s"
    using index.framedD [OF index_fetch u] by (auto simp: same_index_def)
  let ?f = "\<lparr>fo_query = asked, fo_tools = map sk_name (filter (\<lambda>k. contains (sk_raw k) doc) (ro_skills s)), fo_documentation = doc\<rparr>"
  have r: "r = Inr ?f" "t = u"
    using assms u doc(1) skills by (simp_all add: search_tools_def bindA_def getA_def)
  have sub: "set ?best \<subseteq> set (ro_skills s)" by (metis ranked_def set_sort set_take_subset)
  have "sk_name ` set ?best \<subseteq> set (fo_tools ?f)" if "doc = keyword_fallback asked ?n (ro_skills s)"
    using fallback_documents [of _ ?n asked "ro_skills s"] sub that by auto
  moreover have "\<forall>k\<in>set ?best. \<forall>k'\<in>set (ro_skills s) - set ?best. keyword_score asked k' \<le> keyword_score asked k"
    using ranked_best by blast
  ultimately show ?thesis using r same doc(2)
    by (intro exI [of _ ?f]) (auto simp: keyword_fallback_def)
qed

section \<open>Examples\<close>

definition demo_shop :: "(string list \<Rightarrow> string list) \<Rightarrow> rat list res \<Rightarrow> unit shop" where
  "demo_shop order vector =
     \<lparr>se_backend = ''hf'', se_openai_key = [], se_mode = ''embedded'', se_url = [], se_collection = ''c'', se_has_st = True,
      se_has_qdrant = True, se_load_hf = Pair (Inr ()), se_open_ai = Pair (Inr ()), se_connect = Pair (Inr ()),
      se_ensure = Pair (Inr ()), se_encode = (\<lambda>b q t w. (vector, w)), se_upsert = (\<lambda>ps w. (Inr (), w)),
      se_query = (\<lambda>q n w. (Inl OSError, w)),
      se_read = (\<lambda>w. Inr ''<!-- SKILL_START: s -->xx yy<!-- SKILL_END -->''), se_write_meta = (\<lambda>m w. (Inr (), w)),
      se_digest = id, se_order = order, se_log = id, se_exn = (\<lambda>e. ''x'')\<rparr>"

abbreviation demo_start :: "unit router" where
  "demo_start \<equiv> new_router [] ()"

theorem tool_search_reveals_best_witness:
  "\<exists>f t. search_tools (demo_shop id (Inr [])) ''xx'' 3 60 (demo_start\<lparr>ro_skills := [skill_of 0 [''s'', ''xx'']]\<rparr>) = (Inr f, t) \<and>
     fo_tools f = [''s'']"
proof -
  let ?s = "demo_start\<lparr>ro_skills := [skill_of 0 [''s'', ''xx'']]\<rparr>"
  obtain r t where x: "search_tools (demo_shop id (Inr [])) ''xx'' 3 60 ?s = (r, t)" by fastforce
  obtain f best where f: "r = Inr f" "best = take 3 (ranked ''xx'' (ro_skills ?s))" "sk_name ` set best \<subseteq> set (fo_tools f)"
    "fo_tools f = map sk_name (filter (\<lambda>k. contains (sk_raw k) (fo_documentation f)) (ro_skills ?s))"
    using tool_search_reveals_best [OF x] by (auto simp: new_router_def)
  then have "fo_tools f = [''s'']" by (auto simp: ranked_def skill_of_def new_router_def Let_def split: if_split_asm)
  with x f(1) show ?thesis by blast
qed

text \<open>A document that has not changed is not written to the store again.\<close>

lemma unchanged_document_not_indexed:
  assumes "se_read se (ro_world s) = Inr content" and "dget (ro_meta s) ''hash'' JNull = JStr (skills_hash se content s)"
  shows "ro_upserts (snd (parse_and_index_skills se s)) = ro_upserts s"
proof -
  have "dget (ro_meta s) ''hash'' JNull = JStr (skills_hash se content (s\<lparr>ro_skills := k, ro_vocab := a, ro_freq := b, ro_total := n, ro_valid := v\<rparr>))"
    for k a b n v using assms(2) by (simp add: skills_hash_def)
  then show ?thesis using assms(1)
    by (simp add: parse_and_index_skills_def rebuild_bm25_stats_def bindA_def getA_def liftA_def updA_def whenA_def returnA_def
        case_prod_beta split: prod.split)
qed

text \<open>
  But the numbers of the tokens follow the order of a set, which the next process has in another order: there the
  query for one token carries the number under which the store has the other.
\<close>

lemma stale_sparse_index:
  "let se = demo_shop id (Inr []); se' = demo_shop rev (Inr []);
       s = snd (dynamic_tool_router se demo_start); s' = snd (dynamic_tool_router se' (new_router (ro_meta s) ()))
   in length (ro_upserts s) = 1 \<and> ro_upserts s' = [] \<and>
      fst (bm25_query_vector se' s' [''yy'']) = fst (bm25_query_vector se s [''xx''])"
  by code_simp

text \<open>An encoder that fails while the skills are indexed is no occasion for the fallback: the router is not made.\<close>

lemma failing_encoder_raises:
  "fst (dynamic_tool_router (demo_shop id (Inl OSError)) demo_start) = Inl OSError"
  by code_simp

end
