(* ===== verification/Spec2Isabelle.thy ===== *)
theory Spec2Isabelle
  imports Prelude PyJson PyRegex PyShlex PyLoads Paths Policy Contracts PlanOps PlanLint RunRegistry RunQueue
    Decisions ToolContracts FileOps ValidationCompiler AgentText Trace Verdict Loops WorkerText Worker WorkerLaws
    Dependencies UiSmoke Milestone Mission Harness ChatMode Briefs Summary FixVerifier Effects WorkspaceFiles Orchestrator
    Inspection Explore Review Ask Triage Hotfix Readers Office Focused Runtime RunLaws Runs
    Sandbox SandboxLaws SystemOps SystemLaws Servers ServerLaws ModelClient ModelClientLaws ToolRouter ToolRouterLaws
begin

text \<open>
  A verification library for the Missions harness.

  The program turns a user's request into a plan of milestones and lets model-driven agents carry it
  out in a workspace. \<open>src/api\<close> queues runs; the runtime (\<open>src/main.py\<close>) routes a run, plans, and gives
  each milestone to the worker (\<open>src/agents/worker.py\<close>), which edits files through tools
  (\<open>src/tools\<close>) under the command policy (\<open>src/sandbox\<close>); the validator (\<open>src/agents/validator.py\<close>)
  runs the contract compiled for the milestone and answers PASS, FAIL or REPLAN; a human may be asked
  for a decision.

  Which theory models what.

    \<^item> \<open>Prelude\<close>, \<open>PyJson\<close>, \<open>PyRegex\<close>, \<open>PyShlex\<close>, \<open>PyLoads\<close>: what the code uses of Python - errors
      as sums (\<open>'a res\<close>), strings, JSON values with ordered dictionaries, regular expressions,
      \<open>shlex\<close>, \<open>json.loads\<close> and \<open>json.dumps\<close>.
    \<^item> \<open>Paths\<close>: \<open>tools/paths.py\<close>; the workspace root, containment and secret names.
    \<^item> \<open>Policy\<close>: \<open>sandbox/policy.py\<close>; \<open>validate_shell_script\<close>, \<open>validate_argv\<close> and the description
      of the policy given to models.
    \<^item> \<open>Contracts\<close>: \<open>agents/contracts.py\<close> and the deterministic part of \<open>agents/escalation.py\<close>; one
      record and one normaliser per kind of agent answer.
    \<^item> \<open>PlanOps\<close>, \<open>PlanLint\<close>: \<open>agents/plan_ops.py\<close>, \<open>agents/plan_lint.py\<close> and
      \<open>validate_plan_payload\<close>; patches of a plan and the check of a plan.
    \<^item> \<open>RunRegistry\<close>, \<open>RunQueue\<close>: \<open>api/run_queue.py\<close>, \<open>api/run_cancellation.py\<close>; the registry in
      memory and on disk, and the queue with its one worker as an inductive step relation.
    \<^item> \<open>Decisions\<close>: \<open>decisions.py\<close> and \<open>api/routers/decisions.py\<close>.
    \<^item> \<open>ToolContracts\<close>, \<open>FileOps\<close>: \<open>tools/tool_contracts.py\<close>, \<open>tools/file_ops.py\<close>,
      \<open>tools/__init__.py\<close>; the check of a tool call, the four file tools on a file system with the
      write policy of a milestone, and the dispatcher.
    \<^item> \<open>ValidationCompiler\<close>: \<open>agents/validation_compiler.py\<close>, \<open>sandbox/commands.py\<close>.
    \<^item> \<open>AgentText\<close>: \<open>agents/utils.py\<close>, \<open>agents/tool_diagnostics.py\<close>; replies of models, conversations,
      signatures of failures, redaction.
    \<^item> \<open>Trace\<close>: code that emits events (\<open>events.py\<close>), as a result with the list of its events.
    \<^item> \<open>Verdict\<close>: \<open>agents/validator.py\<close>; \<open>run_validator\<close> over a record \<open>judge\<close> of what it calls.
    \<^item> \<open>Loops\<close>, \<open>WorkerText\<close>, \<open>Worker\<close>, \<open>WorkerLaws\<close>: \<open>agents/worker.py\<close>; \<open>worker_turn\<close> is one round
      of the loop of \<open>run_worker\<close> on the record \<open>wstate\<close>, over a record \<open>wenv\<close> of what it calls.
    \<^item> \<open>Dependencies\<close>: \<open>sandbox/dependency_check.py\<close>; the imports of target files.
    \<^item> \<open>UiSmoke\<close>: \<open>agents/ui_validation.py\<close>; the browser check of a UI milestone.
    \<^item> \<open>Milestone\<close>: \<open>_execute_milestone\<close> of \<open>main.py\<close>; \<open>milestone_turn\<close> is one attempt - worker,
      validator or fix verifier, commit, replan or retry - on the record \<open>mstate\<close>, over a record \<open>runtime\<close>
      of what it calls; \<open>retry_step\<close> is the abstract policy it refines.
    \<^item> \<open>Mission\<close>: the milestone loop of \<open>_run_mission_body\<close> with replans, circuit breakers and audit, over
      a record \<open>mission\<close>.
    \<^item> \<open>Harness\<close>: the runtime of \<open>Milestone\<close> with its attempts made by \<open>run_worker\<close> on the file tools and
      judged by \<open>run_validator\<close>; the properties that span these components.
    \<^item> \<open>ChatMode\<close>, \<open>Briefs\<close>, \<open>Summary\<close>: \<open>chat_mode.py\<close>, \<open>agents/briefs.py\<close> with \<open>agents/compact.py\<close>,
      \<open>agents/mission_summary.py\<close>; modes and approvals, the bounded conversation brief, the recap of a mission.
    \<^item> \<open>FixVerifier\<close>, \<open>Hotfix\<close>, \<open>Triage\<close>: \<open>agents/fix_verifier.py\<close>, \<open>agents/hotfix.py\<close>,
      \<open>agents/triage.py\<close> with the question of \<open>agents/escalation.py\<close>.
    \<^item> \<open>Effects\<close>: code that reads and changes a state and may raise, as \<open>('s, 'a) act\<close> with \<open>bindA\<close>,
      \<open>caught\<close> and the rules of its combinators.
    \<^item> \<open>WorkspaceFiles\<close>, \<open>Orchestrator\<close>, \<open>Explore\<close>: \<open>agents/orchestrator.py\<close> and
      \<open>agents/orchestrator_explore.py\<close> on the record \<open>desk\<close> (plan file, archived plans, events, world), over
      a record \<open>planner\<close> of what they call.
    \<^item> \<open>Inspection\<close>, \<open>Review\<close>, \<open>Ask\<close>, \<open>Readers\<close>: \<open>agents/code_review.py\<close>, \<open>agents/ask.py\<close>; loops of calls to
      reading tools on a record \<open>visit\<close>, over a record \<open>viewer\<close>; \<open>Readers\<close> puts them on the file tools.
    \<^item> \<open>Office\<close>, \<open>Focused\<close>, \<open>Runtime\<close>: a run of \<open>MissionsRuntime\<close> of \<open>main.py\<close>. The record \<open>office\<close> extends
      the desk by what a run changes - mode, route, status of the session, pending decision, briefs,
      artifacts, the executed milestones, whether the tools are bound - and the record \<open>bureau\<close> holds what
      a run calls. \<open>Office\<close> has artifacts, status, \<open>_finish_focused_result\<close> and \<open>_pause_for_decision\<close>;
      \<open>Focused\<close> the hotfix, review and packet runs with verification and escalation; \<open>Runtime\<close> the ask, plan
      and build modes, the choice of a route, the lint of a plan, the mission and \<open>run\<close> with its \<open>finally\<close>.
    \<^item> \<open>RunLaws\<close>, \<open>Runs\<close>: what each step of a run keeps and ends in; the properties of a run.
    \<^item> \<open>Sandbox\<close>, \<open>SandboxLaws\<close>: \<open>sandbox/context.py\<close>, \<open>sandbox/env.py\<close>, \<open>sandbox/executor.py\<close>. The record
      \<open>cell\<close> has the active sandbox, the backend of the executor and every process started so far, the record
      \<open>host\<close> what the operating system and the settings answer; \<open>run_argv\<close> and \<open>run_shell\<close> are the entry points.
    \<^item> \<open>SystemOps\<close>, \<open>SystemLaws\<close>: \<open>tools/system_ops.py\<close>, \<open>tools/git_ops.py\<close>; tests, linter, packages, search,
      shell and git through the executor, and the filter of diffs.
    \<^item> \<open>Servers\<close>, \<open>ServerLaws\<close>: \<open>sandbox/process_manager.py\<close>, \<open>serve_app\<close> of \<open>tools/ui.py\<close> and the end of a
      session; the record \<open>rack\<close> adds to the cell the registry of servers and the processes started for them, the
      record \<open>procs\<close> is what is done with processes. \<open>serving\<close> are the states every sequence of calls reaches.
    \<^item> \<open>ModelClient\<close>, \<open>ModelClientLaws\<close>: \<open>llm_client.py\<close>, \<open>agents/llm_stream_events.py\<close>, \<open>session_usage.py\<close> and the
      provider settings of \<open>settings/schema.py\<close>; \<open>call_llm\<close> on the record \<open>line\<close> - learned request profiles,
      requests with their fate, events of the stream, session file - over a record \<open>wire\<close> of what providers
      answer. \<open>talking\<close> are the states every sequence of calls reaches.
    \<^item> \<open>ToolRouter\<close>, \<open>ToolRouterLaws\<close>: \<open>tool_registry.py\<close>; the index of skills and the search for tools, on the
      record \<open>router\<close> over a record \<open>shop\<close> of settings, encoder and store.

  What the lemmas show. For the queue: the invariant of reachable states (one run at a time, memory
  and disk agree), finality of finished and cancelled runs, and that the worker drains the queue. For
  plans: patches keep completed milestones and unique identifiers, a clean lint means topological
  order. For normalised answers: well-formedness and round trips. For the policy: what an allowed script
  consists of, monotonicity in the mode, and its gaps. For the file tools: the write jail over every
  sequence of calls, carried to every run of the worker. For the validator: why a PASS was given, that a
  REPLAN can be acted on. For the worker: the bound on calls, the circuit breaker, the checks behind a
  completion, and the replies on which it never returns. For a milestone: that it ends and how its verdict
  comes about, that only its target files change and that a commit has been validated. For a mission: when
  it returns, when it does not, and what \<open>completed\<close> means. For dependencies and browser checks: that
  the report is exact, that servers are stopped. For the brief: its budget. For the orchestrator: that a plan
  it returns is saved and valid, that patches keep completed milestones. For Ask: the bound on its calls and
  what they keep. For a run: that a completed fix was verified, that a decision it waits for can be
  answered, that ask mode changes nothing and plan mode executes nothing, that the tools are released, and
  how a failed run is left behind. For the sandbox: that only what the policy admits is started, that a
  required jail holds and what lets a command out of one that is not, that no secret is in an environment, and
  that the arguments of bubblewrap mean the jail they should. For the tools of the system: that the filter of diffs
  leaves out the secret sections and no others, that a read-only workspace is under the review policy. For
  servers: the bound on their number, and that none outlives its session. For calls of models: whom they ask,
  in which order and how often, that a refused parameter is never sent again, that requests are well formed, and
  that the stream adds up to the answer. For the search for tools: that it does not fail and shows the best.

  Locales. \<open>RunRegistry\<close> and \<open>RunQueue\<close> state the store and the queue, \<open>FileOps\<close> tools behind a
  jail, \<open>Loops\<close> turns with an invariant and turns that make progress, \<open>Worker\<close> a world every operation
  keeps a relation of, \<open>Milestone\<close> a log only commits change, \<open>Harness\<close> a relation every attempt keeps, \<open>Effects\<close> a relation (\<open>frame\<close>) every combinator keeps,
  \<open>Orchestrator\<close> a planner whose reads leave the desk alone (\<open>planning\<close>), \<open>Inspection\<close> a world that calls
  keep a relation of (\<open>inspecting\<close>), \<open>SandboxLaws\<close> processes that all satisfy a condition (\<open>hosting\<close>),
  \<open>ServerLaws\<close> an invariant of the registry (\<open>guarding\<close>), \<open>ModelClientLaws\<close> an invariant of the requests with
  the condition of the next attempt (\<open>dialing\<close>); each is interpreted on the definitions of its component or of the harness.

  Bounds. \<open>json_loads\<close> recurses under fuel of the length of its text, which is enough
  (\<open>json_loads_fuel\<close>); regular expressions match under fuel of the length of the text; \<open>walk\<close> descends at
  most the depth asked for. \<open>run_loop\<close> runs the worker, a milestone and a mission: four rounds are enough
  for a milestone (\<open>milestone_follows_policy\<close>), a mission has the bound of \<open>mission_returns\<close> under its
  condition, and for the worker no bound is enough (\<open>worker_spins\<close>); its statements hold for every bound. An
  inspection runs without bound as well (\<open>inspections_spin\<close>); inside a run its user waits
  \<open>bu_patience\<close> replies and then cancels, and the statements about runs hold for every patience.

  Parameters. \<open>Path.resolve\<close>, the operating system's error texts, clocks and fresh identifiers, models,
  processes, files outside the workspace, browsers, sha1, floating-point notation and the JSON repair package are arguments.

  Not modelled. The network itself, the texts of prompts loaded from \<open>config\<close>, telemetry, evaluation and
  data-set scripts, the HTTP layer apart from decisions and runs, the storage of settings, the list of
  sessions, the detection of toolchains, the inspection of pages, the memory store, and of
  \<open>main.py\<close> the command line, the printing and the set-up of memory and sandbox. These are processes,
  files, networks and displays around the logic above. Unicode outside ASCII is written with ASCII
  characters.
\<close>

end
